(* ===== verification/Prelude.thy ===== *)
theory Prelude
  imports Main "HOL-Library.Word"
begin

text \<open>
  Shared vocabulary of the development: the machine integers of the C++ code, its return
  codes, and the generic facts on words, lists and association lists that the component
  theories share.  Return codes stay the integers of the source: 0 is success, the positive
  codes are the documented soft outcomes and -1 is failure.
\<close>

section \<open>Machine integers\<close>

type_synonym u8 = "8 word"
type_synonym u32 = "32 word"
type_synonym u64 = "64 word"

named_theorems model_simps \<open>definitions of the model that proofs unfold\<close>

lemma u64_plus_minus [simp]: "(a :: u64) + b - b = a"
  by simp

lemma unat_minus_le: "(b :: 'a::len word) \<le> a \<Longrightarrow> unat (a - b) = unat a - unat b"
  by (simp add: unat_sub)

lemma unat_plus_if_lt: "unat (a :: 'a::len word) + unat b < 2 ^ LENGTH('a) \<Longrightarrow> unat (a + b) = unat a + unat b"
  by (simp add: unat_add_lem)

lemma unat_less_2p64: "unat (a :: u64) < 18446744073709551616"
  using unsigned_less [of a, where ?'a = nat] by simp

text \<open>Two parts taken one after the other from a requested amount never wrap around.\<close>

lemma split_no_wrap:
  fixes x y q :: u64
  assumes "x \<le> q" and "y \<le> q - x"
  shows "unat (x + y) = unat x + unat y" and "unat x + unat y \<le> unat q"
proof -
  from assms(1) have d: "unat (q - x) = unat q - unat x" by (rule unat_minus_le)
  from assms(2) have "unat y \<le> unat (q - x)" by (simp add: word_le_nat_alt)
  with d have le: "unat x + unat y \<le> unat q"
    using assms(1) by (simp add: word_le_nat_alt)
  then show "unat x + unat y \<le> unat q" .
  have "unat x + unat y < 2 ^ LENGTH(64)"
    using le unat_less_2p64 [of q] by simp
  then show "unat (x + y) = unat x + unat y" by (rule unat_plus_if_lt)
qed

section \<open>Lists\<close>

lemma length_one_conv: "length xs = Suc 0 \<longleftrightarrow> (\<exists>x. xs = [x])"
  by (auto simp: length_Suc_conv)

lemma sorted_wrt_take_drop:
  "sorted_wrt P xs \<Longrightarrow> x \<in> set (take k xs) \<Longrightarrow> y \<in> set (drop k xs) \<Longrightarrow> P x y"
  by (metis append_take_drop_id sorted_wrt_append)

section \<open>Keyed stores\<close>

text \<open>
  A table that is read and written by key: what a lookup gives after a store, and the frame of an
  operation that works on one key.  \<open>same_off look k s s'\<close> says that two tables agree off \<open>k\<close>.
\<close>

definition same_off :: "('s \<Rightarrow> 'k \<Rightarrow> 'v option) \<Rightarrow> 'k \<Rightarrow> 's \<Rightarrow> 's \<Rightarrow> bool" where
  "same_off look k s s' \<longleftrightarrow> (\<forall>k'. k' \<noteq> k \<longrightarrow> look s' k' = look s k')"

lemma same_off_refl [simp, intro]: "same_off look k s s"
  by (simp add: same_off_def)

lemma same_off_trans [trans]: "same_off look k s s' \<Longrightarrow> same_off look k s' s'' \<Longrightarrow> same_off look k s s''"
  by (simp add: same_off_def)

lemma same_offD: "same_off look k s s' \<Longrightarrow> k' \<noteq> k \<Longrightarrow> look s' k' = look s k'"
  by (simp add: same_off_def)

locale keyed_store =
  fixes look :: "'s \<Rightarrow> 'k \<Rightarrow> 'v option" and put :: "'k \<Rightarrow> 'v \<Rightarrow> 's \<Rightarrow> 's"
  assumes look_put: "look (put k v s) k' = (if k' = k then Some v else look s k')"
begin

lemma look_put_same: "look (put k v s) k = Some v"
  by (simp add: look_put)

lemma same_off_put: "same_off look k s (put k v s)"
  by (simp add: same_off_def look_put)

lemma same_off_put_trans: "same_off look k s s' \<Longrightarrow> same_off look k s (put k v s')"
  using same_off_put same_off_trans by metis

lemma look_put_put: "look (put k v' (put k v s)) = look (put k v' s)"
  by (auto simp: look_put fun_eq_iff)

end

section \<open>Ordered maps\<close>

text \<open>
  \<open>std::map\<close> where the code iterates over it: its entries in ascending key order.  Writing a key
  keeps the order, so an iterator from \<open>begin()\<close> walks the list from its head.
\<close>

type_synonym ('k, 'v) omap = "('k \<times> 'v) list"

fun omap_put :: "'k::linorder \<Rightarrow> 'v \<Rightarrow> ('k, 'v) omap \<Rightarrow> ('k, 'v) omap" where
  "omap_put k v [] = [(k, v)]"
| "omap_put k v ((k', v') # m) =
     (if k < k' then (k, v) # (k', v') # m
      else if k = k' then (k, v) # m
      else (k', v') # omap_put k v m)"

definition omap_wf :: "('k::linorder, 'v) omap \<Rightarrow> bool" where
  "omap_wf m \<longleftrightarrow> sorted_wrt (<) (map fst m)"

lemma set_keys_omap_put [simp]: "fst ` set (omap_put k v m) = insert k (fst ` set m)"
  by (induction k v m rule: omap_put.induct) auto

lemma omap_wf_Nil [simp]: "omap_wf []"
  by (simp add: omap_wf_def)

lemma omap_wf_put [intro]: "omap_wf m \<Longrightarrow> omap_wf (omap_put k v m)"
proof (induction k v m rule: omap_put.induct)
  case (2 k v k' v' m)
  have "\<forall>a\<in>fst ` set (omap_put k v m). k' < a" if "k' < k"
    using that 2(2) by (auto simp: omap_wf_def)
  then show ?case using 2 by (auto simp: omap_wf_def)
qed (simp add: omap_wf_def)

lemma map_of_omap_put [simp]:
  "map_of (omap_put k v m) k' = (if k' = k then Some v else map_of m k')"
  by (induction k v m rule: omap_put.induct) auto

lemma omap_wf_distinct: "omap_wf m \<Longrightarrow> distinct (map fst m)"
  by (simp add: omap_wf_def strict_sorted_iff)

interpretation omap: keyed_store map_of omap_put
  by unfold_locales simp

lemma set_omap_put:
  "omap_wf m \<Longrightarrow> set (omap_put k v m) = insert (k, v) {e \<in> set m. fst e \<noteq> k}"
proof (induction k v m rule: omap_put.induct)
  case (2 k v k' v' m)
  have "k' < a" if "(a, b) \<in> set m" for a b
    using that 2(2) by (force simp: omap_wf_def)
  then have "(k, b) \<notin> set m" if "k \<le> k'" for b using that by fastforce
  then show ?case using 2 by (auto simp: omap_wf_def)
qed simp

text \<open>Measuring a map by a sum over its values.\<close>

lemma sum_omap_put:
  fixes f :: "'v \<Rightarrow> 'b::comm_monoid_add"
  assumes "omap_wf m"
  shows "(\<Sum>e\<leftarrow>omap_put k v m. f (snd e)) + (case map_of m k of None \<Rightarrow> 0 | Some v' \<Rightarrow> f v') =
         (\<Sum>e\<leftarrow>m. f (snd e)) + f v"
  using assms
proof (induction k v m rule: omap_put.induct)
  case (2 k v k' v' m)
  have "k \<noteq> a" if "k < k'" "(a, b) \<in> set m" for a b
    using that 2(2) by (force simp: omap_wf_def)
  then have "k < k' \<Longrightarrow> map_of m k = None" by (force simp: map_of_eq_None_iff)
  then show ?case using 2 by (auto simp: omap_wf_def ac_simps)
qed simp

end
