(* ===== verification/FixMessage.thy ===== *)
theory FixMessage
  imports Prelude
begin

text \<open>
  Messages of the FIX protocol, as the gateway reads and writes them, and
  \<open>simutgw/stgw_fix_acceptor/StgwFixUtil.cpp\<close>.  A message of the FIX library is three maps of fields
  (header, body, trailer), each with its repeating groups; reading a field that is not set throws,
  which is \<open>None\<close> here.  The numbers of the fields, and which of them belong to the header and the
  trailer, are the library's (\<open>fix_lib\<close>); \<open>fix_lib_ok\<close> states what the gateway relies on.  Also the fields of an order that only the FIX interface uses (\<open>StepFields\<close>).
\<close>

section \<open>Messages\<close>

datatype FieldMap = FieldMap (fm_fields: "(int, string) omap") (fm_groups: "(int, FieldMap list) omap")

record FixMessage =
  fix_header :: FieldMap
  fix_body :: FieldMap
  fix_trailer :: FieldMap
  fix_BeginString :: string
  fix_SessionID :: string

abbreviation FieldMap_new :: FieldMap where
  "FieldMap_new \<equiv> FieldMap [] []"

definition FixMessage_new :: FixMessage where
  "FixMessage_new = \<lparr>fix_header = FieldMap_new, fix_body = FieldMap_new, fix_trailer = FieldMap_new,
     fix_BeginString = [], fix_SessionID = []\<rparr>"

definition getField :: "FieldMap \<Rightarrow> int \<Rightarrow> string option" where
  "getField m tag = map_of (fm_fields m) tag"

definition setField :: "int \<Rightarrow> string \<Rightarrow> FieldMap \<Rightarrow> FieldMap" where
  "setField tag v m = FieldMap (omap_put tag v (fm_fields m)) (fm_groups m)"

definition getGroups :: "FieldMap \<Rightarrow> int \<Rightarrow> FieldMap list" where
  "getGroups m tag = (case map_of (fm_groups m) tag of None \<Rightarrow> [] | Some gs \<Rightarrow> gs)"

definition addGroup :: "int \<Rightarrow> FieldMap \<Rightarrow> FieldMap \<Rightarrow> FieldMap" where
  "addGroup tag g m =
     FieldMap (fm_fields m) (omap_put tag (getGroups m tag @ [g]) (fm_groups m))"

lemma getField_setField [simp]:
  "getField (setField tag v m) tag' = (if tag' = tag then Some v else getField m tag')"
  by (simp add: getField_def setField_def)

interpretation fields: keyed_store getField setField
  by unfold_locales simp

lemma getGroups_addGroup [simp]:
  "getGroups (addGroup tag g m) tag' = (if tag' = tag then getGroups m tag @ [g] else getGroups m tag')"
  by (simp add: getGroups_def addGroup_def)

lemma getField_addGroup [simp]: "getField (addGroup tag g m) = getField m"
  by (simp add: getField_def addGroup_def fun_eq_iff)

lemma getGroups_setField [simp]: "getGroups (setField tag v m) = getGroups m"
  by (simp add: getGroups_def setField_def fun_eq_iff)

section \<open>Fields by name\<close>

text \<open>The constants of \<open>FIX::FIELD\<close> by their names.\<close>

type_synonym FIELD = string

record fix_lib =
  fld :: "FIELD \<Rightarrow> int"
  isHeaderField :: "int \<Rightarrow> bool"
  isTrailerField :: "int \<Rightarrow> bool"

definition is_header_FIELD :: "FIELD \<Rightarrow> bool" where
  "is_header_FIELD f \<longleftrightarrow> f \<in> {''BeginString'', ''BodyLength'', ''MsgType'', ''SenderCompID'', ''TargetCompID'',
     ''MsgSeqNum'', ''SendingTime'', ''PossDupFlag'', ''OrigSendingTime''}"

definition fix_lib_ok :: "fix_lib \<Rightarrow> bool" where
  "fix_lib_ok lib \<longleftrightarrow> inj (fld lib) \<and>
     (\<forall>f. isHeaderField lib (fld lib f) = is_header_FIELD f) \<and>
     (\<forall>f. isTrailerField lib (fld lib f) = (f = ''CheckSum''))"

text \<open>A library that satisfies this: the numbers are the names read to base 257.\<close>

fun name_number :: "string \<Rightarrow> nat" where
  "name_number [] = 0"
| "name_number (c # cs) = of_char c + 1 + 257 * name_number cs"

lemma digit_unique:
  fixes a b m n :: nat
  assumes "a < 256" "b < 256" "a + 1 + 257 * m = b + 1 + 257 * n"
  shows "a = b \<and> m = n"
proof -
  have "(a + 1 + 257 * m) mod 257 = a + 1" "(b + 1 + 257 * n) mod 257 = b + 1" using assms(1,2) by simp_all
  then have "a + 1 = b + 1" unfolding assms(3) by (simp only:)
  then have "a = b" by simp
  then show ?thesis using assms(3) by simp
qed

lemma name_number_eq: "name_number s = name_number t \<longleftrightarrow> s = t"
proof (induction s arbitrary: t)
  case Nil
  then show ?case by (cases t) auto
next
  case (Cons c s)
  show ?case
  proof (cases t)
    case (Cons d t')
    have "of_char c + 1 + 257 * name_number s = of_char d + 1 + 257 * name_number t' \<longleftrightarrow>
        (of_char c :: nat) = of_char d \<and> name_number s = name_number t'"
      by (rule iffI, rule digit_unique [OF nat_of_char_less_256 nat_of_char_less_256], assumption, simp only:)
    then show ?thesis unfolding Cons name_number.simps using Cons.IH [of t'] by (simp only: of_char_eq_iff list.inject)
  qed simp
qed

definition sample_fix_lib :: fix_lib where
  "sample_fix_lib = \<lparr>fld = (\<lambda>f. int (name_number f)),
     isHeaderField = (\<lambda>i. i \<in> (\<lambda>f. int (name_number f)) ` {''BeginString'', ''BodyLength'', ''MsgType'',
       ''SenderCompID'', ''TargetCompID'', ''MsgSeqNum'', ''SendingTime'', ''PossDupFlag'', ''OrigSendingTime''}),
     isTrailerField = (\<lambda>i. i = int (name_number ''CheckSum''))\<rparr>"

lemma sample_fix_lib_ok: "fix_lib_ok sample_fix_lib"
proof -
  have "int (name_number f) \<in> (\<lambda>f. int (name_number f)) ` A \<longleftrightarrow> f \<in> A" for f A
    by (auto simp: name_number_eq)
  then show ?thesis
    unfolding fix_lib_ok_def sample_fix_lib_def is_header_FIELD_def
    by (simp only: fix_lib.simps inj_def of_nat_eq_iff name_number_eq simp_thms)
qed

lemma fld_eq [simp]: "fix_lib_ok lib \<Longrightarrow> fld lib f = fld lib g \<longleftrightarrow> f = g"
  by (simp add: fix_lib_ok_def inj_eq)

lemma fld_header: "fix_lib_ok lib \<Longrightarrow> isHeaderField lib (fld lib f) = is_header_FIELD f"
  "fix_lib_ok lib \<Longrightarrow> isTrailerField lib (fld lib f) = (f = ''CheckSum'')"
  by (simp_all add: fix_lib_ok_def)

section \<open>Utilities\<close>

definition isSetField :: "FieldMap \<Rightarrow> int \<Rightarrow> bool" where
  "isSetField m tag \<longleftrightarrow> getField m tag \<noteq> None"

text \<open>\<open>if (m.isSetField(f)) x = m.getField(f);\<close>\<close>

definition field_or :: "fix_lib \<Rightarrow> FieldMap \<Rightarrow> FIELD \<Rightarrow> string \<Rightarrow> string" where
  "field_or lib m f x = (case getField m (fld lib f) of None \<Rightarrow> x | Some v \<Rightarrow> v)"

definition GetStringField :: "fix_lib \<Rightarrow> FixMessage \<Rightarrow> int \<Rightarrow> string option" where
  "GetStringField lib message field =
     (if isHeaderField lib field then getField (fix_header message) field
      else if isTrailerField lib field then getField (fix_trailer message) field
      else getField (fix_body message) field)"

definition SetField :: "fix_lib \<Rightarrow> int \<Rightarrow> string \<Rightarrow> FixMessage \<Rightarrow> FixMessage" where
  "SetField lib field v m =
     (if isHeaderField lib field then m\<lparr>fix_header := setField field v (fix_header m)\<rparr>
      else if isTrailerField lib field then m\<lparr>fix_trailer := setField field v (fix_trailer m)\<rparr>
      else m\<lparr>fix_body := setField field v (fix_body m)\<rparr>)"

lemma GetStringField_SetField [simp]:
  "GetStringField lib (SetField lib f v m) g = (if g = f then Some v else GetStringField lib m g)"
  by (simp add: GetStringField_def SetField_def)

interpretation message_fields: keyed_store "GetStringField lib" "SetField lib" for lib
  by unfold_locales simp

text \<open>
  \<open>GetNopartyIds\<close>: seat, account and branch are taken from the groups whose source and role name
  them; the later group wins.  The result is -1, and nothing is read, when there is no group.
\<close>

type_synonym parties = "string \<times> string \<times> string"

definition read_party :: "fix_lib \<Rightarrow> FieldMap \<Rightarrow> parties \<Rightarrow> parties" where
  "read_party lib grp = (\<lambda>(seat, account, branch).
     if grp = FieldMap_new then (seat, account, branch)
     else
       let strPartyidsource = field_or lib grp ''PartyIDSource'' [];
           strPartyRole = field_or lib grp ''PartyRole'' [];
           strPartyid = field_or lib grp ''PartyID'' [] in
       if strPartyidsource = ''5'' \<and> strPartyRole = ''5'' then (seat, strPartyid, branch)
       else if strPartyidsource = ''C'' \<and> strPartyRole = ''1'' then (strPartyid, account, branch)
       else if strPartyidsource = ''D'' \<and> strPartyRole = ''4001'' then (seat, account, strPartyid)
       else (seat, account, branch))"

definition GetNopartyIds :: "fix_lib \<Rightarrow> FieldMap \<Rightarrow> parties \<Rightarrow> int \<times> parties" where
  "GetNopartyIds lib message out =
     (let groups = getGroups message (fld lib ''NoPartyIDs'') in
      if groups = [] then (-1, out)
      else (0, fold (read_party lib) groups out))"

section \<open>The fields of an order that only the FIX interface uses\<close>

record StepFields =
  strSecurity_seat :: string
  strBeginString :: string
  strOwnerType :: string
  strSecurityIDSource :: string
  strStoppx :: string
  strPositionEffect :: string
  strCoveredOrUncovered :: string
  strConfirmID :: string
  strOper_time :: string
  strBodyLength :: string
  strCheckSum :: string
  strMsgSeqNum :: string
  strPossDupFlag :: string
  strSendingTime :: string
  strText :: string
  strTransactTime :: string
  strOrigSendingTime :: string
  strOrderRestrictions :: string
  strOrdrejReason :: string
  strRejectText :: string

definition StepFields_new :: StepFields where
  "StepFields_new = \<lparr>strSecurity_seat = [], strBeginString = [], strOwnerType = [], strSecurityIDSource = [],
     strStoppx = [], strPositionEffect = [], strCoveredOrUncovered = [], strConfirmID = [], strOper_time = [],
     strBodyLength = [], strCheckSum = [], strMsgSeqNum = [], strPossDupFlag = [], strSendingTime = [],
     strText = [], strTransactTime = [], strOrigSendingTime = [], strOrderRestrictions = [],
     strOrdrejReason = [], strRejectText = []\<rparr>"

end
