(* ===== verification/OrderMsg.thy ===== *)
theory OrderMsg
  imports FixMessage
begin

text \<open>
  The enumerations of \<open>simutgw_config/config_define.h\<close>, the constants of \<open>config/conf_msg.h\<close>, and
  the order message of \<open>order/define_order_msg.h\<close> with the fields that the modelled components
  read or write.  The fields that only the FIX interface uses are one record of their own
  (\<open>FixMessage\<close>); shared pointers to rules are addresses; the JSON object of a Shanghai order is the
  list of its members, all of them strings.  Also \<open>order/StockHelper.cpp\<close>, which classifies
  security codes.
\<close>

section \<open>Enumerations and constants\<close>

datatype SysRunMode = PressureMode | MiniMode | NormalMode

datatype SysMatchMode =
  EnAbleQuta | SimulMatchAll | SimulMatchByDivide | SimulNotMatch | SimulErrMatch | SimulMatchPart

datatype QuotationType = AveragePrice | SellBuyPrice | RecentMatchPrice

datatype MatchType = MatchAll | MatchPart | CancelMatch | NotMatch | OutOfRange | StopTrans | ErrorMatch

text \<open>Other values of the declaration type, which the configuration may hold, are \<open>deltype_unknown\<close>.\<close>

datatype DECLARATION_TYPE =
  deltype_ordinary_limit | deltype_the_side_optimal | deltype_the_oppsite_side_optimaland_remainder_hold
  | deltype_match_at_market_and_remainder_cancel | deltype_all_match_at_market_or_cancel
  | deltype_match_at_market_in_five_and_remainder_cancel
  | deltype_match_at_market_in_five_and_remainder_hold | deltype_unknown int

datatype ORDER_TYPE = ordtype_buy | ordtype_sell | ordtype_error | ordtype_cancel

text \<open>\<open>iTrade_type\<close> is an \<open>int\<close> field compared with the enumerators of \<open>TADE_TYPE\<close>.\<close>

definition TADE_TYPE_error :: int where "TADE_TYPE_error = -1"
definition TADE_TYPE_cancel :: int where "TADE_TYPE_cancel = 0"
definition a_trade :: int where "a_trade = 1"
definition b_trade :: int where "b_trade = 2"
definition margin_cash :: int where "margin_cash = 3"
definition margin_stock :: int where "margin_stock = 4"
definition etf_buy :: int where "etf_buy = 5"
definition etf_sell :: int where "etf_sell = 6"
definition etf_crt :: int where "etf_crt = 7"
definition etf_rdp :: int where "etf_rdp = 8"

lemmas TADE_TYPE_defs = TADE_TYPE_error_def TADE_TYPE_cancel_def a_trade_def b_trade_def
  margin_cash_def margin_stock_def etf_buy_def etf_sell_def etf_crt_def etf_rdp_def

definition STEPMSG_SIDE_BUY_B :: string where "STEPMSG_SIDE_BUY_B = ''B''"
definition STEPMSG_SIDE_BUY_1 :: string where "STEPMSG_SIDE_BUY_1 = ''1''"
definition STEPMSG_SIDE_SELL_S :: string where "STEPMSG_SIDE_SELL_S = ''S''"
definition STEPMSG_SIDE_SELL_2 :: string where "STEPMSG_SIDE_SELL_2 = ''2''"
definition STEPMSG_EXECTYPE_NEW :: string where "STEPMSG_EXECTYPE_NEW = ''0''"
definition STEPMSG_ORDSTATUS_NEW :: string where "STEPMSG_ORDSTATUS_NEW = ''0''"
definition STEPMSG_MSGTYPE_NEW_ORDER :: string where "STEPMSG_MSGTYPE_NEW_ORDER = ''D''"
definition STEPMSG_MSGTYPE_ORDER_CACEL :: string where "STEPMSG_MSGTYPE_ORDER_CACEL = ''F''"
definition STEPMSG_EXECTYPE_CANCEL :: string where "STEPMSG_EXECTYPE_CANCEL = ''4''"
definition STEPMSG_EXECTYPE_TRADE :: string where "STEPMSG_EXECTYPE_TRADE = ''F''"
definition STEPMSG_ORDSTATUS_PART_FILL :: string where "STEPMSG_ORDSTATUS_PART_FILL = ''1''"
definition STEPMSG_ORDSTATUS_FILL :: string where "STEPMSG_ORDSTATUS_FILL = ''2''"
definition STEPMSG_ORDSTATUS_CANCEL :: string where "STEPMSG_ORDSTATUS_CANCEL = ''4''"
definition STEPMSG_MSGTYPE_EXECREPORT :: string where "STEPMSG_MSGTYPE_EXECREPORT = ''8''"
definition STEPMSG_MSGTYPE_CANCELREJECT :: string where "STEPMSG_MSGTYPE_CANCELREJECT = ''9''"
definition TRADE_MARKET_SH :: string where "TRADE_MARKET_SH = ''101''"
definition TRADE_MARKET_SZ :: string where "TRADE_MARKET_SZ = ''102''"

lemmas conf_msg_defs = STEPMSG_SIDE_BUY_B_def STEPMSG_SIDE_BUY_1_def STEPMSG_SIDE_SELL_S_def
  STEPMSG_SIDE_SELL_2_def TRADE_MARKET_SH_def TRADE_MARKET_SZ_def

section \<open>Order message\<close>

record TradePolicyCell =
  iRunMode :: SysRunMode
  bCheck_Assets :: bool
  iMatchMode :: SysMatchMode
  iQuotationMatchType :: QuotationType
  iPart_Match_Num :: u32
  strSettleGroupName :: string
  mapLinkRules :: "(u64, u64) omap"
  ui64RuleId :: u64
  ptrRule_Sh :: "nat option"
  ptrRule_Sz :: "nat option"

record SellCps =
  scps_ui64Etf_rdp :: u64
  scps_ui64Avl :: u64

record SellETFCps =
  secps_ui64Etf_crt :: u64
  secps_ui64Avl :: u64

record RdpETFCps =
  rcps_ui64Act_pch :: u64
  rcps_ui64Avl :: u64

record EtfCrt_FrozeComponent =
  fc_strSecurityID :: string
  fc_ui64act_pch_count :: u64
  fc_ui64avl_count :: u64
  fc_ui64Cash :: u64
  fc_ui64rdp_count :: u64

definition EtfCrt_FrozeComponent_default :: EtfCrt_FrozeComponent where
  "EtfCrt_FrozeComponent_default =
     \<lparr>fc_strSecurityID = [], fc_ui64act_pch_count = 0, fc_ui64avl_count = 0,
      fc_ui64Cash = 0, fc_ui64rdp_count = 0\<rparr>"

text \<open>The assignment operator copies the four amounts and not the security code.\<close>

definition EtfCrt_FrozeComponent_assign ::
  "EtfCrt_FrozeComponent \<Rightarrow> EtfCrt_FrozeComponent \<Rightarrow> EtfCrt_FrozeComponent" where
  "EtfCrt_FrozeComponent_assign dst orig =
     dst\<lparr>fc_ui64act_pch_count := fc_ui64act_pch_count orig,
         fc_ui64avl_count := fc_ui64avl_count orig,
         fc_ui64Cash := fc_ui64Cash orig,
         fc_ui64rdp_count := fc_ui64rdp_count orig\<rparr>"

definition EtfCrt_FrozeComponent_copy :: "EtfCrt_FrozeComponent \<Rightarrow> EtfCrt_FrozeComponent" where
  "EtfCrt_FrozeComponent_copy orig =
     \<lparr>fc_strSecurityID = [], fc_ui64act_pch_count = fc_ui64act_pch_count orig,
      fc_ui64avl_count = fc_ui64avl_count orig, fc_ui64Cash = fc_ui64Cash orig,
      fc_ui64rdp_count = fc_ui64rdp_count orig\<rparr>"

definition TradePolicyCell_new :: TradePolicyCell where
  "TradePolicyCell_new = \<lparr>iRunMode = NormalMode, bCheck_Assets = False, iMatchMode = EnAbleQuta,
     iQuotationMatchType = AveragePrice, iPart_Match_Num = 2, strSettleGroupName = [],
     mapLinkRules = [], ui64RuleId = 0, ptrRule_Sh = None, ptrRule_Sz = None\<rparr>"

record OrderMessage =
  bDataError :: bool
  iSide :: int
  tRcvTime :: int
  enDelType :: DECLARATION_TYPE
  enMatchType :: MatchType
  ui64Orderqty_origin :: u64
  ui64LeavesQty :: u64
  ui64mOrderPrice :: u64
  ui64MinQty :: u64
  sellCps :: SellCps
  sellETFCps :: SellETFCps
  rdpETFCps :: RdpETFCps
  vecFrozeComponent :: "EtfCrt_FrozeComponent list"
  ui64Orderqty_matched :: u64
  ui64mPrice_matched :: u64
  ui64mCashorderqty_matched :: u64
  ui64Orderqty_unmatched :: u64
  ui64mCashorderqty_unmatched :: u64
  strTrade_market :: string
  iTrade_type :: int
  strSessionId :: string
  strAccountId :: string
  strTrade_group :: string
  strClordid :: string
  strOrderqty_origin :: string
  strOrderPrice :: string
  strCashorderqty :: string
  strMsgType :: string
  strSenderCompID :: string
  strTargetCompID :: string
  strApplID :: string
  strExecID :: string
  strOrderID :: string
  strExecType :: string
  strOrdStatus :: string
  strLeavesQty :: string
  strCumQty :: string
  strSide :: string
  strStockID :: string
  strMarket :: string
  strTimeInForce :: string
  strOrdType :: string
  strOrigClordid :: string
  strMaxPriceLevels :: string
  strMinQty :: string
  strCashMargin :: string
  strMarket_branchid :: string
  strTrade_time :: string
  strIsProc :: string
  strErrorCode :: string
  strError :: string
  strCxlRejReason :: string
  strLastPx :: string
  strLastQty :: string
  tradePolicy :: TradePolicyCell
  stepFields :: StepFields
  jsOrder :: "(string \<times> string) list"
  szfixMsg :: FixMessage

definition OrderMessage_new :: OrderMessage where
  "OrderMessage_new =
     \<lparr>bDataError = False, iSide = 0, tRcvTime = 0, enDelType = deltype_all_match_at_market_or_cancel,
      enMatchType = NotMatch, ui64Orderqty_origin = 0, ui64LeavesQty = 0, ui64mOrderPrice = 0, ui64MinQty = 0,
      sellCps = \<lparr>scps_ui64Etf_rdp = 0, scps_ui64Avl = 0\<rparr>,
      sellETFCps = \<lparr>secps_ui64Etf_crt = 0, secps_ui64Avl = 0\<rparr>,
      rdpETFCps = \<lparr>rcps_ui64Act_pch = 0, rcps_ui64Avl = 0\<rparr>, vecFrozeComponent = [],
      ui64Orderqty_matched = 0, ui64mPrice_matched = 0, ui64mCashorderqty_matched = 0,
      ui64Orderqty_unmatched = 0, ui64mCashorderqty_unmatched = 0, strTrade_market = [],
      iTrade_type = TADE_TYPE_error, strSessionId = [], strAccountId = [], strTrade_group = [],
      strClordid = [], strOrderqty_origin = [], strOrderPrice = [], strCashorderqty = [],
      strMsgType = [], strSenderCompID = [], strTargetCompID = [], strApplID = [], strExecID = [],
      strOrderID = [], strExecType = [], strOrdStatus = [], strLeavesQty = [], strCumQty = [],
      strSide = [], strStockID = [], strMarket = [], strTimeInForce = [], strOrdType = [],
      strOrigClordid = [], strMaxPriceLevels = [], strMinQty = [], strCashMargin = [], strMarket_branchid = [],
      strTrade_time = [], strIsProc = [], strErrorCode = [], strError = [], strCxlRejReason = [],
      strLastPx = [], strLastQty = [], tradePolicy = TradePolicyCell_new, stepFields = StepFields_new, jsOrder = [],
      szfixMsg = FixMessage_new\<rparr>"

section \<open>Security codes\<close>

datatype StockType = Ordinary | Etf

text \<open>\<open>GetStockType\<close>: the out parameter is left unassigned (None) when the call returns -1.\<close>

definition GetStockType :: "string \<Rightarrow> int \<times> StockType option" where
  "GetStockType code =
     (if 6 \<noteq> length code then (-1, None)
      else let strHead = take 2 code in
        if strHead \<in> {''15'', ''16'', ''18'', ''50'', ''51''} then (0, Some Etf)
        else (0, Some Ordinary))"

definition GetStockTradeMarket :: "string \<Rightarrow> string" where
  "GetStockTradeMarket code =
     (if length code \<noteq> 6 then []
      else let strHead = take 3 code; strFundHead = take 2 code in
        if strHead = ''000'' \<or> strHead = ''001'' \<or> strHead = ''002'' \<or> strHead = ''300'' \<or>
           strFundHead = ''15'' \<or> strFundHead = ''16'' \<or> strFundHead = ''18'' \<or> strHead = ''200''
        then TRADE_MARKET_SZ
        else if strHead = ''600'' \<or> strHead = ''601'' \<or> strHead = ''603'' \<or>
           strFundHead = ''50'' \<or> strFundHead = ''51'' \<or> strHead = ''900''
        then TRADE_MARKET_SH
        else [])"

text \<open>
  The two classifications agree on ETFs: every six-digit code that \<open>GetStockType\<close> calls an
  ETF has a market, the Shenzhen one for heads 15, 16 and 18 and the Shanghai one for 50 and 51.
\<close>

theorem Etf_has_market:
  assumes "GetStockType code = (0, Some Etf)"
  shows "GetStockTradeMarket code =
           (if take 2 code \<in> {''15'', ''16'', ''18''} then TRADE_MARKET_SZ else TRADE_MARKET_SH)"
proof -
  from assms have len: "length code = 6"
    and hd2: "take 2 code \<in> {''15'', ''16'', ''18'', ''50'', ''51''}"
    by (auto simp: GetStockType_def Let_def split: if_splits)
  have t: "take 2 (take 3 code) = take 2 code" by simp
  have "take 3 code \<notin> {''000'', ''001'', ''002'', ''300'', ''200''}"
  proof
    assume "take 3 code \<in> {''000'', ''001'', ''002'', ''300'', ''200''}"
    then have "take 2 (take 3 code) \<in> take 2 ` {''000'', ''001'', ''002'', ''300'', ''200''}"
      by (rule imageI)
    then show False using hd2 unfolding t by auto
  qed
  with len hd2 show ?thesis by (auto simp: GetStockTradeMarket_def Let_def)
qed

lemma Etf_has_market_witness:
  "GetStockType ''159900'' = (0, Some Etf) \<and> GetStockTradeMarket ''159900'' = TRADE_MARKET_SZ"
proof -
  have h: "GetStockType ''159900'' = (0, Some Etf)" by (simp add: GetStockType_def)
  show ?thesis using Etf_has_market [OF h] h by simp
qed

end
