(* ===== verification/TradePolicyManage.thy ===== *)
theory TradePolicyManage
  imports OrderMsg
begin

text \<open>
  \<open>cache/TradePolicyManage.h\<close> and \<open>.cpp\<close>: the trading policy of a connection or of one seat of a
  connection.  The five values a policy consists of are passed as one tuple, in the order of the
  parameters of the code.  The policy of Shenzhen is kept per connection with an own policy for some
  of its seats, the policy of Shanghai per connection.  What a lookup gives after any sequence of
  settings is compared with a specification on the sequence itself.
\<close>

section \<open>Cells\<close>

type_synonym policy = "SysRunMode \<times> bool \<times> SysMatchMode \<times> QuotationType \<times> u32"

definition TradePolicyCell_Set :: "policy \<Rightarrow> TradePolicyCell \<Rightarrow> TradePolicyCell" where
  "TradePolicyCell_Set p c = (case p of (run, check, match_mode, quot, part) \<Rightarrow>
     c\<lparr>iRunMode := run, bCheck_Assets := check, iMatchMode := match_mode,
       iQuotationMatchType := quot, iPart_Match_Num := part\<rparr>)"

text \<open>The constructor from a policy leaves the rule number 0 and the other members empty.\<close>

definition TradePolicyCell_of :: "policy \<Rightarrow> TradePolicyCell" where
  "TradePolicyCell_of p = (case p of (run, check, match_mode, quot, part) \<Rightarrow>
     \<lparr>iRunMode = run, bCheck_Assets = check, iMatchMode = match_mode, iQuotationMatchType = quot,
      iPart_Match_Num = part, strSettleGroupName = [], mapLinkRules = [], ui64RuleId = 0,
      ptrRule_Sh = None, ptrRule_Sz = None\<rparr>)"

text \<open>The assignment operator copies every member but the rules the connection is linked to.\<close>

definition TradePolicyCell_copy :: "TradePolicyCell \<Rightarrow> TradePolicyCell \<Rightarrow> TradePolicyCell" where
  "TradePolicyCell_copy dst orig =
     dst\<lparr>iRunMode := iRunMode orig, bCheck_Assets := bCheck_Assets orig, iMatchMode := iMatchMode orig,
         iQuotationMatchType := iQuotationMatchType orig, iPart_Match_Num := iPart_Match_Num orig,
         strSettleGroupName := strSettleGroupName orig, ui64RuleId := ui64RuleId orig,
         ptrRule_Sh := ptrRule_Sh orig, ptrRule_Sz := ptrRule_Sz orig\<rparr>"

definition cell_policy :: "TradePolicyCell \<Rightarrow> policy" where
  "cell_policy c = (iRunMode c, bCheck_Assets c, iMatchMode c, iQuotationMatchType c, iPart_Match_Num c)"

record Conn_TradePolicyCell =
  stSelf :: TradePolicyCell
  mapSeats :: "string \<rightharpoonup> TradePolicyCell"

definition Conn_TradePolicyCell_new :: Conn_TradePolicyCell where
  "Conn_TradePolicyCell_new = \<lparr>stSelf = TradePolicyCell_new, mapSeats = Map.empty\<rparr>"

record TradePolicyManage =
  m_mapSzPolicy :: "string \<rightharpoonup> Conn_TradePolicyCell"
  m_mapShPolicy :: "string \<rightharpoonup> TradePolicyCell"

definition TradePolicyManage_new :: TradePolicyManage where
  "TradePolicyManage_new = \<lparr>m_mapSzPolicy = Map.empty, m_mapShPolicy = Map.empty\<rparr>"

section \<open>Operations\<close>

definition Set_Sz :: "string \<Rightarrow> policy \<Rightarrow> TradePolicyManage \<Rightarrow> int \<times> TradePolicyManage" where
  "Set_Sz c p m =
     (if c = [] then (-1, m)
      else (0, case m_mapSzPolicy m c of
        None \<Rightarrow>
          let ptr = Conn_TradePolicyCell_new\<lparr>stSelf := TradePolicyCell_Set p TradePolicyCell_new\<rparr>
          in m\<lparr>m_mapSzPolicy := (m_mapSzPolicy m)(c \<mapsto> ptr)\<rparr>
      | Some conn \<Rightarrow>
          m\<lparr>m_mapSzPolicy := (m_mapSzPolicy m)(c \<mapsto> conn\<lparr>stSelf := TradePolicyCell_Set p (stSelf conn)\<rparr>)\<rparr>))"

definition Set_Sz_seat :: "string \<Rightarrow> string \<Rightarrow> policy \<Rightarrow> TradePolicyManage \<Rightarrow> int \<times> TradePolicyManage" where
  "Set_Sz_seat c seat p m =
     (if c = [] then (-1, m)
      else if seat = [] then (-1, m)
      else (0, case m_mapSzPolicy m c of
        None \<Rightarrow>
          let ptrConn = Conn_TradePolicyCell_new\<lparr>stSelf := TradePolicyCell_Set p TradePolicyCell_new\<rparr>;
              ptrSeat = TradePolicyCell_of p
          in m\<lparr>m_mapSzPolicy := (m_mapSzPolicy m)(c \<mapsto>
                 ptrConn\<lparr>mapSeats := (mapSeats ptrConn)(seat \<mapsto> ptrSeat)\<rparr>)\<rparr>
      | Some conn \<Rightarrow>
          m\<lparr>m_mapSzPolicy := (m_mapSzPolicy m)(c \<mapsto>
              (case mapSeats conn seat of
                None \<Rightarrow> conn\<lparr>mapSeats := (mapSeats conn)(seat \<mapsto> TradePolicyCell_of p)\<rparr>
              | Some cell \<Rightarrow> conn\<lparr>mapSeats := (mapSeats conn)(seat \<mapsto> TradePolicyCell_Set p cell)\<rparr>))\<rparr>))"

definition Set_Sh :: "string \<Rightarrow> policy \<Rightarrow> TradePolicyManage \<Rightarrow> int \<times> TradePolicyManage" where
  "Set_Sh c p m =
     (if c = [] then (-1, m)
      else (0, case m_mapShPolicy m c of
        None \<Rightarrow> m\<lparr>m_mapShPolicy := (m_mapShPolicy m)(c \<mapsto> TradePolicyCell_of p)\<rparr>
      | Some cell \<Rightarrow> m\<lparr>m_mapShPolicy := (m_mapShPolicy m)(c \<mapsto> TradePolicyCell_Set p cell)\<rparr>))"

text \<open>The lookups return the global policy \<open>g\<close> for what they do not find, with 0, and for an empty name, with 1.\<close>

definition Get_Sz :: "policy \<Rightarrow> string \<Rightarrow> TradePolicyManage \<Rightarrow> int \<times> policy" where
  "Get_Sz g c m =
     (if c = [] then (1, g)
      else (0, case m_mapSzPolicy m c of None \<Rightarrow> g | Some conn \<Rightarrow> cell_policy (stSelf conn)))"

definition Get_Sz_seat :: "policy \<Rightarrow> string \<Rightarrow> string \<Rightarrow> TradePolicyManage \<Rightarrow> int \<times> policy" where
  "Get_Sz_seat g c seat m =
     (if c = [] then (1, g)
      else if seat = [] then (1, g)
      else (0, case m_mapSzPolicy m c of
        None \<Rightarrow> g
      | Some conn \<Rightarrow> (case mapSeats conn seat of
          None \<Rightarrow> cell_policy (stSelf conn)
        | Some cell \<Rightarrow> cell_policy cell)))"

definition Get_Sh :: "policy \<Rightarrow> string \<Rightarrow> TradePolicyManage \<Rightarrow> int \<times> policy" where
  "Get_Sh g c m =
     (if c = [] then (1, g)
      else (0, case m_mapShPolicy m c of None \<Rightarrow> g | Some cell \<Rightarrow> cell_policy cell))"

section \<open>What a lookup gives after a sequence of settings\<close>

lemma cell_policy_Set [simp]: "cell_policy (TradePolicyCell_Set p c) = p"
  by (cases p) (simp add: cell_policy_def TradePolicyCell_Set_def)

lemma cell_policy_of [simp]: "cell_policy (TradePolicyCell_of p) = p"
  by (cases p) (simp add: cell_policy_def TradePolicyCell_of_def)

text \<open>A setting, as the administrators send it, and its execution.\<close>

datatype setting =
    SetConn string policy
  | SetSeat string string policy
  | SetSh string policy

fun apply_setting :: "setting \<Rightarrow> TradePolicyManage \<Rightarrow> TradePolicyManage" where
  "apply_setting (SetConn c p) m = snd (Set_Sz c p m)"
| "apply_setting (SetSeat c seat p) m = snd (Set_Sz_seat c seat p m)"
| "apply_setting (SetSh c p) m = snd (Set_Sh c p m)"

definition apply_settings :: "setting list \<Rightarrow> TradePolicyManage" where
  "apply_settings h = fold apply_setting h TradePolicyManage_new"

text \<open>
  The specification: the policy of a seat is the last one set for it; the policy of a connection is
  the last one set for the connection, or, when none was, the first one set for any of its seats.
\<close>

fun seat_set :: "string \<Rightarrow> string \<Rightarrow> setting \<Rightarrow> policy option" where
  "seat_set c seat (SetSeat c' seat' p) = (if c' = c \<and> seat' = seat then Some p else None)"
| "seat_set _ _ _ = None"

fun conn_set :: "string \<Rightarrow> setting \<Rightarrow> policy option" where
  "conn_set c (SetConn c' p) = (if c' = c then Some p else None)"
| "conn_set _ _ = None"

fun any_seat_set :: "string \<Rightarrow> setting \<Rightarrow> policy option" where
  "any_seat_set c (SetSeat c' seat p) = (if c' = c \<and> seat \<noteq> [] then Some p else None)"
| "any_seat_set _ _ = None"

fun sh_set :: "string \<Rightarrow> setting \<Rightarrow> policy option" where
  "sh_set c (SetSh c' p) = (if c' = c then Some p else None)"
| "sh_set _ _ = None"

definition first_of :: "('a \<Rightarrow> 'b option) \<Rightarrow> 'a list \<Rightarrow> 'b option" where
  "first_of f h = (case List.map_filter f h of [] \<Rightarrow> None | p # _ \<Rightarrow> Some p)"

definition last_of :: "('a \<Rightarrow> 'b option) \<Rightarrow> 'a list \<Rightarrow> 'b option" where
  "last_of f h = first_of f (rev h)"

definition or_else :: "'a option \<Rightarrow> 'a option \<Rightarrow> 'a option" where
  "or_else a b = (case a of None \<Rightarrow> b | Some x \<Rightarrow> Some x)"

definition conn_policy :: "setting list \<Rightarrow> string \<Rightarrow> policy option" where
  "conn_policy h c = or_else (last_of (conn_set c) h) (first_of (any_seat_set c) h)"

definition seat_policy :: "setting list \<Rightarrow> string \<Rightarrow> string \<Rightarrow> policy option" where
  "seat_policy h c seat = or_else (last_of (seat_set c seat) h) (conn_policy h c)"

lemma or_else_simps [simp]: "or_else None b = b" "or_else (Some x) b = Some x" "or_else a None = a"
  by (simp_all add: or_else_def split: option.splits)

lemma first_of_simps [simp]:
  "first_of f [] = None" "first_of f (x # h) = or_else (f x) (first_of f h)"
  by (simp_all add: first_of_def or_else_def List.map_filter_simps split: option.splits)

lemma first_of_append: "first_of f (h @ h') = or_else (first_of f h) (first_of f h')"
  by (induction h) (simp_all add: or_else_def split: option.splits)

lemma last_of_simps [simp]:
  "last_of f [] = None" "last_of f (h @ [x]) = or_else (f x) (last_of f h)"
  by (simp_all add: last_of_def)

text \<open>What the stores hold, as the specification sees them.\<close>

definition stored_conn :: "TradePolicyManage \<Rightarrow> string \<Rightarrow> policy option" where
  "stored_conn m c = map_option (\<lambda>conn. cell_policy (stSelf conn)) (m_mapSzPolicy m c)"

definition stored_seat :: "TradePolicyManage \<Rightarrow> string \<Rightarrow> string \<Rightarrow> policy option" where
  "stored_seat m c seat =
     (case m_mapSzPolicy m c of None \<Rightarrow> None | Some conn \<Rightarrow> map_option cell_policy (mapSeats conn seat))"

definition stored_sh :: "TradePolicyManage \<Rightarrow> string \<Rightarrow> policy option" where
  "stored_sh m c = map_option cell_policy (m_mapShPolicy m c)"

lemmas stored_defs = stored_conn_def stored_seat_def stored_sh_def

text \<open>
  A store that refuses some keys: a setting of a refused key does nothing, any other behaves as in a
  table.  What a lookup gives after a sequence of settings is the last one of its key.
\<close>

locale guarded_store =
  fixes valid :: "'k \<Rightarrow> bool" and look :: "'s \<Rightarrow> 'k \<Rightarrow> 'v option" and put :: "'k \<Rightarrow> 'v \<Rightarrow> 's \<Rightarrow> 's"
  assumes look_put: "valid k \<Longrightarrow> look (put k v s) k' = (if k' = k then Some v else look s k')"
    and put_refused: "\<not> valid k \<Longrightarrow> put k v s = s"
begin

lemma look_put_any: "look (put k v s) k' = (if valid k \<and> k' = k then Some v else look s k')"
  by (cases "valid k") (simp_all add: look_put put_refused)

lemma look_history:
  assumes "valid k"
  shows "look (fold (\<lambda>(k', v). put k' v) h s) k =
    or_else (last_of (\<lambda>(k', v). if k' = k then Some v else None) h) (look s k)"
  using assms by (induction h rule: rev_induct) (auto simp: look_put_any or_else_def)

end

interpretation conns: guarded_store "\<lambda>c. c \<noteq> []" stored_conn "\<lambda>c p m. snd (Set_Sz c p m)"
  by unfold_locales (simp_all add: stored_defs Set_Sz_def Let_def split: option.splits)

lemma stored_seat_Set_Sz_seat:
  "stored_seat (snd (Set_Sz_seat c seat p m)) c' seat' =
     (if c \<noteq> [] \<and> seat \<noteq> [] \<and> c' = c \<and> seat' = seat then Some p else stored_seat m c' seat')"
proof (cases "c \<noteq> [] \<and> seat \<noteq> []")
  case True
  then show ?thesis
    by (cases "c' = c"; cases "seat' = seat")
      (simp_all add: stored_defs Set_Sz_seat_def Let_def Conn_TradePolicyCell_new_def split: option.splits)
qed (auto simp: Set_Sz_seat_def)

lemma Set_Sz_seat_refused: "c = [] \<or> seat = [] \<Longrightarrow> Set_Sz_seat c seat p m = (-1, m)"
  by (auto simp: Set_Sz_seat_def)

interpretation seats: guarded_store "\<lambda>(c, seat). c \<noteq> [] \<and> seat \<noteq> []"
  "\<lambda>m (c, seat). stored_seat m c seat" "\<lambda>(c, seat) p m. snd (Set_Sz_seat c seat p m)"
  by unfold_locales (auto simp: stored_seat_Set_Sz_seat Set_Sz_seat_refused split: if_splits)

interpretation sh: guarded_store "\<lambda>c. c \<noteq> []" stored_sh "\<lambda>c p m. snd (Set_Sh c p m)"
  by unfold_locales (simp_all add: stored_defs Set_Sh_def split: option.splits)

text \<open>How the settings of one kind leave what the others read.\<close>

lemma stored_seat_Set_Sz [simp]: "stored_seat (snd (Set_Sz c p m)) c' seat = stored_seat m c' seat"
  by (auto simp: stored_defs Set_Sz_def Let_def Conn_TradePolicyCell_new_def split: option.splits)

lemma stored_conn_Set_Sz_seat:
  "stored_conn (snd (Set_Sz_seat c seat p m)) c' =
     or_else (stored_conn m c') (if c' = c \<and> c \<noteq> [] \<and> seat \<noteq> [] then Some p else None)"
  by (auto simp: stored_defs Set_Sz_seat_def Let_def or_else_def split: option.splits)

lemma stored_Set_Sh [simp]:
  "stored_conn (snd (Set_Sh c p m)) = stored_conn m" "stored_seat (snd (Set_Sh c p m)) = stored_seat m"
  by (auto simp: stored_defs Set_Sh_def fun_eq_iff split: option.splits)

lemma stored_sh_Set_Sz [simp]:
  "stored_sh (snd (Set_Sz c p m)) = stored_sh m" "stored_sh (snd (Set_Sz_seat c seat p m)) = stored_sh m"
  by (auto simp: stored_defs Set_Sz_def Set_Sz_seat_def Let_def fun_eq_iff split: option.splits)

lemma stored_new [simp]:
  "stored_conn TradePolicyManage_new c = None" "stored_seat TradePolicyManage_new c seat = None"
  "stored_sh TradePolicyManage_new c = None"
  by (simp_all add: stored_defs TradePolicyManage_new_def)

lemma apply_settings_snoc [simp]: "apply_settings (h @ [x]) = apply_setting x (apply_settings h)"
  by (simp add: apply_settings_def)

lemma apply_settings_Nil [simp]: "apply_settings [] = TradePolicyManage_new"
  by (simp add: apply_settings_def)

lemma stored_seat_settings:
  assumes "c \<noteq> []" "seat \<noteq> []"
  shows "stored_seat (apply_settings h) c seat = last_of (seat_set c seat) h"
proof (induction h rule: rev_induct)
  case (snoc x h)
  then show ?case
    using assms seats.look_put_any [of _ _ "apply_settings h" "(c, seat)"]
    by (cases x) (auto simp: split_beta)
qed simp

lemma stored_conn_settings:
  assumes "c \<noteq> []"
  shows "stored_conn (apply_settings h) c = conn_policy h c"
proof (induction h rule: rev_induct)
  case (snoc x h)
  then show ?case
    using assms conns.look_put_any [of _ _ "apply_settings h" c]
    by (cases x) (auto simp: conn_policy_def first_of_append stored_conn_Set_Sz_seat or_else_def split: option.splits)
qed (simp add: conn_policy_def)

lemma stored_sh_settings:
  assumes "c \<noteq> []"
  shows "stored_sh (apply_settings h) c = last_of (sh_set c) h"
proof (induction h rule: rev_induct)
  case (snoc x h)
  then show ?case
    using assms sh.look_put_any [of _ _ "apply_settings h" c] by (cases x) auto
qed simp

text \<open>The lookups, read off what is stored.\<close>

definition policy_or :: "policy \<Rightarrow> policy option \<Rightarrow> policy" where
  "policy_or g p = (case p of None \<Rightarrow> g | Some q \<Rightarrow> q)"

lemma Get_Sz_stored: "c \<noteq> [] \<Longrightarrow> Get_Sz g c m = (0, policy_or g (stored_conn m c))"
  by (simp add: Get_Sz_def stored_defs policy_or_def split: option.splits)

lemma Get_Sz_seat_stored:
  "c \<noteq> [] \<Longrightarrow> seat \<noteq> [] \<Longrightarrow>
     Get_Sz_seat g c seat m = (0, policy_or g (or_else (stored_seat m c seat) (stored_conn m c)))"
  by (simp add: Get_Sz_seat_def stored_defs policy_or_def or_else_def split: option.splits)

lemma Get_Sh_stored: "c \<noteq> [] \<Longrightarrow> Get_Sh g c m = (0, policy_or g (stored_sh m c))"
  by (simp add: Get_Sh_def stored_defs policy_or_def split: option.splits)

lemma Get_settings:
  "c \<noteq> [] \<Longrightarrow> seat \<noteq> [] \<Longrightarrow> Get_Sz_seat g c seat (apply_settings h) = (0, policy_or g (seat_policy h c seat))"
  "c \<noteq> [] \<Longrightarrow> Get_Sz g c (apply_settings h) = (0, policy_or g (conn_policy h c))"
  "c \<noteq> [] \<Longrightarrow> Get_Sh g c (apply_settings h) = (0, policy_or g (last_of (sh_set c) h))"
  by (simp_all add: Get_Sz_seat_stored Get_Sz_stored Get_Sh_stored stored_seat_settings stored_conn_settings
      stored_sh_settings seat_policy_def)

section \<open>Properties\<close>

text \<open>
  C4.  After any sequence of settings, the policy looked up for a seat is the last set for that seat,
  else its connection's; the policy of a Shenzhen connection is the last set for it, else the first
  that was set for any of its seats, else the global policy; and the policy of a Shanghai connection
  is the last set for it, else the global policy.  Settings of other names, of the other market or
  with an empty name have no effect.  Names are not empty, and the lookups then return 0, also where
  they give the global policy.
\<close>

theorem policy_lookup_refines:
  assumes "c \<noteq> []" and "seat \<noteq> []"
  shows "Get_Sz_seat g c seat (apply_settings h) = (0, policy_or g (seat_policy h c seat)) \<and>
    Get_Sz g c (apply_settings h) = (0, policy_or g (conn_policy h c)) \<and>
    Get_Sh g c (apply_settings h) = (0, policy_or g (last_of (sh_set c) h))"
  using assms by (simp add: Get_settings)

definition match_all :: policy where
  "match_all = (NormalMode, True, SimulMatchAll, AveragePrice, 2)"

definition default_policy :: policy where
  "default_policy = (NormalMode, False, EnAbleQuta, AveragePrice, 2)"

theorem policy_lookup_refines_witness:
  "Get_Sz_seat default_policy ''L1'' ''S2'' (apply_settings [SetSeat ''L1'' ''S1'' match_all]) = (0, match_all)"
  using policy_lookup_refines [of "''L1''" "''S2''" default_policy "[SetSeat ''L1'' ''S1'' match_all]"]
  by (simp add: seat_policy_def conn_policy_def last_of_def policy_or_def)

end
