(* ===== verification/SofString.thy ===== *)
theory SofString
  imports Prelude
begin

text \<open>
  \<open>tool_string/sof_string.cpp\<close>: the four overloads of \<open>itostr\<close>, which find the number of digits
  by a comparison tree, size the string, and fill it from the end two digits at a time.  A write
  outside the string is \<open>None\<close>.  The reference is the usual decimal notation \<open>decimal\<close>, and each
  overload is proved to compute it.
\<close>

section \<open>Decimal notation\<close>

definition digit_char :: "nat \<Rightarrow> char" where
  "digit_char d = char_of (48 + d)"

fun decimal :: "nat \<Rightarrow> string" where
  "decimal n = (if n < 10 then [digit_char n] else decimal (n div 10) @ [digit_char (n mod 10)])"

declare decimal.simps [simp del]

lemma decimal_small: "n < 10 \<Longrightarrow> decimal n = [digit_char n]"
  by (simp add: decimal.simps)

lemma decimal_big: "10 \<le> n \<Longrightarrow> decimal n = decimal (n div 10) @ [digit_char (n mod 10)]"
  by (simp add: decimal.simps [of n])

lemma decimal_not_Nil [simp]: "decimal n \<noteq> []"
  by (cases "n < 10") (simp_all add: decimal_small decimal_big)

lemma decimal_two:
  "100 \<le> n \<Longrightarrow> decimal n = decimal (n div 100) @ [digit_char (n mod 100 div 10), digit_char (n mod 100 mod 10)]"
proof -
  assume n: "100 \<le> n"
  have "n div 10 div 10 = n div 100" by (simp add: div_mult2_eq [symmetric])
  moreover have "n div 10 mod 10 = n mod 100 div 10" "n mod 10 = n mod 100 mod 10"
    by (simp_all add: mod_mult2_eq [of n 10 10, simplified])
  moreover have "10 \<le> n div 10" using n by simp
  ultimately show ?thesis using n decimal_big [of n] decimal_big [of "n div 10"] by simp
qed

lemma length_decimal_le: "n < 10 ^ Suc k \<Longrightarrow> length (decimal n) \<le> Suc k"
proof (induction k arbitrary: n)
  case 0
  then show ?case by (simp add: decimal_small)
next
  case (Suc k)
  show ?case
  proof (cases "n < 10")
    case False
    then have "n div 10 < 10 ^ Suc k" using Suc.prems by (simp add: div_less_iff_less_mult mult.commute)
    from Suc.IH [OF this] show ?thesis using False by (simp add: decimal_big)
  qed (simp add: decimal_small)
qed

lemma length_decimal_ge: "10 ^ k \<le> n \<Longrightarrow> Suc k \<le> length (decimal n)"
proof (induction k arbitrary: n)
  case 0
  then show ?case using decimal_not_Nil [of n] by (metis Suc_leI length_greater_0_conv)
next
  case (Suc k)
  then have "10 \<le> n" by (metis le_trans one_le_numeral one_le_power mult_le_cancel1 mult.right_neutral power_Suc)
  moreover have "10 ^ k \<le> n div 10" using Suc.prems by (simp add: less_eq_div_iff_mult_less_eq mult.commute)
  ultimately show ?case using Suc.IH by (simp add: decimal_big)
qed

lemma length_decimal: "10 ^ k \<le> n \<Longrightarrow> n < 10 ^ Suc k \<Longrightarrow> length (decimal n) = Suc k"
  using length_decimal_le [of n k] length_decimal_ge [of k n] by simp

section \<open>The conversion\<close>

text \<open>
  The table of digit pairs, and the two comparison trees.  From here on \<open>val\<close> is only compared
  and divided, so its width plays no part and it is a natural number.
\<close>

definition digit_pairs :: string where
  "digit_pairs = concat (map (\<lambda>i. [digit_char (i div 10), digit_char (i mod 10)]) [0..<100])"

definition itostr_size32 :: "nat \<Rightarrow> nat" where
  "itostr_size32 val =
     (if 10000 \<le> val
      then if 10000000 \<le> val
           then if 1000000000 \<le> val then 10 else if 100000000 \<le> val then 9 else 8
           else if 1000000 \<le> val then 7 else if 100000 \<le> val then 6 else 5
      else if 100 \<le> val then if 1000 \<le> val then 4 else 3
           else if 10 \<le> val then 2 else 1)"

definition itostr_size64 :: "nat \<Rightarrow> nat" where
  "itostr_size64 val =
     (if 10000000000 \<le> val
      then if 100000000000000 \<le> val
           then if 100000000000000000 \<le> val
                then if 10000000000000000000 \<le> val then 20 else if 1000000000000000000 \<le> val then 19 else 18
                else if 10000000000000000 \<le> val then 17 else if 1000000000000000 \<le> val then 16 else 15
           else if 1000000000000 \<le> val
                then if 10000000000000 \<le> val then 14 else 13
                else if 100000000000 \<le> val then 12 else 11
      else if 10000 \<le> val
      then if 10000000 \<le> val
           then if 1000000000 \<le> val then 10 else if 100000000 \<le> val then 9 else 8
           else if 1000000 \<le> val then 7 else if 100000 \<le> val then 6 else 5
      else if 100 \<le> val then if 1000 \<le> val then 4 else 3
           else if 10 \<le> val then 2 else 1)"

text \<open>A write through the cursor \<open>c\<close>, and the two filling loops.\<close>

definition put_char :: "int \<Rightarrow> char \<Rightarrow> string \<Rightarrow> string option" where
  "put_char c ch s = (if 0 \<le> c \<and> c < int (length s) then Some (s[nat c := ch]) else None)"

fun fill_digits :: "nat \<Rightarrow> int \<Rightarrow> string \<Rightarrow> string option" where
  "fill_digits val c s =
     (if 0 < val
      then (case put_char c (digit_char (val mod 10)) s of None \<Rightarrow> None
            | Some s' \<Rightarrow> fill_digits (val div 10) (c - 1) s')
      else Some s)"

declare fill_digits.simps [simp del]

fun fill_pairs :: "nat \<Rightarrow> int \<Rightarrow> string \<Rightarrow> string option" where
  "fill_pairs val c s =
     (if 100 \<le> val
      then let pos = val mod 100 in
           (case put_char (c - 1) (digit_pairs ! (2 * pos)) s of None \<Rightarrow> None
            | Some s1 \<Rightarrow> (case put_char c (digit_pairs ! (2 * pos + 1)) s1 of None \<Rightarrow> None
            | Some s2 \<Rightarrow> fill_pairs (val div 100) (c - 2) s2))
      else fill_digits val c s)"

declare fill_pairs.simps [simp del]

definition str_resize :: "nat \<Rightarrow> string \<Rightarrow> string" where
  "str_resize n s = take n s @ replicate (n - length s) (CHR 0x00)"

definition itostr_uint :: "u32 \<Rightarrow> string \<Rightarrow> string option" where
  "itostr_uint val s =
     (if val = 0 then Some ''0''
      else let size = itostr_size32 (unat val) in
           fill_pairs (unat val) (int size - 1) (str_resize size s))"

definition itostr_uint64 :: "u64 \<Rightarrow> string \<Rightarrow> string option" where
  "itostr_uint64 val s =
     (if val = 0 then Some ''0''
      else let size = itostr_size64 (unat val) in
           fill_pairs (unat val) (int size - 1) (str_resize size s))"

text \<open>The signed overloads: \<open>sign\<close> is -1 or 0, and a negative number has one character more.\<close>

definition itostr_int :: "u32 \<Rightarrow> string \<Rightarrow> string option" where
  "itostr_int n s =
     (if n = 0 then Some ''0''
      else let sign = (if sint n < 0 then -1 else 0);
               val = unat (xor n sign - sign);
               size = (if sign \<noteq> 0 then itostr_size32 val + 1 else itostr_size32 val);
               s1 = str_resize size s;
               s2 = (if sign \<noteq> 0 then s1[0 := CHR ''-''] else s1)
           in fill_pairs val (int size - 1) s2)"

definition itostr_int64 :: "u64 \<Rightarrow> string \<Rightarrow> string option" where
  "itostr_int64 n s =
     (if n = 0 then Some ''0''
      else let sign = (if sint n < 0 then -1 else 0);
               val = unat (xor n sign - sign);
               size = (if sign \<noteq> 0 then itostr_size64 val + 1 else itostr_size64 val);
               s1 = str_resize size s;
               s2 = (if sign \<noteq> 0 then s1[0 := CHR ''-''] else s1)
           in fill_pairs val (int size - 1) s2)"

section \<open>The loops write decimal notation\<close>

lemma digit_pairs_nth:
  assumes "i < 100"
  shows "digit_pairs ! (2 * i) = digit_char (i div 10)" and "digit_pairs ! (2 * i + 1) = digit_char (i mod 10)"
proof -
  have nth: "concat (map (\<lambda>i. [f i, g i]) [0..<n]) ! (2 * i) = f i \<and>
             concat (map (\<lambda>i. [f i, g i]) [0..<n]) ! (2 * i + 1) = g i"
    if "i < n" for f g :: "nat \<Rightarrow> char" and n
    using that
  proof (induction n)
    case (Suc n)
    have len: "length (concat (map (\<lambda>i. [f i, g i]) [0..<n])) = 2 * n"
      by (induction n) auto
    show ?case using Suc len by (cases "i = n") (auto simp: nth_append)
  qed simp
  from nth [OF assms] show "digit_pairs ! (2 * i) = digit_char (i div 10)"
    and "digit_pairs ! (2 * i + 1) = digit_char (i mod 10)"
    unfolding digit_pairs_def by auto
qed

lemma put_char_mid:
  "c = int (length pre + n) \<Longrightarrow> length junk = n \<Longrightarrow>
   put_char c ch (pre @ junk @ j # post) = Some (pre @ junk @ ch # post)"
  by (simp add: put_char_def list_update_append nat_int_add)

lemma fill_digits_decimal:
  assumes "0 < val" and "length junk = length (decimal val)"
  shows "fill_digits val (int (length pre + length junk) - 1) (pre @ junk @ post) = Some (pre @ decimal val @ post)"
  using assms
proof (induction val arbitrary: junk post rule: less_induct)
  case (less val)
  obtain j0 j where j: "junk = j0 @ [j]" using less.prems by (cases junk rule: rev_cases) auto
  have p: "put_char (int (length pre + length junk) - 1) ch (pre @ junk @ post) = Some (pre @ j0 @ ch # post)" for ch
    using put_char_mid [of "int (length pre + length junk) - 1" pre "length j0" j0 ch j post] j by simp
  show ?case
  proof (cases "val < 10")
    case True
    then have "j0 = []" using less.prems j by (simp add: decimal_small)
    then show ?thesis
      using p True less.prems(1) by (simp add: fill_digits.simps [of val] fill_digits.simps [of 0] decimal_small)
  next
    case False
    then have d: "decimal val = decimal (val div 10) @ [digit_char (val mod 10)]" by (simp add: decimal_big)
    have "fill_digits (val div 10) (int (length pre + length j0) - 1) (pre @ j0 @ digit_char (val mod 10) # post) =
          Some (pre @ decimal (val div 10) @ digit_char (val mod 10) # post)"
      using less.IH [of "val div 10" j0 "digit_char (val mod 10) # post"] False less.prems j d by simp
    then show ?thesis
      using p [of "digit_char (val mod 10)"] less.prems(1) d j by (simp add: fill_digits.simps [of val])
  qed
qed

lemma fill_pairs_decimal:
  assumes "0 < val" and "length junk = length (decimal val)"
  shows "fill_pairs val (int (length pre + length junk) - 1) (pre @ junk @ post) = Some (pre @ decimal val @ post)"
  using assms
proof (induction val arbitrary: junk post rule: less_induct)
  case (less val)
  show ?case
  proof (cases "100 \<le> val")
    case False
    then show ?thesis using fill_digits_decimal [OF less.prems] by (simp add: fill_pairs.simps [of val])
  next
    case True
    let ?a = "digit_char (val mod 100 div 10)" and ?b = "digit_char (val mod 100 mod 10)"
    have d: "decimal val = decimal (val div 100) @ [?a, ?b]" using True by (rule decimal_two)
    then obtain j0 j1 j2 where j: "junk = j0 @ [j1, j2]" "length j0 = length (decimal (val div 100))"
      using less.prems(2) by (cases junk rule: rev_cases; cases "butlast junk" rule: rev_cases) auto
    let ?c = "int (length pre + length junk) - 1"
    have p1: "put_char (?c - 1) ch (pre @ junk @ post) = Some (pre @ j0 @ ch # j2 # post)" for ch
      using put_char_mid [of "?c - 1" pre "length j0" j0 ch j1 "j2 # post"] j by simp
    have p2: "put_char ?c ch (pre @ j0 @ x # j2 # post) = Some (pre @ j0 @ x # ch # post)" for ch x
      using put_char_mid [of ?c pre "length j0 + 1" "j0 @ [x]" ch j2 post] j by simp
    have "fill_pairs (val div 100) (int (length pre + length j0) - 1) (pre @ j0 @ ?a # ?b # post) =
          Some (pre @ decimal (val div 100) @ ?a # ?b # post)"
      using less.IH [of "val div 100" j0 "?a # ?b # post"] True j by simp
    moreover have "digit_pairs ! (2 * (val mod 100)) = ?a" "digit_pairs ! (2 * (val mod 100) + 1) = ?b"
      using digit_pairs_nth [of "val mod 100"] by auto
    ultimately show ?thesis
      using True p1 p2 d j by (simp add: fill_pairs.simps [of val] Let_def)
  qed
qed

section \<open>The overloads are decimal notation\<close>

lemmas length_decimals =
  length_decimal [of 0, simplified]
  length_decimal [of 1, simplified]
  length_decimal [of 2, simplified]
  length_decimal [of 3, simplified]
  length_decimal [of 4, simplified]
  length_decimal [of 5, simplified]
  length_decimal [of 6, simplified]
  length_decimal [of 7, simplified]
  length_decimal [of 8, simplified]
  length_decimal [of 9, simplified]
  length_decimal [of 10, simplified]
  length_decimal [of 11, simplified]
  length_decimal [of 12, simplified]
  length_decimal [of 13, simplified]
  length_decimal [of 14, simplified]
  length_decimal [of 15, simplified]
  length_decimal [of 16, simplified]
  length_decimal [of 17, simplified]
  length_decimal [of 18, simplified]
  length_decimal [of 19, simplified]

lemma length_decimal_0: "0 < v \<Longrightarrow> v < 10 \<Longrightarrow> length (decimal v) = 1"
  by (simp add: decimal_small)

lemma itostr_size64_decimal: "0 < v \<Longrightarrow> v < 2 ^ 64 \<Longrightarrow> itostr_size64 v = length (decimal v)"
  by (simp add: itostr_size64_def length_decimals length_decimal_0 not_le)

lemma itostr_size32_decimal: "0 < v \<Longrightarrow> v < 2 ^ 32 \<Longrightarrow> itostr_size32 v = length (decimal v)"
  by (simp add: itostr_size32_def length_decimals length_decimal_0 not_le)

lemma decimal_0: "decimal 0 = ''0''"
proof -
  have "char_of (48 :: nat) = CHR ''0''" by code_simp
  then show ?thesis by (simp add: decimal_small digit_char_def)
qed

lemma length_str_resize [simp]: "length (str_resize n s) = n"
  by (simp add: str_resize_def)

lemma fill_all:
  assumes "0 < val" and "length junk = length (decimal val)"
  shows "fill_pairs val (int (length (decimal val)) - 1) junk = Some (decimal val)"
  using fill_pairs_decimal [OF assms, of "[]" "[]"] assms(2) by simp

lemma fill_signed:
  assumes "0 < val"
  shows "fill_pairs val (int (length (decimal val) + 1) - 1) ((str_resize (length (decimal val) + 1) s)[0 := ch]) =
         Some (ch # decimal val)"
proof -
  obtain j js where j: "str_resize (length (decimal val) + 1) s = j # js" "length js = length (decimal val)"
    using length_str_resize [of "length (decimal val) + 1" s] by (metis Suc_eq_plus1 length_Suc_conv)
  show ?thesis using fill_pairs_decimal [OF assms j(2), of "[ch]" "[]"] j by (simp add: add.commute)
qed

lemma itostr_uint64_decimal: "itostr_uint64 val s = Some (decimal (unat val))"
proof (cases "val = 0")
  case False
  then have v: "0 < unat val" "unat val < 2 ^ 64"
    using unat_less_2p64 [of val] by (auto simp: unat_gt_0)
  show ?thesis
    using False fill_all [OF v(1), of "str_resize (length (decimal (unat val))) s"]
    by (simp add: itostr_uint64_def itostr_size64_decimal [OF v])
qed (simp add: itostr_uint64_def decimal_0)

lemma itostr_uint_decimal: "itostr_uint val s = Some (decimal (unat val))"
proof (cases "val = 0")
  case False
  then have v: "0 < unat val" "unat val < 2 ^ 32"
    using unsigned_less [of val, where ?'a = nat] by (auto simp: unat_gt_0)
  show ?thesis
    using False fill_all [OF v(1), of "str_resize (length (decimal (unat val))) s"]
    by (simp add: itostr_uint_def itostr_size32_decimal [OF v])
qed (simp add: itostr_uint_def decimal_0)

text \<open>The absolute value the signed overloads compute, at any width.\<close>

lemma abs_word:
  fixes n :: "'a::len word"
  shows "unat (xor n (if sint n < 0 then -1 else 0) - (if sint n < 0 then -1 else 0)) = nat \<bar>sint n\<bar>"
proof (cases "sint n < 0")
  case True
  have "xor n (-1) - (-1) = - n" using minus_eq_not_plus_1 [of n] by simp
  moreover have "unat (- n) = nat (- sint n)"
  proof -
    have "uint (- n) = (- sint n) mod 2 ^ LENGTH('a)"
    proof -
      have "word_of_int (- sint n) = - n" by simp
      then show ?thesis by (metis uint_word_of_int)
    qed
    moreover have "- sint n \<le> 2 ^ (LENGTH('a) - 1)" using sint_ge [of n] by simp
    moreover have "(2 :: int) ^ (LENGTH('a) - 1) < 2 ^ LENGTH('a)" by (intro power_strict_increasing) auto
    ultimately have "uint (- n) = - sint n"
      using True mod_pos_pos_trivial [of "- sint n" "2 ^ LENGTH('a)"] by linarith
    then show ?thesis by (metis unat_eq_nat_uint)
  qed
  ultimately show ?thesis using True by simp
next
  case False
  have "uint n = sint n mod 2 ^ LENGTH('a)"
  proof -
    have "word_of_int (sint n) = n" by simp
    then show ?thesis by (metis uint_word_of_int)
  qed
  moreover have "sint n < 2 ^ (LENGTH('a) - 1)" using sint_lt [of n] .
  moreover have "(2 :: int) ^ (LENGTH('a) - 1) < 2 ^ LENGTH('a)" by (intro power_strict_increasing) auto
  ultimately have "uint n = sint n"
    using False mod_pos_pos_trivial [of "sint n" "2 ^ LENGTH('a)"] by linarith
  then have "unat n = nat (sint n)" by (metis unat_eq_nat_uint)
  then show ?thesis using False by simp
qed

definition signed_decimal :: "int \<Rightarrow> string" where
  "signed_decimal z = (if z < 0 then CHR ''-'' # decimal (nat (- z)) else decimal (nat z))"

lemma itostr_int64_decimal: "itostr_int64 n s = Some (signed_decimal (sint n))"
proof (cases "n = 0")
  case True
  then show ?thesis by (simp add: itostr_int64_def signed_decimal_def decimal_0)
next
  case False
  let ?v = "nat \<bar>sint n\<bar>"
  have v: "0 < ?v" using False by (simp add: signed_eq_0_iff)
  have b: "?v < 2 ^ 64" using sint_lt [of n] sint_ge [of n] by (auto simp: nat_less_iff)
  show ?thesis
    using False fill_all [OF v, of "str_resize (length (decimal ?v)) s"] fill_signed [OF v, of s "CHR ''-''"]
      itostr_size64_decimal [OF v b] abs_word [of n]
    by (auto simp: itostr_int64_def signed_decimal_def Let_def)
qed

lemma itostr_int_decimal: "itostr_int n s = Some (signed_decimal (sint n))"
proof (cases "n = 0")
  case True
  then show ?thesis by (simp add: itostr_int_def signed_decimal_def decimal_0)
next
  case False
  let ?v = "nat \<bar>sint n\<bar>"
  have v: "0 < ?v" using False by (simp add: signed_eq_0_iff)
  have b: "?v < 2 ^ 32" using sint_lt [of n] sint_ge [of n] by (auto simp: nat_less_iff)
  show ?thesis
    using False fill_all [OF v, of "str_resize (length (decimal ?v)) s"] fill_signed [OF v, of s "CHR ''-''"]
      itostr_size32_decimal [OF v b] abs_word [of n]
    by (auto simp: itostr_int_def signed_decimal_def Let_def)
qed

text \<open>
  The four number-to-text routines never write outside their string and compute decimal
  notation, with a minus sign for negative numbers, whatever the string held before.
\<close>

theorem itostr_is_decimal:
  "itostr_uint w s = Some (decimal (unat w)) \<and> itostr_uint64 x s = Some (decimal (unat x)) \<and>
   itostr_int y s = Some (signed_decimal (sint y)) \<and> itostr_int64 z s = Some (signed_decimal (sint z))"
  by (simp add: itostr_uint_decimal itostr_uint64_decimal itostr_int_decimal itostr_int64_decimal)

end
