(* ===== verification/TgwStringUtil.thy ===== *)
theory TgwStringUtil
  imports SofString
begin

text \<open>
  \<open>tool_string/Tgw_StringUtil.cpp\<close>: text to numbers, and amounts of money in li (a thousandth of
  a yuan) to and from text.  The C library's scanning functions are modelled as documented: white
  space and a sign are skipped, digits are read up to the first other character, and a value out of
  range is clamped (\<open>atoi\<close> then keeps the low 32 bits, as the common implementations do).  None of them throws, so the
  handlers around them are never entered.
\<close>

section \<open>The C library's scanning functions\<close>

definition c_str :: "string \<Rightarrow> string" where
  "c_str s = takeWhile (\<lambda>c. c \<noteq> CHR 0x00) s"

definition is_space :: "char \<Rightarrow> bool" where
  "is_space c \<longleftrightarrow> c = CHR '' '' \<or> (9 \<le> (of_char c :: nat) \<and> (of_char c :: nat) \<le> 13)"

definition is_digit :: "char \<Rightarrow> bool" where
  "is_digit c \<longleftrightarrow> 48 \<le> (of_char c :: nat) \<and> (of_char c :: nat) \<le> 57"

fun digits_value :: "nat \<Rightarrow> string \<Rightarrow> nat" where
  "digits_value acc [] = acc"
| "digits_value acc (c # cs) = (if is_digit c then digits_value (10 * acc + (of_char c - 48)) cs else acc)"

definition scan_number :: "string \<Rightarrow> bool \<times> nat" where
  "scan_number s =
     (case dropWhile is_space (c_str s) of
        [] \<Rightarrow> (False, 0)
      | c # cs \<Rightarrow> if c = CHR ''-'' then (True, digits_value 0 cs)
                  else if c = CHR ''+'' then (False, digits_value 0 cs)
                  else (False, digits_value 0 (c # cs)))"

definition strtoll :: "string \<Rightarrow> int" where
  "strtoll s = (case scan_number s of (neg, m) \<Rightarrow>
     if neg then max (- (2 ^ 63)) (- int m) else min (2 ^ 63 - 1) (int m))"

definition strtoull :: "string \<Rightarrow> u64" where
  "strtoull s = (case scan_number s of (neg, m) \<Rightarrow>
     if 2 ^ 64 \<le> m then -1 else if neg then - word_of_nat m else word_of_nat m)"

definition atoi :: "string \<Rightarrow> int" where
  "atoi s = sint (word_of_int (strtoll s) :: u32)"

section \<open>Conversions\<close>

text \<open>Each conversion gives its return code and the out parameter.\<close>

definition String2Int_atoi :: "string \<Rightarrow> int \<times> int" where
  "String2Int_atoi s = (if s = [] then (0, 0) else (0, atoi s))"

definition String2UInt64_strtoui64 :: "string \<Rightarrow> int \<times> u64" where
  "String2UInt64_strtoui64 s = (if s = [] then (0, 0) else (0, word_of_int (strtoll s)))"

definition String2Int64_atoi64 :: "string \<Rightarrow> int \<times> int" where
  "String2Int64_atoi64 s = (if s = [] then (0, 0) else (0, strtoll s))"

text \<open>\<open>boost::split\<close> at a character, empty segments kept.\<close>

fun split_at :: "char \<Rightarrow> string \<Rightarrow> string list" where
  "split_at d [] = [[]]"
| "split_at d (c # cs) = (if c = d then [] # split_at d cs
     else (case split_at d cs of [] \<Rightarrow> [[c]] | w # ws \<Rightarrow> (c # w) # ws))"

definition money_after_point :: "string \<Rightarrow> u64" where
  "money_after_point a =
     (if a = [] then 0
      else let d = (\<lambda>i. if i < length a then atoi [a ! i] else 0)
           in word_of_int (d 0 * 100 + d 1 * 10 + d 2))"

definition String2UInt64MoneyInLi_strtoui64 :: "string \<Rightarrow> int \<times> u64" where
  "String2UInt64MoneyInLi_strtoui64 s =
     (if s = [] then (0, 0)
      else let before = (\<lambda>b. if b = [] then 0 else strtoull b) in
        case split_at (CHR ''.'') s of
          [] \<Rightarrow> (-1, 0)
        | [b] \<Rightarrow> (0, before b * 1000)
        | b # a # _ \<Rightarrow> (0, before b * 1000 + money_after_point a))"

text \<open>
  Amounts as text.  The number-to-text calls inside cannot fail (they are decimal notation), so
  their result is used directly.
\<close>

definition itos :: "u64 \<Rightarrow> string" where
  "itos n = (case itostr_uint64 n [] of None \<Rightarrow> [] | Some s \<Rightarrow> s)"

definition iLiToStr :: "u64 \<Rightarrow> nat \<Rightarrow> string" where
  "iLiToStr ui64MoneyLi uiDecimalLen =
     (if ui64MoneyLi = 0
      then (if uiDecimalLen = 2 then ''0.00'' else if uiDecimalLen = 3 then ''0.000''
            else if uiDecimalLen = 4 then ''0.0000'' else if uiDecimalLen = 6 then ''0.000000''
            else ''0'')
      else
        let ui64Yuan = ui64MoneyLi div 1000; cui64Li = ui64MoneyLi mod 1000;
            strYuan = itos ui64Yuan;
            strLi = (if uiDecimalLen = 0 then []
                     else if uiDecimalLen = 1 then CHR ''.'' # itos (cui64Li div 100)
                     else if uiDecimalLen = 2
                     then (if 10 \<le> cui64Li div 10 then CHR ''.'' # itos (cui64Li div 10)
                           else ''.0'' @ itos (cui64Li div 10))
                     else (if 100 \<le> cui64Li then CHR ''.'' # itos cui64Li
                           else if 10 \<le> cui64Li then ''.0'' @ itos cui64Li
                           else ''.00'' @ itos cui64Li))
        in strYuan @ strLi @ (if uiDecimalLen = 4 then ''0'' else if uiDecimalLen = 6 then ''000'' else []))"

text \<open>The digits after the point in \<open>StringLiToStringYuan\<close>: \<open>i\<close> runs from 1 to \<open>in_uiDecimalLen\<close>.\<close>

fun yuan_digits :: "nat \<Rightarrow> nat \<Rightarrow> u32 \<Rightarrow> u32 \<Rightarrow> string" where
  "yuan_digits 0 i uiDecimalBase iTenLv = []"
| "yuan_digits (Suc n) i uiDecimalBase iTenLv =
     (if i \<le> 3
      then itos (ucast (uiDecimalBase div (iTenLv div 10))) @
           yuan_digits n (i + 1) (uiDecimalBase mod (iTenLv div 10)) (iTenLv div 10)
      else CHR ''0'' # yuan_digits n (i + 1) uiDecimalBase iTenLv)"

definition StringLiToStringYuan :: "string \<Rightarrow> nat \<Rightarrow> int \<times> string" where
  "StringLiToStringYuan in_strLi in_uiDecimalLen =
     (let i64Int = snd (String2Int64_atoi64 in_strLi);
          ui64Int = (word_of_int \<bar>i64Int\<bar> :: u64);
          io = (if i64Int < 0 then ''-'' else []) @ itos (ui64Int div 1000)
      in if in_uiDecimalLen = 0 then (0, io)
         else (0, io @ ''.'' @ yuan_digits in_uiDecimalLen 1 (ucast (ui64Int mod 1000)) 1000))"

section \<open>Reading decimal notation back\<close>

lemma digit_char_nat: "d < 10 \<Longrightarrow> (of_char (digit_char d) :: nat) = 48 + d"
  by (simp add: digit_char_def)

lemma is_digit_char [simp]: "d < 10 \<Longrightarrow> is_digit (digit_char d)"
  by (simp add: is_digit_def digit_char_nat)

lemma decimal_digits: "list_all is_digit (decimal n)"
proof (induction n rule: less_induct)
  case (less n)
  then show ?case by (cases "n < 10") (simp_all add: decimal_small decimal_big)
qed

lemma digits_value_append:
  "list_all is_digit xs \<Longrightarrow> digits_value acc (xs @ ys) = digits_value (digits_value acc xs) ys"
  by (induction xs arbitrary: acc) auto

lemma digits_value_decimal: "digits_value 0 (decimal n) = n"
proof (induction n rule: less_induct)
  case (less n)
  then show ?case
    by (cases "n < 10") (simp_all add: decimal_small decimal_big digit_char_nat digits_value_append decimal_digits)
qed

lemma is_digitD:
  assumes "is_digit c"
  shows "c \<noteq> CHR 0x00" "\<not> is_space c" "c \<noteq> CHR ''-''" "c \<noteq> CHR ''+''" "c \<noteq> CHR ''.''"
proof -
  have n: "48 \<le> (of_char c :: nat)" using assms by (simp add: is_digit_def)
  then show "c \<noteq> CHR 0x00" "c \<noteq> CHR ''-''" "c \<noteq> CHR ''+''" "c \<noteq> CHR ''.''" by auto
  show "\<not> is_space c" using n by (auto simp: is_space_def)
qed

lemma c_str_digits: "list_all is_digit s \<Longrightarrow> c_str s = s"
  by (induction s) (auto simp: c_str_def dest: is_digitD)

lemma scan_digits:
  assumes "list_all is_digit s" and "s \<noteq> []"
  shows "scan_number s = (False, digits_value 0 s)"
proof -
  obtain c cs where s: "s = c # cs" using assms(2) by (cases s) auto
  have "is_digit c" using assms(1) s by simp
  then show ?thesis using c_str_digits [OF assms(1)] s by (auto simp: scan_number_def dest: is_digitD)
qed

lemma scan_decimal: "scan_number (decimal n) = (False, n)"
  by (simp add: scan_digits decimal_digits digits_value_decimal)

lemma scan_neg_decimal: "scan_number (CHR ''-'' # decimal n) = (True, n)"
proof -
  have "c_str (CHR ''-'' # decimal n) = CHR ''-'' # decimal n"
    using c_str_digits [OF decimal_digits] by (simp add: c_str_def)
  moreover have "\<not> is_space (CHR ''-'')" by (simp add: is_space_def)
  ultimately show ?thesis by (simp add: scan_number_def digits_value_decimal)
qed

lemma strtoull_decimal: "n < 2 ^ 64 \<Longrightarrow> strtoull (decimal n) = word_of_nat n"
  by (simp add: strtoull_def scan_decimal)

lemma strtoll_signed_decimal:
  assumes "- (2 ^ 63) \<le> i" and "i < 2 ^ 63"
  shows "strtoll (signed_decimal i) = i"
  using assms by (auto simp: strtoll_def signed_decimal_def scan_decimal scan_neg_decimal)

text \<open>
  Numbers written with \<open>itostr\<close> are read back: a 64-bit signed number by
  \<open>String2Int64_atoi64\<close>, a 32-bit one by \<open>String2Int_atoi\<close>.
\<close>

theorem itostr_read_back:
  "(\<exists>s. itostr_int64 x junk = Some s \<and> String2Int64_atoi64 s = (0, sint x)) \<and>
   (\<exists>s. itostr_int y junk = Some s \<and> String2Int_atoi s = (0, sint y))"
proof -
  have ne: "signed_decimal i \<noteq> []" for i by (simp add: signed_decimal_def)
  have "strtoll (signed_decimal (sint x)) = sint x"
    using sint_lt [of x] sint_ge [of x] by (intro strtoll_signed_decimal) auto
  moreover have "strtoll (signed_decimal (sint y)) = sint y"
    using sint_lt [of y] sint_ge [of y] by (intro strtoll_signed_decimal) auto
  ultimately show ?thesis
    using ne by (auto simp: itostr_int64_decimal itostr_int_decimal String2Int64_atoi64_def String2Int_atoi_def atoi_def)
qed

section \<open>Amounts of money\<close>

lemma itos_decimal: "itos n = decimal (unat n)"
  by (simp add: itos_def itostr_uint64_decimal)


definition three_digits :: "nat \<Rightarrow> string" where
  "three_digits m = [digit_char (m div 100), digit_char (m div 10 mod 10), digit_char (m mod 10)]"

text \<open>The amount \<open>n\<close> in li with \<open>k\<close> digits after the point, cut and not rounded.\<close>

definition money_text :: "nat \<Rightarrow> nat \<Rightarrow> string" where
  "money_text n k = decimal (n div 1000) @
     (if k = 0 then [] else CHR ''.'' # take k (three_digits (n mod 1000)) @ replicate (k - 3) (CHR ''0''))"

lemma digit_char_0: "digit_char 0 = CHR ''0''"
  using decimal_0 by (simp add: decimal_small)

lemma decimal_2: "10 \<le> m \<Longrightarrow> m < 100 \<Longrightarrow> decimal m = [digit_char (m div 10), digit_char (m mod 10)]"
  by (simp add: decimal_big decimal_small)

lemma decimal_3: "100 \<le> m \<Longrightarrow> m < 1000 \<Longrightarrow> decimal m = three_digits m"
  by (simp add: decimal_big decimal_small three_digits_def div_mult2_eq [symmetric])

lemma padded_3:
  "m < 1000 \<Longrightarrow> (if 100 \<le> m then CHR ''.'' # decimal m else if 10 \<le> m then ''.0'' @ decimal m
     else ''.00'' @ decimal m) = CHR ''.'' # three_digits m"
  by (auto simp: decimal_3 decimal_2 decimal_small three_digits_def digit_char_0)

lemma padded_2:
  "m < 1000 \<Longrightarrow> (if 10 \<le> m div 10 then CHR ''.'' # decimal (m div 10) else ''.0'' @ decimal (m div 10))
     = CHR ''.'' # take 2 (three_digits m)"
  using mod_mult2_eq [of m 10 10]
  by (cases "100 \<le> m") (simp_all add: decimal_2 decimal_small three_digits_def digit_char_0 div_mult2_eq [symmetric])

lemma padded_1: "m < 1000 \<Longrightarrow> decimal (m div 100) = take 1 (three_digits m)"
  by (simp add: decimal_small three_digits_def)

lemma replicate_3: "replicate 3 x = [x, x, x]"
  by (simp add: numeral_3_eq_3)

lemma iLiToStr_money_text:
  assumes "k \<in> {0, 1, 2, 3, 4, 6}" and "k = 1 \<longrightarrow> n \<noteq> 0"
  shows "iLiToStr n k = money_text (unat n) k"
proof (cases "n = 0")
  case True
  have z: "decimal 0 = ''0''" "three_digits 0 = ''000''"
    by (simp_all add: decimal_0 three_digits_def digit_char_0)
  from assms True consider "k = 0" | "k = 2" | "k = 3" | "k = 4" | "k = 6" by auto
  then show ?thesis using True by cases (simp_all add: iLiToStr_def money_text_def z replicate_3)
next
  case False
  have m: "unat n mod 1000 < 1000" by simp
  have w: "100 \<le> n mod 1000 \<longleftrightarrow> 100 \<le> unat n mod 1000" "10 \<le> n mod 1000 \<longleftrightarrow> 10 \<le> unat n mod 1000"
    "10 \<le> n mod 1000 div 10 \<longleftrightarrow> 10 \<le> unat n mod 1000 div 10"
    by (simp_all add: word_le_nat_alt unat_mod unat_div)
  have u: "unat (n div 1000) = unat n div 1000" "unat (n mod 1000) = unat n mod 1000"
    "unat (n mod 1000 div 10) = unat n mod 1000 div 10" "unat (n mod 1000 div 100) = unat n mod 1000 div 100"
    by (simp_all add: unat_mod unat_div)
  from assms(1) consider "k = 0" | "k = 1" | "k = 2" | "3 \<le> k" "k = 3 \<or> k = 4 \<or> k = 6" by auto
  then show ?thesis
  proof cases
    case 4
    then have "take k (three_digits m) = three_digits m" for m by (simp add: three_digits_def)
    then show ?thesis
      using False 4 padded_3 [OF m] by (auto simp: iLiToStr_def money_text_def Let_def itos_decimal w u replicate_3)
  qed (use False padded_1 [OF m] padded_2 [OF m] in
       \<open>simp_all add: iLiToStr_def money_text_def Let_def itos_decimal w u split: if_splits\<close>)
qed

lemma yuan_zeros: "3 < i \<Longrightarrow> yuan_digits n i b t = replicate n (CHR ''0'')"
  by (induction n arbitrary: i) auto

lemma yuan_digits_three:
  assumes "b < 1000"
  shows "yuan_digits k 1 (word_of_nat b) 1000 = take k (three_digits b) @ replicate (k - 3) (CHR ''0'')"
proof -
  have b32: "unat (word_of_nat b :: u32) = b"
    using assms by (simp add: unat_of_nat take_bit_nat_eq_self)
  have t: "(1000 :: u32) div 10 = 100" "(100 :: u32) div 10 = 10" "(10 :: u32) div 10 = 1" by simp_all
  have i: "itos (ucast (w :: u32)) = decimal (unat w)" for w
  proof -
    have "unat w < 2 ^ 64" using unsigned_less [of w, where ?'a = nat] by simp
    then show ?thesis by (simp add: itos_decimal unsigned_ucast_eq take_bit_nat_eq_self)
  qed
  have d: "unat ((word_of_nat b :: u32) div 100) = b div 100"
    "unat ((word_of_nat b :: u32) mod 100 div 10) = b mod 100 div 10"
    "unat ((word_of_nat b :: u32) mod 100 mod 10 div 1) = b mod 100 mod 10"
    by (simp_all add: unat_div unat_mod b32)
  have one: "decimal (b div 100) = [digit_char (b div 100)]" "decimal (b mod 100 div 10) = [digit_char (b div 10 mod 10)]"
    "decimal (b mod 100 mod 10) = [digit_char (b mod 10)]"
    using assms mod_mult2_eq [of b 10 10] by (simp_all add: decimal_small)
  consider "k = 0" | "k = Suc 0" | "k = Suc (Suc 0)" | m where "k = Suc (Suc (Suc m))"
    by (metis not0_implies_Suc)
  then show ?thesis
  proof cases
    case 4
    then show ?thesis
      using d one by (simp add: i t yuan_zeros three_digits_def)
  qed (use d one in \<open>simp_all add: i t three_digits_def\<close>)
qed

lemma StringLiToStringYuan_signed:
  assumes "- (2 ^ 63) < i" and "i < 2 ^ 63"
  shows "StringLiToStringYuan (signed_decimal i) k =
    (0, (if i < 0 then ''-'' else []) @
        money_text (nat \<bar>i\<bar>) 0 @ (if k = 0 then [] else CHR ''.'' # take k (three_digits (nat \<bar>i\<bar> mod 1000)) @ replicate (k - 3) (CHR ''0'')))"
proof -
  let ?w = "word_of_int \<bar>i\<bar> :: u64"
  have l: "strtoll (signed_decimal i) = i" using assms by (intro strtoll_signed_decimal) auto
  have ne: "signed_decimal i \<noteq> []" by (simp add: signed_decimal_def)
  have u: "unat ?w = nat \<bar>i\<bar>"
    using assms by (simp add: unat_eq_nat_uint uint_word_of_int_eq take_bit_int_eq_self)
  have m: "nat \<bar>i\<bar> mod 1000 < 1000" by simp
  have "unat (?w mod 1000) = nat \<bar>i\<bar> mod 1000" using u by (simp add: unat_mod)
  then have c: "(ucast (?w mod 1000) :: u32) = word_of_nat (nat \<bar>i\<bar> mod 1000)"
    by (metis of_nat_unat)
  have d: "unat (?w div 1000) = nat \<bar>i\<bar> div 1000" using u by (simp add: unat_div)
  show ?thesis
    using yuan_digits_three [OF m, of k]
    by (simp add: StringLiToStringYuan_def String2Int64_atoi64_def ne l Let_def itos_decimal d money_text_def c del: of_nat_mod)
qed

lemma money_text_split: "money_text n 0 @ (if k = 0 then [] else CHR ''.'' # take k (three_digits (n mod 1000)) @ replicate (k - 3) (CHR ''0'')) = money_text n k"
  by (simp add: money_text_def)

text \<open>
  The two routines that print an amount agree: \<open>StringLiToStringYuan\<close> on the decimal notation
  of a signed amount gives its sign and what \<open>iLiToStr\<close> gives for its magnitude.
\<close>

theorem money_printers_agree:
  assumes "- (2 ^ 63) < i" and "i < 2 ^ 63" and "k \<in> {0, 1, 2, 3, 4, 6}" and "k = 1 \<longrightarrow> i \<noteq> 0"
  shows "StringLiToStringYuan (signed_decimal i) k =
         (0, (if i < 0 then ''-'' else []) @ iLiToStr (word_of_int \<bar>i\<bar>) k)"
proof -
  have u: "unat (word_of_int \<bar>i\<bar> :: u64) = nat \<bar>i\<bar>"
    using assms by (simp add: unat_eq_nat_uint uint_word_of_int_eq take_bit_int_eq_self)
  then have "k = 1 \<longrightarrow> (word_of_int \<bar>i\<bar> :: u64) \<noteq> 0" using assms(4) by (auto simp: unat_eq_0)
  then show ?thesis
    using iLiToStr_money_text [OF assms(3)] StringLiToStringYuan_signed [OF assms(1,2), of k] u
    by (simp only: money_text_split)
qed

lemma money_printers_agree_witness:
  "StringLiToStringYuan (signed_decimal (-1234567)) 4 =
   (0, (if (-1234567 :: int) < 0 then ''-'' else []) @ iLiToStr (word_of_int \<bar>-1234567\<bar>) 4)"
  by (rule money_printers_agree) simp_all

lemma split_at_none: "d \<notin> set s \<Longrightarrow> split_at d s = [s]"
  by (induction s) auto

lemma split_at_once: "d \<notin> set s \<Longrightarrow> split_at d (s @ d # t) = s # split_at d t"
  by (induction s) auto

lemma digits_no_point: "list_all is_digit s \<Longrightarrow> CHR ''.'' \<notin> set s"
  by (induction s) (auto dest: is_digitD)

lemma atoi_digit: "d < 10 \<Longrightarrow> atoi [digit_char d] = int d"
proof -
  assume d: "d < 10"
  then have "scan_number [digit_char d] = (False, d)" using scan_decimal [of d] by (simp add: decimal_small)
  then have l: "strtoll [digit_char d] = int d" using d by (simp add: strtoll_def)
  have "sint (word_of_int (int d) :: u32) = int d"
  proof -
    from d have "d = 0 \<or> d = 1 \<or> d = 2 \<or> d = 3 \<or> d = 4 \<or> d = 5 \<or> d = 6 \<or> d = 7 \<or> d = 8 \<or> d = 9" by arith
    then show ?thesis by (elim disjE) simp_all
  qed
  then show ?thesis by (simp add: atoi_def l)
qed

lemma money_after_point_digits:
  assumes "m < 1000"
  shows "money_after_point (three_digits m @ xs) = word_of_nat m"
proof -
  have "m div 100 < 10" using assms by simp
  then have "money_after_point (three_digits m @ xs) =
    word_of_int (int (m div 100) * 100 + int (m div 10 mod 10) * 10 + int (m mod 10))"
    by (simp add: money_after_point_def three_digits_def atoi_digit Let_def del: of_int_add of_int_mult)
  moreover have "m div 100 * 100 + m div 10 mod 10 * 10 + m mod 10 = m"
    using div_mult_mod_eq [of "m div 10" 10] div_mult_mod_eq [of m 10] div_mult2_eq [of m 10 10, simplified] by linarith
  then have "int (m div 100) * 100 + int (m div 10 mod 10) * 10 + int (m mod 10) = int m"
    by linarith
  ultimately show ?thesis by simp
qed

lemma three_digits_digits: "m < 1000 \<Longrightarrow> list_all is_digit (three_digits m)"
  by (simp add: three_digits_def)

lemma zeros_digits: "list_all is_digit (replicate n (CHR ''0''))"
  using is_digit_char [of 0] by (induction n) (simp_all add: digit_char_0)

text \<open>
  Printing an amount with at least three digits after the point and reading it again gives the
  amount back, for every 64-bit amount.
\<close>

theorem money_roundtrip:
  assumes "k \<in> {3, 4, 6}"
  shows "String2UInt64MoneyInLi_strtoui64 (iLiToStr n k) = (0, n)"
proof -
  let ?b = "decimal (unat n div 1000)" and ?m = "unat n mod 1000"
  let ?a = "three_digits ?m @ replicate (k - 3) (CHR ''0'')"
  have "iLiToStr n k = money_text (unat n) k" using assms by (intro iLiToStr_money_text) auto
  moreover have "take k (three_digits ?m) = three_digits ?m" using assms by (auto simp: three_digits_def)
  ultimately have s: "iLiToStr n k = ?b @ CHR ''.'' # ?a"
    using assms by (auto simp: money_text_def)
  have "CHR ''.'' \<notin> set ?b" by (intro digits_no_point decimal_digits)
  moreover have "CHR ''.'' \<notin> set ?a"
    by (intro digits_no_point) (simp add: three_digits_digits zeros_digits)
  ultimately have sp: "split_at (CHR ''.'') (iLiToStr n k) = [?b, ?a]"
    using split_at_once split_at_none by (metis s)
  have lt: "unat n div 1000 < 2 ^ 64" using unat_less_2p64 [of n] by simp
  have "word_of_nat (unat n div 1000) * 1000 + word_of_nat ?m = (word_of_nat (unat n div 1000 * 1000 + ?m) :: u64)"
    by (simp only: of_nat_add of_nat_mult of_nat_numeral)
  also have "\<dots> = n" by (simp only: div_mult_mod_eq) simp
  finally have "strtoull ?b * 1000 + money_after_point ?a = n"
    using strtoull_decimal [OF lt] money_after_point_digits [of ?m] by simp
  then show ?thesis
    using s sp by (simp add: String2UInt64MoneyInLi_strtoui64_def Let_def)
qed

lemma money_roundtrip_witness: "String2UInt64MoneyInLi_strtoui64 (iLiToStr 9990010 4) = (0, 9990010)"
  by (rule money_roundtrip) simp

end
