(* ===== verification/MatchRule.thy ===== *)
theory MatchRule
  imports TradePolicyManage TgwStringUtil "HOL-Library.List_Lexorder" "HOL-Library.Char_ord"
begin

text \<open>
  \<open>match_rule/MatchRule_Base.h\<close>, \<open>MatchRule_Sh.cpp\<close>, \<open>MatchRule_Sz.cpp\<close> and \<open>MatchRule.cpp\<close>: the
  rules by which an order is matched instead of a quotation.  A rule has conditions, each a field and
  a regular expression; an order takes the first rule of its connection whose conditions it meets.
  The rules are objects at addresses, because orders that wait for their match hold them: replacing a
  rule changes the object, reloading makes new ones.

  JSON values, the regular expressions, the JSON parser and writer and the database are the libraries
  the code calls.  The values of a JSON document are data; the rest is a parameter (\<open>rule_lib\<close>).
  A regular expression is its text, \<open>None\<close> before any text is assigned, when it matches nothing.
\<close>

section \<open>Libraries\<close>

datatype json = JNull | JBool bool | JInt int | JReal string | JStr string
  | JArr "json list" | JObj "(string \<times> json) list"

fun is_JStr :: "json \<Rightarrow> bool" where
  "is_JStr (JStr _) = True"
| "is_JStr _ = False"

fun is_JObj :: "json \<Rightarrow> bool" where
  "is_JObj (JObj _) = True"
| "is_JObj _ = False"

fun is_JArr :: "json \<Rightarrow> bool" where
  "is_JArr (JArr _) = True"
| "is_JArr _ = False"

text \<open>
  The outcome of a call: a return code, an exception that leaves the call, or a call that breaks a
  precondition of the JSON library (an assertion of the library, undefined without it).
\<close>

datatype outcome = Ret int | Throws | Undefined

record rule_lib =
  regex_ok :: "string \<Rightarrow> bool"
  regex_match :: "string \<Rightarrow> string \<Rightarrow> bool"
  json_parse :: "string \<Rightarrow> json option"
  json_write :: "json \<Rightarrow> string"

text \<open>
  The database: whether the pool gives a connection, what a statement returns (the code of the
  library and the affected rows), and what a query returns; a value of a row is a null flag and a text.
\<close>

record rule_db =
  db_connected :: bool
  db_exec :: "string \<Rightarrow> int \<times> u64"
  db_query :: "string \<Rightarrow> int \<times> (string \<Rightarrow> bool \<times> string) list"

section \<open>Rules\<close>

record 'k MATCH_RULE =
  rule_ui64RuleId :: u64
  ui64Timestamp :: u64
  docRegexes :: json
  docRuleConfirm :: json
  docRuleMatch :: json
  mapRegexs :: "('k, string option) omap"

definition MATCH_RULE_new :: "'k MATCH_RULE" where
  "MATCH_RULE_new = \<lparr>rule_ui64RuleId = 0, ui64Timestamp = 0, docRegexes = JObj [], docRuleConfirm = JObj [],
     docRuleMatch = JArr [], mapRegexs = []\<rparr>"

text \<open>The rules, by number, and the statements that were committed.\<close>

record 'k RuleStore =
  rule_heap :: "'k MATCH_RULE list"
  m_mapRules :: "(u64, nat) omap"
  committed :: "string list"

definition RuleStore_new :: "'k RuleStore" where
  "RuleStore_new = \<lparr>rule_heap = [], m_mapRules = [], committed = []\<rparr>"

text \<open>\<open>mapRegexs[strName].assign(strValue)\<close>: the entry exists, matching nothing, when the assignment throws.\<close>

definition assign_regex ::
  "(string \<Rightarrow> bool) \<Rightarrow> 'k::linorder \<Rightarrow> string \<Rightarrow> ('k, string option) omap \<Rightarrow> bool \<times> ('k, string option) omap" where
  "assign_regex ok k p m =
     (let m1 = (if map_of m k = None then omap_put k None m else m)
      in if ok p then (True, omap_put k (Some p) m1) else (False, m1))"

fun set_conditions ::
  "(string \<Rightarrow> bool) \<Rightarrow> (string \<Rightarrow> 'k::linorder) \<Rightarrow> (string \<times> json) list \<Rightarrow> ('k, string option) omap \<Rightarrow>
   outcome \<times> ('k, string option) omap" where
  "set_conditions ok key [] m = (Ret 0, m)"
| "set_conditions ok key ((name, v) # cs) m =
     (case v of
        JStr p \<Rightarrow>
          (case assign_regex ok (key (c_str name)) (c_str p) m of
             (True, m1) \<Rightarrow> set_conditions ok key cs m1
           | (False, m1) \<Rightarrow> (Throws, m1))
      | _ \<Rightarrow> (Undefined, m))"

definition SetRegex ::
  "(string \<Rightarrow> bool) \<Rightarrow> (string \<Rightarrow> 'k::linorder) \<Rightarrow> u64 \<Rightarrow> json \<Rightarrow> u64 \<Rightarrow> 'k MATCH_RULE \<Rightarrow> outcome \<times> 'k MATCH_RULE" where
  "SetRegex ok key iRuleId cond timestamp r =
     (let r1 = r\<lparr>rule_ui64RuleId := iRuleId, docRegexes := cond\<rparr> in
      case cond of
        JObj cs \<Rightarrow>
          (case set_conditions ok key cs (mapRegexs r1) of
             (Ret n, m) \<Rightarrow> (Ret 0, r1\<lparr>mapRegexs := m, ui64Timestamp := timestamp\<rparr>)
           | (e, m) \<Rightarrow> (e, r1\<lparr>mapRegexs := m\<rparr>))
      | _ \<Rightarrow> (Undefined, r1))"

text \<open>The field a condition of Shanghai names is a column of the order, that of Shenzhen a FIX tag.\<close>

definition sh_key :: "string \<Rightarrow> string" where
  "sh_key name = name"

definition sz_key :: "string \<Rightarrow> int" where
  "sz_key name = snd (String2Int_atoi name)"

definition SetRuleConfirm :: "json \<Rightarrow> 'k MATCH_RULE \<Rightarrow> 'k MATCH_RULE" where
  "SetRuleConfirm v r = r\<lparr>docRuleConfirm := v\<rparr>"

definition SetRuleMatch :: "json \<Rightarrow> 'k MATCH_RULE \<Rightarrow> 'k MATCH_RULE" where
  "SetRuleMatch v r = r\<lparr>docRuleMatch := v\<rparr>"

section \<open>Inserting a rule\<close>

text \<open>The texts of the update statement; \<open>sq\<close> is the quote of SQL.\<close>

definition sq :: string where
  "sq = [CHR 0x27]"

definition sql_quoted :: "string \<Rightarrow> string" where
  "sql_quoted v = '','' @ sq @ v @ sq"

definition sql_document :: "rule_lib \<Rightarrow> bool \<Rightarrow> (string \<times> json) list \<Rightarrow> string \<Rightarrow> string" where
  "sql_document lib null_checked ms name =
     (case map_of ms name of
        None \<Rightarrow> '',NULL''
      | Some v \<Rightarrow>
          if null_checked \<and> v = JNull then '',NULL''
          else let t = c_str (json_write lib v) in
            if t = [] \<or> t = ''\"\"'' then '',NULL'' else sql_quoted t)"

definition sql_rule_name :: "(string \<times> json) list \<Rightarrow> string" where
  "sql_rule_name ms = sq @
     (case map_of ms ''rule_name'' of
        Some (JStr n) \<Rightarrow> if c_str n = [] then '',NULL'' else sql_quoted (c_str n)
      | _ \<Rightarrow> '',NULL'')"

definition update_sql ::
  "rule_lib \<Rightarrow> string \<Rightarrow> string \<Rightarrow> bool \<Rightarrow> string \<Rightarrow> json \<Rightarrow> (string \<times> json) list \<Rightarrow> int \<Rightarrow> string" where
  "update_sql lib table idcol check_null strRuleId cond ms ts =
     (let strJudgeCondValue = c_str (json_write lib cond) in
      ''REPLACE INTO `'' @ table @ ''`(`'' @ idcol @ ''`,`rule_name`,`judge_cond`,`rule_check`,'' @
      ''`rule_confirm`,`rule_match`,`rule_wth`,`rule_settlement`,`is_delete`,'' @
      ''`changer`,`change_time`) VALUES ('' @ sq @ strRuleId @ sql_rule_name ms @
      (if strJudgeCondValue = [] then '',NULL'' else sql_quoted strJudgeCondValue) @
      sql_document lib check_null ms ''check'' @ sql_document lib True ms ''confirm'' @
      sql_document lib True ms ''match'' @ sql_document lib True ms ''wth'' @
      sql_document lib True ms ''settlement'' @
      '',0,'' @ sq @ ''simutgw'' @ sq @ '',from_unixtime('' @ signed_decimal ts @ ''));'')"

text \<open>A statement that affects more than two rows, or is not executed, is rolled back.\<close>

definition run_update :: "rule_db \<Rightarrow> string \<Rightarrow> 'k RuleStore \<Rightarrow> outcome \<times> 'k RuleStore" where
  "run_update db sql s =
     (if \<not> db_connected db then (Ret (-1), s)
      else (case db_exec db sql of (iRes, ulAffectedRows) \<Rightarrow>
        if iRes = 2 then
          if 2 < ulAffectedRows then (Ret (-1), s)
          else (Ret 0, s\<lparr>committed := committed s @ [sql]\<rparr>)
        else (Ret (-1), s)))"

definition UpdateSingleRuleToDb_Sh ::
  "rule_lib \<Rightarrow> rule_db \<Rightarrow> string \<Rightarrow> json \<Rightarrow> (string \<times> json) list \<Rightarrow> int \<Rightarrow> string RuleStore \<Rightarrow>
   outcome \<times> string RuleStore" where
  "UpdateSingleRuleToDb_Sh lib db strRuleId cond ms ts =
     run_update db (update_sql lib ''match_rule_sh'' ''idmatch_rule_sh'' False strRuleId cond ms ts)"

definition UpdateSingleRuleToDb_Sz ::
  "rule_lib \<Rightarrow> rule_db \<Rightarrow> string \<Rightarrow> json \<Rightarrow> (string \<times> json) list \<Rightarrow> int \<Rightarrow> int RuleStore \<Rightarrow>
   outcome \<times> int RuleStore" where
  "UpdateSingleRuleToDb_Sz lib db strRuleId cond ms ts =
     run_update db (update_sql lib ''match_rule_sz'' ''idmatch_rule_sz'' True strRuleId cond ms ts)"

text \<open>The members of the document a rule is read from.\<close>

definition rule_id_text :: "(string \<times> json) list \<Rightarrow> string option" where
  "rule_id_text ms = (case map_of ms ''ruleid'' of Some (JStr t) \<Rightarrow> Some (c_str t) | _ \<Rightarrow> None)"

definition conditions_legal :: "(string \<times> json) list \<Rightarrow> bool" where
  "conditions_legal ms =
     (case map_of ms ''judge_cond'' of Some (JObj cs) \<Rightarrow> list_all (\<lambda>(name, v). is_JStr v) cs | _ \<Rightarrow> True)"

definition is_int32 :: "int \<Rightarrow> bool" where
  "is_int32 i \<longleftrightarrow> - (2 ^ 31) \<le> i \<and> i < 2 ^ 31"

definition rule_time :: "(string \<times> json) list \<Rightarrow> int" where
  "rule_time ms = (case map_of ms ''timestamp'' of Some (JInt i) \<Rightarrow> if is_int32 i then i else 0 | _ \<Rightarrow> 0)"

text \<open>
  The documents of a rule.  Shanghai takes an array of matches.  Shenzhen takes an object, and for a
  new rule stores the confirmation in its place.
\<close>

definition sh_documents :: "(string \<times> json) list \<Rightarrow> 'k MATCH_RULE \<Rightarrow> 'k MATCH_RULE option" where
  "sh_documents ms r =
     (let r1 = (case map_of ms ''confirm'' of Some (JObj c) \<Rightarrow> SetRuleConfirm (JObj c) r | _ \<Rightarrow> r)
      in Some (case map_of ms ''match'' of Some (JArr a) \<Rightarrow> SetRuleMatch (JArr a) r1 | _ \<Rightarrow> r1))"

definition sz_documents_new :: "(string \<times> json) list \<Rightarrow> 'k MATCH_RULE \<Rightarrow> 'k MATCH_RULE option" where
  "sz_documents_new ms r =
     (let r1 = (case map_of ms ''confirm'' of Some (JObj c) \<Rightarrow> SetRuleConfirm (JObj c) r | _ \<Rightarrow> r)
      in case map_of ms ''match'' of
           Some (JObj a) \<Rightarrow> (case map_of ms ''confirm'' of None \<Rightarrow> None | Some v \<Rightarrow> Some (SetRuleMatch v r1))
         | _ \<Rightarrow> Some r1)"

definition sz_documents_old :: "(string \<times> json) list \<Rightarrow> 'k MATCH_RULE \<Rightarrow> 'k MATCH_RULE option" where
  "sz_documents_old ms r =
     (let r1 = (case map_of ms ''confirm'' of Some (JObj c) \<Rightarrow> SetRuleConfirm (JObj c) r | _ \<Rightarrow> r)
      in Some (case map_of ms ''match'' of Some (JObj a) \<Rightarrow> SetRuleMatch (JObj a) r1 | _ \<Rightarrow> r1))"

text \<open>
  \<open>InsertSingleRule_Withoutlock\<close>; the two markets differ in the key of a condition and in how the
  documents are taken.  A rule that is there is changed in place, condition by condition.
\<close>

definition put_rule :: "nat \<Rightarrow> 'k MATCH_RULE \<Rightarrow> 'k RuleStore \<Rightarrow> 'k RuleStore" where
  "put_rule a r s = s\<lparr>rule_heap := (rule_heap s)[a := r]\<rparr>"

definition store_rule ::
  "(string \<Rightarrow> bool) \<Rightarrow> (string \<Rightarrow> 'k::linorder) \<Rightarrow>
   ((string \<times> json) list \<Rightarrow> 'k MATCH_RULE \<Rightarrow> 'k MATCH_RULE option) \<Rightarrow>
   ((string \<times> json) list \<Rightarrow> 'k MATCH_RULE \<Rightarrow> 'k MATCH_RULE option) \<Rightarrow>
   u64 \<Rightarrow> u64 \<Rightarrow> json \<Rightarrow> (string \<times> json) list \<Rightarrow> 'k RuleStore \<Rightarrow> outcome \<times> 'k RuleStore" where
  "store_rule ok key new_docs old_docs ruleId ts cond ms s =
     (case map_of (m_mapRules s) ruleId of
        None \<Rightarrow>
          (case SetRegex ok key ruleId cond ts MATCH_RULE_new of
             (Ret n, r) \<Rightarrow>
               (case new_docs ms r of
                  None \<Rightarrow> (Undefined, s)
                | Some r1 \<Rightarrow> (Ret 0, s\<lparr>rule_heap := rule_heap s @ [r1],
                                  m_mapRules := omap_put ruleId (length (rule_heap s)) (m_mapRules s)\<rparr>))
           | (e, r) \<Rightarrow> (e, s))
      | Some a \<Rightarrow>
          (case SetRegex ok key ruleId cond ts (rule_heap s ! a) of
             (Ret n, r) \<Rightarrow>
               (case old_docs ms r of None \<Rightarrow> (Undefined, put_rule a r s) | Some r1 \<Rightarrow> (Ret 0, put_rule a r1 s))
           | (e, r) \<Rightarrow> (e, put_rule a r s)))"

definition insert_single ::
  "(string \<Rightarrow> bool) \<Rightarrow> (string \<Rightarrow> 'k::linorder) \<Rightarrow>
   ((string \<times> json) list \<Rightarrow> 'k MATCH_RULE \<Rightarrow> 'k MATCH_RULE option) \<Rightarrow>
   ((string \<times> json) list \<Rightarrow> 'k MATCH_RULE \<Rightarrow> 'k MATCH_RULE option) \<Rightarrow>
   (string \<Rightarrow> json \<Rightarrow> (string \<times> json) list \<Rightarrow> int \<Rightarrow> 'k RuleStore \<Rightarrow> outcome \<times> 'k RuleStore) \<Rightarrow>
   bool \<Rightarrow> json \<Rightarrow> 'k RuleStore \<Rightarrow> outcome \<times> 'k RuleStore" where
  "insert_single ok key new_docs old_docs upd bUpdateToDb docValue s =
     (case docValue of
        JObj ms \<Rightarrow>
          (case rule_id_text ms of
             None \<Rightarrow> (Ret (-1), s)
           | Some strRuleId \<Rightarrow>
               (case String2UInt64_strtoui64 strRuleId of (iRes, ruleId) \<Rightarrow>
                  if iRes \<noteq> 0 then (Ret (-1), s)
                  else if \<not> conditions_legal ms then (Ret (-1), s)
                  else if rule_time ms = 0 then (Ret (-1), s)
                  else (case map_of ms ''judge_cond'' of
                      None \<Rightarrow> (Undefined, s)
                    | Some cond \<Rightarrow>
                        (case store_rule ok key new_docs old_docs ruleId (word_of_int (rule_time ms)) cond ms s of
                           (Ret n, s1) \<Rightarrow>
                             if bUpdateToDb then upd strRuleId cond ms (rule_time ms) s1 else (Ret 0, s1)
                         | (e, s1) \<Rightarrow> (e, s1)))))
      | _ \<Rightarrow> (Undefined, s))"

definition InsertSingleRule_Sh ::
  "rule_lib \<Rightarrow> rule_db \<Rightarrow> bool \<Rightarrow> json \<Rightarrow> string RuleStore \<Rightarrow> outcome \<times> string RuleStore" where
  "InsertSingleRule_Sh lib db =
     insert_single (regex_ok lib) sh_key sh_documents sh_documents (UpdateSingleRuleToDb_Sh lib db)"

definition InsertSingleRule_Sz ::
  "rule_lib \<Rightarrow> rule_db \<Rightarrow> bool \<Rightarrow> json \<Rightarrow> int RuleStore \<Rightarrow> outcome \<times> int RuleStore" where
  "InsertSingleRule_Sz lib db =
     insert_single (regex_ok lib) sz_key sz_documents_new sz_documents_old (UpdateSingleRuleToDb_Sz lib db)"

fun insert_each ::
  "(json \<Rightarrow> 'k RuleStore \<Rightarrow> outcome \<times> 'k RuleStore) \<Rightarrow> json list \<Rightarrow> 'k RuleStore \<Rightarrow> outcome \<times> 'k RuleStore" where
  "insert_each ins [] s = (Ret 0, s)"
| "insert_each ins (d # ds) s =
     (case ins d s of
        (Ret n, s1) \<Rightarrow> if n \<noteq> 0 then (Ret (-1), s1) else insert_each ins ds s1
      | (e, s1) \<Rightarrow> (e, s1))"

definition insert_rules ::
  "(json \<Rightarrow> 'k RuleStore \<Rightarrow> outcome \<times> 'k RuleStore) \<Rightarrow> json \<Rightarrow> 'k RuleStore \<Rightarrow> outcome \<times> 'k RuleStore" where
  "insert_rules ins docValue s =
     (case docValue of
        JArr ds \<Rightarrow> insert_each ins ds s
      | JObj ms \<Rightarrow> insert_each ins [docValue] s
      | _ \<Rightarrow> (Ret (-1), s))"

definition InsertRule_Sh ::
  "rule_lib \<Rightarrow> rule_db \<Rightarrow> json \<Rightarrow> bool \<Rightarrow> string RuleStore \<Rightarrow> outcome \<times> string RuleStore" where
  "InsertRule_Sh lib db docValue bUpdateToDb = insert_rules (InsertSingleRule_Sh lib db bUpdateToDb) docValue"

definition InsertRule_Sz ::
  "rule_lib \<Rightarrow> rule_db \<Rightarrow> json \<Rightarrow> bool \<Rightarrow> int RuleStore \<Rightarrow> outcome \<times> int RuleStore" where
  "InsertRule_Sz lib db docValue bUpdateToDb = insert_rules (InsertSingleRule_Sz lib db bUpdateToDb) docValue"

section \<open>Reloading the rules from the database\<close>

definition row_document :: "rule_lib \<Rightarrow> (string \<Rightarrow> bool \<times> string) \<Rightarrow> string \<Rightarrow> string \<Rightarrow> (string \<times> json) list option" where
  "row_document lib row col name =
     (if snd (row col) = [] then Some []
      else (case json_parse lib (c_str (snd (row col))) of
          None \<Rightarrow> None
        | Some d \<Rightarrow> if d = JNull then None else Some [(name, d)]))"

definition row_element :: "rule_lib \<Rightarrow> string \<Rightarrow> (string \<Rightarrow> bool \<times> string) \<Rightarrow> json option" where
  "row_element lib idcol row =
     (if fst (row idcol) \<or> snd (row idcol) = [] then None
      else Option.bind (row_document lib row ''judge_cond'' ''judge_cond'') (\<lambda>cond.
        Option.bind (row_document lib row ''rule_confirm'' ''confirm'') (\<lambda>confirm.
        Option.bind (row_document lib row ''rule_match'' ''match'') (\<lambda>rmatch.
        (case String2UInt64_strtoui64 (snd (row ''RULE_CHANGE_TIME'')) of (iRes, t) \<Rightarrow>
          if iRes \<noteq> 0 then None
          else Some (JObj ((''ruleid'', JStr (c_str (snd (row idcol)))) # cond @ confirm @ rmatch @
                           [(''timestamp'', JInt (uint t))])))))))"

fun row_elements :: "rule_lib \<Rightarrow> string \<Rightarrow> (string \<Rightarrow> bool \<times> string) list \<Rightarrow> json list option" where
  "row_elements lib idcol [] = Some []"
| "row_elements lib idcol (row # rows) =
     (case row_element lib idcol row of
        None \<Rightarrow> None
      | Some d \<Rightarrow> map_option (\<lambda>ds. d # ds) (row_elements lib idcol rows))"

definition reload_sql :: "string \<Rightarrow> string \<Rightarrow> string" where
  "reload_sql table idcol =
     ''SELECT `'' @ idcol @ ''`,`judge_cond`,`rule_check`,`rule_confirm`,'' @
     ''`rule_match`,`rule_wth`,`rule_settlement`,unix_timestamp(`change_time`) AS RULE_CHANGE_TIME FROM `'' @
     table @ ''` WHERE `is_delete`=0;''"

text \<open>The store is emptied first; an exception is caught and gives -1.\<close>

definition reload_rules ::
  "(json \<Rightarrow> 'k RuleStore \<Rightarrow> outcome \<times> 'k RuleStore) \<Rightarrow> rule_lib \<Rightarrow> rule_db \<Rightarrow> string \<Rightarrow> string \<Rightarrow> 'k RuleStore \<Rightarrow>
   outcome \<times> 'k RuleStore" where
  "reload_rules ins lib db table idcol s =
     (let s1 = s\<lparr>m_mapRules := []\<rparr> in
      if \<not> db_connected db then (Ret (-1), s1)
      else (case db_query db (reload_sql table idcol) of (iRes, rows) \<Rightarrow>
        if iRes \<noteq> 1 then (Ret (-1), s1)
        else (case row_elements lib idcol rows of
            None \<Rightarrow> (Ret (-1), s1)
          | Some ds \<Rightarrow>
              (case insert_rules ins (JArr ds) s1 of
                 (Ret n, s2) \<Rightarrow> (Ret (if n \<noteq> 0 then -1 else 0), s2)
               | (Throws, s2) \<Rightarrow> (Ret (-1), s2)
               | (Undefined, s2) \<Rightarrow> (Undefined, s2)))))"

definition ReloadFromDb_Sh :: "rule_lib \<Rightarrow> rule_db \<Rightarrow> string RuleStore \<Rightarrow> outcome \<times> string RuleStore" where
  "ReloadFromDb_Sh lib db =
     reload_rules (InsertSingleRule_Sh lib db False) lib db ''match_rule_sh'' ''idmatch_rule_sh''"

definition ReloadFromDb_Sz :: "rule_lib \<Rightarrow> rule_db \<Rightarrow> int RuleStore \<Rightarrow> outcome \<times> int RuleStore" where
  "ReloadFromDb_Sz lib db =
     reload_rules (InsertSingleRule_Sz lib db False) lib db ''match_rule_sz'' ''idmatch_rule_sz''"

section \<open>Looking up the rule of an order\<close>

definition linked :: "(u64, u64) omap \<Rightarrow> u64 \<Rightarrow> bool" where
  "linked links i \<longleftrightarrow> links = [] \<or> map_of links i \<noteq> None"

definition regex_hit :: "rule_lib \<Rightarrow> string option \<Rightarrow> string \<Rightarrow> bool" where
  "regex_hit lib p v = (case p of None \<Rightarrow> False | Some t \<Rightarrow> regex_match lib t v)"

text \<open>
  The conditions of a rule against an order of Shanghai, a JSON object of strings: \<open>hit\<close> is
  \<open>bRegexHit\<close>, which a missing field leaves as it is.
\<close>

fun sh_hit :: "rule_lib \<Rightarrow> (string \<rightharpoonup> string) \<Rightarrow> (string, string option) omap \<Rightarrow> bool \<Rightarrow> bool" where
  "sh_hit lib order [] hit = hit"
| "sh_hit lib order ((name, p) # cs) hit =
     (case order name of
        None \<Rightarrow> hit
      | Some v \<Rightarrow> if regex_hit lib p v then sh_hit lib order cs True else False)"

fun find_rule_sh ::
  "rule_lib \<Rightarrow> (string \<rightharpoonup> string) \<Rightarrow> (u64, u64) omap \<Rightarrow> string MATCH_RULE list \<Rightarrow> (u64, nat) omap \<Rightarrow>
   (u64 \<times> nat) option" where
  "find_rule_sh lib order links h [] = None"
| "find_rule_sh lib order links h ((i, a) # rules) =
     (if \<not> linked links i then find_rule_sh lib order links h rules
      else if sh_hit lib order (mapRegexs (h ! a)) False then Some (i, a)
      else find_rule_sh lib order links h rules)"

definition GetRule_Sh ::
  "rule_lib \<Rightarrow> (string \<rightharpoonup> string) \<Rightarrow> (u64, u64) omap \<Rightarrow> string RuleStore \<Rightarrow> int \<times> (u64 \<times> nat) option" where
  "GetRule_Sh lib order links s =
     (case find_rule_sh lib order links (rule_heap s) (m_mapRules s) of
        None \<Rightarrow> (-1, None)
      | Some r \<Rightarrow> (0, Some r))"

text \<open>
  For Shenzhen the fields come from the FIX message; \<open>None\<close> is the search given up at a field the
  message does not have.
\<close>

fun sz_hit :: "rule_lib \<Rightarrow> (int \<rightharpoonup> string) \<Rightarrow> (int, string option) omap \<Rightarrow> bool \<Rightarrow> bool option" where
  "sz_hit lib order [] hit = Some hit"
| "sz_hit lib order ((tag, p) # cs) hit =
     (case order tag of
        None \<Rightarrow> None
      | Some v \<Rightarrow> if regex_hit lib p v then sz_hit lib order cs True else Some False)"

fun find_rule_sz ::
  "rule_lib \<Rightarrow> (int \<rightharpoonup> string) \<Rightarrow> (u64, u64) omap \<Rightarrow> int MATCH_RULE list \<Rightarrow> (u64, nat) omap \<Rightarrow>
   (u64 \<times> nat) option" where
  "find_rule_sz lib order links h [] = None"
| "find_rule_sz lib order links h ((i, a) # rules) =
     (if \<not> linked links i then find_rule_sz lib order links h rules
      else (case sz_hit lib order (mapRegexs (h ! a)) False of
          None \<Rightarrow> None
        | Some hit \<Rightarrow> if hit then Some (i, a) else find_rule_sz lib order links h rules))"

definition GetRule_Sz ::
  "rule_lib \<Rightarrow> (int \<rightharpoonup> string) \<Rightarrow> (u64, u64) omap \<Rightarrow> int RuleStore \<Rightarrow> int \<times> (u64 \<times> nat) option" where
  "GetRule_Sz lib order links s =
     (case find_rule_sz lib order links (rule_heap s) (m_mapRules s) of
        None \<Rightarrow> (-1, None)
      | Some r \<Rightarrow> (0, Some r))"

text \<open>Which rules of the administrators' list are missing or have another time.\<close>

definition CompareRuleTime_ToLocalRule :: "(u64, u64) omap \<Rightarrow> 'k RuleStore \<Rightarrow> u64 list \<Rightarrow> u64 list" where
  "CompareRuleTime_ToLocalRule mapRuleTime s out =
     out @ map fst (filter (\<lambda>(i, t). case map_of (m_mapRules s) i of
       None \<Rightarrow> True | Some a \<Rightarrow> t \<noteq> ui64Timestamp (rule_heap s ! a)) mapRuleTime)"

section \<open>The rules of both markets\<close>

record MatchRules =
  m_shRules :: "string RuleStore"
  m_szRules :: "int RuleStore"

definition failed_insert :: "outcome \<Rightarrow> outcome" where
  "failed_insert e = (case e of Ret n \<Rightarrow> Ret (if n \<noteq> 0 then -1 else n) | _ \<Rightarrow> e)"

definition InsertShRule :: "rule_lib \<Rightarrow> rule_db \<Rightarrow> json \<Rightarrow> MatchRules \<Rightarrow> outcome \<times> MatchRules" where
  "InsertShRule lib db docValue m = (case InsertRule_Sh lib db docValue True (m_shRules m) of
     (e, s) \<Rightarrow> (failed_insert e, m\<lparr>m_shRules := s\<rparr>))"

definition InsertSzRule :: "rule_lib \<Rightarrow> rule_db \<Rightarrow> json \<Rightarrow> MatchRules \<Rightarrow> outcome \<times> MatchRules" where
  "InsertSzRule lib db docValue m = (case InsertRule_Sz lib db docValue True (m_szRules m) of
     (e, s) \<Rightarrow> (failed_insert e, m\<lparr>m_szRules := s\<rparr>))"

definition GetShRule ::
  "rule_lib \<Rightarrow> (string \<rightharpoonup> string) \<Rightarrow> (u64, u64) omap \<Rightarrow> MatchRules \<Rightarrow> int \<times> (u64 \<times> nat) option" where
  "GetShRule lib order links m = (case GetRule_Sh lib order links (m_shRules m) of
     (iRes, r) \<Rightarrow> if iRes \<noteq> 0 then (-1, r) else (0, r))"

definition GetSzRule ::
  "rule_lib \<Rightarrow> (int \<rightharpoonup> string) \<Rightarrow> (u64, u64) omap \<Rightarrow> MatchRules \<Rightarrow> int \<times> (u64 \<times> nat) option" where
  "GetSzRule lib order links m = (case GetRule_Sz lib order links (m_szRules m) of
     (iRes, r) \<Rightarrow> if iRes \<noteq> 0 then (-1, r) else (0, r))"

definition MatchRule_ReloadFromDb :: "rule_lib \<Rightarrow> rule_db \<Rightarrow> MatchRules \<Rightarrow> outcome \<times> MatchRules" where
  "MatchRule_ReloadFromDb lib db m =
     (case ReloadFromDb_Sh lib db (m_shRules m) of
        (Ret n, s) \<Rightarrow>
          if n \<noteq> 0 then (Ret (-1), m\<lparr>m_shRules := s\<rparr>)
          else (case ReloadFromDb_Sz lib db (m_szRules m) of
              (Ret n2, s2) \<Rightarrow> (Ret (if n2 \<noteq> 0 then -1 else 0), m\<lparr>m_shRules := s, m_szRules := s2\<rparr>)
            | (e, s2) \<Rightarrow> (e, m\<lparr>m_shRules := s, m_szRules := s2\<rparr>))
      | (e, s) \<Rightarrow> (e, m\<lparr>m_shRules := s\<rparr>))"

text \<open>The configuration of a connection by the administrators (\<open>Connection_webConfig.h\<close>).\<close>

record Connection_webConfig =
  strWebLinkid :: string
  web_strSettleGroupName :: string
  web_mapLinkRules :: "(u64, u64) omap"

definition omap_insert :: "'k::linorder \<times> 'v \<Rightarrow> ('k, 'v) omap \<Rightarrow> ('k, 'v) omap" where
  "omap_insert e m = (if map_of m (fst e) = None then omap_put (fst e) (snd e) m else m)"

definition omap_insert_range :: "('k::linorder, 'v) omap \<Rightarrow> ('k, 'v) omap \<Rightarrow> ('k, 'v) omap" where
  "omap_insert_range es m = fold omap_insert es m"

definition linked_rules :: "(string, Connection_webConfig) omap \<Rightarrow> (u64, u64) omap" where
  "linked_rules confs = fold (\<lambda>(name, c). omap_insert_range (web_mapLinkRules c)) confs []"

definition CompareConnRuleRelation_ToLocalRule ::
  "(string, Connection_webConfig) omap \<Rightarrow> (string, Connection_webConfig) omap \<Rightarrow> MatchRules \<Rightarrow> u64 list \<times> u64 list" where
  "CompareConnRuleRelation_ToLocalRule sh_confs sz_confs m =
     (CompareRuleTime_ToLocalRule (linked_rules sh_confs) (m_shRules m) [],
      CompareRuleTime_ToLocalRule (linked_rules sz_confs) (m_szRules m) [])"

section \<open>Well-formed stores\<close>

text \<open>
  Every number leads to an object of its own, which carries the number; the objects' conditions are
  maps.  \<open>extends\<close> says that objects stay where they are and keep their number.
\<close>

definition rules_wf :: "'k::linorder RuleStore \<Rightarrow> bool" where
  "rules_wf s \<longleftrightarrow> omap_wf (m_mapRules s) \<and> distinct (map snd (m_mapRules s)) \<and>
     (\<forall>(i, a)\<in>set (m_mapRules s). a < length (rule_heap s) \<and> rule_ui64RuleId (rule_heap s ! a) = i) \<and>
     (\<forall>r\<in>set (rule_heap s). omap_wf (mapRegexs r))"

definition extends :: "'k RuleStore \<Rightarrow> 'k RuleStore \<Rightarrow> bool" where
  "extends s s' \<longleftrightarrow> length (rule_heap s) \<le> length (rule_heap s') \<and>
     (\<forall>a < length (rule_heap s). rule_ui64RuleId (rule_heap s' ! a) = rule_ui64RuleId (rule_heap s ! a))"

lemma extends_refl [simp, intro]: "extends s s"
  by (simp add: extends_def)

lemma extends_trans [trans]: "extends s s' \<Longrightarrow> extends s' s'' \<Longrightarrow> extends s s''"
  unfolding extends_def by (metis order_less_le_trans order_trans)

lemma rules_wf_new [simp]: "rules_wf RuleStore_new"
  by (simp add: rules_wf_def RuleStore_new_def)

lemma rules_wf_lookup:
  "rules_wf s \<Longrightarrow> map_of (m_mapRules s) i = Some a \<Longrightarrow>
     a < length (rule_heap s) \<and> rule_ui64RuleId (rule_heap s ! a) = i"
  unfolding rules_wf_def by (auto dest!: map_of_SomeD)

lemma rules_wf_reset [simp]: "rules_wf s \<Longrightarrow> rules_wf (s\<lparr>m_mapRules := []\<rparr>)"
  by (simp add: rules_wf_def)

lemma rules_wf_committed [simp]: "rules_wf (s\<lparr>committed := l\<rparr>) = rules_wf s"
  "extends s0 (s\<lparr>committed := l\<rparr>) = extends s0 s" "extends s0 (s\<lparr>m_mapRules := m\<rparr>) = extends s0 s"
  by (simp_all add: rules_wf_def extends_def)

lemma rules_wf_add:
  assumes "rules_wf s" "map_of (m_mapRules s) i = None" "rule_ui64RuleId r = i" "omap_wf (mapRegexs r)"
  shows "rules_wf (s\<lparr>rule_heap := rule_heap s @ [r], m_mapRules := omap_put i (length (rule_heap s)) (m_mapRules s)\<rparr>)"
    and "extends s (s\<lparr>rule_heap := rule_heap s @ [r], m_mapRules := omap_put i (length (rule_heap s)) (m_mapRules s)\<rparr>)"
proof -
  let ?m = "omap_put i (length (rule_heap s)) (m_mapRules s)"
  have wf: "omap_wf (m_mapRules s)" using assms(1) by (simp add: rules_wf_def)
  have set: "set ?m = insert (i, length (rule_heap s)) (set (m_mapRules s))"
    using set_omap_put [OF wf] assms(2) by (auto simp: map_of_eq_None_iff)
  have old: "a < length (rule_heap s) \<and> rule_ui64RuleId (rule_heap s ! a) = j" if "(j, a) \<in> set (m_mapRules s)" for j a
    using that assms(1) by (auto simp: rules_wf_def)
  have "inj_on snd (set ?m)"
  proof -
    have "inj_on snd (set (m_mapRules s))"
      using assms(1) by (simp add: rules_wf_def distinct_map)
    then show ?thesis using old unfolding set by (auto simp: inj_on_insert) force
  qed
  moreover have "distinct ?m"
    using omap_wf_distinct [OF omap_wf_put [OF wf, of i "length (rule_heap s)"]] by (simp only: distinct_map)
  ultimately have "distinct (map snd ?m)" by (simp add: distinct_map)
  moreover have "\<forall>(j, a)\<in>set ?m. a < Suc (length (rule_heap s)) \<and> rule_ui64RuleId ((rule_heap s @ [r]) ! a) = j"
    using old assms(3) unfolding set by (fastforce simp: nth_append)
  moreover have "\<forall>r'\<in>set (rule_heap s @ [r]). omap_wf (mapRegexs r')"
    using assms(1,4) by (auto simp: rules_wf_def)
  ultimately show "rules_wf (s\<lparr>rule_heap := rule_heap s @ [r], m_mapRules := ?m\<rparr>)"
    using omap_wf_put [OF wf] by (simp add: rules_wf_def)
  show "extends s (s\<lparr>rule_heap := rule_heap s @ [r], m_mapRules := ?m\<rparr>)"
    by (simp add: extends_def nth_append)
qed

lemma rules_wf_put_rule:
  assumes "rules_wf s" "map_of (m_mapRules s) i = Some a" "rule_ui64RuleId r = i" "omap_wf (mapRegexs r)"
  shows "rules_wf (put_rule a r s)" and "extends s (put_rule a r s)"
proof -
  have a: "a < length (rule_heap s)" "rule_ui64RuleId (rule_heap s ! a) = i"
    using rules_wf_lookup [OF assms(1,2)] by auto
  have "set ((rule_heap s)[a := r]) \<subseteq> insert r (set (rule_heap s))" by (rule set_update_subset_insert)
  then show "rules_wf (put_rule a r s)"
    using assms a unfolding rules_wf_def put_rule_def by (fastforce simp: nth_list_update)
  show "extends s (put_rule a r s)"
    using a assms(3) by (simp add: extends_def put_rule_def nth_list_update)
qed

lemma assign_regex_wf: "omap_wf m \<Longrightarrow> omap_wf (snd (assign_regex ok k p m))"
  by (auto simp: assign_regex_def Let_def)

lemma set_conditions_wf: "omap_wf m \<Longrightarrow> omap_wf (snd (set_conditions ok key cs m))"
proof (induction ok key cs m rule: set_conditions.induct)
  case (2 ok key name v cs m)
  then show ?case
    by (auto split: json.split prod.split bool.split
        dest: assign_regex_wf [of _ ok "key (c_str name)"] simp del: not_None_eq)
      (metis assign_regex_wf snd_conv)+
qed simp

lemma SetRegex_wf:
  assumes "omap_wf (mapRegexs r)" "SetRegex ok key i cond t r = (e, r')"
  shows "omap_wf (mapRegexs r') \<and> rule_ui64RuleId r' = i"
proof (cases "is_JObj cond")
  case True
  then obtain cs where c: "cond = JObj cs" by (cases cond) simp_all
  then show ?thesis
    using set_conditions_wf [OF assms(1), of ok key cs] assms(2)
    by (cases "set_conditions ok key cs (mapRegexs r)"; cases "fst (set_conditions ok key cs (mapRegexs r))")
      (auto simp: SetRegex_def Let_def)
next
  case False
  then show ?thesis using assms by (cases cond) (auto simp: SetRegex_def Let_def)
qed

text \<open>What the conditions of a rule are after a successful assignment: each field has its last text.\<close>

fun condition_text :: "(string \<Rightarrow> 'k) \<Rightarrow> 'k \<Rightarrow> string \<times> json \<Rightarrow> string option" where
  "condition_text key k (name, v) =
     (case v of JStr p \<Rightarrow> if key (c_str name) = k then Some (c_str p) else None | _ \<Rightarrow> None)"

lemma assign_regex_Some:
  "assign_regex ok k p m = (True, m') \<Longrightarrow> map_of m' k' = (if k' = k then Some (Some p) else map_of m k')"
  by (auto simp: assign_regex_def Let_def split: if_splits)

lemma set_conditions_Ret:
  assumes "set_conditions ok key cs m = (Ret n, m')"
  shows "map_of m' k = or_else (map_option Some (last_of (condition_text key k) cs)) (map_of m k)"
proof -
  have "last_of f (x # xs) = or_else (last_of f xs) (f x)" for f :: "string \<times> json \<Rightarrow> string option" and x xs
    by (simp add: last_of_def first_of_append)
  then show ?thesis
    using assms
    by (induction ok key cs m rule: set_conditions.induct)
      (auto split: json.splits prod.splits bool.splits dest!: assign_regex_Some [where k' = k]
        simp: or_else_def split: option.splits)
qed

section \<open>The two markets as one interface\<close>

text \<open>
  A market has the key of a condition, the way the documents are taken for a new and for an old rule,
  and the update of the database.  It promises that the documents leave the number, the time and the
  conditions of a rule alone, and that the update touches no rule.
\<close>

definition same_rule :: "'k MATCH_RULE \<Rightarrow> 'k MATCH_RULE \<Rightarrow> bool" where
  "same_rule r r' \<longleftrightarrow> rule_ui64RuleId r' = rule_ui64RuleId r \<and> ui64Timestamp r' = ui64Timestamp r \<and>
     mapRegexs r' = mapRegexs r"

locale rule_market =
  fixes key :: "string \<Rightarrow> 'k::linorder"
    and new_docs old_docs :: "(string \<times> json) list \<Rightarrow> 'k MATCH_RULE \<Rightarrow> 'k MATCH_RULE option"
    and upd :: "rule_lib \<Rightarrow> rule_db \<Rightarrow> string \<Rightarrow> json \<Rightarrow> (string \<times> json) list \<Rightarrow> int \<Rightarrow> 'k RuleStore \<Rightarrow> outcome \<times> 'k RuleStore"
  assumes new_same: "new_docs ms r = Some r' \<Longrightarrow> same_rule r r'"
    and old_same: "old_docs ms r = Some r' \<Longrightarrow> same_rule r r'"
    and upd_rules: "\<exists>l. snd (upd lib db i c ms t s) = s\<lparr>committed := l\<rparr>"
begin

abbreviation insert1 :: "rule_lib \<Rightarrow> rule_db \<Rightarrow> bool \<Rightarrow> json \<Rightarrow> 'k RuleStore \<Rightarrow> outcome \<times> 'k RuleStore" where
  "insert1 lib db \<equiv> insert_single (regex_ok lib) key new_docs old_docs (upd lib db)"

lemma upd_wf:
  assumes "upd lib db i c ms t s = (e, s')"
  shows "rules_wf s \<Longrightarrow> rules_wf s'" and "extends s s'"
  using upd_rules [of lib db i c ms t s] assms by auto

lemma store_rule_wf:
  assumes "rules_wf s" "store_rule ok key new_docs old_docs i t cond ms s = (e, s')"
  shows "rules_wf s' \<and> extends s s'"
proof (cases "map_of (m_mapRules s) i")
  case None
  obtain e1 r where r: "SetRegex ok key i cond t MATCH_RULE_new = (e1, r)" by fastforce
  have wf: "omap_wf (mapRegexs r) \<and> rule_ui64RuleId r = i"
    by (rule SetRegex_wf [OF _ r]) (simp add: MATCH_RULE_new_def)
  have "same_rule r r1 \<Longrightarrow> omap_wf (mapRegexs r1) \<and> rule_ui64RuleId r1 = i" for r1
    using wf by (simp add: same_rule_def)
  then show ?thesis
    using assms None r rules_wf_add [OF assms(1) None]
    by (auto simp: store_rule_def split: outcome.splits option.splits dest!: new_same)
next
  case (Some a)
  obtain e1 r where r: "SetRegex ok key i cond t (rule_heap s ! a) = (e1, r)" by fastforce
  have "omap_wf (mapRegexs (rule_heap s ! a))"
    using assms(1) rules_wf_lookup [OF assms(1) Some] by (simp add: rules_wf_def)
  then have wf: "omap_wf (mapRegexs r) \<and> rule_ui64RuleId r = i" by (rule SetRegex_wf [OF _ r])
  have "same_rule r r1 \<Longrightarrow> omap_wf (mapRegexs r1) \<and> rule_ui64RuleId r1 = i" for r1
    using wf by (simp add: same_rule_def)
  then show ?thesis
    using assms Some r wf rules_wf_put_rule [OF assms(1) Some]
    by (auto simp: store_rule_def split: outcome.splits option.splits dest!: old_same)
qed

lemma insert1_wf:
  assumes "rules_wf s" "insert1 lib db b d s = (e, s')"
  shows "rules_wf s' \<and> extends s s'"
proof (cases "s' = s")
  case False
  then obtain ms i t cond e1 s1 where
      "store_rule (regex_ok lib) key new_docs old_docs i t cond ms s = (e1, s1)"
    and "s' = s1 \<or> (\<exists>x y z. upd lib db x cond ms y s1 = (z, s'))"
    using assms(2)
    by (auto simp: insert_single_def split: json.splits option.splits prod.splits if_splits outcome.splits) blast+
  then show ?thesis
    using store_rule_wf [OF assms(1)] upd_wf extends_trans by metis
qed (simp add: assms)

lemma insert_each_wf:
  "rules_wf s \<Longrightarrow> insert_each (insert1 lib db b) ds s = (e, s') \<Longrightarrow> rules_wf s' \<and> extends s s'"
proof (induction ds arbitrary: s)
  case (Cons d ds)
  obtain e1 s1 where 1: "insert1 lib db b d s = (e1, s1)" by fastforce
  then have "rules_wf s1 \<and> extends s s1" by (rule insert1_wf [OF Cons.prems(1)])
  then show ?case
    using Cons.IH [of s1] Cons.prems(2) 1 extends_trans
    by (auto split: outcome.splits if_splits)
qed simp

lemma insert_rules_wf:
  "rules_wf s \<Longrightarrow> insert_rules (insert1 lib db b) d s = (e, s') \<Longrightarrow> rules_wf s' \<and> extends s s'"
  by (auto simp: insert_rules_def split: json.splits simp del: insert_each.simps dest: insert_each_wf)

lemma reload_wf:
  assumes "rules_wf s" "reload_rules (insert1 lib db b) lib db table idcol s = (e, s')"
  shows "rules_wf s' \<and> extends s s'"
proof (cases "s' = s\<lparr>m_mapRules := []\<rparr>")
  case False
  then obtain d e1 where "insert_rules (insert1 lib db b) d (s\<lparr>m_mapRules := []\<rparr>) = (e1, s')"
    using assms(2)
    by (auto simp: reload_rules_def Let_def split: option.splits prod.splits if_splits outcome.splits)
  then show ?thesis
    using insert_rules_wf [of "s\<lparr>m_mapRules := []\<rparr>"] assms(1) by (simp add: extends_def)
qed (use assms in simp)

text \<open>The other rules stay as they are.\<close>

lemma store_rule_frame:
  assumes "rules_wf s" "store_rule ok key new_docs old_docs i t cond ms s = (e, s')" "j \<noteq> i"
  shows "map_of (m_mapRules s') j = map_of (m_mapRules s) j"
    and "map_of (m_mapRules s) j = Some b \<Longrightarrow> rule_heap s' ! b = rule_heap s ! b"
proof -
  show "map_of (m_mapRules s') j = map_of (m_mapRules s) j"
    using assms(2,3) by (auto simp: store_rule_def put_rule_def split: option.splits outcome.splits prod.splits)
  assume b: "map_of (m_mapRules s) j = Some b"
  have "b \<noteq> a" if "map_of (m_mapRules s) i = Some a" for a
    using rules_wf_lookup [OF assms(1) b] rules_wf_lookup [OF assms(1) that] assms(3) by auto
  then show "rule_heap s' ! b = rule_heap s ! b"
    using assms(2) rules_wf_lookup [OF assms(1) b]
    by (auto simp: store_rule_def put_rule_def nth_append split: option.splits outcome.splits prod.splits)
qed

text \<open>What is stored when an insertion succeeds.\<close>

lemma store_rule_stored:
  assumes "store_rule ok key new_docs old_docs i t (JObj cs) ms s = (Ret n, s')" "rules_wf s"
  shows "\<exists>a. map_of (m_mapRules s') i = Some a \<and> ui64Timestamp (rule_heap s' ! a) = t \<and>
    (\<forall>k. map_of (mapRegexs (rule_heap s' ! a)) k =
       or_else (map_option Some (last_of (condition_text key k) cs))
         (case map_of (m_mapRules s) i of None \<Rightarrow> None | Some b \<Rightarrow> map_of (mapRegexs (rule_heap s ! b)) k))"
proof -
  have reg: "ui64Timestamp r' = t \<and> (\<forall>k. map_of (mapRegexs r') k =
      or_else (map_option Some (last_of (condition_text key k) cs)) (map_of (mapRegexs r) k))"
    if "SetRegex ok key i (JObj cs) t r = (Ret m, r')" for r r' m
    using that by (auto simp: SetRegex_def Let_def split: prod.splits outcome.splits dest: set_conditions_Ret)
  show ?thesis
  proof (cases "map_of (m_mapRules s) i")
    case None
    then obtain m r r1 where "SetRegex ok key i (JObj cs) t MATCH_RULE_new = (Ret m, r)" and d: "new_docs ms r = Some r1"
        and s': "s' = s\<lparr>rule_heap := rule_heap s @ [r1], m_mapRules := omap_put i (length (rule_heap s)) (m_mapRules s)\<rparr>"
      using assms(1) by (auto simp: store_rule_def split: outcome.splits option.splits prod.splits)
    then show ?thesis
      using reg [of MATCH_RULE_new m r] new_same [OF d] None by (simp add: same_rule_def MATCH_RULE_new_def)
  next
    case (Some a)
    then obtain m r r1 where "SetRegex ok key i (JObj cs) t (rule_heap s ! a) = (Ret m, r)" and d: "old_docs ms r = Some r1"
        and s': "s' = put_rule a r1 s"
      using assms(1) by (auto simp: store_rule_def split: outcome.splits option.splits prod.splits)
    then show ?thesis
      using reg [of "rule_heap s ! a" m r] old_same [OF d] Some rules_wf_lookup [OF assms(2) Some]
      by (simp add: same_rule_def put_rule_def)
  qed
qed

text \<open>The same for the whole insertion of a document.\<close>

definition stored :: "(string \<times> json) list \<Rightarrow> (string \<times> json) list \<Rightarrow> 'k RuleStore \<Rightarrow> 'k RuleStore \<Rightarrow> u64 \<Rightarrow> bool" where
  "stored ms cs s s' i \<longleftrightarrow> (\<exists>a. map_of (m_mapRules s') i = Some a \<and>
     ui64Timestamp (rule_heap s' ! a) = word_of_int (rule_time ms) \<and>
     (\<forall>k. map_of (mapRegexs (rule_heap s' ! a)) k =
       or_else (map_option Some (last_of (condition_text key k) cs))
         (case map_of (m_mapRules s) i of None \<Rightarrow> None | Some b \<Rightarrow> map_of (mapRegexs (rule_heap s ! b)) k)))"

lemma insert1_stored:
  assumes "insert1 lib db b (JObj ms) s = (Ret 0, s')" "rules_wf s"
    and "rule_id_text ms = Some t" "map_of ms ''judge_cond'' = Some (JObj cs)"
  defines "i \<equiv> snd (String2UInt64_strtoui64 t)"
  shows "stored ms cs s s' i \<and>
    (\<forall>j. j \<noteq> i \<longrightarrow> map_of (m_mapRules s') j = map_of (m_mapRules s) j \<and>
      (\<forall>b. map_of (m_mapRules s) j = Some b \<longrightarrow> rule_heap s' ! b = rule_heap s ! b))"
proof -
  obtain n s1 where s1: "store_rule (regex_ok lib) key new_docs old_docs i (word_of_int (rule_time ms)) (JObj cs) ms s = (Ret n, s1)"
    and "s' = s1 \<or> (\<exists>x y z. upd lib db x (JObj cs) ms y s1 = (z, s'))"
    using assms by (auto simp: insert_single_def i_def split: prod.splits if_splits outcome.splits)
  then obtain l where "s' = s1\<lparr>committed := l\<rparr> \<or> s' = s1"
    using upd_rules by (metis snd_conv)
  then have "m_mapRules s' = m_mapRules s1" "rule_heap s' = rule_heap s1" by auto
  then show ?thesis
    using store_rule_stored [OF s1 assms(2)] store_rule_frame [OF assms(2) s1] by (simp add: stored_def)
qed

end

lemma run_update_rules: "\<exists>l. snd (run_update db sql s) = s\<lparr>committed := l\<rparr>"
proof (cases "snd (run_update db sql s) = s")
  case True
  then have "snd (run_update db sql s) = s\<lparr>committed := committed s\<rparr>" by simp
  then show ?thesis ..
qed (auto simp: run_update_def split: prod.splits)

interpretation sh_market: rule_market sh_key sh_documents sh_documents UpdateSingleRuleToDb_Sh
  by unfold_locales
    (auto simp: sh_documents_def same_rule_def SetRuleConfirm_def SetRuleMatch_def UpdateSingleRuleToDb_Sh_def
      run_update_rules Let_def split: option.splits json.splits)

interpretation sz_market: rule_market sz_key sz_documents_new sz_documents_old UpdateSingleRuleToDb_Sz
  by unfold_locales
    (auto simp: sz_documents_new_def sz_documents_old_def same_rule_def SetRuleConfirm_def SetRuleMatch_def
      UpdateSingleRuleToDb_Sz_def run_update_rules Let_def split: option.splits json.splits)

section \<open>Which rule an order takes\<close>

text \<open>
  The specification: an order meets a rule when the rule has conditions and the order has every field
  they name, with a value the regular expression matches; it takes the first linked rule it meets.
\<close>

definition meets_condition :: "rule_lib \<Rightarrow> ('k \<rightharpoonup> string) \<Rightarrow> 'k \<times> string option \<Rightarrow> bool" where
  "meets_condition lib order c = (case order (fst c) of None \<Rightarrow> False | Some v \<Rightarrow> regex_hit lib (snd c) v)"

definition meets :: "rule_lib \<Rightarrow> ('k \<rightharpoonup> string) \<Rightarrow> ('k, string option) omap \<Rightarrow> bool" where
  "meets lib order cs \<longleftrightarrow> cs \<noteq> [] \<and> list_all (meets_condition lib order) cs"

definition has_field :: "('k \<rightharpoonup> string) \<Rightarrow> 'k \<times> string option \<Rightarrow> bool" where
  "has_field order c \<longleftrightarrow> order (fst c) \<noteq> None"

definition rule_found :: "(u64 \<times> nat) option \<Rightarrow> int \<times> (u64 \<times> nat) option" where
  "rule_found r = (case r of None \<Rightarrow> (-1, None) | Some x \<Rightarrow> (0, Some x))"

text \<open>The conditions before the first field the order lacks, and a rule that is undecided at it.\<close>

definition known :: "('k \<rightharpoonup> string) \<Rightarrow> ('k, string option) omap \<Rightarrow> ('k, string option) omap" where
  "known order cs = takeWhile (has_field order) cs"

definition undecided :: "rule_lib \<Rightarrow> ('k \<rightharpoonup> string) \<Rightarrow> ('k, string option) omap \<Rightarrow> bool" where
  "undecided lib order cs \<longleftrightarrow> known order cs \<noteq> cs \<and> list_all (meets_condition lib order) (known order cs)"

lemma sh_hit_known:
  "sh_hit lib order cs hit =
     (if known order cs = [] then hit else list_all (meets_condition lib order) (known order cs))"
proof (induction lib order cs hit rule: sh_hit.induct)
  case (2 lib order name p cs hit)
  then show ?case
    by (cases "order name"; cases "known order cs = []")
      (auto simp: known_def has_field_def meets_condition_def)
qed (simp add: known_def)

lemma sz_hit_known:
  "sz_hit lib order cs hit =
     (if undecided lib order cs then None
      else Some (if cs = [] then hit else list_all (meets_condition lib order) cs))"
proof (induction lib order cs hit rule: sz_hit.induct)
  case (2 lib order tag p cs hit)
  then show ?case
    by (cases "order tag"; cases "cs = []")
      (auto simp: undecided_def known_def has_field_def meets_condition_def)
qed (simp add: undecided_def known_def)

lemma find_rule_sh_find:
  "find_rule_sh lib order links h rules =
     find (\<lambda>(i, a). linked links i \<and> meets lib order (known order (mapRegexs (h ! a)))) rules"
  by (induction lib order links h rules rule: find_rule_sh.induct) (simp_all add: sh_hit_known meets_def)

lemma find_rule_sz_find:
  "find_rule_sz lib order links h rules =
     find (\<lambda>(i, a). linked links i \<and> meets lib order (mapRegexs (h ! a)))
       (takeWhile (\<lambda>(i, a). \<not> (linked links i \<and> undecided lib order (mapRegexs (h ! a)))) rules)"
  by (induction lib order links h rules rule: find_rule_sz.induct) (auto simp: sz_hit_known meets_def undecided_def known_def)

lemma GetRule_found:
  "GetShRule lib sh_order links m =
     rule_found (find_rule_sh lib sh_order links (rule_heap (m_shRules m)) (m_mapRules (m_shRules m)))"
  "GetSzRule lib sz_order links m =
     rule_found (find_rule_sz lib sz_order links (rule_heap (m_szRules m)) (m_mapRules (m_szRules m)))"
  by (simp_all add: GetShRule_def GetSzRule_def GetRule_Sh_def GetRule_Sz_def rule_found_def split: option.splits)

definition first_rule ::
  "rule_lib \<Rightarrow> ('k \<rightharpoonup> string) \<Rightarrow> (u64, u64) omap \<Rightarrow> 'k RuleStore \<Rightarrow> (u64 \<times> nat) option" where
  "first_rule lib order links s =
     find (\<lambda>(i, a). linked links i \<and> meets lib order (mapRegexs (rule_heap s ! a))) (m_mapRules s)"

definition complete :: "('k \<rightharpoonup> string) \<Rightarrow> (u64, u64) omap \<Rightarrow> 'k RuleStore \<Rightarrow> bool" where
  "complete order links s \<longleftrightarrow>
     list_all (\<lambda>(i, a). linked links i \<longrightarrow> list_all (has_field order) (mapRegexs (rule_heap s ! a))) (m_mapRules s)"

lemma known_complete: "list_all (has_field order) cs \<Longrightarrow> known order cs = cs"
  by (simp add: known_def takeWhile_eq_all_conv list_all_iff)

lemma complete_known:
  assumes "complete order links s" "(i, a) \<in> set (m_mapRules s)" "linked links i"
  shows "known order (mapRegexs (rule_heap s ! a)) = mapRegexs (rule_heap s ! a)"
  using assms by (intro known_complete) (auto simp: complete_def list_all_iff)

text \<open>
  C10.  An order that has every field the rules of its connection ask for takes, in both markets, the
  rule with the lowest number among those its connection is linked to (all rules, when it has no
  links) whose conditions it all meets; it takes none when there is no such rule.
\<close>

theorem GetRule_takes_first:
  assumes "complete sh_order links (m_shRules m)" and "complete sz_order links (m_szRules m)"
  shows "GetShRule lib sh_order links m = rule_found (first_rule lib sh_order links (m_shRules m)) \<and>
    GetSzRule lib sz_order links m = rule_found (first_rule lib sz_order links (m_szRules m))"
proof -
  have "find_rule_sh lib sh_order links (rule_heap (m_shRules m)) (m_mapRules (m_shRules m)) =
      first_rule lib sh_order links (m_shRules m)"
    unfolding find_rule_sh_find first_rule_def
    using complete_known [OF assms(1)] by (intro find_cong) auto
  moreover have "takeWhile (\<lambda>(i, a). \<not> (linked links i \<and> undecided lib sz_order (mapRegexs (rule_heap (m_szRules m) ! a))))
      (m_mapRules (m_szRules m)) = m_mapRules (m_szRules m)"
    using complete_known [OF assms(2)] by (auto simp: takeWhile_eq_all_conv undecided_def)
  ultimately show ?thesis
    by (simp only: GetRule_found find_rule_sz_find first_rule_def simp_thms)
qed

text \<open>
  A field the order does not have is decided differently in the two markets, and in neither as a
  condition the order fails: Shanghai takes a rule on the conditions before the missing field alone,
  Shenzhen gives up the whole search at the first linked rule that is undecided at a missing field,
  the later rules unseen.
\<close>

theorem GetRule_missing_field:
  "GetShRule lib sh_order links m = rule_found
     (find (\<lambda>(i, a). linked links i \<and> meets lib sh_order (known sh_order (mapRegexs (rule_heap (m_shRules m) ! a))))
       (m_mapRules (m_shRules m))) \<and>
   GetSzRule lib sz_order links m = rule_found
     (find (\<lambda>(i, a). linked links i \<and> meets lib sz_order (mapRegexs (rule_heap (m_szRules m) ! a)))
       (takeWhile (\<lambda>(i, a). \<not> (linked links i \<and> undecided lib sz_order (mapRegexs (rule_heap (m_szRules m) ! a))))
         (m_mapRules (m_szRules m))))"
  by (simp only: GetRule_found find_rule_sz_find find_rule_sh_find simp_thms)

text \<open>A store of two rules, on the columns \<open>acc\<close> and \<open>stock\<close>, with equality for the regular expressions.\<close>

definition sample_lib :: rule_lib where
  "sample_lib = \<lparr>regex_ok = (\<lambda>p. True), regex_match = (=), json_parse = (\<lambda>t. None), json_write = (\<lambda>v. [])\<rparr>"

definition sample_rule :: "u64 \<Rightarrow> ('k, string option) omap \<Rightarrow> 'k MATCH_RULE" where
  "sample_rule i cs = MATCH_RULE_new\<lparr>rule_ui64RuleId := i, ui64Timestamp := 100, mapRegexs := cs\<rparr>"

definition sample_rules :: MatchRules where
  "sample_rules =
     \<lparr>m_shRules = \<lparr>rule_heap = [sample_rule 7 [(''acc'', Some ''A1''), (''stock'', Some ''600000'')],
                              sample_rule 8 [(''acc'', Some ''A1'')]],
                 m_mapRules = [(7, 0), (8, 1)], committed = []\<rparr>,
      m_szRules = \<lparr>rule_heap = [sample_rule 7 [(1, Some ''A1''), (48, Some ''000001'')], sample_rule 8 [(1, Some ''A1'')]],
                 m_mapRules = [(7, 0), (8, 1)], committed = []\<rparr>\<rparr>"

theorem GetRule_takes_first_witness:
  "GetShRule sample_lib [''acc'' \<mapsto> ''A1'', ''stock'' \<mapsto> ''600001''] [] sample_rules = (0, Some (8, 1)) \<and>
   GetSzRule sample_lib [1 \<mapsto> ''A1'', 48 \<mapsto> ''000001''] [(8, 5)] sample_rules = (0, Some (8, 1))"
  using GetRule_takes_first [of "[''acc'' \<mapsto> ''A1'', ''stock'' \<mapsto> ''600001'']" "[]" sample_rules "[1 \<mapsto> ''A1'', 48 \<mapsto> ''000001'']" sample_lib]
    GetRule_takes_first [of "[''acc'' \<mapsto> ''A1'', ''stock'' \<mapsto> ''600001'']" "[(8, 5)]" sample_rules "[1 \<mapsto> ''A1'', 48 \<mapsto> ''000001'']" sample_lib]
  by (simp add: complete_def sample_rules_def sample_rule_def has_field_def first_rule_def meets_def meets_condition_def
      regex_hit_def sample_lib_def rule_found_def linked_def)

section \<open>Replacing, comparing and reloading\<close>

text \<open>
  A rule that is sent again is changed rather than replaced: the fields the new document names
  get their new expression, every field it no longer names keeps the old one, so that the rule goes
  on refusing orders by conditions its owner has removed.
\<close>

theorem resent_rule_keeps_conditions:
  assumes "rules_wf s" and "map_of (m_mapRules s) i = Some b"
    and "rule_id_text ms = Some t" and "String2UInt64_strtoui64 t = (0, i)"
    and "map_of ms ''judge_cond'' = Some (JObj cs)"
    and "InsertSingleRule_Sh lib db upd (JObj ms) s = (Ret 0, s')"
  shows "\<exists>a. map_of (m_mapRules s') i = Some a \<and>
    map_of (mapRegexs (rule_heap s' ! a)) k =
      (case last_of (condition_text sh_key k) cs of
         Some p \<Rightarrow> Some (Some p)
       | None \<Rightarrow> map_of (mapRegexs (rule_heap s ! b)) k)"
proof -
  obtain a where a: "map_of (m_mapRules s') i = Some a"
    and "\<forall>k. map_of (mapRegexs (rule_heap s' ! a)) k =
      or_else (map_option Some (last_of (condition_text sh_key k) cs)) (map_of (mapRegexs (rule_heap s ! b)) k)"
    using sh_market.insert1_stored [OF assms(6) [unfolded InsertSingleRule_Sh_def] assms(1,3,5)] assms(2,4)
    by (auto simp: sh_market.stored_def)
  then have "map_of (mapRegexs (rule_heap s' ! a)) k =
      or_else (map_option Some (last_of (condition_text sh_key k) cs)) (map_of (mapRegexs (rule_heap s ! b)) k)" by blast
  with a show ?thesis by (auto simp: or_else_def split: option.split)
qed

text \<open>
  After a rule was inserted, the comparison with the administrators' list no longer asks for it
  when the list has the time of the document; every other rule is asked for exactly as before.
\<close>

theorem inserted_rule_up_to_date:
  assumes "rules_wf s" and "rule_id_text ms = Some t" and "String2UInt64_strtoui64 t = (0, i)"
    and "map_of ms ''judge_cond'' = Some (JObj cs)"
    and "InsertSingleRule_Sh lib db upd (JObj ms) s = (Ret 0, s')"
    and "distinct (map fst confs)" and "map_of confs i = Some (word_of_int (rule_time ms))"
  shows "set (CompareRuleTime_ToLocalRule confs s' []) = set (CompareRuleTime_ToLocalRule confs s []) - {i}"
proof -
  define stale where "stale = (\<lambda>(s :: string RuleStore) (e :: u64 \<times> u64). case map_of (m_mapRules s) (fst e) of
      None \<Rightarrow> True | Some a \<Rightarrow> snd e \<noteq> ui64Timestamp (rule_heap s ! a))"
  have listed: "set (CompareRuleTime_ToLocalRule confs s0 []) = fst ` {e \<in> set confs. stale s0 e}" for s0
    by (simp add: CompareRuleTime_ToLocalRule_def stale_def case_prod_beta)
  note st = sh_market.insert1_stored [OF assms(5) [unfolded InsertSingleRule_Sh_def] assms(1,2,4)]
  obtain a where a: "map_of (m_mapRules s') i = Some a" "ui64Timestamp (rule_heap s' ! a) = word_of_int (rule_time ms)"
    using st assms(3) by (auto simp: sh_market.stored_def)
  have "stale s' e = stale s e" if "fst e \<noteq> i" for e
    using st that assms(3) by (simp add: stale_def split: option.splits)
  moreover have "\<not> stale s' e" if "e \<in> set confs" "fst e = i" for e
  proof -
    have "map_of confs i = Some (snd e)"
      by (rule map_of_is_SomeI [OF assms(6)]) (use that in auto)
    then show ?thesis using assms(7) a that(2) by (simp add: stale_def)
  qed
  ultimately have "{e \<in> set confs. stale s' e} = {e \<in> set confs. stale s e \<and> fst e \<noteq> i}" by blast
  then show ?thesis unfolding listed by blast
qed

text \<open>
  When the database gives no connection or does not answer the query, a reload has already
  forgotten the rules of Shanghai: no later order finds one, although the call only reports -1.
\<close>

theorem failed_reload_forgets:
  assumes "\<not> db_connected db \<or> fst (db_query db (reload_sql ''match_rule_sh'' ''idmatch_rule_sh'')) \<noteq> 1"
  shows "fst (MatchRule_ReloadFromDb lib db m) = Ret (-1) \<and>
    GetShRule lib order links (snd (MatchRule_ReloadFromDb lib db m)) = (-1, None) \<and>
    m_szRules (snd (MatchRule_ReloadFromDb lib db m)) = m_szRules m"
proof -
  have "ReloadFromDb_Sh lib db (m_shRules m) = (Ret (-1), (m_shRules m)\<lparr>m_mapRules := []\<rparr>)"
    using assms by (auto simp: ReloadFromDb_Sh_def reload_rules_def Let_def split: prod.splits)
  then show ?thesis
    by (simp add: MatchRule_ReloadFromDb_def GetRule_found rule_found_def)
qed

definition sample_doc :: "(string \<times> json) list" where
  "sample_doc = [(''ruleid'', JStr ''7''), (''judge_cond'', JObj [(''stock'', JStr ''600001'')]), (''timestamp'', JInt 200)]"

lemma sample_doc_facts:
  "rule_id_text sample_doc = Some ''7''" "String2UInt64_strtoui64 ''7'' = (0, 7)"
  "map_of sample_doc ''judge_cond'' = Some (JObj [(''stock'', JStr ''600001'')])" "rule_time sample_doc = 200"
  by (simp_all add: sample_doc_def rule_id_text_def c_str_def String2UInt64_strtoui64_def strtoll_def scan_number_def
      is_space_def is_digit_def of_char_def rule_time_def is_int32_def)

lemma sample_rules_wf: "rules_wf (m_shRules sample_rules)"
  by (simp add: rules_wf_def sample_rules_def sample_rule_def omap_wf_def less_list_code of_char_def)

lemma sample_inserted:
  "\<exists>s'. InsertSingleRule_Sh sample_lib db False (JObj sample_doc) (m_shRules sample_rules) = (Ret 0, s')"
proof -
  have "conditions_legal sample_doc" by (simp add: conditions_legal_def sample_doc_def)
  moreover have "set_conditions (\<lambda>p. True) sh_key [(''stock'', JStr ''600001'')] m =
      (Ret 0, snd (assign_regex (\<lambda>p. True) ''stock'' ''600001'' m))" for m
    by (simp add: sh_key_def c_str_def assign_regex_def Let_def)
  ultimately show ?thesis
    by (simp add: InsertSingleRule_Sh_def insert_single_def sample_doc_facts store_rule_def sample_rules_def
        SetRegex_def Let_def sample_lib_def sh_documents_def)
qed

text \<open>Rule 7 is sent again without its condition on the account.\<close>

theorem resent_rule_keeps_conditions_witness:
  "\<exists>s' a. InsertSingleRule_Sh sample_lib \<lparr>db_connected = True, db_exec = (\<lambda>q. (2, 1)), db_query = (\<lambda>q. (1, []))\<rparr>
      False (JObj sample_doc) (m_shRules sample_rules) = (Ret 0, s') \<and>
     map_of (m_mapRules s') 7 = Some a \<and> map_of (mapRegexs (rule_heap s' ! a)) ''acc'' = Some (Some ''A1'')"
proof -
  let ?db = "\<lparr>db_connected = True, db_exec = (\<lambda>q. (2, 1)), db_query = (\<lambda>q. (1, []))\<rparr>"
  obtain s' where s': "InsertSingleRule_Sh sample_lib ?db False (JObj sample_doc) (m_shRules sample_rules) = (Ret 0, s')"
    using sample_inserted by blast
  show ?thesis
    using resent_rule_keeps_conditions [OF sample_rules_wf _ sample_doc_facts(1-3) s', of 0 "''acc''"] s'
    by (simp add: sample_rules_def sample_rule_def last_of_def c_str_def sh_key_def)
qed

theorem inserted_rule_up_to_date_witness:
  "\<exists>s'. InsertSingleRule_Sh sample_lib \<lparr>db_connected = True, db_exec = (\<lambda>q. (2, 1)), db_query = (\<lambda>q. (1, []))\<rparr>
      False (JObj sample_doc) (m_shRules sample_rules) = (Ret 0, s') \<and>
     set (CompareRuleTime_ToLocalRule [(7, 200), (8, 200), (9, 200)] s' []) = {8, 9}"
proof -
  let ?db = "\<lparr>db_connected = True, db_exec = (\<lambda>q. (2, 1)), db_query = (\<lambda>q. (1, []))\<rparr>"
  obtain s' where s': "InsertSingleRule_Sh sample_lib ?db False (JObj sample_doc) (m_shRules sample_rules) = (Ret 0, s')"
    using sample_inserted by blast
  show ?thesis
    using inserted_rule_up_to_date [OF sample_rules_wf sample_doc_facts(1-3) s', of "[(7, 200), (8, 200), (9, 200)]"] s'
    by (simp add: sample_doc_facts CompareRuleTime_ToLocalRule_def sample_rules_def sample_rule_def)
qed

theorem failed_reload_forgets_witness:
  "GetShRule sample_lib [''acc'' \<mapsto> ''A1''] [] sample_rules = (0, Some (7, 0)) \<and>
   GetShRule sample_lib [''acc'' \<mapsto> ''A1''] []
     (snd (MatchRule_ReloadFromDb sample_lib \<lparr>db_connected = False, db_exec = (\<lambda>q. (2, 1)), db_query = (\<lambda>q. (1, []))\<rparr>
       sample_rules)) = (-1, None)"
  using failed_reload_forgets [of "\<lparr>db_connected = False, db_exec = (\<lambda>q. (2, 1)), db_query = (\<lambda>q. (1, []))\<rparr>"
      sample_lib sample_rules "[''acc'' \<mapsto> ''A1'']" "[]"]
  by (simp add: GetRule_found rule_found_def sample_rules_def sample_rule_def linked_def regex_hit_def sample_lib_def)

section \<open>The rules an order holds\<close>

inductive rule_step :: "rule_lib \<Rightarrow> MatchRules \<Rightarrow> MatchRules \<Rightarrow> bool" for lib where
  insert_sh: "InsertShRule lib db d m = (e, m') \<Longrightarrow> rule_step lib m m'"
| insert_sz: "InsertSzRule lib db d m = (e, m') \<Longrightarrow> rule_step lib m m'"
| reload: "MatchRule_ReloadFromDb lib db m = (e, m') \<Longrightarrow> rule_step lib m m'"

definition MatchRules_new :: MatchRules where
  "MatchRules_new = \<lparr>m_shRules = RuleStore_new, m_szRules = RuleStore_new\<rparr>"

definition match_rules_wf :: "MatchRules \<Rightarrow> bool" where
  "match_rules_wf m \<longleftrightarrow> rules_wf (m_shRules m) \<and> rules_wf (m_szRules m)"

definition match_rules_extend :: "MatchRules \<Rightarrow> MatchRules \<Rightarrow> bool" where
  "match_rules_extend m m' \<longleftrightarrow> extends (m_shRules m) (m_shRules m') \<and> extends (m_szRules m) (m_szRules m')"

lemma rule_step_wf:
  assumes "rule_step lib m m'" "match_rules_wf m"
  shows "match_rules_wf m' \<and> match_rules_extend m m'"
  using assms
proof cases
  case (insert_sh db d e)
  then show ?thesis
    using assms(2) sh_market.insert_rules_wf [of "m_shRules m" lib db True d]
    by (auto simp: InsertShRule_def InsertRule_Sh_def InsertSingleRule_Sh_def match_rules_wf_def match_rules_extend_def
        split: prod.splits)
next
  case (insert_sz db d e)
  then show ?thesis
    using assms(2) sz_market.insert_rules_wf [of "m_szRules m" lib db True d]
    by (auto simp: InsertSzRule_def InsertRule_Sz_def InsertSingleRule_Sz_def match_rules_wf_def match_rules_extend_def
        split: prod.splits)
next
  case (reload db e)
  then show ?thesis
    using assms(2) sh_market.reload_wf [of "m_shRules m" lib db False]
      sz_market.reload_wf [of "m_szRules m" lib db False]
    by (auto simp: MatchRule_ReloadFromDb_def ReloadFromDb_Sh_def ReloadFromDb_Sz_def InsertSingleRule_Sh_def
        InsertSingleRule_Sz_def match_rules_wf_def match_rules_extend_def
        split: prod.splits outcome.splits if_splits)
qed

lemma rule_steps_wf:
  assumes "(rule_step lib)\<^sup>*\<^sup>* m m'" "match_rules_wf m"
  shows "match_rules_wf m' \<and> match_rules_extend m m'"
  using assms
proof (induction rule: rtranclp_induct)
  case base
  then show ?case by (simp add: match_rules_extend_def)
next
  case (step m1 m2)
  then show ?case
    using rule_step_wf [of lib m1 m2] extends_trans by (metis match_rules_extend_def)
qed

lemma found_rule_object:
  assumes "rules_wf s" "find P (m_mapRules s) = Some (i, a)"
  shows "a < length (rule_heap s) \<and> rule_ui64RuleId (rule_heap s ! a) = i"
proof -
  have "(i, a) \<in> set (m_mapRules s)"
    using assms(2) by (auto simp: find_Some_iff in_set_conv_nth)
  then show ?thesis using assms(1) by (auto simp: rules_wf_def)
qed

end
