(* ===== verification/OrderStore.thy ===== *)
theory OrderStore
  imports OrderMsg
begin

text \<open>
  The memory stores of order messages: \<open>cache/MemoryStoreCell.h\<close>, the buffer of outgoing messages
  \<open>simutgw/order/OutMemoryManage.cpp\<close>, and the order store \<open>OrderMemoryCell.cpp\<close> /
  \<open>OrderMemoryStoreFactory.cpp\<close>.  They hold shared pointers: a message is the address of an object
  in a heap, and the parameter \<open>h\<close> reads an object.  Every method runs under its lock and is one
  step of the model.
\<close>

type_synonym msgref = nat

section \<open>A store cell\<close>

definition MemoryStoreCell_PushBack :: "'m \<Rightarrow> 'm list \<Rightarrow> int \<times> 'm list" where
  "MemoryStoreCell_PushBack m q = (0, q @ [m])"

definition MemoryStoreCell_GetSize :: "'m list \<Rightarrow> nat" where
  "MemoryStoreCell_GetSize q = (if q = [] then 0 else length q)"

definition MemoryStoreCell_PopFront :: "'m list \<Rightarrow> int \<times> 'm option \<times> 'm list" where
  "MemoryStoreCell_PopFront q = (case q of [] \<Rightarrow> (1, None, []) | m # q' \<Rightarrow> (0, Some m, q'))"

section \<open>Outgoing messages\<close>

text \<open>\<open>operator[]\<close> creates the cell of a new connection, empty.\<close>

record OutMemoryManage =
  m_sz_Buffer :: "string \<rightharpoonup> msgref list"
  m_sh_Buffer :: "msgref list"

definition OutMemoryManage_new :: OutMemoryManage where
  "OutMemoryManage_new = \<lparr>m_sz_Buffer = Map.empty, m_sh_Buffer = []\<rparr>"

definition OutMemoryManage_PushBack_sz :: "string \<Rightarrow> msgref \<Rightarrow> OutMemoryManage \<Rightarrow> int \<times> OutMemoryManage" where
  "OutMemoryManage_PushBack_sz k m b =
     (let cell = (case m_sz_Buffer b k of None \<Rightarrow> [] | Some q \<Rightarrow> q) in
      case MemoryStoreCell_PushBack m cell of (r, q) \<Rightarrow> (r, b\<lparr>m_sz_Buffer := (m_sz_Buffer b)(k \<mapsto> q)\<rparr>))"

definition OutMemoryManage_PushBack_sh :: "msgref \<Rightarrow> OutMemoryManage \<Rightarrow> int \<times> OutMemoryManage" where
  "OutMemoryManage_PushBack_sh m b =
     (case MemoryStoreCell_PushBack m (m_sh_Buffer b) of (r, q) \<Rightarrow> (r, b\<lparr>m_sh_Buffer := q\<rparr>))"

definition OutMemoryManage_PushBack ::
  "(msgref \<Rightarrow> OrderMessage) \<Rightarrow> msgref \<Rightarrow> OutMemoryManage \<Rightarrow> int \<times> OutMemoryManage" where
  "OutMemoryManage_PushBack h m b =
     (if strTrade_market (h m) = TRADE_MARKET_SZ
      then if strSenderCompID (h m) = [] then (-1, b)
           else OutMemoryManage_PushBack_sz (strSenderCompID (h m)) m b
      else if strTrade_market (h m) = TRADE_MARKET_SH then OutMemoryManage_PushBack_sh m b
      else (-1, b))"

definition OutMemoryManage_PopFront_sz ::
  "string \<Rightarrow> OutMemoryManage \<Rightarrow> int \<times> msgref option \<times> OutMemoryManage" where
  "OutMemoryManage_PopFront_sz k b =
     (if k = [] then (-1, None, b)
      else case m_sz_Buffer b k of None \<Rightarrow> (1, None, b)
      | Some q \<Rightarrow> (case MemoryStoreCell_PopFront q of
          (r, m, q') \<Rightarrow> (r, m, b\<lparr>m_sz_Buffer := (m_sz_Buffer b)(k \<mapsto> q')\<rparr>)))"

definition OutMemoryManage_PopFront_sh :: "OutMemoryManage \<Rightarrow> int \<times> msgref option \<times> OutMemoryManage" where
  "OutMemoryManage_PopFront_sh b =
     (case MemoryStoreCell_PopFront (m_sh_Buffer b) of (r, m, q) \<Rightarrow> (r, m, b\<lparr>m_sh_Buffer := q\<rparr>))"

definition OutMemoryManage_GetSize_sz :: "string \<Rightarrow> OutMemoryManage \<Rightarrow> nat" where
  "OutMemoryManage_GetSize_sz k b =
     (if k = [] then 0
      else case m_sz_Buffer b k of None \<Rightarrow> 0 | Some q \<Rightarrow> MemoryStoreCell_GetSize q)"

definition OutMemoryManage_GetSize_sh :: "OutMemoryManage \<Rightarrow> nat" where
  "OutMemoryManage_GetSize_sh b = MemoryStoreCell_GetSize (m_sh_Buffer b)"

section \<open>The order store\<close>

fun find_delete :: "('m \<Rightarrow> bool) \<Rightarrow> 'm list \<Rightarrow> int \<times> 'm option \<times> 'm list" where
  "find_delete P [] = (1, None, [])"
| "find_delete P (m # q) =
     (if P m then (0, Some m, q)
      else case find_delete P q of (r, x, q') \<Rightarrow> (r, x, m # q'))"

definition FindCancellOrderAndDelete ::
  "(msgref \<Rightarrow> OrderMessage) \<Rightarrow> msgref \<Rightarrow> msgref list \<Rightarrow> int \<times> msgref option \<times> msgref list" where
  "FindCancellOrderAndDelete h in_obj q =
     find_delete (\<lambda>m. strOrigClordid (h m) = strClordid (h in_obj) \<and>
       strMarket (h m) = strMarket (h in_obj) \<and> strSessionId (h m) = strSessionId (h in_obj)) q"

definition FindOrigOrderAndDelete ::
  "(msgref \<Rightarrow> OrderMessage) \<Rightarrow> msgref \<Rightarrow> msgref list \<Rightarrow> int \<times> msgref option \<times> msgref list" where
  "FindOrigOrderAndDelete h in_cancelPtr q =
     find_delete (\<lambda>m. strClordid (h m) = strOrigClordid (h in_cancelPtr) \<and>
       strMarket (h m) = strMarket (h in_cancelPtr) \<and> strSessionId (h m) = strSessionId (h in_cancelPtr)) q"

record OrderMemoryStoreFactory =
  m_storeBuyOrder :: "msgref list"
  m_storeSellOrder :: "msgref list"
  m_storeErrorOrder :: "msgref list"
  m_storeCancellOrder :: "msgref list"

text \<open>The store an order type selects, and its replacement.\<close>

definition store_of :: "ORDER_TYPE \<Rightarrow> OrderMemoryStoreFactory \<Rightarrow> msgref list" where
  "store_of ty f = (case ty of ordtype_buy \<Rightarrow> m_storeBuyOrder f | ordtype_sell \<Rightarrow> m_storeSellOrder f
     | ordtype_error \<Rightarrow> m_storeErrorOrder f | ordtype_cancel \<Rightarrow> m_storeCancellOrder f)"

definition set_store :: "ORDER_TYPE \<Rightarrow> msgref list \<Rightarrow> OrderMemoryStoreFactory \<Rightarrow> OrderMemoryStoreFactory" where
  "set_store ty q f = (case ty of ordtype_buy \<Rightarrow> f\<lparr>m_storeBuyOrder := q\<rparr>
     | ordtype_sell \<Rightarrow> f\<lparr>m_storeSellOrder := q\<rparr> | ordtype_error \<Rightarrow> f\<lparr>m_storeErrorOrder := q\<rparr>
     | ordtype_cancel \<Rightarrow> f\<lparr>m_storeCancellOrder := q\<rparr>)"

definition Factory_InsertOrder ::
  "ORDER_TYPE \<Rightarrow> msgref \<Rightarrow> OrderMemoryStoreFactory \<Rightarrow> int \<times> OrderMemoryStoreFactory" where
  "Factory_InsertOrder ty m f =
     (case MemoryStoreCell_PushBack m (store_of ty f) of (r, q) \<Rightarrow> (r, set_store ty q f))"

definition Factory_GetOrderDepth :: "ORDER_TYPE \<Rightarrow> OrderMemoryStoreFactory \<Rightarrow> nat" where
  "Factory_GetOrderDepth ty f = MemoryStoreCell_GetSize (store_of ty f)"

definition Factory_GetOrder ::
  "ORDER_TYPE \<Rightarrow> OrderMemoryStoreFactory \<Rightarrow> int \<times> msgref option \<times> OrderMemoryStoreFactory" where
  "Factory_GetOrder ty f =
     (case MemoryStoreCell_PopFront (store_of ty f) of (r, m, q) \<Rightarrow> (r, m, set_store ty q f))"

definition GetBSOrderAndCheckIfCancell ::
  "(msgref \<Rightarrow> OrderMessage) \<Rightarrow> ORDER_TYPE \<Rightarrow> OrderMemoryStoreFactory \<Rightarrow>
   int \<times> msgref option \<times> msgref option \<times> OrderMemoryStoreFactory" where
  "GetBSOrderAndCheckIfCancell h ty f =
     (if ty \<noteq> ordtype_buy \<and> ty \<noteq> ordtype_sell then (-1, None, None, f)
      else case MemoryStoreCell_PopFront (store_of ty f) of
        (r, None, q) \<Rightarrow> (r, None, None, f)
      | (r, Some m, q) \<Rightarrow>
          let f1 = set_store ty q f in
          case FindCancellOrderAndDelete h m (m_storeCancellOrder f1) of
            (r2, c, q2) \<Rightarrow> ((if r2 = 1 then 0 else if r2 = 0 then 2 else r2), Some m, c,
                            f1\<lparr>m_storeCancellOrder := q2\<rparr>))"

definition GetOrigOrder ::
  "(msgref \<Rightarrow> OrderMessage) \<Rightarrow> ORDER_TYPE \<Rightarrow> msgref \<Rightarrow> OrderMemoryStoreFactory \<Rightarrow>
   int \<times> msgref option \<times> OrderMemoryStoreFactory" where
  "GetOrigOrder h ty c f =
     (if ty \<noteq> ordtype_cancel then (-1, None, f)
      else case FindOrigOrderAndDelete h c (m_storeCancellOrder f) of
        (r, m, q) \<Rightarrow> (r, m, f\<lparr>m_storeCancellOrder := q\<rparr>))"

section \<open>First in, first out\<close>

text \<open>
  The contract of a channel: every operation moves a message only from the sender to the end of
  the channel's content or from its front to the receiver.  Then in any run what was received and
  what is still inside is what was there and what was sent, in order.
\<close>

fun run_trace :: "('o \<Rightarrow> 's \<Rightarrow> 's) \<Rightarrow> ('o \<Rightarrow> 's \<Rightarrow> 'm list) \<Rightarrow> 'o list \<Rightarrow> 's \<Rightarrow> 'm list" where
  "run_trace step out [] s = []"
| "run_trace step out (x # xs) s = out x s @ run_trace step out xs (step x s)"

locale fifo_channel =
  fixes content :: "'s \<Rightarrow> 'm list" and step :: "'o \<Rightarrow> 's \<Rightarrow> 's"
    and sent :: "'o \<Rightarrow> 's \<Rightarrow> 'm list" and received :: "'o \<Rightarrow> 's \<Rightarrow> 'm list"
  assumes conserve: "content s @ sent x s = received x s @ content (step x s)"
begin

lemma run_fifo:
  "content s @ run_trace step sent xs s = run_trace step received xs s @ content (fold step xs s)"
proof (induction xs arbitrary: s)
  case (Cons x xs)
  have "content s @ run_trace step sent (x # xs) s = (content s @ sent x s) @ run_trace step sent xs (step x s)"
    by simp
  also have "\<dots> = received x s @ run_trace step received xs (step x s) @ content (fold step xs (step x s))"
    using Cons.IH [of "step x s"] by (simp add: conserve)
  finally show ?case by simp
qed simp

lemma received_prefix: "\<exists>rest. content s @ run_trace step sent xs s = run_trace step received xs s @ rest"
  using run_fifo by blast

end

text \<open>The operations of the outgoing buffer, and the channel a message is routed to.\<close>

datatype out_op = OpPush "msgref \<Rightarrow> OrderMessage" msgref | OpPopSz string | OpPopSh

datatype out_channel = Sz string | Sh

definition out_step :: "out_op \<Rightarrow> OutMemoryManage \<Rightarrow> OutMemoryManage" where
  "out_step x b = (case x of OpPush h m \<Rightarrow> snd (OutMemoryManage_PushBack h m b)
     | OpPopSz k \<Rightarrow> snd (snd (OutMemoryManage_PopFront_sz k b))
     | OpPopSh \<Rightarrow> snd (snd (OutMemoryManage_PopFront_sh b)))"

definition out_popped :: "out_op \<Rightarrow> OutMemoryManage \<Rightarrow> msgref option" where
  "out_popped x b = (case x of OpPush h m \<Rightarrow> None
     | OpPopSz k \<Rightarrow> fst (snd (OutMemoryManage_PopFront_sz k b))
     | OpPopSh \<Rightarrow> fst (snd (OutMemoryManage_PopFront_sh b)))"

definition out_route :: "OrderMessage \<Rightarrow> out_channel option" where
  "out_route o1 =
     (if strTrade_market o1 = TRADE_MARKET_SZ
      then if strSenderCompID o1 = [] then None else Some (Sz (strSenderCompID o1))
      else if strTrade_market o1 = TRADE_MARKET_SH then Some Sh else None)"

definition out_content :: "out_channel \<Rightarrow> OutMemoryManage \<Rightarrow> msgref list" where
  "out_content c b = (case c of Sz k \<Rightarrow> (case m_sz_Buffer b k of None \<Rightarrow> [] | Some q \<Rightarrow> q) | Sh \<Rightarrow> m_sh_Buffer b)"

definition out_sent :: "out_channel \<Rightarrow> out_op \<Rightarrow> OutMemoryManage \<Rightarrow> msgref list" where
  "out_sent c x b = (case x of OpPush h m \<Rightarrow> if out_route (h m) = Some c then [m] else [] | _ \<Rightarrow> [])"

definition out_received :: "out_channel \<Rightarrow> out_op \<Rightarrow> OutMemoryManage \<Rightarrow> msgref list" where
  "out_received c x b =
     (if (case x of OpPush h m \<Rightarrow> False | OpPopSz k \<Rightarrow> c = Sz k | OpPopSh \<Rightarrow> c = Sh)
      then (case out_popped x b of None \<Rightarrow> [] | Some m \<Rightarrow> [m]) else [])"

lemma PushBack_route:
  "OutMemoryManage_PushBack h m b =
     (case out_route (h m) of None \<Rightarrow> (-1, b) | Some (Sz k) \<Rightarrow> OutMemoryManage_PushBack_sz k m b
      | Some Sh \<Rightarrow> OutMemoryManage_PushBack_sh m b)"
  by (simp add: OutMemoryManage_PushBack_def out_route_def)

lemmas out_defs = out_step_def out_popped_def out_content_def out_sent_def out_received_def
  OutMemoryManage_PushBack_sz_def OutMemoryManage_PushBack_sh_def OutMemoryManage_PopFront_sz_def
  OutMemoryManage_PopFront_sh_def MemoryStoreCell_PushBack_def MemoryStoreCell_PopFront_def

lemma out_conserve:
  "c \<noteq> Sz [] \<Longrightarrow> out_content c b @ out_sent c x b = out_received c x b @ out_content c (out_step x b)"
  by (cases x; cases c) (auto simp: out_defs PushBack_route Let_def split: option.splits out_channel.splits list.splits)

text \<open>The two kinds of channels: the Shanghai connection and each Shenzhen connection.\<close>

lemma out_content_Nil_key:
  "out_content (Sz []) b = [] \<Longrightarrow> out_content (Sz []) (out_step x b) = [] \<and> out_sent (Sz []) x b = []"
  by (cases x) (auto simp: out_defs PushBack_route out_route_def Let_def split: option.splits list.splits)

interpretation sh: fifo_channel "out_content Sh" out_step "out_sent Sh" "out_received Sh"
  by unfold_locales (simp add: out_conserve)

interpretation sz: fifo_channel "out_content (Sz (c # cs))" out_step "out_sent (Sz (c # cs))" "out_received (Sz (c # cs))"
  for c cs
  by unfold_locales (simp add: out_conserve)

text \<open>
  C29.  Outgoing messages are neither lost, duplicated nor reordered: in any run of pushes and pops,
  for every connection the messages taken out followed by those still stored are those stored at
  first followed by those pushed for that connection.
\<close>

theorem out_fifo:
  assumes "c \<noteq> Sz []"
  shows "out_content c b @ run_trace out_step (out_sent c) xs b =
         run_trace out_step (out_received c) xs b @ out_content c (fold out_step xs b)"
proof (cases c)
  case (Sz k)
  then obtain d ds where "k = d # ds" using assms by (cases k) auto
  then show ?thesis using Sz sz.run_fifo by simp
qed (use sh.run_fifo in simp)

definition sample_out_run :: "out_op list" where
  "sample_out_run =
     [OpPush (\<lambda>_. OrderMessage_new\<lparr>strTrade_market := TRADE_MARKET_SZ, strSenderCompID := ''A''\<rparr>) 4,
      OpPush (\<lambda>_. OrderMessage_new\<lparr>strTrade_market := TRADE_MARKET_SZ, strSenderCompID := ''A''\<rparr>) 5,
      OpPopSz ''A'']"

lemma out_fifo_witness:
  "\<exists>rest. [4, 5] = run_trace out_step (out_received (Sz ''A'')) sample_out_run OutMemoryManage_new @ rest"
proof -
  have "run_trace out_step (out_sent (Sz ''A'')) sample_out_run OutMemoryManage_new = [4, 5]"
    by (simp add: sample_out_run_def out_sent_def out_route_def TRADE_MARKET_SZ_def)
  moreover have "out_content (Sz ''A'') OutMemoryManage_new = []"
    by (simp add: out_content_def OutMemoryManage_new_def)
  ultimately show ?thesis
    using out_fifo [of "Sz ''A''" OutMemoryManage_new sample_out_run] by auto
qed

section \<open>The order store finds what it is asked for\<close>

lemma find_delete_spec:
  "find_delete P q = (r, x, q') \<Longrightarrow>
   (r = 0 \<and> (\<exists>m pre post. x = Some m \<and> P m \<and> q = pre @ m # post \<and> q' = pre @ post \<and> (\<forall>y\<in>set pre. \<not> P y)))
   \<or> (r = 1 \<and> x = None \<and> q' = q \<and> (\<forall>y\<in>set q. \<not> P y))"
proof (induction q arbitrary: r x q')
  case (Cons a q)
  show ?case
  proof (cases "P a")
    case True
    then have "r = 0 \<and> x = Some a \<and> P a \<and> a # q = [] @ a # q' \<and> q' = [] @ q'" using Cons.prems by simp
    then show ?thesis by (metis empty_iff empty_set)
  next
    case False
    obtain r1 x1 q1 where f: "find_delete P q = (r1, x1, q1)" by (metis prod_cases3)
    with False Cons.prems have e: "r = r1" "x = x1" "q' = a # q1" by auto
    from Cons.IH [OF f] show ?thesis
    proof
      assume "r1 = 0 \<and> (\<exists>m pre post. x1 = Some m \<and> P m \<and> q = pre @ m # post \<and> q1 = pre @ post \<and> (\<forall>y\<in>set pre. \<not> P y))"
      then obtain m pre post where "r1 = 0" "x1 = Some m" "P m" "q = pre @ m # post" "q1 = pre @ post"
        "\<forall>y\<in>set pre. \<not> P y" by blast
      then have "r = 0 \<and> x = Some m \<and> P m \<and> a # q = (a # pre) @ m # post \<and> q' = (a # pre) @ post \<and>
        (\<forall>y\<in>set (a # pre). \<not> P y)" using e False by simp
      then show ?thesis by (intro disjI1) metis
    qed (use e False in auto)
  qed
qed simp

text \<open>
  Taking the next purchase or sale reports 2 exactly when a cancellation of that very order
  waits, which is then taken out of the cancellations; no other stored message is touched.
\<close>

theorem GetBSOrder_meets_cancellation:
  assumes "GetBSOrderAndCheckIfCancell h ty f = (r, Some m, c, f')"
  shows "m = hd (store_of ty f) \<and> ty \<in> {ordtype_buy, ordtype_sell} \<and> store_of ty f' = tl (store_of ty f) \<and>
    (let hit = (\<lambda>x. strOrigClordid (h x) = strClordid (h m) \<and> strMarket (h x) = strMarket (h m) \<and>
                    strSessionId (h x) = strSessionId (h m)) in
     if \<exists>x\<in>set (m_storeCancellOrder f). hit x
     then r = 2 \<and> (\<exists>x pre post. c = Some x \<and> hit x \<and> m_storeCancellOrder f = pre @ x # post \<and>
            m_storeCancellOrder f' = pre @ post)
     else r = 0 \<and> c = None \<and> m_storeCancellOrder f' = m_storeCancellOrder f)"
proof -
  from assms have ty: "ty = ordtype_buy \<or> ty = ordtype_sell"
    by (auto simp: GetBSOrderAndCheckIfCancell_def split: if_splits)
  have cond: "\<not> (ty \<noteq> ordtype_buy \<and> ty \<noteq> ordtype_sell)" using ty by blast
  have "GetBSOrderAndCheckIfCancell h ty f = (1, None, None, f)" if "store_of ty f = []"
    unfolding GetBSOrderAndCheckIfCancell_def if_not_P [OF cond] MemoryStoreCell_PopFront_def that by simp
  then have "store_of ty f \<noteq> []" using assms by (metis Pair_inject option.distinct(1))
  then obtain m1 q where q1: "store_of ty f = m1 # q" by (cases "store_of ty f") auto
  let ?P = "\<lambda>m x. strOrigClordid (h x) = strClordid (h m) \<and> strMarket (h x) = strMarket (h m) \<and>
                strSessionId (h x) = strSessionId (h m)"
  have cs: "m_storeCancellOrder (set_store ty q f) = m_storeCancellOrder f" using ty by (auto simp: set_store_def)
  obtain r2 c2 q2 where fd1: "find_delete (?P m1) (m_storeCancellOrder f) = (r2, c2, q2)"
    by (rule prod_cases3)
  have "(r, Some m, c, f') = ((if r2 = 1 then 0 else if r2 = 0 then 2 else r2), Some m1, c2,
          (set_store ty q f)\<lparr>m_storeCancellOrder := q2\<rparr>)"
    unfolding assms [symmetric] GetBSOrderAndCheckIfCancell_def if_not_P [OF cond] FindCancellOrderAndDelete_def
    by (simp add: MemoryStoreCell_PopFront_def q1 cs fd1 Let_def)
  then have m: "m1 = m" and e: "r = (if r2 = 1 then 0 else if r2 = 0 then 2 else r2)" "c = c2"
    "f' = (set_store ty q f)\<lparr>m_storeCancellOrder := q2\<rparr>" by auto
  note q = q1 [unfolded m] and fd = fd1 [unfolded m]
  have st: "store_of ty f' = q" using ty e(3) by (auto simp: store_of_def set_store_def)
  from find_delete_spec [OF fd] show ?thesis
  proof
    assume "r2 = 0 \<and> (\<exists>x pre post. c2 = Some x \<and> ?P m x \<and> m_storeCancellOrder f = pre @ x # post \<and> q2 = pre @ post \<and> (\<forall>y\<in>set pre. \<not> ?P m y))"
    then obtain x pre post where "r2 = 0" "c2 = Some x" "?P m x" "m_storeCancellOrder f = pre @ x # post" "q2 = pre @ post"
      by blast
    then have ex: "\<exists>x pre post. c = Some x \<and> ?P m x \<and> m_storeCancellOrder f = pre @ x # post \<and>
        m_storeCancellOrder f' = pre @ post" and "r2 = 0" "\<exists>x\<in>set (m_storeCancellOrder f). ?P m x" using e by auto
    then have "r = 2" "\<exists>x\<in>set (m_storeCancellOrder f). ?P m x" using e(1) by simp_all
    then show ?thesis using ex q st ty by (simp add: Let_def)
  qed (use e q st ty in \<open>auto simp: Let_def\<close>)
qed

definition sample_store :: OrderMemoryStoreFactory where
  "sample_store = \<lparr>m_storeBuyOrder = [0], m_storeSellOrder = [], m_storeErrorOrder = [], m_storeCancellOrder = [1]\<rparr>"

lemma GetBSOrder_meets_cancellation_witness:
  "\<exists>r c f'. GetBSOrderAndCheckIfCancell (\<lambda>i. if i = 0 then OrderMessage_new\<lparr>strClordid := ''7''\<rparr>
      else OrderMessage_new\<lparr>strOrigClordid := ''7''\<rparr>) ordtype_buy sample_store = (r, Some 0, c, f') \<and>
    r = 2 \<and> m_storeCancellOrder f' = []"
proof -
  let ?h = "\<lambda>i :: msgref. if i = 0 then OrderMessage_new\<lparr>strClordid := ''7''\<rparr>
      else OrderMessage_new\<lparr>strOrigClordid := ''7''\<rparr>"
  obtain r c f' where e: "GetBSOrderAndCheckIfCancell ?h ordtype_buy sample_store = (r, Some 0, c, f')"
    by (simp add: GetBSOrderAndCheckIfCancell_def sample_store_def store_of_def MemoryStoreCell_PopFront_def
        Let_def case_prod_beta)
  have hit: "strMarket (?h 1) = strMarket (?h 0)" "strSessionId (?h 1) = strSessionId (?h 0)"
    "strOrigClordid (?h 1) = ''7''" "strClordid (?h 0) = ''7''" "m_storeCancellOrder sample_store = [1]"
    by (simp_all add: OrderMessage_new_def sample_store_def)
  have "r = 2 \<and> m_storeCancellOrder f' = []"
    using GetBSOrder_meets_cancellation [OF e] hit by (auto simp: Let_def Cons_eq_append_conv)
  then show ?thesis using e by blast
qed

end
