(* ===== verification/MarketInfoHelper.thy ===== *)
theory MarketInfoHelper
  imports TgwStringUtil OrderMsg
begin

text \<open>
  \<open>quotation/MarketInfoHelper.cpp\<close>: the quantity the market still offers to a trading circle, kept
  in a Redis hash.  The Redis server is the parameter \<open>run\<close>: a command and the server's state to
  its reply and new state (\<open>Tgw_RedisHelper::RunCmdArgv\<close> adds only connection handling; it ends the
  process on an error reply).  The text to time conversion of the date library is the parameter
  \<open>ptime\<close>: milliseconds, or None when it throws.  A result \<open>None\<close> reads a reply past its end.
\<close>

section \<open>Redis replies\<close>

datatype RedisReply = RedisReply_error | RedisReply_nil | RedisReply_string string
  | RedisReply_array "string list" | RedisReply_integer int | RedisReply_status string

type_synonym 'r redis = "string list \<Rightarrow> 'r \<Rightarrow> RedisReply \<times> 'r"

definition IsRedisCmdSuccess :: "RedisReply \<Rightarrow> bool" where
  "IsRedisCmdSuccess rep = (case rep of RedisReply_error \<Rightarrow> False | RedisReply_nil \<Rightarrow> False
     | RedisReply_string _ \<Rightarrow> True | RedisReply_array _ \<Rightarrow> True
     | RedisReply_integer i \<Rightarrow> i \<noteq> 0 | RedisReply_status s \<Rightarrow> s = ''OK'')"

definition g_Key_AStockQuotTGW_TradeVolume :: string where
  "g_Key_AStockQuotTGW_TradeVolume = ''tgwhqk_tv''"

section \<open>Comparing times\<close>

type_synonym ptime = "string \<Rightarrow> int option"

text \<open>Return code and \<open>out_i64TimeDiff\<close>, end minus begin; 0 as the callers initialise it.\<close>

definition CompareTime :: "ptime \<Rightarrow> string \<Rightarrow> string \<Rightarrow> int \<times> int" where
  "CompareTime ptime in_strBegin in_strEnd =
     (case ptime in_strBegin of None \<Rightarrow> (-1, 0)
      | Some b \<Rightarrow> (case ptime in_strEnd of None \<Rightarrow> (-1, 0) | Some e \<Rightarrow> (0, e - b)))"

section \<open>Reading what is on offer\<close>

text \<open>The out parameters, which the caller initialises to zero and the empty string.\<close>

record QuotGap =
  out_MaxGain :: u64
  out_MinFall :: u64
  out_Cjsl :: u64
  out_Cjje :: u64
  out_Hqsj :: string
  out_Tpbz :: string

definition QuotGap_init :: QuotGap where
  "QuotGap_init = \<lparr>out_MaxGain = 0, out_MinFall = 0, out_Cjsl = 0, out_Cjje = 0, out_Hqsj = [], out_Tpbz = []\<rparr>"

text \<open>
  The names of the quantity and of the amount or price a request asks for: none for an order
  against the opposite side whose side is unknown.
\<close>

definition is_buy_str :: "string \<Rightarrow> bool" where
  "is_buy_str side \<longleftrightarrow> side = STEPMSG_SIDE_BUY_B \<or> side = STEPMSG_SIDE_BUY_1"

definition is_sell_str :: "string \<Rightarrow> bool" where
  "is_sell_str side \<longleftrightarrow> side = STEPMSG_SIDE_SELL_S \<or> side = STEPMSG_SIDE_SELL_2"

definition side_names :: "string \<Rightarrow> string list" where
  "side_names side = (if is_buy_str side then [''SSL1'', ''SJW1'']
     else if is_sell_str side then [''BSL1'', ''BJW1''] else [])"

definition gap_fields :: "string list \<Rightarrow> string \<Rightarrow> string \<Rightarrow> string list" where
  "gap_fields names zqdm circle =
     [zqdm @ ''_maxgain'', zqdm @ ''_minfall''] @ map (\<lambda>n. zqdm @ ''_'' @ n) names @
     [zqdm @ ''_OrigTime'', zqdm @ ''_TPBZ''] @ map (\<lambda>n. zqdm @ ''_'' @ n @ ''_'' @ circle) names @
     [zqdm @ ''_OrigTime_'' @ circle]"

text \<open>
  The part the three readers share: the reply, the choice between the circle's and the live
  values, the conversions; \<open>amount\<close> gives \<open>out_ui64Cjje\<close> from the second value and the quantity.
\<close>

definition read_gap ::
  "ptime \<Rightarrow> (u64 \<Rightarrow> u64 \<Rightarrow> u64) \<Rightarrow> RedisReply \<Rightarrow> (int \<times> QuotGap) option" where
  "read_gap ptime amount reply =
     (case reply of RedisReply_array v \<Rightarrow>
        if length v < 8 then Some (-1, QuotGap_init)
        else if length v < 9 then None
        else
          let live_exists = (v ! 2 \<noteq> [] \<and> v ! 3 \<noteq> [] \<and> v ! 4 \<noteq> [] \<and> v ! 5 \<noteq> []);
              circle_exists = (v ! 6 \<noteq> [] \<and> v ! 7 \<noteq> [] \<and> v ! 8 \<noteq> []);
              finish = (\<lambda>sl je hq.
                (0, \<lparr>out_MaxGain = snd (String2UInt64_strtoui64 (v ! 0)),
                     out_MinFall = snd (String2UInt64_strtoui64 (v ! 1)),
                     out_Cjsl = snd (String2UInt64_strtoui64 sl),
                     out_Cjje = amount (snd (String2UInt64_strtoui64 je)) (snd (String2UInt64_strtoui64 sl)),
                     out_Hqsj = hq, out_Tpbz = v ! 5\<rparr>))
          in Some (if live_exists then
                (if circle_exists then
                   (case CompareTime ptime (v ! 8) (v ! 4) of (iRes, diff) \<Rightarrow>
                      if iRes < 0 then (-1, QuotGap_init\<lparr>out_Tpbz := v ! 5\<rparr>)
                      else if diff = 0 then finish (v ! 6) (v ! 7) (v ! 8)
                      else finish (v ! 2) (v ! 3) (v ! 4))
                 else finish (v ! 2) (v ! 3) (v ! 4))
              else (-1, QuotGap_init))
      | _ \<Rightarrow> Some (-1, QuotGap_init))"

definition hmget :: "string list \<Rightarrow> string list" where
  "hmget fs = ''HMGET'' # g_Key_AStockQuotTGW_TradeVolume # fs"

definition GetCurrQuotGapByCircle_AveragePrice ::
  "ptime \<Rightarrow> 'r redis \<Rightarrow> string \<Rightarrow> string \<Rightarrow> 'r \<Rightarrow> (int \<times> QuotGap) option \<times> 'r" where
  "GetCurrQuotGapByCircle_AveragePrice ptime run zqdm circle r =
     (if zqdm = [] \<or> circle = [] then (Some (1, QuotGap_init), r)
      else apfst (read_gap ptime (\<lambda>je sl. je)) (run (hmget (gap_fields [''CJSL'', ''CJJE''] zqdm circle)) r))"

definition GetCurrQuotGapByCircle_SellBuyPrice ::
  "ptime \<Rightarrow> 'r redis \<Rightarrow> string \<Rightarrow> string \<Rightarrow> string \<Rightarrow> 'r \<Rightarrow> (int \<times> QuotGap) option \<times> 'r" where
  "GetCurrQuotGapByCircle_SellBuyPrice ptime run zqdm side circle r =
     (if zqdm = [] \<or> circle = [] then (Some (1, QuotGap_init), r)
      else apfst (read_gap ptime (\<lambda>jg sl. jg * sl)) (run (hmget (gap_fields (side_names side) zqdm circle)) r))"

definition GetCurrQuotGapByCircle_RecentPrice ::
  "ptime \<Rightarrow> 'r redis \<Rightarrow> string \<Rightarrow> string \<Rightarrow> 'r \<Rightarrow> (int \<times> QuotGap) option \<times> 'r" where
  "GetCurrQuotGapByCircle_RecentPrice ptime run zqdm circle r =
     (if zqdm = [] \<or> circle = [] then (Some (1, QuotGap_init), r)
      else apfst (read_gap ptime (\<lambda>jg sl. jg * sl)) (run (hmget (gap_fields [''CJSL'', ''ZJJG''] zqdm circle)) r))"

definition GetCurrQuotGapByCircle ::
  "ptime \<Rightarrow> 'r redis \<Rightarrow> string \<Rightarrow> string \<Rightarrow> string \<Rightarrow> QuotationType \<Rightarrow> 'r \<Rightarrow> (int \<times> QuotGap) option \<times> 'r" where
  "GetCurrQuotGapByCircle ptime run zqdm side circle quotType r =
     (if zqdm = [] \<or> circle = [] then (Some (1, QuotGap_init), r)
      else case quotType of
        AveragePrice \<Rightarrow> GetCurrQuotGapByCircle_AveragePrice ptime run zqdm circle r
      | SellBuyPrice \<Rightarrow> GetCurrQuotGapByCircle_SellBuyPrice ptime run zqdm side circle r
      | RecentMatchPrice \<Rightarrow> GetCurrQuotGapByCircle_RecentPrice ptime run zqdm circle r)"

section \<open>Writing what is left\<close>

definition hmset :: "string list \<Rightarrow> string list" where
  "hmset fs = ''HMSET'' # g_Key_AStockQuotTGW_TradeVolume # fs"

definition SetCurrQuotGapByCircle ::
  "'r redis \<Rightarrow> string \<Rightarrow> string \<Rightarrow> u64 \<Rightarrow> u64 \<Rightarrow> string \<Rightarrow> 'r \<Rightarrow> int \<times> 'r" where
  "SetCurrQuotGapByCircle run zqdm circle cjsl cjje hqsj r =
     (case run (hmset [zqdm @ ''_'' @ ''CJSL'' @ ''_'' @ circle, itos cjsl,
                       zqdm @ ''_'' @ ''CJJE'' @ ''_'' @ circle, itos cjje,
                       zqdm @ ''_'' @ ''OrigTime'' @ ''_'' @ circle, hqsj]) r of
        (rep, r') \<Rightarrow> (if IsRedisCmdSuccess rep then 0 else -1, r'))"

text \<open>
  The overload that takes an order.  The fields follow the global \<open>g_Quotation_Type\<close>, and for an
  unknown side the name between the underscores is empty.
\<close>

definition opposite_name :: "string \<Rightarrow> string \<Rightarrow> string \<Rightarrow> string" where
  "opposite_name side b s = (if is_buy_str side then b else if is_sell_str side then s else [])"

definition SetCurrQuotGapByCircle_order ::
  "'r redis \<Rightarrow> QuotationType \<Rightarrow> OrderMessage \<Rightarrow> string \<Rightarrow> u64 \<Rightarrow> u64 \<Rightarrow> string \<Rightarrow> 'r \<Rightarrow> int \<times> 'r" where
  "SetCurrQuotGapByCircle_order run g_Quotation_Type o1 circle cjsl cjje hqsj r =
     (let field = (\<lambda>n. strStockID o1 @ ''_'' @ n @ ''_'' @ circle);
          price = (if cjsl \<noteq> 0 then itos (cjje div cjsl) else ''0'');
          values = (case g_Quotation_Type of
             AveragePrice \<Rightarrow> [field ''CJSL'', itos cjsl, field ''CJJE'', itos cjje]
           | SellBuyPrice \<Rightarrow> [field (opposite_name (strSide o1) ''SSL1'' ''BSL1''), itos cjsl,
                              field (opposite_name (strSide o1) ''SJW1'' ''BJW1''), price]
           | RecentMatchPrice \<Rightarrow> [field ''CJSL'', itos cjsl, field ''ZJJG'', price])
      in case run (hmset (values @ [field ''OrigTime'', hqsj])) r of
           (rep, r') \<Rightarrow> (if IsRedisCmdSuccess rep then 0 else -1, r'))"

section \<open>What the code relies on in Redis\<close>

text \<open>
  The documented behaviour of HMGET and HMSET: \<open>view\<close> is the content of the hash in a server
  state.  HMGET replies with one element per field, empty for a missing one, and changes nothing;
  HMSET replies OK and sets the fields in order.
\<close>

definition redis_hash_ok :: "'r redis \<Rightarrow> ('r \<Rightarrow> string \<Rightarrow> string option) \<Rightarrow> bool" where
  "redis_hash_ok run view \<longleftrightarrow>
     (\<forall>r fs. fs \<noteq> [] \<longrightarrow>
        run (hmget fs) r = (RedisReply_array (map (\<lambda>f. case view r f of None \<Rightarrow> [] | Some v \<Rightarrow> v) fs), r)) \<and>
     (\<forall>r fvs. fvs \<noteq> [] \<longrightarrow>
        (\<exists>r'. run (hmset (concat (map (\<lambda>(f, v). [f, v]) fvs))) r = (RedisReply_status ''OK'', r') \<and>
              view r' = fold (\<lambda>(f, v) m. m(f \<mapsto> v)) fvs (view r)))"

text \<open>A server that behaves so, its state being the hash.\<close>

fun store_pairs :: "string list \<Rightarrow> (string \<Rightarrow> string option) \<Rightarrow> string \<Rightarrow> string option" where
  "store_pairs (f # v # rest) m = store_pairs rest (m(f \<mapsto> v))"
| "store_pairs _ m = m"

definition hash_server :: "(string \<Rightarrow> string option) redis" where
  "hash_server cmd m =
     (case cmd of c # k # fs \<Rightarrow>
        if c = ''HMGET'' then (RedisReply_array (map (\<lambda>f. case m f of None \<Rightarrow> [] | Some v \<Rightarrow> v) fs), m)
        else if c = ''HMSET'' then (RedisReply_status ''OK'', store_pairs fs m)
        else (RedisReply_error, m)
      | _ \<Rightarrow> (RedisReply_error, m))"

lemma store_pairs_concat:
  "store_pairs (concat (map (\<lambda>(f, v). [f, v]) fvs)) m = fold (\<lambda>(f, v) m. m(f \<mapsto> v)) fvs m"
  by (induction fvs arbitrary: m) auto

lemma hash_server_ok: "redis_hash_ok hash_server (\<lambda>m. m)"
  by (simp add: redis_hash_ok_def hash_server_def hmget_def hmset_def store_pairs_concat)

lemma run_hmget:
  "redis_hash_ok run view \<Longrightarrow> fs \<noteq> [] \<Longrightarrow>
   run (hmget fs) r = (RedisReply_array (map (\<lambda>f. case view r f of None \<Rightarrow> [] | Some v \<Rightarrow> v) fs), r)"
  by (simp add: redis_hash_ok_def)

lemma run_hmset_3:
  assumes "redis_hash_ok run view"
  shows "\<exists>r'. run (hmset [a, x, b, y, c, z]) r = (RedisReply_status ''OK'', r') \<and>
              view r' = (view r)(a \<mapsto> x, b \<mapsto> y, c \<mapsto> z)"
proof -
  have "[(a, x), (b, y), (c, z)] \<noteq> []" by simp
  with assms obtain r' where
    "run (hmset (concat (map (\<lambda>(f, v). [f, v]) [(a, x), (b, y), (c, z)]))) r = (RedisReply_status ''OK'', r') \<and>
     view r' = fold (\<lambda>(f, v) m. m(f \<mapsto> v)) [(a, x), (b, y), (c, z)] (view r)"
    unfolding redis_hash_ok_def by blast
  then show ?thesis by simp
qed

section \<open>What is written is what is read\<close>

lemma strtoui64_itos: "n < 2 ^ 63 \<Longrightarrow> snd (String2UInt64_strtoui64 (itos n)) = n"
proof -
  assume n: "n < 2 ^ 63"
  then have "unat n < 9223372036854775808" by (simp add: word_less_nat_alt)
  then have "int (unat n) \<le> 9223372036854775807" by linarith
  then have u: "int (unat n) \<le> 2 ^ 63 - 1" by simp
  have "strtoll (decimal (unat n)) = int (unat n)"
    by (simp only: strtoll_def scan_decimal prod.case if_False min_absorb2 [OF u])
  then show ?thesis by (simp add: String2UInt64_strtoui64_def itos_decimal)
qed

lemma itos_not_Nil [simp]: "itos n \<noteq> []"
  by (simp add: itos_decimal)

lemma itos_0: "itos 0 = ''0''"
  by (simp add: itos_decimal decimal_0)

text \<open>The two names a quotation type uses, and how the amount follows from the second value.\<close>

definition quot_names :: "QuotationType \<Rightarrow> string \<Rightarrow> string list" where
  "quot_names T side = (case T of AveragePrice \<Rightarrow> [''CJSL'', ''CJJE''] | SellBuyPrice \<Rightarrow> side_names side
     | RecentMatchPrice \<Rightarrow> [''CJSL'', ''ZJJG''])"

definition quot_amount :: "QuotationType \<Rightarrow> u64 \<Rightarrow> u64 \<Rightarrow> u64" where
  "quot_amount T je sl = (if T = AveragePrice then je else je * sl)"

lemma Get_eq:
  assumes "zqdm \<noteq> []" and "circle \<noteq> []"
  shows "GetCurrQuotGapByCircle ptime run zqdm side circle T r =
    apfst (read_gap ptime (quot_amount T)) (run (hmget (gap_fields (quot_names T side) zqdm circle)) r)"
proof -
  have "quot_amount AveragePrice = (\<lambda>je sl. je)" "quot_amount SellBuyPrice = (\<lambda>je sl. je * sl)"
    "quot_amount RecentMatchPrice = (\<lambda>je sl. je * sl)" by (auto simp: quot_amount_def fun_eq_iff)
  then show ?thesis
    using assms by (cases T) (simp_all add: GetCurrQuotGapByCircle_def quot_names_def
        GetCurrQuotGapByCircle_AveragePrice_def GetCurrQuotGapByCircle_SellBuyPrice_def
        GetCurrQuotGapByCircle_RecentPrice_def)
qed

text \<open>
  The live quotation of a security is complete at time \<open>hq\<close>: the two values, the suspension flag
  and a time the date library can read.
\<close>

definition field_of :: "('r \<Rightarrow> string \<Rightarrow> string option) \<Rightarrow> 'r \<Rightarrow> string \<Rightarrow> string" where
  "field_of view r f = (case view r f of None \<Rightarrow> [] | Some v \<Rightarrow> v)"

definition live_quotation ::
  "ptime \<Rightarrow> ('r \<Rightarrow> string \<Rightarrow> string option) \<Rightarrow> 'r \<Rightarrow> QuotationType \<Rightarrow> string \<Rightarrow> string \<Rightarrow> string \<Rightarrow> bool" where
  "live_quotation ptime view r T zqdm side hq \<longleftrightarrow>
     (\<forall>n\<in>set (quot_names T side). field_of view r (zqdm @ ''_'' @ n) \<noteq> []) \<and>
     field_of view r (zqdm @ ''_OrigTime'') = hq \<and> hq \<noteq> [] \<and> field_of view r (zqdm @ ''_TPBZ'') \<noteq> [] \<and>
     ptime hq \<noteq> None"

definition price_left :: "u64 \<Rightarrow> u64 \<Rightarrow> u64" where
  "price_left cjje cjsl = (if cjsl = 0 then 0 else cjje div cjsl)"

definition left_value :: "QuotationType \<Rightarrow> u64 \<Rightarrow> u64 \<Rightarrow> u64" where
  "left_value T cjje cjsl = (if T = AveragePrice then cjje else price_left cjje cjsl)"

lemma div_le_u64: "(a :: u64) div b \<le> a"
  by (simp add: word_le_nat_alt unat_div)

lemma left_value_bound: "cjje < 2 ^ 63 \<Longrightarrow> left_value T cjje cjsl < 2 ^ 63"
  using le_less_trans [OF div_le_u64 [of cjje cjsl]] by (auto simp: left_value_def price_left_def)

lemma Set_order_eq:
  assumes "is_buy_str (strSide o1) \<or> is_sell_str (strSide o1)" and "quot_names T (strSide o1) = [a, b]"
  shows "SetCurrQuotGapByCircle_order run T o1 circle cjsl cjje hq r =
    (case run (hmset [strStockID o1 @ ''_'' @ a @ ''_'' @ circle, itos cjsl,
                      strStockID o1 @ ''_'' @ b @ ''_'' @ circle, itos (left_value T cjje cjsl),
                      strStockID o1 @ ''_OrigTime_'' @ circle, hq]) r of
       (rep, r') \<Rightarrow> (if IsRedisCmdSuccess rep then 0 else -1, r'))"
proof -
  have p: "(if cjsl \<noteq> 0 then itos (cjje div cjsl) else ''0'') = itos (price_left cjje cjsl)"
    by (simp add: price_left_def itos_0)
  show ?thesis
    using assms unfolding SetCurrQuotGapByCircle_order_def Let_def p
    by (cases T) (auto simp: quot_names_def side_names_def opposite_name_def left_value_def split: if_splits)
qed

text \<open>After a write the circle's three fields hold the quantity, the value and the time.\<close>

lemma Set_order_fields:
  assumes "redis_hash_ok run view" and "is_buy_str (strSide o1) \<or> is_sell_str (strSide o1)"
    and "SetCurrQuotGapByCircle_order run T o1 circle cjsl cjje hq r = (ret, r')"
  shows "ret = 0 \<and> (\<exists>a b. quot_names T (strSide o1) = [a, b] \<and>
    view r' = (view r)(strStockID o1 @ ''_'' @ a @ ''_'' @ circle \<mapsto> itos cjsl,
                       strStockID o1 @ ''_'' @ b @ ''_'' @ circle \<mapsto> itos (left_value T cjje cjsl),
                       strStockID o1 @ ''_OrigTime_'' @ circle \<mapsto> hq))"
proof -
  have "length (quot_names T (strSide o1)) = 2"
    using assms(2) by (cases T) (auto simp: quot_names_def side_names_def)
  then obtain a b where q: "quot_names T (strSide o1) = [a, b]"
    by (auto simp: length_Suc_conv numeral_2_eq_2)
  note v = Set_order_eq [OF assms(2) q, of run circle cjsl cjje hq r]
  from run_hmset_3 [OF assms(1)] obtain s' where
    "run (hmset [strStockID o1 @ ''_'' @ a @ ''_'' @ circle, itos cjsl,
                 strStockID o1 @ ''_'' @ b @ ''_'' @ circle, itos (left_value T cjje cjsl),
                 strStockID o1 @ ''_OrigTime_'' @ circle, hq]) r = (RedisReply_status ''OK'', s')"
    and "view s' = (view r)(strStockID o1 @ ''_'' @ a @ ''_'' @ circle \<mapsto> itos cjsl,
                 strStockID o1 @ ''_'' @ b @ ''_'' @ circle \<mapsto> itos (left_value T cjje cjsl),
                 strStockID o1 @ ''_OrigTime_'' @ circle \<mapsto> hq)" by blast
  then show ?thesis using assms(3) q v by (simp add: IsRedisCmdSuccess_def)
qed

text \<open>What a read gives, in terms of the nine fields.\<close>

lemma Get_fields:
  assumes "redis_hash_ok run view" and "zqdm \<noteq> []" and "circle \<noteq> []" and "quot_names T side = [a, b]"
  shows "GetCurrQuotGapByCircle ptime run zqdm side circle T r =
    (read_gap ptime (quot_amount T) (RedisReply_array (map (field_of view r)
       [zqdm @ ''_maxgain'', zqdm @ ''_minfall'', zqdm @ ''_'' @ a, zqdm @ ''_'' @ b, zqdm @ ''_OrigTime'',
        zqdm @ ''_TPBZ'', zqdm @ ''_'' @ a @ ''_'' @ circle, zqdm @ ''_'' @ b @ ''_'' @ circle,
        zqdm @ ''_OrigTime_'' @ circle])), r)"
  using assms(2-4) run_hmget [OF assms(1), of "gap_fields (quot_names T side) zqdm circle" r]
  by (simp add: Get_eq gap_fields_def field_of_def)

text \<open>
  What is written as left for a circle is what the next order of that circle reads while the
  live quotation has the same time: the quantity exactly, the amount exactly for average prices and
  price times quantity otherwise; limits and suspension flag stay the live ones.
\<close>

theorem quota_write_read:
  assumes redis: "redis_hash_ok run view" and live: "live_quotation ptime view r T (strStockID o1) (strSide o1) hq"
    and side: "is_buy_str (strSide o1) \<or> is_sell_str (strSide o1)"
    and ne: "strStockID o1 \<noteq> []" "circle \<noteq> []" and bounds: "cjsl < 2 ^ 63" "cjje < 2 ^ 63"
    and same: "hq' \<noteq> []" "ptime hq' = ptime hq"
    and set: "SetCurrQuotGapByCircle_order run T o1 circle cjsl cjje hq' r = (ret, r')"
  shows "ret = 0 \<and> live_quotation ptime view r' T (strStockID o1) (strSide o1) hq \<and>
    (\<exists>g. GetCurrQuotGapByCircle ptime run (strStockID o1) (strSide o1) circle T r' = (Some (0, g), r') \<and>
         out_Cjsl g = cjsl \<and> out_Hqsj g = hq' \<and>
         out_Cjje g = (if T = AveragePrice then cjje else price_left cjje cjsl * cjsl) \<and>
         out_MaxGain g = snd (String2UInt64_strtoui64 (field_of view r (strStockID o1 @ ''_maxgain''))) \<and>
         out_MinFall g = snd (String2UInt64_strtoui64 (field_of view r (strStockID o1 @ ''_minfall''))) \<and>
         out_Tpbz g = field_of view r (strStockID o1 @ ''_TPBZ''))"
proof -
  let ?z = "strStockID o1"
  from Set_order_fields [OF redis side set] obtain a b where
    ret: "ret = 0" and q: "quot_names T (strSide o1) = [a, b]" and
    v: "view r' = (view r)(?z @ ''_'' @ a @ ''_'' @ circle \<mapsto> itos cjsl,
          ?z @ ''_'' @ b @ ''_'' @ circle \<mapsto> itos (left_value T cjje cjsl), ?z @ ''_OrigTime_'' @ circle \<mapsto> hq')"
    by blast
  have ab: "(a, b) \<in> {(''CJSL'', ''CJJE''), (''SSL1'', ''SJW1''), (''BSL1'', ''BJW1''), (''CJSL'', ''ZJJG'')}"
    using q side by (cases T) (auto simp: quot_names_def side_names_def split: if_splits)
  have f: "field_of view r' (?z @ ''_'' @ a @ ''_'' @ circle) = itos cjsl"
    "field_of view r' (?z @ ''_'' @ b @ ''_'' @ circle) = itos (left_value T cjje cjsl)"
    "field_of view r' (?z @ ''_OrigTime_'' @ circle) = hq'"
    "field_of view r' (?z @ ''_'' @ a) = field_of view r (?z @ ''_'' @ a)"
    "field_of view r' (?z @ ''_'' @ b) = field_of view r (?z @ ''_'' @ b)"
    "field_of view r' (?z @ ''_OrigTime'') = field_of view r (?z @ ''_OrigTime'')"
    "field_of view r' (?z @ ''_TPBZ'') = field_of view r (?z @ ''_TPBZ'')"
    "field_of view r' (?z @ ''_maxgain'') = field_of view r (?z @ ''_maxgain'')"
    "field_of view r' (?z @ ''_minfall'') = field_of view r (?z @ ''_minfall'')"
    using ab by (auto simp: field_of_def v)
  have l: "field_of view r (?z @ ''_'' @ a) \<noteq> []" "field_of view r (?z @ ''_'' @ b) \<noteq> []"
    "field_of view r (?z @ ''_OrigTime'') = hq" "hq \<noteq> []" "field_of view r (?z @ ''_TPBZ'') \<noteq> []"
    using live by (simp_all add: live_quotation_def q)
  obtain p where p: "ptime hq = Some p" using live by (auto simp: live_quotation_def)
  have "live_quotation ptime view r' T ?z (strSide o1) hq"
    using live f by (simp add: live_quotation_def q)
  moreover have "quot_amount T (left_value T cjje cjsl) cjsl =
      (if T = AveragePrice then cjje else price_left cjje cjsl * cjsl)"
    by (simp add: quot_amount_def left_value_def)
  ultimately show ?thesis
    using ret l p f same strtoui64_itos [OF bounds(1)] strtoui64_itos [OF left_value_bound [OF bounds(2)], of T cjsl]
    by (simp add: Get_fields [OF redis ne q] read_gap_def CompareTime_def)
qed

text \<open>A successful read has a time that is the live one.\<close>

lemma Get_time:
  assumes redis: "redis_hash_ok run view" and live: "live_quotation ptime view r T zqdm side hq"
    and side: "is_buy_str side \<or> is_sell_str side" and ne: "zqdm \<noteq> []" "circle \<noteq> []"
    and get: "GetCurrQuotGapByCircle ptime run zqdm side circle T r = (Some (0, g), r')"
  shows "r' = r \<and> out_Hqsj g \<noteq> [] \<and> ptime (out_Hqsj g) = ptime hq"
proof -
  have "length (quot_names T side) = 2" using side by (cases T) (auto simp: quot_names_def side_names_def)
  then obtain a b where q: "quot_names T side = [a, b]" by (auto simp: length_Suc_conv numeral_2_eq_2)
  have "field_of view r (zqdm @ ''_OrigTime'') = hq" "hq \<noteq> []" using live by (simp_all add: live_quotation_def)
  then show ?thesis
    using get unfolding Get_fields [OF redis ne q]
    by (auto simp: read_gap_def CompareTime_def Let_def split: if_splits option.splits)
qed

lemma Get_total:
  assumes redis: "redis_hash_ok run view" and side: "is_buy_str side \<or> is_sell_str side"
    and ne: "zqdm \<noteq> []" "circle \<noteq> []"
  shows "\<exists>i g. GetCurrQuotGapByCircle ptime run zqdm side circle T r = (Some (i, g), r)"
proof -
  have "length (quot_names T side) = 2" using side by (cases T) (auto simp: quot_names_def side_names_def)
  then obtain a b where q: "quot_names T side = [a, b]" by (auto simp: length_Suc_conv numeral_2_eq_2)
  show ?thesis
    unfolding Get_fields [OF redis ne q] by (auto simp: read_gap_def Let_def split: prod.splits)
qed

text \<open>A quotation of 500 shares at 10 yuan, and a purchase of the security.\<close>

definition sample_hash :: "string \<Rightarrow> string option" where
  "sample_hash = map_of [(''600000_maxgain'', ''11000''), (''600000_minfall'', ''9000''),
     (''600000_CJSL'', ''500''), (''600000_CJJE'', ''5000000''), (''600000_SSL1'', ''300''),
     (''600000_SJW1'', ''10010''), (''600000_OrigTime'', ''2017-04-13 14:01:06''), (''600000_TPBZ'', ''F'')]"

definition sample_quot_order :: OrderMessage where
  "sample_quot_order = OrderMessage_new\<lparr>strStockID := ''600000'', strSide := STEPMSG_SIDE_BUY_1\<rparr>"

definition sample_ptime :: ptime where
  "sample_ptime s = (if s = [] then None else Some 0)"

lemma sample_live:
  "live_quotation sample_ptime (\<lambda>m. m) sample_hash AveragePrice ''600000'' STEPMSG_SIDE_BUY_1 ''2017-04-13 14:01:06''"
  by (simp add: live_quotation_def quot_names_def field_of_def sample_hash_def sample_ptime_def)

lemma quota_write_read_witness:
  "\<exists>g r'. GetCurrQuotGapByCircle sample_ptime hash_server ''600000'' STEPMSG_SIDE_BUY_1 ''C1'' AveragePrice r' =
     (Some (0, g), r') \<and> out_Cjsl g = 200 \<and> out_Cjje g = 2000000"
proof -
  obtain ret r' where set: "SetCurrQuotGapByCircle_order hash_server AveragePrice sample_quot_order ''C1'' 200 2000000
      ''2017-04-13 14:01:06'' sample_hash = (ret, r')" by (metis surj_pair)
  have o: "strStockID sample_quot_order = ''600000''" "strSide sample_quot_order = STEPMSG_SIDE_BUY_1"
    by (simp_all add: sample_quot_order_def)
  show ?thesis
    using quota_write_read [OF hash_server_ok _ _ _ _ _ _ _ _ set, of sample_ptime "''2017-04-13 14:01:06''"] sample_live
    by (auto simp: o is_buy_str_def)
qed

text \<open>
  The write follows the global quotation type, not the order's.  When the global type is the
  average price and an order is matched against the opposite side's price, the write changes
  nothing that such orders read: the next one is offered the same quantity again.
\<close>

theorem quota_type_mismatch:
  assumes redis: "redis_hash_ok run view" and side: "is_buy_str (strSide o1) \<or> is_sell_str (strSide o1)"
    and ne: "strStockID o1 \<noteq> []" "circle \<noteq> []"
    and none: "\<forall>n\<in>set (side_names (strSide o1)). view r (strStockID o1 @ ''_'' @ n @ ''_'' @ circle) = None"
    and set: "SetCurrQuotGapByCircle_order run AveragePrice o1 circle cjsl cjje hq r = (ret, r')"
  shows "ret = 0 \<and>
    fst (GetCurrQuotGapByCircle ptime run (strStockID o1) (strSide o1) circle SellBuyPrice r') =
    fst (GetCurrQuotGapByCircle ptime run (strStockID o1) (strSide o1) circle SellBuyPrice r)"
proof -
  let ?z = "strStockID o1"
  from Set_order_fields [OF redis side set] have ret: "ret = 0" and
    v: "view r' = (view r)(?z @ ''_CJSL_'' @ circle \<mapsto> itos cjsl,
          ?z @ ''_CJJE_'' @ circle \<mapsto> itos cjje, ?z @ ''_OrigTime_'' @ circle \<mapsto> hq)"
    by (auto simp: quot_names_def left_value_def)
  have "length (side_names (strSide o1)) = 2" using side by (auto simp: side_names_def)
  then obtain a b where q: "side_names (strSide o1) = [a, b]" by (auto simp: length_Suc_conv numeral_2_eq_2)
  then have qn: "quot_names SellBuyPrice (strSide o1) = [a, b]" by (simp add: quot_names_def)
  have ab: "(a, b) \<in> {(''SSL1'', ''SJW1''), (''BSL1'', ''BJW1'')}"
    using q side by (auto simp: side_names_def split: if_splits)
  have empty: "field_of view r (?z @ ''_'' @ a @ ''_'' @ circle) = []" "field_of view r (?z @ ''_'' @ b @ ''_'' @ circle) = []"
    using none q by (simp_all add: field_of_def)
  have f: "field_of view r' (?z @ ''_'' @ a @ ''_'' @ circle) = []" "field_of view r' (?z @ ''_'' @ b @ ''_'' @ circle) = []"
    "field_of view r' (?z @ ''_'' @ a) = field_of view r (?z @ ''_'' @ a)"
    "field_of view r' (?z @ ''_'' @ b) = field_of view r (?z @ ''_'' @ b)"
    "field_of view r' (?z @ ''_OrigTime'') = field_of view r (?z @ ''_OrigTime'')"
    "field_of view r' (?z @ ''_TPBZ'') = field_of view r (?z @ ''_TPBZ'')"
    "field_of view r' (?z @ ''_maxgain'') = field_of view r (?z @ ''_maxgain'')"
    "field_of view r' (?z @ ''_minfall'') = field_of view r (?z @ ''_minfall'')"
    using ab empty by (auto simp: field_of_def v)
  show ?thesis
    using ret f empty by (simp add: Get_fields [OF redis ne qn] read_gap_def)
qed

lemma quota_type_mismatch_witness:
  "\<exists>ret r'. SetCurrQuotGapByCircle_order hash_server AveragePrice sample_quot_order ''C1'' 0 0 ''x'' sample_hash = (ret, r') \<and>
    fst (GetCurrQuotGapByCircle sample_ptime hash_server ''600000'' STEPMSG_SIDE_BUY_1 ''C1'' SellBuyPrice r') =
    fst (GetCurrQuotGapByCircle sample_ptime hash_server ''600000'' STEPMSG_SIDE_BUY_1 ''C1'' SellBuyPrice sample_hash)"
proof -
  obtain ret r' where set: "SetCurrQuotGapByCircle_order hash_server AveragePrice sample_quot_order ''C1'' 0 0
      ''x'' sample_hash = (ret, r')" by (metis surj_pair)
  have o: "strStockID sample_quot_order = ''600000''" "strSide sample_quot_order = STEPMSG_SIDE_BUY_1"
    by (simp_all add: sample_quot_order_def)
  have "is_buy_str STEPMSG_SIDE_BUY_1" by (simp add: is_buy_str_def)
  moreover have "\<forall>n\<in>set (side_names STEPMSG_SIDE_BUY_1). sample_hash (''600000'' @ ''_'' @ n @ ''_'' @ ''C1'') = None"
    by (simp add: side_names_def is_buy_str_def sample_hash_def)
  ultimately show ?thesis
    using quota_type_mismatch [OF hash_server_ok _ _ _ _ set, of sample_ptime] set by (auto simp: o)
qed

end
