(* ===== verification/MatchUtil.thy ===== *)
theory MatchUtil
  imports OrderStore MarketInfoHelper
begin

text \<open>
  \<open>simutgw/biz/MatchUtil.cpp\<close>: the checks an order passes before it is matched.  Each gives its
  return code and the order it has marked.  The texts are the source's bytes (GB 18030).
\<close>

definition SZ_ERRCODE_c20001 :: string where "SZ_ERRCODE_c20001 = ''20001''"
definition SZ_ERRCODE_c20005 :: string where "SZ_ERRCODE_c20005 = ''20005''"
definition SZ_ERRCODE_c20022 :: string where "SZ_ERRCODE_c20022 = ''20022''"
definition SH_ERRCODE_c231 :: string where "SH_ERRCODE_c231 = ''231''"
definition SZ_ERRCODE_c20007 :: string where "SZ_ERRCODE_c20007 = ''20007''"
definition SZ_ERRCODE_c20009 :: string where "SZ_ERRCODE_c20009 = ''20009''"
definition SH_ERRCODE_c215 :: string where "SH_ERRCODE_c215 = ''215''"
definition SH_ERRCODE_c203 :: string where "SH_ERRCODE_c203 = ''203''"
definition SH_ERRCODE_c212 :: string where "SH_ERRCODE_c212 = ''212''"

definition text_suspended :: string where
  "text_suspended = [CHR 0xB8, CHR 0xC3, CHR 0xB9, CHR 0xC9, CHR 0xD2, CHR 0xD1, CHR 0xCD, CHR 0xA3, CHR 0xC5, CHR 0xC6]"
definition text_price_limits :: string where
  "text_price_limits = [CHR 0xB3, CHR 0xAC, CHR 0xD5, CHR 0xC7, CHR 0xB5, CHR 0xF8, CHR 0xBC, CHR 0xDB, CHR 0xCE, CHR 0xBB] @ ''.max''"
definition text_bid_below :: string where
  "text_bid_below = [CHR 0xC2, CHR 0xF2, CHR 0xBC, CHR 0xDB, CHR 0xB1, CHR 0xC8, CHR 0xBE, CHR 0xF9, CHR 0xBC, CHR 0xDB, CHR 0xBB, CHR 0xB9, CHR 0xB5, CHR 0xCD] @ ''.average:''"
definition text_ask_above :: string where
  "text_ask_above = [CHR 0xC2, CHR 0xF4, CHR 0xBC, CHR 0xDB, CHR 0xB1, CHR 0xC8, CHR 0xBE, CHR 0xF9, CHR 0xBC, CHR 0xDB, CHR 0xBB, CHR 0xB9, CHR 0xB8, CHR 0xDF] @ ''.average:''"
definition text_unknown_side :: string where
  "text_unknown_side = [CHR 0xCE, CHR 0xB4, CHR 0xD6, CHR 0xAA, CHR 0xC2, CHR 0xF2, CHR 0xC2, CHR 0xF4, CHR 0xB7, CHR 0xBD, CHR 0xCF, CHR 0xF2] @ ''.side:''"

definition set_market_error :: "string \<Rightarrow> string \<Rightarrow> OrderMessage \<Rightarrow> OrderMessage" where
  "set_market_error sz sh o1 =
     (if strTrade_market o1 = TRADE_MARKET_SZ then o1\<lparr>strErrorCode := sz\<rparr>
      else if strTrade_market o1 = TRADE_MARKET_SH then o1\<lparr>strErrorCode := sh\<rparr> else o1)"

definition CheckTPBZ :: "OrderMessage \<Rightarrow> string \<Rightarrow> int \<times> OrderMessage" where
  "CheckTPBZ o1 in_strTpbz =
     (if in_strTpbz \<noteq> ''F''
      then (-1, set_market_error SZ_ERRCODE_c20007 SH_ERRCODE_c203
              (o1\<lparr>enMatchType := StopTrans, bDataError := True, strError := text_suspended\<rparr>))
      else (0, o1))"

definition Check_MaxGain_And_MinFall :: "OrderMessage \<Rightarrow> u64 \<Rightarrow> u64 \<Rightarrow> int \<times> OrderMessage" where
  "Check_MaxGain_And_MinFall o1 in_MaxGain in_MinFall =
     (if in_MaxGain = 0 \<and> in_MinFall = 0 then (0, o1)
      else if in_MaxGain < ui64mOrderPrice o1 \<or> ui64mOrderPrice o1 < in_MinFall
      then (-1, set_market_error SZ_ERRCODE_c20009 SH_ERRCODE_c212
              (o1\<lparr>enMatchType := OutOfRange,
                  strError := text_price_limits @ itos in_MaxGain @ ''.min'' @ itos in_MinFall,
                  bDataError := True\<rparr>))
      else (0, o1))"

text \<open>
  \<open>Check_Match_Method\<close> and \<open>Check_Match_Method_WithoutAccount\<close> have the same statements (the
  predicted amounts they compute are not used); an average over no shares is a division by zero,
  None.
\<close>

definition Check_Match_Method :: "OrderMessage \<Rightarrow> u64 \<Rightarrow> u64 \<Rightarrow> bool \<Rightarrow> (int \<times> OrderMessage) option" where
  "Check_Match_Method o1 in_Cjsl in_Cjje bLimit =
     (if in_Cjsl = 0 then None
      else let average = in_Cjje div in_Cjsl in
        Some (if iSide o1 = 1 then
                (if bLimit \<and> ui64mOrderPrice o1 < average
                 then (-1, o1\<lparr>enMatchType := NotMatch, strError := text_bid_below @ itos average\<rparr>)
                 else (0, o1))
              else if iSide o1 = 2 then
                (if bLimit \<and> average < ui64mOrderPrice o1
                 then (-1, o1\<lparr>enMatchType := NotMatch, strError := text_ask_above @ itos average\<rparr>)
                 else (0, o1))
              else (-1, o1\<lparr>strError := text_unknown_side @ strSide o1, enMatchType := ErrorMatch,
                          bDataError := True\<rparr>)))"

definition Get_Order_CircleID :: "OrderMessage \<Rightarrow> string" where
  "Get_Order_CircleID o1 =
     (let c = strTrade_group o1; c2 = (if c = [] then strMarket_branchid o1 else c)
      in if c2 = [] then ''C1'' else c2)"

section \<open>What passes\<close>

lemma CheckTPBZ_frame:
  "CheckTPBZ o1 t = (r, o2) \<Longrightarrow> ui64LeavesQty o2 = ui64LeavesQty o1 \<and> (r = 0 \<longrightarrow> o2 = o1) \<and> (r = 0 \<or> r = -1) \<and>
     (r < 0 \<longrightarrow> enMatchType o2 = StopTrans)"
  by (auto simp: CheckTPBZ_def set_market_error_def split: if_splits)

lemma Check_Limits_frame:
  "Check_MaxGain_And_MinFall o1 a b = (r, o2) \<Longrightarrow>
     (r = 0 \<longrightarrow> o2 = o1) \<and> (r = 0 \<or> r = -1) \<and> (r < 0 \<longrightarrow> enMatchType o2 = OutOfRange)"
  by (auto simp: Check_MaxGain_And_MinFall_def set_market_error_def split: if_splits)

lemma Check_Method_cases:
  assumes "Check_Match_Method o1 sl je lim = Some (r, o2)"
  shows "sl \<noteq> 0" and "r = 0 \<Longrightarrow> o2 = o1 \<and> (iSide o1 = 1 \<or> iSide o1 = 2) \<and>
           (lim \<and> iSide o1 = 1 \<longrightarrow> je div sl \<le> ui64mOrderPrice o1) \<and>
           (lim \<and> iSide o1 = 2 \<longrightarrow> ui64mOrderPrice o1 \<le> je div sl)"
    and "r \<noteq> 0 \<Longrightarrow> r = -1 \<and> enMatchType o2 \<in> {NotMatch, ErrorMatch}"
  using assms by (auto simp: Check_Match_Method_def Let_def not_less split: if_splits)

end
