(* ===== verification/FrozeVolume.thy ===== *)
theory FrozeVolume
  imports Prelude
begin

text \<open>
  The class \<open>FrozeVolume\<close> of \<open>cache/FrozeVolume.h\<close>: a counter of shares with a free part,
  a frozen part and the total last written to the database.  Every method locks the object's
  mutex for its whole body, so a method is one atomic step of the model.  An out parameter is
  a component of the result; a caller that passes NULL ignores it.
\<close>

section \<open>State and operations\<close>

record FrozeVolume =
  m_ui64LatestSynVolume :: u64
  m_ui64UnFrozeVolume :: u64
  m_ui64ForzeVolume :: u64

definition FrozeVolume_default :: FrozeVolume where
  "FrozeVolume_default =
     \<lparr>m_ui64LatestSynVolume = 0, m_ui64UnFrozeVolume = 0, m_ui64ForzeVolume = 0\<rparr>"

definition FrozeVolume_max :: "u64 \<Rightarrow> FrozeVolume" where
  "FrozeVolume_max mx =
     \<lparr>m_ui64LatestSynVolume = mx, m_ui64UnFrozeVolume = mx, m_ui64ForzeVolume = 0\<rparr>"

text \<open>\<open>Query\<close>: the return code and the value stored through \<open>out_maxAvl\<close>.\<close>

definition FrozeVolume_Query :: "FrozeVolume \<Rightarrow> u64 \<Rightarrow> int \<times> u64" where
  "FrozeVolume_Query v cnt =
     (if m_ui64UnFrozeVolume v < cnt then (-1, m_ui64UnFrozeVolume v) else (0, cnt))"

text \<open>
  \<open>Froze\<close>: the return code, the value stored through \<open>out_maxfrozev\<close>, the new state.  The
  overflow test of the source only logs.
\<close>

definition FrozeVolume_Froze :: "FrozeVolume \<Rightarrow> u64 \<Rightarrow> int \<times> u64 \<times> FrozeVolume" where
  "FrozeVolume_Froze v frozev =
     (let ui64ActualFroze =
            (if m_ui64UnFrozeVolume v < frozev then m_ui64UnFrozeVolume v else frozev)
      in (0, ui64ActualFroze,
          v\<lparr>m_ui64ForzeVolume := m_ui64ForzeVolume v + ui64ActualFroze,
            m_ui64UnFrozeVolume := m_ui64UnFrozeVolume v - ui64ActualFroze\<rparr>))"

text \<open>\<open>Defroze\<close>: asking for more than is frozen only logs; the subtraction then wraps.\<close>

definition FrozeVolume_Defroze :: "FrozeVolume \<Rightarrow> u64 \<Rightarrow> int \<times> FrozeVolume" where
  "FrozeVolume_Defroze v frozev =
     (0, v\<lparr>m_ui64ForzeVolume := m_ui64ForzeVolume v - frozev,
           m_ui64UnFrozeVolume := m_ui64UnFrozeVolume v + frozev\<rparr>)"

definition FrozeVolume_Confirm :: "FrozeVolume \<Rightarrow> u64 \<Rightarrow> int \<times> FrozeVolume" where
  "FrozeVolume_Confirm v confirm =
     (if m_ui64ForzeVolume v < confirm then (-1, v)
      else (0, v\<lparr>m_ui64ForzeVolume := m_ui64ForzeVolume v - confirm\<rparr>))"

text \<open>\<open>DBSyn\<close>: the return code, \<open>out_origin\<close>, \<open>out_update\<close>, the new state.\<close>

definition FrozeVolume_DBSyn :: "FrozeVolume \<Rightarrow> int \<times> u64 \<times> u64 \<times> FrozeVolume" where
  "FrozeVolume_DBSyn v =
     (let out_origin = m_ui64LatestSynVolume v;
          out_update = m_ui64ForzeVolume v + m_ui64UnFrozeVolume v
      in (0, out_origin, out_update,
          v\<lparr>m_ui64LatestSynVolume := m_ui64ForzeVolume v + m_ui64UnFrozeVolume v\<rparr>))"

definition FrozeVolume_Init :: "FrozeVolume \<Rightarrow> u64 \<Rightarrow> int \<times> FrozeVolume" where
  "FrozeVolume_Init v volume =
     (0, v\<lparr>m_ui64LatestSynVolume := volume, m_ui64UnFrozeVolume := volume\<rparr>)"

definition FrozeVolume_ResetSyn :: "FrozeVolume \<Rightarrow> u64 \<Rightarrow> int \<times> u64 \<times> FrozeVolume" where
  "FrozeVolume_ResetSyn v volume =
     (0, m_ui64LatestSynVolume v, v\<lparr>m_ui64LatestSynVolume := volume\<rparr>)"

definition FrozeVolume_Add :: "FrozeVolume \<Rightarrow> u64 \<Rightarrow> int \<times> FrozeVolume" where
  "FrozeVolume_Add v inc = (0, v\<lparr>m_ui64UnFrozeVolume := m_ui64UnFrozeVolume v + inc\<rparr>)"

lemmas FrozeVolume_defs =
  FrozeVolume_Query_def FrozeVolume_Froze_def FrozeVolume_Defroze_def FrozeVolume_Confirm_def
  FrozeVolume_DBSyn_def FrozeVolume_Init_def FrozeVolume_ResetSyn_def FrozeVolume_Add_def

section \<open>Abstract view\<close>

text \<open>
  The promise of the class: \<open>holding\<close> is what the account owns (free and frozen together),
  and \<open>fv_wf\<close> says that this total does not exceed 64 bits.
\<close>

definition fv_holding :: "FrozeVolume \<Rightarrow> nat" where
  "fv_holding v = unat (m_ui64UnFrozeVolume v) + unat (m_ui64ForzeVolume v)"

definition fv_wf :: "FrozeVolume \<Rightarrow> bool" where
  "fv_wf v \<longleftrightarrow> fv_holding v < 2 ^ 64"

text \<open>The interface a client of the counter relies on, and what it gives two-source freezing.\<close>

locale froze_counter =
  fixes froze :: "'s \<Rightarrow> u64 \<Rightarrow> int \<times> u64 \<times> 's"
    and defroze :: "'s \<Rightarrow> u64 \<Rightarrow> int \<times> 's"
    and confirm :: "'s \<Rightarrow> u64 \<Rightarrow> int \<times> 's"
    and free :: "'s \<Rightarrow> u64"
    and frozen :: "'s \<Rightarrow> u64"
  assumes froze_amount: "froze s q = (r, x, s') \<Longrightarrow> r = 0 \<and> x = min (free s) q"
    and froze_free: "froze s q = (r, x, s') \<Longrightarrow> free s' = free s - x"
    and froze_frozen: "froze s q = (r, x, s') \<Longrightarrow> frozen s' = frozen s + x"
    and defroze_froze: "froze s q = (r, x, s') \<Longrightarrow> defroze s' x = (0, s)"
    and confirm_ok: "n \<le> frozen s \<Longrightarrow>
          \<exists>s'. confirm s n = (0, s') \<and> frozen s' = frozen s - n \<and> free s' = free s"
    and confirm_fail: "frozen s < n \<Longrightarrow> confirm s n = (-1, s)"
begin

lemma froze_le: "froze s q = (r, x, s') \<Longrightarrow> x \<le> q \<and> x \<le> free s"
  using froze_amount [of s q r x s'] by simp

lemma two_source_sum:
  assumes a: "froze a q = (r, x, a')" and b: "froze b (q - x) = (r', y, b')"
  shows "unat (x + y) = unat x + unat y" and "unat x + unat y \<le> unat q"
  using split_no_wrap [of x q y] froze_le [OF a] froze_le [OF b] by auto

lemma two_source_short_iff:
  assumes a: "froze a q = (r, x, a')" and b: "froze b (q - x) = (r', y, b')" and ne: "x \<noteq> q"
  shows "x + y < q \<longleftrightarrow> unat (free a) + unat (free b) < unat q"
proof -
  from froze_amount [OF a] ne have x: "x = free a" and lt: "free a < q"
    by (auto simp: min_def split: if_splits)
  from froze_amount [OF b] have y: "y = min (free b) (q - x)" by simp
  have q: "unat (q - x) = unat q - unat x"
    using lt x by (simp add: unat_minus_le)
  have "unat y = min (unat (free b)) (unat q - unat x)"
    unfolding y by (simp add: min_def word_le_nat_alt q)
  moreover have "unat x < unat q" using lt x by (simp add: word_less_nat_alt)
  ultimately show ?thesis
    using two_source_sum(1) [OF a b] x by (auto simp: word_less_nat_alt)
qed

lemma two_source_exact:
  assumes a: "froze a q = (r, x, a')" and b: "froze b (q - x) = (r', y, b')"
    and enough: "\<not> x + y < q"
  shows "x + y = q"
proof -
  have "unat (x + y) \<le> unat q" using two_source_sum [OF a b] by simp
  with enough show ?thesis
    by (metis antisym_conv1 word_le_nat_alt)
qed

lemma froze_then_confirm:
  assumes a: "froze s q = (r, x, s')" and room: "unat (frozen s) + unat x < 2 ^ 64"
  shows "\<exists>s''. confirm s' x = (0, s'') \<and> frozen s'' = frozen s \<and> free s'' = free s - x"
proof -
  have "unat (frozen s + x) = unat (frozen s) + unat x"
    using room by (intro unat_plus_if_lt) simp
  then have "x \<le> frozen s'"
    using froze_frozen [OF a] by (simp add: word_le_nat_alt)
  from confirm_ok [OF this] show ?thesis
    using froze_frozen [OF a] froze_free [OF a] by auto
qed

end

interpretation fv: froze_counter FrozeVolume_Froze FrozeVolume_Defroze FrozeVolume_Confirm
  m_ui64UnFrozeVolume m_ui64ForzeVolume
  by unfold_locales (auto simp: FrozeVolume_defs Let_def min_def not_less split: if_splits)

text \<open>
  \<open>freeze_part v x\<close> is the state after exactly \<open>x\<close> shares have moved from free to frozen;
  \<open>Froze\<close> always ends in such a state.
\<close>

definition freeze_part :: "FrozeVolume \<Rightarrow> u64 \<Rightarrow> FrozeVolume" where
  "freeze_part v x = v\<lparr>m_ui64ForzeVolume := m_ui64ForzeVolume v + x,
                       m_ui64UnFrozeVolume := m_ui64UnFrozeVolume v - x\<rparr>"

lemma freeze_part_sel [simp]:
  "m_ui64ForzeVolume (freeze_part v x) = m_ui64ForzeVolume v + x"
  "m_ui64UnFrozeVolume (freeze_part v x) = m_ui64UnFrozeVolume v - x"
  "m_ui64LatestSynVolume (freeze_part v x) = m_ui64LatestSynVolume v"
  by (simp_all add: freeze_part_def)

lemma freeze_part_0 [simp]: "freeze_part v 0 = v"
  by (simp add: freeze_part_def)

lemma Froze_freeze_part:
  "FrozeVolume_Froze v q =
     (0, min (m_ui64UnFrozeVolume v) q, freeze_part v (min (m_ui64UnFrozeVolume v) q))"
proof (cases "m_ui64UnFrozeVolume v < q")
  case True
  then have "min (m_ui64UnFrozeVolume v) q = m_ui64UnFrozeVolume v" by (intro min_absorb1) simp
  with True show ?thesis by (simp add: FrozeVolume_Froze_def freeze_part_def Let_def)
next
  case False
  then have "min (m_ui64UnFrozeVolume v) q = q" by (intro min_absorb2) (simp add: not_less)
  with False show ?thesis by (simp add: FrozeVolume_Froze_def freeze_part_def Let_def)
qed

lemma Froze_enough:
  "q \<le> m_ui64UnFrozeVolume v \<Longrightarrow> FrozeVolume_Froze v q = (0, q, freeze_part v q)"
  by (simp add: Froze_freeze_part min_absorb2)

lemma Froze_short:
  "m_ui64UnFrozeVolume v < q \<Longrightarrow>
     FrozeVolume_Froze v q = (0, m_ui64UnFrozeVolume v, freeze_part v (m_ui64UnFrozeVolume v))"
  by (simp add: Froze_freeze_part min_absorb1)

lemma Defroze_freeze_part [simp]: "FrozeVolume_Defroze (freeze_part v x) x = (0, v)"
  by (simp add: FrozeVolume_Defroze_def freeze_part_def)

text \<open>The second freeze of a two-source request falls short exactly when the two free parts do.\<close>

lemma second_source_short_iff:
  fixes a b :: FrozeVolume
  assumes "m_ui64UnFrozeVolume a < q"
  shows "m_ui64UnFrozeVolume a + min (m_ui64UnFrozeVolume b) (q - m_ui64UnFrozeVolume a) < q
         \<longleftrightarrow> unat (m_ui64UnFrozeVolume a) + unat (m_ui64UnFrozeVolume b) < unat q"
  using fv.two_source_short_iff [OF Froze_short [OF assms], of b] assms
  by (simp add: Froze_freeze_part)

lemma second_source_amount:
  fixes a b :: FrozeVolume
  assumes "m_ui64UnFrozeVolume a < q"
    and "unat q \<le> unat (m_ui64UnFrozeVolume a) + unat (m_ui64UnFrozeVolume b)"
  shows "min (m_ui64UnFrozeVolume b) (q - m_ui64UnFrozeVolume a) = q - m_ui64UnFrozeVolume a"
proof -
  have "unat (q - m_ui64UnFrozeVolume a) = unat q - unat (m_ui64UnFrozeVolume a)"
    using assms(1) by (simp add: unat_minus_le)
  with assms(2) have "q - m_ui64UnFrozeVolume a \<le> m_ui64UnFrozeVolume b"
    by (simp add: word_le_nat_alt)
  then show ?thesis by (rule min_absorb2)
qed

lemma both_sources:
  fixes a b :: FrozeVolume
  assumes "m_ui64UnFrozeVolume a < q"
    and "unat q \<le> unat (m_ui64UnFrozeVolume a) + unat (m_ui64UnFrozeVolume b)"
  shows "FrozeVolume_Froze a q = (0, m_ui64UnFrozeVolume a, freeze_part a (m_ui64UnFrozeVolume a))"
    and "FrozeVolume_Froze b (q - m_ui64UnFrozeVolume a) =
         (0, q - m_ui64UnFrozeVolume a, freeze_part b (q - m_ui64UnFrozeVolume a))"
    and "m_ui64UnFrozeVolume a \<noteq> q"
  using assms second_source_amount [OF assms]
  by (auto simp: Froze_short, simp add: Froze_freeze_part)

lemma short_sources:
  fixes a b :: FrozeVolume
  assumes short: "unat (m_ui64UnFrozeVolume a) + unat (m_ui64UnFrozeVolume b) < unat q"
  shows "FrozeVolume_Froze a q = (0, m_ui64UnFrozeVolume a, freeze_part a (m_ui64UnFrozeVolume a))"
    and "FrozeVolume_Froze b (q - m_ui64UnFrozeVolume a) =
         (0, m_ui64UnFrozeVolume b, freeze_part b (m_ui64UnFrozeVolume b))"
    and "m_ui64UnFrozeVolume a + m_ui64UnFrozeVolume b < q"
    and "m_ui64UnFrozeVolume a \<noteq> q"
proof -
  from short have lt: "m_ui64UnFrozeVolume a < q" by (simp add: word_less_nat_alt)
  from short have "m_ui64UnFrozeVolume b \<le> q - m_ui64UnFrozeVolume a"
    using lt by (simp add: word_le_nat_alt unat_minus_le)
  then have m: "min (m_ui64UnFrozeVolume b) (q - m_ui64UnFrozeVolume a) = m_ui64UnFrozeVolume b"
    by (rule min_absorb1)
  show "FrozeVolume_Froze a q = (0, m_ui64UnFrozeVolume a, freeze_part a (m_ui64UnFrozeVolume a))"
    using lt by (rule Froze_short)
  show "FrozeVolume_Froze b (q - m_ui64UnFrozeVolume a) =
         (0, m_ui64UnFrozeVolume b, freeze_part b (m_ui64UnFrozeVolume b))"
    by (simp add: Froze_freeze_part m)
  show "m_ui64UnFrozeVolume a + m_ui64UnFrozeVolume b < q"
    using second_source_short_iff [OF lt, of b] short m by simp
  show "m_ui64UnFrozeVolume a \<noteq> q" using lt by simp
qed

section \<open>Properties\<close>

lemma freeze_part_holding:
  assumes "fv_wf v" and "x \<le> m_ui64UnFrozeVolume v"
  shows "fv_holding (freeze_part v x) = fv_holding v"
proof -
  have "unat (m_ui64UnFrozeVolume v - x) = unat (m_ui64UnFrozeVolume v) - unat x"
    using assms(2) by (rule unat_minus_le)
  moreover have le: "unat x \<le> unat (m_ui64UnFrozeVolume v)"
    using assms(2) by (simp add: word_le_nat_alt)
  moreover have "unat (m_ui64ForzeVolume v + x) = unat (m_ui64ForzeVolume v) + unat x"
    using assms(1) le unfolding fv_wf_def fv_holding_def by (intro unat_plus_if_lt) simp
  ultimately show ?thesis by (simp add: fv_holding_def)
qed

lemma FrozeVolume_Froze_holding:
  assumes "fv_wf v" and "FrozeVolume_Froze v q = (r, x, v')"
  shows "fv_holding v' = fv_holding v"
  using assms freeze_part_holding [OF assms(1), of x]
  by (auto simp: Froze_freeze_part)

lemma FrozeVolume_Defroze_holding:
  assumes "fv_wf v" and "q \<le> m_ui64ForzeVolume v"
  shows "fv_holding (snd (FrozeVolume_Defroze v q)) = fv_holding v"
proof -
  have "unat (m_ui64ForzeVolume v - q) = unat (m_ui64ForzeVolume v) - unat q"
    using assms(2) by (rule unat_minus_le)
  moreover have le: "unat q \<le> unat (m_ui64ForzeVolume v)"
    using assms(2) by (simp add: word_le_nat_alt)
  moreover have "unat (m_ui64UnFrozeVolume v + q) = unat (m_ui64UnFrozeVolume v) + unat q"
    using assms(1) le unfolding fv_wf_def fv_holding_def by (intro unat_plus_if_lt) simp
  ultimately show ?thesis by (simp add: fv_holding_def FrozeVolume_defs)
qed

lemma FrozeVolume_Confirm_holding:
  assumes "q \<le> m_ui64ForzeVolume v"
  shows "fv_holding (snd (FrozeVolume_Confirm v q)) = fv_holding v - unat q"
proof -
  have "unat (m_ui64ForzeVolume v - q) = unat (m_ui64ForzeVolume v) - unat q"
    using assms by (rule unat_minus_le)
  moreover have "unat q \<le> unat (m_ui64ForzeVolume v)" using assms by (simp add: word_le_nat_alt)
  moreover have "\<not> m_ui64ForzeVolume v < q" using assms by (simp add: not_less)
  ultimately show ?thesis by (simp add: fv_holding_def FrozeVolume_defs)
qed

lemma FrozeVolume_DBSyn_update:
  assumes "fv_wf v" and "FrozeVolume_DBSyn v = (r, og, up, v')"
  shows "unat up = fv_holding v"
proof -
  have "unat (m_ui64ForzeVolume v + m_ui64UnFrozeVolume v)
      = unat (m_ui64ForzeVolume v) + unat (m_ui64UnFrozeVolume v)"
    using assms(1) unfolding fv_wf_def fv_holding_def by (intro unat_plus_if_lt) simp
  moreover have "up = m_ui64ForzeVolume v + m_ui64UnFrozeVolume v"
    using assms(2) by (simp add: FrozeVolume_defs)
  ultimately show ?thesis by (simp add: fv_holding_def)
qed

end
