(* ===== verification/UserStockVolume.thy ===== *)
theory UserStockVolume
  imports FrozeVolume
begin

text \<open>
  The class \<open>UserStockVolume\<close> of \<open>cache/UserStockVolume.cpp\<close>: the holding of one account in
  one security, as seven freezable counters.  Selling, ETF creation and ETF redemption freeze
  shares from two of the counters in a fixed order, undo the first freeze when the second does
  not suffice, and freeze the overall balance.  The wall clock that \<open>IsExpired\<close> reads is the
  argument \<open>ulNow\<close> of every method; the two identification strings are never assigned by
  the class.
\<close>

section \<open>State\<close>

record UserStockVolume =
  m_strUserAccount :: string
  m_strSecurityID :: string
  m_bStored :: bool
  m_stkBalance :: FrozeVolume
  m_stk_act_pch_Balance :: FrozeVolume
  m_stk_stp_pch_Balance :: FrozeVolume
  m_stk_etf_rdp_Balance :: FrozeVolume
  m_stk_crt_Balance :: FrozeVolume
  m_stk_avl_Balance :: FrozeVolume
  m_stk_last_Balance :: FrozeVolume
  m_ullast_access_time :: u64
  m_ultime_interval :: u64
  m_bExpire :: bool

definition UserStockVolume_default :: "u64 \<Rightarrow> UserStockVolume" where
  "UserStockVolume_default ulNow =
     \<lparr>m_strUserAccount = [], m_strSecurityID = [], m_bStored = False,
      m_stkBalance = FrozeVolume_default, m_stk_act_pch_Balance = FrozeVolume_default,
      m_stk_stp_pch_Balance = FrozeVolume_default, m_stk_etf_rdp_Balance = FrozeVolume_default,
      m_stk_crt_Balance = FrozeVolume_default, m_stk_avl_Balance = FrozeVolume_default,
      m_stk_last_Balance = FrozeVolume_default, m_ullast_access_time = ulNow,
      m_ultime_interval = 600, m_bExpire = False\<rparr>"

definition UserStockVolume_new ::
  "u64 \<Rightarrow> bool \<Rightarrow> u64 \<Rightarrow> u64 \<Rightarrow> u64 \<Rightarrow> u64 \<Rightarrow> u64 \<Rightarrow> u64 \<Rightarrow> u64 \<Rightarrow> u64 \<Rightarrow> UserStockVolume" where
  "UserStockVolume_new ulNow bStored stkBalance act stp rdp crt avl lst ulinterval =
     \<lparr>m_strUserAccount = [], m_strSecurityID = [], m_bStored = bStored,
      m_stkBalance = snd (FrozeVolume_Init FrozeVolume_default stkBalance),
      m_stk_act_pch_Balance = snd (FrozeVolume_Init FrozeVolume_default act),
      m_stk_stp_pch_Balance = snd (FrozeVolume_Init FrozeVolume_default stp),
      m_stk_etf_rdp_Balance = snd (FrozeVolume_Init FrozeVolume_default rdp),
      m_stk_crt_Balance = snd (FrozeVolume_Init FrozeVolume_default crt),
      m_stk_avl_Balance = snd (FrozeVolume_Init FrozeVolume_default avl),
      m_stk_last_Balance = snd (FrozeVolume_Init FrozeVolume_default lst),
      m_ullast_access_time = ulNow, m_ultime_interval = ulinterval, m_bExpire = False\<rparr>"

definition UserStockVolume_CheckStore :: "UserStockVolume \<Rightarrow> bool" where
  "UserStockVolume_CheckStore u = m_bStored u"

definition UserStockVolume_SetStore :: "UserStockVolume \<Rightarrow> bool \<Rightarrow> UserStockVolume" where
  "UserStockVolume_SetStore u b = u\<lparr>m_bStored := b\<rparr>"

text \<open>\<open>IsExpired\<close>: the flag that the first branch clears is set again on the way out.\<close>

definition UserStockVolume_IsExpired :: "u64 \<Rightarrow> UserStockVolume \<Rightarrow> bool \<times> UserStockVolume" where
  "UserStockVolume_IsExpired ulNow u =
     (let u1 = (if ulNow - m_ullast_access_time u < m_ultime_interval u
                then u\<lparr>m_ullast_access_time := ulNow, m_bExpire := False\<rparr> else u);
          u2 = u1\<lparr>m_bExpire := True\<rparr>
      in (m_bExpire u2, u2))"

abbreviation touch :: "u64 \<Rightarrow> UserStockVolume \<Rightarrow> UserStockVolume" where
  "touch ulNow u \<equiv> snd (UserStockVolume_IsExpired ulNow u)"

definition UserStockVolume_FrozeStkBalance :: "UserStockVolume \<Rightarrow> u64 \<Rightarrow> int \<times> UserStockVolume" where
  "UserStockVolume_FrozeStkBalance u q =
     (case FrozeVolume_Froze (m_stkBalance u) q of (iRes, _, b) \<Rightarrow>
        (if iRes \<noteq> 0 then (-1, u\<lparr>m_stkBalance := b\<rparr>) else (0, u\<lparr>m_stkBalance := b\<rparr>)))"

definition UserStockVolume_DeFrozeStkBalance :: "UserStockVolume \<Rightarrow> u64 \<Rightarrow> int \<times> UserStockVolume" where
  "UserStockVolume_DeFrozeStkBalance u q =
     (case FrozeVolume_Defroze (m_stkBalance u) q of (iRes, b) \<Rightarrow>
        (if iRes \<noteq> 0 then (-1, u\<lparr>m_stkBalance := b\<rparr>) else (0, u\<lparr>m_stkBalance := b\<rparr>)))"

section \<open>Freezing\<close>

text \<open>
  The result of a freeze is the return code, the two out parameters and the new state.
\<close>

definition UserStockVolume_SellFroze ::
  "u64 \<Rightarrow> UserStockVolume \<Rightarrow> u64 \<Rightarrow> int \<times> u64 \<times> u64 \<times> UserStockVolume" where
  "UserStockVolume_SellFroze ulNow u0 ui64Froze =
     (let u = touch ulNow u0 in
      case FrozeVolume_Froze (m_stk_etf_rdp_Balance u) ui64Froze of (_, etf, rdp1) \<Rightarrow>
        let u1 = u\<lparr>m_stk_etf_rdp_Balance := rdp1\<rparr> in
        if etf = ui64Froze then (0, etf, 0, u1)
        else case FrozeVolume_Froze (m_stk_avl_Balance u1) (ui64Froze - etf) of (_, avl, avl1) \<Rightarrow>
          let u2 = u1\<lparr>m_stk_avl_Balance := avl1\<rparr> in
          if etf + avl < ui64Froze
          then let u3 = (if 0 \<noteq> etf then u2\<lparr>m_stk_etf_rdp_Balance :=
                              snd (FrozeVolume_Defroze (m_stk_etf_rdp_Balance u2) etf)\<rparr> else u2);
                   u4 = (if 0 \<noteq> avl then u3\<lparr>m_stk_avl_Balance :=
                              snd (FrozeVolume_Defroze (m_stk_avl_Balance u3) avl)\<rparr> else u3)
               in (-1, etf, avl, u4)
          else case UserStockVolume_FrozeStkBalance u2 ui64Froze of (iRes, u3) \<Rightarrow> (iRes, etf, avl, u3))"

definition UserStockVolume_SellEtfFroze ::
  "u64 \<Rightarrow> UserStockVolume \<Rightarrow> u64 \<Rightarrow> int \<times> u64 \<times> u64 \<times> UserStockVolume" where
  "UserStockVolume_SellEtfFroze ulNow u0 ui64Froze =
     (let u = touch ulNow u0 in
      case FrozeVolume_Froze (m_stk_crt_Balance u) ui64Froze of (_, etf, crt1) \<Rightarrow>
        let u1 = u\<lparr>m_stk_crt_Balance := crt1\<rparr> in
        if etf = ui64Froze then (0, etf, 0, u1)
        else case FrozeVolume_Froze (m_stk_avl_Balance u1) (ui64Froze - etf) of (_, avl, avl1) \<Rightarrow>
          let u2 = u1\<lparr>m_stk_avl_Balance := avl1\<rparr> in
          if etf + avl < ui64Froze
          then let u3 = (if 0 \<noteq> etf then u2\<lparr>m_stk_crt_Balance :=
                              snd (FrozeVolume_Defroze (m_stk_crt_Balance u2) etf)\<rparr> else u2);
                   u4 = (if 0 \<noteq> avl then u3\<lparr>m_stk_avl_Balance :=
                              snd (FrozeVolume_Defroze (m_stk_avl_Balance u3) avl)\<rparr> else u3)
               in (-1, etf, avl, u4)
          else case UserStockVolume_FrozeStkBalance u2 ui64Froze of (iRes, u3) \<Rightarrow> (iRes, etf, avl, u3))"

text \<open>\<open>CreationQuery\<close>: return code, \<open>out_ui64max\<close> and the touched state.\<close>

definition UserStockVolume_CreationQuery ::
  "u64 \<Rightarrow> UserStockVolume \<Rightarrow> u64 \<Rightarrow> int \<times> u64 \<times> UserStockVolume" where
  "UserStockVolume_CreationQuery ulNow u0 ui64Query =
     (let u = touch ulNow u0 in
      case FrozeVolume_Query (m_stk_act_pch_Balance u) ui64Query of (iRes, act) \<Rightarrow>
        if iRes = 0 then (0, ui64Query, u)
        else case FrozeVolume_Query (m_stk_avl_Balance u) (ui64Query - act) of (iRes, avl) \<Rightarrow>
          (iRes, act + avl, u))"

text \<open>
  \<open>CreationFroze\<close> and \<open>RedemptionFroze\<close> take the purchased shares first; their rollback
  releases the ETF redemption counter, as the source does.
\<close>

definition UserStockVolume_CreationFroze ::
  "u64 \<Rightarrow> UserStockVolume \<Rightarrow> u64 \<Rightarrow> int \<times> u64 \<times> u64 \<times> UserStockVolume" where
  "UserStockVolume_CreationFroze ulNow u0 ui64Froze =
     (let u = touch ulNow u0 in
      case FrozeVolume_Froze (m_stk_act_pch_Balance u) ui64Froze of (_, act, act1) \<Rightarrow>
        let u1 = u\<lparr>m_stk_act_pch_Balance := act1\<rparr> in
        if act = ui64Froze then (0, act, 0, u1)
        else case FrozeVolume_Froze (m_stk_avl_Balance u1) (ui64Froze - act) of (_, avl, avl1) \<Rightarrow>
          let u2 = u1\<lparr>m_stk_avl_Balance := avl1\<rparr> in
          if act + avl < ui64Froze
          then let u3 = (if 0 \<noteq> act then u2\<lparr>m_stk_etf_rdp_Balance :=
                              snd (FrozeVolume_Defroze (m_stk_etf_rdp_Balance u2) act)\<rparr> else u2);
                   u4 = (if 0 \<noteq> avl then u3\<lparr>m_stk_avl_Balance :=
                              snd (FrozeVolume_Defroze (m_stk_avl_Balance u3) avl)\<rparr> else u3)
               in (-1, act, avl, u4)
          else case UserStockVolume_FrozeStkBalance u2 ui64Froze of (iRes, u3) \<Rightarrow> (iRes, act, avl, u3))"

definition UserStockVolume_RedemptionFroze ::
  "u64 \<Rightarrow> UserStockVolume \<Rightarrow> u64 \<Rightarrow> int \<times> u64 \<times> u64 \<times> UserStockVolume" where
  "UserStockVolume_RedemptionFroze ulNow u0 ui64Froze =
     (let u = touch ulNow u0 in
      case FrozeVolume_Froze (m_stk_act_pch_Balance u) ui64Froze of (_, act, act1) \<Rightarrow>
        let u1 = u\<lparr>m_stk_act_pch_Balance := act1\<rparr> in
        if act = ui64Froze then (0, act, 0, u1)
        else case FrozeVolume_Froze (m_stk_avl_Balance u1) (ui64Froze - act) of (_, avl, avl1) \<Rightarrow>
          let u2 = u1\<lparr>m_stk_avl_Balance := avl1\<rparr> in
          if avl + act < ui64Froze
          then let u3 = (if 0 \<noteq> act then u2\<lparr>m_stk_etf_rdp_Balance :=
                              snd (FrozeVolume_Defroze (m_stk_etf_rdp_Balance u2) act)\<rparr> else u2);
                   u4 = (if 0 \<noteq> avl then u3\<lparr>m_stk_avl_Balance :=
                              snd (FrozeVolume_Defroze (m_stk_avl_Balance u3) avl)\<rparr> else u3)
               in (-1, act, avl, u4)
          else case UserStockVolume_FrozeStkBalance u2 ui64Froze of (iRes, u3) \<Rightarrow> (iRes, act, avl, u3))"

section \<open>Releasing a freeze\<close>

definition UserStockVolume_SellDeFroze ::
  "u64 \<Rightarrow> UserStockVolume \<Rightarrow> u64 \<Rightarrow> u64 \<Rightarrow> int \<times> UserStockVolume" where
  "UserStockVolume_SellDeFroze ulNow u0 in_etf in_avl =
     (let u = touch ulNow u0;
          (r1, u1) = (if 0 \<noteq> in_etf
                      then (case FrozeVolume_Defroze (m_stk_etf_rdp_Balance u) in_etf of
                              (r, b) \<Rightarrow> (r, u\<lparr>m_stk_etf_rdp_Balance := b\<rparr>))
                      else (0, u))
      in if r1 \<noteq> 0 then (-1, u1)
         else let (r2, u2) = (if 0 \<noteq> in_avl
                      then (case FrozeVolume_Defroze (m_stk_avl_Balance u1) in_avl of
                              (r, b) \<Rightarrow> (r, u1\<lparr>m_stk_avl_Balance := b\<rparr>))
                      else (0, u1))
              in if r2 \<noteq> 0 then (-1, u2)
                 else UserStockVolume_DeFrozeStkBalance u2 (in_etf + in_avl))"

definition UserStockVolume_SellEtfDeFroze ::
  "u64 \<Rightarrow> UserStockVolume \<Rightarrow> u64 \<Rightarrow> u64 \<Rightarrow> int \<times> UserStockVolume" where
  "UserStockVolume_SellEtfDeFroze ulNow u0 in_etf in_avl =
     (let u = touch ulNow u0;
          (r1, u1) = (if 0 \<noteq> in_etf
                      then (case FrozeVolume_Defroze (m_stk_crt_Balance u) in_etf of
                              (r, b) \<Rightarrow> (r, u\<lparr>m_stk_crt_Balance := b\<rparr>))
                      else (0, u))
      in if r1 \<noteq> 0 then (-1, u1)
         else let (r2, u2) = (if 0 \<noteq> in_avl
                      then (case FrozeVolume_Defroze (m_stk_avl_Balance u1) in_avl of
                              (r, b) \<Rightarrow> (r, u1\<lparr>m_stk_avl_Balance := b\<rparr>))
                      else (0, u1))
              in if r2 \<noteq> 0 then (-1, u2)
                 else UserStockVolume_DeFrozeStkBalance u2 (in_etf + in_avl))"

definition UserStockVolume_CreationDeFroze ::
  "u64 \<Rightarrow> UserStockVolume \<Rightarrow> u64 \<Rightarrow> u64 \<Rightarrow> int \<times> UserStockVolume" where
  "UserStockVolume_CreationDeFroze ulNow u0 in_act in_avl =
     (let u = touch ulNow u0;
          (r1, u1) = (if 0 \<noteq> in_act
                      then (case FrozeVolume_Defroze (m_stk_act_pch_Balance u) in_act of
                              (r, b) \<Rightarrow> (r, u\<lparr>m_stk_act_pch_Balance := b\<rparr>))
                      else (0, u))
      in if r1 \<noteq> 0 then (-1, u1)
         else let (r2, u2) = (if 0 \<noteq> in_avl
                      then (case FrozeVolume_Defroze (m_stk_avl_Balance u1) in_avl of
                              (r, b) \<Rightarrow> (r, u1\<lparr>m_stk_avl_Balance := b\<rparr>))
                      else (0, u1))
              in if r2 \<noteq> 0 then (-1, u2)
                 else UserStockVolume_DeFrozeStkBalance u2 (in_act + in_avl))"

definition UserStockVolume_RedemptionDeFroze ::
  "u64 \<Rightarrow> UserStockVolume \<Rightarrow> u64 \<Rightarrow> u64 \<Rightarrow> int \<times> UserStockVolume" where
  "UserStockVolume_RedemptionDeFroze ulNow u0 in_act in_avl =
     (let u = touch ulNow u0;
          (r1, u1) = (if 0 \<noteq> in_act
                      then (case FrozeVolume_Defroze (m_stk_act_pch_Balance u) in_act of
                              (r, b) \<Rightarrow> (r, u\<lparr>m_stk_act_pch_Balance := b\<rparr>))
                      else (0, u))
      in if r1 \<noteq> 0 then (-1, u1)
         else let (r2, u2) = (if 0 \<noteq> in_avl
                      then (case FrozeVolume_Defroze (m_stk_avl_Balance u1) in_avl of
                              (r, b) \<Rightarrow> (r, u1\<lparr>m_stk_avl_Balance := b\<rparr>))
                      else (0, u1))
              in if r2 \<noteq> 0 then (-1, u2)
                 else UserStockVolume_DeFrozeStkBalance u2 (in_act + in_avl))"

section \<open>Confirming a freeze\<close>

text \<open>
  The two sale variants return what confirming the overall balance returned; the creation and
  redemption variants ignore it and return 0.
\<close>

definition UserStockVolume_SellConfirm ::
  "u64 \<Rightarrow> UserStockVolume \<Rightarrow> u64 \<Rightarrow> u64 \<Rightarrow> int \<times> UserStockVolume" where
  "UserStockVolume_SellConfirm ulNow u0 in_etf in_avl =
     (let u = touch ulNow u0;
          (r1, u1) = (if 0 \<noteq> in_etf
                      then (case FrozeVolume_Confirm (m_stk_etf_rdp_Balance u) in_etf of
                              (r, b) \<Rightarrow> (r, u\<lparr>m_stk_etf_rdp_Balance := b\<rparr>))
                      else (0, u))
      in if r1 \<noteq> 0 then (-1, u1)
         else let (r2, u2) = (if 0 \<noteq> in_avl
                      then (case FrozeVolume_Confirm (m_stk_avl_Balance u1) in_avl of
                              (r, b) \<Rightarrow> (r, u1\<lparr>m_stk_avl_Balance := b\<rparr>))
                      else (0, u1))
              in if r2 \<noteq> 0 then (-1, u2)
                 else case FrozeVolume_Confirm (m_stkBalance u2) (in_etf + in_avl) of
                        (r, b) \<Rightarrow> (r, u2\<lparr>m_stkBalance := b\<rparr>))"

definition UserStockVolume_SellEtfConfirm ::
  "u64 \<Rightarrow> UserStockVolume \<Rightarrow> u64 \<Rightarrow> u64 \<Rightarrow> int \<times> UserStockVolume" where
  "UserStockVolume_SellEtfConfirm ulNow u0 in_etf in_avl =
     (let u = touch ulNow u0;
          (r1, u1) = (if 0 \<noteq> in_etf
                      then (case FrozeVolume_Confirm (m_stk_crt_Balance u) in_etf of
                              (r, b) \<Rightarrow> (r, u\<lparr>m_stk_crt_Balance := b\<rparr>))
                      else (0, u))
      in if r1 \<noteq> 0 then (-1, u1)
         else let (r2, u2) = (if 0 \<noteq> in_avl
                      then (case FrozeVolume_Confirm (m_stk_avl_Balance u1) in_avl of
                              (r, b) \<Rightarrow> (r, u1\<lparr>m_stk_avl_Balance := b\<rparr>))
                      else (0, u1))
              in if r2 \<noteq> 0 then (-1, u2)
                 else case FrozeVolume_Confirm (m_stkBalance u2) (in_etf + in_avl) of
                        (r, b) \<Rightarrow> (r, u2\<lparr>m_stkBalance := b\<rparr>))"

definition UserStockVolume_CreationConfirm ::
  "u64 \<Rightarrow> UserStockVolume \<Rightarrow> u64 \<Rightarrow> u64 \<Rightarrow> int \<times> UserStockVolume" where
  "UserStockVolume_CreationConfirm ulNow u0 in_act in_avl =
     (let u = touch ulNow u0;
          (r1, u1) = (if 0 \<noteq> in_act
                      then (case FrozeVolume_Confirm (m_stk_act_pch_Balance u) in_act of
                              (r, b) \<Rightarrow> (r, u\<lparr>m_stk_act_pch_Balance := b\<rparr>))
                      else (0, u))
      in if r1 \<noteq> 0 then (-1, u1)
         else let (r2, u2) = (if 0 \<noteq> in_avl
                      then (case FrozeVolume_Confirm (m_stk_avl_Balance u1) in_avl of
                              (r, b) \<Rightarrow> (r, u1\<lparr>m_stk_avl_Balance := b\<rparr>))
                      else (0, u1))
              in if r2 \<noteq> 0 then (-1, u2)
                 else case FrozeVolume_Confirm (m_stkBalance u2) (in_act + in_avl) of
                        (_, b) \<Rightarrow> (0, u2\<lparr>m_stkBalance := b\<rparr>))"

definition UserStockVolume_RedemptionConfirm ::
  "u64 \<Rightarrow> UserStockVolume \<Rightarrow> u64 \<Rightarrow> u64 \<Rightarrow> int \<times> UserStockVolume" where
  "UserStockVolume_RedemptionConfirm ulNow u0 in_act in_avl =
     (let u = touch ulNow u0;
          (r1, u1) = (if 0 \<noteq> in_act
                      then (case FrozeVolume_Confirm (m_stk_act_pch_Balance u) in_act of
                              (r, b) \<Rightarrow> (r, u\<lparr>m_stk_act_pch_Balance := b\<rparr>))
                      else (0, u))
      in if r1 \<noteq> 0 then (-1, u1)
         else let (r2, u2) = (if 0 \<noteq> in_avl
                      then (case FrozeVolume_Confirm (m_stk_avl_Balance u1) in_avl of
                              (r, b) \<Rightarrow> (r, u1\<lparr>m_stk_avl_Balance := b\<rparr>))
                      else (0, u1))
              in if r2 \<noteq> 0 then (-1, u2)
                 else case FrozeVolume_Confirm (m_stkBalance u2) (in_act + in_avl) of
                        (_, b) \<Rightarrow> (0, u2\<lparr>m_stkBalance := b\<rparr>))"

section \<open>Adding shares\<close>

definition UserStockVolume_AddAct :: "u64 \<Rightarrow> UserStockVolume \<Rightarrow> u64 \<Rightarrow> int \<times> UserStockVolume" where
  "UserStockVolume_AddAct ulNow u0 num =
     (let u = touch ulNow u0;
          u1 = u\<lparr>m_stk_act_pch_Balance := snd (FrozeVolume_Add (m_stk_act_pch_Balance u) num)\<rparr>;
          u2 = u1\<lparr>m_stkBalance := snd (FrozeVolume_Add (m_stkBalance u1) num)\<rparr>
      in (0, u2))"

definition UserStockVolume_AddCrt :: "u64 \<Rightarrow> UserStockVolume \<Rightarrow> u64 \<Rightarrow> int \<times> UserStockVolume" where
  "UserStockVolume_AddCrt ulNow u0 num =
     (let u = touch ulNow u0;
          u1 = u\<lparr>m_stk_crt_Balance := snd (FrozeVolume_Add (m_stk_crt_Balance u) num)\<rparr>;
          u2 = u1\<lparr>m_stkBalance := snd (FrozeVolume_Add (m_stkBalance u1) num)\<rparr>
      in (0, u2))"

definition UserStockVolume_AddRdp :: "u64 \<Rightarrow> UserStockVolume \<Rightarrow> u64 \<Rightarrow> int \<times> UserStockVolume" where
  "UserStockVolume_AddRdp ulNow u0 num =
     (let u = touch ulNow u0;
          u1 = u\<lparr>m_stk_etf_rdp_Balance := snd (FrozeVolume_Add (m_stk_etf_rdp_Balance u) num)\<rparr>;
          u2 = u1\<lparr>m_stkBalance := snd (FrozeVolume_Add (m_stkBalance u1) num)\<rparr>
      in (0, u2))"

section \<open>Synchronising with the database\<close>

text \<open>
  The out parameters of a synchronisation: the old and new overall balance, the old and new
  values of the counters it covers, and the previous \<open>stock_last_balance\<close>.
\<close>

record SynOut =
  syn_stk_origin :: u64
  syn_stk_update :: u64
  syn_fst_origin :: u64
  syn_fst_update :: u64
  syn_avl_origin :: u64
  syn_avl_update :: u64
  syn_last_origin :: u64

definition UserStockVolume_Syn2 ::
  "(UserStockVolume \<Rightarrow> FrozeVolume) \<Rightarrow> (FrozeVolume \<Rightarrow> UserStockVolume \<Rightarrow> UserStockVolume)
   \<Rightarrow> UserStockVolume \<Rightarrow> int \<times> SynOut \<times> UserStockVolume" where
  "UserStockVolume_Syn2 get put u =
     (case FrozeVolume_DBSyn (m_stkBalance u) of (_, so, su, b1) \<Rightarrow>
      let u1 = u\<lparr>m_stkBalance := b1\<rparr> in
      case FrozeVolume_DBSyn (get u1) of (_, fo, fu, b2) \<Rightarrow>
      let u2 = put b2 u1 in
      case FrozeVolume_ResetSyn (m_stk_last_Balance u2) so of (_, lo, b3) \<Rightarrow>
        (0, \<lparr>syn_stk_origin = so, syn_stk_update = su, syn_fst_origin = fo, syn_fst_update = fu,
             syn_avl_origin = 0, syn_avl_update = 0, syn_last_origin = lo\<rparr>,
         u2\<lparr>m_stk_last_Balance := b3\<rparr>))"

definition UserStockVolume_Syn3 ::
  "(UserStockVolume \<Rightarrow> FrozeVolume) \<Rightarrow> (FrozeVolume \<Rightarrow> UserStockVolume \<Rightarrow> UserStockVolume)
   \<Rightarrow> UserStockVolume \<Rightarrow> int \<times> SynOut \<times> UserStockVolume" where
  "UserStockVolume_Syn3 get put u =
     (case FrozeVolume_DBSyn (m_stkBalance u) of (_, so, su, b1) \<Rightarrow>
      let u1 = u\<lparr>m_stkBalance := b1\<rparr> in
      case FrozeVolume_DBSyn (get u1) of (_, fo, fu, b2) \<Rightarrow>
      let u2 = put b2 u1 in
      case FrozeVolume_DBSyn (m_stk_avl_Balance u2) of (_, ao, au, b3) \<Rightarrow>
      let u3 = u2\<lparr>m_stk_avl_Balance := b3\<rparr> in
      case FrozeVolume_ResetSyn (m_stk_last_Balance u3) so of (_, lo, b4) \<Rightarrow>
        (0, \<lparr>syn_stk_origin = so, syn_stk_update = su, syn_fst_origin = fo, syn_fst_update = fu,
             syn_avl_origin = ao, syn_avl_update = au, syn_last_origin = lo\<rparr>,
         u3\<lparr>m_stk_last_Balance := b4\<rparr>))"

definition UserStockVolume_SellDBSyn :: "UserStockVolume \<Rightarrow> int \<times> SynOut \<times> UserStockVolume" where
  "UserStockVolume_SellDBSyn =
     UserStockVolume_Syn3 m_stk_etf_rdp_Balance (\<lambda>b u. u\<lparr>m_stk_etf_rdp_Balance := b\<rparr>)"

definition UserStockVolume_SellEtfDBSyn :: "UserStockVolume \<Rightarrow> int \<times> SynOut \<times> UserStockVolume" where
  "UserStockVolume_SellEtfDBSyn =
     UserStockVolume_Syn3 m_stk_crt_Balance (\<lambda>b u. u\<lparr>m_stk_crt_Balance := b\<rparr>)"

definition UserStockVolume_CreationComponentDBSyn :: "UserStockVolume \<Rightarrow> int \<times> SynOut \<times> UserStockVolume" where
  "UserStockVolume_CreationComponentDBSyn =
     UserStockVolume_Syn3 m_stk_act_pch_Balance (\<lambda>b u. u\<lparr>m_stk_act_pch_Balance := b\<rparr>)"

definition UserStockVolume_CreationEtfDBSyn :: "UserStockVolume \<Rightarrow> int \<times> SynOut \<times> UserStockVolume" where
  "UserStockVolume_CreationEtfDBSyn =
     UserStockVolume_Syn2 m_stk_crt_Balance (\<lambda>b u. u\<lparr>m_stk_crt_Balance := b\<rparr>)"

definition UserStockVolume_AddActSyn :: "UserStockVolume \<Rightarrow> int \<times> SynOut \<times> UserStockVolume" where
  "UserStockVolume_AddActSyn =
     UserStockVolume_Syn2 m_stk_act_pch_Balance (\<lambda>b u. u\<lparr>m_stk_act_pch_Balance := b\<rparr>)"

definition UserStockVolume_AddEtfSyn :: "UserStockVolume \<Rightarrow> int \<times> SynOut \<times> UserStockVolume" where
  "UserStockVolume_AddEtfSyn =
     UserStockVolume_Syn2 m_stk_crt_Balance (\<lambda>b u. u\<lparr>m_stk_crt_Balance := b\<rparr>)"

definition UserStockVolume_RdpEtfSyn :: "UserStockVolume \<Rightarrow> int \<times> SynOut \<times> UserStockVolume" where
  "UserStockVolume_RdpEtfSyn =
     UserStockVolume_Syn3 m_stk_act_pch_Balance (\<lambda>b u. u\<lparr>m_stk_act_pch_Balance := b\<rparr>)"

definition UserStockVolume_AddRdpComponentSyn :: "UserStockVolume \<Rightarrow> int \<times> SynOut \<times> UserStockVolume" where
  "UserStockVolume_AddRdpComponentSyn =
     UserStockVolume_Syn2 m_stk_etf_rdp_Balance (\<lambda>b u. u\<lparr>m_stk_etf_rdp_Balance := b\<rparr>)"

section \<open>The freezing contract\<close>

lemma IsExpired_frame [simp]:
  "m_stkBalance (touch t u) = m_stkBalance u"
  "m_stk_act_pch_Balance (touch t u) = m_stk_act_pch_Balance u"
  "m_stk_stp_pch_Balance (touch t u) = m_stk_stp_pch_Balance u"
  "m_stk_etf_rdp_Balance (touch t u) = m_stk_etf_rdp_Balance u"
  "m_stk_crt_Balance (touch t u) = m_stk_crt_Balance u"
  "m_stk_avl_Balance (touch t u) = m_stk_avl_Balance u"
  "m_stk_last_Balance (touch t u) = m_stk_last_Balance u"
  "m_bStored (touch t u) = m_bStored u"
  by (simp_all add: UserStockVolume_IsExpired_def Let_def)

text \<open>
  What the four freezing methods promise their caller: the first source is used up before
  \<open>m_stk_avl_Balance\<close> is touched, a covered request freezes exactly the requested amount, and
  a short one returns -1.  \<open>first_source\<close> is the counter the method takes from first.
\<close>

locale two_source_freeze =
  fixes frz :: "u64 \<Rightarrow> UserStockVolume \<Rightarrow> u64 \<Rightarrow> int \<times> u64 \<times> u64 \<times> UserStockVolume"
    and first_source :: "UserStockVolume \<Rightarrow> FrozeVolume"
  assumes covered_by_first: "q \<le> m_ui64UnFrozeVolume (first_source u) \<Longrightarrow>
        \<exists>u'. frz t u q = (0, q, 0, u') \<and> first_source u' = freeze_part (first_source u) q \<and>
             m_stk_avl_Balance u' = m_stk_avl_Balance u \<and> m_stkBalance u' = m_stkBalance u"
    and covered_by_both: "m_ui64UnFrozeVolume (first_source u) < q \<Longrightarrow>
        unat q \<le> unat (m_ui64UnFrozeVolume (first_source u))
                + unat (m_ui64UnFrozeVolume (m_stk_avl_Balance u)) \<Longrightarrow>
        \<exists>u'. frz t u q = (0, m_ui64UnFrozeVolume (first_source u),
                         q - m_ui64UnFrozeVolume (first_source u), u') \<and>
             first_source u' =
               freeze_part (first_source u) (m_ui64UnFrozeVolume (first_source u)) \<and>
             m_stk_avl_Balance u' =
               freeze_part (m_stk_avl_Balance u) (q - m_ui64UnFrozeVolume (first_source u)) \<and>
             m_stkBalance u' = snd (snd (FrozeVolume_Froze (m_stkBalance u) q))"
    and falls_short: "unat (m_ui64UnFrozeVolume (first_source u))
                + unat (m_ui64UnFrozeVolume (m_stk_avl_Balance u)) < unat q \<Longrightarrow>
        \<exists>u'. frz t u q = (-1, m_ui64UnFrozeVolume (first_source u),
                         m_ui64UnFrozeVolume (m_stk_avl_Balance u), u')"
begin

lemma outcome:
  obtains (first) "q \<le> m_ui64UnFrozeVolume (first_source u)"
  | (both) "m_ui64UnFrozeVolume (first_source u) < q"
      "unat q \<le> unat (m_ui64UnFrozeVolume (first_source u))
               + unat (m_ui64UnFrozeVolume (m_stk_avl_Balance u))"
  | (short) "unat (m_ui64UnFrozeVolume (first_source u))
             + unat (m_ui64UnFrozeVolume (m_stk_avl_Balance u)) < unat q"
  by (meson not_le_imp_less)

lemma rc_iff:
  assumes "frz t u q = (rc, x, y, u')"
  shows "rc = (if unat q \<le> unat (m_ui64UnFrozeVolume (first_source u))
                         + unat (m_ui64UnFrozeVolume (m_stk_avl_Balance u)) then 0 else -1)"
proof (cases rule: outcome [of q u])
  case first
  then have "unat q \<le> unat (m_ui64UnFrozeVolume (first_source u))"
    by (simp add: word_le_nat_alt)
  then show ?thesis using covered_by_first [OF first, of t] assms by auto
next
  case both
  then show ?thesis using covered_by_both [OF both, of t] assms by auto
next
  case short
  then show ?thesis using falls_short [OF short, of t] assms by auto
qed

lemma success_amounts:
  assumes "frz t u q = (0, x, y, u')"
  shows "x + y = q" and "x = min (m_ui64UnFrozeVolume (first_source u)) q"
    and "y \<le> m_ui64UnFrozeVolume (m_stk_avl_Balance u)"
    and "first_source u' = freeze_part (first_source u) x"
    and "m_stk_avl_Balance u' = freeze_part (m_stk_avl_Balance u) y"
proof -
  have "x + y = q \<and> x = min (m_ui64UnFrozeVolume (first_source u)) q \<and>
        y \<le> m_ui64UnFrozeVolume (m_stk_avl_Balance u) \<and>
        first_source u' = freeze_part (first_source u) x \<and>
        m_stk_avl_Balance u' = freeze_part (m_stk_avl_Balance u) y"
  proof (cases rule: outcome [of q u])
    case first
    then show ?thesis using covered_by_first [OF first, of t] assms by auto
  next
    case both
    then show ?thesis
      using covered_by_both [OF both, of t] assms second_source_amount [OF both]
      by (auto simp: min_absorb1) (metis min.cobounded1)
  next
    case short
    then show ?thesis using falls_short [OF short, of t] assms by auto
  qed
  then show "x + y = q" and "x = min (m_ui64UnFrozeVolume (first_source u)) q"
    and "y \<le> m_ui64UnFrozeVolume (m_stk_avl_Balance u)"
    and "first_source u' = freeze_part (first_source u) x"
    and "m_stk_avl_Balance u' = freeze_part (m_stk_avl_Balance u) y"
    by auto
qed

lemma success_keeps_holding:
  assumes "frz t u q = (0, x, y, u')"
    and "fv_wf (first_source u)" and "fv_wf (m_stk_avl_Balance u)"
  shows "fv_holding (first_source u') = fv_holding (first_source u) \<and>
         fv_holding (m_stk_avl_Balance u') = fv_holding (m_stk_avl_Balance u)"
  using success_amounts [OF assms(1)] freeze_part_holding [OF assms(2), of x]
    freeze_part_holding [OF assms(3), of y] by simp

end

text \<open>Two of the methods also undo the first freeze when the second source falls short.\<close>

locale two_source_freeze_undo = two_source_freeze +
  assumes short_restores: "unat (m_ui64UnFrozeVolume (first_source u))
                + unat (m_ui64UnFrozeVolume (m_stk_avl_Balance u)) < unat q \<Longrightarrow>
        snd (snd (snd (frz t u q))) = touch t u"
begin

lemma failure_restores:
  assumes "frz t u q = (rc, x, y, u')" and "rc \<noteq> 0"
  shows "rc = -1 \<and> u' = touch t u"
  using assms rc_iff [OF assms(1)] short_restores [of u q t] by (auto split: if_splits)

end

lemma volume_update_same [simp]:
  "m_stk_etf_rdp_Balance u = b \<Longrightarrow> u\<lparr>m_stk_etf_rdp_Balance := b\<rparr> = u"
  "m_stk_crt_Balance u = b \<Longrightarrow> u\<lparr>m_stk_crt_Balance := b\<rparr> = u"
  "m_stk_act_pch_Balance u = b \<Longrightarrow> u\<lparr>m_stk_act_pch_Balance := b\<rparr> = u"
  "m_stk_avl_Balance u = b \<Longrightarrow> u\<lparr>m_stk_avl_Balance := b\<rparr> = u"
  "m_stkBalance u = b \<Longrightarrow> u\<lparr>m_stkBalance := b\<rparr> = u"
  by simp_all

lemma FrozeStkBalance_eq:
  "UserStockVolume_FrozeStkBalance u q =
     (0, u\<lparr>m_stkBalance := snd (snd (FrozeVolume_Froze (m_stkBalance u) q))\<rparr>)"
  by (simp add: UserStockVolume_FrozeStkBalance_def Froze_freeze_part)

text \<open>Each method, in each of its three outcomes.\<close>

lemma SellFroze_first:
  "q \<le> m_ui64UnFrozeVolume (m_stk_etf_rdp_Balance u) \<Longrightarrow>
   UserStockVolume_SellFroze t u q =
     (0, q, 0, (touch t u)\<lparr>m_stk_etf_rdp_Balance := freeze_part (m_stk_etf_rdp_Balance u) q\<rparr>)"
  by (simp add: UserStockVolume_SellFroze_def Froze_enough)

lemma SellFroze_both:
  assumes "m_ui64UnFrozeVolume (m_stk_etf_rdp_Balance u) < q"
    and "unat q \<le> unat (m_ui64UnFrozeVolume (m_stk_etf_rdp_Balance u))
              + unat (m_ui64UnFrozeVolume (m_stk_avl_Balance u))"
  shows "UserStockVolume_SellFroze t u q =
     (0, m_ui64UnFrozeVolume (m_stk_etf_rdp_Balance u), q - m_ui64UnFrozeVolume (m_stk_etf_rdp_Balance u),
      (touch t u)\<lparr>
        m_stk_etf_rdp_Balance := freeze_part (m_stk_etf_rdp_Balance u) (m_ui64UnFrozeVolume (m_stk_etf_rdp_Balance u)),
        m_stk_avl_Balance := freeze_part (m_stk_avl_Balance u)
                               (q - m_ui64UnFrozeVolume (m_stk_etf_rdp_Balance u)),
        m_stkBalance := snd (snd (FrozeVolume_Froze (m_stkBalance u) q))\<rparr>)"
  using both_sources [OF assms]
  by (simp add: UserStockVolume_SellFroze_def Let_def FrozeStkBalance_eq)

lemma SellFroze_short:
  assumes "unat (m_ui64UnFrozeVolume (m_stk_etf_rdp_Balance u))
             + unat (m_ui64UnFrozeVolume (m_stk_avl_Balance u)) < unat q"
  shows "UserStockVolume_SellFroze t u q =
     (-1, m_ui64UnFrozeVolume (m_stk_etf_rdp_Balance u), m_ui64UnFrozeVolume (m_stk_avl_Balance u),
      (touch t u))"
  using short_sources [OF assms]
  by (simp add: UserStockVolume_SellFroze_def Let_def add.commute)

lemma SellEtfFroze_first:
  "q \<le> m_ui64UnFrozeVolume (m_stk_crt_Balance u) \<Longrightarrow>
   UserStockVolume_SellEtfFroze t u q =
     (0, q, 0, (touch t u)\<lparr>m_stk_crt_Balance := freeze_part (m_stk_crt_Balance u) q\<rparr>)"
  by (simp add: UserStockVolume_SellEtfFroze_def Froze_enough)

lemma SellEtfFroze_both:
  assumes "m_ui64UnFrozeVolume (m_stk_crt_Balance u) < q"
    and "unat q \<le> unat (m_ui64UnFrozeVolume (m_stk_crt_Balance u))
              + unat (m_ui64UnFrozeVolume (m_stk_avl_Balance u))"
  shows "UserStockVolume_SellEtfFroze t u q =
     (0, m_ui64UnFrozeVolume (m_stk_crt_Balance u), q - m_ui64UnFrozeVolume (m_stk_crt_Balance u),
      (touch t u)\<lparr>
        m_stk_crt_Balance := freeze_part (m_stk_crt_Balance u) (m_ui64UnFrozeVolume (m_stk_crt_Balance u)),
        m_stk_avl_Balance := freeze_part (m_stk_avl_Balance u)
                               (q - m_ui64UnFrozeVolume (m_stk_crt_Balance u)),
        m_stkBalance := snd (snd (FrozeVolume_Froze (m_stkBalance u) q))\<rparr>)"
  using both_sources [OF assms]
  by (simp add: UserStockVolume_SellEtfFroze_def Let_def FrozeStkBalance_eq)

lemma SellEtfFroze_short:
  assumes "unat (m_ui64UnFrozeVolume (m_stk_crt_Balance u))
             + unat (m_ui64UnFrozeVolume (m_stk_avl_Balance u)) < unat q"
  shows "UserStockVolume_SellEtfFroze t u q =
     (-1, m_ui64UnFrozeVolume (m_stk_crt_Balance u), m_ui64UnFrozeVolume (m_stk_avl_Balance u),
      (touch t u))"
  using short_sources [OF assms]
  by (simp add: UserStockVolume_SellEtfFroze_def Let_def add.commute)

lemma CreationFroze_first:
  "q \<le> m_ui64UnFrozeVolume (m_stk_act_pch_Balance u) \<Longrightarrow>
   UserStockVolume_CreationFroze t u q =
     (0, q, 0, (touch t u)\<lparr>m_stk_act_pch_Balance := freeze_part (m_stk_act_pch_Balance u) q\<rparr>)"
  by (simp add: UserStockVolume_CreationFroze_def Froze_enough)

lemma CreationFroze_both:
  assumes "m_ui64UnFrozeVolume (m_stk_act_pch_Balance u) < q"
    and "unat q \<le> unat (m_ui64UnFrozeVolume (m_stk_act_pch_Balance u))
              + unat (m_ui64UnFrozeVolume (m_stk_avl_Balance u))"
  shows "UserStockVolume_CreationFroze t u q =
     (0, m_ui64UnFrozeVolume (m_stk_act_pch_Balance u), q - m_ui64UnFrozeVolume (m_stk_act_pch_Balance u),
      (touch t u)\<lparr>
        m_stk_act_pch_Balance := freeze_part (m_stk_act_pch_Balance u) (m_ui64UnFrozeVolume (m_stk_act_pch_Balance u)),
        m_stk_avl_Balance := freeze_part (m_stk_avl_Balance u)
                               (q - m_ui64UnFrozeVolume (m_stk_act_pch_Balance u)),
        m_stkBalance := snd (snd (FrozeVolume_Froze (m_stkBalance u) q))\<rparr>)"
  using both_sources [OF assms]
  by (simp add: UserStockVolume_CreationFroze_def Let_def FrozeStkBalance_eq)

lemma CreationFroze_short:
  assumes "unat (m_ui64UnFrozeVolume (m_stk_act_pch_Balance u))
             + unat (m_ui64UnFrozeVolume (m_stk_avl_Balance u)) < unat q"
    and "m_ui64UnFrozeVolume (m_stk_act_pch_Balance u) \<noteq> 0"
  shows "UserStockVolume_CreationFroze t u q =
     (-1, m_ui64UnFrozeVolume (m_stk_act_pch_Balance u), m_ui64UnFrozeVolume (m_stk_avl_Balance u),
      (touch t u)\<lparr>
        m_stk_act_pch_Balance := freeze_part (m_stk_act_pch_Balance u) (m_ui64UnFrozeVolume (m_stk_act_pch_Balance u)),
        m_stk_etf_rdp_Balance := snd (FrozeVolume_Defroze (m_stk_etf_rdp_Balance u) (m_ui64UnFrozeVolume (m_stk_act_pch_Balance u)))\<rparr>)"
  using assms(2-) short_sources [OF assms(1)]
  by (simp add: UserStockVolume_CreationFroze_def Let_def add.commute)

lemma RedemptionFroze_first:
  "q \<le> m_ui64UnFrozeVolume (m_stk_act_pch_Balance u) \<Longrightarrow>
   UserStockVolume_RedemptionFroze t u q =
     (0, q, 0, (touch t u)\<lparr>m_stk_act_pch_Balance := freeze_part (m_stk_act_pch_Balance u) q\<rparr>)"
  by (simp add: UserStockVolume_RedemptionFroze_def Froze_enough)

lemma RedemptionFroze_both:
  assumes "m_ui64UnFrozeVolume (m_stk_act_pch_Balance u) < q"
    and "unat q \<le> unat (m_ui64UnFrozeVolume (m_stk_act_pch_Balance u))
              + unat (m_ui64UnFrozeVolume (m_stk_avl_Balance u))"
  shows "UserStockVolume_RedemptionFroze t u q =
     (0, m_ui64UnFrozeVolume (m_stk_act_pch_Balance u), q - m_ui64UnFrozeVolume (m_stk_act_pch_Balance u),
      (touch t u)\<lparr>
        m_stk_act_pch_Balance := freeze_part (m_stk_act_pch_Balance u) (m_ui64UnFrozeVolume (m_stk_act_pch_Balance u)),
        m_stk_avl_Balance := freeze_part (m_stk_avl_Balance u)
                               (q - m_ui64UnFrozeVolume (m_stk_act_pch_Balance u)),
        m_stkBalance := snd (snd (FrozeVolume_Froze (m_stkBalance u) q))\<rparr>)"
  using both_sources [OF assms]
  by (simp add: UserStockVolume_RedemptionFroze_def Let_def FrozeStkBalance_eq)

lemma RedemptionFroze_short:
  assumes "unat (m_ui64UnFrozeVolume (m_stk_act_pch_Balance u))
             + unat (m_ui64UnFrozeVolume (m_stk_avl_Balance u)) < unat q"
    and "m_ui64UnFrozeVolume (m_stk_act_pch_Balance u) \<noteq> 0"
  shows "UserStockVolume_RedemptionFroze t u q =
     (-1, m_ui64UnFrozeVolume (m_stk_act_pch_Balance u), m_ui64UnFrozeVolume (m_stk_avl_Balance u),
      (touch t u)\<lparr>
        m_stk_act_pch_Balance := freeze_part (m_stk_act_pch_Balance u) (m_ui64UnFrozeVolume (m_stk_act_pch_Balance u)),
        m_stk_etf_rdp_Balance := snd (FrozeVolume_Defroze (m_stk_etf_rdp_Balance u) (m_ui64UnFrozeVolume (m_stk_act_pch_Balance u)))\<rparr>)"
  using assms(2-) short_sources [OF assms(1)]
  by (simp add: UserStockVolume_RedemptionFroze_def Let_def add.commute)

text \<open>Every freezing method meets the contract; the two sale methods also undo.\<close>

interpretation sell: two_source_freeze_undo UserStockVolume_SellFroze m_stk_etf_rdp_Balance
  by unfold_locales (simp_all add: SellFroze_first SellFroze_both SellFroze_short)

interpretation sell_etf: two_source_freeze_undo UserStockVolume_SellEtfFroze m_stk_crt_Balance
  by unfold_locales (simp_all add: SellEtfFroze_first SellEtfFroze_both SellEtfFroze_short)

lemma CreationFroze_falls_short:
  assumes "unat (m_ui64UnFrozeVolume (m_stk_act_pch_Balance u))
             + unat (m_ui64UnFrozeVolume (m_stk_avl_Balance u)) < unat q"
  shows "\<exists>u'. UserStockVolume_CreationFroze t u q =
     (-1, m_ui64UnFrozeVolume (m_stk_act_pch_Balance u), m_ui64UnFrozeVolume (m_stk_avl_Balance u), u')"
  using short_sources [OF assms]
  by (simp add: UserStockVolume_CreationFroze_def Let_def)

lemma RedemptionFroze_falls_short:
  assumes "unat (m_ui64UnFrozeVolume (m_stk_act_pch_Balance u))
             + unat (m_ui64UnFrozeVolume (m_stk_avl_Balance u)) < unat q"
  shows "\<exists>u'. UserStockVolume_RedemptionFroze t u q =
     (-1, m_ui64UnFrozeVolume (m_stk_act_pch_Balance u), m_ui64UnFrozeVolume (m_stk_avl_Balance u), u')"
  using short_sources [OF assms]
  by (simp add: UserStockVolume_RedemptionFroze_def Let_def add.commute)

interpretation creation: two_source_freeze UserStockVolume_CreationFroze m_stk_act_pch_Balance
  by unfold_locales (simp_all add: CreationFroze_first CreationFroze_both CreationFroze_falls_short)

interpretation redemption: two_source_freeze UserStockVolume_RedemptionFroze m_stk_act_pch_Balance
  by unfold_locales (simp_all add: RedemptionFroze_first RedemptionFroze_both RedemptionFroze_falls_short)

section \<open>Properties\<close>

text \<open>
  C25.  Freezing shares for a sale succeeds exactly when the redeemed and the available shares
  together cover the request; it then freezes exactly the request, taking redeemed shares first.
  When they do not cover it the call returns -1 and leaves every counter as it was.
\<close>

theorem SellFroze_all_or_nothing:
  assumes "UserStockVolume_SellFroze t u q = (rc, etf, avl, u')"
  shows "(rc = 0 \<longleftrightarrow> unat q \<le> unat (m_ui64UnFrozeVolume (m_stk_etf_rdp_Balance u))
                        + unat (m_ui64UnFrozeVolume (m_stk_avl_Balance u))) \<and>
         (rc = 0 \<longrightarrow> etf + avl = q \<and>
             etf = min (m_ui64UnFrozeVolume (m_stk_etf_rdp_Balance u)) q \<and>
             m_stk_etf_rdp_Balance u' = freeze_part (m_stk_etf_rdp_Balance u) etf \<and>
             m_stk_avl_Balance u' = freeze_part (m_stk_avl_Balance u) avl) \<and>
         (rc \<noteq> 0 \<longrightarrow> rc = -1 \<and> u' = touch t u)"
proof (intro conjI impI)
  show "rc = 0 \<longleftrightarrow> unat q \<le> unat (m_ui64UnFrozeVolume (m_stk_etf_rdp_Balance u))
                        + unat (m_ui64UnFrozeVolume (m_stk_avl_Balance u))"
    using sell.rc_iff [OF assms] by simp
qed (use assms sell.success_amounts [of t u q etf avl u'] sell.failure_restores [OF assms] in auto)

text \<open>
  The same promise for ETF units: the created units go first, and a request that the
  created and available units do not cover changes nothing.
\<close>

theorem SellEtfFroze_all_or_nothing:
  assumes "UserStockVolume_SellEtfFroze t u q = (rc, etf, avl, u')"
  shows "(rc = 0 \<longleftrightarrow> unat q \<le> unat (m_ui64UnFrozeVolume (m_stk_crt_Balance u))
                        + unat (m_ui64UnFrozeVolume (m_stk_avl_Balance u))) \<and>
         (rc = 0 \<longrightarrow> etf + avl = q \<and>
             etf = min (m_ui64UnFrozeVolume (m_stk_crt_Balance u)) q \<and>
             m_stk_crt_Balance u' = freeze_part (m_stk_crt_Balance u) etf \<and>
             m_stk_avl_Balance u' = freeze_part (m_stk_avl_Balance u) avl) \<and>
         (rc \<noteq> 0 \<longrightarrow> rc = -1 \<and> u' = touch t u)"
proof (intro conjI impI)
  show "rc = 0 \<longleftrightarrow> unat q \<le> unat (m_ui64UnFrozeVolume (m_stk_crt_Balance u))
                        + unat (m_ui64UnFrozeVolume (m_stk_avl_Balance u))"
    using sell_etf.rc_iff [OF assms] by simp
qed (use assms sell_etf.success_amounts [of t u q etf avl u']
      sell_etf.failure_restores [OF assms] in auto)

lemma SellDeFroze_eq:
  "UserStockVolume_SellDeFroze t u etf avl =
     (0, (touch t u)\<lparr>
        m_stk_etf_rdp_Balance := snd (FrozeVolume_Defroze (m_stk_etf_rdp_Balance u) etf),
        m_stk_avl_Balance := snd (FrozeVolume_Defroze (m_stk_avl_Balance u) avl),
        m_stkBalance := snd (FrozeVolume_Defroze (m_stkBalance u) (etf + avl))\<rparr>)"
  by (simp add: UserStockVolume_SellDeFroze_def Let_def FrozeVolume_Defroze_def
      UserStockVolume_DeFrozeStkBalance_def)

lemma SellFroze_overall:
  assumes "UserStockVolume_SellFroze t u q = (0, etf, avl, u')"
    and "m_ui64UnFrozeVolume (m_stk_etf_rdp_Balance u) < q"
    and "q \<le> m_ui64UnFrozeVolume (m_stkBalance u)"
  shows "m_stkBalance u' = freeze_part (m_stkBalance u) q"
proof -
  have "unat q \<le> unat (m_ui64UnFrozeVolume (m_stk_etf_rdp_Balance u))
              + unat (m_ui64UnFrozeVolume (m_stk_avl_Balance u))"
    using sell.rc_iff [OF assms(1)] by (simp split: if_splits)
  then show ?thesis
    using assms(1) by (simp add: SellFroze_both [OF assms(2)] Froze_enough [OF assms(3)]) auto
qed

text \<open>
  A cancelled sale gives the shares back: when the freeze needed the available shares too
  and the overall balance covered it, releasing the amounts the freeze reported restores the
  redeemed shares, the available shares and the overall balance.
\<close>

theorem SellFroze_SellDeFroze_roundtrip:
  assumes "UserStockVolume_SellFroze t u q = (0, etf, avl, u')"
    and "m_ui64UnFrozeVolume (m_stk_etf_rdp_Balance u) < q"
    and "q \<le> m_ui64UnFrozeVolume (m_stkBalance u)"
    and "UserStockVolume_SellDeFroze t' u' etf avl = (rc, u'')"
  shows "rc = 0 \<and> m_stk_etf_rdp_Balance u'' = m_stk_etf_rdp_Balance u \<and>
         m_stk_avl_Balance u'' = m_stk_avl_Balance u \<and> m_stkBalance u'' = m_stkBalance u"
proof -
  note u' = SellFroze_overall [OF assms(1,2,3)]
  from sell.success_amounts [OF assms(1)]
  have "etf + avl = q" and "m_stk_etf_rdp_Balance u' = freeze_part (m_stk_etf_rdp_Balance u) etf"
    and "m_stk_avl_Balance u' = freeze_part (m_stk_avl_Balance u) avl" by auto
  with u' assms(4) show ?thesis by (auto simp: SellDeFroze_eq)
qed

text \<open>A concrete holding: 10 purchased, 30 redeemed, 20 created, 50 available shares.\<close>

definition sample_volume :: UserStockVolume where
  "sample_volume = UserStockVolume_new 0 True 110 10 0 30 20 50 0 600"

lemma sample_volume_sel [simp]:
  "m_stkBalance sample_volume = snd (FrozeVolume_Init FrozeVolume_default 110)"
  "m_stk_act_pch_Balance sample_volume = snd (FrozeVolume_Init FrozeVolume_default 10)"
  "m_stk_etf_rdp_Balance sample_volume = snd (FrozeVolume_Init FrozeVolume_default 30)"
  "m_stk_crt_Balance sample_volume = snd (FrozeVolume_Init FrozeVolume_default 20)"
  "m_stk_avl_Balance sample_volume = snd (FrozeVolume_Init FrozeVolume_default 50)"
  by (simp_all add: sample_volume_def UserStockVolume_new_def)

lemma Init_default_sel [simp]:
  "m_ui64UnFrozeVolume (snd (FrozeVolume_Init FrozeVolume_default x)) = x"
  "m_ui64ForzeVolume (snd (FrozeVolume_Init FrozeVolume_default x)) = 0"
  "m_ui64LatestSynVolume (snd (FrozeVolume_Init FrozeVolume_default x)) = x"
  by (simp_all add: FrozeVolume_Init_def FrozeVolume_default_def)

lemma SellFroze_all_or_nothing_witness:
  "\<exists>etf avl u'. UserStockVolume_SellFroze 5 sample_volume 60 = (0, etf, avl, u') \<and>
     etf = 30 \<and> etf + avl = 60"
proof -
  obtain rc etf avl u' where e: "UserStockVolume_SellFroze 5 sample_volume 60 = (rc, etf, avl, u')"
    by (metis prod_cases4)
  show ?thesis using SellFroze_all_or_nothing [OF e] e by auto
qed

lemma SellEtfFroze_all_or_nothing_witness:
  "\<exists>etf avl u'. UserStockVolume_SellEtfFroze 5 sample_volume 90 = (-1, etf, avl, u') \<and>
     u' = touch 5 sample_volume"
proof -
  obtain rc etf avl u' where e: "UserStockVolume_SellEtfFroze 5 sample_volume 90 = (rc, etf, avl, u')"
    by (metis prod_cases4)
  show ?thesis using SellEtfFroze_all_or_nothing [OF e] e by simp
qed

lemma SellFroze_SellDeFroze_roundtrip_witness:
  "\<exists>etf avl u' rc u''. UserStockVolume_SellFroze 5 sample_volume 60 = (0, etf, avl, u') \<and>
     UserStockVolume_SellDeFroze 9 u' etf avl = (rc, u'') \<and>
     m_stkBalance u'' = m_stkBalance sample_volume"
proof -
  obtain etf avl u' where e: "UserStockVolume_SellFroze 5 sample_volume 60 = (0, etf, avl, u')"
    using SellFroze_both [of sample_volume 60 5] by simp
  obtain rc u'' where d: "UserStockVolume_SellDeFroze 9 u' etf avl = (rc, u'')"
    by (metis surj_pair)
  show ?thesis using SellFroze_SellDeFroze_roundtrip [OF e _ _ d] e d by auto
qed

lemma SellConfirm_eq:
  assumes "etf \<le> m_ui64ForzeVolume (m_stk_etf_rdp_Balance u)"
    and "avl \<le> m_ui64ForzeVolume (m_stk_avl_Balance u)"
  shows "UserStockVolume_SellConfirm t u etf avl =
     (fst (FrozeVolume_Confirm (m_stkBalance u) (etf + avl)),
      (touch t u)\<lparr>
        m_stk_etf_rdp_Balance := snd (FrozeVolume_Confirm (m_stk_etf_rdp_Balance u) etf),
        m_stk_avl_Balance := snd (FrozeVolume_Confirm (m_stk_avl_Balance u) avl),
        m_stkBalance := snd (FrozeVolume_Confirm (m_stkBalance u) (etf + avl))\<rparr>)"
proof -
  have "\<not> m_ui64ForzeVolume (m_stk_etf_rdp_Balance u) < etf"
    and "\<not> m_ui64ForzeVolume (m_stk_avl_Balance u) < avl"
    using assms by (simp_all add: not_less)
  then show ?thesis
    by (simp add: UserStockVolume_SellConfirm_def Let_def FrozeVolume_Confirm_def split: if_splits)
qed

text \<open>
  C26.  A sale that needed both sources settles: confirming the reported amounts succeeds and
  takes exactly the sold shares out of the overall balance, the redeemed shares and the available
  shares, with nothing left frozen by it.
\<close>

theorem SellFroze_SellConfirm_settles:
  assumes "UserStockVolume_SellFroze t u q = (0, etf, avl, u')"
    and "m_ui64UnFrozeVolume (m_stk_etf_rdp_Balance u) < q"
    and "q \<le> m_ui64UnFrozeVolume (m_stkBalance u)"
    and "fv_wf (m_stk_etf_rdp_Balance u)" and "fv_wf (m_stk_avl_Balance u)"
    and "fv_wf (m_stkBalance u)"
    and "UserStockVolume_SellConfirm t' u' etf avl = (rc, u'')"
  shows "rc = 0 \<and>
         m_ui64ForzeVolume (m_stkBalance u'') = m_ui64ForzeVolume (m_stkBalance u) \<and>
         fv_holding (m_stkBalance u'') = fv_holding (m_stkBalance u) - unat q \<and>
         fv_holding (m_stk_etf_rdp_Balance u'') = fv_holding (m_stk_etf_rdp_Balance u) - unat etf \<and>
         fv_holding (m_stk_avl_Balance u'') = fv_holding (m_stk_avl_Balance u) - unat avl"
proof -
  note stk = SellFroze_overall [OF assms(1,2,3)]
  note am = sell.success_amounts [OF assms(1)]
  have room: "x \<le> m_ui64ForzeVolume v + x"
    if "fv_wf v" and "x \<le> m_ui64UnFrozeVolume v" for v :: FrozeVolume and x
  proof -
    have "unat (m_ui64ForzeVolume v + x) = unat (m_ui64ForzeVolume v) + unat x"
      using that unfolding fv_wf_def fv_holding_def
      by (intro unat_plus_if_lt) (simp add: word_le_nat_alt)
    then show ?thesis by (simp add: word_le_nat_alt)
  qed
  have le: "etf \<le> m_ui64UnFrozeVolume (m_stk_etf_rdp_Balance u)" using am(2) by simp
  have fr: "etf \<le> m_ui64ForzeVolume (m_stk_etf_rdp_Balance u')"
    "avl \<le> m_ui64ForzeVolume (m_stk_avl_Balance u')" "q \<le> m_ui64ForzeVolume (m_stkBalance u')"
    using room [OF assms(4) le] room [OF assms(5) am(3)] room [OF assms(6) assms(3)] am(4,5) stk
    by simp_all
  have q: "etf + avl = q" using am(1) .
  from SellConfirm_eq [OF fr(1,2), of t'] assms(7)
  have u'': "u'' = (touch t' u')\<lparr>
        m_stk_etf_rdp_Balance := snd (FrozeVolume_Confirm (m_stk_etf_rdp_Balance u') etf),
        m_stk_avl_Balance := snd (FrozeVolume_Confirm (m_stk_avl_Balance u') avl),
        m_stkBalance := snd (FrozeVolume_Confirm (m_stkBalance u') q)\<rparr>"
    and rc': "rc = fst (FrozeVolume_Confirm (m_stkBalance u') q)"
    using q by auto
  obtain b where b: "FrozeVolume_Confirm (m_stkBalance u') q = (0, b)"
      "m_ui64ForzeVolume b = m_ui64ForzeVolume (m_stkBalance u)"
    using fv.confirm_ok [OF fr(3)] stk by auto
  show ?thesis
    using FrozeVolume_Confirm_holding [OF fr(1)] FrozeVolume_Confirm_holding [OF fr(2)]
      FrozeVolume_Confirm_holding [OF fr(3)] freeze_part_holding [OF assms(4) le]
      freeze_part_holding [OF assms(5) am(3)] freeze_part_holding [OF assms(6) assms(3)]
      am(4,5) stk u'' rc' b
    by simp
qed

lemma SellFroze_SellConfirm_settles_witness:
  "\<exists>etf avl u' rc u''. UserStockVolume_SellFroze 5 sample_volume 60 = (0, etf, avl, u') \<and>
     UserStockVolume_SellConfirm 9 u' etf avl = (rc, u'') \<and> rc = 0 \<and>
     fv_holding (m_stkBalance u'') = 50"
proof -
  obtain etf avl u' where e: "UserStockVolume_SellFroze 5 sample_volume 60 = (0, etf, avl, u')"
    using SellFroze_both [of sample_volume 60 5] by simp
  obtain rc u'' where d: "UserStockVolume_SellConfirm 9 u' etf avl = (rc, u'')"
    by (metis surj_pair)
  have wf: "fv_wf (m_stk_etf_rdp_Balance sample_volume)" "fv_wf (m_stk_avl_Balance sample_volume)"
    "fv_wf (m_stkBalance sample_volume)" and h: "fv_holding (m_stkBalance sample_volume) = 110"
    by (simp_all add: fv_wf_def fv_holding_def)
  show ?thesis using SellFroze_SellConfirm_settles [OF e _ _ wf d] e d h by auto
qed

text \<open>
  A sale covered by redeemed shares alone never freezes the overall balance (the method
  returns before that), so its confirmation removes the redeemed shares and then reports -1 with
  the overall balance unchanged.
\<close>

theorem SellFroze_first_source_unconfirmable:
  assumes "UserStockVolume_SellFroze t u q = (rc, etf, avl, u')"
    and "0 < q" and "q \<le> m_ui64UnFrozeVolume (m_stk_etf_rdp_Balance u)"
    and "fv_wf (m_stk_etf_rdp_Balance u)" and "m_ui64ForzeVolume (m_stkBalance u) < q"
    and "UserStockVolume_SellConfirm t' u' etf avl = (rc', u'')"
  shows "rc = 0 \<and> rc' = -1 \<and> m_stkBalance u'' = m_stkBalance u \<and>
         fv_holding (m_stk_etf_rdp_Balance u'') = fv_holding (m_stk_etf_rdp_Balance u) - unat q"
proof -
  let ?v = "m_stk_etf_rdp_Balance u"
  from assms(1) SellFroze_first [OF assms(3), of t]
  have eqs: "rc = 0" "etf = q" "avl = 0"
    "u' = (touch t u)\<lparr>m_stk_etf_rdp_Balance := freeze_part ?v q\<rparr>" by auto
  have "unat (m_ui64ForzeVolume ?v + q) = unat (m_ui64ForzeVolume ?v) + unat q"
    using assms(3,4) unfolding fv_wf_def fv_holding_def
    by (intro unat_plus_if_lt) (simp add: word_le_nat_alt)
  then have le: "q \<le> m_ui64ForzeVolume (freeze_part ?v q)" by (simp add: word_le_nat_alt)
  have "rc' = -1 \<and> m_stkBalance u'' = m_stkBalance u \<and>
        m_stk_etf_rdp_Balance u'' = snd (FrozeVolume_Confirm (freeze_part ?v q) q)"
    using SellConfirm_eq [of etf u' avl t'] le assms(5,6) eqs fv.confirm_fail [OF assms(5)] by auto
  with FrozeVolume_Confirm_holding [OF le] freeze_part_holding [OF assms(4,3)] eqs
  show ?thesis by simp
qed

lemma SellFroze_first_source_unconfirmable_witness:
  "\<exists>etf avl u' rc' u''. UserStockVolume_SellFroze 5 sample_volume 20 = (0, etf, avl, u') \<and>
     UserStockVolume_SellConfirm 9 u' etf avl = (rc', u'') \<and> rc' = -1"
proof -
  obtain rc etf avl u' where e: "UserStockVolume_SellFroze 5 sample_volume 20 = (rc, etf, avl, u')"
    by (metis prod_cases4)
  obtain rc' u'' where d: "UserStockVolume_SellConfirm 9 u' etf avl = (rc', u'')"
    by (metis surj_pair)
  have "fv_wf (m_stk_etf_rdp_Balance sample_volume)" by (simp add: fv_wf_def fv_holding_def)
  then show ?thesis
    using SellFroze_first_source_unconfirmable [OF e _ _ _ _ d] e d by auto
qed

text \<open>
  A creation request that the purchased and available shares do not cover returns -1, but
  its rollback releases the redemption counter instead of the purchased one: the purchased shares
  stay frozen and the redemption counter gains free shares it never had.
\<close>

theorem CreationFroze_failure_misplaces:
  assumes "UserStockVolume_CreationFroze t u q = (rc, act, avl, u')"
    and "unat (m_ui64UnFrozeVolume (m_stk_act_pch_Balance u))
           + unat (m_ui64UnFrozeVolume (m_stk_avl_Balance u)) < unat q"
    and "m_ui64UnFrozeVolume (m_stk_act_pch_Balance u) \<noteq> 0"
  shows "rc = -1 \<and>
         m_ui64UnFrozeVolume (m_stk_act_pch_Balance u') = 0 \<and>
         m_ui64ForzeVolume (m_stk_act_pch_Balance u') =
           m_ui64ForzeVolume (m_stk_act_pch_Balance u) + m_ui64UnFrozeVolume (m_stk_act_pch_Balance u) \<and>
         m_ui64UnFrozeVolume (m_stk_etf_rdp_Balance u') =
           m_ui64UnFrozeVolume (m_stk_etf_rdp_Balance u) + m_ui64UnFrozeVolume (m_stk_act_pch_Balance u) \<and>
         m_ui64ForzeVolume (m_stk_etf_rdp_Balance u') =
           m_ui64ForzeVolume (m_stk_etf_rdp_Balance u) - m_ui64UnFrozeVolume (m_stk_act_pch_Balance u) \<and>
         m_stk_avl_Balance u' = m_stk_avl_Balance u \<and> m_stkBalance u' = m_stkBalance u"
  using assms(1) CreationFroze_short [OF assms(2,3), of t]
  by (auto simp: FrozeVolume_Defroze_def)

lemma CreationFroze_failure_misplaces_witness:
  "\<exists>act avl u'. UserStockVolume_CreationFroze 5 sample_volume 100 = (-1, act, avl, u') \<and>
     m_ui64ForzeVolume (m_stk_act_pch_Balance u') = 10 \<and>
     m_ui64UnFrozeVolume (m_stk_etf_rdp_Balance u') = 40"
proof -
  obtain rc act avl u' where e: "UserStockVolume_CreationFroze 5 sample_volume 100 = (rc, act, avl, u')"
    by (metis prod_cases4)
  show ?thesis using CreationFroze_failure_misplaces [OF e] e by simp
qed

text \<open>
  A creation freeze that succeeds freezes exactly the request, purchased shares first, and
  neither creates nor destroys shares in the two counters it takes from.
\<close>

theorem CreationFroze_success:
  assumes "UserStockVolume_CreationFroze t u q = (0, act, avl, u')"
    and "fv_wf (m_stk_act_pch_Balance u)" and "fv_wf (m_stk_avl_Balance u)"
  shows "act + avl = q \<and> act = min (m_ui64UnFrozeVolume (m_stk_act_pch_Balance u)) q \<and>
         fv_holding (m_stk_act_pch_Balance u') = fv_holding (m_stk_act_pch_Balance u) \<and>
         fv_holding (m_stk_avl_Balance u') = fv_holding (m_stk_avl_Balance u)"
  using creation.success_amounts [OF assms(1)] creation.success_keeps_holding [OF assms] by simp

lemma CreationFroze_success_witness:
  "\<exists>act avl u'. UserStockVolume_CreationFroze 5 sample_volume 40 = (0, act, avl, u') \<and>
     act + avl = 40 \<and> fv_holding (m_stk_avl_Balance u') = 50"
proof -
  obtain act avl u' where e: "UserStockVolume_CreationFroze 5 sample_volume 40 = (0, act, avl, u')"
    using CreationFroze_both [of sample_volume 40 5] by simp
  have wf: "fv_wf (m_stk_act_pch_Balance sample_volume)" "fv_wf (m_stk_avl_Balance sample_volume)"
    and h: "fv_holding (m_stk_avl_Balance sample_volume) = 50"
    by (simp_all add: fv_wf_def fv_holding_def)
  show ?thesis using CreationFroze_success [OF e wf] e h by auto
qed

text \<open>
  Two successive synchronisations after sales form a chain: the old values the second one
  expects in the database are the new values the first one wrote, the overall value written is
  the current holding, and \<open>stock_last_balance\<close> follows one synchronisation behind.
\<close>

theorem SellDBSyn_chain:
  assumes "UserStockVolume_SellDBSyn u = (r1, o1, u1)" and "UserStockVolume_SellDBSyn u1 = (r2, o2, u2)"
    and "fv_wf (m_stkBalance u)"
  shows "r1 = 0 \<and> r2 = 0 \<and> unat (syn_stk_update o1) = fv_holding (m_stkBalance u) \<and>
         syn_stk_origin o2 = syn_stk_update o1 \<and> syn_fst_origin o2 = syn_fst_update o1 \<and>
         syn_avl_origin o2 = syn_avl_update o1 \<and> syn_last_origin o2 = syn_stk_origin o1"
proof -
  obtain r og up b where d: "FrozeVolume_DBSyn (m_stkBalance u) = (r, og, up, b)"
    by (metis prod_cases4)
  show ?thesis
    using assms(1,2) FrozeVolume_DBSyn_update [OF assms(3) d] d
    by (auto simp: UserStockVolume_SellDBSyn_def UserStockVolume_Syn3_def FrozeVolume_DBSyn_def
        FrozeVolume_ResetSyn_def Let_def)
qed

lemma SellDBSyn_chain_witness:
  "\<exists>r1 o1 u1 r2 o2 u2. UserStockVolume_SellDBSyn sample_volume = (r1, o1, u1) \<and>
     UserStockVolume_SellDBSyn u1 = (r2, o2, u2) \<and> syn_stk_origin o2 = syn_stk_update o1"
proof -
  obtain r1 o1 u1 where a: "UserStockVolume_SellDBSyn sample_volume = (r1, o1, u1)"
    by (metis prod_cases3)
  obtain r2 o2 u2 where b: "UserStockVolume_SellDBSyn u1 = (r2, o2, u2)" by (metis prod_cases3)
  have "fv_wf (m_stkBalance sample_volume)" by (simp add: fv_wf_def fv_holding_def)
  from SellDBSyn_chain [OF a b this] a b show ?thesis by blast
qed

text \<open>\<open>IsExpired\<close> reports expiry at every instant, however recent the last access.\<close>

theorem IsExpired_always:
  "fst (UserStockVolume_IsExpired ulNow u) \<and> m_bExpire (snd (UserStockVolume_IsExpired ulNow u))"
  by (simp add: UserStockVolume_IsExpired_def Let_def)

end
