(* ===== verification/StockCacheSynHelper.thy ===== *)
theory StockCacheSynHelper
  imports UserStockVolume OrderMsg
begin

text \<open>
  The table of cached holdings \<open>g_mapUserStock\<close> and \<open>simutgw/db_oper/StockCacheSynHelper.cpp\<close>,
  which writes a holding back: each helper synchronises the counters of one cached holding and
  hands one SQL statement to the asynchronous writer.  A statement is kept as its table, its
  column assignments and its guard (every UPDATE is guarded by the old values it expects); the
  writer's queue is the list \<open>db_queue\<close>, which also receives the match records of ETF
  components and the records of new orders.  Dereferencing a holding that is not in the table is a
  null pointer access of the source: the result is then \<open>None\<close>.
\<close>

section \<open>State\<close>

datatype sql =
    SqlUpdate string "(string \<times> u64) list" string string "(string \<times> u64) list"
  | SqlInsert string string string string "u64 list"
  | RecordComponentMatch string EtfCrt_FrozeComponent
  | RecordNewOrder OrderMessage

record StockCache =
  g_mapUserStock :: "string \<rightharpoonup> (string \<rightharpoonup> UserStockVolume)"
  db_queue :: "sql list"

definition cache_find :: "StockCache \<Rightarrow> string \<Rightarrow> string \<Rightarrow> UserStockVolume option" where
  "cache_find s acc stk = (case g_mapUserStock s acc of None \<Rightarrow> None | Some m \<Rightarrow> m stk)"

definition cache_put :: "string \<Rightarrow> string \<Rightarrow> UserStockVolume \<Rightarrow> StockCache \<Rightarrow> StockCache" where
  "cache_put acc stk u s =
     s\<lparr>g_mapUserStock := (g_mapUserStock s)(acc \<mapsto>
        ((case g_mapUserStock s acc of None \<Rightarrow> Map.empty | Some m \<Rightarrow> m)(stk \<mapsto> u)))\<rparr>"

lemma cache_find_put [simp]:
  "cache_find (cache_put acc stk u s) acc' stk' =
     (if acc' = acc \<and> stk' = stk then Some u else cache_find s acc' stk')"
  by (auto simp: cache_find_def cache_put_def split: option.splits)

lemma db_queue_put [simp]: "db_queue (cache_put acc stk u s) = db_queue s"
  by (simp add: cache_put_def)

text \<open>The table as a store keyed by account and security.\<close>

definition cache_look :: "StockCache \<Rightarrow> string \<times> string \<Rightarrow> UserStockVolume option" where
  "cache_look s k = cache_find s (fst k) (snd k)"

interpretation cache: keyed_store cache_look "\<lambda>k u. cache_put (fst k) (snd k) u"
  by unfold_locales (auto simp: cache_look_def prod_eq_iff)

lemma same_off_cache_put [intro]:
  "same_off cache_look (acc, stk) s s' \<Longrightarrow> same_off cache_look (acc, stk) s (cache_put acc stk u s')"
  using cache.same_off_put_trans [of "(acc, stk)" s s' u] by simp

text \<open>\<open>ExcUpdateSql\<close> enqueues the statement and returns 0.\<close>

definition ExcUpdateSql :: "sql \<Rightarrow> StockCache \<Rightarrow> int \<times> StockCache" where
  "ExcUpdateSql q s = (0, s\<lparr>db_queue := db_queue s @ [q]\<rparr>)"

lemma cache_find_Exc [simp]: "cache_find (snd (ExcUpdateSql q s)) = cache_find s"
  by (auto simp: cache_find_def ExcUpdateSql_def fun_eq_iff)

lemma same_off_Exc [intro]:
  "same_off cache_look k s s' \<Longrightarrow> same_off cache_look k s (snd (ExcUpdateSql q s'))"
  by (simp add: same_off_def cache_look_def)

lemma fst_Exc [simp]: "fst (ExcUpdateSql q s) = 0"
  by (simp add: ExcUpdateSql_def)

definition market_or_0 :: "string \<Rightarrow> string" where
  "market_or_0 stk = (if GetStockTradeMarket stk \<noteq> [] then GetStockTradeMarket stk else ''0'')"

section \<open>The helpers\<close>

definition StockCacheSynHelper_SellSyn :: "string \<Rightarrow> string \<Rightarrow> StockCache \<Rightarrow> (int \<times> StockCache) option" where
  "StockCacheSynHelper_SellSyn acc stk s =
     (case cache_find s acc stk of None \<Rightarrow> None
      | Some u \<Rightarrow> (case UserStockVolume_SellDBSyn u of (iRes, out, u') \<Rightarrow>
          let s1 = cache_put acc stk u' s in
          if iRes \<noteq> 0 then Some (-1, s1)
          else Some (ExcUpdateSql (SqlUpdate ''stock_asset''
            [(''stock_balance'', syn_stk_update out),
             (''stock_etf_redemption_balance'', syn_fst_update out),
             (''stock_available'', syn_avl_update out),
             (''stock_last_balance'', syn_stk_origin out)] acc stk
            [(''stock_balance'', syn_stk_origin out),
             (''stock_etf_redemption_balance'', syn_fst_origin out),
             (''stock_available'', syn_avl_origin out),
             (''stock_last_balance'', syn_last_origin out)]) s1)))"

definition StockCacheSynHelper_SellEtfSyn :: "string \<Rightarrow> string \<Rightarrow> StockCache \<Rightarrow> (int \<times> StockCache) option" where
  "StockCacheSynHelper_SellEtfSyn acc stk s =
     (case cache_find s acc stk of None \<Rightarrow> None
      | Some u \<Rightarrow> (case UserStockVolume_SellEtfDBSyn u of (_, out, u') \<Rightarrow>
          let s1 = cache_put acc stk u' s in
          Some (ExcUpdateSql (SqlUpdate ''stock_etf_asset''
            [(''stock_balance'', syn_stk_update out),
             (''stock_creation_balance'', syn_fst_update out),
             (''stock_available'', syn_avl_update out),
             (''stock_last_balance'', syn_stk_origin out)] acc stk
            [(''stock_balance'', syn_stk_origin out),
             (''stock_creation_balance'', syn_fst_origin out),
             (''stock_available'', syn_avl_origin out),
             (''stock_last_balance'', syn_last_origin out)]) s1)))"

text \<open>
  The four helpers that may meet a holding the database does not have yet: a stored holding is
  updated, any other is inserted, and afterwards it counts as stored.
\<close>

definition StockCacheSynHelper_AddSyn :: "string \<Rightarrow> string \<Rightarrow> StockCache \<Rightarrow> (int \<times> StockCache) option" where
  "StockCacheSynHelper_AddSyn acc stk s =
     (case cache_find s acc stk of None \<Rightarrow> None
      | Some u \<Rightarrow> (case UserStockVolume_AddActSyn u of (_, out, u') \<Rightarrow>
          let q = (if UserStockVolume_CheckStore u'
                   then SqlUpdate ''stock_asset''
                     [(''stock_balance'', syn_stk_update out),
                      (''stock_auction_purchase_balance'', syn_fst_update out),
                      (''stock_last_balance'', syn_stk_origin out)] acc stk
                     [(''stock_balance'', syn_stk_origin out),
                      (''stock_auction_purchase_balance'', syn_fst_origin out),
                      (''stock_last_balance'', syn_last_origin out)]
                   else SqlInsert ''stock_asset'' acc stk (market_or_0 stk)
                     [syn_stk_update out, syn_fst_update out, 0, 0, 0, 0, 0])
          in Some (ExcUpdateSql q (cache_put acc stk (UserStockVolume_SetStore u' True) s))))"

definition StockCacheSynHelper_AddEtfSyn :: "string \<Rightarrow> string \<Rightarrow> StockCache \<Rightarrow> (int \<times> StockCache) option" where
  "StockCacheSynHelper_AddEtfSyn acc stk s =
     (case cache_find s acc stk of None \<Rightarrow> None
      | Some u \<Rightarrow> (case UserStockVolume_AddEtfSyn u of (_, out, u') \<Rightarrow>
          let q = (if UserStockVolume_CheckStore u'
                   then SqlUpdate ''stock_etf_asset''
                     [(''stock_balance'', syn_stk_update out),
                      (''stock_auction_purchase_balance'', syn_fst_update out),
                      (''stock_last_balance'', syn_stk_origin out)] acc stk
                     [(''stock_balance'', syn_stk_origin out),
                      (''stock_auction_purchase_balance'', syn_fst_origin out),
                      (''stock_last_balance'', syn_last_origin out)]
                   else SqlInsert ''stock_etf_asset'' acc stk (market_or_0 stk)
                     [syn_stk_update out, syn_fst_update out, 0, 0, 0, 0, 0])
          in Some (ExcUpdateSql q (cache_put acc stk (UserStockVolume_SetStore u' True) s))))"

definition StockCacheSynHelper_CrtEtfSyn :: "string \<Rightarrow> string \<Rightarrow> StockCache \<Rightarrow> (int \<times> StockCache) option" where
  "StockCacheSynHelper_CrtEtfSyn acc stk s =
     (case cache_find s acc stk of None \<Rightarrow> None
      | Some u \<Rightarrow> (case UserStockVolume_CreationEtfDBSyn u of (_, out, u') \<Rightarrow>
          let q = (if UserStockVolume_CheckStore u'
                   then SqlUpdate ''stock_etf_asset''
                     [(''stock_balance'', syn_stk_update out),
                      (''stock_creation_balance'', syn_fst_update out),
                      (''stock_last_balance'', syn_stk_origin out)] acc stk
                     [(''stock_balance'', syn_stk_origin out),
                      (''stock_creation_balance'', syn_fst_origin out),
                      (''stock_last_balance'', syn_last_origin out)]
                   else SqlInsert ''stock_etf_asset'' acc stk (market_or_0 stk)
                     [syn_stk_update out, 0, 0, syn_fst_update out, 0, 0, 0])
          in Some (ExcUpdateSql q (cache_put acc stk (UserStockVolume_SetStore u' True) s))))"

definition StockCacheSynHelper_CrtComponentSyn :: "string \<Rightarrow> string \<Rightarrow> StockCache \<Rightarrow> (int \<times> StockCache) option" where
  "StockCacheSynHelper_CrtComponentSyn acc stk s =
     (case cache_find s acc stk of None \<Rightarrow> None
      | Some u \<Rightarrow> (case UserStockVolume_CreationComponentDBSyn u of (_, out, u') \<Rightarrow>
          let s1 = cache_put acc stk u' s in
          Some (ExcUpdateSql (SqlUpdate ''stock_asset''
            [(''stock_balance'', syn_stk_update out),
             (''stock_auction_purchase_balance'', syn_fst_update out),
             (''stock_available'', syn_avl_update out),
             (''stock_last_balance'', syn_stk_origin out)] acc stk
            [(''stock_balance'', syn_stk_origin out),
             (''stock_auction_purchase_balance'', syn_fst_origin out),
             (''stock_available'', syn_avl_origin out),
             (''stock_last_balance'', syn_last_origin out)]) s1)))"

definition StockCacheSynHelper_RdpEtfSyn :: "string \<Rightarrow> string \<Rightarrow> StockCache \<Rightarrow> (int \<times> StockCache) option" where
  "StockCacheSynHelper_RdpEtfSyn acc stk s =
     (case cache_find s acc stk of None \<Rightarrow> None
      | Some u \<Rightarrow> (case UserStockVolume_RdpEtfSyn u of (_, out, u') \<Rightarrow>
          let s1 = cache_put acc stk u' s in
          Some (ExcUpdateSql (SqlUpdate ''stock_etf_asset''
            [(''stock_balance'', syn_stk_update out),
             (''stock_auction_purchase_balance'', syn_fst_update out),
             (''stock_available'', syn_avl_update out),
             (''stock_last_balance'', syn_stk_origin out)] acc stk
            [(''stock_balance'', syn_stk_origin out),
             (''stock_auction_purchase_balance'', syn_fst_origin out),
             (''stock_available'', syn_avl_origin out),
             (''stock_last_balance'', syn_last_origin out)]) s1)))"

definition StockCacheSynHelper_RdpComponentSyn :: "string \<Rightarrow> string \<Rightarrow> StockCache \<Rightarrow> (int \<times> StockCache) option" where
  "StockCacheSynHelper_RdpComponentSyn acc stk s =
     (case cache_find s acc stk of None \<Rightarrow> None
      | Some u \<Rightarrow> (case UserStockVolume_AddRdpComponentSyn u of (_, out, u') \<Rightarrow>
          let q = (if UserStockVolume_CheckStore u'
                   then SqlUpdate ''stock_asset''
                     [(''stock_balance'', syn_stk_update out),
                      (''stock_etf_redemption_balance'', syn_fst_update out),
                      (''stock_last_balance'', syn_stk_origin out)] acc stk
                     [(''stock_balance'', syn_stk_origin out),
                      (''stock_etf_redemption_balance'', syn_fst_origin out),
                      (''stock_last_balance'', syn_last_origin out)]
                   else SqlInsert ''stock_asset'' acc stk (market_or_0 stk)
                     [0, 0, syn_stk_update out, syn_fst_update out, 0, 0, 0, 0])
          in Some (ExcUpdateSql q (cache_put acc stk (UserStockVolume_SetStore u' True) s))))"

section \<open>Frame and definedness\<close>

text \<open>
  Every helper is defined exactly on a cached holding, changes no other holding, and queues one
  statement; only the amounts written differ.  \<open>syn_ok\<close> names that contract.
\<close>

definition syn_ok :: "(string \<Rightarrow> string \<Rightarrow> StockCache \<Rightarrow> (int \<times> StockCache) option) \<Rightarrow> bool" where
  "syn_ok syn \<longleftrightarrow> (\<forall>acc stk s.
     (syn acc stk s = None \<longleftrightarrow> cache_find s acc stk = None) \<and>
     (\<forall>r s'. syn acc stk s = Some (r, s') \<longrightarrow> r = 0 \<and> same_off cache_look (acc, stk) s s' \<and>
        cache_find s' acc stk \<noteq> None \<and> (\<exists>q. db_queue s' = db_queue s @ [q])))"

lemma syn_okI:
  assumes "\<And>acc stk s. cache_find s acc stk = None \<Longrightarrow> syn acc stk s = None"
    and "\<And>acc stk s u. cache_find s acc stk = Some u \<Longrightarrow>
           \<exists>q u'. syn acc stk s = Some (ExcUpdateSql q (cache_put acc stk u' s))"
  shows "syn_ok syn"
  unfolding syn_ok_def
proof (intro allI conjI impI)
  fix acc stk s
  show "syn acc stk s = None \<longleftrightarrow> cache_find s acc stk = None"
    using assms(1) [of s acc stk] assms(2) [of s acc stk] by (cases "cache_find s acc stk") auto
next
  fix acc stk s r s'
  assume e: "syn acc stk s = Some (r, s')"
  with assms(1) [of s acc stk] obtain u where "cache_find s acc stk = Some u" by fastforce
  from assms(2) [OF this] e obtain q u' where x: "(r, s') = ExcUpdateSql q (cache_put acc stk u' s)"
    by auto
  have "same_off cache_look (acc, stk) s (snd (ExcUpdateSql q (cache_put acc stk u' s)))" by auto
  with x show "r = 0" and "same_off cache_look (acc, stk) s s'"
    and "cache_find s' acc stk \<noteq> None" and "\<exists>q. db_queue s' = db_queue s @ [q]"
    by (auto simp: ExcUpdateSql_def cache_find_def cache_put_def)
qed

lemma syn_okD:
  assumes "syn_ok syn" and "syn acc stk s = Some (r, s')"
  shows "r = 0" and "same_off cache_look (acc, stk) s s'" and "cache_find s' acc stk \<noteq> None"
  using assms unfolding syn_ok_def by auto

lemma syn_ok_None: "syn_ok syn \<Longrightarrow> syn acc stk s = None \<longleftrightarrow> cache_find s acc stk = None"
  by (simp add: syn_ok_def)

lemma Syn3_rc: "fst (UserStockVolume_Syn3 get put u) = 0"
  by (simp add: UserStockVolume_Syn3_def FrozeVolume_DBSyn_def FrozeVolume_ResetSyn_def Let_def)

lemma SellSyn_ok: "syn_ok StockCacheSynHelper_SellSyn"
proof (rule syn_okI)
  fix acc stk s u
  assume u: "cache_find s acc stk = Some u"
  obtain r out u' where d: "UserStockVolume_SellDBSyn u = (r, out, u')" by (metis prod_cases3)
  moreover have "r = 0" using d Syn3_rc unfolding UserStockVolume_SellDBSyn_def by (metis fst_conv)
  ultimately show "\<exists>q u'. StockCacheSynHelper_SellSyn acc stk s = Some (ExcUpdateSql q (cache_put acc stk u' s))"
    using u by (auto simp: StockCacheSynHelper_SellSyn_def Let_def)
qed (simp add: StockCacheSynHelper_SellSyn_def)

lemma SynHelpers_ok:
  "syn_ok StockCacheSynHelper_SellEtfSyn" "syn_ok StockCacheSynHelper_AddSyn"
  "syn_ok StockCacheSynHelper_AddEtfSyn" "syn_ok StockCacheSynHelper_CrtEtfSyn"
  "syn_ok StockCacheSynHelper_CrtComponentSyn" "syn_ok StockCacheSynHelper_RdpEtfSyn"
  "syn_ok StockCacheSynHelper_RdpComponentSyn"
  by (rule syn_okI;
      auto simp: StockCacheSynHelper_SellEtfSyn_def StockCacheSynHelper_AddSyn_def
        StockCacheSynHelper_AddEtfSyn_def StockCacheSynHelper_CrtEtfSyn_def
        StockCacheSynHelper_CrtComponentSyn_def StockCacheSynHelper_RdpEtfSyn_def
        StockCacheSynHelper_RdpComponentSyn_def Let_def split: prod.splits)+

end
