(* ===== verification/UserStockHelper.thy ===== *)
theory UserStockHelper
  imports StockCacheSynHelper
begin

text \<open>
  \<open>cache/UserStockHelper.cpp\<close>: freezing, releasing, confirming and adding shares of an account
  through the table of cached holdings, which is filled from the database on first use; and the
  updates of that table when an order trades or is cancelled.

  The database query behind \<open>DbUserInfoAsset::LoadUserStockFromDB\<close> is the parameter \<open>ld\<close>: the
  row of an account and security, or None when the query fails.  The argument \<open>t\<close> is the wall
  clock.  A result \<open>None\<close> is a null pointer access.  Out parameters that a failing call does not
  assign are \<open>None\<close> inside the result.
\<close>

section \<open>Looking a holding up\<close>

record UserStockInfo =
  usi_ui64stkBalance :: u64
  usi_ui64stk_act_pch_Balance :: u64
  usi_ui64stk_stp_pch_Balance :: u64
  usi_ui64stk_etf_rdp_Balance :: u64
  usi_ui64stk_crt_Balance :: u64
  usi_ui64stk_avl_Balance :: u64
  usi_ui64stk_last_Balance :: u64

type_synonym loader = "string \<Rightarrow> string \<Rightarrow> UserStockInfo option"

text \<open>\<open>std::map::insert\<close> keeps an entry that is already there.\<close>

definition cache_insert :: "string \<Rightarrow> string \<Rightarrow> UserStockVolume \<Rightarrow> StockCache \<Rightarrow> StockCache" where
  "cache_insert acc stk u s =
     (case cache_find s acc stk of None \<Rightarrow> cache_put acc stk u s | Some _ \<Rightarrow> s)"

definition LoadUserStockFromDBAndStore ::
  "loader \<Rightarrow> u64 \<Rightarrow> string \<Rightarrow> string \<Rightarrow> StockCache \<Rightarrow> int \<times> StockCache" where
  "LoadUserStockFromDBAndStore ld t acc stk s =
     (case ld acc stk of None \<Rightarrow> (-1, s)
      | Some i \<Rightarrow> (0, cache_insert acc stk
          (UserStockVolume_new t True (usi_ui64stkBalance i) (usi_ui64stk_act_pch_Balance i)
            (usi_ui64stk_stp_pch_Balance i) (usi_ui64stk_etf_rdp_Balance i)
            (usi_ui64stk_crt_Balance i) (usi_ui64stk_avl_Balance i)
            (usi_ui64stk_last_Balance i) 600) s))"

definition UserStockHelper_LookUp ::
  "loader \<Rightarrow> u64 \<Rightarrow> string \<Rightarrow> string \<Rightarrow> StockCache \<Rightarrow> int \<times> StockCache" where
  "UserStockHelper_LookUp ld t acc stk s =
     (case cache_find s acc stk of Some _ \<Rightarrow> (0, s)
      | None \<Rightarrow> LoadUserStockFromDBAndStore ld t acc stk s)"

definition UserStockHelper_DayEndCleanUp :: "StockCache \<Rightarrow> StockCache" where
  "UserStockHelper_DayEndCleanUp s = s\<lparr>g_mapUserStock := Map.empty\<rparr>"

section \<open>Operations on one holding\<close>

text \<open>
  The methods share two shapes: a freeze reports two amounts, the others only a return code.
  Both look the holding up, give -1 when it is unknown, and store the changed holding.
\<close>

definition held_freeze ::
  "(u64 \<Rightarrow> UserStockVolume \<Rightarrow> u64 \<Rightarrow> int \<times> u64 \<times> u64 \<times> UserStockVolume) \<Rightarrow>
   loader \<Rightarrow> u64 \<Rightarrow> string \<Rightarrow> string \<Rightarrow> u64 \<Rightarrow> StockCache \<Rightarrow>
   (int \<times> (u64 \<times> u64) option \<times> StockCache) option" where
  "held_freeze op ld t acc stk q s =
     (case UserStockHelper_LookUp ld t acc stk s of (iRes, s1) \<Rightarrow>
        if iRes \<noteq> 0 then Some (-1, None, s1)
        else (case cache_find s1 acc stk of None \<Rightarrow> None
              | Some u \<Rightarrow> (case op t u q of (r, x, y, u') \<Rightarrow>
                  Some (r, Some (x, y), cache_put acc stk u' s1))))"

definition held_update ::
  "(u64 \<Rightarrow> UserStockVolume \<Rightarrow> u64 \<Rightarrow> u64 \<Rightarrow> int \<times> UserStockVolume) \<Rightarrow>
   loader \<Rightarrow> u64 \<Rightarrow> string \<Rightarrow> string \<Rightarrow> u64 \<Rightarrow> u64 \<Rightarrow> StockCache \<Rightarrow> (int \<times> StockCache) option" where
  "held_update op ld t acc stk x y s =
     (case UserStockHelper_LookUp ld t acc stk s of (iRes, s1) \<Rightarrow>
        if iRes \<noteq> 0 then Some (-1, s1)
        else (case cache_find s1 acc stk of None \<Rightarrow> None
              | Some u \<Rightarrow> (case op t u x y of (r, u') \<Rightarrow> Some (r, cache_put acc stk u' s1))))"

definition UserStockHelper_SellFroze ::
  "loader \<Rightarrow> u64 \<Rightarrow> string \<Rightarrow> string \<Rightarrow> u64 \<Rightarrow> StockCache \<Rightarrow>
   (int \<times> (u64 \<times> u64) option \<times> StockCache) option" where
  "UserStockHelper_SellFroze = held_freeze UserStockVolume_SellFroze"

definition UserStockHelper_SellEtfFroze ::
  "loader \<Rightarrow> u64 \<Rightarrow> string \<Rightarrow> string \<Rightarrow> u64 \<Rightarrow> StockCache \<Rightarrow>
   (int \<times> (u64 \<times> u64) option \<times> StockCache) option" where
  "UserStockHelper_SellEtfFroze = held_freeze UserStockVolume_SellEtfFroze"

definition UserStockHelper_CreationFroze ::
  "loader \<Rightarrow> u64 \<Rightarrow> string \<Rightarrow> string \<Rightarrow> u64 \<Rightarrow> StockCache \<Rightarrow>
   (int \<times> (u64 \<times> u64) option \<times> StockCache) option" where
  "UserStockHelper_CreationFroze = held_freeze UserStockVolume_CreationFroze"

definition UserStockHelper_RedemptionFroze ::
  "loader \<Rightarrow> u64 \<Rightarrow> string \<Rightarrow> string \<Rightarrow> u64 \<Rightarrow> StockCache \<Rightarrow>
   (int \<times> (u64 \<times> u64) option \<times> StockCache) option" where
  "UserStockHelper_RedemptionFroze = held_freeze UserStockVolume_RedemptionFroze"

definition UserStockHelper_SellDeFroze ::
  "loader \<Rightarrow> u64 \<Rightarrow> string \<Rightarrow> string \<Rightarrow> u64 \<Rightarrow> u64 \<Rightarrow> StockCache \<Rightarrow> (int \<times> StockCache) option" where
  "UserStockHelper_SellDeFroze = held_update UserStockVolume_SellDeFroze"

definition UserStockHelper_SellConfirm ::
  "loader \<Rightarrow> u64 \<Rightarrow> string \<Rightarrow> string \<Rightarrow> u64 \<Rightarrow> u64 \<Rightarrow> StockCache \<Rightarrow> (int \<times> StockCache) option" where
  "UserStockHelper_SellConfirm = held_update UserStockVolume_SellConfirm"

definition UserStockHelper_SellEtfDeFroze ::
  "loader \<Rightarrow> u64 \<Rightarrow> string \<Rightarrow> string \<Rightarrow> u64 \<Rightarrow> u64 \<Rightarrow> StockCache \<Rightarrow> (int \<times> StockCache) option" where
  "UserStockHelper_SellEtfDeFroze = held_update UserStockVolume_SellEtfDeFroze"

definition UserStockHelper_SellEtfConfirm ::
  "loader \<Rightarrow> u64 \<Rightarrow> string \<Rightarrow> string \<Rightarrow> u64 \<Rightarrow> u64 \<Rightarrow> StockCache \<Rightarrow> (int \<times> StockCache) option" where
  "UserStockHelper_SellEtfConfirm = held_update UserStockVolume_SellEtfConfirm"

definition UserStockHelper_CreationDeFroze ::
  "loader \<Rightarrow> u64 \<Rightarrow> string \<Rightarrow> string \<Rightarrow> u64 \<Rightarrow> u64 \<Rightarrow> StockCache \<Rightarrow> (int \<times> StockCache) option" where
  "UserStockHelper_CreationDeFroze = held_update UserStockVolume_CreationDeFroze"

definition UserStockHelper_CreationConfirm ::
  "loader \<Rightarrow> u64 \<Rightarrow> string \<Rightarrow> string \<Rightarrow> u64 \<Rightarrow> u64 \<Rightarrow> StockCache \<Rightarrow> (int \<times> StockCache) option" where
  "UserStockHelper_CreationConfirm = held_update UserStockVolume_CreationConfirm"

definition UserStockHelper_RedemptionDeFroze ::
  "loader \<Rightarrow> u64 \<Rightarrow> string \<Rightarrow> string \<Rightarrow> u64 \<Rightarrow> u64 \<Rightarrow> StockCache \<Rightarrow> (int \<times> StockCache) option" where
  "UserStockHelper_RedemptionDeFroze = held_update UserStockVolume_RedemptionDeFroze"

definition UserStockHelper_RedemptionConfirm ::
  "loader \<Rightarrow> u64 \<Rightarrow> string \<Rightarrow> string \<Rightarrow> u64 \<Rightarrow> u64 \<Rightarrow> StockCache \<Rightarrow> (int \<times> StockCache) option" where
  "UserStockHelper_RedemptionConfirm = held_update UserStockVolume_RedemptionConfirm"

text \<open>Adding shares: a holding the database does not know is created empty and not stored.\<close>

definition held_add ::
  "(u64 \<Rightarrow> UserStockVolume \<Rightarrow> u64 \<Rightarrow> int \<times> UserStockVolume) \<Rightarrow>
   loader \<Rightarrow> u64 \<Rightarrow> string \<Rightarrow> string \<Rightarrow> u64 \<Rightarrow> StockCache \<Rightarrow> (int \<times> StockCache) option" where
  "held_add op ld t acc stk n s =
     (case UserStockHelper_LookUp ld t acc stk s of (iRes, s1) \<Rightarrow>
        let s2 = (if iRes \<noteq> 0
                  then cache_insert acc stk (UserStockVolume_new t False 0 0 0 0 0 0 0 600) s1
                  else s1)
        in (case cache_find s2 acc stk of None \<Rightarrow> None
            | Some u \<Rightarrow> (case op t u n of (r, u') \<Rightarrow> Some (r, cache_put acc stk u' s2))))"

definition UserStockHelper_AddAct ::
  "loader \<Rightarrow> u64 \<Rightarrow> string \<Rightarrow> string \<Rightarrow> u64 \<Rightarrow> StockCache \<Rightarrow> (int \<times> StockCache) option" where
  "UserStockHelper_AddAct = held_add UserStockVolume_AddAct"

definition UserStockHelper_AddCrt ::
  "loader \<Rightarrow> u64 \<Rightarrow> string \<Rightarrow> string \<Rightarrow> u64 \<Rightarrow> StockCache \<Rightarrow> (int \<times> StockCache) option" where
  "UserStockHelper_AddCrt = held_add UserStockVolume_AddCrt"

definition UserStockHelper_AddRdp ::
  "loader \<Rightarrow> u64 \<Rightarrow> string \<Rightarrow> string \<Rightarrow> u64 \<Rightarrow> StockCache \<Rightarrow> (int \<times> StockCache) option" where
  "UserStockHelper_AddRdp = held_add UserStockVolume_AddRdp"

section \<open>After a trade\<close>

definition is_sell_side :: "OrderMessage \<Rightarrow> bool" where
  "is_sell_side o1 \<longleftrightarrow> strSide o1 = STEPMSG_SIDE_SELL_S \<or> strSide o1 = STEPMSG_SIDE_SELL_2"

definition is_buy_side :: "OrderMessage \<Rightarrow> bool" where
  "is_buy_side o1 \<longleftrightarrow> strSide o1 = STEPMSG_SIDE_BUY_B \<or> strSide o1 = STEPMSG_SIDE_BUY_1"

text \<open>
  The amounts a sale takes from the frozen redeemed and the frozen available shares, and the
  order with the amounts it still has frozen.
\<close>

definition split_sell :: "OrderMessage \<Rightarrow> u64 \<times> u64 \<times> OrderMessage" where
  "split_sell o1 =
     (let c = sellCps o1; m = ui64Orderqty_matched o1 in
      if m \<le> scps_ui64Etf_rdp c + scps_ui64Avl c
      then if m \<le> scps_ui64Etf_rdp c
           then (m, 0, o1\<lparr>sellCps := c\<lparr>scps_ui64Etf_rdp := scps_ui64Etf_rdp c - m\<rparr>\<rparr>)
           else let f = scps_ui64Etf_rdp c; n = m - f in
             (f, n, o1\<lparr>sellCps := c\<lparr>scps_ui64Etf_rdp := 0, scps_ui64Avl := scps_ui64Avl c - n\<rparr>\<rparr>)
      else (scps_ui64Etf_rdp c, scps_ui64Avl c,
            o1\<lparr>sellCps := c\<lparr>scps_ui64Etf_rdp := 0, scps_ui64Avl := 0\<rparr>\<rparr>))"

text \<open>The same for an ETF sale; its last branch reads the amounts of the ordinary sale.\<close>

definition split_sell_etf :: "OrderMessage \<Rightarrow> u64 \<times> u64 \<times> OrderMessage" where
  "split_sell_etf o1 =
     (let c = sellETFCps o1; m = ui64Orderqty_matched o1 in
      if m < secps_ui64Etf_crt c + secps_ui64Avl c
      then if m < secps_ui64Etf_crt c
           then (m, 0, o1\<lparr>sellETFCps := c\<lparr>secps_ui64Etf_crt := secps_ui64Etf_crt c - m\<rparr>\<rparr>)
           else let f = secps_ui64Etf_crt c; n = m - f in
             (f, n, o1\<lparr>sellETFCps := c\<lparr>secps_ui64Etf_crt := 0, secps_ui64Avl := secps_ui64Avl c - n\<rparr>\<rparr>)
      else (scps_ui64Etf_rdp (sellCps o1), scps_ui64Avl (sellCps o1),
            o1\<lparr>sellETFCps := c\<lparr>secps_ui64Etf_crt := 0, secps_ui64Avl := 0\<rparr>\<rparr>))"

text \<open>In normal mode the result of the write-back replaces the result of the change.\<close>

definition then_syn ::
  "OrderMessage \<Rightarrow> (StockCache \<Rightarrow> (int \<times> StockCache) option) \<Rightarrow>
   (int \<times> StockCache) option \<Rightarrow> (int \<times> StockCache) option" where
  "then_syn o1 syn r =
     (case r of None \<Rightarrow> None
      | Some (iRes, s) \<Rightarrow> if iRunMode (tradePolicy o1) = NormalMode then syn s else Some (iRes, s))"

definition UserStockHelper_UpdateTrade ::
  "loader \<Rightarrow> u64 \<Rightarrow> OrderMessage \<Rightarrow> StockCache \<Rightarrow> (int \<times> OrderMessage \<times> StockCache) option" where
  "UserStockHelper_UpdateTrade ld t o1 s =
     (if \<not> bCheck_Assets (tradePolicy o1) then Some (0, o1, s)
      else
        let acc = strAccountId o1; stk = strStockID o1; m = ui64Orderqty_matched o1;
            r = (if iTrade_type o1 = a_trade \<or> iTrade_type o1 = b_trade then
                   (if is_sell_side o1 then
                      (case split_sell o1 of (f, n, o2) \<Rightarrow>
                        map_option (Pair o2) (then_syn o1 (StockCacheSynHelper_SellSyn acc stk)
                          (UserStockHelper_SellConfirm ld t acc stk f n s)))
                    else if is_buy_side o1 then
                      map_option (Pair o1) (then_syn o1 (StockCacheSynHelper_AddSyn acc stk)
                        (UserStockHelper_AddAct ld t acc stk m s))
                    else Some (o1, 0, s))
                 else if iTrade_type o1 = etf_sell then
                   (case split_sell_etf o1 of (f, n, o2) \<Rightarrow>
                      map_option (Pair o2) (then_syn o1 (StockCacheSynHelper_SellEtfSyn acc stk)
                        (UserStockHelper_SellEtfConfirm ld t acc stk f n s)))
                 else if iTrade_type o1 = etf_buy then
                   map_option (Pair o1) (then_syn o1 (StockCacheSynHelper_AddEtfSyn acc stk)
                     (UserStockHelper_AddAct ld t acc stk m s))
                 else Some (o1, 0, s))
        in (case r of None \<Rightarrow> None
            | Some (o2, iRes, s2) \<Rightarrow> Some (if iRes \<noteq> 0 then -1 else 0, o2, s2)))"

text \<open>
  ETF creation and redemption: the components in order, skipping the cash component 159900.
  The loops pass the table on and ignore return codes.
\<close>

definition RecordCompnentMatchInfo :: "OrderMessage \<Rightarrow> EtfCrt_FrozeComponent \<Rightarrow> StockCache \<Rightarrow> StockCache" where
  "RecordCompnentMatchInfo o1 c s =
     (if iRunMode (tradePolicy o1) = NormalMode
      then s\<lparr>db_queue := db_queue s @ [RecordComponentMatch (strClordid o1) c]\<rparr> else s)"

definition crt_component ::
  "loader \<Rightarrow> u64 \<Rightarrow> OrderMessage \<Rightarrow> EtfCrt_FrozeComponent \<Rightarrow> StockCache \<Rightarrow> StockCache option" where
  "crt_component ld t o1 c s =
     (if fc_strSecurityID c = ''159900'' then Some s
      else map_option (RecordCompnentMatchInfo o1 c)
        (if bCheck_Assets (tradePolicy o1) then
           map_option snd (then_syn o1 (StockCacheSynHelper_CrtComponentSyn (strAccountId o1) (fc_strSecurityID c))
             (UserStockHelper_CreationConfirm ld t (strAccountId o1) (fc_strSecurityID c)
               (fc_ui64act_pch_count c) (fc_ui64avl_count c) s))
         else Some s))"

definition rdp_component ::
  "loader \<Rightarrow> u64 \<Rightarrow> OrderMessage \<Rightarrow> EtfCrt_FrozeComponent \<Rightarrow> StockCache \<Rightarrow> StockCache option" where
  "rdp_component ld t o1 c s =
     (if fc_strSecurityID c = ''159900'' then Some s
      else map_option (RecordCompnentMatchInfo o1 c)
        (if bCheck_Assets (tradePolicy o1) then
           map_option snd (then_syn o1 (StockCacheSynHelper_RdpComponentSyn (strAccountId o1) (fc_strSecurityID c))
             (UserStockHelper_AddRdp ld t (strAccountId o1) (fc_strSecurityID c) (fc_ui64rdp_count c) s))
         else Some s))"

fun each_component ::
  "(EtfCrt_FrozeComponent \<Rightarrow> StockCache \<Rightarrow> StockCache option) \<Rightarrow>
   EtfCrt_FrozeComponent list \<Rightarrow> StockCache \<Rightarrow> StockCache option" where
  "each_component f [] s = Some s"
| "each_component f (c # cs) s = (case f c s of None \<Rightarrow> None | Some s' \<Rightarrow> each_component f cs s')"

definition UserStockHelper_UpdateETFCrtRdp ::
  "loader \<Rightarrow> u64 \<Rightarrow> OrderMessage \<Rightarrow> StockCache \<Rightarrow> (int \<times> StockCache) option" where
  "UserStockHelper_UpdateETFCrtRdp ld t o1 s =
     (if iTrade_type o1 = etf_crt then
        (case each_component (crt_component ld t o1) (vecFrozeComponent o1) s of None \<Rightarrow> None
         | Some s1 \<Rightarrow>
            if bCheck_Assets (tradePolicy o1) then
              map_option (\<lambda>(_, s2). (0, s2))
                (then_syn o1 (StockCacheSynHelper_CrtEtfSyn (strAccountId o1) (strStockID o1))
                  (UserStockHelper_AddCrt ld t (strAccountId o1) (strStockID o1)
                     (ui64Orderqty_matched o1) s1))
            else Some (0, s1))
      else if iTrade_type o1 = etf_rdp then
        (case (if bCheck_Assets (tradePolicy o1) then
                 map_option snd (then_syn o1 (StockCacheSynHelper_RdpEtfSyn (strAccountId o1) (strStockID o1))
                   (UserStockHelper_RedemptionConfirm ld t (strAccountId o1) (strStockID o1)
                      (rcps_ui64Act_pch (rdpETFCps o1)) (rcps_ui64Avl (rdpETFCps o1)) s))
               else Some s) of None \<Rightarrow> None
         | Some s1 \<Rightarrow>
            map_option (Pair 0) (each_component (rdp_component ld t o1) (vecFrozeComponent o1) s1))
      else Some (0, s))"

section \<open>After a cancellation\<close>

text \<open>\<open>UpdateCancel\<close> reads the table without looking the holding up first.\<close>

definition UserStockHelper_UpdateCancel ::
  "u64 \<Rightarrow> OrderMessage \<Rightarrow> StockCache \<Rightarrow> (int \<times> StockCache) option" where
  "UserStockHelper_UpdateCancel t o1 s =
     (if \<not> bCheck_Assets (tradePolicy o1) then Some (0, s)
      else if ui64LeavesQty o1 = 0 then Some (0, s)
      else
        let acc = strAccountId o1; stk = strStockID o1;
            release = (\<lambda>op x y. case cache_find s acc stk of None \<Rightarrow> None
              | Some u \<Rightarrow> (case op t u x y of (r, u') \<Rightarrow> Some (r, cache_put acc stk u' s)));
            r = (if iTrade_type o1 = a_trade \<or> iTrade_type o1 = b_trade then
                   (if is_sell_side o1 then
                      release UserStockVolume_SellDeFroze
                        (scps_ui64Etf_rdp (sellCps o1)) (scps_ui64Avl (sellCps o1))
                    else Some (0, s))
                 else if iTrade_type o1 = etf_sell then
                   release UserStockVolume_SellEtfDeFroze
                     (secps_ui64Etf_crt (sellETFCps o1)) (secps_ui64Avl (sellETFCps o1))
                 else Some (0, s))
        in (case r of None \<Rightarrow> None
            | Some (iRes, s2) \<Rightarrow> Some (if iRes \<noteq> 0 then -1 else 0, s2)))"

section \<open>Dispatch on market and business\<close>

definition UserStockHelper_UpdateAfterTrade ::
  "loader \<Rightarrow> u64 \<Rightarrow> OrderMessage \<Rightarrow> StockCache \<Rightarrow> (int \<times> OrderMessage \<times> StockCache) option" where
  "UserStockHelper_UpdateAfterTrade ld t o1 s =
     (if strTrade_market o1 = TRADE_MARKET_SZ then
        (if strApplID o1 = ''010'' then UserStockHelper_UpdateTrade ld t o1 s
         else if strApplID o1 = ''120''
         then map_option (\<lambda>(r, s'). (r, o1, s')) (UserStockHelper_UpdateETFCrtRdp ld t o1 s)
         else Some (0, o1, s))
      else if strTrade_market o1 = TRADE_MARKET_SH then UserStockHelper_UpdateTrade ld t o1 s
      else Some (0, o1, s))"

definition UserStockHelper_UpdateAfterCancel ::
  "u64 \<Rightarrow> OrderMessage \<Rightarrow> StockCache \<Rightarrow> (int \<times> StockCache) option" where
  "UserStockHelper_UpdateAfterCancel t o1 s =
     (if strTrade_market o1 = TRADE_MARKET_SZ then
        (if strApplID o1 = ''010'' then UserStockHelper_UpdateCancel t o1 s else Some (0, s))
      else if strTrade_market o1 = TRADE_MARKET_SH then UserStockHelper_UpdateCancel t o1 s
      else Some (0, s))"

section \<open>Lemmas\<close>

lemma same_off_cache_insert [intro]:
  "same_off cache_look (acc, stk) s s' \<Longrightarrow> same_off cache_look (acc, stk) s (cache_insert acc stk u s')"
  by (auto simp: cache_insert_def split: option.splits)

lemma cache_find_insert [simp]:
  "cache_find (cache_insert acc stk u s) acc stk =
     (case cache_find s acc stk of None \<Rightarrow> Some u | Some v \<Rightarrow> Some v)"
  by (auto simp: cache_insert_def split: option.splits)

text \<open>The holding a lookup makes available: the cached one, or the database row.\<close>

definition holding_of :: "loader \<Rightarrow> u64 \<Rightarrow> string \<Rightarrow> string \<Rightarrow> StockCache \<Rightarrow> UserStockVolume option" where
  "holding_of ld t acc stk s =
     (case cache_find s acc stk of Some u \<Rightarrow> Some u
      | None \<Rightarrow> map_option (\<lambda>i. UserStockVolume_new t True (usi_ui64stkBalance i)
            (usi_ui64stk_act_pch_Balance i) (usi_ui64stk_stp_pch_Balance i)
            (usi_ui64stk_etf_rdp_Balance i) (usi_ui64stk_crt_Balance i)
            (usi_ui64stk_avl_Balance i) (usi_ui64stk_last_Balance i) 600) (ld acc stk))"

lemma LookUp_eq:
  "\<exists>s1. UserStockHelper_LookUp ld t acc stk s = (if holding_of ld t acc stk s = None then -1 else 0, s1) \<and>
     cache_find s1 acc stk = holding_of ld t acc stk s \<and> same_off cache_look (acc, stk) s s1"
  by (auto simp: UserStockHelper_LookUp_def LoadUserStockFromDBAndStore_def holding_of_def
      split: option.splits)

lemma LookUpE:
  assumes "UserStockHelper_LookUp ld t acc stk s = (r, s1)"
  shows "r = (if holding_of ld t acc stk s = None then -1 else 0)"
    and "cache_find s1 acc stk = holding_of ld t acc stk s" and "same_off cache_look (acc, stk) s s1"
  using LookUp_eq [of ld t acc stk s] assms by auto

lemma held_update_eq:
  "\<exists>r s'. held_update op ld t acc stk x y s = Some (r, s') \<and> same_off cache_look (acc, stk) s s' \<and>
     (case holding_of ld t acc stk s of
        None \<Rightarrow> r = -1 \<and> cache_find s' acc stk = None
      | Some u \<Rightarrow> r = fst (op t u x y) \<and> cache_find s' acc stk = Some (snd (op t u x y)))"
proof -
  obtain r s1 where l: "UserStockHelper_LookUp ld t acc stk s = (r, s1)" by force
  note e = LookUpE [OF l]
  show ?thesis
    using l e by (auto simp: held_update_def split: option.splits prod.splits if_splits)
qed

lemma held_add_eq:
  "\<exists>s'. held_add op ld t acc stk n s =
       Some (fst (op t (case holding_of ld t acc stk s of
                None \<Rightarrow> UserStockVolume_new t False 0 0 0 0 0 0 0 600 | Some u \<Rightarrow> u) n), s') \<and>
     same_off cache_look (acc, stk) s s' \<and>
     cache_find s' acc stk = Some (snd (op t (case holding_of ld t acc stk s of
                None \<Rightarrow> UserStockVolume_new t False 0 0 0 0 0 0 0 600 | Some u \<Rightarrow> u) n))"
proof -
  obtain r s1 where l: "UserStockHelper_LookUp ld t acc stk s = (r, s1)" by force
  note e = LookUpE [OF l]
  show ?thesis
    using l e by (auto simp: held_add_def Let_def split: option.splits prod.splits if_splits)
qed

lemma then_syn_frame:
  assumes "syn_ok syn" and "then_syn o1 (syn acc stk) r = Some (r', s')"
    and "\<And>r0 s0. r = Some (r0, s0) \<Longrightarrow> same_off cache_look (acc, stk) s s0"
  shows "same_off cache_look (acc, stk) s s'"
proof -
  from assms(2) obtain r0 s0 where r: "r = Some (r0, s0)"
    and c: "syn acc stk s0 = Some (r', s') \<or> s0 = s'"
    by (auto simp: then_syn_def split: option.splits if_splits)
  from c show ?thesis
    using assms(3) [OF r] syn_okD(2) [OF assms(1)] same_off_trans by metis
qed

lemma then_syn_None:
  assumes "syn_ok syn" and "r = Some (r0, s0)"
  shows "then_syn o1 (syn acc stk) r = None \<longleftrightarrow>
           iRunMode (tradePolicy o1) = NormalMode \<and> cache_find s0 acc stk = None"
  using assms syn_ok_None [OF assms(1)] unfolding then_syn_def by auto

section \<open>Properties\<close>

text \<open>
  A successful lookup leaves the holding in the table (the cached one, untouched, or the
  database row), touches no other holding, and makes every later lookup a hit that asks the
  database nothing and changes nothing.
\<close>

theorem LookUp_loads_once:
  assumes "UserStockHelper_LookUp ld t acc stk s = (0, s1)"
  shows "cache_find s1 acc stk \<noteq> None \<and>
         (\<forall>u. cache_find s acc stk = Some u \<longrightarrow> s1 = s) \<and>
         same_off cache_look (acc, stk) s s1 \<and>
         UserStockHelper_LookUp ld' t' acc stk s1 = (0, s1)"
  using LookUpE [OF assms] assms
  by (auto simp: UserStockHelper_LookUp_def split: option.splits if_splits)

definition sample_loader :: loader where
  "sample_loader acc stk =
     (if acc = ''A1'' \<and> stk = ''600000''
      then Some \<lparr>usi_ui64stkBalance = 110, usi_ui64stk_act_pch_Balance = 10,
                 usi_ui64stk_stp_pch_Balance = 0, usi_ui64stk_etf_rdp_Balance = 30,
                 usi_ui64stk_crt_Balance = 20, usi_ui64stk_avl_Balance = 50,
                 usi_ui64stk_last_Balance = 0\<rparr>
      else None)"

definition empty_cache :: StockCache where
  "empty_cache = \<lparr>g_mapUserStock = Map.empty, db_queue = []\<rparr>"

lemma sample_loader_hit [simp]: "sample_loader ''A1'' ''600000'' \<noteq> None"
  by (simp add: sample_loader_def)

lemma cache_find_empty [simp]: "cache_find empty_cache acc stk = None"
  by (simp add: cache_find_def empty_cache_def)

lemma holding_of_sample [simp]:
  "holding_of sample_loader 0 ''A1'' ''600000'' empty_cache = Some sample_volume"
  by (simp add: holding_of_def sample_loader_def sample_volume_def)

lemma LookUp_loads_once_witness:
  "\<exists>s1. UserStockHelper_LookUp sample_loader 0 ''A1'' ''600000'' empty_cache = (0, s1) \<and>
     UserStockHelper_LookUp (\<lambda>_ _. None) 7 ''A1'' ''600000'' s1 = (0, s1)"
proof -
  obtain s1 where l: "UserStockHelper_LookUp sample_loader 0 ''A1'' ''600000'' empty_cache = (0, s1)"
    using LookUp_eq [of sample_loader 0 "''A1''" "''600000''" empty_cache] by auto
  show ?thesis using LookUp_loads_once [OF l] l by blast
qed

text \<open>
  Nothing is frozen or released twice when a sale trades: the two amounts taken from the
  order's frozen redeemed and available shares never exceed what was frozen, they add up to the
  matched quantity as long as the frozen shares cover it, the redeemed shares go first, and what
  is taken is exactly what leaves the order's remaining amounts.
\<close>

theorem split_sell_conserves:
  assumes "split_sell o1 = (f, n, o2)"
    and "unat (scps_ui64Etf_rdp (sellCps o1)) + unat (scps_ui64Avl (sellCps o1)) < 2 ^ 64"
  shows "f \<le> scps_ui64Etf_rdp (sellCps o1) \<and> n \<le> scps_ui64Avl (sellCps o1) \<and>
         unat f + unat n = min (unat (ui64Orderqty_matched o1))
            (unat (scps_ui64Etf_rdp (sellCps o1)) + unat (scps_ui64Avl (sellCps o1))) \<and>
         (0 < n \<longrightarrow> f = scps_ui64Etf_rdp (sellCps o1)) \<and>
         scps_ui64Etf_rdp (sellCps o2) = scps_ui64Etf_rdp (sellCps o1) - f \<and>
         scps_ui64Avl (sellCps o2) = scps_ui64Avl (sellCps o1) - n"
proof -
  let ?e = "scps_ui64Etf_rdp (sellCps o1)" and ?a = "scps_ui64Avl (sellCps o1)"
  let ?m = "ui64Orderqty_matched o1"
  have sum: "unat (?e + ?a) = unat ?e + unat ?a" using assms(2) by (intro unat_plus_if_lt) simp
  consider (first) "?m \<le> ?e + ?a" "?m \<le> ?e" | (both) "?m \<le> ?e + ?a" "?e < ?m" | (all) "?e + ?a < ?m"
    by (meson not_le_imp_less)
  then show ?thesis
  proof cases
    case first
    then show ?thesis using assms(1) by (auto simp: split_sell_def Let_def word_le_nat_alt)
  next
    case both
    then have d: "unat (?m - ?e) = unat ?m - unat ?e" and ne: "\<not> ?m \<le> ?e"
      by (auto simp: unat_minus_le not_le)
    have "f = ?e" "n = ?m - ?e" "scps_ui64Etf_rdp (sellCps o2) = 0"
      "scps_ui64Avl (sellCps o2) = ?a - (?m - ?e)"
      using both(1) ne assms(1) by (auto simp: split_sell_def Let_def)
    then show ?thesis using both d sum by (simp add: word_le_nat_alt word_less_nat_alt)
  next
    case all
    then have "\<not> ?m \<le> ?e + ?a" by (simp add: not_le)
    then have "f = ?e" "n = ?a" "scps_ui64Etf_rdp (sellCps o2) = 0" "scps_ui64Avl (sellCps o2) = 0"
      using assms(1) by (auto simp: split_sell_def Let_def)
    then show ?thesis using all sum by (simp add: word_less_nat_alt)
  qed
qed

text \<open>
  What an order does to the table when it trades stays inside its own account and
  security: every other holding is unchanged.
\<close>

theorem UpdateTrade_frame:
  assumes "UserStockHelper_UpdateTrade ld t o1 s = Some (r, o2, s')"
  shows "same_off cache_look (strAccountId o1, strStockID o1) s s'"
proof -
  let ?a = "strAccountId o1" and ?k = "strStockID o1"
  have upd: "same_off cache_look (?a, ?k) s s0"
    if "held_update op ld t ?a ?k x y s = Some (r0, s0)" for op x y r0 s0
    using held_update_eq [of op ld t ?a ?k x y s] that by auto
  have add: "same_off cache_look (?a, ?k) s s0"
    if "held_add op ld t ?a ?k n s = Some (r0, s0)" for op n r0 s0
    using held_add_eq [of op ld t ?a ?k n s] that by auto
  note fr = then_syn_frame [OF SellSyn_ok, OF _ upd] then_syn_frame [OF SynHelpers_ok(1), OF _ upd]
    then_syn_frame [OF SynHelpers_ok(2), OF _ add] then_syn_frame [OF SynHelpers_ok(3), OF _ add]
  show ?thesis
    using assms fr
    by (auto simp: UserStockHelper_UpdateTrade_def UserStockHelper_SellConfirm_def
        UserStockHelper_SellEtfConfirm_def UserStockHelper_AddAct_def Let_def
        split: if_splits option.splits prod.splits)
qed

text \<open>
  When an update after a trade hits a null pointer: exactly for a checked sale in normal
  mode whose holding is neither cached nor in the database.  The failed confirmation is noticed
  only after the write-back has dereferenced the holding.
\<close>

theorem UpdateTrade_null_iff:
  "UserStockHelper_UpdateTrade ld t o1 s = None \<longleftrightarrow>
     bCheck_Assets (tradePolicy o1) \<and> iRunMode (tradePolicy o1) = NormalMode \<and>
     ((iTrade_type o1 \<in> {a_trade, b_trade} \<and> is_sell_side o1) \<or> iTrade_type o1 = etf_sell) \<and>
     holding_of ld t (strAccountId o1) (strStockID o1) s = None"
proof -
  let ?a = "strAccountId o1" and ?k = "strStockID o1"
  have upd: "then_syn o1 (syn ?a ?k) (held_update op ld t ?a ?k x y s) = None \<longleftrightarrow>
      iRunMode (tradePolicy o1) = NormalMode \<and> holding_of ld t ?a ?k s = None"
    if ok: "syn_ok syn" for syn op x y
  proof -
    obtain r s0 where h: "held_update op ld t ?a ?k x y s = Some (r, s0)"
      "cache_find s0 ?a ?k = None \<longleftrightarrow> holding_of ld t ?a ?k s = None"
      using held_update_eq [of op ld t ?a ?k x y s] by (auto split: option.splits)
    from then_syn_None [OF ok h(1)] h show ?thesis by simp
  qed
  have add: "then_syn o1 (syn ?a ?k) (held_add op ld t ?a ?k n s) \<noteq> None"
    if ok: "syn_ok syn" for syn op n
  proof -
    obtain r s0 where h: "held_add op ld t ?a ?k n s = Some (r, s0)" "cache_find s0 ?a ?k \<noteq> None"
      using held_add_eq [of op ld t ?a ?k n s] by auto
    from then_syn_None [OF ok h(1)] h show ?thesis by simp
  qed
  have case_None: "(case r of None \<Rightarrow> None | Some (p, i, z) \<Rightarrow> Some (g i, p, z)) = None \<longleftrightarrow> r = None"
    for r :: "(OrderMessage \<times> int \<times> StockCache) option" and g :: "int \<Rightarrow> int"
    by (auto split: option.splits)
  have br: "iTrade_type o1 \<in> {a_trade, b_trade} \<Longrightarrow> iTrade_type o1 \<noteq> etf_sell" by (auto simp: TADE_TYPE_defs)
  show ?thesis
    using br
    by (auto simp: UserStockHelper_UpdateTrade_def UserStockHelper_SellConfirm_def
        UserStockHelper_SellEtfConfirm_def UserStockHelper_AddAct_def Let_def case_None
        case_prod_beta upd [OF SellSyn_ok] upd [OF SynHelpers_ok(1)] add [OF SynHelpers_ok(2)]
        add [OF SynHelpers_ok(3)] simp del: not_None_eq)
qed

text \<open>A sale of 60 shares in normal mode with assets checked.\<close>

definition sample_policy :: TradePolicyCell where
  "sample_policy = \<lparr>iRunMode = NormalMode, bCheck_Assets = True, iMatchMode = SimulMatchAll,
     iQuotationMatchType = AveragePrice, iPart_Match_Num = 2, strSettleGroupName = ''1'',
     mapLinkRules = [], ui64RuleId = 0, ptrRule_Sh = None, ptrRule_Sz = None\<rparr>"

definition sample_sale :: OrderMessage where
  "sample_sale = OrderMessage_new\<lparr>ui64Orderqty_origin := 60, ui64LeavesQty := 60,
     ui64mOrderPrice := 100000, ui64Orderqty_matched := 40,
     sellCps := \<lparr>scps_ui64Etf_rdp = 30, scps_ui64Avl = 30\<rparr>,
     strTrade_market := TRADE_MARKET_SH, iTrade_type := a_trade, strAccountId := ''A1'',
     strClordid := ''1'', strApplID := ''010'', strSide := STEPMSG_SIDE_SELL_2,
     strStockID := ''600000'', tradePolicy := sample_policy\<rparr>"

lemma sample_sale_sel [simp]:
  "bCheck_Assets (tradePolicy sample_sale)" "iTrade_type sample_sale = a_trade"
  "iRunMode (tradePolicy sample_sale) = NormalMode"
  "strAccountId sample_sale = ''A1''" "strStockID sample_sale = ''600000''"
  "is_sell_side sample_sale" "ui64LeavesQty sample_sale = 60" "ui64Orderqty_matched sample_sale = 40"
  "sellCps sample_sale = \<lparr>scps_ui64Etf_rdp = 30, scps_ui64Avl = 30\<rparr>"
  by (simp_all add: sample_sale_def sample_policy_def is_sell_side_def)

lemma split_sell_conserves_witness:
  "\<exists>f n o2. split_sell sample_sale = (f, n, o2) \<and> unat f + unat n = 40 \<and> scps_ui64Etf_rdp (sellCps o2) = 30 - f"
proof -
  obtain f n o2 where e: "split_sell sample_sale = (f, n, o2)" by (metis prod_cases3)
  show ?thesis using split_sell_conserves [OF e] e by simp
qed

lemma UpdateTrade_frame_witness:
  "\<exists>r o2 s'. UserStockHelper_UpdateTrade sample_loader 0 sample_sale empty_cache = Some (r, o2, s') \<and>
     same_off cache_look (''A1'', ''600000'') empty_cache s'"
proof -
  have "\<not> Option.is_none (UserStockHelper_UpdateTrade sample_loader 0 sample_sale empty_cache)"
    by code_simp
  then obtain r o2 s' where
    e: "UserStockHelper_UpdateTrade sample_loader 0 sample_sale empty_cache = Some (r, o2, s')"
    by (auto simp: Option.is_none_def)
  show ?thesis using UpdateTrade_frame [OF e] e by simp
qed

text \<open>
  A checked buy of an ordinary security always ends well: the account's holding (created
  empty when neither the table nor the database has it) gains exactly the matched shares in the
  purchased and the overall counter, and outside normal mode only those two counters and the
  access time change.
\<close>

theorem UpdateTrade_buy_adds:
  assumes "bCheck_Assets (tradePolicy o1)" and "iTrade_type o1 \<in> {a_trade, b_trade}"
    and "is_buy_side o1" and "\<not> is_sell_side o1" and "iRunMode (tradePolicy o1) \<noteq> NormalMode"
  shows "\<exists>s'. UserStockHelper_UpdateTrade ld t o1 s = Some (0, o1, s') \<and>
    (let u = (case holding_of ld t (strAccountId o1) (strStockID o1) s of
                None \<Rightarrow> UserStockVolume_new t False 0 0 0 0 0 0 0 600 | Some u \<Rightarrow> u);
         m = ui64Orderqty_matched o1
     in cache_find s' (strAccountId o1) (strStockID o1) = Some ((touch t u)\<lparr>
          m_stk_act_pch_Balance := snd (FrozeVolume_Add (m_stk_act_pch_Balance u) m),
          m_stkBalance := snd (FrozeVolume_Add (m_stkBalance u) m)\<rparr>))"
proof -
  obtain s' where h: "held_add UserStockVolume_AddAct ld t (strAccountId o1) (strStockID o1)
      (ui64Orderqty_matched o1) s = Some (0, s')"
    "cache_find s' (strAccountId o1) (strStockID o1) = Some (snd (UserStockVolume_AddAct t
        (case holding_of ld t (strAccountId o1) (strStockID o1) s of
           None \<Rightarrow> UserStockVolume_new t False 0 0 0 0 0 0 0 600 | Some u \<Rightarrow> u) (ui64Orderqty_matched o1)))"
    using held_add_eq [of UserStockVolume_AddAct ld t "strAccountId o1" "strStockID o1"
        "ui64Orderqty_matched o1" s]
    by (auto simp: UserStockVolume_AddAct_def Let_def)
  then show ?thesis
    using assms
    by (auto simp: UserStockHelper_UpdateTrade_def UserStockHelper_AddAct_def then_syn_def
        UserStockVolume_AddAct_def Let_def)
qed

definition sample_buy :: OrderMessage where
  "sample_buy = sample_sale\<lparr>strSide := STEPMSG_SIDE_BUY_1,
     tradePolicy := sample_policy\<lparr>iRunMode := MiniMode\<rparr>\<rparr>"

lemma UpdateTrade_buy_adds_witness:
  "\<exists>s' u. UserStockHelper_UpdateTrade sample_loader 0 sample_buy empty_cache = Some (0, sample_buy, s') \<and>
     cache_find s' ''A1'' ''600000'' = Some u \<and> m_ui64UnFrozeVolume (m_stk_act_pch_Balance u) = 50"
  using UpdateTrade_buy_adds [of sample_buy sample_loader 0 empty_cache]
  by (auto simp: sample_buy_def sample_sale_def sample_policy_def is_buy_side_def is_sell_side_def
      conf_msg_defs TADE_TYPE_defs FrozeVolume_Add_def)

text \<open>
  An ETF sale that fills completely is not settled: the branch for a complete fill reads
  the amounts of the ordinary sale (zero on an ETF order), so the holding keeps every created and
  available unit frozen while the order forgets that it froze them.
\<close>

theorem UpdateTrade_etf_full_fill_unsettled:
  assumes "bCheck_Assets (tradePolicy o1)" and "iTrade_type o1 = etf_sell"
    and "iRunMode (tradePolicy o1) \<noteq> NormalMode"
    and "sellCps o1 = \<lparr>scps_ui64Etf_rdp = 0, scps_ui64Avl = 0\<rparr>"
    and "ui64Orderqty_matched o1 = secps_ui64Etf_crt (sellETFCps o1) + secps_ui64Avl (sellETFCps o1)"
    and "cache_find s (strAccountId o1) (strStockID o1) = Some u"
  shows "\<exists>o2 s'. UserStockHelper_UpdateTrade ld t o1 s = Some (0, o2, s') \<and>
           sellETFCps o2 = \<lparr>secps_ui64Etf_crt = 0, secps_ui64Avl = 0\<rparr> \<and>
           cache_find s' (strAccountId o1) (strStockID o1) = Some (touch t u)"
proof -
  have spl: "split_sell_etf o1 =
      (0, 0, o1\<lparr>sellETFCps := \<lparr>secps_ui64Etf_crt = 0, secps_ui64Avl = 0\<rparr>\<rparr>)"
    using assms(4,5) by (simp add: split_sell_etf_def Let_def)
  have "UserStockVolume_SellEtfConfirm t u 0 0 = (0, touch t u)"
    by (simp add: UserStockVolume_SellEtfConfirm_def FrozeVolume_Confirm_def)
  moreover have "holding_of ld t (strAccountId o1) (strStockID o1) s = Some u"
    using assms(6) by (simp add: holding_of_def)
  ultimately obtain s' where "held_update UserStockVolume_SellEtfConfirm ld t (strAccountId o1)
      (strStockID o1) 0 0 s = Some (0, s')"
    "cache_find s' (strAccountId o1) (strStockID o1) = Some (touch t u)"
    using held_update_eq [of UserStockVolume_SellEtfConfirm ld t "strAccountId o1" "strStockID o1" 0 0 s]
    by auto
  then show ?thesis
    using assms(1-3) spl
    by (auto simp: UserStockHelper_UpdateTrade_def UserStockHelper_SellEtfConfirm_def then_syn_def
        Let_def TADE_TYPE_defs)
qed

definition sample_etf_sale :: OrderMessage where
  "sample_etf_sale = sample_sale\<lparr>iTrade_type := etf_sell,
     sellCps := \<lparr>scps_ui64Etf_rdp = 0, scps_ui64Avl = 0\<rparr>,
     sellETFCps := \<lparr>secps_ui64Etf_crt = 20, secps_ui64Avl = 20\<rparr>,
     tradePolicy := sample_policy\<lparr>iRunMode := MiniMode\<rparr>\<rparr>"

definition frozen_cache :: StockCache where
  "frozen_cache = cache_put ''A1'' ''600000''
     (snd (snd (snd (UserStockVolume_SellEtfFroze 5 sample_volume 40)))) empty_cache"

lemma UpdateTrade_etf_full_fill_unsettled_witness:
  "\<exists>o2 s' u. UserStockHelper_UpdateTrade sample_loader 9 sample_etf_sale frozen_cache = Some (0, o2, s') \<and>
     cache_find s' ''A1'' ''600000'' = Some u \<and> m_ui64ForzeVolume (m_stk_crt_Balance u) = 20"
proof -
  let ?u = "snd (snd (snd (UserStockVolume_SellEtfFroze 5 sample_volume 40)))"
  have u: "cache_find frozen_cache ''A1'' ''600000'' = Some ?u" by (simp add: frozen_cache_def)
  have z: "m_ui64ForzeVolume (m_stk_crt_Balance ?u) = 20"
    using SellEtfFroze_both [of sample_volume 40 5] by simp
  show ?thesis
    using UpdateTrade_etf_full_fill_unsettled [of sample_etf_sale frozen_cache ?u sample_loader 9] u z
    by (auto simp: sample_etf_sale_def sample_sale_def sample_policy_def)
qed

text \<open>
  C30.  Freeze and cancel end to end: after a checked sale that needed both the redeemed and the
  available shares, and fits the overall balance, was frozen through the table, cancelling the order
  with the amounts the freeze reported succeeds and gives the holding back its redeemed, available
  and overall counters; no other holding changes.  A sale that the redeemed shares cover alone is
  left out: the freeze skips the overall balance, which the cancellation releases all the same.
\<close>

theorem Froze_UpdateCancel_restores:
  assumes "UserStockHelper_SellFroze ld t (strAccountId o1) (strStockID o1) q s = Some (0, Some (etf, avl), s1)"
    and "holding_of ld t (strAccountId o1) (strStockID o1) s = Some u"
    and "m_ui64UnFrozeVolume (m_stk_etf_rdp_Balance u) < q"
    and "q \<le> m_ui64UnFrozeVolume (m_stkBalance u)"
    and "bCheck_Assets (tradePolicy o1)" and "iTrade_type o1 \<in> {a_trade, b_trade}"
    and "is_sell_side o1" and "ui64LeavesQty o1 \<noteq> 0"
    and "sellCps o1 = \<lparr>scps_ui64Etf_rdp = etf, scps_ui64Avl = avl\<rparr>"
  shows "\<exists>s2 u'. UserStockHelper_UpdateCancel t' o1 s1 = Some (0, s2) \<and>
           cache_find s2 (strAccountId o1) (strStockID o1) = Some u' \<and>
           m_stk_etf_rdp_Balance u' = m_stk_etf_rdp_Balance u \<and>
           m_stk_avl_Balance u' = m_stk_avl_Balance u \<and> m_stkBalance u' = m_stkBalance u \<and>
           same_off cache_look (strAccountId o1, strStockID o1) s s2"
proof -
  let ?a = "strAccountId o1" and ?k = "strStockID o1"
  obtain r0 s0 where l: "UserStockHelper_LookUp ld t ?a ?k s = (r0, s0)" by force
  obtain u1 where f: "UserStockVolume_SellFroze t u q = (0, etf, avl, u1)"
    and s1: "s1 = cache_put ?a ?k u1 s0"
    using assms(1,2) l LookUpE [OF l]
    by (auto simp: UserStockHelper_SellFroze_def held_freeze_def split: option.splits prod.splits if_splits)
  note am = sell.success_amounts [OF f] and all = SellFroze_overall [OF f assms(3,4)]
  let ?u2 = "snd (UserStockVolume_SellDeFroze t' u1 etf avl)"
  have c: "UserStockHelper_UpdateCancel t' o1 s1 = Some (0, cache_put ?a ?k ?u2 s1)"
    using assms(5-9) by (simp add: UserStockHelper_UpdateCancel_def s1 SellDeFroze_eq Let_def)
  have "same_off cache_look (?a, ?k) s (cache_put ?a ?k ?u2 s1)"
    using LookUpE(3) [OF l] by (auto simp: s1)
  moreover have "m_stk_etf_rdp_Balance ?u2 = m_stk_etf_rdp_Balance u \<and>
      m_stk_avl_Balance ?u2 = m_stk_avl_Balance u \<and> m_stkBalance ?u2 = m_stkBalance u"
    using am all by (simp add: SellDeFroze_eq)
  ultimately show ?thesis using c by auto
qed

lemma Froze_UpdateCancel_restores_witness:
  "\<exists>s1 s2 u'. UserStockHelper_SellFroze sample_loader 0 ''A1'' ''600000'' 60 empty_cache =
       Some (0, Some (30, 30), s1) \<and>
     UserStockHelper_UpdateCancel 9 sample_sale s1 = Some (0, s2) \<and>
     cache_find s2 ''A1'' ''600000'' = Some u' \<and> m_stk_avl_Balance u' = m_stk_avl_Balance sample_volume"
proof -
  obtain s0 where l: "UserStockHelper_LookUp sample_loader 0 ''A1'' ''600000'' empty_cache = (0, s0)"
      "cache_find s0 ''A1'' ''600000'' = Some sample_volume"
    using LookUp_eq [of sample_loader 0 "''A1''" "''600000''" empty_cache] by auto
  then obtain s1 where f: "UserStockHelper_SellFroze sample_loader 0 ''A1'' ''600000'' 60 empty_cache =
      Some (0, Some (30, 30), s1)"
    using SellFroze_both [of sample_volume 60 0] by (simp add: UserStockHelper_SellFroze_def held_freeze_def)
  show ?thesis
    using Froze_UpdateCancel_restores [of sample_loader 0 sample_sale 60 empty_cache 30 30 s1 sample_volume 9] f
    by auto
qed

text \<open>
  A cancellation after the day-end clean-up: the table is empty and \<open>UpdateCancel\<close> does not
  look the holding up, so every checked sale with an open quantity hits a null pointer.
\<close>

theorem UpdateCancel_after_cleanup_null:
  assumes "bCheck_Assets (tradePolicy o1)" and "ui64LeavesQty o1 \<noteq> 0"
    and "(iTrade_type o1 \<in> {a_trade, b_trade} \<and> is_sell_side o1) \<or> iTrade_type o1 = etf_sell"
  shows "UserStockHelper_UpdateCancel t o1 (UserStockHelper_DayEndCleanUp s) = None"
  using assms
  by (auto simp: UserStockHelper_UpdateCancel_def UserStockHelper_DayEndCleanUp_def cache_find_def
      TADE_TYPE_defs)

lemma UpdateCancel_after_cleanup_null_witness:
  "UserStockHelper_UpdateCancel 9 sample_sale (UserStockHelper_DayEndCleanUp frozen_cache) = None"
  by (rule UpdateCancel_after_cleanup_null) simp_all

end
