(* ===== verification/TaskPriorityQueue.thy ===== *)
theory TaskPriorityQueue
  imports OrderMsg "HOL-Library.Multiset"
begin

text \<open>
  The priority queue of a matching thread, \<open>thread_pool_priority/TaskPriorityQueue.cpp\<close>, and the
  assignment of tasks to threads in \<open>PriorityThread.cpp\<close> and \<open>PriorityThreadPool.h\<close>.  Every
  public method holds the queue's mutex for its whole body and is one step of the model.  A task
  is the data of \<open>TaskPriorityBase\<close>; its virtual \<open>TaskProc\<close> is not part of the queue.  Reading a
  deque past its end is the result \<open>None\<close>.
\<close>

section \<open>Tasks\<close>

datatype TaskPriority =
  Level_Standby_Order | Level_Check_Order | Level_Match_Order | Level_Cancel_Order
  | Level_unsupported int

record TaskPriorityBase =
  m_uiId :: u64
  m_iKey :: int
  m_tOrderTime :: int
  m_ui64Price :: u64
  m_strClordid :: string
  m_strSide :: string
  m_Prio :: TaskPriority
  m_bIsMatchOrdered :: bool

section \<open>Insertion into an ordered deque\<close>

text \<open>
  The two insertion routines differ only in the direction of the comparison: \<open>le\<close> is \<open>\<le>\<close> for the
  ascending routine (sales) and \<open>\<ge>\<close> for the descending one (purchases).  \<open>bin_search\<close> is the
  halving loop, which ends with the last index probed, and \<open>walk\<close> the loop that inserts.
\<close>

function bin_search ::
  "(u64 \<Rightarrow> u64 \<Rightarrow> bool) \<Rightarrow> u64 \<Rightarrow> TaskPriorityBase list \<Rightarrow> int \<Rightarrow> int \<Rightarrow> int \<Rightarrow> int" where
  "bin_search le ui64Price c iLow iHigh iMid =
     (if iLow \<le> iHigh
      then let m = (iLow + iHigh) div 2 in
           if le (m_ui64Price (c ! nat m)) ui64Price
           then bin_search le ui64Price c (m + 1) iHigh m
           else bin_search le ui64Price c iLow (m - 1) m
      else iMid)"
  by auto
termination by (relation "measure (\<lambda>(_, _, _, l, h, _). nat (h - l + 1))") auto

declare bin_search.simps [simp del]

definition insert_at :: "nat \<Rightarrow> 'a \<Rightarrow> 'a list \<Rightarrow> 'a list" where
  "insert_at n x xs = take n xs @ x # drop n xs"

function walk ::
  "(u64 \<Rightarrow> u64 \<Rightarrow> bool) \<Rightarrow> TaskPriorityBase \<Rightarrow> TaskPriorityBase list \<Rightarrow> int \<Rightarrow> TaskPriorityBase list option" where
  "walk le t c iMid =
     (if 0 \<le> iMid \<and> iMid \<le> int (length c)
      then if iMid = int (length c) then None
           else let x = c ! nat iMid in
             if m_ui64Price t = m_ui64Price x
             then if m_tOrderTime t \<le> m_tOrderTime x then Some (insert_at (nat iMid) t c)
                  else if int (length c) \<le> iMid + 1 then Some (c @ [t])
                  else walk le t c (iMid + 1)
             else if le (m_ui64Price x) (m_ui64Price t)
             then if int (length c) \<le> iMid + 1 then Some (c @ [t])
                  else Some (insert_at (nat (iMid + 1)) t c)
             else if iMid \<le> 0 then Some (t # c)
             else Some (insert_at (nat iMid) t c)
      else Some c)"
  by auto
termination by (relation "measure (\<lambda>(_, _, c, m). nat (int (length c) - m))") auto

declare walk.simps [simp del]

definition Deque_Price_Time_Binary_Insert ::
  "(u64 \<Rightarrow> u64 \<Rightarrow> bool) \<Rightarrow> TaskPriorityBase list \<Rightarrow> TaskPriorityBase \<Rightarrow> TaskPriorityBase list option" where
  "Deque_Price_Time_Binary_Insert le c t =
     (if length c = 0 then Some (c @ [t])
      else walk le t c (bin_search le (m_ui64Price t) c 0 (int (length c) - 1) 0))"

definition Deque_Price_Time_Binary_Insert_Inc ::
  "TaskPriorityBase list \<Rightarrow> TaskPriorityBase \<Rightarrow> TaskPriorityBase list option" where
  "Deque_Price_Time_Binary_Insert_Inc = Deque_Price_Time_Binary_Insert (\<lambda>x y. x \<le> y)"

definition Deque_Price_Time_Binary_Insert_Desc ::
  "TaskPriorityBase list \<Rightarrow> TaskPriorityBase \<Rightarrow> TaskPriorityBase list option" where
  "Deque_Price_Time_Binary_Insert_Desc = Deque_Price_Time_Binary_Insert (\<lambda>x y. y \<le> x)"

text \<open>A side that is neither a purchase nor a sale is logged and handled like a purchase.\<close>

definition task_is_sell :: "TaskPriorityBase \<Rightarrow> bool" where
  "task_is_sell t \<longleftrightarrow>
     \<not> (m_strSide t = STEPMSG_SIDE_BUY_B \<or> m_strSide t = STEPMSG_SIDE_BUY_1) \<and>
     (m_strSide t = STEPMSG_SIDE_SELL_S \<or> m_strSide t = STEPMSG_SIDE_SELL_2)"

definition Deque_Insert :: "TaskPriorityBase list \<Rightarrow> TaskPriorityBase \<Rightarrow> TaskPriorityBase list option" where
  "Deque_Insert c t =
     (if m_strSide t = STEPMSG_SIDE_BUY_B \<or> m_strSide t = STEPMSG_SIDE_BUY_1
      then Deque_Price_Time_Binary_Insert_Desc c t
      else if m_strSide t = STEPMSG_SIDE_SELL_S \<or> m_strSide t = STEPMSG_SIDE_SELL_2
      then Deque_Price_Time_Binary_Insert_Inc c t
      else Deque_Price_Time_Binary_Insert_Desc c t)"

section \<open>The queue\<close>

record TaskPriorityQueue =
  m_uiTaskNums :: u64
  m_p1_que :: "TaskPriorityBase list"
  m_p2_que :: "TaskPriorityBase list"
  m_p3_order_que :: "(int, TaskPriorityBase list) omap"
  m_p3_unorder_que :: "TaskPriorityBase list"
  m_p4_que :: "TaskPriorityBase list"
  m_map_p3_order_queUnMatch :: "int \<rightharpoonup> bool"

definition TaskPriorityQueue_new :: TaskPriorityQueue where
  "TaskPriorityQueue_new = \<lparr>m_uiTaskNums = 0, m_p1_que = [], m_p2_que = [], m_p3_order_que = [],
     m_p3_unorder_que = [], m_p4_que = [], m_map_p3_order_queUnMatch = Map.empty\<rparr>"

definition MAX_QUEUE_SIZE :: u64 where "MAX_QUEUE_SIZE = 18446744073709551605"

definition push_ordered :: "TaskPriorityBase \<Rightarrow> TaskPriorityQueue \<Rightarrow> TaskPriorityQueue option" where
  "push_ordered t q =
     (case map_of (m_p3_order_que q) (m_iKey t) of
        None \<Rightarrow> Some (q\<lparr>m_p3_order_que := omap_put (m_iKey t) [t] (m_p3_order_que q)\<rparr>)
      | Some d \<Rightarrow> (case Deque_Insert d t of None \<Rightarrow> None
          | Some d' \<Rightarrow> Some (q\<lparr>m_p3_order_que := omap_put (m_iKey t) d' (m_p3_order_que q)\<rparr>)))"

text \<open>
  \<open>AddTask\<close>: return code, \<open>out_CurrentTaskNum\<close> (None where the call leaves it unassigned), queue.
\<close>

definition TaskPriorityQueue_AddTask ::
  "TaskPriorityBase option \<Rightarrow> bool \<Rightarrow> TaskPriorityQueue \<Rightarrow> (int \<times> u64 option \<times> TaskPriorityQueue) option" where
  "TaskPriorityQueue_AddTask in_ptrTask in_bIsMatchOrdered q =
     (if MAX_QUEUE_SIZE \<le> m_uiTaskNums q then Some (2, Some (m_uiTaskNums q), q)
      else case in_ptrTask of None \<Rightarrow> Some (-1, None, q)
      | Some t \<Rightarrow>
         let counted = map_option (\<lambda>q'. (0, Some (m_uiTaskNums q' + 1), q'\<lparr>m_uiTaskNums := m_uiTaskNums q' + 1\<rparr>))
         in case m_Prio t of
              Level_Standby_Order \<Rightarrow> counted (if in_bIsMatchOrdered then push_ordered t q
                 else Some (q\<lparr>m_p1_que := m_p1_que q @ [t]\<rparr>))
            | Level_Check_Order \<Rightarrow> counted (Some (q\<lparr>m_p2_que := m_p2_que q @ [t]\<rparr>))
            | Level_Match_Order \<Rightarrow> counted (if in_bIsMatchOrdered then push_ordered t q
                 else Some (q\<lparr>m_p3_unorder_que := m_p3_unorder_que q @ [t]\<rparr>))
            | Level_Cancel_Order \<Rightarrow> counted (Some (q\<lparr>m_p4_que := m_p4_que q @ [t]\<rparr>))
            | Level_unsupported _ \<Rightarrow> Some (-1, None, q))"

text \<open>The walk of \<open>GetTask\<close> over the ordered deques: the first one that is not hung and not empty.\<close>

fun first_ready ::
  "(int \<rightharpoonup> bool) \<Rightarrow> (int, TaskPriorityBase list) omap \<Rightarrow>
   (TaskPriorityBase \<times> (int, TaskPriorityBase list) omap) option" where
  "first_ready hung [] = None"
| "first_ready hung ((k, d) # m) =
     (let rest = map_option (\<lambda>(t, m'). (t, (k, d) # m')) (first_ready hung m) in
      if hung k = None
      then case d of [] \<Rightarrow> rest | t # d' \<Rightarrow> Some (t, (k, d') # m)
      else rest)"

definition TaskPriorityQueue_GetTask ::
  "TaskPriorityQueue \<Rightarrow> int \<times> TaskPriorityBase option \<times> TaskPriorityQueue" where
  "TaskPriorityQueue_GetTask q =
     (let (out, q1) =
        (if m_p4_que q \<noteq> [] then (Some (hd (m_p4_que q)), q\<lparr>m_p4_que := tl (m_p4_que q)\<rparr>)
         else if m_p3_unorder_que q \<noteq> []
         then (Some (hd (m_p3_unorder_que q)), q\<lparr>m_p3_unorder_que := tl (m_p3_unorder_que q)\<rparr>)
         else if m_p3_order_que q \<noteq> []
         then (case first_ready (m_map_p3_order_queUnMatch q) (m_p3_order_que q) of
                 None \<Rightarrow> (None, q\<lparr>m_map_p3_order_queUnMatch := Map.empty\<rparr>)
               | Some (t, m') \<Rightarrow> (Some t, q\<lparr>m_p3_order_que := m'\<rparr>))
         else (None, q));
          (out2, q2) =
        (case out of Some t \<Rightarrow> (Some t, q1)
         | None \<Rightarrow>
            if m_p2_que q1 \<noteq> [] then (Some (hd (m_p2_que q1)), q1\<lparr>m_p2_que := tl (m_p2_que q1)\<rparr>)
            else if m_p1_que q1 \<noteq> []
            then (Some (hd (m_p1_que q1)), q1\<lparr>m_p1_que := tl (m_p1_que q1)\<rparr>)
            else (None, q1))
      in case out2 of None \<Rightarrow> (1, None, q2)
         | Some t \<Rightarrow>
             if m_uiTaskNums q2 = 0 then (0, Some t, q2)
             else (0, Some t, q2\<lparr>m_uiTaskNums := m_uiTaskNums q2 - 1\<rparr>))"

text \<open>\<open>DeleteOrderByClordId\<close>: the first task of that order id and the container without it.\<close>

fun DeleteOrderByClordId ::
  "TaskPriorityBase list \<Rightarrow> string \<Rightarrow> (TaskPriorityBase \<times> TaskPriorityBase list) option" where
  "DeleteOrderByClordId [] cid = None"
| "DeleteOrderByClordId (t # ts) cid =
     (if m_strClordid t = cid then Some (t, ts)
      else map_option (\<lambda>(x, ts'). (x, t # ts')) (DeleteOrderByClordId ts cid))"

definition TaskPriorityQueue_DeleteIfHaveTask ::
  "int \<Rightarrow> string \<Rightarrow> TaskPriorityQueue \<Rightarrow> int \<times> TaskPriorityBase option \<times> TaskPriorityQueue" where
  "TaskPriorityQueue_DeleteIfHaveTask in_iKey cid q =
     (let dec = (\<lambda>t q'. (0, Some t, q'\<lparr>m_uiTaskNums := m_uiTaskNums q' - 1\<rparr>)) in
      case (case map_of (m_p3_order_que q) in_iKey of None \<Rightarrow> None
            | Some d \<Rightarrow> DeleteOrderByClordId d cid) of
        Some (t, d') \<Rightarrow> dec t (q\<lparr>m_p3_order_que := omap_put in_iKey d' (m_p3_order_que q)\<rparr>)
      | None \<Rightarrow>
      case DeleteOrderByClordId (m_p3_unorder_que q) cid of
        Some (t, l) \<Rightarrow> dec t (q\<lparr>m_p3_unorder_que := l\<rparr>)
      | None \<Rightarrow>
      case DeleteOrderByClordId (m_p2_que q) cid of
        Some (t, l) \<Rightarrow> dec t (q\<lparr>m_p2_que := l\<rparr>)
      | None \<Rightarrow>
      case DeleteOrderByClordId (m_p1_que q) cid of
        Some (t, l) \<Rightarrow> dec t (q\<lparr>m_p1_que := l\<rparr>)
      | None \<Rightarrow> (1, None, q))"

definition TaskPriorityQueue_QueueSize :: "TaskPriorityQueue \<Rightarrow> u64" where
  "TaskPriorityQueue_QueueSize q = m_uiTaskNums q"

section \<open>Threads and the pool\<close>

text \<open>
  \<open>PriorityThread::AddTask\<close>: besides the return code, whether the thread is signalled; None when
  the test reads \<open>uiCurrentTaskNum\<close> unassigned.
\<close>

definition PriorityThread_AddTask ::
  "TaskPriorityBase \<Rightarrow> TaskPriorityQueue \<Rightarrow> (int \<times> bool option \<times> TaskPriorityQueue) option" where
  "PriorityThread_AddTask t q =
     map_option (\<lambda>(iRes, num, q'). (iRes, map_option (\<lambda>n. n \<le> 2) num, q'))
       (TaskPriorityQueue_AddTask (Some t) (m_bIsMatchOrdered t) q)"

text \<open>
  The pool as the queues of its threads.  \<open>AssignTaskWithKey\<close> reduces the key modulo the number of
  threads after converting it to \<open>unsigned int\<close>; an empty pool divides by zero (None).
\<close>

definition key_thread :: "int \<Rightarrow> nat \<Rightarrow> nat" where
  "key_thread key n = unat ((word_of_int key :: u32) mod word_of_nat n)"

definition PriorityThreadPool_AssignTaskWithKey ::
  "TaskPriorityBase \<Rightarrow> TaskPriorityQueue list \<Rightarrow> (int \<times> TaskPriorityQueue list) option" where
  "PriorityThreadPool_AssignTaskWithKey t hs =
     (if hs = [] then None
      else let i = key_thread (m_iKey t) (length hs) in
        map_option (\<lambda>(iRes, _, q'). (if iRes = 0 then 0 else -1, hs[i := q']))
          (PriorityThread_AddTask t (hs ! i)))"

text \<open>The scan of \<open>AssignTaskInMini\<close>: the chosen index, None while the iterator is unassigned.\<close>

fun fewer_task :: "TaskPriorityQueue list \<Rightarrow> nat \<Rightarrow> u64 \<Rightarrow> nat option \<Rightarrow> nat option" where
  "fewer_task [] i num it = it"
| "fewer_task (q # qs) i num it =
     (if TaskPriorityQueue_QueueSize q = 0 then Some i
      else if TaskPriorityQueue_QueueSize q < num
      then fewer_task qs (i + 1) (TaskPriorityQueue_QueueSize q) (Some i)
      else fewer_task qs (i + 1) num it)"

definition PriorityThreadPool_AssignTaskInMini ::
  "TaskPriorityBase \<Rightarrow> TaskPriorityQueue list \<Rightarrow> (int \<times> TaskPriorityQueue list) option" where
  "PriorityThreadPool_AssignTaskInMini t hs =
     (case fewer_task hs 0 4294967295 None of None \<Rightarrow> None
      | Some i \<Rightarrow>
        map_option (\<lambda>(iRes, _, q'). (if iRes = 0 then 0 else -1, hs[i := q']))
          (PriorityThread_AddTask t (hs ! i)))"

section \<open>Where an order is inserted\<close>

text \<open>
  The contract of a price comparison, and what it gives the insertion: with \<open>p\<close> tasks at a price no
  worse than the new one, the new task lands at position \<open>p\<close>, or one before the last of them
  when that one has the same price and is not older.
\<close>

abbreviation price_sorted :: "(u64 \<Rightarrow> u64 \<Rightarrow> bool) \<Rightarrow> TaskPriorityBase list \<Rightarrow> bool" where
  "price_sorted le \<equiv> sorted_wrt (\<lambda>x y. le (m_ui64Price x) (m_ui64Price y))"

definition no_worse :: "(u64 \<Rightarrow> u64 \<Rightarrow> bool) \<Rightarrow> TaskPriorityBase list \<Rightarrow> u64 \<Rightarrow> nat" where
  "no_worse le c p = length (takeWhile (\<lambda>x. le (m_ui64Price x) p) c)"

lemma set_insert_at [simp]: "set (insert_at n x xs) = insert x (set xs)"
  using append_take_drop_id [of n xs] by (metis Un_insert_right insert_at_def list.simps(15) set_append)

lemma mset_insert_at [simp]: "mset (insert_at n x xs) = add_mset x (mset xs)"
  using append_take_drop_id [of n xs] by (metis insert_at_def mset.simps(2) mset_append union_mset_add_mset_right)

lemma length_insert_at [simp]: "length (insert_at n x xs) = Suc (length xs)"
  by (simp add: insert_at_def)

lemma insert_at_0: "insert_at 0 x xs = x # xs"
  by (simp add: insert_at_def)

lemma insert_at_length: "length xs \<le> n \<Longrightarrow> insert_at n x xs = xs @ [x]"
  by (simp add: insert_at_def)

lemma walk_int:
  assumes "k < length c"
  shows "walk le t c (int k) =
    (if m_ui64Price t = m_ui64Price (c ! k)
     then if m_tOrderTime t \<le> m_tOrderTime (c ! k) then Some (insert_at k t c)
          else if length c = Suc k then Some (insert_at (Suc k) t c)
          else walk le t c (int (Suc k))
     else if le (m_ui64Price (c ! k)) (m_ui64Price t) then Some (insert_at (Suc k) t c)
     else Some (insert_at k t c))"
proof -
  have eqs: "int k + 1 = int (Suc k)" "nat (int (Suc k)) = Suc k" "nat (int k) = k" "int k \<le> 0 \<longleftrightarrow> k = 0"
    "int (length c) \<le> int (Suc k) \<longleftrightarrow> length c = Suc k" "0 \<le> int k \<longleftrightarrow> True"
    "int k \<le> int (length c) \<longleftrightarrow> True" "int k = int (length c) \<longleftrightarrow> False"
    using assms by auto
  have "length c = Suc k \<Longrightarrow> c @ [t] = insert_at (Suc k) t c" by (simp add: insert_at_length)
  then show ?thesis
    unfolding walk.simps [of le t c "int k"] Let_def eqs
    by (cases "k = 0") (simp_all add: insert_at_0 del: of_nat_Suc)
qed

locale price_order =
  fixes le :: "u64 \<Rightarrow> u64 \<Rightarrow> bool"
  assumes le_refl: "le x x" and le_trans: "le x y \<Longrightarrow> le y z \<Longrightarrow> le x z"
    and le_antisym: "le x y \<Longrightarrow> le y x \<Longrightarrow> x = y" and le_total: "le x y \<or> le y x"
begin

lemma no_worse_le: "no_worse le c p \<le> length c"
  by (simp add: no_worse_def length_takeWhile_le)

lemma no_worse_nth:
  assumes "price_sorted le c" and "i < length c"
  shows "le (m_ui64Price (c ! i)) p \<longleftrightarrow> i < no_worse le c p"
proof
  assume l: "le (m_ui64Price (c ! i)) p"
  show "i < no_worse le c p"
  proof (rule ccontr)
    assume n: "\<not> i < no_worse le c p"
    then have j: "no_worse le c p < length c" using assms(2) by simp
    then have "\<not> le (m_ui64Price (c ! no_worse le c p)) p"
      unfolding no_worse_def by (rule nth_length_takeWhile)
    moreover have "le (m_ui64Price (c ! no_worse le c p)) (m_ui64Price (c ! i))"
      using n assms le_refl sorted_wrt_nth_less [OF assms(1), of "no_worse le c p" i]
      by (cases "i = no_worse le c p") auto
    ultimately show False using l le_trans by blast
  qed
next
  assume "i < no_worse le c p"
  then show "le (m_ui64Price (c ! i)) p"
    unfolding no_worse_def by (metis nth_mem set_takeWhileD takeWhile_nth)
qed

lemma bin_search_bounds:
  assumes "price_sorted le c" and "0 \<le> l" and "l \<le> int (no_worse le c p)"
    and "int (no_worse le c p) \<le> h + 1" and "h < int (length c)"
    and "l \<le> h \<or> (int (no_worse le c p) - 1 \<le> m \<and> m \<le> int (no_worse le c p) \<and> 0 \<le> m \<and> m < int (length c))"
  shows "int (no_worse le c p) - 1 \<le> bin_search le p c l h m \<and>
         bin_search le p c l h m \<le> int (no_worse le c p) \<and>
         0 \<le> bin_search le p c l h m \<and> bin_search le p c l h m < int (length c)"
  using assms
proof (induction "nat (h - l + 1)" arbitrary: l h m rule: less_induct)
  case less
  let ?n = "(l + h) div 2"
  show ?case
  proof (cases "l \<le> h")
    case True
    then have n: "l \<le> ?n" "?n \<le> h" by auto
    then have "nat ?n < length c" "0 \<le> ?n" using less.prems by linarith+
    from no_worse_nth [OF less.prems(1) this(1)] this(2)
    have iff: "le (m_ui64Price (c ! nat ?n)) p \<longleftrightarrow> ?n < int (no_worse le c p)" by (simp add: nat_less_iff)
    show ?thesis
    proof (cases "le (m_ui64Price (c ! nat ?n)) p")
      case le: True
      have "bin_search le p c l h m = bin_search le p c (?n + 1) h ?n"
        using True le by (simp add: bin_search.simps [of le p c l h m] Let_def)
      moreover have "nat (h - (?n + 1) + 1) < nat (h - l + 1)" and "?n < int (no_worse le c p)"
        using n iff le by auto
      ultimately show ?thesis
        using less.hyps [of h "?n + 1" ?n] less.prems n by simp linarith
    next
      case nle: False
      have "bin_search le p c l h m = bin_search le p c l (?n - 1) ?n"
        using True nle by (simp add: bin_search.simps [of le p c l h m] Let_def)
      moreover have "nat (?n - 1 - l + 1) < nat (h - l + 1)" and "int (no_worse le c p) \<le> ?n"
        using n iff nle by auto
      ultimately show ?thesis
        using less.hyps [of "?n - 1" l ?n] less.prems n by simp linarith
    qed
  next
    case False
    then show ?thesis using less.prems by (simp add: bin_search.simps [of le p c l h m])
  qed
qed

text \<open>The insertion position.\<close>

definition ins_pos :: "TaskPriorityBase list \<Rightarrow> TaskPriorityBase \<Rightarrow> nat \<Rightarrow> bool" where
  "ins_pos c t k \<longleftrightarrow>
     k = no_worse le c (m_ui64Price t) \<or>
     (k + 1 = no_worse le c (m_ui64Price t) \<and> m_ui64Price (c ! k) = m_ui64Price t \<and>
      m_tOrderTime t \<le> m_tOrderTime (c ! k))"

lemma walk_at_bound:
  assumes "price_sorted le c" and "n = no_worse le c (m_ui64Price t)" and "n < length c"
  shows "walk le t c (int n) = Some (insert_at n t c)"
proof -
  have "\<not> le (m_ui64Price (c ! n)) (m_ui64Price t)"
    using no_worse_nth [OF assms(1,3)] assms(2) by simp
  moreover then have "m_ui64Price t \<noteq> m_ui64Price (c ! n)" using le_refl by metis
  ultimately show ?thesis
    using walk_int [OF assms(3), of le t] by simp
qed

lemma walk_inserts:
  assumes "price_sorted le c"
    and "int (no_worse le c (m_ui64Price t)) - 1 \<le> m" and "m \<le> int (no_worse le c (m_ui64Price t))"
    and "0 \<le> m" and "m < int (length c)"
  shows "\<exists>k. walk le t c m = Some (insert_at k t c) \<and> ins_pos c t k"
proof (cases "m = int (no_worse le c (m_ui64Price t))")
  case True
  then show ?thesis
    using walk_at_bound [OF assms(1) refl, of t] assms(5) by (auto simp: ins_pos_def)
next
  case False
  obtain k where k: "m = int k" using assms(4) nonneg_int_cases by blast
  with False assms have n: "no_worse le c (m_ui64Price t) = Suc k" "k < length c" by auto
  have le: "le (m_ui64Price (c ! k)) (m_ui64Price t)" using no_worse_nth [OF assms(1) n(2)] n(1) by simp
  let ?e = "m_ui64Price t = m_ui64Price (c ! k)" and ?o = "m_tOrderTime t \<le> m_tOrderTime (c ! k)"
  show ?thesis
  proof (cases "?e \<and> ?o")
    case True
    then have "walk le t c m = Some (insert_at k t c)" using walk_int [OF n(2), of le t] k by simp
    then show ?thesis using True n by (auto simp: ins_pos_def)
  next
    case no: False
    have "Suc k < length c \<Longrightarrow> walk le t c (int (Suc k)) = Some (insert_at (Suc k) t c)"
      using walk_at_bound [OF assms(1), of "Suc k" t] n by simp
    then have "walk le t c m = Some (insert_at (Suc k) t c)"
      using walk_int [OF n(2), of le t] k no le n(2) by auto
    then show ?thesis using n by (auto simp: ins_pos_def)
  qed
qed

lemma insert_position:
  assumes "price_sorted le c"
  shows "\<exists>k. Deque_Price_Time_Binary_Insert le c t = Some (insert_at k t c) \<and> ins_pos c t k"
proof (cases "c = []")
  case True
  then show ?thesis
    by (auto simp: Deque_Price_Time_Binary_Insert_def ins_pos_def no_worse_def insert_at_def)
next
  case False
  then have len: "0 < length c" by simp
  let ?m = "bin_search le (m_ui64Price t) c 0 (int (length c) - 1) 0"
  from len no_worse_le [of c "m_ui64Price t"]
  have "int (no_worse le c (m_ui64Price t)) - 1 \<le> ?m \<and> ?m \<le> int (no_worse le c (m_ui64Price t)) \<and>
        0 \<le> ?m \<and> ?m < int (length c)"
    by (intro bin_search_bounds [OF assms]) auto
  then show ?thesis
    using walk_inserts [OF assms] False by (simp add: Deque_Price_Time_Binary_Insert_def)
qed

lemma insert_sorted:
  assumes "price_sorted le c" and "ins_pos c t k"
  shows "price_sorted le (insert_at k t c)"
proof -
  let ?p = "no_worse le c (m_ui64Price t)"
  have k: "k \<le> ?p" using assms(2) by (auto simp: ins_pos_def)
  have before: "le (m_ui64Price x) (m_ui64Price t)" if "x \<in> set (take k c)" for x
  proof -
    from that obtain i where i: "i < k" "i < length c" "x = c ! i" by (auto simp: in_set_conv_nth)
    then show ?thesis using no_worse_nth [OF assms(1) i(2)] k by simp
  qed
  have after: "le (m_ui64Price t) (m_ui64Price x)" if "x \<in> set (drop k c)" for x
  proof -
    from that obtain i where i: "k \<le> i" "i < length c" "x = c ! i"
      by (auto simp: in_set_conv_nth) (metis le_add1 add.commute less_diff_conv)
    show ?thesis
    proof (cases "i < ?p")
      case True
      with i(1) assms(2) have "i = k" "m_ui64Price (c ! k) = m_ui64Price t" by (auto simp: ins_pos_def)
      then show ?thesis using i(3) le_refl by simp
    next
      case False
      then show ?thesis using no_worse_nth [OF assms(1) i(2)] i(3) le_total by metis
    qed
  qed
  have "price_sorted le (take k c)" "price_sorted le (drop k c)"
    using assms(1) by (auto intro: sorted_wrt_take sorted_wrt_drop)
  then show ?thesis
    using before after sorted_wrt_take_drop [OF assms(1), of _ k]
    unfolding insert_at_def by (simp add: sorted_wrt_append)
qed

lemma sorted_singleton: "price_sorted le [t]"
  by simp

lemma insert_total_sorted:
  assumes "price_sorted le c"
  shows "\<exists>c'. Deque_Price_Time_Binary_Insert le c t = Some c' \<and> price_sorted le c' \<and>
           mset c' = add_mset t (mset c)"
  using insert_position [OF assms, of t] insert_sorted [OF assms] by auto

text \<open>Price-time order: better price first, and among equal prices the earlier order first.\<close>

definition served_before :: "TaskPriorityBase \<Rightarrow> TaskPriorityBase \<Rightarrow> bool" where
  "served_before x y \<longleftrightarrow> le (m_ui64Price x) (m_ui64Price y) \<and>
     (m_ui64Price x = m_ui64Price y \<longrightarrow> m_tOrderTime x < m_tOrderTime y)"

lemma insert_later:
  assumes "sorted_wrt served_before c"
    and "\<forall>x\<in>set c. m_ui64Price x = m_ui64Price t \<longrightarrow> m_tOrderTime x < m_tOrderTime t"
  shows "\<exists>c'. Deque_Price_Time_Binary_Insert le c t = Some c' \<and> sorted_wrt served_before c' \<and>
           mset c' = add_mset t (mset c)"
proof -
  let ?p = "no_worse le c (m_ui64Price t)"
  have ps: "price_sorted le c"
    using assms(1) by (rule sorted_wrt_mono_rel [rotated]) (simp add: served_before_def)
  obtain k where k: "Deque_Price_Time_Binary_Insert le c t = Some (insert_at k t c)" "ins_pos c t k"
    using insert_position [OF ps] by blast
  have "k = ?p"
  proof (rule ccontr)
    assume "k \<noteq> ?p"
    then have "Suc k = ?p" "m_ui64Price (c ! k) = m_ui64Price t" "m_tOrderTime t \<le> m_tOrderTime (c ! k)"
      using k(2) by (auto simp: ins_pos_def)
    moreover from this no_worse_le [of c "m_ui64Price t"] have "c ! k \<in> set c" by simp
    ultimately show False using assms(2) by fastforce
  qed
  have s: "price_sorted le (insert_at k t c)" using insert_sorted [OF ps k(2)] .
  have gt: "m_ui64Price x \<noteq> m_ui64Price t" if "x \<in> set (drop ?p c)" for x
  proof -
    from that obtain i where i: "?p \<le> i" "i < length c" "x = c ! i"
      by (auto simp: in_set_conv_nth) (metis le_add1 add.commute less_diff_conv)
    then show ?thesis using no_worse_nth [OF ps i(2), of "m_ui64Price t"] le_refl by auto
  qed
  have "served_before x t" if "x \<in> set (take k c)" for x
    using s that assms(2)
    unfolding served_before_def insert_at_def by (auto simp: sorted_wrt_append dest: in_set_takeD)
  moreover have "served_before t x" if "x \<in> set (drop k c)" for x
    using s that gt [of x] \<open>k = ?p\<close> unfolding served_before_def insert_at_def
    by (auto simp: sorted_wrt_append)
  moreover have "sorted_wrt served_before (take k c)" "sorted_wrt served_before (drop k c)"
    using assms(1) by (auto intro: sorted_wrt_take sorted_wrt_drop)
  ultimately have "sorted_wrt served_before (insert_at k t c)"
    using sorted_wrt_take_drop [OF assms(1), of _ k] unfolding insert_at_def
    by (simp add: sorted_wrt_append)
  then show ?thesis using k(1) by auto
qed

end

interpretation inc: price_order "\<lambda>x y. x \<le> y"
  by unfold_locales auto

interpretation desc: price_order "\<lambda>x y. y \<le> x"
  by unfold_locales auto

section \<open>Invariant\<close>

text \<open>
  \<open>sd\<close> gives the side a key stands for (sale or not); keys are generated from side and security.
  A well-formed queue counts its tasks exactly, keeps every ordered deque to one key and side and
  in price order, and has no hung key.
\<close>

abbreviation side_le :: "bool \<Rightarrow> u64 \<Rightarrow> u64 \<Rightarrow> bool" where
  "side_le sale \<equiv> (if sale then (\<lambda>x y. x \<le> y) else (\<lambda>x y. y \<le> x))"

definition deque_ok :: "(int \<Rightarrow> bool) \<Rightarrow> int \<Rightarrow> TaskPriorityBase list \<Rightarrow> bool" where
  "deque_ok sd k d \<longleftrightarrow> (\<forall>t\<in>set d. m_iKey t = k \<and> task_is_sell t = sd k) \<and> price_sorted (side_le (sd k)) d"

definition queued :: "TaskPriorityQueue \<Rightarrow> TaskPriorityBase multiset" where
  "queued q = mset (m_p1_que q) + mset (m_p2_que q) + mset (m_p3_unorder_que q) + mset (m_p4_que q)
            + (\<Sum>e\<leftarrow>m_p3_order_que q. mset (snd e))"

definition queue_ok :: "(int \<Rightarrow> bool) \<Rightarrow> TaskPriorityQueue \<Rightarrow> bool" where
  "queue_ok sd q \<longleftrightarrow> omap_wf (m_p3_order_que q) \<and>
     (\<forall>e\<in>set (m_p3_order_que q). deque_ok sd (fst e) (snd e)) \<and>
     unat (m_uiTaskNums q) = size (queued q) \<and> m_map_p3_order_queUnMatch q = Map.empty"

lemma Deque_Insert_eq:
  "Deque_Insert d t = Deque_Price_Time_Binary_Insert (side_le (task_is_sell t)) d t"
  by (simp add: Deque_Insert_def task_is_sell_def Deque_Price_Time_Binary_Insert_Inc_def
      Deque_Price_Time_Binary_Insert_Desc_def)

lemma Deque_Insert_ok:
  assumes "deque_ok sd k d" and "m_iKey t = k" and "task_is_sell t = sd k"
  shows "\<exists>d'. Deque_Insert d t = Some d' \<and> deque_ok sd k d' \<and> mset d' = add_mset t (mset d)"
proof -
  from assms(1) have ps: "price_sorted (side_le (sd k)) d" by (simp add: deque_ok_def)
  obtain d' where d': "Deque_Insert d t = Some d'" "price_sorted (side_le (sd k)) d'"
    "mset d' = add_mset t (mset d)"
    using inc.insert_total_sorted [of d t] desc.insert_total_sorted [of d t] ps assms(3)
    by (auto simp: Deque_Insert_eq split: if_splits)
  have "set d' = insert t (set d)" using d'(3) by (metis set_mset_add_mset_insert set_mset_mset)
  then show ?thesis using d' assms by (auto simp: deque_ok_def)
qed

lemma push_ordered_ok:
  assumes "queue_ok sd q" and "task_is_sell t = sd (m_iKey t)"
  shows "\<exists>m'. push_ordered t q = Some (q\<lparr>m_p3_order_que := m'\<rparr>) \<and> omap_wf m' \<and>
           (\<forall>e\<in>set m'. deque_ok sd (fst e) (snd e)) \<and>
           (\<Sum>e\<leftarrow>m'. mset (snd e)) = add_mset t (\<Sum>e\<leftarrow>m_p3_order_que q. mset (snd e))"
proof -
  let ?m = "m_p3_order_que q" and ?k = "m_iKey t"
  have wf: "omap_wf ?m" and all: "\<forall>e\<in>set ?m. deque_ok sd (fst e) (snd e)"
    using assms(1) by (auto simp: queue_ok_def)
  show ?thesis
  proof (cases "map_of ?m ?k")
    case None
    have "deque_ok sd ?k [t]" using assms(2) by (simp add: deque_ok_def)
    then show ?thesis
      using None wf all sum_omap_put [OF wf, of mset ?k "[t]"]
      by (intro exI [of _ "omap_put ?k [t] ?m"]) (auto simp: push_ordered_def set_omap_put)
  next
    case (Some d)
    then have "deque_ok sd ?k d" using all map_of_SomeD by fastforce
    from Deque_Insert_ok [OF this refl assms(2)] obtain d' where
      d': "Deque_Insert d t = Some d'" "deque_ok sd ?k d'" "mset d' = add_mset t (mset d)" by blast
    then show ?thesis
      using Some wf all sum_omap_put [OF wf, of mset ?k d']
      by (intro exI [of _ "omap_put ?k d' ?m"]) (auto simp: push_ordered_def set_omap_put)
  qed
qed

lemma AddTask_ok:
  assumes "queue_ok sd q" and "task_is_sell t = sd (m_iKey t)"
  shows "\<exists>r n q'. TaskPriorityQueue_AddTask (Some t) b q = Some (r, n, q') \<and> queue_ok sd q' \<and>
     (if r = 0 then queued q' = add_mset t (queued q) \<and> n = Some (m_uiTaskNums q') else q' = q)"
proof (cases "MAX_QUEUE_SIZE \<le> m_uiTaskNums q")
  case True
  then show ?thesis using assms by (auto simp: TaskPriorityQueue_AddTask_def)
next
  case False
  then have "unat (m_uiTaskNums q) + unat (1 :: u64) < 2 ^ LENGTH(64)"
    by (simp add: MAX_QUEUE_SIZE_def word_le_nat_alt)
  then have c: "unat (m_uiTaskNums q + 1) = size (queued q) + 1"
    using unat_plus_if_lt [of "m_uiTaskNums q" 1] assms(1) by (simp add: queue_ok_def)
  obtain m' where m': "push_ordered t q = Some (q\<lparr>m_p3_order_que := m'\<rparr>)" "omap_wf m'"
    "\<forall>e\<in>set m'. deque_ok sd (fst e) (snd e)"
    "(\<Sum>e\<leftarrow>m'. mset (snd e)) = add_mset t (\<Sum>e\<leftarrow>m_p3_order_que q. mset (snd e))"
    using push_ordered_ok [OF assms] by blast
  show ?thesis
    using False assms(1) c m'
    by (cases "m_Prio t")
      (auto simp: TaskPriorityQueue_AddTask_def queue_ok_def queued_def)
qed

lemma first_ready_None:
  "first_ready Map.empty m = None \<longleftrightarrow> (\<forall>e\<in>set m. snd e = [])"
  by (induction "Map.empty :: int \<rightharpoonup> bool" m rule: first_ready.induct)
    (auto simp: Let_def split: list.splits)

lemma first_ready_Some:
  assumes "first_ready Map.empty m = Some (t, m')"
  shows "\<exists>m1 k d m2. m = m1 @ (k, t # d) # m2 \<and> m' = m1 @ (k, d) # m2 \<and> (\<forall>e\<in>set m1. snd e = [])"
  using assms
proof (induction m arbitrary: t m')
  case (Cons e m)
  obtain k d where e: "e = (k, d)" by force
  show ?case
  proof (cases d)
    case Nil
    with Cons.prems e obtain m'' where r: "first_ready Map.empty m = Some (t, m'')" "m' = (k, []) # m''"
      by (auto simp: Let_def)
    from Cons.IH [OF r(1)] obtain m1 k' d' m2 where
      "m = m1 @ (k', t # d') # m2" "m'' = m1 @ (k', d') # m2" "\<forall>e\<in>set m1. snd e = []" by blast
    then show ?thesis using e Nil r(2) by (intro exI [of _ "(k, []) # m1"]) auto
  next
    case (Cons t' d')
    then show ?thesis using Cons.prems e by (intro exI [of _ "[]"]) (auto simp: Let_def)
  qed
qed simp

text \<open>What \<open>GetTask\<close> hands out: the queue it looks in first that has a task, and its head.\<close>

inductive next_task :: "TaskPriorityQueue \<Rightarrow> TaskPriorityBase \<Rightarrow> bool" where
  cancel: "m_p4_que q = t # ts \<Longrightarrow> next_task q t"
| unordered: "m_p4_que q = [] \<Longrightarrow> m_p3_unorder_que q = t # ts \<Longrightarrow> next_task q t"
| ordered: "m_p4_que q = [] \<Longrightarrow> m_p3_unorder_que q = [] \<Longrightarrow> m_p3_order_que q = m1 @ (k, t # d) # m2 \<Longrightarrow>
    \<forall>e\<in>set m1. snd e = [] \<Longrightarrow> next_task q t"
| check: "m_p4_que q = [] \<Longrightarrow> m_p3_unorder_que q = [] \<Longrightarrow> \<forall>e\<in>set (m_p3_order_que q). snd e = [] \<Longrightarrow>
    m_p2_que q = t # ts \<Longrightarrow> next_task q t"
| standby: "m_p4_que q = [] \<Longrightarrow> m_p3_unorder_que q = [] \<Longrightarrow> \<forall>e\<in>set (m_p3_order_que q). snd e = [] \<Longrightarrow>
    m_p2_que q = [] \<Longrightarrow> m_p1_que q = t # ts \<Longrightarrow> next_task q t"

lemma deque_ok_tl: "deque_ok sd k (t # d) \<Longrightarrow> deque_ok sd k d"
  by (auto simp: deque_ok_def)

lemma size_queued_pos: "t \<in># queued q \<Longrightarrow> size (queued q) \<noteq> 0"
  by auto

text \<open>Taking a task out by either method: the count follows the contents.\<close>

lemma dec_count:
  assumes "queue_ok sd q" and "queued q = add_mset t (queued q')" and "m_uiTaskNums q' = m_uiTaskNums q"
  shows "m_uiTaskNums q \<noteq> 0" and "unat (m_uiTaskNums q' - 1) = size (queued q')"
proof -
  have u: "unat (m_uiTaskNums q) = Suc (size (queued q'))" using assms by (simp add: queue_ok_def)
  then show nz: "m_uiTaskNums q \<noteq> 0" by auto
  then have "(1 :: u64) \<le> m_uiTaskNums q" by (metis word_le_less_eq word_less_1 not_less linorder_le_less_linear)
  from unat_minus_le [OF this] u assms(3) show "unat (m_uiTaskNums q' - 1) = size (queued q')" by simp
qed

lemma GetTask_ok:
  assumes "queue_ok sd q"
  shows "\<exists>r out q'. TaskPriorityQueue_GetTask q = (r, out, q') \<and> queue_ok sd q' \<and>
     (case out of
        None \<Rightarrow> r = 1 \<and> q' = q \<and> queued q = {#}
      | Some t \<Rightarrow> r = 0 \<and> next_task q t \<and> queued q = add_mset t (queued q'))"
proof -
  have un: "m_map_p3_order_queUnMatch q = Map.empty" using assms by (simp add: queue_ok_def)
  have served: ?thesis
    if t: "next_task q t" and g: "TaskPriorityQueue_GetTask q =
        (if m_uiTaskNums q1 = 0 then (0, Some t, q1) else (0, Some t, q1\<lparr>m_uiTaskNums := m_uiTaskNums q1 - 1\<rparr>))"
      and m: "queued q = add_mset t (queued q1)" and k: "m_uiTaskNums q1 = m_uiTaskNums q"
      and w: "omap_wf (m_p3_order_que q1)" "\<forall>e\<in>set (m_p3_order_que q1). deque_ok sd (fst e) (snd e)"
      "m_map_p3_order_queUnMatch q1 = Map.empty" for t q1
  proof -
    have q: "queued (q1\<lparr>m_uiTaskNums := m_uiTaskNums q1 - 1\<rparr>) = queued q1" by (simp add: queued_def)
    show ?thesis using dec_count [OF assms m k] g t m k w q
      by (auto simp: queue_ok_def)
  qed
  have wf: "omap_wf (m_p3_order_que q)" "\<forall>e\<in>set (m_p3_order_que q). deque_ok sd (fst e) (snd e)"
    using assms by (auto simp: queue_ok_def)
  consider (p4) t ts where "m_p4_que q = t # ts"
    | (p3u) t ts where "m_p4_que q = []" "m_p3_unorder_que q = t # ts"
    | (p3) t m' where "m_p4_que q = []" "m_p3_unorder_que q = []"
        "first_ready Map.empty (m_p3_order_que q) = Some (t, m')"
    | (low) "m_p4_que q = []" "m_p3_unorder_que q = []" "first_ready Map.empty (m_p3_order_que q) = None"
    by (cases "m_p4_que q"; cases "m_p3_unorder_que q"; cases "first_ready Map.empty (m_p3_order_que q)") auto
  then show ?thesis
  proof cases
    case p4
    then show ?thesis
      by (intro served [of t "q\<lparr>m_p4_que := ts\<rparr>"])
        (use wf un in \<open>auto simp: TaskPriorityQueue_GetTask_def queued_def intro: next_task.cancel\<close>)
  next
    case p3u
    then show ?thesis
      by (intro served [of t "q\<lparr>m_p3_unorder_que := ts\<rparr>"])
        (use wf un in \<open>auto simp: TaskPriorityQueue_GetTask_def queued_def intro: next_task.unordered\<close>)
  next
    case p3
    from first_ready_Some [OF p3(3)] obtain m1 k d m2 where
      m: "m_p3_order_que q = m1 @ (k, t # d) # m2" "m' = m1 @ (k, d) # m2" "\<forall>e\<in>set m1. snd e = []" by blast
    have "omap_wf m'" using wf(1) m by (simp add: omap_wf_def)
    moreover have "\<forall>e\<in>set m'. deque_ok sd (fst e) (snd e)" using wf(2) m deque_ok_tl by auto
    moreover have "m_p3_order_que q \<noteq> []" using m by simp
    ultimately show ?thesis
      by (intro served [of t "q\<lparr>m_p3_order_que := m'\<rparr>"])
        (use p3 m un in \<open>auto simp: TaskPriorityQueue_GetTask_def queued_def intro: next_task.ordered\<close>)
  next
    case low
    then have e: "\<forall>e\<in>set (m_p3_order_que q). snd e = []" by (simp add: first_ready_None)
    have q0: "q\<lparr>m_map_p3_order_queUnMatch := Map.empty\<rparr> = q" using un by simp
    have s0: "(\<Sum>e\<leftarrow>m_p3_order_que q. mset (snd e)) = {#}"
    proof -
      have "map (\<lambda>e. mset (snd e)) (m_p3_order_que q) = map (\<lambda>_. {#}) (m_p3_order_que q)"
        using e by simp
      then show ?thesis by (simp only: sum_list_0)
    qed
    consider (p2) t ts where "m_p2_que q = t # ts" | (p1) t ts where "m_p2_que q = []" "m_p1_que q = t # ts"
      | (none) "m_p2_que q = []" "m_p1_que q = []"
      by (cases "m_p2_que q"; cases "m_p1_que q") auto
    then show ?thesis
    proof cases
      case p2
      then show ?thesis
        by (intro served [of t "q\<lparr>m_p2_que := ts\<rparr>"])
          (use wf un low e q0 in \<open>auto simp: TaskPriorityQueue_GetTask_def queued_def intro: next_task.check\<close>)
    next
      case p1
      then show ?thesis
        by (intro served [of t "q\<lparr>m_p1_que := ts\<rparr>"])
          (use wf un low e q0 in \<open>auto simp: TaskPriorityQueue_GetTask_def queued_def intro: next_task.standby\<close>)
    next
      case none
      then show ?thesis
        using low un q0 s0 assms
        by (cases q) (auto simp: TaskPriorityQueue_GetTask_def queued_def)
    qed
  qed
qed

lemma DeleteOrder_None:
  "DeleteOrderByClordId ts cid = None \<longleftrightarrow> (\<forall>t\<in>set ts. m_strClordid t \<noteq> cid)"
  by (induction ts) auto

lemma DeleteOrder_Some:
  "DeleteOrderByClordId ts cid = Some (t, ts') \<Longrightarrow>
   \<exists>a b. ts = a @ t # b \<and> ts' = a @ b \<and> m_strClordid t = cid \<and> (\<forall>x\<in>set a. m_strClordid x \<noteq> cid)"
proof (induction ts arbitrary: ts')
  case (Cons x ts)
  show ?case
  proof (cases "m_strClordid x = cid")
    case True
    then have "x # ts = [] @ t # ts \<and> ts' = [] @ ts" using Cons.prems by auto
    then show ?thesis using True by (metis empty_iff list.inject list.set(1) self_append_conv2)
  next
    case False
    with Cons.prems obtain l where l: "DeleteOrderByClordId ts cid = Some (t, l)" "ts' = x # l" by auto
    from Cons.IH [OF l(1)] obtain a b where
      "ts = a @ t # b" "l = a @ b" "m_strClordid t = cid" "\<forall>x\<in>set a. m_strClordid x \<noteq> cid" by blast
    then show ?thesis using False l(2) by (intro exI [of _ "x # a"] exI [of _ b]) auto
  qed
qed simp

lemma DeleteOrder_mset:
  assumes "DeleteOrderByClordId ts cid = Some (t, ts')"
  shows "mset ts = add_mset t (mset ts')" and "m_strClordid t = cid"
  using DeleteOrder_Some [OF assms] by auto

lemma deque_ok_delete:
  assumes "DeleteOrderByClordId d cid = Some (t, d')" and "deque_ok sd k d"
  shows "deque_ok sd k d'"
  using DeleteOrder_Some [OF assms(1)] assms(2) by (auto simp: deque_ok_def sorted_wrt_append)

lemma Delete_ok:
  assumes "queue_ok sd q"
  shows "\<exists>r out q'. TaskPriorityQueue_DeleteIfHaveTask k cid q = (r, out, q') \<and> queue_ok sd q' \<and>
     (case out of None \<Rightarrow> r = 1 \<and> q' = q
      | Some t \<Rightarrow> r = 0 \<and> m_strClordid t = cid \<and> m_p4_que q' = m_p4_que q \<and>
          queued q = add_mset t (queued q'))"
proof -
  let ?m = "m_p3_order_que q"
  have wf: "omap_wf ?m" "\<forall>e\<in>set ?m. deque_ok sd (fst e) (snd e)" "m_map_p3_order_queUnMatch q = Map.empty"
    using assms by (auto simp: queue_ok_def)
  have taken: ?thesis
    if g: "TaskPriorityQueue_DeleteIfHaveTask k cid q = (0, Some t, q1\<lparr>m_uiTaskNums := m_uiTaskNums q1 - 1\<rparr>)"
      and m: "queued q = add_mset t (queued q1)" and n: "m_uiTaskNums q1 = m_uiTaskNums q"
      and p4: "m_p4_que q1 = m_p4_que q" and c: "m_strClordid t = cid"
      and w: "omap_wf (m_p3_order_que q1)" "\<forall>e\<in>set (m_p3_order_que q1). deque_ok sd (fst e) (snd e)"
      "m_map_p3_order_queUnMatch q1 = Map.empty" for t q1
  proof -
    have "queued (q1\<lparr>m_uiTaskNums := m_uiTaskNums q1 - 1\<rparr>) = queued q1" by (simp add: queued_def)
    then show ?thesis using dec_count [OF assms m n] g m n p4 c w by (auto simp: queue_ok_def)
  qed
  define dq where "dq = (case map_of ?m k of None \<Rightarrow> None | Some d \<Rightarrow> DeleteOrderByClordId d cid)"
  consider (p3) t d' where "dq = Some (t, d')"
    | (p3u) t l where "dq = None" "DeleteOrderByClordId (m_p3_unorder_que q) cid = Some (t, l)"
    | (p2) t l where "dq = None" "DeleteOrderByClordId (m_p3_unorder_que q) cid = None"
        "DeleteOrderByClordId (m_p2_que q) cid = Some (t, l)"
    | (p1) t l where "dq = None" "DeleteOrderByClordId (m_p3_unorder_que q) cid = None"
        "DeleteOrderByClordId (m_p2_que q) cid = None" "DeleteOrderByClordId (m_p1_que q) cid = Some (t, l)"
    | (none) "dq = None" "DeleteOrderByClordId (m_p3_unorder_que q) cid = None"
        "DeleteOrderByClordId (m_p2_que q) cid = None" "DeleteOrderByClordId (m_p1_que q) cid = None"
    by (metis option.exhaust surj_pair)
  then show ?thesis
  proof cases
    case p3
    then obtain d where d: "map_of ?m k = Some d" "DeleteOrderByClordId d cid = Some (t, d')"
      unfolding dq_def by (auto split: option.splits)
    then have "deque_ok sd k d" using wf(2) map_of_SomeD by fastforce
    with d have ok: "deque_ok sd k d'" using deque_ok_delete by blast
    have "(\<Sum>e\<leftarrow>omap_put k d' ?m. mset (snd e)) + mset d = (\<Sum>e\<leftarrow>?m. mset (snd e)) + mset d'"
      using sum_omap_put [OF wf(1), of mset k d'] d(1) by simp
    then have "(\<Sum>e\<leftarrow>?m. mset (snd e)) = add_mset t (\<Sum>e\<leftarrow>omap_put k d' ?m. mset (snd e))"
      using DeleteOrder_mset [OF d(2)] by (metis add_mset_add_single add_right_cancel union_mset_add_mset_left union_mset_add_mset_right)
    then show ?thesis
      using p3 wf ok DeleteOrder_mset [OF d(2)]
      by (intro taken [of t "q\<lparr>m_p3_order_que := omap_put k d' ?m\<rparr>"])
        (auto simp: TaskPriorityQueue_DeleteIfHaveTask_def dq_def queued_def set_omap_put)
  next
    case p3u
    then show ?thesis
      using wf DeleteOrder_mset [OF p3u(2)]
      by (intro taken [of t "q\<lparr>m_p3_unorder_que := l\<rparr>"])
        (auto simp: TaskPriorityQueue_DeleteIfHaveTask_def dq_def queued_def)
  next
    case p2
    then show ?thesis
      using wf DeleteOrder_mset [OF p2(3)]
      by (intro taken [of t "q\<lparr>m_p2_que := l\<rparr>"])
        (auto simp: TaskPriorityQueue_DeleteIfHaveTask_def dq_def queued_def)
  next
    case p1
    then show ?thesis
      using wf DeleteOrder_mset [OF p1(4)]
      by (intro taken [of t "q\<lparr>m_p1_que := l\<rparr>"])
        (auto simp: TaskPriorityQueue_DeleteIfHaveTask_def dq_def queued_def)
  next
    case none
    then show ?thesis
      using assms by (auto simp: TaskPriorityQueue_DeleteIfHaveTask_def dq_def)
  qed
qed

section \<open>Runs\<close>

text \<open>
  One step of the queue: any method called by any thread, in any order.  The only assumption on
  the callers is that a task's key determines its side.
\<close>

inductive queue_step :: "(int \<Rightarrow> bool) \<Rightarrow> TaskPriorityQueue \<Rightarrow> TaskPriorityQueue \<Rightarrow> bool" for sd where
  add: "TaskPriorityQueue_AddTask (Some t) b q = Some (r, n, q') \<Longrightarrow> task_is_sell t = sd (m_iKey t) \<Longrightarrow>
    queue_step sd q q'"
| add_null: "TaskPriorityQueue_AddTask None b q = Some (r, n, q') \<Longrightarrow> queue_step sd q q'"
| get: "TaskPriorityQueue_GetTask q = (r, out, q') \<Longrightarrow> queue_step sd q q'"
| delete: "TaskPriorityQueue_DeleteIfHaveTask k cid q = (r, out, q') \<Longrightarrow> queue_step sd q q'"

inductive queue_reachable :: "(int \<Rightarrow> bool) \<Rightarrow> TaskPriorityQueue \<Rightarrow> bool" for sd where
  start: "queue_reachable sd TaskPriorityQueue_new"
| step: "queue_reachable sd q \<Longrightarrow> queue_step sd q q' \<Longrightarrow> queue_reachable sd q'"

inductive_cases queue_stepE: "queue_step sd q q'"

lemma queue_step_ok: "queue_step sd q q' \<Longrightarrow> queue_ok sd q \<Longrightarrow> queue_ok sd q'"
proof (erule queue_stepE)
  fix t b r n
  assume "queue_ok sd q" and "TaskPriorityQueue_AddTask (Some t) b q = Some (r, n, q')"
    and "task_is_sell t = sd (m_iKey t)"
  then show "queue_ok sd q'" using AddTask_ok [of sd q t b] by auto
next
  fix b r n
  assume "queue_ok sd q" and "TaskPriorityQueue_AddTask None b q = Some (r, n, q')"
  then show "queue_ok sd q'" by (auto simp: TaskPriorityQueue_AddTask_def split: if_splits)
next
  fix r out
  assume "queue_ok sd q" and "TaskPriorityQueue_GetTask q = (r, out, q')"
  then show "queue_ok sd q'" using GetTask_ok [of sd q] by auto
next
  fix k cid r out
  assume "queue_ok sd q" and "TaskPriorityQueue_DeleteIfHaveTask k cid q = (r, out, q')"
  then show "queue_ok sd q'" using Delete_ok [of sd q k cid] by auto
qed

lemma queue_new_ok: "queue_ok sd TaskPriorityQueue_new"
  by (simp add: queue_ok_def TaskPriorityQueue_new_def queued_def)

lemma queue_reachable_ok: "queue_reachable sd q \<Longrightarrow> queue_ok sd q"
  by (induction rule: queue_reachable.induct) (auto intro: queue_new_ok queue_step_ok)

section \<open>Properties\<close>

definition sample_task :: "string \<Rightarrow> u64 \<Rightarrow> int \<Rightarrow> TaskPriorityBase" where
  "sample_task cid price tm = \<lparr>m_uiId = 1, m_iKey = 10600000, m_tOrderTime = tm, m_ui64Price = price,
     m_strClordid = cid, m_strSide = STEPMSG_SIDE_BUY_1, m_Prio = Level_Match_Order, m_bIsMatchOrdered = True\<rparr>"

lemma sample_task_sel [simp]:
  "m_ui64Price (sample_task cid p tm) = p" "m_tOrderTime (sample_task cid p tm) = tm"
  "m_strClordid (sample_task cid p tm) = cid" "m_Prio (sample_task cid p tm) = Level_Match_Order"
  "m_iKey (sample_task cid p tm) = 10600000"
  "\<not> task_is_sell (sample_task cid p tm)"
  by (simp_all add: sample_task_def task_is_sell_def conf_msg_defs)

definition sample_queue :: TaskPriorityQueue where
  "sample_queue = TaskPriorityQueue_new\<lparr>m_uiTaskNums := 2,
     m_p3_order_que := [(10600000, [sample_task ''a'' 120 5, sample_task ''b'' 100 3])]\<rparr>"

lemma sample_queue_reachable: "queue_reachable (\<lambda>_. False) sample_queue"
proof -
  let ?q1 = "TaskPriorityQueue_new\<lparr>m_uiTaskNums := 1,
     m_p3_order_que := [(10600000, [sample_task ''b'' 100 3])]\<rparr>"
  have "TaskPriorityQueue_AddTask (Some (sample_task ''b'' 100 3)) True TaskPriorityQueue_new = Some (0, Some 1, ?q1)"
    by (simp add: TaskPriorityQueue_AddTask_def push_ordered_def TaskPriorityQueue_new_def MAX_QUEUE_SIZE_def
        sample_task_def)
  then have "queue_step (\<lambda>_. False) TaskPriorityQueue_new ?q1" by (rule queue_step.add) simp
  moreover have "TaskPriorityQueue_AddTask (Some (sample_task ''a'' 120 5)) True ?q1 = Some (0, Some 2, sample_queue)"
    by (simp add: TaskPriorityQueue_AddTask_def push_ordered_def TaskPriorityQueue_new_def MAX_QUEUE_SIZE_def
        sample_queue_def Deque_Insert_eq Deque_Price_Time_Binary_Insert_def bin_search.simps walk.simps
        word_le_nat_alt)
  then have "queue_step (\<lambda>_. False) ?q1 sample_queue" by (rule queue_step.add) simp
  ultimately show ?thesis by (meson queue_reachable.intros)
qed

text \<open>
  C1.  Whatever the threads do, in any order, the queue's counter is exactly the number of tasks
  it holds, every ordered deque holds the tasks of one key in price order (ascending for sales,
  descending for purchases), and no key is left hung.
\<close>

theorem queue_reachable_invariant:
  assumes "queue_reachable sd q"
  shows "unat (TaskPriorityQueue_QueueSize q) = size (queued q) \<and>
         (\<forall>k d. (k, d) \<in> set (m_p3_order_que q) \<longrightarrow> (\<forall>t\<in>set d. m_iKey t = k) \<and>
            (if sd k then sorted_wrt (\<lambda>x y. m_ui64Price x \<le> m_ui64Price y) d
             else sorted_wrt (\<lambda>x y. m_ui64Price y \<le> m_ui64Price x) d)) \<and>
         m_map_p3_order_queUnMatch q = Map.empty"
  using queue_reachable_ok [OF assms]
  by (fastforce simp: queue_ok_def deque_ok_def TaskPriorityQueue_QueueSize_def split: if_splits)

lemma queue_reachable_invariant_witness:
  "unat (TaskPriorityQueue_QueueSize sample_queue) = size (queued sample_queue)"
  using queue_reachable_invariant [OF sample_queue_reachable] by simp

text \<open>
  C34.  Adding a task to a well-formed queue never reads past the end of a deque.  It either
  queues exactly that task, counts it and reports the new count, or reports a failure and leaves
  the queue as it was.
\<close>

theorem AddTask_queues_once:
  assumes "queue_reachable sd q" and "task_is_sell t = sd (m_iKey t)"
  shows "\<exists>r n q'. TaskPriorityQueue_AddTask (Some t) b q = Some (r, n, q') \<and>
     (if r = 0 then queued q' = add_mset t (queued q) \<and> n = Some (TaskPriorityQueue_QueueSize q') \<and>
                    unat (TaskPriorityQueue_QueueSize q') = size (queued q) + 1
      else q' = q)"
  using AddTask_ok [OF queue_reachable_ok [OF assms(1)] assms(2), of b]
  by (auto simp: TaskPriorityQueue_QueueSize_def queue_ok_def split: if_splits)

lemma AddTask_queues_once_witness:
  "\<exists>r n q'. TaskPriorityQueue_AddTask (Some (sample_task ''c'' 110 9)) True sample_queue = Some (r, n, q')"
  using AddTask_queues_once [OF sample_queue_reachable, of "sample_task ''c'' 110 9" True] by auto

text \<open>
  C33.  Taking a task: the call reports no task exactly when nothing is queued; otherwise it hands
  out the first task in the order of levels (cancellations, unordered matches, the ordered deque
  of the smallest key with a task, checks, standby orders) and removes only that one.
\<close>

theorem GetTask_serves_next:
  assumes "queue_reachable sd q" and "TaskPriorityQueue_GetTask q = (r, out, q')"
  shows "(r = 1 \<longleftrightarrow> queued q = {#}) \<and>
         (queued q = {#} \<longrightarrow> out = None \<and> q' = q) \<and>
         (queued q \<noteq> {#} \<longrightarrow> r = 0 \<and> (\<exists>t. out = Some t \<and> next_task q t \<and> queued q = add_mset t (queued q') \<and>
            unat (TaskPriorityQueue_QueueSize q') = size (queued q) - 1))"
  using GetTask_ok [OF queue_reachable_ok [OF assms(1)]] assms(2)
  by (auto simp: TaskPriorityQueue_QueueSize_def queue_ok_def split: option.splits)

lemma GetTask_serves_next_witness:
  "\<exists>r out q'. TaskPriorityQueue_GetTask sample_queue = (r, out, q') \<and> r \<noteq> 1"
proof -
  obtain r out q' where g: "TaskPriorityQueue_GetTask sample_queue = (r, out, q')" by (metis prod_cases3)
  have "queued sample_queue \<noteq> {#}"
    by (simp add: sample_queue_def TaskPriorityQueue_new_def queued_def)
  then show ?thesis using GetTask_serves_next [OF sample_queue_reachable g] g by blast
qed

text \<open>
  When no cancellation and no unordered match waits, the task handed out has the best price
  of its deque: no other sale of the same key is cheaper, no other purchase bids more.
\<close>

theorem GetTask_best_price:
  assumes "queue_reachable sd q" and "m_p4_que q = []" and "m_p3_unorder_que q = []"
    and "(k, d) \<in> set (m_p3_order_que q)" and "d \<noteq> []"
    and "\<forall>(k', d') \<in> set (m_p3_order_que q). k' < k \<longrightarrow> d' = []"
  shows "\<exists>t q'. TaskPriorityQueue_GetTask q = (0, Some t, q') \<and> t \<in> set d \<and>
     (\<forall>x\<in>set d. if sd k then m_ui64Price t \<le> m_ui64Price x else m_ui64Price x \<le> m_ui64Price t)"
proof -
  note ok = queue_reachable_ok [OF assms(1)]
  have "\<not> (\<forall>e\<in>set (m_p3_order_que q). snd e = [])" using assms(4,5) by force
  then obtain t m' where f: "first_ready Map.empty (m_p3_order_que q) = Some (t, m')"
    by (metis first_ready_None option.exhaust surj_pair)
  from first_ready_Some [OF f] obtain m1 k1 d1 m2 where
    m: "m_p3_order_que q = m1 @ (k1, t # d1) # m2" "\<forall>e\<in>set m1. snd e = []" by blast
  have wf: "omap_wf (m_p3_order_que q)" and all: "\<forall>e\<in>set (m_p3_order_que q). deque_ok sd (fst e) (snd e)"
    and un: "m_map_p3_order_queUnMatch q = Map.empty"
    using ok by (auto simp: queue_ok_def)
  have kd: "(k, d) = (k1, t # d1)"
  proof -
    have "(k, d) \<notin> set m1" using m(2) assms(5) by auto
    moreover have "(k, d) \<notin> set m2"
    proof
      assume "(k, d) \<in> set m2"
      then have "k1 < k" using wf m(1) by (force simp: omap_wf_def sorted_wrt_append)
      then show False using assms(6) m(1) by auto
    qed
    ultimately show ?thesis using assms(4) m(1) by auto
  qed
  have g: "\<exists>q'. TaskPriorityQueue_GetTask q = (0, Some t, q')"
    using assms(2,3) f un m(1) by (simp add: TaskPriorityQueue_GetTask_def)
  have "deque_ok sd k (t # d1)" using all m(1) kd by auto
  then show ?thesis using g kd by (auto simp: deque_ok_def split: if_splits)
qed

lemma GetTask_best_price_witness:
  "\<exists>t q'. TaskPriorityQueue_GetTask sample_queue = (0, Some t, q') \<and> m_ui64Price t \<ge> 100"
  using GetTask_best_price [OF sample_queue_reachable, of 10600000 "[sample_task ''a'' 120 5, sample_task ''b'' 100 3]"]
  by (auto simp: sample_queue_def TaskPriorityQueue_new_def)

text \<open>The order of service the deques are meant to have: price first, then time.\<close>

definition price_time :: "bool \<Rightarrow> TaskPriorityBase \<Rightarrow> TaskPriorityBase \<Rightarrow> bool" where
  "price_time sale x y \<longleftrightarrow> side_le sale (m_ui64Price x) (m_ui64Price y) \<and>
     (m_ui64Price x = m_ui64Price y \<longrightarrow> m_tOrderTime x < m_tOrderTime y)"

lemma price_time_eq: "price_time True = inc.served_before" "price_time False = desc.served_before"
  by (auto simp: fun_eq_iff price_time_def inc.served_before_def desc.served_before_def)

text \<open>
  C31.  Price-time priority: an order that is later (in whole seconds) than every queued order of
  its price is inserted so that the deque stays in price-time order, with all queued orders kept.
\<close>

theorem Deque_Insert_price_time:
  assumes "sorted_wrt (price_time (task_is_sell t)) d"
    and "\<forall>x\<in>set d. m_ui64Price x = m_ui64Price t \<longrightarrow> m_tOrderTime x < m_tOrderTime t"
  shows "\<exists>d'. Deque_Insert d t = Some d' \<and> sorted_wrt (price_time (task_is_sell t)) d' \<and>
           mset d' = add_mset t (mset d)"
  using assms inc.insert_later [of d t] desc.insert_later [of d t]
  by (cases "task_is_sell t") (auto simp: Deque_Insert_eq price_time_eq)

lemma Deque_Insert_price_time_witness:
  "\<exists>d'. Deque_Insert [sample_task ''a'' 120 5, sample_task ''b'' 100 3] (sample_task ''c'' 120 7) = Some d' \<and>
     sorted_wrt (price_time False) d'"
  using Deque_Insert_price_time [of "sample_task ''c'' 120 7" "[sample_task ''a'' 120 5, sample_task ''b'' 100 3]"]
  by (auto simp: price_time_def)

text \<open>
  Order times are whole seconds, and within a second arrival order is not kept: an order of
  the same price and second as the only queued one is put in front of it.
\<close>

theorem Deque_Insert_same_second:
  assumes "m_ui64Price t = m_ui64Price x" and "m_tOrderTime t \<le> m_tOrderTime x"
  shows "Deque_Insert [x] t = Some [t, x]"
  using assms walk_int [of 0 "[x]" _ t]
  by (auto simp: Deque_Insert_eq Deque_Price_Time_Binary_Insert_def bin_search.simps insert_at_0)

lemma Deque_Insert_same_second_witness:
  "Deque_Insert [sample_task ''first'' 120 5] (sample_task ''second'' 120 5) =
     Some [sample_task ''second'' 120 5, sample_task ''first'' 120 5]"
  by (rule Deque_Insert_same_second) simp_all

text \<open>
  Cancelling a queued order: the call succeeds exactly when an order of that id waits in the
  deque of the key or in one of the unordered levels (waiting cancellations are never searched);
  it then takes out exactly one order, of that id, and otherwise changes nothing.
\<close>

theorem DeleteIfHaveTask_removes_one:
  assumes "queue_reachable sd q" and "TaskPriorityQueue_DeleteIfHaveTask k cid q = (r, out, q')"
  shows "(r = 0 \<longleftrightarrow> (\<exists>t. m_strClordid t = cid \<and>
            (t \<in> set (m_p3_unorder_que q @ m_p2_que q @ m_p1_que q) \<or>
             (\<exists>d. map_of (m_p3_order_que q) k = Some d \<and> t \<in> set d)))) \<and>
         (r = 0 \<longrightarrow> (\<exists>t. out = Some t \<and> m_strClordid t = cid \<and> queued q = add_mset t (queued q') \<and>
            m_p4_que q' = m_p4_que q)) \<and>
         (r \<noteq> 0 \<longrightarrow> r = 1 \<and> out = None \<and> q' = q)"
proof -
  have "r = 1 \<longleftrightarrow> DeleteOrderByClordId (m_p3_unorder_que q) cid = None \<and>
     DeleteOrderByClordId (m_p2_que q) cid = None \<and> DeleteOrderByClordId (m_p1_que q) cid = None \<and>
     (\<forall>d. map_of (m_p3_order_que q) k = Some d \<longrightarrow> DeleteOrderByClordId d cid = None)"
    using assms(2) by (auto simp: TaskPriorityQueue_DeleteIfHaveTask_def Let_def split: option.splits)
  then show ?thesis
    using Delete_ok [OF queue_reachable_ok [OF assms(1)], of k cid] assms(2)
    by (auto simp: DeleteOrder_None split: option.splits)
qed

lemma DeleteIfHaveTask_removes_one_witness:
  "\<exists>r out q'. TaskPriorityQueue_DeleteIfHaveTask 10600000 ''b'' sample_queue = (r, out, q') \<and> r = 0"
proof -
  obtain r out q' where g: "TaskPriorityQueue_DeleteIfHaveTask 10600000 ''b'' sample_queue = (r, out, q')"
    by (metis prod_cases3)
  have "map_of (m_p3_order_que sample_queue) 10600000 = Some [sample_task ''a'' 120 5, sample_task ''b'' 100 3]"
    by (simp add: sample_queue_def TaskPriorityQueue_new_def)
  then show ?thesis
    using DeleteIfHaveTask_removes_one [OF sample_queue_reachable g] g
    by (metis list.set_intros(1,2) sample_task_sel(3))
qed

text \<open>
  Orders of one key always meet in the same thread: the pool picks a valid thread by the key
  alone, offers the task to that queue only, and reports success exactly when it was queued.
\<close>

theorem AssignTaskWithKey_routes:
  assumes "hs \<noteq> []" and "length hs < 2 ^ 32" and "\<forall>q\<in>set hs. queue_reachable sd q"
    and "task_is_sell t = sd (m_iKey t)"
  shows "\<exists>r hs'. PriorityThreadPool_AssignTaskWithKey t hs = Some (r, hs') \<and>
     (let i = key_thread (m_iKey t) (length hs) in
      i < length hs \<and> length hs' = length hs \<and> (\<forall>j<length hs. j \<noteq> i \<longrightarrow> hs' ! j = hs ! j) \<and>
      (if r = 0 then queued (hs' ! i) = add_mset t (queued (hs ! i)) else r = -1 \<and> hs' = hs))"
proof -
  let ?i = "key_thread (m_iKey t) (length hs)"
  have "unat (word_of_nat (length hs) :: u32) = length hs" using assms(2) by (simp add: unat_of_nat)
  then have i: "?i < length hs"
    using assms(1) by (simp add: key_thread_def unat_mod)
  then have "queue_reachable sd (hs ! ?i)" using assms(3) by simp
  from AddTask_ok [OF queue_reachable_ok [OF this] assms(4)] obtain r n q' where
    a: "TaskPriorityQueue_AddTask (Some t) (m_bIsMatchOrdered t) (hs ! ?i) = Some (r, n, q')"
    "if r = 0 then queued q' = add_mset t (queued (hs ! ?i)) else q' = hs ! ?i" by metis
  have "PriorityThreadPool_AssignTaskWithKey t hs = Some (if r = 0 then 0 else -1, hs[?i := q'])"
    using assms(1) a(1)
    by (simp add: PriorityThreadPool_AssignTaskWithKey_def PriorityThread_AddTask_def Let_def)
  then show ?thesis using i a(2) by (cases "r = 0") (auto simp: Let_def)
qed

lemma AssignTaskWithKey_routes_witness:
  "\<exists>r hs'. PriorityThreadPool_AssignTaskWithKey (sample_task ''c'' 110 9) [sample_queue, TaskPriorityQueue_new] = Some (r, hs')"
  using AssignTaskWithKey_routes [of "[sample_queue, TaskPriorityQueue_new]" "\<lambda>_. False" "sample_task ''c'' 110 9"]
    sample_queue_reachable queue_reachable.start by auto

text \<open>The scan for the shortest queue.\<close>

lemma fewer_task_range: "fewer_task qs i num it = Some j \<Longrightarrow> it = Some j \<or> i \<le> j"
  by (induction qs i num it rule: fewer_task.induct) (auto split: if_splits)

lemma fewer_task_kept:
  "fewer_task qs i num (Some j) = Some j \<Longrightarrow> j < i \<Longrightarrow> \<forall>q\<in>set qs. num \<le> TaskPriorityQueue_QueueSize q"
proof (induction qs arbitrary: i num)
  case (Cons q qs)
  have "\<not> TaskPriorityQueue_QueueSize q < num \<and> TaskPriorityQueue_QueueSize q \<noteq> 0"
    using Cons.prems fewer_task_range [of qs "i + 1" "TaskPriorityQueue_QueueSize q" "Some i" j]
    by (auto split: if_splits)
  then show ?case using Cons.IH [of "i + 1" num] Cons.prems by (auto simp: not_less split: if_splits)
qed simp

lemma fewer_task_min:
  assumes "fewer_task qs i num it = Some j" and "it \<noteq> Some j"
  shows "i \<le> j \<and> j < i + length qs \<and> TaskPriorityQueue_QueueSize (qs ! (j - i)) \<le> num \<and>
         (\<forall>q\<in>set qs. TaskPriorityQueue_QueueSize (qs ! (j - i)) \<le> TaskPriorityQueue_QueueSize q)"
  using assms
proof (induction qs i num it rule: fewer_task.induct)
  case (2 q qs i num it)
  let ?s = "TaskPriorityQueue_QueueSize"
  consider (zero) "?s q = 0" | (less) "?s q \<noteq> 0" "?s q < num" | (more) "?s q \<noteq> 0" "\<not> ?s q < num" by blast
  then show ?case
  proof cases
    case zero
    then show ?thesis using 2 by auto
  next
    case less
    then have f: "fewer_task qs (i + 1) (?s q) (Some i) = Some j" using 2(3) by simp
    show ?thesis
    proof (cases "j = i")
      case False
      with 2(1) [OF less(1,2) f] less show ?thesis by (auto simp: nth_Cons' Suc_diff_Suc)
    next
      case True
      have "\<forall>q'\<in>set qs. ?s q \<le> ?s q'"
        using fewer_task_kept [of qs "i + 1" _ i] f unfolding True by simp
      then show ?thesis using True less by auto
    qed
  next
    case more
    then have f: "fewer_task qs (i + 1) num it = Some j" using 2(3) by simp
    from 2(2) [OF more f 2(4)] more show ?thesis by (auto simp: nth_Cons' not_less)
  qed
qed simp

lemma fewer_task_none: "fewer_task qs i num (Some j) \<noteq> None"
  by (induction qs arbitrary: i num j) auto

lemma fewer_task_some:
  "\<exists>q\<in>set qs. TaskPriorityQueue_QueueSize q < num \<Longrightarrow> fewer_task qs i num None \<noteq> None"
  by (induction qs arbitrary: i) (auto simp: fewer_task_none simp del: not_None_eq)

text \<open>
  Load balancing: as long as some queue holds fewer than 2^32 - 1 tasks, the pool offers the
  task to a queue that no other queue undercuts, and touches no other queue.
\<close>

theorem AssignTaskInMini_minimal:
  assumes "\<exists>q\<in>set hs. TaskPriorityQueue_QueueSize q < 4294967295" and "\<forall>q\<in>set hs. queue_reachable sd q"
    and "task_is_sell t = sd (m_iKey t)"
  shows "\<exists>i r hs'. i < length hs \<and> PriorityThreadPool_AssignTaskInMini t hs = Some (r, hs') \<and>
     (\<forall>q\<in>set hs. TaskPriorityQueue_QueueSize (hs ! i) \<le> TaskPriorityQueue_QueueSize q) \<and>
     (\<forall>j<length hs. j \<noteq> i \<longrightarrow> hs' ! j = hs ! j) \<and>
     (r = 0 \<longrightarrow> queued (hs' ! i) = add_mset t (queued (hs ! i)))"
proof -
  from fewer_task_some [OF assms(1)] obtain i where f: "fewer_task hs 0 4294967295 None = Some i" by blast
  from fewer_task_min [OF f] have i: "i < length hs"
    "\<forall>q\<in>set hs. TaskPriorityQueue_QueueSize (hs ! i) \<le> TaskPriorityQueue_QueueSize q" by auto
  from i(1) have "queue_reachable sd (hs ! i)" using assms(2) by simp
  from AddTask_ok [OF queue_reachable_ok [OF this] assms(3)] obtain r n q' where
    a: "TaskPriorityQueue_AddTask (Some t) (m_bIsMatchOrdered t) (hs ! i) = Some (r, n, q')"
    "if r = 0 then queued q' = add_mset t (queued (hs ! i)) else q' = hs ! i" by metis
  have "PriorityThreadPool_AssignTaskInMini t hs = Some (if r = 0 then 0 else -1, hs[i := q'])"
    using f a(1) by (simp add: PriorityThreadPool_AssignTaskInMini_def PriorityThread_AddTask_def)
  then show ?thesis using i a(2) by (intro exI [of _ i]) auto
qed

lemma AssignTaskInMini_minimal_witness:
  "\<exists>r hs'. PriorityThreadPool_AssignTaskInMini (sample_task ''c'' 110 9) [sample_queue, TaskPriorityQueue_new] = Some (r, hs')"
  using AssignTaskInMini_minimal [of "[sample_queue, TaskPriorityQueue_new]" "\<lambda>_. False" "sample_task ''c'' 110 9"]
    sample_queue_reachable queue_reachable.start
  by (auto simp: TaskPriorityQueue_QueueSize_def TaskPriorityQueue_new_def)

end
