(* ===== verification/Gateway.thy ===== *)
theory Gateway
  imports MatchUtil UserStockHelper TaskPriorityQueue
begin

text \<open>
  The state the matching tasks share, and the calls through which they change it: the objects of
  order messages and of tasks, \<open>GenTaskHelper::GenTask_Match\<close> with the \<open>SetOrderMsg\<close> of every kind
  of task, \<open>TaskPriorityBase::GenerateKey\<close>, \<open>TimeStringUtil::ExRandom15\<close>, and
  \<open>ProcCancelOrder::ProcSingleCancelOrder_Without_Request\<close>.

  Messages are objects at addresses because the code shares them: what is pushed to the outgoing
  buffer is the pointer of the order the task goes on changing.  The environment holds what the
  code takes from outside: the database query, the clock, the Redis server, the date library,
  \<open>std::hash\<close>, the random start of the execution ids, the formatted time, and the global
  \<open>g_Quotation_Type\<close>.  One reading of the clock serves a whole handler.
\<close>

section \<open>Environment and state\<close>

record 'r Env =
  e_loader :: loader
  e_clock :: u64
  e_redis :: "'r redis"
  e_ptime :: ptime
  e_hash :: "string \<Rightarrow> u64"
  e_random15 :: string
  e_trade_time :: string
  g_Quotation_Type :: QuotationType

datatype TaskKind = Task_ABStockMatch | Task_Etf_Match | Task_ShRule_Match | Task_SzRule_Match | Task_CancelOrder

text \<open>The counters of complete and partial matches, per market.\<close>

record InnerCounter =
  cnt_MatchAll :: u64
  cnt_MatchPart :: u64

record 'r Gw =
  heap :: "OrderMessage list"
  tasks :: "u64 \<rightharpoonup> TaskKind \<times> msgref"
  g_uidTaskGen :: u64
  g_mtskPool_match_cancel :: "TaskPriorityQueue list"
  g_outMsg_buffer :: OutMemoryManage
  stock :: StockCache
  ui64ExecID :: u64
  redis :: 'r
  counter_sz :: InnerCounter
  counter_sh :: InnerCounter

abbreviation msg :: "'r Gw \<Rightarrow> msgref \<Rightarrow> OrderMessage" where
  "msg s p \<equiv> heap s ! p"

definition put_msg :: "msgref \<Rightarrow> OrderMessage \<Rightarrow> 'r Gw \<Rightarrow> 'r Gw" where
  "put_msg p o1 s = s\<lparr>heap := (heap s)[p := o1]\<rparr>"

definition modify_msg :: "msgref \<Rightarrow> (OrderMessage \<Rightarrow> OrderMessage) \<Rightarrow> 'r Gw \<Rightarrow> 'r Gw" where
  "modify_msg p f s = put_msg p (f (msg s p)) s"

definition PushBack :: "msgref \<Rightarrow> 'r Gw \<Rightarrow> int \<times> 'r Gw" where
  "PushBack p s = (case OutMemoryManage_PushBack (msg s) p (g_outMsg_buffer s) of
     (r, b) \<Rightarrow> (r, s\<lparr>g_outMsg_buffer := b\<rparr>))"

definition Inc_MatchAll :: "string \<Rightarrow> 'r Gw \<Rightarrow> 'r Gw" where
  "Inc_MatchAll market s =
     (if market = TRADE_MARKET_SZ then s\<lparr>counter_sz := (counter_sz s)\<lparr>cnt_MatchAll := cnt_MatchAll (counter_sz s) + 1\<rparr>\<rparr>
      else if market = TRADE_MARKET_SH then s\<lparr>counter_sh := (counter_sh s)\<lparr>cnt_MatchAll := cnt_MatchAll (counter_sh s) + 1\<rparr>\<rparr>
      else s)"

definition Inc_MatchPart :: "string \<Rightarrow> 'r Gw \<Rightarrow> 'r Gw" where
  "Inc_MatchPart market s =
     (if market = TRADE_MARKET_SZ then s\<lparr>counter_sz := (counter_sz s)\<lparr>cnt_MatchPart := cnt_MatchPart (counter_sz s) + 1\<rparr>\<rparr>
      else if market = TRADE_MARKET_SH then s\<lparr>counter_sh := (counter_sh s)\<lparr>cnt_MatchPart := cnt_MatchPart (counter_sh s) + 1\<rparr>\<rparr>
      else s)"

text \<open>The first id is random, the following ones count up.\<close>

definition ExRandom15 :: "'r Env \<Rightarrow> 'r Gw \<Rightarrow> string \<times> 'r Gw" where
  "ExRandom15 env s =
     (let i = (if ui64ExecID s = 0 then snd (String2UInt64_strtoui64 (e_random15 env)) else ui64ExecID s)
      in (itos i, s\<lparr>ui64ExecID := i + 1\<rparr>))"

definition set_exec_ids :: "'r Env \<Rightarrow> msgref \<Rightarrow> 'r Gw \<Rightarrow> 'r Gw" where
  "set_exec_ids env p s = (case ExRandom15 env s of (i, s1) \<Rightarrow>
     modify_msg p (\<lambda>o1. o1\<lparr>strExecID := i, strOrderID := i\<rparr>) s1)"

section \<open>Keys of tasks\<close>

text \<open>
  The key is the side times ten million plus the code, in an \<open>int\<close>.  \<open>String2Int_atoi\<close> always
  returns 0, so the fall-backs after it are never reached.
\<close>

definition GenerateKey :: "(string \<Rightarrow> u64) \<Rightarrow> string \<Rightarrow> string \<Rightarrow> bool \<Rightarrow> int" where
  "GenerateKey std_hash in_StockID in_Side in_bIsMatchOrdered =
     (if in_bIsMatchOrdered then
        (if is_buy_str in_Side then sint (word_of_int (10000000 + snd (String2Int_atoi in_StockID)) :: u32)
         else if is_sell_str in_Side then sint (word_of_int (20000000 + snd (String2Int_atoi in_StockID)) :: u32)
         else sint (ucast (std_hash (in_Side @ in_StockID)) :: u32))
      else snd (String2Int_atoi in_StockID))"

section \<open>Handing an order to the matching threads\<close>

text \<open>
  The copy constructor of a message copies the trade policy without its rule links.  \<open>SetOrderMsg\<close>
  of each kind of task fills the task's data; all of them leave \<open>m_bIsMatchOrdered\<close> false.
\<close>

definition OrderMessage_copy :: "OrderMessage \<Rightarrow> OrderMessage" where
  "OrderMessage_copy o1 = o1\<lparr>tradePolicy := (tradePolicy o1)\<lparr>mapLinkRules := []\<rparr>\<rparr>"

definition SetOrderMsg :: "'r Env \<Rightarrow> TaskKind \<Rightarrow> u64 \<Rightarrow> OrderMessage \<Rightarrow> TaskPriorityBase" where
  "SetOrderMsg env k uiId o1 =
     (if k = Task_CancelOrder
      then \<lparr>m_uiId = uiId, m_iKey = GenerateKey (e_hash env) (strStockID o1) (strSide o1) True,
            m_tOrderTime = 0, m_ui64Price = 0, m_strClordid = strClordid o1, m_strSide = [],
            m_Prio = Level_Cancel_Order, m_bIsMatchOrdered = False\<rparr>
      else \<lparr>m_uiId = uiId,
            m_iKey = GenerateKey (e_hash env) (strStockID o1) (strSide o1) (k = Task_ABStockMatch),
            m_tOrderTime = tRcvTime o1, m_ui64Price = ui64mOrderPrice o1, m_strClordid = strClordid o1,
            m_strSide = strSide o1, m_Prio = Level_Match_Order, m_bIsMatchOrdered = False\<rparr>)"

definition match_task_kind :: "OrderMessage \<Rightarrow> TaskKind option" where
  "match_task_kind o1 =
     (if ui64RuleId (tradePolicy o1) \<noteq> 0 then
        (if ptrRule_Sh (tradePolicy o1) \<noteq> None then Some Task_ShRule_Match
         else if ptrRule_Sz (tradePolicy o1) \<noteq> None then Some Task_SzRule_Match else None)
      else if iTrade_type o1 = TADE_TYPE_cancel then Some Task_CancelOrder
      else if iTrade_type o1 \<in> {a_trade, b_trade, margin_cash, margin_stock, etf_buy, etf_sell}
      then Some Task_ABStockMatch
      else if iTrade_type o1 \<in> {etf_crt, etf_rdp} then Some Task_Etf_Match
      else None)"

text \<open>None when the assignment to a thread is undefined, as in the queue's theory.\<close>

definition GenTask_Match :: "'r Env \<Rightarrow> msgref \<Rightarrow> 'r Gw \<Rightarrow> (int \<times> 'r Gw) option" where
  "GenTask_Match env p s =
     (case match_task_kind (msg s p) of None \<Rightarrow> Some (-1, s)
      | Some k \<Rightarrow>
         let uiId = g_uidTaskGen s; o1 = OrderMessage_copy (msg s p); q = length (heap s);
             t = SetOrderMsg env k uiId o1;
             s1 = s\<lparr>g_uidTaskGen := uiId + 1, heap := heap s @ [o1], tasks := (tasks s)(uiId \<mapsto> (k, q))\<rparr>
         in (case PriorityThreadPool_AssignTaskWithKey t (g_mtskPool_match_cancel s1) of None \<Rightarrow> None
             | Some (r, pool) \<Rightarrow> Some (if r \<noteq> 0 then -1 else 0, s1\<lparr>g_mtskPool_match_cancel := pool\<rparr>)))"

section \<open>Cancelling without a request\<close>

text \<open>The pointer assignment makes \<open>cancelPtr\<close> the order itself, so the order is overwritten.\<close>

definition cancel_fields :: "OrderMessage \<Rightarrow> OrderMessage" where
  "cancel_fields o1 = o1\<lparr>strIsProc := ''1'', enMatchType := CancelMatch,
     strMsgType := STEPMSG_MSGTYPE_EXECREPORT, strExecType := STEPMSG_EXECTYPE_CANCEL,
     strOrdStatus := STEPMSG_ORDSTATUS_CANCEL, strLastPx := ''0.0000'',
     ui64Orderqty_origin := snd (String2UInt64_strtoui64 (strOrderqty_origin o1)),
     strLastQty := strLeavesQty o1, strCumQty := strLeavesQty o1, strCashorderqty := ''0''\<rparr>"

definition ProcSingleCancelOrder_Without_Request :: "'r Env \<Rightarrow> msgref \<Rightarrow> 'r Gw \<Rightarrow> int \<times> 'r Gw" where
  "ProcSingleCancelOrder_Without_Request env p s =
     PushBack p (set_exec_ids env p (modify_msg p cancel_fields s))"

section \<open>Shares after a trade\<close>

definition UpdateAfterTrade :: "'r Env \<Rightarrow> msgref \<Rightarrow> 'r Gw \<Rightarrow> 'r Gw option" where
  "UpdateAfterTrade env p s =
     (case UserStockHelper_UpdateAfterTrade (e_loader env) (e_clock env) (msg s p) (stock s) of
        None \<Rightarrow> None
      | Some (r, o1, st) \<Rightarrow> Some ((put_msg p o1 s)\<lparr>stock := st\<rparr>))"

end
