(* ===== verification/ABStockMatch.thy ===== *)
theory ABStockMatch
  imports Gateway
begin

text \<open>
  \<open>simutgw/work_manage/Task_ABStockMatch.cpp\<close>: matching an order for shares, either against the
  market's quotation or by one of the simulated modes.  \<open>p\<close> is the address of the task's order.
  A result \<open>None\<close> is undefined behaviour: a division by zero, a null pointer, a read past the end.
\<close>

section \<open>Filling in a trade\<close>

text \<open>The order when the market offers less than is left, and when it offers enough.\<close>

definition fill_part :: "u64 \<Rightarrow> u64 \<Rightarrow> OrderMessage \<Rightarrow> OrderMessage" where
  "fill_part in_Cjsl average o1 =
     (let unmatched = ui64LeavesQty o1 - in_Cjsl in
      o1\<lparr>enMatchType := MatchPart, strExecType := STEPMSG_EXECTYPE_TRADE,
         strOrdStatus := STEPMSG_ORDSTATUS_PART_FILL, strMsgType := STEPMSG_MSGTYPE_EXECREPORT,
         ui64Orderqty_matched := in_Cjsl, strLastQty := itos in_Cjsl,
         ui64mPrice_matched := average, strLastPx := iLiToStr average 4,
         ui64mCashorderqty_matched := average * in_Cjsl, strCashorderqty := iLiToStr (average * in_Cjsl) 4,
         ui64Orderqty_unmatched := unmatched, strLeavesQty := itos unmatched, ui64LeavesQty := unmatched,
         strCumQty := itos (ui64Orderqty_origin o1 - unmatched),
         ui64mCashorderqty_unmatched := unmatched * ui64mOrderPrice o1,
         strOrderPrice := iLiToStr (ui64mOrderPrice o1) 4\<rparr>)"

definition fill_all :: "u64 \<Rightarrow> OrderMessage \<Rightarrow> OrderMessage" where
  "fill_all average o1 =
     (let matched = ui64LeavesQty o1 in
      o1\<lparr>enMatchType := MatchAll, strExecType := STEPMSG_EXECTYPE_TRADE,
         strOrdStatus := STEPMSG_ORDSTATUS_FILL, strMsgType := STEPMSG_MSGTYPE_EXECREPORT,
         ui64Orderqty_matched := matched, strLastQty := itos matched,
         ui64mPrice_matched := average, strLastPx := iLiToStr average 4,
         ui64mCashorderqty_matched := average * matched, strCashorderqty := iLiToStr (average * matched) 4,
         ui64Orderqty_unmatched := 0, strLeavesQty := itos 0,
         strCumQty := itos (ui64Orderqty_origin o1), ui64mCashorderqty_unmatched := 0,
         strOrderPrice := iLiToStr (ui64mOrderPrice o1) 4\<rparr>)"

text \<open>A slice of \<open>q\<close> shares of the simulated modes.\<close>

definition fill_slice :: "MatchType \<Rightarrow> u64 \<Rightarrow> OrderMessage \<Rightarrow> OrderMessage" where
  "fill_slice ty q o1 =
     (let unmatched = ui64LeavesQty o1 - q; average = ui64mOrderPrice o1 in
      o1\<lparr>enMatchType := ty, strExecType := STEPMSG_EXECTYPE_TRADE,
         strOrdStatus := STEPMSG_ORDSTATUS_PART_FILL, strMsgType := STEPMSG_MSGTYPE_EXECREPORT,
         ui64Orderqty_matched := q, strLastQty := itos q,
         ui64mPrice_matched := average, strLastPx := iLiToStr average 4,
         ui64mCashorderqty_matched := average * q, strCashorderqty := iLiToStr (average * q) 4,
         ui64Orderqty_unmatched := unmatched, ui64LeavesQty := unmatched, strLeavesQty := itos unmatched,
         strCumQty := itos q, ui64mCashorderqty_unmatched := 0,
         strOrderPrice := iLiToStr average 4\<rparr>)"

section \<open>Matching against the quotation\<close>

text \<open>
  The four routines per declaration type have the same statements but for the price check
  (\<open>bLimit\<close>) and for cancelling the rest (\<open>rest_cancel\<close>).  Besides the state they give the
  quantity and amount left of the quotation, 0 as the caller initialises them when they return
  early; their return code is always 0.
\<close>

definition after_match :: "'r Env \<Rightarrow> msgref \<Rightarrow> 'r Gw \<Rightarrow> 'r Gw option" where
  "after_match env p s =
     (case UpdateAfterTrade env p s of None \<Rightarrow> None
      | Some s1 \<Rightarrow> Some (modify_msg p (\<lambda>o1. o1\<lparr>strTrade_time := e_trade_time env\<rparr>) (set_exec_ids env p s1)))"

definition match_quotation ::
  "bool \<Rightarrow> bool \<Rightarrow> 'r Env \<Rightarrow> msgref \<Rightarrow> u64 \<Rightarrow> u64 \<Rightarrow> 'r Gw \<Rightarrow> (u64 \<times> u64 \<times> 'r Gw) option" where
  "match_quotation bLimit rest_cancel env p in_Cjsl in_Cjje s =
     (case Check_Match_Method (msg s p) in_Cjsl in_Cjje bLimit of None \<Rightarrow> None
      | Some (r, o1) \<Rightarrow>
         let s1 = put_msg p o1 s; average = in_Cjje div in_Cjsl in
         if r < 0 then Some (0, 0, s1)
         else if in_Cjsl < ui64LeavesQty o1
         then let s2 = modify_msg p (fill_part in_Cjsl average) s1;
                  s3 = (if rest_cancel then snd (ProcSingleCancelOrder_Without_Request env p s2) else s2)
              in map_option (\<lambda>s'. (0, 0, s')) (after_match env p s3)
         else map_option (\<lambda>s'. (in_Cjsl - ui64LeavesQty o1, in_Cjje - ui64LeavesQty o1 * average, s'))
                (after_match env p (modify_msg p (fill_all average) s1)))"

definition Match_Ordinary_Limit ::
  "'r Env \<Rightarrow> msgref \<Rightarrow> u64 \<Rightarrow> u64 \<Rightarrow> 'r Gw \<Rightarrow> (u64 \<times> u64 \<times> 'r Gw) option" where
  "Match_Ordinary_Limit = match_quotation True False"

definition Match_Optimal ::
  "'r Env \<Rightarrow> msgref \<Rightarrow> u64 \<Rightarrow> u64 \<Rightarrow> 'r Gw \<Rightarrow> (u64 \<times> u64 \<times> 'r Gw) option" where
  "Match_Optimal = match_quotation False False"

definition Match_Optimal_And_Remainder_Cancel ::
  "'r Env \<Rightarrow> msgref \<Rightarrow> u64 \<Rightarrow> u64 \<Rightarrow> 'r Gw \<Rightarrow> (u64 \<times> u64 \<times> 'r Gw) option" where
  "Match_Optimal_And_Remainder_Cancel = match_quotation False True"

definition Match_All_Market_Or_Cancel ::
  "'r Env \<Rightarrow> msgref \<Rightarrow> u64 \<Rightarrow> u64 \<Rightarrow> 'r Gw \<Rightarrow> (u64 \<times> u64 \<times> 'r Gw) option" where
  "Match_All_Market_Or_Cancel = match_quotation False True"

text \<open>The match type and the quantity and amount left of the quotation.\<close>

definition Quot_MatchByMarket ::
  "'r Env \<Rightarrow> msgref \<Rightarrow> QuotGap \<Rightarrow> 'r Gw \<Rightarrow> (MatchType \<times> u64 \<times> u64 \<times> 'r Gw) option" where
  "Quot_MatchByMarket env p g s =
     (let s0 = modify_msg p (\<lambda>o1. o1\<lparr>enMatchType := NotMatch\<rparr>) s;
          by = (\<lambda>m s'. map_option (\<lambda>(a, b, s2). (enMatchType (msg s2 p), a, b, s2))
                  (m env p (out_Cjsl g) (out_Cjje g) s'));
          give_up = (\<lambda>ty s'. let s2 = modify_msg p (\<lambda>o1. o1\<lparr>enMatchType := ty\<rparr>) s' in Some (ty, 0, 0, s2))
      in case CheckTPBZ (msg s0 p) (out_Tpbz g) of (r, o1) \<Rightarrow>
         let s1 = put_msg p o1 s0 in
         if r < 0 then Some (enMatchType o1, 0, 0, s1)
         else if out_Cjsl g = 0 \<or> out_Cjje g = 0 then give_up NotMatch s1
         else case enDelType o1 of
           deltype_ordinary_limit \<Rightarrow>
             (case Check_MaxGain_And_MinFall o1 (out_MaxGain g) (out_MinFall g) of (r2, o2) \<Rightarrow>
                if r2 < 0 then give_up OutOfRange (put_msg p o2 s1)
                else by Match_Ordinary_Limit (put_msg p o2 s1))
         | deltype_the_side_optimal \<Rightarrow> by Match_Optimal s1
         | deltype_the_oppsite_side_optimaland_remainder_hold \<Rightarrow> by Match_Optimal s1
         | deltype_match_at_market_and_remainder_cancel \<Rightarrow> by Match_Optimal_And_Remainder_Cancel s1
         | deltype_all_match_at_market_or_cancel \<Rightarrow> by Match_All_Market_Or_Cancel s1
         | deltype_match_at_market_in_five_and_remainder_cancel \<Rightarrow> by Match_Optimal_And_Remainder_Cancel s1
         | deltype_match_at_market_in_five_and_remainder_hold \<Rightarrow> by Match_Optimal s1
         | deltype_unknown _ \<Rightarrow> give_up OutOfRange s1)"

definition Quot_MatchOrder :: "'r Env \<Rightarrow> msgref \<Rightarrow> 'r Gw \<Rightarrow> (MatchType \<times> 'r Gw) option" where
  "Quot_MatchOrder env p s =
     (let o0 = msg s p; circle = Get_Order_CircleID o0;
          not_match = (\<lambda>s'. Some (NotMatch, modify_msg p (\<lambda>o1. o1\<lparr>enMatchType := NotMatch\<rparr>) s'))
      in case GetCurrQuotGapByCircle (e_ptime env) (e_redis env) (strStockID o0) (strSide o0) circle
                (iQuotationMatchType (tradePolicy o0)) (redis s) of
           (None, _) \<Rightarrow> None
         | (Some (iRes, g), rd) \<Rightarrow>
            let s1 = s\<lparr>redis := rd\<rparr> in
            if iRes \<noteq> 0 then not_match s1
            else (case Quot_MatchByMarket env p g s1 of None \<Rightarrow> None
              | Some (enRes, a, b, s2) \<Rightarrow>
                 if enRes \<noteq> MatchAll \<and> enRes \<noteq> MatchPart then Some (enRes, s2)
                 else let s3 = snd (PushBack p s2) in
                   case SetCurrQuotGapByCircle_order (e_redis env) (g_Quotation_Type env) (msg s3 p) circle
                          a b (out_Hqsj g) (redis s3) of
                     (r, rd3) \<Rightarrow> let s4 = s3\<lparr>redis := rd3\<rparr> in
                       if r \<noteq> 0 then not_match s4 else Some (enRes, s4)))"

definition ABStockEnableQuoMatch :: "'r Env \<Rightarrow> msgref \<Rightarrow> 'r Gw \<Rightarrow> (int \<times> 'r Gw) option" where
  "ABStockEnableQuoMatch env p s =
     (case Quot_MatchOrder env p s of None \<Rightarrow> None
      | Some (ty, s1) \<Rightarrow>
         let market = strTrade_market (msg s1 p);
             gen = (\<lambda>s'. map_option (\<lambda>(_, s2). (0, s2)) (GenTask_Match env p s'));
             reject = (\<lambda>s'. Some (-1, snd (PushBack p (modify_msg p (\<lambda>o1. o1\<lparr>enMatchType := ErrorMatch\<rparr>) s'))))
         in case ty of
              MatchAll \<Rightarrow> Some (0, Inc_MatchAll market s1)
            | MatchPart \<Rightarrow>
                let s2 = Inc_MatchPart market s1 in
                if enDelType (msg s2 p) \<in> {deltype_ordinary_limit,
                     deltype_match_at_market_in_five_and_remainder_hold,
                     deltype_the_oppsite_side_optimaland_remainder_hold}
                then gen s2 else Some (0, s2)
            | NotMatch \<Rightarrow> gen s1
            | OutOfRange \<Rightarrow> reject s1
            | StopTrans \<Rightarrow> reject s1
            | ErrorMatch \<Rightarrow> reject s1
            | CancelMatch \<Rightarrow> Some (0, s1))"

section \<open>Simulated modes\<close>

text \<open>What the three filling modes do with the filled order.\<close>

definition report_slice ::
  "'r Env \<Rightarrow> (string \<Rightarrow> 'r Gw \<Rightarrow> 'r Gw) \<Rightarrow> msgref \<Rightarrow> 'r Gw \<Rightarrow> 'r Gw option" where
  "report_slice env inc p s =
     (let s1 = modify_msg p (\<lambda>o1. o1\<lparr>strTrade_time := e_trade_time env\<rparr>) (set_exec_ids env p s);
          s2 = inc (strTrade_market (msg s1 p)) s1
      in map_option (\<lambda>s3. snd (PushBack p s3)) (UpdateAfterTrade env p s2))"

definition ABStockMatch_All :: "'r Env \<Rightarrow> msgref \<Rightarrow> 'r Gw \<Rightarrow> (int \<times> 'r Gw) option" where
  "ABStockMatch_All env p s =
     map_option (Pair 0) (report_slice env Inc_MatchAll p
       (modify_msg p (\<lambda>o1. fill_all (ui64mOrderPrice o1) o1) s))"

text \<open>The size of the next slice, None when the policy divides into no parts.\<close>

definition divide_slice :: "OrderMessage \<Rightarrow> (MatchType \<times> u64) option" where
  "divide_slice o1 =
     (if iPart_Match_Num (tradePolicy o1) = 0 then None
      else let part = ui64Orderqty_origin o1 div ucast (iPart_Match_Num (tradePolicy o1)) in
        Some (if part = 0 then (MatchAll, ui64LeavesQty o1)
              else if 2 * part \<le> ui64LeavesQty o1 then (MatchPart, part)
              else (MatchAll, ui64LeavesQty o1)))"

definition requeue_rest :: "'r Env \<Rightarrow> msgref \<Rightarrow> 'r Gw \<Rightarrow> (int \<times> 'r Gw) option" where
  "requeue_rest env p s =
     (if ui64LeavesQty (msg s p) \<noteq> 0
      then map_option (\<lambda>(_, s'). (0, s')) (GenTask_Match env p s) else Some (0, s))"

definition ABStockMatch_Divide :: "'r Env \<Rightarrow> msgref \<Rightarrow> 'r Gw \<Rightarrow> (int \<times> 'r Gw) option" where
  "ABStockMatch_Divide env p s =
     (case divide_slice (msg s p) of None \<Rightarrow> None
      | Some (ty, q) \<Rightarrow>
         (case report_slice env Inc_MatchPart p (modify_msg p (fill_slice ty q) s) of None \<Rightarrow> None
          | Some s1 \<Rightarrow> requeue_rest env p s1))"

definition ABStockMatch_UnMatch :: "'r Env \<Rightarrow> msgref \<Rightarrow> 'r Gw \<Rightarrow> (int \<times> 'r Gw) option" where
  "ABStockMatch_UnMatch env p s = map_option (\<lambda>(_, s'). (0, s')) (GenTask_Match env p s)"

definition text_simulated_error :: string where
  "text_simulated_error = [CHR 0xC4, CHR 0xA3, CHR 0xC4, CHR 0xE2, CHR 0xB4, CHR 0xED, CHR 0xCE, CHR 0xF3, CHR 0xD3, CHR 0xA6, CHR 0xB4, CHR 0xF0]"

definition ABStockMatch_Error :: "'r Env \<Rightarrow> msgref \<Rightarrow> 'r Gw \<Rightarrow> (int \<times> 'r Gw) option" where
  "ABStockMatch_Error env p s =
     (if ui64LeavesQty (msg s p) = ui64Orderqty_origin (msg s p)
      then Some (0, snd (PushBack p (modify_msg p (\<lambda>o1. set_market_error SZ_ERRCODE_c20001 SH_ERRCODE_c215
             (o1\<lparr>enMatchType := ErrorMatch, bDataError := True, strError := text_simulated_error\<rparr>)) s)))
      else ABStockMatch_UnMatch env p s)"

definition half_slice :: "OrderMessage \<Rightarrow> MatchType \<times> u64" where
  "half_slice o1 = (if ui64Orderqty_origin o1 = 1 then (MatchAll, ui64Orderqty_origin o1)
                    else (MatchPart, ui64Orderqty_origin o1 div 2))"

definition ABStockMatch_Part :: "'r Env \<Rightarrow> msgref \<Rightarrow> 'r Gw \<Rightarrow> (int \<times> 'r Gw) option" where
  "ABStockMatch_Part env p s =
     (if ui64LeavesQty (msg s p) \<noteq> ui64Orderqty_origin (msg s p)
      then map_option (\<lambda>(_, s'). (0, s')) (GenTask_Match env p s)
      else case half_slice (msg s p) of (ty, q) \<Rightarrow>
        (case report_slice env Inc_MatchPart p (modify_msg p (fill_slice ty q) s) of None \<Rightarrow> None
         | Some s1 \<Rightarrow> requeue_rest env p s1))"

definition MatchOrder :: "'r Env \<Rightarrow> msgref \<Rightarrow> 'r Gw \<Rightarrow> (int \<times> 'r Gw) option" where
  "MatchOrder env p s =
     (case iMatchMode (tradePolicy (msg s p)) of
        EnAbleQuta \<Rightarrow> ABStockEnableQuoMatch env p s
      | SimulMatchAll \<Rightarrow> ABStockMatch_All env p s
      | SimulMatchByDivide \<Rightarrow> ABStockMatch_Divide env p s
      | SimulNotMatch \<Rightarrow> ABStockMatch_UnMatch env p s
      | SimulErrMatch \<Rightarrow> ABStockMatch_Error env p s
      | SimulMatchPart \<Rightarrow> ABStockMatch_Part env p s)"

section \<open>What the steps leave alone\<close>

text \<open>What identifies an order and how it is matched; a match never changes it.\<close>

definition order_key :: "OrderMessage \<Rightarrow> string \<times> string \<times> string \<times> TradePolicyCell \<times> DECLARATION_TYPE" where
  "order_key o1 = (strStockID o1, strSide o1, Get_Order_CircleID o1, tradePolicy o1, enDelType o1)"

lemma order_key_eqI:
  "strStockID o2 = strStockID o1 \<Longrightarrow> strSide o2 = strSide o1 \<Longrightarrow> strTrade_group o2 = strTrade_group o1 \<Longrightarrow>
   strMarket_branchid o2 = strMarket_branchid o1 \<Longrightarrow> tradePolicy o2 = tradePolicy o1 \<Longrightarrow>
   enDelType o2 = enDelType o1 \<Longrightarrow> order_key o2 = order_key o1"
  by (simp add: order_key_def Get_Order_CircleID_def Let_def)

lemma msg_put [simp]: "p < length (heap s) \<Longrightarrow> msg (put_msg p o1 s) q = (if q = p then o1 else msg s q)"
  by (auto simp: put_msg_def nth_list_update)

lemma put_msg_sel [simp]:
  "length (heap (put_msg p o1 s)) = length (heap s)" "redis (put_msg p o1 s) = redis s"
  "g_mtskPool_match_cancel (put_msg p o1 s) = g_mtskPool_match_cancel s" "stock (put_msg p o1 s) = stock s"
  "g_outMsg_buffer (put_msg p o1 s) = g_outMsg_buffer s" "g_uidTaskGen (put_msg p o1 s) = g_uidTaskGen s"
  "tasks (put_msg p o1 s) = tasks s"
  by (simp_all add: put_msg_def)

lemma set_exec_ids_msg:
  "p < length (heap s) \<Longrightarrow> \<exists>i. msg (set_exec_ids env p s) q =
     (if q = p then (msg s p)\<lparr>strExecID := i, strOrderID := i\<rparr> else msg s q)"
  by (auto simp: set_exec_ids_def ExRandom15_def modify_msg_def Let_def put_msg_def nth_list_update)

lemma set_exec_ids_sel [simp]:
  "length (heap (set_exec_ids env p s)) = length (heap s)" "redis (set_exec_ids env p s) = redis s"
  "g_mtskPool_match_cancel (set_exec_ids env p s) = g_mtskPool_match_cancel s" "stock (set_exec_ids env p s) = stock s"
  "g_outMsg_buffer (set_exec_ids env p s) = g_outMsg_buffer s" "tasks (set_exec_ids env p s) = tasks s"
  "g_uidTaskGen (set_exec_ids env p s) = g_uidTaskGen s"
  by (simp_all add: set_exec_ids_def ExRandom15_def modify_msg_def Let_def)

lemma PushBack_sel [simp]:
  "heap (snd (PushBack p s)) = heap s" "redis (snd (PushBack p s)) = redis s"
  "g_mtskPool_match_cancel (snd (PushBack p s)) = g_mtskPool_match_cancel s" "stock (snd (PushBack p s)) = stock s"
  "tasks (snd (PushBack p s)) = tasks s" "g_uidTaskGen (snd (PushBack p s)) = g_uidTaskGen s"
  by (simp_all add: PushBack_def split: prod.splits)

text \<open>The stock update only changes the amounts the order has frozen.\<close>

lemma split_sell_order: "split_sell o1 = (f, n, o2) \<Longrightarrow> \<exists>c. o2 = o1\<lparr>sellCps := c\<rparr>"
  by (auto simp: split_sell_def Let_def split: if_splits)

lemma split_sell_etf_order: "split_sell_etf o1 = (f, n, o2) \<Longrightarrow> \<exists>c. o2 = o1\<lparr>sellETFCps := c\<rparr>"
  by (auto simp: split_sell_etf_def Let_def split: if_splits)

lemma UpdateTrade_order:
  assumes "UserStockHelper_UpdateTrade ld t o1 st = Some (r, o2, st')"
  shows "\<exists>c e. o2 = o1\<lparr>sellCps := c, sellETFCps := e\<rparr>"
proof -
  have id: "\<exists>c e. o1 = o1\<lparr>sellCps := c, sellETFCps := e\<rparr>" by (intro exI [of _ "sellCps o1"] exI [of _ "sellETFCps o1"]) simp
  have s1: "\<exists>c' e. o1\<lparr>sellCps := c\<rparr> = o1\<lparr>sellCps := c', sellETFCps := e\<rparr>" for c
    by (intro exI [of _ "c"] exI [of _ "sellETFCps o1"]) simp
  have s2: "\<exists>c e'. o1\<lparr>sellETFCps := e\<rparr> = o1\<lparr>sellCps := c, sellETFCps := e'\<rparr>" for e
    by (intro exI [of _ "sellCps o1"] exI [of _ "e"]) simp
  obtain f n oa where a: "split_sell o1 = (f, n, oa)" by (rule prod_cases3)
  obtain f' n' ob where b: "split_sell_etf o1 = (f', n', ob)" by (rule prod_cases3)
  have "o2 = o1 \<or> o2 = oa \<or> o2 = ob"
    using assms by (auto simp: UserStockHelper_UpdateTrade_def Let_def a b split: if_splits option.splits)
  then show ?thesis using id s1 s2 split_sell_order [OF a] split_sell_etf_order [OF b] by auto
qed

lemma UpdateAfterTrade_order:
  assumes "UserStockHelper_UpdateAfterTrade ld t o1 st = Some (r, o2, st')"
  shows "\<exists>c e. o2 = o1\<lparr>sellCps := c, sellETFCps := e\<rparr>"
proof -
  have id: "\<exists>c e. o1 = o1\<lparr>sellCps := c, sellETFCps := e\<rparr>" by (intro exI [of _ "sellCps o1"] exI [of _ "sellETFCps o1"]) simp
  show ?thesis
    using assms id UpdateTrade_order
    by (auto simp: UserStockHelper_UpdateAfterTrade_def split: if_splits)
qed

text \<open>\<open>same_trade o1 o2\<close>: the two differ at most in what the bookkeeping after a match writes.\<close>

definition same_trade :: "OrderMessage \<Rightarrow> OrderMessage \<Rightarrow> bool" where
  "same_trade o1 o2 \<longleftrightarrow> (\<exists>c e i t. o2 = o1\<lparr>sellCps := c, sellETFCps := e, strExecID := i, strOrderID := i, strTrade_time := t\<rparr>)"

lemma after_match_msg:
  assumes "after_match env p s = Some s'" and "p < length (heap s)"
  shows "length (heap s') = length (heap s)" and "redis s' = redis s"
    and "g_mtskPool_match_cancel s' = g_mtskPool_match_cancel s"
    and "q \<noteq> p \<Longrightarrow> msg s' q = msg s q" and "same_trade (msg s p) (msg s' p)"
    and "g_outMsg_buffer s' = g_outMsg_buffer s"
proof -
  from assms(1) obtain r o1 st where
    u: "UserStockHelper_UpdateAfterTrade (e_loader env) (e_clock env) (msg s p) (stock s) = Some (r, o1, st)"
    and s': "s' = modify_msg p (\<lambda>o1. o1\<lparr>strTrade_time := e_trade_time env\<rparr>)
        (set_exec_ids env p ((put_msg p o1 s)\<lparr>stock := st\<rparr>))"
    by (auto simp: after_match_def UpdateAfterTrade_def split: option.splits)
  let ?s1 = "(put_msg p o1 s)\<lparr>stock := st\<rparr>"
  have l: "p < length (heap ?s1)" using assms(2) by simp
  have k: "redis ?s1 = redis s" "length (heap ?s1) = length (heap s)" "g_outMsg_buffer ?s1 = g_outMsg_buffer s"
    "g_mtskPool_match_cancel ?s1 = g_mtskPool_match_cancel s" by simp_all
  then show "length (heap s') = length (heap s)" "redis s' = redis s" "g_outMsg_buffer s' = g_outMsg_buffer s"
    "g_mtskPool_match_cancel s' = g_mtskPool_match_cancel s" by (simp_all add: s' modify_msg_def)
  have m: "msg ?s1 q = (if q = p then o1 else msg s q)" for q using assms(2) msg_put [of p s o1 q] by simp
  have l2: "p < length (heap (set_exec_ids env p ?s1))" using l by simp
  show "msg s' q = msg s q" if "q \<noteq> p"
    using that set_exec_ids_msg [OF l, of env q] m l2 by (auto simp: s' modify_msg_def)
  obtain i where i: "msg (set_exec_ids env p ?s1) p = o1\<lparr>strExecID := i, strOrderID := i\<rparr>"
    using set_exec_ids_msg [OF l, of env p] m by auto
  obtain c e where o1: "o1 = (msg s p)\<lparr>sellCps := c, sellETFCps := e\<rparr>" using UpdateAfterTrade_order [OF u] by blast
  have "msg s' p = (msg s p)\<lparr>sellCps := c, sellETFCps := e, strExecID := i, strOrderID := i, strTrade_time := e_trade_time env\<rparr>"
    using l2 i o1 by (simp add: s' modify_msg_def)
  then show "same_trade (msg s p) (msg s' p)" unfolding same_trade_def by blast
qed

lemma same_trade_key: "same_trade o1 o2 \<Longrightarrow> order_key o2 = order_key o1"
  by (auto simp: same_trade_def order_key_def Get_Order_CircleID_def Let_def)

lemma same_trade_sel:
  assumes "same_trade o1 o2"
  shows "enMatchType o2 = enMatchType o1" "ui64Orderqty_matched o2 = ui64Orderqty_matched o1"
    "ui64Orderqty_unmatched o2 = ui64Orderqty_unmatched o1" "ui64LeavesQty o2 = ui64LeavesQty o1"
    "ui64mPrice_matched o2 = ui64mPrice_matched o1" "iSide o2 = iSide o1" "ui64mOrderPrice o2 = ui64mOrderPrice o1"
    "ui64Orderqty_origin o2 = ui64Orderqty_origin o1" "strTrade_market o2 = strTrade_market o1"
    "strLastQty o2 = strLastQty o1" "strCumQty o2 = strCumQty o1" "strLeavesQty o2 = strLeavesQty o1"
    "strOrdStatus o2 = strOrdStatus o1" "strExecType o2 = strExecType o1"
    "strSenderCompID o2 = strSenderCompID o1" "strClordid o2 = strClordid o1"
  using assms by (auto simp: same_trade_def)

section \<open>The four routines\<close>

lemma fill_key [simp]:
  "order_key (fill_part sl avg o1) = order_key o1" "order_key (fill_all avg o1) = order_key o1"
  "order_key (fill_slice ty q o1) = order_key o1"
  by (simp_all add: fill_part_def fill_all_def fill_slice_def order_key_def Get_Order_CircleID_def Let_def)

lemma Check_Method_order:
  assumes "Check_Match_Method o1 sl je lim = Some (r, o2)"
  shows "order_key o2 = order_key o1" and "ui64LeavesQty o2 = ui64LeavesQty o1"
  using assms by (auto simp: Check_Match_Method_def Let_def order_key_def Get_Order_CircleID_def split: if_splits)

text \<open>
  What a match takes: \<open>matched_of sl je o1 o2\<close> says that \<open>o2\<close> is \<open>o1\<close> after a trade of as many shares
  as are offered and left, at the average price.
\<close>

definition matched_of :: "u64 \<Rightarrow> u64 \<Rightarrow> OrderMessage \<Rightarrow> OrderMessage \<Rightarrow> bool" where
  "matched_of sl je o1 o2 \<longleftrightarrow>
     enMatchType o2 = (if sl < ui64LeavesQty o1 then MatchPart else MatchAll) \<and>
     ui64Orderqty_matched o2 = min sl (ui64LeavesQty o1) \<and>
     ui64Orderqty_unmatched o2 = ui64LeavesQty o1 - min sl (ui64LeavesQty o1) \<and>
     ui64mPrice_matched o2 = je div sl"

lemma matched_of_fill_part: "sl < ui64LeavesQty o1 \<Longrightarrow> matched_of sl je o1 (fill_part sl (je div sl) o1)"
  by (simp add: matched_of_def fill_part_def Let_def min_absorb1)

lemma matched_of_fill_all: "\<not> sl < ui64LeavesQty o1 \<Longrightarrow> matched_of sl je o1 (fill_all (je div sl) o1)"
  by (simp add: matched_of_def fill_all_def Let_def min_absorb2)

lemma matched_of_same: "matched_of sl je o1 o2 \<Longrightarrow> same_trade o2 o3 \<Longrightarrow> matched_of sl je o1 o3"
  by (simp add: matched_of_def same_trade_sel)

text \<open>A trading rule that is obeyed: the price check of a limit order, and no zero division.\<close>

definition price_ok :: "bool \<Rightarrow> u64 \<Rightarrow> u64 \<Rightarrow> OrderMessage \<Rightarrow> bool" where
  "price_ok bLimit sl je o1 \<longleftrightarrow> sl \<noteq> 0 \<and> (iSide o1 = 1 \<or> iSide o1 = 2) \<and>
     (bLimit \<and> iSide o1 = 1 \<longrightarrow> je div sl \<le> ui64mOrderPrice o1) \<and>
     (bLimit \<and> iSide o1 = 2 \<longrightarrow> ui64mOrderPrice o1 \<le> je div sl)"

text \<open>The parts a routine leaves alone, and the outcome of a routine.\<close>

definition only_order :: "msgref \<Rightarrow> 'r Gw \<Rightarrow> 'r Gw \<Rightarrow> bool" where
  "only_order p s s' \<longleftrightarrow> length (heap s') = length (heap s) \<and> redis s' = redis s \<and>
     g_mtskPool_match_cancel s' = g_mtskPool_match_cancel s \<and> g_outMsg_buffer s' = g_outMsg_buffer s \<and> (\<forall>q. q \<noteq> p \<longrightarrow> msg s' q = msg s q) \<and>
     order_key (msg s' p) = order_key (msg s p)"

definition match_outcome :: "bool \<Rightarrow> u64 \<Rightarrow> u64 \<Rightarrow> OrderMessage \<Rightarrow> OrderMessage \<Rightarrow> u64 \<Rightarrow> u64 \<Rightarrow> bool" where
  "match_outcome bLimit sl je o1 o2 a b \<longleftrightarrow>
     (enMatchType o2 \<in> {NotMatch, ErrorMatch} \<and> ui64LeavesQty o2 = ui64LeavesQty o1) \<or>
     (price_ok bLimit sl je o1 \<and> matched_of sl je o1 o2 \<and> a = sl - ui64Orderqty_matched o2 \<and>
      b = (if sl < ui64LeavesQty o1 then 0 else je - ui64LeavesQty o1 * (je div sl)))"

lemma only_order_trans: "only_order p s s1 \<Longrightarrow> only_order p s1 s2 \<Longrightarrow> only_order p s s2"
  by (simp add: only_order_def)

lemma only_order_put:
  "p < length (heap s) \<Longrightarrow> order_key o1 = order_key (msg s p) \<Longrightarrow> only_order p s (put_msg p o1 s)"
  by (simp add: only_order_def)

lemma after_fill:
  assumes am: "after_match env p (modify_msg p f (put_msg p (msg s p) s)) = Some s'" and p: "p < length (heap s)"
    and f: "matched_of sl je (msg s p) (f (msg s p))" "order_key (f (msg s p)) = order_key (msg s p)"
  shows "only_order p s s' \<and> matched_of sl je (msg s p) (msg s' p)"
proof -
  let ?s1 = "modify_msg p f (put_msg p (msg s p) s)"
  have l: "p < length (heap ?s1)" and mm: "msg ?s1 p = f (msg s p)" using p by (simp_all add: modify_msg_def)
  note af = after_match_msg [OF am l]
  have "only_order p s ?s1" using p f(2) by (simp add: modify_msg_def only_order_def)
  moreover have "only_order p ?s1 s'"
    using af same_trade_key [OF af(5)] by (simp add: only_order_def)
  moreover have "matched_of sl je (msg s p) (msg s' p)" using matched_of_same [OF f(1)] af(5) mm by simp
  ultimately show ?thesis using only_order_trans by blast
qed

lemma match_quotation_spec:
  assumes m: "match_quotation bLimit False env p sl je s = Some (a, b, s')" and p: "p < length (heap s)"
  shows "only_order p s s' \<and> match_outcome bLimit sl je (msg s p) (msg s' p) a b"
proof -
  let ?o = "msg s p"
  obtain r o1 where c: "Check_Match_Method ?o sl je bLimit = Some (r, o1)"
    using m by (auto simp: match_quotation_def split: option.splits)
  note cc = Check_Method_cases [OF c] and co = Check_Method_order [OF c]
  show ?thesis
  proof (cases "r < 0")
    case True
    then have "s' = put_msg p o1 s" using m c by (simp add: match_quotation_def Let_def)
    moreover have "enMatchType o1 \<in> {NotMatch, ErrorMatch}" using cc(3) True by auto
    ultimately show ?thesis using p co by (simp add: match_outcome_def only_order_put)
  next
    case False
    then have "r = 0" using cc(3) by fastforce
    then have o1: "o1 = ?o" and pok: "price_ok bLimit sl je ?o" using cc(1,2) by (auto simp: price_ok_def)
    show ?thesis
    proof (cases "sl < ui64LeavesQty ?o")
      case True
      have am: "after_match env p (modify_msg p (fill_part sl (je div sl)) (put_msg p ?o s)) = Some s'"
        and ab: "a = 0" "b = 0"
        using m c False True o1 by (auto simp: match_quotation_def Let_def split: option.splits)
      from after_fill [OF am p matched_of_fill_part [OF True] fill_key(1)] show ?thesis
        using pok True ab by (simp add: match_outcome_def matched_of_def min_absorb1)
    next
      case nl: False
      have am: "after_match env p (modify_msg p (fill_all (je div sl)) (put_msg p ?o s)) = Some s'"
        and ab: "a = sl - ui64LeavesQty ?o" "b = je - ui64LeavesQty ?o * (je div sl)"
        using m c False nl o1 by (auto simp: match_quotation_def Let_def split: option.splits)
      from after_fill [OF am p matched_of_fill_all [OF nl] fill_key(2)] show ?thesis
        using pok nl ab by (simp add: match_outcome_def matched_of_def min_absorb2)
    qed
  qed
qed

section \<open>One order against the quotation\<close>

definition rest_stays :: "DECLARATION_TYPE \<Rightarrow> bool" where
  "rest_stays d \<longleftrightarrow> d \<in> {deltype_ordinary_limit, deltype_the_side_optimal,
     deltype_the_oppsite_side_optimaland_remainder_hold, deltype_match_at_market_in_five_and_remainder_hold}"

lemma set_market_error_key [simp]: "order_key (set_market_error sz sh o1) = order_key o1"
  by (simp add: set_market_error_def order_key_def Get_Order_CircleID_def Let_def)

lemma error_fields_key [simp]:
  "order_key (o1\<lparr>bDataError := d\<rparr>) = order_key o1" "order_key (o1\<lparr>strError := e\<rparr>) = order_key o1"
  "order_key (o1\<lparr>enMatchType := ty\<rparr>) = order_key o1"
  by (simp_all add: order_key_def Get_Order_CircleID_def Let_def)

lemma CheckTPBZ_key: "CheckTPBZ o1 t = (r, o2) \<Longrightarrow> order_key o2 = order_key o1"
  by (auto simp: CheckTPBZ_def split: if_splits)

lemma Check_Limits_key: "Check_MaxGain_And_MinFall o1 a b = (r, o2) \<Longrightarrow> order_key o2 = order_key o1"
  by (auto simp: Check_MaxGain_And_MinFall_def split: if_splits)

lemma price_ok_set_type [simp]: "price_ok lim sl je (o1\<lparr>enMatchType := ty\<rparr>) = price_ok lim sl je o1"
  by (simp add: price_ok_def)

lemma set_type_outcome [simp]:
  "match_outcome lim sl je (o1\<lparr>enMatchType := ty\<rparr>) o2 a b = match_outcome lim sl je o1 o2 a b"
  by (simp add: match_outcome_def matched_of_def)

lemma only_order_set_type:
  "only_order p s s2 \<Longrightarrow> p < length (heap s2) \<Longrightarrow> only_order p s (modify_msg p (\<lambda>o1. o1\<lparr>enMatchType := x\<rparr>) s2)"
  unfolding modify_msg_def by (rule only_order_trans [OF _ only_order_put]) simp_all

definition market_outcome :: "bool \<Rightarrow> QuotGap \<Rightarrow> msgref \<Rightarrow> 'r Gw \<Rightarrow> MatchType \<Rightarrow> u64 \<Rightarrow> u64 \<Rightarrow> 'r Gw \<Rightarrow> bool" where
  "market_outcome lim g p s ty a b s' \<longleftrightarrow> only_order p s s' \<and>
    (if ty \<in> {MatchAll, MatchPart}
     then enMatchType (msg s' p) = ty \<and> match_outcome lim (out_Cjsl g) (out_Cjje g) (msg s p) (msg s' p) a b
     else ty \<noteq> CancelMatch)"

lemma quot_by_spec:
  assumes "map_option (\<lambda>(a, b, s2). (enMatchType (msg s2 p), a, b, s2))
      (match_quotation lim False env p (out_Cjsl g) (out_Cjje g) s2) = Some (ty, a, b, s')"
    and s2: "only_order p s s2" "p < length (heap s2)" and o: "msg s2 p = (msg s p)\<lparr>enMatchType := x\<rparr>"
  shows "market_outcome lim g p s ty a b s'"
proof -
  from assms(1) have q: "match_quotation lim False env p (out_Cjsl g) (out_Cjje g) s2 = Some (a, b, s')"
    and ty: "ty = enMatchType (msg s' p)" by auto
  from match_quotation_spec [OF q s2(2)] have "only_order p s s'"
    and "match_outcome lim (out_Cjsl g) (out_Cjje g) (msg s p) (msg s' p) a b"
    using only_order_trans [OF s2(1)] o by simp_all
  then show ?thesis using ty by (auto simp: market_outcome_def match_outcome_def matched_of_def split: if_splits)
qed

text \<open>
  For a declaration type whose rest stays in the market, the result is a match of the offered
  quantity or no match at all; only limit orders have their price checked.
\<close>

lemma Quot_MatchByMarket_spec:
  assumes m: "Quot_MatchByMarket env p g s = Some (ty, a, b, s')" and p: "p < length (heap s)"
    and d: "rest_stays (enDelType (msg s p))"
  shows "market_outcome (enDelType (msg s p) = deltype_ordinary_limit) g p s ty a b s'"
proof -
  let ?o = "(msg s p)\<lparr>enMatchType := NotMatch\<rparr>" and ?s0 = "modify_msg p (\<lambda>o1. o1\<lparr>enMatchType := NotMatch\<rparr>) s"
  have s0: "only_order p s ?s0" "msg ?s0 p = ?o" "length (heap ?s0) = length (heap s)"
    using p by (simp_all add: modify_msg_def only_order_put)
  obtain r o1 where t: "CheckTPBZ ?o (out_Tpbz g) = (r, o1)" by (metis surj_pair)
  let ?s1 = "put_msg p o1 ?s0"
  have l1: "p < length (heap ?s1)" and m1: "msg ?s1 p = o1" using p s0 by simp_all
  have k1: "only_order p s ?s1" using only_order_trans [OF s0(1) only_order_put] CheckTPBZ_key [OF t] s0 p by simp
  note defs = Quot_MatchByMarket_def Let_def s0(2) t
  have out: "market_outcome lim g p s ty a b s'"
    if "only_order p s s'" and "ty \<notin> {MatchAll, MatchPart, CancelMatch}" for lim
    using that by (simp add: market_outcome_def)
  show ?thesis
  proof (cases "r < 0")
    case True
    then show ?thesis using m k1 CheckTPBZ_frame [OF t] by (intro out) (auto simp: defs)
  next
    case False
    with CheckTPBZ_frame [OF t] have r0: "r = 0" and o1: "o1 = ?o" by auto
    show ?thesis
    proof (cases "out_Cjsl g = 0 \<or> out_Cjje g = 0")
      case True
      then show ?thesis using m r0 only_order_set_type [OF k1 l1] by (intro out) (auto simp: defs)
    next
      case nz: False
      show ?thesis
      proof (cases "enDelType (msg s p) = deltype_ordinary_limit")
        case lim: True
        obtain r2 o2 where c: "Check_MaxGain_And_MinFall o1 (out_MaxGain g) (out_MinFall g) = (r2, o2)" by (metis surj_pair)
        have k2: "only_order p s (put_msg p o2 ?s1)" and l2: "p < length (heap (put_msg p o2 ?s1))"
          using only_order_trans [OF k1 only_order_put [OF l1]] Check_Limits_key [OF c] m1 l1 by simp_all
        show ?thesis
        proof (cases "r2 < 0")
          case True
          then show ?thesis
            using m r0 nz lim only_order_set_type [OF k2 l2] c o1 by (intro out) (auto simp: defs)
        next
          case False
          with Check_Limits_frame [OF c] have o2: "o2 = ?o" using o1 by auto
          have o: "msg (put_msg p o2 ?s1) p = ?o" using msg_put [OF l1, of o2 p] o2 by simp
          have "map_option (\<lambda>(a, b, s2). (enMatchType (msg s2 p), a, b, s2))
            (match_quotation True False env p (out_Cjsl g) (out_Cjje g) (put_msg p o2 ?s1)) = Some (ty, a, b, s')"
            using m r0 nz lim False c o1 by (auto simp: defs Match_Ordinary_Limit_def)
          from quot_by_spec [OF this k2 l2 o] show ?thesis using lim by simp
        qed
      next
        case False
        have eq: "map_option (\<lambda>(a, b, s2). (enMatchType (msg s2 p), a, b, s2))
          (match_quotation False False env p (out_Cjsl g) (out_Cjje g) ?s1) = Some (ty, a, b, s')"
          using m r0 nz False d o1 by (auto simp: defs Match_Optimal_def rest_stays_def)
        have "msg ?s1 p = ?o" using m1 o1 by simp
        from quot_by_spec [OF eq k1 l1 this] show ?thesis using False by simp
      qed
    qed
  qed
qed

text \<open>
  C27.  When an order whose rest stays in the market trades against a quotation, it takes the smaller
  of what is offered and what it has left, at the average price; matched and unmatched shares add up
  to what was left; a limit order never trades at a price worse than its limit; and the quotation
  keeps exactly the rest.
\<close>

theorem Quot_MatchByMarket_fair:
  assumes "Quot_MatchByMarket env p g s = Some (ty, a, b, s')" and "p < length (heap s)"
    and "rest_stays (enDelType (msg s p))" and "ty = MatchAll \<or> ty = MatchPart"
  shows "ui64Orderqty_matched (msg s' p) = min (out_Cjsl g) (ui64LeavesQty (msg s p)) \<and>
    unat (ui64Orderqty_matched (msg s' p)) + unat (ui64Orderqty_unmatched (msg s' p)) = unat (ui64LeavesQty (msg s p)) \<and>
    unat (ui64Orderqty_matched (msg s' p)) + unat a = unat (out_Cjsl g) \<and>
    ui64mPrice_matched (msg s' p) = out_Cjje g div out_Cjsl g \<and>
    (enDelType (msg s p) = deltype_ordinary_limit \<longrightarrow>
       (iSide (msg s p) = 1 \<longrightarrow> ui64mPrice_matched (msg s' p) \<le> ui64mOrderPrice (msg s p)) \<and>
       (iSide (msg s p) = 2 \<longrightarrow> ui64mOrderPrice (msg s p) \<le> ui64mPrice_matched (msg s' p))) \<and>
    (ty = MatchAll \<longleftrightarrow> ui64LeavesQty (msg s p) \<le> out_Cjsl g)"
proof -
  let ?lim = "enDelType (msg s p) = deltype_ordinary_limit" and ?m = "min (out_Cjsl g) (ui64LeavesQty (msg s p))"
  from Quot_MatchByMarket_spec [OF assms(1-3)] assms(4)
  have ty: "enMatchType (msg s' p) = ty" and
    o: "match_outcome ?lim (out_Cjsl g) (out_Cjje g) (msg s p) (msg s' p) a b"
    by (auto simp: market_outcome_def)
  then have p: "price_ok ?lim (out_Cjsl g) (out_Cjje g) (msg s p)"
    and m: "matched_of (out_Cjsl g) (out_Cjje g) (msg s p) (msg s' p)" and a: "a = out_Cjsl g - ui64Orderqty_matched (msg s' p)"
    using assms(4) by (auto simp: match_outcome_def)
  have le: "?m \<le> out_Cjsl g" "?m \<le> ui64LeavesQty (msg s p)" by simp_all
  have "unat ?m \<le> unat (out_Cjsl g)" "unat ?m \<le> unat (ui64LeavesQty (msg s p))"
    using le unfolding word_le_nat_alt by blast+
  then show ?thesis
    using m p a ty assms(4) unat_minus_le [OF le(1)] unat_minus_le [OF le(2)]
    by (auto simp: matched_of_def price_ok_def not_less split: if_splits)
qed

section \<open>The quotation is never oversold\<close>

lemma mult_mono_u64: "(z :: u64) \<le> y \<Longrightarrow> x div y * z \<le> x"
proof -
  assume "z \<le> y"
  then have "unat x div unat y * unat z \<le> unat x div unat y * unat y" by (simp add: word_le_nat_alt)
  also have "\<dots> \<le> unat x" by (simp add: div_times_less_eq_dividend)
  finally have n: "unat (x div y) * unat z \<le> unat x" by (simp add: unat_div)
  then have "unat (x div y) * unat z < 2 ^ LENGTH(64)" using unat_less_2p64 [of x] by simp
  then have "unat (x div y * z) = unat (x div y) * unat z" using unat_mult_lem by blast
  then show ?thesis using n unfolding word_le_nat_alt by (simp only:)
qed

lemma div_mult_le_u64: "(x :: u64) div y * y \<le> x"
  by (rule mult_mono_u64) simp

lemma minus_le_u64: "(y :: u64) \<le> x \<Longrightarrow> x - y \<le> x"
  by (metis word_le_nat_alt diff_le_self unat_minus_le)

lemma amount_left_le:
  assumes "sl \<noteq> 0"
  shows "(if sl < l then 0 else je - l * (je div sl)) \<le> (je :: u64)"
proof (cases "sl < l")
  case False
  then have "l * (je div sl) \<le> je" using mult_mono_u64 [of l sl je] by (simp add: mult.commute)
  with False show ?thesis by (simp add: minus_le_u64)
qed simp

text \<open>The quotation an order of a given key sees, and the conditions under which it is stable.\<close>

type_synonym key = "string \<times> string \<times> string \<times> TradePolicyCell \<times> DECLARATION_TYPE"

definition reads_gap :: "'r Env \<Rightarrow> key \<Rightarrow> 'r \<Rightarrow> QuotGap \<Rightarrow> bool" where
  "reads_gap env k r g = (case k of (z, side, c, pol, d) \<Rightarrow>
     GetCurrQuotGapByCircle (e_ptime env) (e_redis env) z side c (iQuotationMatchType pol) r = (Some (0, g), r) \<and>
     out_Cjsl g < 2 ^ 63 \<and> out_Cjje g < 2 ^ 63)"

definition tradable :: "'r Env \<Rightarrow> ('r \<Rightarrow> string \<Rightarrow> string option) \<Rightarrow> string \<Rightarrow> key \<Rightarrow> 'r \<Rightarrow> bool" where
  "tradable env view hq k r = (case k of (z, side, c, pol, d) \<Rightarrow>
     redis_hash_ok (e_redis env) view \<and> iQuotationMatchType pol = g_Quotation_Type env \<and>
     (is_buy_str side \<or> is_sell_str side) \<and> z \<noteq> [] \<and> c \<noteq> [] \<and> rest_stays d \<and>
     live_quotation (e_ptime env) view r (iQuotationMatchType pol) z side hq)"

lemma write_left_reads:
  assumes t: "tradable env view hq (order_key o1) r" and hq': "hq' \<noteq> []" "e_ptime env hq' = e_ptime env hq"
    and b: "cjsl < 2 ^ 63" "cjje < 2 ^ 63"
    and set: "SetCurrQuotGapByCircle_order (e_redis env) (g_Quotation_Type env) o1 (Get_Order_CircleID o1) cjsl cjje hq' r = (ret, r')"
  shows "ret = 0 \<and> tradable env view hq (order_key o1) r' \<and> (\<exists>g. reads_gap env (order_key o1) r' g \<and> out_Cjsl g = cjsl)"
proof -
  have h: "redis_hash_ok (e_redis env) view" "iQuotationMatchType (tradePolicy o1) = g_Quotation_Type env"
    "is_buy_str (strSide o1) \<or> is_sell_str (strSide o1)" "strStockID o1 \<noteq> []" "Get_Order_CircleID o1 \<noteq> []"
    "live_quotation (e_ptime env) view r (g_Quotation_Type env) (strStockID o1) (strSide o1) hq"
    using t by (auto simp: tradable_def order_key_def)
  have "price_left cjje cjsl * cjsl \<le> cjje" using div_mult_le_u64 by (simp add: price_left_def)
  then have "price_left cjje cjsl * cjsl < 2 ^ 63" using b(2) by (rule le_less_trans)
  with quota_write_read [OF h(1,6,3,4,5) b hq' set] b t h(2) show ?thesis
    by (auto simp: reads_gap_def tradable_def order_key_def)
qed

lemma Get_Order_CircleID_ne [simp]: "Get_Order_CircleID o1 \<noteq> []"
  by (simp add: Get_Order_CircleID_def Let_def)

definition keys_kept :: "'r Gw \<Rightarrow> 'r Gw \<Rightarrow> bool" where
  "keys_kept s s' \<longleftrightarrow> length (heap s') = length (heap s) \<and>
     (\<forall>q. order_key (msg s' q) = order_key (msg s q))"

lemma only_order_keys: "only_order p s s' \<Longrightarrow> keys_kept s s'"
  unfolding only_order_def keys_kept_def by metis

text \<open>What one call of \<open>Quot_MatchOrder\<close> takes from the quotation.\<close>

definition takes :: "MatchType \<Rightarrow> OrderMessage \<Rightarrow> nat" where
  "takes ty o1 = (if ty = MatchAll \<or> ty = MatchPart then unat (ui64Orderqty_matched o1) else 0)"

lemma Quot_MatchOrder_step:
  assumes t: "tradable env view hq (order_key (msg s p)) (redis s)" and g: "reads_gap env (order_key (msg s p)) (redis s) g"
    and p: "p < length (heap s)" and m: "Quot_MatchOrder env p s = Some (ty, s')"
  shows "keys_kept s s' \<and> tradable env view hq (order_key (msg s p)) (redis s') \<and>
    (\<exists>g'. reads_gap env (order_key (msg s p)) (redis s') g' \<and>
          unat (out_Cjsl g') + takes ty (msg s' p) = unat (out_Cjsl g))"
proof -
  let ?o = "msg s p"
  have get: "GetCurrQuotGapByCircle (e_ptime env) (e_redis env) (strStockID ?o) (strSide ?o) (Get_Order_CircleID ?o)
      (iQuotationMatchType (tradePolicy ?o)) (redis s) = (Some (0, g), redis s)"
    and bound: "out_Cjsl g < 2 ^ 63" "out_Cjje g < 2 ^ 63" using g by (simp_all add: reads_gap_def order_key_def)
  have d: "rest_stays (enDelType ?o)" using t by (simp add: tradable_def order_key_def)
  have time: "out_Hqsj g \<noteq> []" "e_ptime env (out_Hqsj g) = e_ptime env hq"
    using Get_time [OF _ _ _ _ _ get, of view hq] t by (auto simp: tradable_def order_key_def)
  obtain ty2 a b s2 where q: "Quot_MatchByMarket env p g s = Some (ty2, a, b, s2)"
    using m get by (auto simp: Quot_MatchOrder_def split: option.splits)
  from Quot_MatchByMarket_spec [OF q p d] have oo: "only_order p s s2" and
    mo: "ty2 = MatchAll \<or> ty2 = MatchPart \<Longrightarrow>
      match_outcome (enDelType ?o = deltype_ordinary_limit) (out_Cjsl g) (out_Cjje g) ?o (msg s2 p) a b \<and> enMatchType (msg s2 p) = ty2"
    by (auto simp: market_outcome_def)
  have red: "redis s2 = redis s" and key: "order_key (msg s2 p) = order_key ?o" using oo by (simp_all add: only_order_def)
  show ?thesis
  proof (cases "ty2 = MatchAll \<or> ty2 = MatchPart")
    case False
    then have "ty = ty2" "s' = s2" using m get q by (auto simp: Quot_MatchOrder_def Let_def)
    then show ?thesis using False t g red only_order_keys [OF oo] by (auto simp: takes_def)
  next
    case True
    with mo have o: "out_Cjsl g \<noteq> 0" "a = out_Cjsl g - ui64Orderqty_matched (msg s2 p)"
      "ui64Orderqty_matched (msg s2 p) = min (out_Cjsl g) (ui64LeavesQty ?o)"
      "b = (if out_Cjsl g < ui64LeavesQty ?o then 0 else out_Cjje g - ui64LeavesQty ?o * (out_Cjje g div out_Cjsl g))"
      by (auto simp: match_outcome_def price_ok_def matched_of_def)
    let ?s3 = "snd (PushBack p s2)"
    obtain r rd where set: "SetCurrQuotGapByCircle_order (e_redis env) (g_Quotation_Type env) (msg s2 p)
        (Get_Order_CircleID (msg s2 p)) a b (out_Hqsj g) (redis s2) = (r, rd)" by (metis surj_pair)
    have le: "ui64Orderqty_matched (msg s2 p) \<le> out_Cjsl g" using o(3) by simp
    have "a \<le> out_Cjsl g" using o(2) le minus_le_u64 by blast
    moreover have "b \<le> out_Cjje g" using amount_left_le [OF o(1)] o(4) by simp
    ultimately have ab: "a < 2 ^ 63" "b < 2 ^ 63" using bound by (meson le_less_trans)+
    have t2: "tradable env view hq (order_key (msg s2 p)) (redis s2)" using t red key by simp
    from write_left_reads [OF t2 time ab set] key have w: "r = 0" "tradable env view hq (order_key ?o) rd"
      "\<exists>g'. reads_gap env (order_key ?o) rd g' \<and> out_Cjsl g' = a" by simp_all
    have c: "Get_Order_CircleID (msg s2 p) = Get_Order_CircleID ?o" using key by (simp add: order_key_def)
    have "ty = ty2" "s' = ?s3\<lparr>redis := rd\<rparr>"
      using m get q True set w(1) c by (auto simp: Quot_MatchOrder_def Let_def)
    then show ?thesis
      using w only_order_keys [OF oo] True unat_minus_le [OF le] o(2) le
      by (auto simp: takes_def keys_kept_def word_le_nat_alt)
  qed
qed

text \<open>A run of calls, with the number of shares they trade.\<close>

fun quotation_run :: "'r Env \<Rightarrow> msgref list \<Rightarrow> 'r Gw \<Rightarrow> (nat \<times> 'r Gw) option" where
  "quotation_run env [] s = Some (0, s)"
| "quotation_run env (p # ps) s =
     (case Quot_MatchOrder env p s of None \<Rightarrow> None
      | Some (ty, s1) \<Rightarrow> map_option (\<lambda>(n, s2). (takes ty (msg s1 p) + n, s2)) (quotation_run env ps s1))"

text \<open>
  Two orders read the same quota when they agree in security, side, circle and quotation type;
  price, account and the rest of the policy may differ, and so may the declaration type as long as
  the rest of the order stays in the market.
\<close>

definition same_quota :: "key \<Rightarrow> key \<Rightarrow> bool" where
  "same_quota k k' \<longleftrightarrow> (case (k, k') of ((z, side, c, pol, d), (z', side', c', pol', d')) \<Rightarrow>
     z' = z \<and> side' = side \<and> c' = c \<and> iQuotationMatchType pol' = iQuotationMatchType pol \<and> rest_stays d')"

lemma same_quota_reads: "same_quota k k' \<Longrightarrow> reads_gap env k' r g \<longleftrightarrow> reads_gap env k r g"
  by (auto simp: same_quota_def reads_gap_def split: prod.splits)

lemma same_quota_tradable:
  "same_quota k k' \<Longrightarrow> case k of (z, side, c, pol, d) \<Rightarrow> rest_stays d \<Longrightarrow>
   tradable env view hq k' r \<longleftrightarrow> tradable env view hq k r"
  by (auto simp: same_quota_def tradable_def split: prod.splits)

lemma quotation_step:
  assumes q: "same_quota k (order_key (msg s p))" and t: "tradable env view hq k (redis s)" and g: "reads_gap env k (redis s) g"
    and p: "p < length (heap s)" and m: "Quot_MatchOrder env p s = Some (ty, s')"
  shows "keys_kept s s' \<and> tradable env view hq k (redis s') \<and>
    (\<exists>g'. reads_gap env k (redis s') g' \<and> unat (out_Cjsl g') + takes ty (msg s' p) = unat (out_Cjsl g))"
proof -
  have "case k of (z, side, c, pol, d) \<Rightarrow> rest_stays d" using t by (auto simp: tradable_def)
  note tr = same_quota_tradable [OF q this] and rd = same_quota_reads [OF q]
  show ?thesis
    using Quot_MatchOrder_step [OF t [folded tr] g [folded rd] p m] unfolding tr rd .
qed

lemma same_quota_kept:
  assumes "keys_kept s s'" and "\<forall>q\<in>set (p # ps). q < length (heap s) \<and> same_quota k (order_key (msg s q))"
  shows "\<forall>q\<in>set ps. q < length (heap s') \<and> same_quota k (order_key (msg s' q))"
proof -
  have "length (heap s') = length (heap s)" "order_key (msg s' q) = order_key (msg s q)" for q
    using assms(1) by (simp_all add: keys_kept_def)
  then show ?thesis using assms(2) by simp
qed

text \<open>
  C2.  Refinement of the abstract quota, a number of shares that every trade lowers by what it
  takes: however many orders that read the same quota are matched one after the other against a
  live quotation, what they trade and what the circle can still read add up to what was offered at
  first, so the quotation is never oversold.  The orders agree in security, side, circle and
  quotation type; they differ in everything else, with declaration types whose rest stays in the
  market (\<open>rest_stays\<close>).  Their quotation type is the configured one (else what is left is written
  where they do not read it, \<open>quota_type_mismatch\<close>), the quotation is live, and the amounts it
  offers are below 2 to the 63rd (\<open>tradable\<close>, \<open>reads_gap\<close>).
\<close>

theorem quotation_not_oversold:
  assumes "\<forall>p\<in>set ps. p < length (heap s) \<and> same_quota k (order_key (msg s p))"
    and "tradable env view hq k (redis s)" and "reads_gap env k (redis s) g"
    and "quotation_run env ps s = Some (n, s')"
  shows "n \<le> unat (out_Cjsl g) \<and>
    (\<exists>g'. reads_gap env k (redis s') g' \<and> unat (out_Cjsl g') + n = unat (out_Cjsl g))"
proof -
  have "\<exists>g'. reads_gap env k (redis s') g' \<and> unat (out_Cjsl g') + n = unat (out_Cjsl g)"
    using assms
  proof (induction ps arbitrary: s g n)
    case (Cons p ps)
    have p: "p < length (heap s)" and k: "same_quota k (order_key (msg s p))" using Cons.prems(1) by simp_all
    from Cons.prems(4) obtain ty s1 n2 where m: "Quot_MatchOrder env p s = Some (ty, s1)"
      and r: "quotation_run env ps s1 = Some (n2, s')" and n: "n = takes ty (msg s1 p) + n2"
      by (auto split: option.splits)
    from quotation_step [OF k Cons.prems(2,3) p m] obtain g1 where
      s1: "keys_kept s s1" "tradable env view hq k (redis s1)" "reads_gap env k (redis s1) g1"
      and g1: "unat (out_Cjsl g1) + takes ty (msg s1 p) = unat (out_Cjsl g)" by auto
    from Cons.IH [OF same_quota_kept [OF s1(1) Cons.prems(1)] s1(2,3) r] obtain g' where
      "reads_gap env k (redis s') g'" "unat (out_Cjsl g') + n2 = unat (out_Cjsl g1)" by blast
    then show ?case using g1 n by auto
  qed auto
  then show ?thesis by auto
qed

section \<open>A gateway with two purchases\<close>

definition sample_env :: "(string \<Rightarrow> string option) Env" where
  "sample_env = \<lparr>e_loader = \<lambda>_ _. None, e_clock = 0, e_redis = hash_server, e_ptime = sample_ptime,
     e_hash = \<lambda>_. 0, e_random15 = ''123'', e_trade_time = ''t'', g_Quotation_Type = AveragePrice\<rparr>"

definition sample_buy_order :: "DECLARATION_TYPE \<Rightarrow> u64 \<Rightarrow> OrderMessage" where
  "sample_buy_order d n = OrderMessage_new\<lparr>iSide := 1, enDelType := d, ui64Orderqty_origin := n, ui64LeavesQty := n,
     ui64mOrderPrice := 10100, strTrade_market := TRADE_MARKET_SH, iTrade_type := a_trade,
     strClordid := ''7'', strOrderqty_origin := itos n, strSide := STEPMSG_SIDE_BUY_1, strStockID := ''600000''\<rparr>"

definition sample_gw :: "OrderMessage list \<Rightarrow> (string \<Rightarrow> string option) Gw" where
  "sample_gw os = \<lparr>heap = os, tasks = Map.empty, g_uidTaskGen = 1,
     g_mtskPool_match_cancel = [TaskPriorityQueue_new, TaskPriorityQueue_new],
     g_outMsg_buffer = OutMemoryManage_new, stock = empty_cache, ui64ExecID = 0, redis = sample_hash,
     counter_sz = \<lparr>cnt_MatchAll = 0, cnt_MatchPart = 0\<rparr>, counter_sh = \<lparr>cnt_MatchAll = 0, cnt_MatchPart = 0\<rparr>\<rparr>"

definition two_orders :: "OrderMessage list" where
  "two_orders = [sample_buy_order deltype_ordinary_limit 200, sample_buy_order deltype_the_side_optimal 400]"

text \<open>Without a check of assets a match always returns.\<close>

lemma each_component_total: "\<forall>c\<in>set cs. \<forall>s. f c s \<noteq> None \<Longrightarrow> each_component f cs s \<noteq> None"
  by (induction cs arbitrary: s) (auto split: option.splits)

lemma UpdateAfterTrade_unchecked:
  assumes "\<not> bCheck_Assets (tradePolicy o1)"
  shows "UserStockHelper_UpdateAfterTrade ld t o1 st \<noteq> None"
proof -
  have "crt_component ld t o1 c s \<noteq> None" "rdp_component ld t o1 c s \<noteq> None" for c s
    using assms by (auto simp: crt_component_def rdp_component_def)
  then have "each_component (crt_component ld t o1) cs s \<noteq> None" "each_component (rdp_component ld t o1) cs s \<noteq> None" for cs s
    using each_component_total by blast+
  note all = this [of "vecFrozeComponent o1" st]
  then have "UserStockHelper_UpdateETFCrtRdp ld t o1 st \<noteq> None"
    using assms by (auto simp: UserStockHelper_UpdateETFCrtRdp_def split: option.splits)
  then show ?thesis
    using assms by (auto simp: UserStockHelper_UpdateAfterTrade_def UserStockHelper_UpdateTrade_def)
qed

lemma after_match_unchecked:
  assumes "\<not> bCheck_Assets (tradePolicy (msg s p))"
  shows "after_match env p s \<noteq> None"
  using UpdateAfterTrade_unchecked [OF assms]
  by (auto simp: after_match_def UpdateAfterTrade_def split: option.splits)

lemma match_quotation_unchecked:
  assumes "\<not> bCheck_Assets (tradePolicy (msg s p))" and "sl \<noteq> 0" and p: "p < length (heap s)"
  shows "match_quotation lim False env p sl je s \<noteq> None"
proof -
  from assms(2) have "Check_Match_Method (msg s p) sl je lim \<noteq> None"
    by (auto simp: Check_Match_Method_def Let_def simp del: not_None_eq)
  then obtain r o1 where c: "Check_Match_Method (msg s p) sl je lim = Some (r, o1)" by auto
  have pol: "tradePolicy o1 = tradePolicy (msg s p)" using Check_Method_order [OF c] by (simp add: order_key_def)
  have t: "tradePolicy (fill_part x y o1) = tradePolicy o1" "tradePolicy (fill_all x o1) = tradePolicy o1" for x y o1
    by (simp_all add: fill_part_def fill_all_def Let_def)
  have "after_match env p (modify_msg p (fill_part sl (je div sl)) (put_msg p o1 s)) \<noteq> None"
    "after_match env p (modify_msg p (fill_all (je div sl)) (put_msg p o1 s)) \<noteq> None"
    using assms(1) p pol by (intro after_match_unchecked; simp add: modify_msg_def t)+
  then show ?thesis using c by (simp add: match_quotation_def Let_def del: not_None_eq split: option.splits)
qed

lemma Quot_MatchByMarket_unchecked:
  assumes "\<not> bCheck_Assets (tradePolicy (msg s p))" and p: "p < length (heap s)"
    and d: "rest_stays (enDelType (msg s p))"
  shows "Quot_MatchByMarket env p g s \<noteq> None"
proof -
  let ?o = "(msg s p)\<lparr>enMatchType := NotMatch\<rparr>" and ?s0 = "modify_msg p (\<lambda>o1. o1\<lparr>enMatchType := NotMatch\<rparr>) s"
  have s0: "msg ?s0 p = ?o" "length (heap ?s0) = length (heap s)" using p by (simp_all add: modify_msg_def)
  obtain r o1 where t: "CheckTPBZ ?o (out_Tpbz g) = (r, o1)" by (metis surj_pair)
  obtain r2 o2 where c: "Check_MaxGain_And_MinFall o1 (out_MaxGain g) (out_MinFall g) = (r2, o2)" by (metis surj_pair)
  have k: "tradePolicy o1 = tradePolicy (msg s p)" "tradePolicy o2 = tradePolicy (msg s p)" "enDelType o1 = enDelType (msg s p)"
    using CheckTPBZ_key [OF t] Check_Limits_key [OF c] by (simp_all add: order_key_def)
  have "match_quotation lim False env p (out_Cjsl g) je (put_msg p o1 ?s0) \<noteq> None"
    "match_quotation lim False env p (out_Cjsl g) je (put_msg p o2 (put_msg p o1 ?s0)) \<noteq> None"
    if "out_Cjsl g \<noteq> 0" for lim je
    using assms(1) that p s0(2) k by (intro match_quotation_unchecked; simp)+
  then show ?thesis
    using d unfolding rest_stays_def
    by (elim insertE emptyE disjE; simp add: Quot_MatchByMarket_def Let_def s0(1) t c k Match_Ordinary_Limit_def Match_Optimal_def
        del: not_None_eq)
qed

lemma quotation_run_unchecked:
  assumes "\<forall>p\<in>set ps. p < length (heap s) \<and> same_quota k (order_key (msg s p))" and "tradable env view hq k (redis s)"
    and "reads_gap env k (redis s) g" and "\<forall>p\<in>set ps. \<not> bCheck_Assets (tradePolicy (msg s p))"
  shows "quotation_run env ps s \<noteq> None"
  using assms
proof (induction ps arbitrary: s g)
  case (Cons p ps)
  have p: "p < length (heap s)" and k: "same_quota k (order_key (msg s p))" using Cons.prems(1) by simp_all
  have "\<not> bCheck_Assets (tradePolicy (msg s p))" "rest_stays (enDelType (msg s p))"
    using Cons.prems(4) k by (auto simp: same_quota_def order_key_def split: prod.splits)
  then have "Quot_MatchByMarket env p g s \<noteq> None" using Quot_MatchByMarket_unchecked p by blast
  then have "Quot_MatchOrder env p s \<noteq> None"
    using Cons.prems(3) [folded same_quota_reads [OF k]]
    by (auto simp: Quot_MatchOrder_def reads_gap_def order_key_def Let_def split: prod.splits)
  then obtain ty s1 where m: "Quot_MatchOrder env p s = Some (ty, s1)" by auto
  from quotation_step [OF k Cons.prems(2,3) p m] obtain g1 where
    s1: "keys_kept s s1" "tradable env view hq k (redis s1)" "reads_gap env k (redis s1) g1" by auto
  note kept = same_quota_kept [OF s1(1) Cons.prems(1)]
  have "\<forall>q\<in>set ps. \<not> bCheck_Assets (tradePolicy (msg s1 q))"
    using Cons.prems(4) s1(1) by (auto simp: keys_kept_def order_key_def)
  from Cons.IH [OF kept s1(2,3) this] show ?case using m by auto
qed simp

definition sample_key :: key where
  "sample_key = (''600000'', STEPMSG_SIDE_BUY_1, ''C1'', TradePolicyCell_new, deltype_ordinary_limit)"

lemma sample_two:
  "\<forall>p\<in>set [0, 1]. p < length (heap (sample_gw two_orders)) \<and> same_quota sample_key (order_key (msg (sample_gw two_orders) p))"
  by (simp add: sample_gw_def two_orders_def sample_buy_order_def order_key_def sample_key_def OrderMessage_new_def
      Get_Order_CircleID_def same_quota_def rest_stays_def)

lemma sample_tradable: "tradable sample_env (\<lambda>m. m) ''2017-04-13 14:01:06'' sample_key (redis (sample_gw os))"
  using sample_live
  by (simp add: tradable_def sample_key_def sample_env_def sample_gw_def hash_server_ok TradePolicyCell_new_def
      is_buy_str_def rest_stays_def)

lemma sample_strings:
  "snd (String2UInt64_strtoui64 ''500'') = 500" "snd (String2UInt64_strtoui64 ''5000000'') = 5000000"
  "snd (String2UInt64_strtoui64 ''11000'') = 11000" "snd (String2UInt64_strtoui64 ''9000'') = 9000"
  by (simp_all add: String2UInt64_strtoui64_def strtoll_def scan_number_def c_str_def is_space_def is_digit_def of_char_def)

definition sample_gap :: QuotGap where
  "sample_gap = \<lparr>out_MaxGain = 11000, out_MinFall = 9000, out_Cjsl = 500, out_Cjje = 5000000,
     out_Hqsj = ''2017-04-13 14:01:06'', out_Tpbz = ''F''\<rparr>"

lemma sample_read:
  "GetCurrQuotGapByCircle sample_ptime hash_server ''600000'' STEPMSG_SIDE_BUY_1 ''C1'' AveragePrice sample_hash =
     (Some (0, sample_gap), sample_hash)"
proof -
  have "GetCurrQuotGapByCircle sample_ptime hash_server ''600000'' STEPMSG_SIDE_BUY_1 ''C1'' AveragePrice sample_hash =
     (read_gap sample_ptime (quot_amount AveragePrice) (RedisReply_array
        [''11000'', ''9000'', ''500'', ''5000000'', ''2017-04-13 14:01:06'', ''F'', [], [], []]), sample_hash)"
    by (subst Get_fields [OF hash_server_ok, of _ _ _ _ "''CJSL''" "''CJJE''"])
      (simp_all add: quot_names_def field_of_def sample_hash_def)
  also have "read_gap sample_ptime (quot_amount AveragePrice) (RedisReply_array
      [''11000'', ''9000'', ''500'', ''5000000'', ''2017-04-13 14:01:06'', ''F'', [], [], []]) = Some (0, sample_gap)"
    by (simp add: read_gap_def quot_amount_def sample_strings sample_gap_def)
  finally show ?thesis .
qed

lemma sample_reads: "reads_gap sample_env sample_key (redis (sample_gw os)) sample_gap"
proof -
  have "e_ptime sample_env = sample_ptime" "e_redis sample_env = hash_server" "redis (sample_gw os) = sample_hash"
    by (simp_all add: sample_env_def sample_gw_def)
  moreover have "iQuotationMatchType TradePolicyCell_new = AveragePrice" by (simp add: TradePolicyCell_new_def)
  ultimately show ?thesis
    unfolding reads_gap_def sample_key_def prod.case using sample_read by (simp add: sample_gap_def)
qed

lemma quotation_not_oversold_witness:
  "\<exists>n s'. quotation_run sample_env [0, 1] (sample_gw two_orders) = Some (n, s') \<and> n \<le> 500"
proof -
  note g = sample_reads [of two_orders]
  have "quotation_run sample_env [0, 1] (sample_gw two_orders) \<noteq> None"
    by (rule quotation_run_unchecked [OF sample_two sample_tradable g])
      (simp add: sample_gw_def two_orders_def sample_buy_order_def OrderMessage_new_def TradePolicyCell_new_def)
  then obtain n s' where r: "quotation_run sample_env [0, 1] (sample_gw two_orders) = Some (n, s')" by auto
  show ?thesis using quotation_not_oversold [OF sample_two sample_tradable g r] r by (auto simp: sample_gap_def)
qed

section \<open>An acceptable order trades\<close>

lemma match_quotation_trades:
  assumes "\<not> bCheck_Assets (tradePolicy (msg s p))" and p: "p < length (heap s)" and ok: "price_ok lim sl je (msg s p)"
  obtains a b s' where "match_quotation lim False env p sl je s = Some (a, b, s')"
    and "enMatchType (msg s' p) = (if sl < ui64LeavesQty (msg s p) then MatchPart else MatchAll)"
proof -
  have c: "Check_Match_Method (msg s p) sl je lim = Some (0, msg s p)"
    using ok by (auto simp: price_ok_def Check_Match_Method_def Let_def not_less)
  have "sl \<noteq> 0" using ok by (simp add: price_ok_def)
  from match_quotation_unchecked [OF assms(1) this p, of lim env je] obtain a b s' where
    m: "match_quotation lim False env p sl je s = Some (a, b, s')" by auto
  have "matched_of sl je (msg s p) (msg s' p)"
  proof (cases "sl < ui64LeavesQty (msg s p)")
    case True
    then have "after_match env p (modify_msg p (fill_part sl (je div sl)) (put_msg p (msg s p) s)) = Some s'"
      using m c by (auto simp: match_quotation_def Let_def split: option.splits)
    from after_fill [OF this p matched_of_fill_part [OF True] fill_key(1)] show ?thesis by simp
  next
    case False
    then have "after_match env p (modify_msg p (fill_all (je div sl)) (put_msg p (msg s p) s)) = Some s'"
      using m c by (auto simp: match_quotation_def Let_def split: option.splits)
    from after_fill [OF this p matched_of_fill_all [OF False] fill_key(2)] show ?thesis by simp
  qed
  then show ?thesis using that [OF m] by (simp add: matched_of_def)
qed

text \<open>The conditions under which the checks let a limit order through.\<close>

definition acceptable :: "QuotGap \<Rightarrow> OrderMessage \<Rightarrow> bool" where
  "acceptable g o1 \<longleftrightarrow> out_Tpbz g = ''F'' \<and> out_Cjje g \<noteq> 0 \<and> price_ok True (out_Cjsl g) (out_Cjje g) o1 \<and>
     (out_MaxGain g = 0 \<and> out_MinFall g = 0 \<or>
      out_MinFall g \<le> ui64mOrderPrice o1 \<and> ui64mOrderPrice o1 \<le> out_MaxGain g)"

lemma acceptable_order_trades:
  assumes d: "enDelType (msg s p) = deltype_ordinary_limit" and a: "acceptable g (msg s p)"
    and chk: "\<not> bCheck_Assets (tradePolicy (msg s p))" and p: "p < length (heap s)"
  obtains a b s' where "Quot_MatchByMarket env p g s =
    Some (if out_Cjsl g < ui64LeavesQty (msg s p) then MatchPart else MatchAll, a, b, s')"
proof -
  let ?o = "(msg s p)\<lparr>enMatchType := NotMatch\<rparr>" and ?s0 = "modify_msg p (\<lambda>o1. o1\<lparr>enMatchType := NotMatch\<rparr>) s"
  let ?s2 = "put_msg p ?o (put_msg p ?o ?s0)"
  have s0: "msg ?s0 p = ?o" "length (heap ?s0) = length (heap s)" using p by (simp_all add: modify_msg_def)
  have t: "CheckTPBZ ?o (out_Tpbz g) = (0, ?o)" using a by (simp add: CheckTPBZ_def acceptable_def)
  have c: "Check_MaxGain_And_MinFall ?o (out_MaxGain g) (out_MinFall g) = (0, ?o)"
    using a by (auto simp: Check_MaxGain_And_MinFall_def acceptable_def)
  have m2: "msg ?s2 p = ?o" "p < length (heap ?s2)" using p s0 by simp_all
  obtain a' b s' where "match_quotation True False env p (out_Cjsl g) (out_Cjje g) ?s2 = Some (a', b, s')"
    "enMatchType (msg s' p) = (if out_Cjsl g < ui64LeavesQty (msg ?s2 p) then MatchPart else MatchAll)"
    by (rule match_quotation_trades [of ?s2 p True "out_Cjsl g" "out_Cjje g" env])
      (use chk a p s0 in \<open>simp_all add: acceptable_def\<close>)
  moreover have "out_Cjsl g \<noteq> 0" "out_Cjje g \<noteq> 0" using a by (auto simp: acceptable_def price_ok_def)
  ultimately have "Quot_MatchByMarket env p g s =
    Some (if out_Cjsl g < ui64LeavesQty (msg s p) then MatchPart else MatchAll, a', b, s')"
    unfolding m2(1) by (simp add: Quot_MatchByMarket_def Let_def s0(1) t c d Match_Ordinary_Limit_def)
  then show ?thesis by (rule that)
qed

lemma sample_gw_order: "msg (sample_gw two_orders) 0 = sample_buy_order deltype_ordinary_limit 200" "0 < length (heap (sample_gw two_orders))"
  by (simp_all add: sample_gw_def two_orders_def)

lemma sample_buy_sel:
  "enDelType (sample_buy_order d n) = d" "tradePolicy (sample_buy_order d n) = TradePolicyCell_new"
  "ui64LeavesQty (sample_buy_order d n) = n" "ui64mOrderPrice (sample_buy_order d n) = 10100" "iSide (sample_buy_order d n) = 1"
  by (simp_all add: sample_buy_order_def OrderMessage_new_def)

lemma sample_acceptable: "acceptable sample_gap (sample_buy_order deltype_ordinary_limit n)"
  by (simp add: acceptable_def sample_gap_def price_ok_def sample_buy_sel)

lemma Quot_MatchByMarket_fair_witness:
  "\<exists>a b s'. Quot_MatchByMarket sample_env 0 sample_gap (sample_gw two_orders) = Some (MatchAll, a, b, s') \<and>
     ui64Orderqty_matched (msg s' 0) = 200 \<and> unat a = 300 \<and> ui64mPrice_matched (msg s' 0) = 10000"
proof -
  have "acceptable sample_gap (msg (sample_gw two_orders) 0)" using sample_acceptable by (simp add: sample_gw_order)
  then obtain a b s' where m: "Quot_MatchByMarket sample_env 0 sample_gap (sample_gw two_orders) =
    Some (if out_Cjsl sample_gap < ui64LeavesQty (msg (sample_gw two_orders) 0) then MatchPart else MatchAll, a, b, s')"
    by (rule acceptable_order_trades [rotated]) (use sample_gw_order in \<open>simp_all add: sample_buy_sel TradePolicyCell_new_def\<close>)
  then have m: "Quot_MatchByMarket sample_env 0 sample_gap (sample_gw two_orders) = Some (MatchAll, a, b, s')"
    by (simp add: sample_gw_order sample_buy_sel sample_gap_def)
  from Quot_MatchByMarket_fair [OF m sample_gw_order(2)] show ?thesis
    using m by (auto simp: sample_gw_order(1) sample_buy_sel rest_stays_def sample_gap_def min_def)
qed

text \<open>
  C28.  A limit order whose assets are not checked does trade when the quotation its circle reads can
  serve it, and its report reaches the outgoing buffer: the match returns, is complete exactly when
  enough is offered, pushes the order once and touches no other order.  The order's quotation type
  is the configured one, the quotation is live and its amounts are below 2 to the 63rd (\<open>tradable\<close>,
  \<open>reads_gap\<close>), the security is not suspended, and the price is within the limits of the day and not
  worse than the quotation's (\<open>acceptable\<close>).
\<close>

theorem acceptable_order_reported:
  assumes t: "tradable env view hq (order_key (msg s p)) (redis s)" and g: "reads_gap env (order_key (msg s p)) (redis s) g"
    and d: "enDelType (msg s p) = deltype_ordinary_limit" and a: "acceptable g (msg s p)"
    and chk: "\<not> bCheck_Assets (tradePolicy (msg s p))" and p: "p < length (heap s)"
  shows "\<exists>s'. Quot_MatchOrder env p s =
      Some (if out_Cjsl g < ui64LeavesQty (msg s p) then MatchPart else MatchAll, s') \<and>
    g_outMsg_buffer s' = snd (OutMemoryManage_PushBack (msg s') p (g_outMsg_buffer s)) \<and>
    (\<forall>q. q \<noteq> p \<longrightarrow> msg s' q = msg s q)"
proof -
  let ?o = "msg s p" and ?ty = "if out_Cjsl g < ui64LeavesQty (msg s p) then MatchPart else MatchAll"
  have get: "GetCurrQuotGapByCircle (e_ptime env) (e_redis env) (strStockID ?o) (strSide ?o) (Get_Order_CircleID ?o)
      (iQuotationMatchType (tradePolicy ?o)) (redis s) = (Some (0, g), redis s)" using g by (simp add: reads_gap_def order_key_def)
  obtain a b s2 where q: "Quot_MatchByMarket env p g s = Some (?ty, a, b, s2)"
    by (rule acceptable_order_trades [OF d a chk p])
  have oo: "only_order p s s2"
    using Quot_MatchByMarket_spec [OF q p] d by (simp add: rest_stays_def market_outcome_def)
  obtain s' where m: "Quot_MatchOrder env p s = Some (?ty, s')"
    and s': "heap s' = heap s2" "g_outMsg_buffer s' = g_outMsg_buffer (snd (PushBack p s2))"
  proof -
    let ?s3 = "snd (PushBack p s2)"
    obtain r rd where set: "SetCurrQuotGapByCircle_order (e_redis env) (g_Quotation_Type env) (msg s2 p)
        (Get_Order_CircleID (msg s2 p)) a b (out_Hqsj g) (redis s2) = (r, rd)" by (metis surj_pair)
    have c: "Get_Order_CircleID (msg s2 p) = Get_Order_CircleID ?o" "redis s2 = redis s"
      using oo by (simp_all add: only_order_def order_key_def)
    have "redis_hash_ok (e_redis env) view" "is_buy_str (strSide (msg s2 p)) \<or> is_sell_str (strSide (msg s2 p))"
      using t oo by (auto simp: tradable_def only_order_def order_key_def)
    from Set_order_fields [OF this set] have "r = 0" by simp
    then show ?thesis using that [of "?s3\<lparr>redis := rd\<rparr>"] get q set c
      by (auto simp: Quot_MatchOrder_def Let_def)
  qed
  have "snd (PushBack p s2) = s2\<lparr>g_outMsg_buffer := snd (OutMemoryManage_PushBack (msg s2) p (g_outMsg_buffer s2))\<rparr>"
    by (simp add: PushBack_def split: prod.splits)
  then show ?thesis using m s' oo by (auto simp: only_order_def)
qed

lemma acceptable_order_reported_witness:
  "\<exists>s'. Quot_MatchOrder sample_env 0 (sample_gw two_orders) = Some (MatchAll, s') \<and>
     g_outMsg_buffer s' = snd (OutMemoryManage_PushBack (msg s') 0 OutMemoryManage_new) \<and>
     msg s' 1 = msg (sample_gw two_orders) 1"
proof -
  let ?s = "sample_gw two_orders"
  have k: "order_key (msg ?s 0) = sample_key"
    by (simp add: sample_gw_order sample_buy_order_def order_key_def sample_key_def OrderMessage_new_def Get_Order_CircleID_def)
  have t: "tradable sample_env (\<lambda>m. m) ''2017-04-13 14:01:06'' (order_key (msg ?s 0)) (redis ?s)"
    and g: "reads_gap sample_env (order_key (msg ?s 0)) (redis ?s) sample_gap"
    unfolding k by (fact sample_tradable, fact sample_reads)
  have a: "acceptable sample_gap (msg ?s 0)" "enDelType (msg ?s 0) = deltype_ordinary_limit"
    "\<not> bCheck_Assets (tradePolicy (msg ?s 0))" "ui64LeavesQty (msg ?s 0) = 200"
    using sample_acceptable by (simp_all only: sample_gw_order sample_buy_sel) (simp add: TradePolicyCell_new_def)
  have "g_outMsg_buffer ?s = OutMemoryManage_new" by (simp add: sample_gw_def)
  then show ?thesis
    using acceptable_order_reported [OF t g a(2,1,3) sample_gw_order(2)] a(4) by (auto simp: sample_gap_def)
qed

end
