(* ===== verification/MatchTasks.thy ===== *)
theory MatchTasks
  imports ABStockMatch
begin

text \<open>
  The other tasks of the matching threads, \<open>simutgw/work_manage/Task_CancelOrder.cpp\<close>,
  \<open>Task_Etf_Match.cpp\<close>, \<open>Task_ShRule_Match.cpp\<close> and \<open>Task_SzRule_Match.cpp\<close>, and the body of the
  thread's loop, \<open>PriorityThread::Run\<close>: take a task and process it.  Taking a task and processing it
  are one step here; a task only touches the queue of its own thread, the store of messages, the
  holdings and the outgoing buffer.  As before \<open>None\<close> is undefined behaviour.
\<close>

section \<open>Cancellations\<close>

text \<open>\<open>pc\<close> is the address of the cancellation, \<open>q\<close> that of the order found in the queue.\<close>

definition ProcCancelFail_OrigNotFound :: "msgref \<Rightarrow> 'r Gw \<Rightarrow> int \<times> 'r Gw" where
  "ProcCancelFail_OrigNotFound pc s = PushBack pc (modify_msg pc (\<lambda>c.
     c\<lparr>strIsProc := ''1'', enMatchType := CancelMatch, strOrdStatus := ''8'', strCxlRejReason := ''20097''\<rparr>) s)"

definition ProcCancelFail_OrigIsProc :: "msgref \<Rightarrow> 'r Gw \<Rightarrow> int \<times> 'r Gw" where
  "ProcCancelFail_OrigIsProc pc s = PushBack pc (modify_msg pc (\<lambda>c.
     c\<lparr>strMsgType := STEPMSG_MSGTYPE_CANCELREJECT, enMatchType := CancelMatch, strOrdStatus := ''2'',
       strCxlRejReason := ''20096''\<rparr>) s)"

definition cancelled_order :: "OrderMessage \<Rightarrow> OrderMessage \<Rightarrow> OrderMessage" where
  "cancelled_order c o1 =
     (let num = (\<lambda>x. snd (String2UInt64_strtoui64 x)); leaves = strLeavesQty o1;
          origin = num (strOrderqty_origin o1)
      in o1\<lparr>strIsProc := ''1'', enMatchType := CancelMatch, strMsgType := STEPMSG_MSGTYPE_EXECREPORT,
         strExecType := STEPMSG_EXECTYPE_CANCEL, strOrdStatus := STEPMSG_ORDSTATUS_CANCEL,
         strOrigClordid := strOrigClordid c, strClordid := strClordid c,
         strLastPx := ''0.0000'', ui64mPrice_matched := num ''0.0000'',
         ui64Orderqty_unmatched := num leaves, ui64Orderqty_origin := origin,
         strLastQty := leaves, ui64Orderqty_matched := num leaves, strLeavesQty := ''0'',
         strCumQty := itos (origin - num leaves)\<rparr>)"

definition ProcCancelSuccess :: "'r Env \<Rightarrow> msgref \<Rightarrow> msgref \<Rightarrow> 'r Gw \<Rightarrow> int \<times> 'r Gw" where
  "ProcCancelSuccess env pc q s =
     PushBack q (set_exec_ids env q (modify_msg q (cancelled_order (msg s pc)) s))"

text \<open>
  \<open>tc\<close> is the cancellation's task and \<open>i\<close> the queue it was put into, None when it has none.  The
  cast of the task found to \<open>Task_ABStockMatch\<close> is a null pointer for every other kind.
\<close>

definition ProcSingleCancelOrder ::
  "'r Env \<Rightarrow> nat option \<Rightarrow> TaskPriorityBase \<Rightarrow> msgref \<Rightarrow> 'r Gw \<Rightarrow> (int \<times> 'r Gw) option" where
  "ProcSingleCancelOrder env i tc pc s =
     (case i of None \<Rightarrow> Some (ProcCancelFail_OrigIsProc pc s)
      | Some i \<Rightarrow>
         (case TaskPriorityQueue_DeleteIfHaveTask (m_iKey tc) (strOrigClordid (msg s pc))
                 (g_mtskPool_match_cancel s ! i) of
            (iRes, found, q') \<Rightarrow>
              let s1 = s\<lparr>g_mtskPool_match_cancel := (g_mtskPool_match_cancel s)[i := q']\<rparr> in
              if iRes = 1 then Some (ProcCancelFail_OrigIsProc pc s1)
              else (case found of None \<Rightarrow> None
                | Some t \<Rightarrow> (case tasks s1 (m_uiId t) of
                     Some (Task_ABStockMatch, q) \<Rightarrow>
                       (case ProcCancelSuccess env pc q s1 of (r, s2) \<Rightarrow>
                          if r = 0 \<and> bCheck_Assets (tradePolicy (msg s2 q))
                          then map_option (\<lambda>(r3, st). (r3, s2\<lparr>stock := st\<rparr>))
                                 (UserStockHelper_UpdateAfterCancel (e_clock env) (msg s2 q) (stock s2))
                          else Some (r, s2))
                   | _ \<Rightarrow> None))))"

text \<open>The cancellation without a request of the task itself, which no caller uses.\<close>

definition Task_CancelOrder_Without_Request :: "'r Env \<Rightarrow> msgref \<Rightarrow> 'r Gw \<Rightarrow> int \<times> 'r Gw" where
  "Task_CancelOrder_Without_Request env pc s =
     PushBack pc (set_exec_ids env pc (modify_msg pc (\<lambda>c. c\<lparr>strIsProc := ''1'', enMatchType := CancelMatch,
       strMsgType := STEPMSG_MSGTYPE_EXECREPORT, strExecType := STEPMSG_EXECTYPE_CANCEL,
       strOrdStatus := STEPMSG_ORDSTATUS_CANCEL, strLastPx := ''0.0000'',
       ui64Orderqty_origin := snd (String2UInt64_strtoui64 (strOrderqty_origin c)),
       strLastQty := strLeavesQty c, strCumQty := strLeavesQty c, strCashorderqty := ''0''\<rparr>) s))"

section \<open>ETF creation and redemption, rule orders\<close>

text \<open>\<open>TradeMatch\<close> always fills the order, at its own price.\<close>

definition TradeMatch :: "'r Env \<Rightarrow> msgref \<Rightarrow> 'r Gw \<Rightarrow> (MatchType \<times> 'r Gw) option" where
  "TradeMatch env p s =
     (let s1 = modify_msg p (\<lambda>o1. fill_all (ui64mOrderPrice o1) o1) s;
          s2 = modify_msg p (\<lambda>o1. o1\<lparr>strTrade_time := e_trade_time env\<rparr>) (set_exec_ids env p s1)
      in map_option (\<lambda>s3. (MatchAll, snd (PushBack p s3))) (UpdateAfterTrade env p s2))"

definition Task_Etf_MatchOrder :: "'r Env \<Rightarrow> msgref \<Rightarrow> 'r Gw \<Rightarrow> (int \<times> 'r Gw) option" where
  "Task_Etf_MatchOrder env p s =
     (let reject = (\<lambda>s'. Some (-1, snd (PushBack p (modify_msg p (\<lambda>o1. o1\<lparr>enMatchType := ErrorMatch\<rparr>) s'))))
      in if strSide (msg s p) \<noteq> ''D'' \<and> strSide (msg s p) \<noteq> ''E'' then Some (-1, s)
      else (case TradeMatch env p s of None \<Rightarrow> None
        | Some (iMatchRes, s1) \<Rightarrow>
           (case iMatchRes of
              MatchAll \<Rightarrow> Some (0, Inc_MatchAll (strTrade_market (msg s1 p)) s1)
            | MatchPart \<Rightarrow> Some (0, snd (PushBack p s1))
            | NotMatch \<Rightarrow> map_option (\<lambda>(_, s2). (0, s2)) (GenTask_Match env p s1)
            | OutOfRange \<Rightarrow> reject s1 | StopTrans \<Rightarrow> reject s1 | ErrorMatch \<Rightarrow> reject s1
            | CancelMatch \<Rightarrow> Some (0, s1))))"

definition Task_ShRule_MatchOrder :: "msgref \<Rightarrow> 'r Gw \<Rightarrow> int \<times> 'r Gw" where
  "Task_ShRule_MatchOrder p s = (0, snd (PushBack p (modify_msg p (\<lambda>o1. o1\<lparr>enMatchType := MatchAll\<rparr>) s)))"

definition Task_SzRule_MatchOrder :: "msgref \<Rightarrow> 'r Gw \<Rightarrow> int \<times> 'r Gw" where
  "Task_SzRule_MatchOrder p s = (0, snd (PushBack p (modify_msg p (\<lambda>o1. o1\<lparr>enMatchType := MatchAll\<rparr>) s)))"

section \<open>The loop of a thread\<close>

definition TaskProc ::
  "'r Env \<Rightarrow> nat \<Rightarrow> TaskKind \<Rightarrow> TaskPriorityBase \<Rightarrow> msgref \<Rightarrow> 'r Gw \<Rightarrow> (int \<times> 'r Gw) option" where
  "TaskProc env i k t p s =
     (case k of Task_ABStockMatch \<Rightarrow> MatchOrder env p s
      | Task_Etf_Match \<Rightarrow> Task_Etf_MatchOrder env p s
      | Task_ShRule_Match \<Rightarrow> Some (Task_ShRule_MatchOrder p s)
      | Task_SzRule_Match \<Rightarrow> Some (Task_SzRule_MatchOrder p s)
      | Task_CancelOrder \<Rightarrow> ProcSingleCancelOrder env (Some i) t p s)"

text \<open>One pass of the inner loop; the flag says whether the loop goes on.\<close>

definition thread_step :: "'r Env \<Rightarrow> nat \<Rightarrow> 'r Gw \<Rightarrow> (bool \<times> 'r Gw) option" where
  "thread_step env i s =
     (case TaskPriorityQueue_GetTask (g_mtskPool_match_cancel s ! i) of
        (iRes, out, q') \<Rightarrow>
          let s1 = s\<lparr>g_mtskPool_match_cancel := (g_mtskPool_match_cancel s)[i := q']\<rparr> in
          if iRes \<noteq> 0 then Some (False, s1)
          else (case out of None \<Rightarrow> Some (True, s1)
            | Some t \<Rightarrow> (case tasks s1 (m_uiId t) of None \<Rightarrow> None
                | Some (k, p) \<Rightarrow> map_option (\<lambda>(_, s2). (True, s2)) (TaskProc env i k t p s1))))"

text \<open>
  The inner loop of \<open>Run\<close>.  Another thread may stop this one: \<open>runs n\<close> is what the \<open>n\<close>-th test of
  \<open>m_emThreadRunOp\<close> finds, true when it is \<open>Running\<close> or \<open>TillTaskFinish\<close>.  The result \<open>Some (Some s)\<close>
  is a loop that ended in \<open>s\<close>, \<open>Some None\<close> one that ran into undefined behaviour, and \<open>None\<close> one
  that does not end.
\<close>

partial_function (option) thread_loop :: "(nat \<Rightarrow> bool) \<Rightarrow> nat \<Rightarrow> 'r Env \<Rightarrow> nat \<Rightarrow> 'r Gw \<Rightarrow> 'r Gw option option" where
  "thread_loop runs n env i s =
     (if \<not> runs n then Some (Some s)
      else case thread_step env i s of None \<Rightarrow> Some None
      | Some (go_on, s') \<Rightarrow> if go_on then thread_loop runs (Suc n) env i s' else Some (Some s'))"

end
