(* ===== verification/OrderValide.thy ===== *)
theory OrderValide
  imports MatchTasks
begin

text \<open>
  The validation of a received order: \<open>StockOrderHelper::CheckOrder_TradeType\<close>
  (\<open>order/StockOrderHelper.cpp\<close>) and \<open>simutgw/biz/AppId_010_OrderValide.cpp\<close>,
  \<open>AppId_120_OrderValide.cpp\<close>.  A check gives its return code and the order it has changed; the
  texts are the source's bytes (GB 18030).  What is shown: exactly which orders are accepted, and
  that an accepted order is well formed for the matching that follows.
\<close>

section \<open>Texts and helpers\<close>

definition text_no_clordid :: string where
  "text_no_clordid = [CHR 0xBF, CHR 0xCD, CHR 0xBB, CHR 0xA7, CHR 0xB6, CHR 0xA9, CHR 0xB5, CHR 0xA5, CHR 0xB1, CHR 0xE0, CHR 0xBA, CHR 0xC5, CHR 0xCE, CHR 0xAA, CHR 0xBF, CHR 0xD5]"
definition text_stock_code :: string where
  "text_stock_code = [CHR 0xD6, CHR 0xA4, CHR 0xC8, CHR 0xAF, CHR 0xB4, CHR 0xFA, CHR 0xC2, CHR 0xEB, CHR 0xB4, CHR 0xED, CHR 0xCE, CHR 0xF3]"
definition text_convert :: string where
  "text_convert = [CHR 0xD7, CHR 0xAA, CHR 0xBB, CHR 0xBB]"
definition text_code :: string where
  "text_code = [CHR 0xD6, CHR 0xA4, CHR 0xC8, CHR 0xAF, CHR 0xB4, CHR 0xFA, CHR 0xC2, CHR 0xEB]"
definition text_not_int :: string where
  "text_not_int = '']'' @ [CHR 0xCE, CHR 0xAA] @ ''Int'' @ [CHR 0xCA, CHR 0xA7, CHR 0xB0, CHR 0xDC]"
definition text_no_orig_clordid :: string where
  "text_no_orig_clordid = [CHR 0xBF, CHR 0xCD, CHR 0xBB, CHR 0xA7, CHR 0xD4, CHR 0xAD, CHR 0xCA, CHR 0xBC, CHR 0xB6, CHR 0xA9, CHR 0xB5, CHR 0xA5, CHR 0xB1, CHR 0xE0, CHR 0xBA, CHR 0xC5, CHR 0xCE, CHR 0xAA, CHR 0xBF, CHR 0xD5]"
definition text_wrong :: string where
  "text_wrong = '']'' @ [CHR 0xB4, CHR 0xED, CHR 0xCE, CHR 0xF3]"

text \<open>The three assignments every failed check makes.\<close>

definition data_error :: "string \<Rightarrow> OrderMessage \<Rightarrow> int \<times> OrderMessage" where
  "data_error t o1 = (-1, o1\<lparr>bDataError := True, strError := t, enMatchType := ErrorMatch\<rparr>)"

text \<open>Statements after a check run when it returned 0.\<close>

definition checked :: "int \<times> OrderMessage \<Rightarrow> (OrderMessage \<Rightarrow> int \<times> OrderMessage) \<Rightarrow> int \<times> OrderMessage" where
  "checked x f = (case x of (r, o1) \<Rightarrow> if r \<noteq> 0 then (r, o1) else f o1)"

lemma checked_simps [simp]:
  "checked (0, o1) f = f o1" "r \<noteq> 0 \<Longrightarrow> checked (r, o1) f = (r, o1)"
  "checked (data_error t o1) f = data_error t o1"
  by (simp_all add: checked_def data_error_def)

lemma checked_0_iff:
  "checked x f = (0, o2) \<longleftrightarrow> (\<exists>o1. x = (0, o1) \<and> f o1 = (0, o2))"
  by (cases x) (simp add: checked_def)

lemma data_error_not_0 [simp]: "data_error t o1 \<noteq> (0, o2)" "fst (data_error t o1) = -1"
  by (simp_all add: data_error_def)

section \<open>The kind of trade\<close>

definition margin_market_sz :: "string \<Rightarrow> bool" where
  "margin_market_sz stk \<longleftrightarrow> take 3 stk \<in> {''000'', ''001'', ''002'', ''300''} \<or> take 2 stk \<in> {''15'', ''16'', ''18''}"

definition margin_market_sh :: "string \<Rightarrow> bool" where
  "margin_market_sh stk \<longleftrightarrow> take 3 stk \<in> {''600'', ''601'', ''603''} \<or> take 2 stk \<in> {''50'', ''51''}"

definition code_trade_type :: "OrderMessage \<Rightarrow> int option" where
  "code_trade_type o1 =
     (let stk = strStockID o1; ord_type = strOrdType o1; margin = strCashMargin o1 in
      if margin_market_sz stk then
        Some (if (margin = ''2'' \<and> is_buy_side o1) \<or> (margin = ''3'' \<and> is_sell_side o1) then margin_cash
              else if (margin = ''2'' \<and> is_sell_side o1) \<or> (margin = ''3'' \<and> is_buy_side o1) then margin_stock
              else a_trade)
      else if margin_market_sh stk then
        Some (if length ord_type = 3 \<and> drop 1 ord_type = ''RZ'' then margin_cash
              else if length ord_type = 3 \<and> drop 1 ord_type = ''RQ'' then margin_stock else a_trade)
      else if take 3 stk \<in> {''200'', ''900''} then Some b_trade else None)"

definition CheckOrder_TradeType :: "OrderMessage \<Rightarrow> int \<times> OrderMessage" where
  "CheckOrder_TradeType o1 =
     (if length (strStockID o1) \<noteq> 6 then (-1, o1)
      else (case code_trade_type o1 of None \<Rightarrow> (-1, o1)
        | Some t \<Rightarrow>
            let o2 = o1\<lparr>iTrade_type := t\<rparr>;
                o3 = (if strApplID o2 = ''120''
                      then (if strSide o2 = ''D'' then o2\<lparr>iTrade_type := etf_crt\<rparr>
                            else if strSide o2 = ''E'' then o2\<lparr>iTrade_type := etf_rdp\<rparr> else o2)
                      else o2)
            in (0, if strMsgType o3 = ''F'' then o3\<lparr>iTrade_type := TADE_TYPE_cancel\<rparr> else o3)))"

section \<open>Application 010: auction trading\<close>

definition BasicValidate :: "OrderMessage \<Rightarrow> int \<times> OrderMessage" where
  "BasicValidate o1 =
     (if strClordid o1 = [] then data_error text_no_clordid o1
      else if length (strStockID o1) \<noteq> 6 then data_error text_stock_code o1
      else if fst (String2Int_atoi (strStockID o1)) \<noteq> 0
      then data_error (text_convert @ text_code @ ''['' @ strStockID o1 @ text_not_int) o1
      else
        let (r, n) = String2UInt64_strtoui64 (strOrderqty_origin o1); o2 = o1\<lparr>ui64Orderqty_origin := n\<rparr> in
        if r \<noteq> 0 then data_error (text_convert @ ''Orderqty_origin['' @ strOrderqty_origin o2 @ text_not_int) o2
        else
          let (r, n) = String2UInt64_strtoui64 (strLeavesQty o2); o3 = o2\<lparr>ui64LeavesQty := n\<rparr> in
          if r \<noteq> 0 then data_error (text_convert @ ''LeavesQty['' @ strLeavesQty o3 @ text_not_int) o3
          else checked (if is_buy_side o3 then (0, o3\<lparr>iSide := 1\<rparr>)
                        else if is_sell_side o3 then (0, o3\<lparr>iSide := 2\<rparr>)
                        else data_error (text_convert @ ''side['' @ strSide o3 @ text_not_int) o3)
            (\<lambda>o4. if iSide o4 \<noteq> 1 \<and> iSide o4 \<noteq> 2 then data_error (''side['' @ strSide o4 @ '']unknown'') o4
               else
                 let (r, n) = String2UInt64_strtoui64 (strMinQty o4); o5 = o4\<lparr>ui64MinQty := n\<rparr> in
                 if r \<noteq> 0 then data_error (text_convert @ ''MinQty['' @ strMinQty o5 @ text_not_int) o5
                 else if strMsgType o5 = STEPMSG_MSGTYPE_ORDER_CACEL \<and> strOrigClordid o5 = []
                 then data_error text_no_orig_clordid o5
                 else (0, o5)))"

text \<open>The declaration type of a Shenzhen and of a Shanghai order, None when there is none.\<close>

definition sz_del_type :: "OrderMessage \<Rightarrow> DECLARATION_TYPE option" where
  "sz_del_type o1 =
     (let min_qty = snd (String2UInt64_strtoui64 (strMinQty o1));
          tif = strTimeInForce o1; levels = strMaxPriceLevels o1 in
      if strOrdType o1 = ''2'' \<and> levels = ''0'' then
        (if tif = ''0'' \<and> min_qty = 0 then Some deltype_ordinary_limit else None)
      else if strOrdType o1 = ''U'' then
        (if tif = ''0'' \<and> levels = ''0'' \<and> min_qty = 0 then Some deltype_the_side_optimal else None)
      else if strOrdType o1 = ''1'' then
        (if tif = ''0'' \<and> levels = ''1'' \<and> min_qty = 0
         then Some deltype_the_oppsite_side_optimaland_remainder_hold
         else if tif = ''3'' \<and> levels = ''0'' \<and> min_qty = 0
         then Some deltype_match_at_market_and_remainder_cancel
         else if tif = ''3'' \<and> levels = ''0'' \<and> min_qty = ui64Orderqty_origin o1
         then Some deltype_all_match_at_market_or_cancel
         else if tif = ''3'' \<and> levels = ''5'' \<and> min_qty = 0
         then Some deltype_match_at_market_in_five_and_remainder_cancel
         else None)
      else None)"

definition sh_del_type :: "OrderMessage \<Rightarrow> DECLARATION_TYPE option" where
  "sh_del_type o1 =
     (if strOrdType o1 = ''LPT'' \<or> strOrdType o1 = ''LRZ'' \<or> strOrdType o1 = ''LRQ'' then Some deltype_ordinary_limit
      else if strOrdType o1 = ''MPT'' then Some deltype_match_at_market_in_five_and_remainder_cancel
      else if strOrdType o1 = ''NPT'' then Some deltype_match_at_market_in_five_and_remainder_hold
      else None)"

definition GetOrder_DEL_TYPE :: "OrderMessage \<Rightarrow> int \<times> OrderMessage" where
  "GetOrder_DEL_TYPE o1 =
     (let set_type = (\<lambda>d. case d of Some d \<Rightarrow> (0, o1\<lparr>enDelType := d\<rparr>)
                         | None \<Rightarrow> data_error ''Unkonwn order type'' o1)
      in if strTrade_market o1 = TRADE_MARKET_SZ then set_type (sz_del_type o1)
         else if strTrade_market o1 = TRADE_MARKET_SH then set_type (sh_del_type o1)
         else data_error (''Error trade market['' @ strTrade_market o1) o1)"

definition AppId_010_ValidateOrder :: "OrderMessage \<Rightarrow> int \<times> OrderMessage" where
  "AppId_010_ValidateOrder o0 =
     checked (BasicValidate o0) (\<lambda>o1.
       if strMsgType o1 = STEPMSG_MSGTYPE_ORDER_CACEL then (0, o1)
       else checked (CheckOrder_TradeType o1) (\<lambda>o2.
         checked (GetOrder_DEL_TYPE o2) (\<lambda>o3.
           if enDelType o3 = deltype_ordinary_limit then
             let (r, n) = String2UInt64_strtoui64 (strOrderPrice o3); o4 = o3\<lparr>ui64mOrderPrice := n\<rparr> in
             if r \<noteq> 0 then data_error (text_convert @ ''Price['' @ strOrderPrice o4 @ text_not_int) o4
             else (0, o4)
           else (0, o3))))"

section \<open>Application 120: ETF creation and redemption\<close>

definition AppId_120_ValidateOrder :: "OrderMessage \<Rightarrow> int \<times> OrderMessage" where
  "AppId_120_ValidateOrder o1 =
     (if strClordid o1 = [] then data_error text_no_clordid o1
      else if length (strStockID o1) \<noteq> 6 then data_error text_stock_code o1
      else if fst (String2Int_atoi (strStockID o1)) \<noteq> 0
      then data_error (text_convert @ text_code @ ''['' @ strStockID o1 @ text_not_int) o1
      else
        let (r, n) = String2UInt64_strtoui64 (strOrderqty_origin o1); o2 = o1\<lparr>ui64Orderqty_origin := n\<rparr> in
        if r \<noteq> 0 then data_error (text_convert @ ''Orderqty_origin['' @ strOrderqty_origin o2 @ text_not_int) o2
        else
          let (r, n) = String2UInt64_strtoui64 (strLeavesQty o2); o3 = o2\<lparr>ui64LeavesQty := n\<rparr> in
          if r \<noteq> 0 then data_error (text_convert @ ''LeavesQty['' @ strLeavesQty o3 @ text_not_int) o3
          else checked
            (if strMarket o3 = TRADE_MARKET_SZ then
               (if strSide o3 \<noteq> ''D'' \<and> strSide o3 \<noteq> ''E'' then data_error (''side['' @ strSide o3 @ text_wrong) o3
                else if strOrdType o3 \<noteq> ''2'' then data_error (''ordtype['' @ strSide o3 @ text_wrong) o3
                else let (r, n) = String2UInt64MoneyInLi_strtoui64 (strOrderPrice o3);
                         o4 = o3\<lparr>ui64mOrderPrice := n\<rparr> in
                     if r \<noteq> 0 then data_error (text_convert @ ''Price['' @ strOrderPrice o4 @ text_not_int) o4
                     else (0, o4))
             else (0, o3))
            CheckOrder_TradeType)"

section \<open>What is accepted\<close>

lemma converted [simp]:
  "fst (String2Int_atoi t) = 0" "fst (String2UInt64_strtoui64 t) = 0"
  "(case String2UInt64_strtoui64 t of (r, n) \<Rightarrow> f r n) = f 0 (snd (String2UInt64_strtoui64 t))"
  by (simp_all add: String2Int_atoi_def String2UInt64_strtoui64_def)

text \<open>The fields the basic checks fill.\<close>

definition basic_fields :: "OrderMessage \<Rightarrow> OrderMessage" where
  "basic_fields o1 = o1\<lparr>
     ui64Orderqty_origin := snd (String2UInt64_strtoui64 (strOrderqty_origin o1)),
     ui64LeavesQty := snd (String2UInt64_strtoui64 (strLeavesQty o1)),
     iSide := (if is_buy_side o1 then 1 else 2), ui64MinQty := snd (String2UInt64_strtoui64 (strMinQty o1))\<rparr>"

definition basic_ok :: "OrderMessage \<Rightarrow> bool" where
  "basic_ok o1 \<longleftrightarrow> strClordid o1 \<noteq> [] \<and> length (strStockID o1) = 6 \<and> (is_buy_side o1 \<or> is_sell_side o1) \<and>
     (strMsgType o1 = STEPMSG_MSGTYPE_ORDER_CACEL \<longrightarrow> strOrigClordid o1 \<noteq> [])"

lemma side_keep [simp]:
  "is_buy_side (o1\<lparr>ui64Orderqty_origin := a\<rparr>) = is_buy_side o1" "is_buy_side (o1\<lparr>ui64LeavesQty := a\<rparr>) = is_buy_side o1"
  "is_sell_side (o1\<lparr>ui64Orderqty_origin := a\<rparr>) = is_sell_side o1" "is_sell_side (o1\<lparr>ui64LeavesQty := a\<rparr>) = is_sell_side o1"
  "is_buy_side (o1\<lparr>ui64MinQty := a\<rparr>) = is_buy_side o1" "is_buy_side (o1\<lparr>iSide := i\<rparr>) = is_buy_side o1"
  "is_sell_side (o1\<lparr>ui64MinQty := a\<rparr>) = is_sell_side o1" "is_sell_side (o1\<lparr>iSide := i\<rparr>) = is_sell_side o1"
  by (simp_all add: is_buy_side_def is_sell_side_def)

lemma BasicValidate_iff: "BasicValidate o1 = (0, o2) \<longleftrightarrow> basic_ok o1 \<and> o2 = basic_fields o1"
  by (auto simp: BasicValidate_def basic_ok_def basic_fields_def Let_def checked_def data_error_def
      split: prod.splits if_splits)

lemma CheckOrder_TradeType_iff:
  "CheckOrder_TradeType o1 = (0, o2) \<longleftrightarrow> length (strStockID o1) = 6 \<and> code_trade_type o1 \<noteq> None \<and>
     o2 = o1\<lparr>iTrade_type := (if strMsgType o1 = ''F'' then TADE_TYPE_cancel
       else if strApplID o1 = ''120'' \<and> strSide o1 = ''D'' then etf_crt
       else if strApplID o1 = ''120'' \<and> strSide o1 = ''E'' then etf_rdp else the (code_trade_type o1))\<rparr>"
  by (auto simp: CheckOrder_TradeType_def Let_def split: option.splits if_splits)

definition request_type :: "OrderMessage \<Rightarrow> DECLARATION_TYPE option" where
  "request_type o1 =
     (if strTrade_market o1 = TRADE_MARKET_SZ then sz_del_type (basic_fields o1)
      else if strTrade_market o1 = TRADE_MARKET_SH then sh_del_type o1 else None)"

lemma GetOrder_DEL_TYPE_iff:
  "GetOrder_DEL_TYPE o1 = (0, o2) \<longleftrightarrow>
     (\<exists>d. o2 = o1\<lparr>enDelType := d\<rparr> \<and> (if strTrade_market o1 = TRADE_MARKET_SZ then sz_del_type o1 = Some d
       else strTrade_market o1 = TRADE_MARKET_SH \<and> sh_del_type o1 = Some d))"
  by (auto simp: GetOrder_DEL_TYPE_def Let_def data_error_def split: option.splits)

lemma basic_fields_keep [simp]:
  "strMsgType (basic_fields o1) = strMsgType o1" "strStockID (basic_fields o1) = strStockID o1"
  "strTrade_market (basic_fields o1) = strTrade_market o1" "strOrderPrice (basic_fields o1) = strOrderPrice o1"
  "strApplID (basic_fields o1) = strApplID o1" "strSide (basic_fields o1) = strSide o1"
  "strOrdType (basic_fields o1) = strOrdType o1" "strCashMargin (basic_fields o1) = strCashMargin o1"
  "tradePolicy (basic_fields o1) = tradePolicy o1" "bDataError (basic_fields o1) = bDataError o1"
  "enMatchType (basic_fields o1) = enMatchType o1" "iSide (basic_fields o1) = (if is_buy_side o1 then 1 else 2)"
  "is_buy_side (basic_fields o1) = is_buy_side o1" "is_sell_side (basic_fields o1) = is_sell_side o1"
  by (simp_all add: basic_fields_def is_buy_side_def is_sell_side_def)

lemma del_type_keep [simp]:
  "sz_del_type (o1\<lparr>iTrade_type := t\<rparr>) = sz_del_type o1" "sh_del_type (o1\<lparr>iTrade_type := t\<rparr>) = sh_del_type o1"
  "sh_del_type (basic_fields o1) = sh_del_type o1" "code_trade_type (basic_fields o1) = code_trade_type o1"
  by (simp_all add: sz_del_type_def sh_del_type_def code_trade_type_def cong: if_cong)

text \<open>An accepted order, not a cancellation, as a function of the one received.\<close>

definition validated :: "OrderMessage \<Rightarrow> DECLARATION_TYPE \<Rightarrow> int \<Rightarrow> OrderMessage" where
  "validated o1 d t =
     (let o2 = (basic_fields o1)\<lparr>iTrade_type := t, enDelType := d\<rparr> in
      if d = deltype_ordinary_limit then o2\<lparr>ui64mOrderPrice := snd (String2UInt64_strtoui64 (strOrderPrice o1))\<rparr> else o2)"

lemma AppId_010_steps:
  assumes "strMsgType o1 \<noteq> STEPMSG_MSGTYPE_ORDER_CACEL"
  shows "AppId_010_ValidateOrder o1 = (0, o2) \<longleftrightarrow> basic_ok o1 \<and>
    (\<exists>o3 o4. CheckOrder_TradeType (basic_fields o1) = (0, o3) \<and> GetOrder_DEL_TYPE o3 = (0, o4) \<and>
      o2 = (if enDelType o4 = deltype_ordinary_limit
            then o4\<lparr>ui64mOrderPrice := snd (String2UInt64_strtoui64 (strOrderPrice o4))\<rparr> else o4))"
  using assms by (auto simp: AppId_010_ValidateOrder_def checked_0_iff BasicValidate_iff split: if_splits)

lemma ex_image: "(\<exists>x. (\<exists>d. P d \<and> x = Y d) \<and> z = F x) = (\<exists>d. P d \<and> z = F (Y d))"
  by blast

lemma ex_first: "(\<exists>x y. x = a \<and> P x y) = (\<exists>y. P a y)"
  by blast

lemma AppId_010_iff:
  assumes "strMsgType o1 \<noteq> STEPMSG_MSGTYPE_ORDER_CACEL"
  shows "AppId_010_ValidateOrder o1 = (0, o2) \<longleftrightarrow>
    basic_ok o1 \<and> (\<exists>t d. code_trade_type o1 = Some t \<and> request_type o1 = Some d \<and>
      o2 = validated o1 d (if strApplID o1 = ''120'' \<and> strSide o1 = ''D'' then etf_crt
        else if strApplID o1 = ''120'' \<and> strSide o1 = ''E'' then etf_rdp else t))"
proof (cases "basic_ok o1 \<and> code_trade_type o1 \<noteq> None")
  case True
  then obtain t where t: "code_trade_type o1 = Some t" by auto
  have m: "strMsgType o1 \<noteq> ''F''" using assms by (simp add: STEPMSG_MSGTYPE_ORDER_CACEL_def)
  define t' where "t' = (if strApplID o1 = ''120'' \<and> strSide o1 = ''D'' then etf_crt
        else if strApplID o1 = ''120'' \<and> strSide o1 = ''E'' then etf_rdp else t)"
  have c: "CheckOrder_TradeType (basic_fields o1) = (0, o3) \<longleftrightarrow> o3 = (basic_fields o1)\<lparr>iTrade_type := t'\<rparr>" for o3
    using True by (auto simp: CheckOrder_TradeType_iff t m basic_ok_def t'_def)
  have g: "GetOrder_DEL_TYPE ((basic_fields o1)\<lparr>iTrade_type := t'\<rparr>) = (0, o4) \<longleftrightarrow>
      (\<exists>d. request_type o1 = Some d \<and> o4 = (basic_fields o1)\<lparr>iTrade_type := t', enDelType := d\<rparr>)" for o4
    by (simp only: GetOrder_DEL_TYPE_iff request_type_def) auto
  have v: "(if enDelType o4 = deltype_ordinary_limit
       then o4\<lparr>ui64mOrderPrice := snd (String2UInt64_strtoui64 (strOrderPrice o4))\<rparr> else o4) = validated o1 d t'"
    if "o4 = (basic_fields o1)\<lparr>iTrade_type := t', enDelType := d\<rparr>" for o4 d
    by (simp add: that validated_def Let_def)
  have "AppId_010_ValidateOrder o1 = (0, o2) \<longleftrightarrow>
      (\<exists>o4. GetOrder_DEL_TYPE ((basic_fields o1)\<lparr>iTrade_type := t'\<rparr>) = (0, o4) \<and>
        o2 = (if enDelType o4 = deltype_ordinary_limit
              then o4\<lparr>ui64mOrderPrice := snd (String2UInt64_strtoui64 (strOrderPrice o4))\<rparr> else o4))"
    using True by (simp only: AppId_010_steps [OF assms] c ex_first simp_thms)
  also have "\<dots> \<longleftrightarrow> (\<exists>d. request_type o1 = Some d \<and> o2 = validated o1 d t')"
    by (simp only: g ex_image v [OF refl])
  finally have "AppId_010_ValidateOrder o1 = (0, o2) \<longleftrightarrow> (\<exists>d. request_type o1 = Some d \<and> o2 = validated o1 d t')" .
  then show ?thesis using True unfolding t t'_def by blast
next
  case False
  then have "\<not> (basic_ok o1 \<and> CheckOrder_TradeType (basic_fields o1) = (0, o3))" for o3
    by (simp add: CheckOrder_TradeType_iff)
  then show ?thesis using False unfolding AppId_010_steps [OF assms] by (metis option.distinct(1))
qed

lemma AppId_010_cancel:
  assumes "strMsgType o1 = STEPMSG_MSGTYPE_ORDER_CACEL"
  shows "AppId_010_ValidateOrder o1 = (0, o2) \<longleftrightarrow> basic_ok o1 \<and> o2 = basic_fields o1"
  using assms by (auto simp: AppId_010_ValidateOrder_def checked_0_iff BasicValidate_iff)

lemma known_declaration:
  "request_type o1 = Some d \<Longrightarrow> d \<notin> range deltype_unknown"
  by (auto simp: request_type_def sz_del_type_def sh_del_type_def Let_def split: if_splits)

lemma code_trade_type_values:
  "code_trade_type o1 = Some t \<Longrightarrow> t \<in> {a_trade, b_trade, margin_cash, margin_stock}"
  by (auto simp: code_trade_type_def Let_def split: if_splits)

lemma side_not_etf: "is_buy_side o1 \<or> is_sell_side o1 \<Longrightarrow> strSide o1 \<noteq> ''D'' \<and> strSide o1 \<noteq> ''E''"
  by (auto simp: is_buy_side_def is_sell_side_def conf_msg_defs)

lemma AppId_010_validated:
  assumes "AppId_010_ValidateOrder o1 = (0, o2)" and "strMsgType o1 \<noteq> STEPMSG_MSGTYPE_ORDER_CACEL"
  obtains t d where "basic_ok o1" and "code_trade_type o1 = Some t" and "request_type o1 = Some d"
    and "o2 = validated o1 d t"
proof -
  from assms obtain t d where "basic_ok o1" "code_trade_type o1 = Some t" "request_type o1 = Some d"
    "o2 = validated o1 d (if strApplID o1 = ''120'' \<and> strSide o1 = ''D'' then etf_crt
      else if strApplID o1 = ''120'' \<and> strSide o1 = ''E'' then etf_rdp else t)"
    by (auto simp: AppId_010_iff)
  moreover from this(1) have "strSide o1 \<noteq> ''D''" "strSide o1 \<noteq> ''E''"
    using side_not_etf [of o1] by (auto simp: basic_ok_def)
  ultimately show thesis by (intro that) simp_all
qed

lemma validated_fields [simp]:
  "iTrade_type (validated o1 d t) = t" "enDelType (validated o1 d t) = d"
  "iSide (validated o1 d t) = (if is_buy_side o1 then 1 else 2)" "tradePolicy (validated o1 d t) = tradePolicy o1"
  "bDataError (validated o1 d t) = bDataError o1" "enMatchType (validated o1 d t) = enMatchType o1"
  "strStockID (validated o1 d t) = strStockID o1" "strSide (validated o1 d t) = strSide o1"
  "strMsgType (validated o1 d t) = strMsgType o1" "strApplID (validated o1 d t) = strApplID o1"
  "strAccountId (validated o1 d t) = strAccountId o1" "strTrade_market (validated o1 d t) = strTrade_market o1"
  "strSessionId (validated o1 d t) = strSessionId o1" "strOrdType (validated o1 d t) = strOrdType o1"
  "sellCps (validated o1 d t) = sellCps o1" "sellETFCps (validated o1 d t) = sellETFCps o1"
  "ui64LeavesQty (validated o1 d t) = snd (String2UInt64_strtoui64 (strLeavesQty o1))"
  "ui64Orderqty_origin (validated o1 d t) = snd (String2UInt64_strtoui64 (strOrderqty_origin o1))"
  "ui64mOrderPrice (validated o1 d t) = (if d = deltype_ordinary_limit
     then snd (String2UInt64_strtoui64 (strOrderPrice o1)) else ui64mOrderPrice o1)"
  by (simp_all add: validated_def Let_def) (simp_all add: basic_fields_def)

section \<open>Properties\<close>

text \<open>
  C7.  An order accepted by application 010 that is neither a cancellation nor has taken a rule is
  well formed for what follows: its declaration type is one the matching knows, its side is 1 or 2 as its text says, so
  the price check never finds an unknown side, its quantities are those of its texts, it becomes a
  task of the AB-share matching, and no error is marked on it.
\<close>

theorem AppId_010_accepted_ready:
  assumes "AppId_010_ValidateOrder o1 = (0, o2)" and "strMsgType o1 \<noteq> STEPMSG_MSGTYPE_ORDER_CACEL"
    and "ui64RuleId (tradePolicy o1) = 0"
  shows "enDelType o2 \<notin> range deltype_unknown \<and> iSide o2 = (if is_buy_side o2 then 1 else 2) \<and>
    (is_buy_side o2 \<or> is_sell_side o2) \<and> strSide o2 = strSide o1 \<and>
    ui64LeavesQty o2 = snd (String2UInt64_strtoui64 (strLeavesQty o1)) \<and>
    ui64Orderqty_origin o2 = snd (String2UInt64_strtoui64 (strOrderqty_origin o1)) \<and>
    match_task_kind o2 = Some Task_ABStockMatch \<and> bDataError o2 = bDataError o1 \<and> enMatchType o2 = enMatchType o1 \<and>
    (\<forall>sl je lim r o3. Check_Match_Method o2 sl je lim = Some (r, o3) \<longrightarrow> bDataError o3 = bDataError o1)"
proof -
  from assms(1,2) obtain t d where v: "basic_ok o1" "code_trade_type o1 = Some t" "request_type o1 = Some d"
    "o2 = validated o1 d t" by (rule AppId_010_validated)
  have sides: "is_buy_side o2 = is_buy_side o1" "is_sell_side o2 = is_sell_side o1"
    by (simp_all add: v(4) is_buy_side_def is_sell_side_def)
  have side: "iSide o2 = 1 \<or> iSide o2 = 2" by (simp add: v(4))
  have "bDataError o3 = bDataError o1" if "Check_Match_Method o2 sl je lim = Some (r, o3)" for sl je lim r o3
    using that side by (auto simp: Check_Match_Method_def Let_def v(4) split: if_splits)
  moreover have "match_task_kind o2 = Some Task_ABStockMatch"
    using assms(3) code_trade_type_values [OF v(2)] by (auto simp: match_task_kind_def v(4) TADE_TYPE_defs)
  moreover have "enDelType o2 \<notin> range deltype_unknown" using known_declaration [OF v(3)] by (simp add: v(4))
  moreover have "is_buy_side o2 \<or> is_sell_side o2" using v(1) by (simp add: sides basic_ok_def)
  ultimately show ?thesis using sides by (simp add: v(4))
qed

definition sample_request :: OrderMessage where
  "sample_request = OrderMessage_new\<lparr>strClordid := ''c1'', strStockID := ''000001'', strSide := ''2'',
     strOrderqty_origin := ''300'', strLeavesQty := ''300'', strMinQty := ''0'', strOrdType := ''2'',
     strMaxPriceLevels := ''0'', strTimeInForce := ''0'', strOrderPrice := ''10000'', strMsgType := ''D'',
     strApplID := ''010'', strAccountId := ''acc'', strTrade_market := TRADE_MARKET_SZ\<rparr>"

lemma read_small [simp]:
  "snd (String2UInt64_strtoui64 ''0'') = 0" "snd (String2UInt64_strtoui64 ''300'') = 300"
  "snd (String2UInt64_strtoui64 ''10000'') = 10000"
  by (simp_all add: String2UInt64_strtoui64_def strtoll_def scan_number_def c_str_def is_space_def is_digit_def of_char_def)

lemma sample_request_validated:
  "AppId_010_ValidateOrder sample_request = (0, validated sample_request deltype_ordinary_limit a_trade)"
proof -
  have "strMsgType sample_request \<noteq> STEPMSG_MSGTYPE_ORDER_CACEL"
    by (simp add: sample_request_def STEPMSG_MSGTYPE_ORDER_CACEL_def)
  then show ?thesis
    by (simp add: AppId_010_iff) (simp add: basic_ok_def sample_request_def is_sell_side_def conf_msg_defs
      code_trade_type_def margin_market_sz_def is_buy_side_def request_type_def sz_del_type_def basic_fields_def
      OrderMessage_new_def Let_def)
qed

lemma AppId_010_accepted_ready_witness:
  "match_task_kind (validated sample_request deltype_ordinary_limit a_trade) = Some Task_ABStockMatch \<and>
   ui64LeavesQty (validated sample_request deltype_ordinary_limit a_trade) = 300"
  using AppId_010_accepted_ready [OF sample_request_validated]
  by (simp add: sample_request_def STEPMSG_MSGTYPE_ORDER_CACEL_def OrderMessage_new_def TradePolicyCell_new_def)

end
