(* ===== verification/PreTrade.thy ===== *)
theory PreTrade
  imports OrderValide
begin

text \<open>
  What is prepared before an order is matched: \<open>simutgw/biz/PreTrade.cpp\<close>, the table of ETF baskets it
  reads (\<open>etf/conf_etf_info.h\<close>, \<open>ETFHelper::Query\<close>), \<open>UserStockHelper::CreationQuery\<close> and
  \<open>MarketInfoHelper::GetCurrStaticQuot\<close>.

  Floating point stays a parameter: \<open>'d\<close> is \<open>double\<close> with the operations the code applies.  The JSON
  parser is a parameter too: a text to its string members, None when it does not parse or is null.
  A result \<open>None\<close> is undefined behaviour: a division by an empty creation unit, a null holding.
\<close>

section \<open>ETF baskets\<close>

definition Only_Security :: int where "Only_Security = 0"
definition Security_And_Cash :: int where "Security_And_Cash = 1"
definition Only_Cash :: int where "Only_Cash = 2"

record 'd SzETFComponent =
  comp_strUnderlyingSecurityID :: string
  comp_strUnderlyingSecurityIDSource :: string
  comp_strUnderlyingSymbol :: string
  ui64ComponentShare :: u64
  iSubstituteFlag :: int
  dPremiumRatio :: 'd
  ui64mCreationCashSubstitute :: u64
  ui64mRedemptionCashSubstitute :: u64

record 'd SzETF =
  ui64CreationRedemptionUnit :: u64
  dMaxCashRatio :: 'd
  bCreation :: bool
  bRedemption :: bool
  ui64mNAVperCU :: u64
  vecComponents :: "'d SzETFComponent list"

text \<open>\<open>d_scale z r\<close> is \<open>(uint64_t)(z * (1 + r))\<close>; \<open>d_below d\<close> is \<open>0 > d\<close>.\<close>

record 'd double_ops =
  d_of :: "u64 \<Rightarrow> 'd"
  d_mult :: "'d \<Rightarrow> 'd \<Rightarrow> 'd"
  d_minus :: "'d \<Rightarrow> 'd \<Rightarrow> 'd"
  d_below :: "'d \<Rightarrow> bool"
  d_scale :: "u64 \<Rightarrow> 'd \<Rightarrow> u64"

record 'd EtfEnv =
  g_mapSZETF :: "string \<rightharpoonup> 'd SzETF"
  e_double :: "'d double_ops"
  e_json :: "string \<Rightarrow> (string \<rightharpoonup> string) option"

definition ETFHelper_Query :: "'d EtfEnv \<Rightarrow> string \<Rightarrow> int \<times> 'd SzETF option" where
  "ETFHelper_Query x code = (case g_mapSZETF x code of None \<Rightarrow> (-1, None) | Some e \<Rightarrow> (0, Some e))"

section \<open>Static quotation\<close>

definition g_Key_AStockStaticQuotation_Prefix :: string where
  "g_Key_AStockStaticQuotation_Prefix = ''hqk_static_''"

definition static_key :: "string \<Rightarrow> string" where
  "static_key zqdm =
     (let m = GetStockTradeMarket zqdm in
      g_Key_AStockStaticQuotation_Prefix @
      (if m = TRADE_MARKET_SZ then ''sz_'' else if m = TRADE_MARKET_SH then ''sh_'' else []) @ zqdm)"

definition GetCurrStaticQuot ::
  "'r redis \<Rightarrow> (string \<Rightarrow> (string \<rightharpoonup> string) option) \<Rightarrow> string \<Rightarrow> 'r \<Rightarrow> (int \<times> u64 \<times> string) \<times> 'r" where
  "GetCurrStaticQuot run json zqdm r =
     (case run [''GET'', static_key zqdm] r of (reply, r') \<Rightarrow>
        (case reply of
           RedisReply_string t \<Rightarrow>
             (case json (c_str t) of None \<Rightarrow> (-1, 0, [])
              | Some doc \<Rightarrow>
                 (case doc ''ZRSP'' of None \<Rightarrow> (-1, 0, [])
                  | Some z \<Rightarrow> let zrsp = snd (String2UInt64_strtoui64 z) in
                     (case doc ''TPBZ'' of None \<Rightarrow> (-1, zrsp, []) | Some tpbz \<Rightarrow> (0, zrsp, tpbz))))
         | _ \<Rightarrow> (-1, 0, []), r'))"

section \<open>The components of a creation\<close>

text \<open>
  The first loop asks whether the account holds the components; cash may stand in for what is
  missing, up to \<open>dMaxCash\<close>.  It changes the cache only as looking a holding up does.
\<close>

fun query_components ::
  "'d EtfEnv \<Rightarrow> 'r Env \<Rightarrow> string \<Rightarrow> u64 \<Rightarrow> 'd SzETFComponent list \<Rightarrow> 'd \<Rightarrow> StockCache \<Rightarrow> 'r \<Rightarrow>
   (int \<times> StockCache \<times> 'r) option" where
  "query_components x env acc tms [] dMaxCash st rd = Some (0, st, rd)"
| "query_components x env acc tms (c # cs) dMaxCash st rd =
     (if iSubstituteFlag c = Only_Cash then
        (if d_below (e_double x) dMaxCash then Some (-1, st, rd) else query_components x env acc tms cs dMaxCash st rd)
      else
        let stk = comp_strUnderlyingSecurityID c; want = tms * ui64ComponentShare c in
        (case UserStockHelper_LookUp (e_loader env) (e_clock env) acc stk st of (iRes, st1) \<Rightarrow>
           if iRes \<noteq> 0 then Some (-1, st1, rd)
           else (case cache_find st1 acc stk of None \<Rightarrow> None
             | Some u \<Rightarrow>
               (case UserStockVolume_CreationQuery (e_clock env) u want of (iRes, ui64Max, u') \<Rightarrow>
                  let st2 = cache_put acc stk u' st1 in
                  if iRes = 0 then query_components x env acc tms cs dMaxCash st2 rd
                  else if iSubstituteFlag c = Only_Security then Some (-1, st2, rd)
                  else (case GetCurrStaticQuot (e_redis env) (e_json x) stk rd of ((iRes, zrsp, tpbz), rd1) \<Rightarrow>
                     if iRes \<noteq> 0 \<or> tpbz \<noteq> ''F'' then Some (-1, st2, rd1)
                     else let cash = d_minus (e_double x) dMaxCash (d_of (e_double x) ((want - ui64Max) * zrsp)) in
                       if d_below (e_double x) cash then Some (-1, st2, rd1)
                       else query_components x env acc tms cs cash st2 rd1)))))"

text \<open>The second loop freezes them; what it has frozen before it fails stays frozen.\<close>

fun froze_components ::
  "'d EtfEnv \<Rightarrow> 'r Env \<Rightarrow> string \<Rightarrow> u64 \<Rightarrow> 'd SzETFComponent list \<Rightarrow> EtfCrt_FrozeComponent list \<Rightarrow> StockCache \<Rightarrow> 'r \<Rightarrow>
   (int \<times> EtfCrt_FrozeComponent list \<times> StockCache \<times> 'r) option" where
  "froze_components x env acc tms [] io_vec st rd = Some (0, io_vec, st, rd)"
| "froze_components x env acc tms (c # cs) io_vec st rd =
     (let stk = comp_strUnderlyingSecurityID c; want = tms * ui64ComponentShare c;
          info = EtfCrt_FrozeComponent_default\<lparr>fc_strSecurityID := stk\<rparr> in
      if iSubstituteFlag c = Only_Cash
      then froze_components x env acc tms cs
             (io_vec @ [info\<lparr>fc_ui64Cash := tms * ui64mCreationCashSubstitute c\<rparr>]) st rd
      else
        (case UserStockHelper_LookUp (e_loader env) (e_clock env) acc stk st of (_, st1) \<Rightarrow>
           (case cache_find st1 acc stk of None \<Rightarrow> None
            | Some u \<Rightarrow>
              (case UserStockVolume_CreationFroze (e_clock env) u want of (iRes, act, avl, u') \<Rightarrow>
                 let st2 = cache_put acc stk u' st1;
                     info1 = info\<lparr>fc_ui64act_pch_count := act, fc_ui64avl_count := avl\<rparr> in
                 if iRes \<noteq> 0 \<and> iSubstituteFlag c = Security_And_Cash then
                   (case GetCurrStaticQuot (e_redis env) (e_json x) stk rd of ((iRes, zrsp, tpbz), rd1) \<Rightarrow>
                      if iRes \<noteq> 0 then Some (-1, io_vec, st2, rd1)
                      else froze_components x env acc tms cs
                        (io_vec @ [info1\<lparr>fc_ui64Cash := (want - act - avl) *
                            d_scale (e_double x) zrsp (dPremiumRatio c)\<rparr>]) st2 rd1)
                 else froze_components x env acc tms cs (io_vec @ [info1]) st2 rd))))"

definition UserStockHelper_CreationQuery ::
  "'d EtfEnv \<Rightarrow> 'r Env \<Rightarrow> string \<Rightarrow> u64 \<Rightarrow> 'd SzETF \<Rightarrow> EtfCrt_FrozeComponent list \<Rightarrow> StockCache \<Rightarrow> 'r \<Rightarrow>
   (int \<times> EtfCrt_FrozeComponent list \<times> StockCache \<times> 'r) option" where
  "UserStockHelper_CreationQuery x env acc ui64EtfQty e io_vec st rd =
     (if ui64CreationRedemptionUnit e = 0 then None
      else
        let tms = ui64EtfQty div ui64CreationRedemptionUnit e;
            dMaxCash = d_mult (e_double x)
              (d_of (e_double x) (ui64EtfQty * ui64CreationRedemptionUnit e * ui64mNAVperCU e)) (dMaxCashRatio e)
        in (case query_components x env acc tms (vecComponents e) dMaxCash st rd of None \<Rightarrow> None
            | Some (iRes, st1, rd1) \<Rightarrow>
                if iRes \<noteq> 0 then Some (-1, io_vec, st1, rd1)
                else froze_components x env acc tms (vecComponents e) io_vec st1 rd1))"

section \<open>Checks before freezing\<close>

definition GetTradeType :: "OrderMessage \<Rightarrow> int \<times> OrderMessage" where
  "GetTradeType o1 =
     (if length (strStockID o1) \<noteq> 6 then (TADE_TYPE_error, o1)
      else
        let bETF = (take 2 (strStockID o1) \<in> {''15'', ''16'', ''18'', ''50'', ''51''});
            t = (if is_buy_side o1 then (if bETF then etf_buy else a_trade)
                 else if is_sell_side o1 then (if bETF then etf_sell else a_trade)
                 else if strSide o1 = ''D'' then (if bETF then etf_crt else TADE_TYPE_error)
                 else if strSide o1 = ''E'' then (if bETF then etf_rdp else TADE_TYPE_error)
                 else TADE_TYPE_error);
            t2 = (if strMsgType o1 = STEPMSG_MSGTYPE_ORDER_CACEL then TADE_TYPE_cancel else t)
        in (t2, o1\<lparr>iTrade_type := t2\<rparr>))"

definition PreTrade_CheckTPBZ :: "OrderMessage \<Rightarrow> string \<Rightarrow> int \<times> OrderMessage" where
  "PreTrade_CheckTPBZ o1 in_strTpbz =
     (if in_strTpbz \<noteq> ''F'' then
        (-1, set_market_error SZ_ERRCODE_c20007 SH_ERRCODE_c203
               (o1\<lparr>enMatchType := StopTrans, bDataError := True, strError := text_suspended\<rparr>))
      else (0, o1))"

definition PreTrade_Check_MaxGain_And_MinFall :: "OrderMessage \<Rightarrow> u64 \<Rightarrow> u64 \<Rightarrow> int \<times> OrderMessage" where
  "PreTrade_Check_MaxGain_And_MinFall o1 in_MaxGain in_MinFall =
     (if in_MaxGain = 0 \<and> in_MinFall = 0 then (0, o1)
      else if in_MaxGain < ui64mOrderPrice o1 \<or> ui64mOrderPrice o1 < in_MinFall then
        (-1, set_market_error SZ_ERRCODE_c20009 SH_ERRCODE_c212
               (o1\<lparr>enMatchType := OutOfRange,
                   strError := text_price_limits @ itos in_MaxGain @ ''.min'' @ itos in_MinFall,
                   bDataError := True\<rparr>))
      else (0, o1))"

definition limit_order_type :: "OrderMessage \<Rightarrow> bool" where
  "limit_order_type o1 \<longleftrightarrow> strOrdType o1 = ''2'' \<or> strOrdType o1 = ''LPT'' \<or> strOrdType o1 = ''LRZ'' \<or> strOrdType o1 = ''LRQ''"

definition CheckOrderByQuotation :: "'r Env \<Rightarrow> OrderMessage \<Rightarrow> 'r \<Rightarrow> (int \<times> OrderMessage \<times> 'r) option" where
  "CheckOrderByQuotation env o1 rd =
     (case GetCurrQuotGapByCircle_RecentPrice (e_ptime env) (e_redis env) (strStockID o1) (Get_Order_CircleID o1) rd of
        (None, _) \<Rightarrow> None
      | (Some (iRes, g), rd1) \<Rightarrow>
          if iRes \<noteq> 0 then Some (0, o1, rd1)
          else (case PreTrade_CheckTPBZ o1 (out_Tpbz g) of (r, o2) \<Rightarrow>
            if r < 0 then Some (-1, o2, rd1)
            else if limit_order_type o2 then
              (case PreTrade_Check_MaxGain_And_MinFall o2 (out_MaxGain g) (out_MinFall g) of (r, o3) \<Rightarrow>
                 Some (if r < 0 then -1 else 0, o3, rd1))
            else Some (0, o2, rd1)))"

definition ValidateETF :: "'d EtfEnv \<Rightarrow> OrderMessage \<Rightarrow> int \<times> OrderMessage" where
  "ValidateETF x o0 =
     (let o1 = o0\<lparr>enMatchType := NotMatch\<rparr>; fail = (-1, o1\<lparr>enMatchType := ErrorMatch\<rparr>) in
      case ETFHelper_Query x (strStockID o1) of
        (_, None) \<Rightarrow> (-1, o1)
      | (_, Some e) \<Rightarrow>
          if (if strSide o1 = ''D'' then \<not> bCreation e else \<not> bRedemption e) then fail
          else if ui64Orderqty_origin o1 < ui64CreationRedemptionUnit e then fail else (0, o1))"

definition AddCreationComponent :: "OrderMessage \<Rightarrow> 'd SzETF \<Rightarrow> OrderMessage option" where
  "AddCreationComponent o1 e =
     (if ui64CreationRedemptionUnit e = 0 then None
      else let tms = ui64Orderqty_origin o1 div ui64CreationRedemptionUnit e in
        Some (o1\<lparr>vecFrozeComponent := vecFrozeComponent o1 @ map (\<lambda>c. EtfCrt_FrozeComponent_default\<lparr>
          fc_strSecurityID := comp_strUnderlyingSecurityID c, fc_ui64act_pch_count := ui64ComponentShare c * tms,
          fc_ui64avl_count := 0, fc_ui64Cash := ui64mRedemptionCashSubstitute c * tms\<rparr>) (vecComponents e)\<rparr>))"

definition AddRedeptionComponent :: "OrderMessage \<Rightarrow> 'd SzETF \<Rightarrow> OrderMessage option" where
  "AddRedeptionComponent o1 e =
     (if ui64CreationRedemptionUnit e = 0 then None
      else let tms = ui64Orderqty_origin o1 div ui64CreationRedemptionUnit e in
        Some (o1\<lparr>vecFrozeComponent := vecFrozeComponent o1 @ map (\<lambda>c. EtfCrt_FrozeComponent_default\<lparr>
          fc_strSecurityID := comp_strUnderlyingSecurityID c, fc_ui64rdp_count := ui64ComponentShare c * tms,
          fc_ui64Cash := ui64mRedemptionCashSubstitute c * tms\<rparr>) (vecComponents e)\<rparr>))"

section \<open>Preparing the trade\<close>

text \<open>The cases of \<open>TradePrep\<close>; each gives the code at the end of its case, the order and the state.\<close>

type_synonym 'r prep = "(int \<times> OrderMessage \<times> StockCache \<times> 'r) option"

definition quoted :: "'r Env \<Rightarrow> OrderMessage \<Rightarrow> StockCache \<Rightarrow> 'r \<Rightarrow> (OrderMessage \<Rightarrow> 'r \<Rightarrow> 'r prep) \<Rightarrow> 'r prep" where
  "quoted env o1 st rd rest =
     (if iMatchMode (tradePolicy o1) = EnAbleQuta then
        (case CheckOrderByQuotation env o1 rd of None \<Rightarrow> None
         | Some (iRes, o2, rd1) \<Rightarrow> if iRes \<noteq> 0 then Some (-2, o2, st, rd1) else rest o2 rd1)
      else rest o1 rd)"

text \<open>The end of the function: a failed preparation marks the order.\<close>

definition prepared :: "'r prep \<Rightarrow> 'r prep" where
  "prepared x = map_option (\<lambda>(iRes, o1, st, rd).
     (iRes, if iRes \<noteq> 0 then o1\<lparr>enMatchType := ErrorMatch\<rparr> else o1, st, rd)) x"

definition prep_sell :: "'r Env \<Rightarrow> OrderMessage \<Rightarrow> StockCache \<Rightarrow> 'r \<Rightarrow> 'r prep" where
  "prep_sell env o1 st rd =
     (if bCheck_Assets (tradePolicy o1) \<and> is_sell_side o1 then
        map_option (\<lambda>(iRes, out, st1).
           (iRes, case out of None \<Rightarrow> o1 | Some (rdp, avl) \<Rightarrow> o1\<lparr>sellCps := \<lparr>scps_ui64Etf_rdp = rdp, scps_ui64Avl = avl\<rparr>\<rparr>,
            st1, rd))
          (UserStockHelper_SellFroze (e_loader env) (e_clock env) (strAccountId o1) (strStockID o1) (ui64LeavesQty o1) st)
      else Some (0, o1, st, rd))"

definition prep_sell_etf :: "'r Env \<Rightarrow> OrderMessage \<Rightarrow> StockCache \<Rightarrow> 'r \<Rightarrow> 'r prep" where
  "prep_sell_etf env o1 st rd =
     (if bCheck_Assets (tradePolicy o1) then
        map_option (\<lambda>(iRes, out, st1).
           (iRes, case out of None \<Rightarrow> o1
              | Some (crt, avl) \<Rightarrow> o1\<lparr>sellETFCps := \<lparr>secps_ui64Etf_crt = crt, secps_ui64Avl = avl\<rparr>\<rparr>, st1, rd))
          (UserStockHelper_SellEtfFroze (e_loader env) (e_clock env) (strAccountId o1) (strStockID o1) (ui64LeavesQty o1) st)
      else Some (0, o1, st, rd))"

definition prep_creation :: "'d EtfEnv \<Rightarrow> 'r Env \<Rightarrow> OrderMessage \<Rightarrow> 'd SzETF \<Rightarrow> StockCache \<Rightarrow> 'r \<Rightarrow> 'r prep" where
  "prep_creation x env o1 e st rd =
     (if bCheck_Assets (tradePolicy o1) then
        map_option (\<lambda>(iRes, v, st1, rd1). (iRes, o1\<lparr>vecFrozeComponent := v\<rparr>, st1, rd1))
          (UserStockHelper_CreationQuery x env (strAccountId o1) (ui64Orderqty_origin o1) e (vecFrozeComponent o1) st rd)
      else map_option (\<lambda>o2. (0, o2, st, rd)) (AddCreationComponent o1 e))"

definition prep_redemption :: "'r Env \<Rightarrow> OrderMessage \<Rightarrow> 'd SzETF \<Rightarrow> StockCache \<Rightarrow> 'r \<Rightarrow> 'r prep" where
  "prep_redemption env o1 e st rd =
     (case (if bCheck_Assets (tradePolicy o1) then
              map_option (\<lambda>(iRes, out, st1).
                 (iRes, case out of None \<Rightarrow> o1
                    | Some (act, avl) \<Rightarrow> o1\<lparr>rdpETFCps := \<lparr>rcps_ui64Act_pch = act, rcps_ui64Avl = avl\<rparr>\<rparr>, st1))
                (UserStockHelper_RedemptionFroze (e_loader env) (e_clock env) (strAccountId o1) (strStockID o1)
                   (ui64LeavesQty o1) st)
            else Some (0, o1, st)) of
        None \<Rightarrow> None
      | Some (iRes, o2, st1) \<Rightarrow> map_option (\<lambda>o3. (iRes, o3, st1, rd)) (AddRedeptionComponent o2 e))"

definition TradePrep :: "'d EtfEnv \<Rightarrow> 'r Env \<Rightarrow> OrderMessage \<Rightarrow> StockCache \<Rightarrow> 'r \<Rightarrow> 'r prep" where
  "TradePrep x env o0 st rd =
     (case GetTradeType o0 of (t, o1) \<Rightarrow>
        if t = TADE_TYPE_error then Some (-1, o1, st, rd)
        else if t = a_trade \<or> t = b_trade \<or> t = etf_buy
        then quoted env o1 st rd (\<lambda>o2 rd1. prepared (prep_sell env o2 st rd1))
        else if t = etf_sell then quoted env o1 st rd (\<lambda>o2 rd1. prepared (prep_sell_etf env o2 st rd1))
        else if t = etf_crt \<or> t = etf_rdp then
          (case ValidateETF x o1 of (iRes, o2) \<Rightarrow>
             if iRes \<noteq> 0 then Some (-1, o2, st, rd)
             else (case ETFHelper_Query x (strStockID o2) of
                 (_, None) \<Rightarrow> Some (-1, o2\<lparr>enMatchType := ErrorMatch\<rparr>, st, rd)
               | (_, Some e) \<Rightarrow> prepared (if t = etf_crt then prep_creation x env o2 e st rd
                                         else prep_redemption env o2 e st rd)))
        else Some (0, o1, st, rd))"

section \<open>A sale is frozen for exactly its quantity\<close>

lemma PreTrade_checks_agree:
  "PreTrade_CheckTPBZ = CheckTPBZ" "PreTrade_Check_MaxGain_And_MinFall = Check_MaxGain_And_MinFall"
  by (simp_all add: fun_eq_iff PreTrade_CheckTPBZ_def CheckTPBZ_def PreTrade_Check_MaxGain_And_MinFall_def
      Check_MaxGain_And_MinFall_def)

lemma CheckOrderByQuotation_ok: "CheckOrderByQuotation env o1 rd = Some (0, o2, rd1) \<Longrightarrow> o2 = o1"
  by (auto simp: CheckOrderByQuotation_def PreTrade_CheckTPBZ_def PreTrade_Check_MaxGain_And_MinFall_def
      split: prod.splits option.splits if_splits)

lemma quotedE:
  assumes "quoted env o1 st rd rest = Some (r, o2, st2, rd2)"
  obtains "r = -2" and "st2 = st" | rd1 where "rest o1 rd1 = Some (r, o2, st2, rd2)"
  using assms CheckOrderByQuotation_ok [of env o1 rd]
  by (auto simp: quoted_def split: if_splits option.splits prod.splits)

definition etf_code :: "string \<Rightarrow> bool" where
  "etf_code stk \<longleftrightarrow> take 2 stk \<in> {''15'', ''16'', ''18'', ''50'', ''51''}"

lemma TradePrep_sale:
  assumes "length (strStockID o1) = 6" and "\<not> etf_code (strStockID o1)" and "is_sell_side o1"
    and "strMsgType o1 \<noteq> STEPMSG_MSGTYPE_ORDER_CACEL"
  shows "TradePrep x env o1 st rd = quoted env (o1\<lparr>iTrade_type := a_trade\<rparr>) st rd
    (\<lambda>o2 rd1. prepared (prep_sell env o2 st rd1))"
proof -
  have "GetTradeType o1 = (a_trade, o1\<lparr>iTrade_type := a_trade\<rparr>)"
    using assms by (auto simp: GetTradeType_def etf_code_def Let_def)
  then show ?thesis by (simp add: TradePrep_def TADE_TYPE_defs)
qed

lemma SellFroze_held:
  assumes "UserStockHelper_SellFroze ld t acc stk q st = Some (r, out, st2)" and "holding_of ld t acc stk st = Some u"
  obtains rdp avl u' where "out = Some (rdp, avl)" and "UserStockVolume_SellFroze t u q = (r, rdp, avl, u')"
    and "cache_find st2 acc stk = Some u'" and "same_off cache_look (acc, stk) st st2"
proof -
  obtain r0 s0 where l: "UserStockHelper_LookUp ld t acc stk st = (r0, s0)" by force
  note e = LookUpE [OF l]
  obtain rdp avl u' where f: "UserStockVolume_SellFroze t u q = (r, rdp, avl, u')" "out = Some (rdp, avl)"
    "st2 = cache_put acc stk u' s0"
    using assms l e by (auto simp: UserStockHelper_SellFroze_def held_freeze_def split: option.splits prod.splits if_splits)
  with e(3) show thesis by (intro that) auto
qed

text \<open>What a sale's preparation did to its account: \<open>frozen_for\<close> when it succeeded.\<close>

definition frozen_for :: "OrderMessage \<Rightarrow> UserStockVolume \<Rightarrow> UserStockVolume \<Rightarrow> bool" where
  "frozen_for o1 u u' \<longleftrightarrow>
     scps_ui64Etf_rdp (sellCps o1) + scps_ui64Avl (sellCps o1) = ui64LeavesQty o1 \<and>
     unat (ui64LeavesQty o1) \<le> unat (m_ui64UnFrozeVolume (m_stk_etf_rdp_Balance u)) + unat (m_ui64UnFrozeVolume (m_stk_avl_Balance u)) \<and>
     m_stk_etf_rdp_Balance u' = freeze_part (m_stk_etf_rdp_Balance u) (scps_ui64Etf_rdp (sellCps o1)) \<and>
     m_stk_avl_Balance u' = freeze_part (m_stk_avl_Balance u) (scps_ui64Avl (sellCps o1))"

lemma sale_prepared:
  assumes prep: "TradePrep x env o1 st rd = Some (r, o2, st2, rd2)"
    and o1: "length (strStockID o1) = 6" "\<not> etf_code (strStockID o1)" "is_sell_side o1"
      "strMsgType o1 \<noteq> STEPMSG_MSGTYPE_ORDER_CACEL" "bCheck_Assets (tradePolicy o1)"
    and u: "holding_of (e_loader env) (e_clock env) (strAccountId o1) (strStockID o1) st = Some u"
  shows "same_off cache_look (strAccountId o1, strStockID o1) st st2"
    and "r = 0 \<or> r = -1 \<or> r = -2"
    and "r = 0 \<Longrightarrow> \<exists>rdp avl u'. o2 = o1\<lparr>iTrade_type := a_trade, sellCps := \<lparr>scps_ui64Etf_rdp = rdp, scps_ui64Avl = avl\<rparr>\<rparr> \<and>
      cache_find st2 (strAccountId o1) (strStockID o1) = Some u' \<and> frozen_for o2 u u'"
    and "r \<noteq> 0 \<Longrightarrow> holding_of (e_loader env) (e_clock env) (strAccountId o1) (strStockID o1) st2 \<in>
      {Some u, Some (touch (e_clock env) u)}"
proof -
  let ?a = "strAccountId o1" and ?k = "strStockID o1" and ?o = "o1\<lparr>iTrade_type := a_trade\<rparr>"
  have "same_off cache_look (?a, ?k) st st2 \<and> (r = 0 \<or> r = -1 \<or> r = -2) \<and>
    (r = 0 \<longrightarrow> (\<exists>rdp avl u'. o2 = ?o\<lparr>sellCps := \<lparr>scps_ui64Etf_rdp = rdp, scps_ui64Avl = avl\<rparr>\<rparr> \<and>
      cache_find st2 ?a ?k = Some u' \<and> frozen_for o2 u u')) \<and>
    (r \<noteq> 0 \<longrightarrow> holding_of (e_loader env) (e_clock env) ?a ?k st2 \<in> {Some u, Some (touch (e_clock env) u)})"
    using prep unfolding TradePrep_sale [OF o1(1-4)]
  proof (rule quotedE)
    assume "r = -2" "st2 = st"
    then show ?thesis using u by (simp add: same_off_def)
  next
    fix rd1 assume "prepared (prep_sell env ?o st rd1) = Some (r, o2, st2, rd2)"
    then obtain out where f: "UserStockHelper_SellFroze (e_loader env) (e_clock env) ?a ?k (ui64LeavesQty o1) st = Some (r, out, st2)"
      and o2: "o2 = (let o3 = (case out of None \<Rightarrow> ?o | Some (rdp, avl) \<Rightarrow>
          ?o\<lparr>sellCps := \<lparr>scps_ui64Etf_rdp = rdp, scps_ui64Avl = avl\<rparr>\<rparr>)
        in if r \<noteq> 0 then o3\<lparr>enMatchType := ErrorMatch\<rparr> else o3)"
      using o1(3,5) by (auto simp: prepared_def prep_sell_def is_sell_side_def Let_def)
    from f u obtain rdp avl u' where out: "out = Some (rdp, avl)"
      and v: "UserStockVolume_SellFroze (e_clock env) u (ui64LeavesQty o1) = (r, rdp, avl, u')"
      and c: "cache_find st2 ?a ?k = Some u'" "same_off cache_look (?a, ?k) st st2"
      by (rule SellFroze_held)
    have h: "holding_of (e_loader env) (e_clock env) ?a ?k st2 = Some u'" using c(1) by (simp add: holding_of_def)
    show ?thesis
    proof (cases "r = 0")
      case True
      note am = sell.success_amounts [OF v [unfolded True]]
      have q: "unat (ui64LeavesQty o1) \<le> unat (m_ui64UnFrozeVolume (m_stk_etf_rdp_Balance u)) + unat (m_ui64UnFrozeVolume (m_stk_avl_Balance u))"
        using sell.rc_iff [OF v] True by (simp split: if_splits)
      have o: "o2 = ?o\<lparr>sellCps := \<lparr>scps_ui64Etf_rdp = rdp, scps_ui64Avl = avl\<rparr>\<rparr>" using True by (simp add: o2 out)
      have "frozen_for o2 u u'" using am q by (simp add: frozen_for_def o)
      then show ?thesis using True c o by blast
    next
      case False
      from sell.failure_restores [OF v False] h c(2) False show ?thesis by auto
    qed
  qed
  then show "same_off cache_look (?a, ?k) st st2" "r = 0 \<or> r = -1 \<or> r = -2"
    "r = 0 \<Longrightarrow> \<exists>rdp avl u'. o2 = ?o\<lparr>sellCps := \<lparr>scps_ui64Etf_rdp = rdp, scps_ui64Avl = avl\<rparr>\<rparr> \<and>
      cache_find st2 ?a ?k = Some u' \<and> frozen_for o2 u u'"
    "r \<noteq> 0 \<Longrightarrow> holding_of (e_loader env) (e_clock env) ?a ?k st2 \<in> {Some u, Some (touch (e_clock env) u)}"
    by simp_all
qed

section \<open>Cash in place of shares\<close>

text \<open>
  When cash may stand in for a component of which the account holds too few, the freeze fails
  and rolls back, but the order goes on with the amounts it reported: the available shares it
  records as frozen are not, and the rollback takes the purchased ones off the wrong counter.
\<close>

theorem cash_substitution_unfrozen:
  assumes c: "iSubstituteFlag c = Security_And_Cash"
    and u: "holding_of (e_loader env) (e_clock env) acc (comp_strUnderlyingSecurityID c) st = Some u"
    and short: "unat (m_ui64UnFrozeVolume (m_stk_act_pch_Balance u)) + unat (m_ui64UnFrozeVolume (m_stk_avl_Balance u))
      < unat (tms * ui64ComponentShare c)"
    and act: "m_ui64UnFrozeVolume (m_stk_act_pch_Balance u) \<noteq> 0"
    and quot: "GetCurrStaticQuot (e_redis env) (e_json x) (comp_strUnderlyingSecurityID c) rd = ((0, zrsp, tpbz), rd1)"
  shows "\<exists>info u' st'. froze_components x env acc tms [c] v st rd = Some (0, v @ [info], st', rd1) \<and>
    cache_find st' acc (comp_strUnderlyingSecurityID c) = Some u' \<and>
    fc_ui64avl_count info = m_ui64UnFrozeVolume (m_stk_avl_Balance u) \<and> m_stk_avl_Balance u' = m_stk_avl_Balance u \<and>
    fc_ui64act_pch_count info = m_ui64UnFrozeVolume (m_stk_act_pch_Balance u) \<and>
    m_ui64ForzeVolume (m_stk_etf_rdp_Balance u') = m_ui64ForzeVolume (m_stk_etf_rdp_Balance u) - fc_ui64act_pch_count info"
proof -
  obtain r0 st1 where l: "UserStockHelper_LookUp (e_loader env) (e_clock env) acc (comp_strUnderlyingSecurityID c) st = (r0, st1)"
    by force
  have f: "cache_find st1 acc (comp_strUnderlyingSecurityID c) = Some u" using LookUpE(2) [OF l] u by simp
  show ?thesis
    using c quot by (simp add: Let_def l f CreationFroze_short [OF short act] Only_Cash_def Security_And_Cash_def
      FrozeVolume_Defroze_def)
qed

text \<open>Integers in place of floating-point numbers.\<close>

definition int_ops :: "int double_ops" where
  "int_ops = \<lparr>d_of = uint, d_mult = (*), d_minus = (-), d_below = (\<lambda>d. d < 0), d_scale = (\<lambda>z r. z)\<rparr>"

definition sample_etf_env :: "int EtfEnv" where
  "sample_etf_env = \<lparr>g_mapSZETF = Map.empty, e_double = int_ops,
     e_json = (\<lambda>_. Some [''ZRSP'' \<mapsto> ''10000'', ''TPBZ'' \<mapsto> ''F''])\<rparr>"

definition sample_quote_env :: "unit Env" where
  "sample_quote_env = \<lparr>e_loader = sample_loader, e_clock = 0, e_redis = (\<lambda>_ r. (RedisReply_string ''{}'', r)),
     e_ptime = (\<lambda>_. None), e_hash = (\<lambda>_. 0), e_random15 = ''1'', e_trade_time = [], g_Quotation_Type = AveragePrice\<rparr>"

definition sample_component :: "int SzETFComponent" where
  "sample_component = \<lparr>comp_strUnderlyingSecurityID = ''600000'', comp_strUnderlyingSecurityIDSource = [], comp_strUnderlyingSymbol = [], ui64ComponentShare = 100, iSubstituteFlag = 1,
     dPremiumRatio = 0, ui64mCreationCashSubstitute = 0, ui64mRedemptionCashSubstitute = 0\<rparr>"

lemma cash_substitution_unfrozen_witness:
  "\<exists>info u' st'. froze_components sample_etf_env sample_quote_env ''A1'' 1 [sample_component] [] empty_cache () =
      Some (0, [info], st', ()) \<and> cache_find st' ''A1'' ''600000'' = Some u' \<and>
    fc_ui64avl_count info = 50 \<and> m_ui64ForzeVolume (m_stk_avl_Balance u') = 0"
proof -
  have q: "GetCurrStaticQuot (e_redis sample_quote_env) (e_json sample_etf_env) (comp_strUnderlyingSecurityID sample_component) () =
      ((0, 10000, ''F''), ())"
    by (simp add: GetCurrStaticQuot_def sample_quote_env_def sample_etf_env_def)
  show ?thesis
    using cash_substitution_unfrozen [OF _ _ _ _ q, of "''A1''" empty_cache sample_volume 1 "[]"]
    by (force simp: sample_component_def sample_quote_env_def Security_And_Cash_def)
qed

end
