(* ===== verification/MatchThread.thy ===== *)
theory MatchThread
  imports MatchTasks
begin

text \<open>
  What a matching thread does with the tasks of its queue: the slices of an order that the policy
  divides, orders that are never matched, and cancellations.
\<close>

section \<open>A queue with one task\<close>

definition idle :: "TaskPriorityQueue \<Rightarrow> bool" where
  "idle q \<longleftrightarrow> m_p4_que q = [] \<and> m_p3_unorder_que q = [] \<and> m_p3_order_que q = [] \<and> m_p2_que q = [] \<and>
     m_p1_que q = [] \<and> m_uiTaskNums q = 0"

definition lone :: "TaskPriorityBase \<Rightarrow> TaskPriorityQueue \<Rightarrow> bool" where
  "lone t q \<longleftrightarrow> m_p4_que q = [] \<and> m_p3_unorder_que q = [t] \<and> m_p3_order_que q = [] \<and> m_p2_que q = [] \<and>
     m_p1_que q = [] \<and> m_uiTaskNums q = 1"

lemma GetTask_lone: "lone t q \<Longrightarrow> \<exists>q'. TaskPriorityQueue_GetTask q = (0, Some t, q') \<and> idle q'"
  by (auto simp: TaskPriorityQueue_GetTask_def lone_def idle_def)

lemma GetTask_idle: "idle q \<Longrightarrow> TaskPriorityQueue_GetTask q = (1, None, q)"
  by (simp add: TaskPriorityQueue_GetTask_def idle_def)

lemma AddTask_idle:
  "idle q \<Longrightarrow> m_Prio t = Level_Match_Order \<Longrightarrow>
     \<exists>n q'. TaskPriorityQueue_AddTask (Some t) False q = Some (0, n, q') \<and> lone t q'"
  by (auto simp: TaskPriorityQueue_AddTask_def lone_def idle_def MAX_QUEUE_SIZE_def)

section \<open>An order on its own in a thread\<close>

text \<open>
  \<open>resting\<close>: the thread of the order at \<open>p\<close> has an empty queue.  \<open>waiting\<close>: it holds just that
  order's task.
\<close>

definition order_thread :: "'r Env \<Rightarrow> OrderMessage \<Rightarrow> nat \<Rightarrow> nat" where
  "order_thread env o1 n = key_thread (GenerateKey (e_hash env) (strStockID o1) (strSide o1) True) n"

definition placed :: "'r Env \<Rightarrow> nat \<Rightarrow> msgref \<Rightarrow> 'r Gw \<Rightarrow> bool" where
  "placed env i p s \<longleftrightarrow> i < length (g_mtskPool_match_cancel s) \<and> p < length (heap s) \<and>
     order_thread env (msg s p) (length (g_mtskPool_match_cancel s)) = i \<and>
     match_task_kind (msg s p) = Some Task_ABStockMatch"

definition resting :: "'r Env \<Rightarrow> nat \<Rightarrow> msgref \<Rightarrow> 'r Gw \<Rightarrow> bool" where
  "resting env i p s \<longleftrightarrow> placed env i p s \<and> idle (g_mtskPool_match_cancel s ! i)"

definition waiting :: "'r Env \<Rightarrow> nat \<Rightarrow> msgref \<Rightarrow> 'r Gw \<Rightarrow> bool" where
  "waiting env i p s \<longleftrightarrow> placed env i p s \<and>
     (\<exists>t. lone t (g_mtskPool_match_cancel s ! i) \<and> tasks s (m_uiId t) = Some (Task_ABStockMatch, p))"

lemma thread_step_waiting:
  assumes "waiting env i p s"
  obtains s1 where "resting env i p s1" and "heap s1 = heap s" and "g_outMsg_buffer s1 = g_outMsg_buffer s"
    and "thread_step env i s = map_option (\<lambda>(_, s2). (True, s2)) (MatchOrder env p s1)"
proof -
  let ?pool = "g_mtskPool_match_cancel s"
  from assms obtain t where t: "lone t (?pool ! i)" "tasks s (m_uiId t) = Some (Task_ABStockMatch, p)"
    and p: "placed env i p s" by (auto simp: waiting_def)
  from GetTask_lone [OF t(1)] obtain q' where g: "TaskPriorityQueue_GetTask (?pool ! i) = (0, Some t, q')" "idle q'" by blast
  let ?s1 = "s\<lparr>g_mtskPool_match_cancel := ?pool[i := q']\<rparr>"
  have "resting env i p ?s1" using p g(2) by (simp add: resting_def placed_def)
  moreover have "thread_step env i s = map_option (\<lambda>(_, s2). (True, s2)) (MatchOrder env p ?s1)"
    using g t(2) by (simp add: thread_step_def TaskProc_def Let_def)
  ultimately show thesis by (intro that [of ?s1]) simp_all
qed

lemma match_kind_copy [simp]: "match_task_kind (OrderMessage_copy o1) = match_task_kind o1"
  by (simp add: match_task_kind_def OrderMessage_copy_def)

lemma order_thread_copy [simp]: "order_thread env (OrderMessage_copy o1) n = order_thread env o1 n"
  by (simp add: order_thread_def OrderMessage_copy_def)

lemma GenTask_resting:
  assumes "resting env i p s"
  obtains s' where "GenTask_Match env p s = Some (0, s')" and "waiting env i (length (heap s)) s'"
    and "heap s' = heap s @ [OrderMessage_copy (msg s p)]" and "g_outMsg_buffer s' = g_outMsg_buffer s"
proof -
  let ?pool = "g_mtskPool_match_cancel s"
  let ?o = "OrderMessage_copy (msg s p)"
  let ?t = "SetOrderMsg env Task_ABStockMatch (g_uidTaskGen s) ?o"
  have p: "i < length ?pool" "order_thread env (msg s p) (length ?pool) = i"
    "match_task_kind (msg s p) = Some Task_ABStockMatch" "idle (?pool ! i)"
    using assms by (simp_all add: resting_def placed_def)
  have t: "m_Prio ?t = Level_Match_Order" "m_uiId ?t = g_uidTaskGen s" "\<not> m_bIsMatchOrdered ?t"
    "m_iKey ?t = GenerateKey (e_hash env) (strStockID ?o) (strSide ?o) True"
    by (simp_all add: SetOrderMsg_def)
  from AddTask_idle [OF p(4) t(1)] obtain n q' where
    a: "TaskPriorityQueue_AddTask (Some ?t) False (?pool ! i) = Some (0, n, q')" "lone ?t q'" by blast
  have k: "key_thread (m_iKey ?t) (length ?pool) = i"
    using p(2) t(4) order_thread_copy [of env "msg s p" "length ?pool"] by (simp add: order_thread_def)
  have assign: "PriorityThreadPool_AssignTaskWithKey ?t ?pool = Some (0, ?pool[i := q'])"
    using p(1) k a(1) t(3) by (auto simp: PriorityThreadPool_AssignTaskWithKey_def PriorityThread_AddTask_def Let_def)
  let ?s' = "s\<lparr>g_uidTaskGen := g_uidTaskGen s + 1, heap := heap s @ [?o],
     tasks := (tasks s)(g_uidTaskGen s \<mapsto> (Task_ABStockMatch, length (heap s))), g_mtskPool_match_cancel := ?pool[i := q']\<rparr>"
  have "GenTask_Match env p s = Some (0, ?s')"
    using p(3) assign by (simp add: GenTask_Match_def Let_def)
  moreover have "waiting env i (length (heap s)) ?s'"
    using p a(2) t(2) by (auto simp: waiting_def placed_def nth_append)
  ultimately show thesis by (intro that [of ?s']) simp_all
qed

lemma thread_loop_resting:
  assumes "resting env i p s"
  shows "thread_loop runs n env i s = Some (Some s)"
proof -
  have "TaskPriorityQueue_GetTask (g_mtskPool_match_cancel s ! i) = (1, None, g_mtskPool_match_cancel s ! i)"
    using assms by (simp add: resting_def GetTask_idle)
  then show ?thesis by (simp add: thread_loop.simps [of runs n] thread_step_def Let_def)
qed

section \<open>One slice\<close>

lemma UpdateAfterTrade_unchecked_order:
  assumes "\<not> bCheck_Assets (tradePolicy o1)"
  obtains r st' where "UserStockHelper_UpdateAfterTrade ld t o1 st = Some (r, o1, st')"
proof -
  have "UserStockHelper_UpdateAfterTrade ld t o1 st \<noteq> None" by (rule UpdateAfterTrade_unchecked [OF assms])
  then obtain r o2 st' where u: "UserStockHelper_UpdateAfterTrade ld t o1 st = Some (r, o2, st')" by auto
  then have "o2 = o1"
    using assms by (auto simp: UserStockHelper_UpdateAfterTrade_def UserStockHelper_UpdateTrade_def split: if_splits)
  then show thesis using u that by blast
qed

lemma Inc_MatchPart_sel [simp]:
  "heap (Inc_MatchPart m s) = heap s" "tasks (Inc_MatchPart m s) = tasks s" "stock (Inc_MatchPart m s) = stock s"
  "g_mtskPool_match_cancel (Inc_MatchPart m s) = g_mtskPool_match_cancel s" "redis (Inc_MatchPart m s) = redis s"
  "g_outMsg_buffer (Inc_MatchPart m s) = g_outMsg_buffer s" "g_uidTaskGen (Inc_MatchPart m s) = g_uidTaskGen s"
  by (simp_all add: Inc_MatchPart_def)

text \<open>\<open>reported p s s'\<close>: \<open>s'\<close> is \<open>s\<close> after the order at \<open>p\<close> got its ids and its report was pushed.\<close>

definition reported :: "msgref \<Rightarrow> 'r Gw \<Rightarrow> 'r Gw \<Rightarrow> bool" where
  "reported p s s' \<longleftrightarrow> length (heap s') = length (heap s) \<and> (\<forall>q. q \<noteq> p \<longrightarrow> msg s' q = msg s q) \<and>
     same_trade (msg s p) (msg s' p) \<and> g_mtskPool_match_cancel s' = g_mtskPool_match_cancel s \<and>
     g_outMsg_buffer s' = snd (OutMemoryManage_PushBack (msg s') p (g_outMsg_buffer s))"

lemma report_slice_unchecked:
  assumes "\<not> bCheck_Assets (tradePolicy (msg s p))" and p: "p < length (heap s)"
  obtains s' where "report_slice env Inc_MatchPart p s = Some s'" and "reported p s s'"
proof -
  obtain i where i: "\<And>q. msg (set_exec_ids env p s) q =
      (if q = p then (msg s p)\<lparr>strExecID := i q, strOrderID := i q\<rparr> else msg s q)"
    using set_exec_ids_msg [OF p, of env] by metis
  let ?o = "(msg s p)\<lparr>strExecID := i p, strOrderID := i p, strTrade_time := e_trade_time env\<rparr>"
  let ?s2 = "Inc_MatchPart (strTrade_market ?o) (put_msg p ?o (set_exec_ids env p s))"
  have l: "p < length (heap (set_exec_ids env p s))" using p by simp
  have m2: "msg ?s2 p = ?o" using l by simp
  obtain r st' where u: "UserStockHelper_UpdateAfterTrade (e_loader env) (e_clock env) ?o (stock ?s2) = Some (r, ?o, st')"
    by (rule UpdateAfterTrade_unchecked_order [of ?o]) (use assms(1) in simp)
  let ?s3 = "(put_msg p ?o ?s2)\<lparr>stock := st'\<rparr>"
  have "modify_msg p (\<lambda>o1. o1\<lparr>strTrade_time := e_trade_time env\<rparr>) (set_exec_ids env p s) = put_msg p ?o (set_exec_ids env p s)"
    using i [of p] by (simp add: modify_msg_def)
  then have "report_slice env Inc_MatchPart p s = Some (snd (PushBack p ?s3))"
    using u m2 l by (simp add: report_slice_def Let_def UpdateAfterTrade_def)
  moreover have "reported p s (snd (PushBack p ?s3))"
  proof -
    have "same_trade (msg s p) ?o"
      unfolding same_trade_def by (intro exI [of _ "sellCps (msg s p)"] exI [of _ "sellETFCps (msg s p)"] exI [of _ "i p"]
          exI [of _ "e_trade_time env"]) simp
    moreover have "msg ?s3 q = (if q = p then ?o else msg s q)" for q using l i [of q] by simp
    moreover have "snd (PushBack p ?s3) = ?s3\<lparr>g_outMsg_buffer := snd (OutMemoryManage_PushBack (msg ?s3) p (g_outMsg_buffer s))\<rparr>"
      by (simp add: PushBack_def split: prod.splits)
    ultimately show ?thesis by (simp add: reported_def)
  qed
  ultimately show thesis by (rule that)
qed

section \<open>An order divided into slices\<close>

text \<open>The slices as a reference: of size \<open>part\<close> while twice as much is left, then the rest at once.\<close>

function divide_slices :: "nat \<Rightarrow> nat \<Rightarrow> nat list" where
  "divide_slices part l =
     (if l = 0 then [] else if part = 0 \<or> l < 2 * part then [l] else part # divide_slices part (l - part))"
  by auto
termination by (relation "measure snd") auto

declare divide_slices.simps [simp del]

lemma sum_divide_slices: "sum_list (divide_slices part l) = l"
  by (induction part l rule: divide_slices.induct) (subst divide_slices.simps, auto)

lemma length_divide_slices:
  "l \<noteq> 0 \<Longrightarrow> part \<noteq> 0 \<Longrightarrow> length (divide_slices part l) = max 1 (l div part)"
proof (induction part l rule: divide_slices.induct)
  case (1 part l)
  show ?case
  proof (cases "l < 2 * part")
    case True
    then have "l div part \<le> 1" using 1(3) by (simp add: div_le_mono2 less_mult_imp_div_less less_Suc_eq_le [symmetric])
    then show ?thesis using True 1(2,3) by (simp add: divide_slices.simps)
  next
    case False
    then have "l div part = Suc ((l - part) div part)" using 1(3) by (simp add: le_div_geq)
    moreover have "1 \<le> (l - part) div part" using False 1(3) by (simp add: div_greater_zero_iff Suc_le_eq)
    ultimately show ?thesis using False 1 by (simp add: divide_slices.simps)
  qed
qed

text \<open>What the policy and the market of a divided order are; the steps never change it.\<close>

definition divided :: "u64 \<Rightarrow> out_channel \<Rightarrow> OrderMessage \<Rightarrow> bool" where
  "divided part c o1 \<longleftrightarrow> iMatchMode (tradePolicy o1) = SimulMatchByDivide \<and> \<not> bCheck_Assets (tradePolicy o1) \<and>
     iPart_Match_Num (tradePolicy o1) \<noteq> 0 \<and> ui64Orderqty_origin o1 div ucast (iPart_Match_Num (tradePolicy o1)) = part \<and>
     out_route o1 = Some c"

lemma divided_keep [simp]:
  "divided part c (fill_slice ty q o1) = divided part c o1" "divided part c (OrderMessage_copy o1) = divided part c o1"
  by (simp_all add: divided_def fill_slice_def OrderMessage_copy_def out_route_def Let_def)

lemma divided_same: "same_trade o1 o2 \<Longrightarrow> divided part c o2 = divided part c o1"
  by (auto simp: divided_def same_trade_def out_route_def)

lemma placed_same:
  "same_trade o1 o2 \<Longrightarrow> match_task_kind o2 = match_task_kind o1"
  "same_trade o1 o2 \<Longrightarrow> order_thread env o2 n = order_thread env o1 n"
  unfolding same_trade_def by (elim exE, simp add: match_task_kind_def order_thread_def)+

lemma placed_fill [simp]:
  "match_task_kind (fill_slice ty q o1) = match_task_kind o1"
  "order_thread env (fill_slice ty q o1) n = order_thread env o1 n"
  by (simp_all add: fill_slice_def match_task_kind_def order_thread_def Let_def)

lemma PushBack_content:
  "out_route (h p) = Some c \<Longrightarrow> out_content c (snd (OutMemoryManage_PushBack h p b)) = out_content c b @ [p]"
  by (auto simp: PushBack_route out_defs split: out_channel.splits option.splits)

lemma PushBack_buffer:
  "g_outMsg_buffer (snd (PushBack p s)) = snd (OutMemoryManage_PushBack (msg s) p (g_outMsg_buffer s))"
  by (simp add: PushBack_def split: prod.splits)

lemma divide_slice_unat:
  assumes d: "divided part c o1" and "unat part < 2 ^ 63" and l: "ui64LeavesQty o1 \<noteq> 0"
  obtains ty q where "divide_slice o1 = Some (ty, q)" and "q \<noteq> 0" and "q \<le> ui64LeavesQty o1"
    and "divide_slices (unat part) (unat (ui64LeavesQty o1)) =
      unat q # divide_slices (unat part) (unat (ui64LeavesQty o1 - q))"
proof -
  let ?l = "ui64LeavesQty o1"
  have l0: "unat ?l \<noteq> 0" using l by (simp add: unat_eq_0)
  have p2: "unat (2 * part) = 2 * unat part"
    using assms(2) by (subst unat_mult_lem [THEN iffD1]) simp_all
  have last: "divide_slices (unat part) (unat ?l) = unat ?l # divide_slices (unat part) (unat (?l - ?l))"
    if "part = 0 \<or> \<not> 2 * part \<le> ?l"
  proof -
    have "unat part = 0 \<or> unat ?l < 2 * unat part" using that p2 by (auto simp: word_le_nat_alt)
    then show ?thesis using l0 by (simp add: divide_slices.simps)
  qed
  show thesis
  proof (cases "part = 0 \<or> \<not> 2 * part \<le> ?l")
    case True
    then have "divide_slice o1 = Some (MatchAll, ?l)" using d by (auto simp: divided_def divide_slice_def Let_def)
    then show thesis using that l last [OF True] by simp
  next
    case False
    then have "divide_slice o1 = Some (MatchPart, part)" using d by (auto simp: divided_def divide_slice_def Let_def)
    moreover have le: "2 * unat part \<le> unat ?l" using False p2 by (simp add: word_le_nat_alt)
    moreover have "part \<le> ?l" using le by (simp add: word_le_nat_alt)
    moreover have "unat part \<noteq> 0" using False by (simp add: unat_eq_0)
    moreover from this le have "divide_slices (unat part) (unat ?l) = unat part # divide_slices (unat part) (unat (?l - part))"
      using l0 \<open>part \<le> ?l\<close> by (subst divide_slices.simps) (simp add: unat_minus_le)
    ultimately show thesis using that False by auto
  qed
qed

text \<open>One pass: a slice is reported, and what is left waits again at a new address.\<close>

lemma Divide_step:
  assumes r: "resting env i p s" and d: "divided part c (msg s p)" "unat part < 2 ^ 63" and l: "ui64LeavesQty (msg s p) \<noteq> 0"
  obtains s2 q where "MatchOrder env p s = Some (0, s2)" and "q \<noteq> 0" and "q \<le> ui64LeavesQty (msg s p)"
    and "divide_slices (unat part) (unat (ui64LeavesQty (msg s p))) =
      unat q # divide_slices (unat part) (unat (ui64LeavesQty (msg s p) - q))"
    and "ui64Orderqty_matched (msg s2 p) = q" and "out_content c (g_outMsg_buffer s2) = out_content c (g_outMsg_buffer s) @ [p]"
    and "length (heap s) \<le> length (heap s2)" and "\<And>x. x < length (heap s) \<Longrightarrow> x \<noteq> p \<Longrightarrow> msg s2 x = msg s x"
    and "if ui64LeavesQty (msg s p) = q then resting env i p s2
         else waiting env i (length (heap s)) s2 \<and> divided part c (msg s2 (length (heap s))) \<and>
              ui64LeavesQty (msg s2 (length (heap s))) = ui64LeavesQty (msg s p) - q"
proof -
  obtain ty q where q: "divide_slice (msg s p) = Some (ty, q)" "q \<noteq> 0" "q \<le> ui64LeavesQty (msg s p)"
    "divide_slices (unat part) (unat (ui64LeavesQty (msg s p))) =
      unat q # divide_slices (unat part) (unat (ui64LeavesQty (msg s p) - q))"
    by (rule divide_slice_unat [OF d l])
  let ?o = "fill_slice ty q (msg s p)"
  let ?s0 = "put_msg p ?o s"
  have p: "p < length (heap s)" using r by (simp add: resting_def placed_def)
  have m0: "msg ?s0 p = ?o" using p by simp
  have o: "ui64LeavesQty ?o = ui64LeavesQty (msg s p) - q" "ui64Orderqty_matched ?o = q"
    by (simp_all add: fill_slice_def Let_def)
  have "\<not> bCheck_Assets (tradePolicy (msg ?s0 p))" using d(1) m0 by (simp add: divided_def fill_slice_def Let_def)
  from report_slice_unchecked [OF this] obtain s1 where
    rs: "report_slice env Inc_MatchPart p ?s0 = Some s1" "reported p ?s0 s1" using p by auto
  have st: "same_trade ?o (msg s1 p)" using rs(2) m0 by (simp add: reported_def)
  have d1: "divided part c (msg s1 p)" using d(1) divided_same [OF st] by simp
  have buf: "out_content c (g_outMsg_buffer s1) = out_content c (g_outMsg_buffer s) @ [p]"
    using rs(2) d1 by (simp add: reported_def divided_def PushBack_content)
  have others: "length (heap s1) = length (heap s)" "\<And>x. x \<noteq> p \<Longrightarrow> msg s1 x = msg s x"
    using rs(2) p by (simp_all add: reported_def)
  have rest1: "resting env i p s1"
    using r others rs(2) by (simp add: resting_def placed_def reported_def placed_same [OF st])
  have eq: "MatchOrder env p s = requeue_rest env p s1"
    using d(1) q(1) rs(1) by (simp add: MatchOrder_def ABStockMatch_Divide_def divided_def modify_msg_def)
  have mq: "ui64Orderqty_matched (msg s1 p) = q" "ui64LeavesQty (msg s1 p) = ui64LeavesQty (msg s p) - q"
    using same_trade_sel [OF st] o by simp_all
  show thesis
  proof (cases "ui64LeavesQty (msg s p) = q")
    case True
    then have "MatchOrder env p s = Some (0, s1)" using eq mq by (simp add: requeue_rest_def)
    then show ?thesis using q mq buf others rest1 True by (intro that [of s1 q]) simp_all
  next
    case False
    then have nz: "ui64LeavesQty (msg s1 p) \<noteq> 0" using mq by simp
    obtain s2 where g: "GenTask_Match env p s1 = Some (0, s2)" "waiting env i (length (heap s1)) s2"
      "heap s2 = heap s1 @ [OrderMessage_copy (msg s1 p)]" "g_outMsg_buffer s2 = g_outMsg_buffer s1"
      by (rule GenTask_resting [OF rest1])
    have "MatchOrder env p s = Some (0, s2)" using eq nz g(1) by (simp add: requeue_rest_def)
    moreover have "ui64LeavesQty (OrderMessage_copy (msg s1 p)) = ui64LeavesQty (msg s p) - q"
      using mq by (simp add: OrderMessage_copy_def)
    ultimately show ?thesis
      using q mq buf others g d1 False p by (intro that [of s2 q]) (simp_all add: nth_append)
  qed
qed

lemma divide_loop:
  assumes "waiting env i p s" and "divided part c (msg s p)" and "unat part < 2 ^ 63" and "unat (ui64LeavesQty (msg s p)) = l"
    and "l \<noteq> 0" and runs: "\<And>m. runs m"
  shows "\<exists>s' ps. thread_loop runs n env i s = Some (Some s') \<and> idle (g_mtskPool_match_cancel s' ! i) \<and>
    out_content c (g_outMsg_buffer s') = out_content c (g_outMsg_buffer s) @ ps \<and>
    map (\<lambda>x. unat (ui64Orderqty_matched (msg s' x))) ps = divide_slices (unat part) l \<and>
    length (heap s) \<le> length (heap s') \<and> (\<forall>x<length (heap s). x \<noteq> p \<longrightarrow> msg s' x = msg s x)"
  using assms(1-5)
proof (induction l arbitrary: p s n rule: less_induct)
  case (less l)
  let ?l = "ui64LeavesQty (msg s p)" and ?n = "length (heap s)"
  obtain s1 where s1: "resting env i p s1" "heap s1 = heap s" "g_outMsg_buffer s1 = g_outMsg_buffer s"
    "thread_step env i s = map_option (\<lambda>(_, s2). (True, s2)) (MatchOrder env p s1)"
    by (rule thread_step_waiting [OF less.prems(1)])
  have p: "p < ?n" using less.prems(1) by (simp add: waiting_def placed_def)
  have "divided part c (msg s1 p)" "ui64LeavesQty (msg s1 p) \<noteq> 0" using less.prems(2,4,5) s1(2) by auto
  note D = Divide_step [OF s1(1) this(1) less.prems(3) this(2), unfolded s1(2,3)]
  obtain s2 q where m: "MatchOrder env p s1 = Some (0, s2)" and q: "q \<noteq> 0" "q \<le> ?l"
    and sl: "divide_slices (unat part) (unat ?l) = unat q # divide_slices (unat part) (unat (?l - q))"
    and s2: "ui64Orderqty_matched (msg s2 p) = q" "out_content c (g_outMsg_buffer s2) = out_content c (g_outMsg_buffer s) @ [p]"
      "?n \<le> length (heap s2)" "\<And>x. x < ?n \<Longrightarrow> x \<noteq> p \<Longrightarrow> msg s2 x = msg s x"
    and next_state: "if ?l = q then resting env i p s2
         else waiting env i ?n s2 \<and> divided part c (msg s2 ?n) \<and> ui64LeavesQty (msg s2 ?n) = ?l - q"
    by (rule D) (rule that, assumption+)
  have step: "thread_loop runs n env i s = thread_loop runs (Suc n) env i s2"
    by (subst thread_loop.simps) (simp add: s1(4) m runs)
  show ?case
  proof (cases "?l = q")
    case True
    then have "thread_loop runs n env i s = Some (Some s2)" "idle (g_mtskPool_match_cancel s2 ! i)"
      using next_state step thread_loop_resting by (simp_all add: resting_def)
    moreover have "divide_slices (unat part) l = [unat q]"
      using sl True less.prems(4) by (simp add: divide_slices.simps [of _ 0])
    ultimately show ?thesis using s2 by (intro exI [of _ s2] exI [of _ "[p]"]) simp
  next
    case False
    have lq: "unat (?l - q) = l - unat q" using q(2) less.prems(4) by (simp add: unat_minus_le)
    have "unat q \<noteq> unat ?l" using False by (metis word_unat_eq_iff)
    then have "unat q \<le> l" "unat q \<noteq> 0" "unat q \<noteq> l"
      using q less.prems(4) by (auto simp: word_le_nat_alt unat_eq_0)
    then have "l - unat q < l" "l - unat q \<noteq> 0" using less.prems(5) by auto
    with less.IH [of "l - unat q" ?n s2 "Suc n"] next_state False lq less.prems(3) obtain s' ps where
      ih: "thread_loop runs (Suc n) env i s2 = Some (Some s')" "idle (g_mtskPool_match_cancel s' ! i)"
        "out_content c (g_outMsg_buffer s') = out_content c (g_outMsg_buffer s2) @ ps"
        "map (\<lambda>x. unat (ui64Orderqty_matched (msg s' x))) ps = divide_slices (unat part) (l - unat q)"
        "length (heap s2) \<le> length (heap s')" "\<forall>x<length (heap s2). x \<noteq> ?n \<longrightarrow> msg s' x = msg s2 x"
      by auto
    have "msg s' p = msg s2 p" using ih(6) p s2(3) by auto
    then have "map (\<lambda>x. unat (ui64Orderqty_matched (msg s' x))) (p # ps) = divide_slices (unat part) l"
      using ih(4) sl lq s2(1) less.prems(4) by simp
    then show ?thesis
      using ih s2 step by (intro exI [of _ s'] exI [of _ "p # ps"]) auto
  qed
qed

text \<open>
  C36.  An order whose policy divides it and does not check assets is worked off, when it is alone in
  its thread and the thread is not stopped: the thread's loop ends, the queue is empty again, and the
  reports pushed are exactly the slices of the reference, so they add up to what the order had left.
  The number of parts in the policy is not 0, and a slice is the original quantity over it, rounded
  down (\<open>divided\<close>) and below 2 to the 63rd; the number of reports is not the configured one but as
  many as the slice size fits.
\<close>

theorem divided_order_worked_off:
  assumes "waiting env i p s" and "divided part c (msg s p)" and "unat part < 2 ^ 63"
    and "ui64LeavesQty (msg s p) \<noteq> 0" and "\<And>n. runs n"
  shows "\<exists>s' ps. thread_loop runs 0 env i s = Some (Some s') \<and> idle (g_mtskPool_match_cancel s' ! i) \<and>
    out_content c (g_outMsg_buffer s') = out_content c (g_outMsg_buffer s) @ ps \<and>
    map (\<lambda>x. unat (ui64Orderqty_matched (msg s' x))) ps = divide_slices (unat part) (unat (ui64LeavesQty (msg s p))) \<and>
    (\<Sum>x\<leftarrow>ps. unat (ui64Orderqty_matched (msg s' x))) = unat (ui64LeavesQty (msg s p)) \<and>
    (part \<noteq> 0 \<longrightarrow> length ps = max 1 (unat (ui64LeavesQty (msg s p)) div unat part))"
proof -
  have l: "unat (ui64LeavesQty (msg s p)) \<noteq> 0" using assms(4) by (simp add: unat_eq_0)
  from divide_loop [OF assms(1-3) refl l, of runs 0, OF assms(5)] obtain s' ps where
    s': "thread_loop runs 0 env i s = Some (Some s')" "idle (g_mtskPool_match_cancel s' ! i)"
      "out_content c (g_outMsg_buffer s') = out_content c (g_outMsg_buffer s) @ ps"
    and ps: "map (\<lambda>x. unat (ui64Orderqty_matched (msg s' x))) ps =
        divide_slices (unat part) (unat (ui64LeavesQty (msg s p)))" by blast
  have "length ps = length (divide_slices (unat part) (unat (ui64LeavesQty (msg s p))))"
    using ps by (metis length_map)
  then show ?thesis
    using s' ps l by (intro exI [of _ s'] exI [of _ ps]) (simp add: sum_divide_slices length_divide_slices unat_eq_0)
qed

lemma sample_thread: "order_thread sample_env ((sample_buy_order d n)\<lparr>tradePolicy := pol\<rparr>) 2 = 0"
proof -
  have "snd (String2Int_atoi ''600000'') = 600000"
    by (simp add: String2Int_atoi_def atoi_def strtoll_def scan_number_def c_str_def is_space_def is_digit_def of_char_def)
  then show ?thesis
    by (simp add: order_thread_def key_thread_def GenerateKey_def sample_buy_order_def OrderMessage_new_def
        is_buy_str_def conf_msg_defs)
qed

lemma sample_kind:
  "ui64RuleId pol = 0 \<Longrightarrow> match_task_kind ((sample_buy_order d n)\<lparr>tradePolicy := pol\<rparr>) = Some Task_ABStockMatch"
  by (simp add: match_task_kind_def sample_buy_order_def TADE_TYPE_defs)

lemma sample_resting:
  assumes "ui64RuleId pol = 0"
  shows "resting sample_env 0 0 (sample_gw [(sample_buy_order d n)\<lparr>tradePolicy := pol\<rparr>])"
  using sample_kind [OF assms] sample_thread [unfolded numeral_2_eq_2]
  by (simp add: resting_def placed_def idle_def sample_gw_def TaskPriorityQueue_new_def)

text \<open>The sample order as a task: at address 1, the copy that task generation makes.\<close>

lemma sample_waiting:
  assumes "ui64RuleId pol = 0"
  obtains s where "waiting sample_env 0 1 s" and "g_outMsg_buffer s = OutMemoryManage_new"
    and "msg s 1 = OrderMessage_copy ((sample_buy_order d n)\<lparr>tradePolicy := pol\<rparr>)"
proof -
  obtain s where s: "waiting sample_env 0 (length (heap (sample_gw [(sample_buy_order d n)\<lparr>tradePolicy := pol\<rparr>]))) s"
    "heap s = heap (sample_gw [(sample_buy_order d n)\<lparr>tradePolicy := pol\<rparr>]) @
       [OrderMessage_copy (msg (sample_gw [(sample_buy_order d n)\<lparr>tradePolicy := pol\<rparr>]) 0)]"
    "g_outMsg_buffer s = g_outMsg_buffer (sample_gw [(sample_buy_order d n)\<lparr>tradePolicy := pol\<rparr>])"
    by (rule GenTask_resting [OF sample_resting [OF assms]])
  then show thesis by (intro that [of s]) (simp_all add: sample_gw_def)
qed

lemma divided_order_worked_off_witness:
  "\<exists>(s :: (string \<Rightarrow> string option) Gw) s' ps. thread_loop (\<lambda>n. True) 0 sample_env 0 s = Some (Some s') \<and>
     out_content Sh (g_outMsg_buffer s') = ps \<and> length ps = 5 \<and>
     (\<Sum>x\<leftarrow>ps. unat (ui64Orderqty_matched (msg s' x))) = 5"
proof -
  let ?pol = "TradePolicyCell_new\<lparr>iMatchMode := SimulMatchByDivide, iPart_Match_Num := 3\<rparr>"
  let ?o = "(sample_buy_order deltype_ordinary_limit 5)\<lparr>tradePolicy := ?pol\<rparr>"
  obtain s :: "(string \<Rightarrow> string option) Gw" where s: "waiting sample_env 0 1 s" "g_outMsg_buffer s = OutMemoryManage_new"
    "msg s 1 = OrderMessage_copy ?o"
    by (rule sample_waiting [of ?pol deltype_ordinary_limit 5]) (simp_all add: TradePolicyCell_new_def)
  have "divided 1 Sh ?o"
    by (simp add: divided_def TradePolicyCell_new_def out_route_def sample_buy_order_def OrderMessage_new_def conf_msg_defs)
  then have d: "divided 1 Sh (msg s 1)" using s(3) by simp
  have l: "ui64LeavesQty (msg s 1) = 5" using s(3) by (simp add: OrderMessage_copy_def sample_buy_order_def)
  have e: "out_content Sh (g_outMsg_buffer s) = []" by (simp add: s(2) out_content_def OutMemoryManage_new_def)
  from divided_order_worked_off [OF s(1) d _ _ TrueI] l e show ?thesis by auto
qed

text \<open>
  One pass of the loop over an order that is never matched: it succeeds, pushes nothing, and the
  order waits again, as a copy.
\<close>

definition unmatched_waits :: "'r Env \<Rightarrow> nat \<Rightarrow> 'r Gw \<Rightarrow> bool" where
  "unmatched_waits env i s \<longleftrightarrow> (\<exists>p. waiting env i p s \<and> iMatchMode (tradePolicy (msg s p)) = SimulNotMatch)"

lemma unmatched_pass:
  assumes "unmatched_waits env i s"
  obtains s' where "thread_step env i s = Some (True, s')" and "unmatched_waits env i s'"
    and "g_outMsg_buffer s' = g_outMsg_buffer s"
proof -
  from assms obtain p where p: "waiting env i p s" "iMatchMode (tradePolicy (msg s p)) = SimulNotMatch"
    unfolding unmatched_waits_def by blast
  obtain s1 where s1: "resting env i p s1" "heap s1 = heap s" "g_outMsg_buffer s1 = g_outMsg_buffer s"
    "thread_step env i s = map_option (\<lambda>(_, s2). (True, s2)) (MatchOrder env p s1)"
    by (rule thread_step_waiting [OF p(1)])
  obtain s2 where s2: "GenTask_Match env p s1 = Some (0, s2)" "waiting env i (length (heap s1)) s2"
    "heap s2 = heap s1 @ [OrderMessage_copy (msg s1 p)]" "g_outMsg_buffer s2 = g_outMsg_buffer s1"
    by (rule GenTask_resting [OF s1(1)])
  have "unmatched_waits env i s2" unfolding unmatched_waits_def
    using s2(2,3) p(2) s1(2) by (intro exI [of _ "length (heap s1)"]) (simp add: OrderMessage_copy_def)
  then show thesis
    using s1 s2(1,4) p(2) by (intro that [of s2]) (simp_all add: MatchOrder_def ABStockMatch_UnMatch_def)
qed

lemma unmatched_until_stopped:
  assumes "unmatched_waits env i s" and "\<not> runs (n + k)"
  shows "\<exists>s'. thread_loop runs n env i s = Some (Some s') \<and> unmatched_waits env i s' \<and>
    g_outMsg_buffer s' = g_outMsg_buffer s"
  using assms
proof (induction k arbitrary: n s)
  case (Suc k)
  obtain s1 where s1: "thread_step env i s = Some (True, s1)" "unmatched_waits env i s1" "g_outMsg_buffer s1 = g_outMsg_buffer s"
    by (rule unmatched_pass [OF Suc.prems(1)])
  from Suc.IH [OF s1(2), of "Suc n"] Suc.prems obtain s' where
    "thread_loop runs (Suc n) env i s1 = Some (Some s')" "unmatched_waits env i s'" "g_outMsg_buffer s' = g_outMsg_buffer s1"
    by auto
  then show ?case using s1 Suc.prems(1)
    by (cases "runs n") (auto simp: thread_loop.simps [of runs n])
qed (simp add: thread_loop.simps)

lemma unmatched_for_ever:
  assumes "thread_loop runs n env i s = Some z" and "unmatched_waits env i s"
  shows "\<exists>k. \<not> runs k"
proof -
  have "j = i \<and> en = env \<and> rs = runs \<and> unmatched_waits env i s \<longrightarrow> (\<exists>k. \<not> runs k)"
    if "thread_loop rs n en j s = Some z" for rs n en j s z
  proof (rule thread_loop.raw_induct [OF _ that], goal_cases)
    case (1 f rs n en j s z)
    show ?case
    proof (intro impI)
      assume a: "j = i \<and> en = env \<and> rs = runs \<and> unmatched_waits env i s"
      then obtain s1 where s1: "thread_step en j s = Some (True, s1)" "unmatched_waits env i s1"
        using unmatched_pass [of env i s] by metis
      show "\<exists>k. \<not> runs k"
      proof (cases "runs n")
        case True
        with 1(2) s1(1) a have "f rs (Suc n) en j s1 = Some z" by simp
        from 1(1) [OF this] show ?thesis using a s1(2) by simp
      qed blast
    qed
  qed
  then show ?thesis using assms by blast
qed

text \<open>
  C37.  An order in the mode without matches, alone in its thread, keeps the thread busy until it is
  stopped: every pass of the loop succeeds, pushes no report and puts the order back into the queue.
  So the loop does not end as long as the thread is not stopped, and the thread never waits for its
  event; when another thread stops it, the loop ends with the order still waiting.
\<close>

theorem unmatched_order_spins:
  assumes "waiting env i p s" and "iMatchMode (tradePolicy (msg s p)) = SimulNotMatch"
  shows "if \<forall>n. runs n then thread_loop runs 0 env i s = None
    else \<exists>s' p'. thread_loop runs 0 env i s = Some (Some s') \<and> g_outMsg_buffer s' = g_outMsg_buffer s \<and>
      waiting env i p' s' \<and> iMatchMode (tradePolicy (msg s' p')) = SimulNotMatch"
proof -
  have u: "unmatched_waits env i s" using assms by (auto simp: unmatched_waits_def)
  show ?thesis
  proof (cases "\<forall>n. runs n")
    case True
    have "thread_loop runs 0 env i s \<noteq> Some z" for z using unmatched_for_ever [OF _ u] True by blast
    then have "thread_loop runs 0 env i s = None" by blast
    with True show ?thesis by simp
  next
    case False
    then obtain k where "\<not> runs (0 + k)" by auto
    from unmatched_until_stopped [of env i s runs 0 k, OF u this] False show ?thesis by (auto simp: unmatched_waits_def)
  qed
qed

text \<open>The same order with the thread left running and with the thread stopped after a thousand passes.\<close>

lemma unmatched_order_spins_witness:
  "\<exists>s :: (string \<Rightarrow> string option) Gw. waiting sample_env 0 1 s \<and> thread_loop (\<lambda>n. True) 0 sample_env 0 s = None \<and>
     (\<exists>s' p'. thread_loop (\<lambda>n. n < 1000) 0 sample_env 0 s = Some (Some s') \<and> waiting sample_env 0 p' s')"
proof -
  let ?pol = "TradePolicyCell_new\<lparr>iMatchMode := SimulNotMatch\<rparr>"
  obtain s :: "(string \<Rightarrow> string option) Gw" where s: "waiting sample_env 0 1 s"
    "msg s 1 = OrderMessage_copy ((sample_buy_order deltype_ordinary_limit 5)\<lparr>tradePolicy := ?pol\<rparr>)"
    by (rule sample_waiting [of ?pol deltype_ordinary_limit 5]) (simp_all add: TradePolicyCell_new_def)
  have "iMatchMode (tradePolicy (msg s 1)) = SimulNotMatch" unfolding s(2) by (simp add: OrderMessage_copy_def)
  note spins = unmatched_order_spins [OF s(1) this]
  have "\<not> (\<forall>n :: nat. n < 1000)" by (metis less_irrefl)
  then show ?thesis using spins [of "\<lambda>n. True"] spins [of "\<lambda>n. n < 1000"] s(1) by (simp only: if_True if_False simp_thms) blast
qed

section \<open>Cancellations\<close>

text \<open>A cancellation goes to the thread of its side and security, and is served first.\<close>

definition cancel_task :: "'r Env \<Rightarrow> u64 \<Rightarrow> OrderMessage \<Rightarrow> TaskPriorityBase" where
  "cancel_task env uid c = SetOrderMsg env Task_CancelOrder uid c"

lemma GenTask_cancel:
  assumes k: "match_task_kind (msg s pc) = Some Task_CancelOrder"
    and i: "i < length (g_mtskPool_match_cancel s)" "order_thread env (msg s pc) (length (g_mtskPool_match_cancel s)) = i"
    and q: "m_p4_que (g_mtskPool_match_cancel s ! i) = []" "m_uiTaskNums (g_mtskPool_match_cancel s ! i) < MAX_QUEUE_SIZE"
  obtains s1 where "GenTask_Match env pc s = Some (0, s1)"
    and "thread_step env i s1 = map_option (\<lambda>(_, s2). (True, s2))
      (ProcSingleCancelOrder env (Some i) (cancel_task env (g_uidTaskGen s) (msg s pc)) (length (heap s))
        (s1\<lparr>g_mtskPool_match_cancel := g_mtskPool_match_cancel s\<rparr>))"
    and "heap s1 = heap s @ [OrderMessage_copy (msg s pc)]" and "g_outMsg_buffer s1 = g_outMsg_buffer s"
    and "stock s1 = stock s" and "tasks s1 = (tasks s)(g_uidTaskGen s \<mapsto> (Task_CancelOrder, length (heap s)))"
proof -
  let ?pool = "g_mtskPool_match_cancel s"
  let ?q = "?pool ! i" and ?t = "cancel_task env (g_uidTaskGen s) (msg s pc)"
  let ?q1 = "?q\<lparr>m_p4_que := [?t], m_uiTaskNums := m_uiTaskNums ?q + 1\<rparr>"
  have t: "m_Prio ?t = Level_Cancel_Order" "\<not> m_bIsMatchOrdered ?t" "m_uiId ?t = g_uidTaskGen s"
    "key_thread (m_iKey ?t) (length ?pool) = i"
    using i(2) by (simp_all add: cancel_task_def SetOrderMsg_def order_thread_def)
  have eq: "SetOrderMsg env Task_CancelOrder (g_uidTaskGen s) (OrderMessage_copy (msg s pc)) = ?t"
    by (simp add: cancel_task_def SetOrderMsg_def OrderMessage_copy_def)
  have "\<not> MAX_QUEUE_SIZE \<le> m_uiTaskNums ?q" using q(2) by simp
  then have a: "TaskPriorityQueue_AddTask (Some ?t) False ?q = Some (0, Some (m_uiTaskNums ?q + 1), ?q1)"
    using q(1) t(1) by (simp add: TaskPriorityQueue_AddTask_def Let_def)
  let ?s1 = "s\<lparr>g_uidTaskGen := g_uidTaskGen s + 1, heap := heap s @ [OrderMessage_copy (msg s pc)],
     tasks := (tasks s)(g_uidTaskGen s \<mapsto> (Task_CancelOrder, length (heap s))), g_mtskPool_match_cancel := ?pool[i := ?q1]\<rparr>"
  have "?pool \<noteq> []" using i(1) by auto
  then have "GenTask_Match env pc s = Some (0, ?s1)"
    using k a t eq by (simp add: GenTask_Match_def Let_def PriorityThreadPool_AssignTaskWithKey_def PriorityThread_AddTask_def)
  moreover have "m_uiTaskNums ?q \<noteq> - 1" using q(2) by (auto simp: MAX_QUEUE_SIZE_def)
  then have "m_uiTaskNums ?q + 1 \<noteq> 0" by (simp add: eq_neg_iff_add_eq_0)
  then have "TaskPriorityQueue_GetTask ?q1 = (0, Some ?t, ?q)"
    using q(1) by (simp add: TaskPriorityQueue_GetTask_def)
  then have "thread_step env i ?s1 = map_option (\<lambda>(_, s2). (True, s2))
      (ProcSingleCancelOrder env (Some i) ?t (length (heap s)) (?s1\<lparr>g_mtskPool_match_cancel := ?pool\<rparr>))"
    using i(1) t(3) by (simp add: thread_step_def TaskProc_def Let_def)
  ultimately show thesis by (intro that [of ?s1]) simp_all
qed

text \<open>
  What a release gives back: the counters of redeemed and of available shares and the overall one
  have that much less frozen and that much more free.
\<close>

definition gives_back :: "u64 \<Rightarrow> FrozeVolume \<Rightarrow> FrozeVolume" where
  "gives_back n v = v\<lparr>m_ui64ForzeVolume := m_ui64ForzeVolume v - n, m_ui64UnFrozeVolume := m_ui64UnFrozeVolume v + n\<rparr>"

definition released :: "u64 \<Rightarrow> u64 \<Rightarrow> UserStockVolume \<Rightarrow> UserStockVolume \<Rightarrow> bool" where
  "released etf avl u u' \<longleftrightarrow> m_stk_etf_rdp_Balance u' = gives_back etf (m_stk_etf_rdp_Balance u) \<and>
     m_stk_avl_Balance u' = gives_back avl (m_stk_avl_Balance u) \<and> m_stkBalance u' = gives_back (etf + avl) (m_stkBalance u)"

lemma UpdateAfterCancel_sale:
  assumes "bCheck_Assets (tradePolicy o1)" and "iTrade_type o1 \<in> {a_trade, b_trade}" and "ui64LeavesQty o1 \<noteq> 0"
    and "strTrade_market o1 = TRADE_MARKET_SH \<or> strTrade_market o1 = TRADE_MARKET_SZ \<and> strApplID o1 = ''010''"
    and "is_sell_side o1 \<Longrightarrow> cache_find st (strAccountId o1) (strStockID o1) = Some u"
  obtains r st' where "UserStockHelper_UpdateAfterCancel t o1 st = Some (r, st')"
    and "if is_sell_side o1 then \<exists>u'. cache_find st' (strAccountId o1) (strStockID o1) = Some u' \<and>
           released (scps_ui64Etf_rdp (sellCps o1)) (scps_ui64Avl (sellCps o1)) u u' \<and>
           same_off cache_look (strAccountId o1, strStockID o1) st st'
         else st' = st"
proof -
  have "UserStockHelper_UpdateAfterCancel t o1 st = UserStockHelper_UpdateCancel t o1 st"
    using assms(4) by (auto simp: UserStockHelper_UpdateAfterCancel_def TRADE_MARKET_SH_def TRADE_MARKET_SZ_def)
  then show thesis
    using assms that [of 0] by (cases "is_sell_side o1")
      (auto simp: UserStockHelper_UpdateCancel_def SellDeFroze_eq Let_def released_def gives_back_def FrozeVolume_Defroze_def)
qed

text \<open>
  C35.  A cancellation of a waiting AB-share order of the same side and security meets it, when no other
  cancellation waits there and the queue has room: it reaches the same thread and is served before
  any order there; exactly that order leaves the queue; its cancel report is pushed, with all it had
  left as its last quantity and the number of the cancellation.  For a sale whose assets are checked
  exactly the amounts it had recorded as frozen are given back to the holding of its account, in the
  redeemed, the available and the overall counter, and no other holding changes; for any other order
  no holding changes.
\<close>

theorem cancellation_meets_order:
  fixes s :: "'r Gw"
  defines "pool \<equiv> g_mtskPool_match_cancel s"
  assumes q: "m_p4_que (pool ! i) = []" "m_p3_order_que (pool ! i) = []" "m_uiTaskNums (pool ! i) < MAX_QUEUE_SIZE"
    and found: "DeleteOrderByClordId (m_p3_unorder_que (pool ! i)) (strOrigClordid (msg s pc)) = Some (t, l)"
    and t: "tasks s (m_uiId t) = Some (Task_ABStockMatch, p)" "m_uiId t \<noteq> g_uidTaskGen s" "p < length (heap s)"
    and c: "match_task_kind (msg s pc) = Some Task_CancelOrder" "strStockID (msg s pc) = strStockID (msg s p)"
      "strSide (msg s pc) = strSide (msg s p)"
    and i: "i < length pool" "order_thread env (msg s p) (length pool) = i" and route: "out_route (msg s p) = Some ch"
    and chk: "bCheck_Assets (tradePolicy (msg s p)) \<Longrightarrow> iTrade_type (msg s p) \<in> {a_trade, b_trade} \<and>
        ui64LeavesQty (msg s p) \<noteq> 0 \<and> (strTrade_market (msg s p) = TRADE_MARKET_SZ \<longrightarrow> strApplID (msg s p) = ''010'') \<and>
        (is_sell_side (msg s p) \<longrightarrow> cache_find (stock s) (strAccountId (msg s p)) (strStockID (msg s p)) = Some u)"
  shows "\<exists>s1 s2. GenTask_Match env pc s = Some (0, s1) \<and> thread_step env i s1 = Some (True, s2) \<and>
    g_mtskPool_match_cancel s2 =
      pool[i := (pool ! i)\<lparr>m_p3_unorder_que := l, m_uiTaskNums := m_uiTaskNums (pool ! i) - 1\<rparr>] \<and>
    out_content ch (g_outMsg_buffer s2) = out_content ch (g_outMsg_buffer s) @ [p] \<and>
    strOrdStatus (msg s2 p) = STEPMSG_ORDSTATUS_CANCEL \<and> strClordid (msg s2 p) = strClordid (msg s pc) \<and>
    strLastQty (msg s2 p) = strLeavesQty (msg s p) \<and> strLeavesQty (msg s2 p) = ''0'' \<and>
    (if bCheck_Assets (tradePolicy (msg s p)) \<and> is_sell_side (msg s p)
     then \<exists>u'. cache_find (stock s2) (strAccountId (msg s p)) (strStockID (msg s p)) = Some u' \<and>
       released (scps_ui64Etf_rdp (sellCps (msg s p))) (scps_ui64Avl (sellCps (msg s p))) u u' \<and>
       same_off cache_look (strAccountId (msg s p), strStockID (msg s p)) (stock s) (stock s2)
     else stock s2 = stock s)"
proof -
  let ?tc = "cancel_task env (g_uidTaskGen s) (msg s pc)"
  let ?q' = "(pool ! i)\<lparr>m_p3_unorder_que := l, m_uiTaskNums := m_uiTaskNums (pool ! i) - 1\<rparr>"
  have oc: "order_thread env (msg s pc) (length pool) = i" using c(2,3) i(2) by (simp add: order_thread_def)
  obtain s1 where s1: "GenTask_Match env pc s = Some (0, s1)"
    "thread_step env i s1 = map_option (\<lambda>(_, s2). (True, s2))
      (ProcSingleCancelOrder env (Some i) ?tc (length (heap s)) (s1\<lparr>g_mtskPool_match_cancel := pool\<rparr>))"
    "heap s1 = heap s @ [OrderMessage_copy (msg s pc)]" "g_outMsg_buffer s1 = g_outMsg_buffer s" "stock s1 = stock s"
    "tasks s1 = (tasks s)(g_uidTaskGen s \<mapsto> (Task_CancelOrder, length (heap s)))"
    using GenTask_cancel [of s pc i env] q c(1) i(1) oc unfolding pool_def by blast
  let ?s2 = "s1\<lparr>g_mtskPool_match_cancel := pool[i := ?q']\<rparr>"
  let ?pc = "length (heap s)"
  have m: "msg ?s2 ?pc = OrderMessage_copy (msg s pc)" "msg ?s2 p = msg s p" "p < length (heap ?s2)"
    using s1(3) t(3) by (simp_all add: nth_append)
  have del: "TaskPriorityQueue_DeleteIfHaveTask (m_iKey ?tc) (strOrigClordid (msg s pc)) (pool ! i) = (0, Some t, ?q')"
    using q(2) found by (simp add: TaskPriorityQueue_DeleteIfHaveTask_def Let_def)
  let ?o = "cancelled_order (msg ?s2 ?pc) (msg s p)"
  let ?s3 = "put_msg p ?o ?s2"
  obtain x where x: "msg (set_exec_ids env p ?s3) p = ?o\<lparr>strExecID := x, strOrderID := x\<rparr>"
    using set_exec_ids_msg [of p ?s3 env p] m(3) by auto
  let ?s4 = "set_exec_ids env p ?s3" and ?s5 = "snd (ProcCancelSuccess env ?pc p ?s2)"
  have o5: "msg ?s5 p = ?o\<lparr>strExecID := x, strOrderID := x\<rparr>"
    using x m(2) by (simp add: ProcCancelSuccess_def modify_msg_def)
  have route5: "out_route (msg ?s4 p) = Some ch"
    unfolding x route [symmetric] by (simp add: out_route_def cancelled_order_def Let_def)
  have succ: "fst (ProcCancelSuccess env ?pc p ?s2) = 0"
    and buf: "out_content ch (g_outMsg_buffer ?s5) = out_content ch (g_outMsg_buffer s) @ [p]"
  proof -
    have e: "ProcCancelSuccess env ?pc p ?s2 = PushBack p ?s4" using m(2) by (simp add: ProcCancelSuccess_def modify_msg_def)
    show "fst (ProcCancelSuccess env ?pc p ?s2) = 0"
      unfolding e using route5
      by (auto simp: PushBack_def PushBack_route out_defs split: prod.splits out_channel.splits)
    show "out_content ch (g_outMsg_buffer ?s5) = out_content ch (g_outMsg_buffer s) @ [p]"
      unfolding e using PushBack_content [of "msg ?s4" p ch "g_outMsg_buffer ?s4", OF route5] s1(4)
      by (simp add: PushBack_buffer)
  qed
  have st5: "stock ?s5 = stock s" "g_mtskPool_match_cancel ?s5 = pool[i := ?q']"
    using s1(5) by (simp_all add: ProcCancelSuccess_def modify_msg_def)
  have t1: "tasks ?s2 (m_uiId t) = Some (Task_ABStockMatch, p)" using t(1,2) s1(6) by simp
  have "strOrigClordid (heap s1 ! ?pc) = strOrigClordid (msg s pc)" using m(1) by (simp add: OrderMessage_copy_def)
  then have step: "thread_step env i s1 =
      (if bCheck_Assets (tradePolicy (msg s p))
       then map_option (\<lambda>(_, st). (True, ?s5\<lparr>stock := st\<rparr>))
         (UserStockHelper_UpdateAfterCancel (e_clock env) (msg ?s5 p) (stock s))
       else Some (True, ?s5))"
    using s1(2) del succ st5(1) t1 o5
    by (cases "ProcCancelSuccess env ?pc p ?s2")
      (simp add: ProcSingleCancelOrder_def Let_def option.map_comp comp_def split_def cancelled_order_def)
  have f: "strOrdStatus (msg ?s5 p) = STEPMSG_ORDSTATUS_CANCEL" "strClordid (msg ?s5 p) = strClordid (msg s pc)"
    "strLastQty (msg ?s5 p) = strLeavesQty (msg s p)" "strLeavesQty (msg ?s5 p) = ''0''"
    and o: "sellCps (msg ?s5 p) = sellCps (msg s p)" "tradePolicy (msg ?s5 p) = tradePolicy (msg s p)"
    "ui64LeavesQty (msg ?s5 p) = ui64LeavesQty (msg s p)" "strAccountId (msg ?s5 p) = strAccountId (msg s p)"
    "strStockID (msg ?s5 p) = strStockID (msg s p)" "iTrade_type (msg ?s5 p) = iTrade_type (msg s p)"
    "strTrade_market (msg ?s5 p) = strTrade_market (msg s p)" "strApplID (msg ?s5 p) = strApplID (msg s p)"
    "is_sell_side (msg ?s5 p) = is_sell_side (msg s p)"
    unfolding o5 m(1) by (simp_all add: cancelled_order_def Let_def OrderMessage_copy_def is_sell_side_def)
  show ?thesis
  proof (cases "bCheck_Assets (tradePolicy (msg s p))")
    case False
    then have "thread_step env i s1 = Some (True, ?s5)" using step by simp
    with False show ?thesis
      by (intro exI [of _ s1] exI [of _ ?s5] conjI) (simp_all only: f buf s1(1) st5, simp_all)
  next
    case True
    note c = chk [OF True]
    have "strTrade_market (msg s p) = TRADE_MARKET_SH \<or> strTrade_market (msg s p) = TRADE_MARKET_SZ"
      using route by (auto simp: out_route_def split: if_splits)
    with c have market: "strTrade_market (msg s p) = TRADE_MARKET_SH \<or>
        strTrade_market (msg s p) = TRADE_MARKET_SZ \<and> strApplID (msg s p) = ''010''" by blast
    obtain r st' where u: "UserStockHelper_UpdateAfterCancel (e_clock env) (msg ?s5 p) (stock s) = Some (r, st')"
      and st': "if is_sell_side (msg s p)
        then \<exists>u'. cache_find st' (strAccountId (msg s p)) (strStockID (msg s p)) = Some u' \<and>
           released (scps_ui64Etf_rdp (sellCps (msg s p))) (scps_ui64Avl (sellCps (msg s p))) u u' \<and>
           same_off cache_look (strAccountId (msg s p), strStockID (msg s p)) (stock s) st'
         else st' = stock s"
      by (rule UpdateAfterCancel_sale [of "msg ?s5 p" "stock s" u "e_clock env", unfolded o]) (use True c market in auto)
    define s6 where "s6 = ?s5\<lparr>stock := st'\<rparr>"
    have s6: "msg s6 p = msg ?s5 p" "g_mtskPool_match_cancel s6 = pool[i := ?q']"
      "g_outMsg_buffer s6 = g_outMsg_buffer ?s5" "stock s6 = st'"
      using st5(2) by (simp_all add: s6_def)
    have "thread_step env i s1 = Some (True, s6)" using step True u by (simp add: s6_def)
    with st' True show ?thesis
      by (intro exI [of _ s1] exI [of _ s6] conjI) (simp_all only: f buf s1(1) s6, simp_all)
  qed
qed

text \<open>A waiting sale of 60 shares, for which 30 redeemed and 30 available shares are frozen, and its cancellation.\<close>

definition sample_sold :: UserStockVolume where
  "sample_sold = snd (snd (snd (UserStockVolume_SellFroze 0 sample_volume 60)))"

definition sample_sell_order :: "u64 \<Rightarrow> OrderMessage" where
  "sample_sell_order n = (sample_buy_order deltype_ordinary_limit n)\<lparr>iSide := 2, strSide := STEPMSG_SIDE_SELL_2, strAccountId := ''A1'',
     tradePolicy := TradePolicyCell_new\<lparr>bCheck_Assets := True\<rparr>, sellCps := \<lparr>scps_ui64Etf_rdp = 30, scps_ui64Avl = 30\<rparr>\<rparr>"

lemma sample_sold_counters:
  "m_stk_etf_rdp_Balance sample_sold = freeze_part (m_stk_etf_rdp_Balance sample_volume) 30"
  "m_stk_avl_Balance sample_sold = freeze_part (m_stk_avl_Balance sample_volume) 30"
  using SellFroze_both [of sample_volume 60 0] by (simp_all add: sample_sold_def)

definition sample_cancel_gw :: "TaskKind \<Rightarrow> (string \<Rightarrow> string option) Gw" where
  "sample_cancel_gw k = (sample_gw [sample_sell_order 60, (sample_sell_order 0)\<lparr>iTrade_type := TADE_TYPE_cancel, strOrigClordid := ''7''\<rparr>])\<lparr>
     g_mtskPool_match_cancel := [TaskPriorityQueue_new\<lparr>m_uiTaskNums := 1, m_p3_unorder_que :=
        [SetOrderMsg sample_env Task_ABStockMatch 5 (sample_sell_order 60)]\<rparr>, TaskPriorityQueue_new],
     tasks := [5 \<mapsto> (k, 0)], g_uidTaskGen := 6, stock := cache_put ''A1'' ''600000'' sample_sold empty_cache\<rparr>"

lemma sample_cancel_found:
  fixes k :: TaskKind
  defines "s \<equiv> sample_cancel_gw k"
  shows "DeleteOrderByClordId (m_p3_unorder_que (g_mtskPool_match_cancel s ! 0)) (strOrigClordid (msg s 1)) =
      Some (SetOrderMsg sample_env Task_ABStockMatch 5 (sample_sell_order 60), [])"
  by (simp add: s_def sample_cancel_gw_def SetOrderMsg_def sample_gw_def sample_sell_order_def sample_buy_order_def)

lemma sample_task_id: "m_uiId (SetOrderMsg env Task_ABStockMatch n o1) = n"
  by (simp add: SetOrderMsg_def)

lemma sample_cancel_sel:
  fixes k :: TaskKind
  defines "s \<equiv> sample_cancel_gw k"
  shows "m_p4_que (g_mtskPool_match_cancel s ! 0) = []" "m_p3_order_que (g_mtskPool_match_cancel s ! 0) = []"
    "m_uiTaskNums (g_mtskPool_match_cancel s ! 0) < MAX_QUEUE_SIZE" "tasks s 5 = Some (k, 0)" "5 \<noteq> g_uidTaskGen s"
    "0 < length (heap s)" "match_task_kind (msg s 1) = Some Task_CancelOrder" "strStockID (msg s 1) = strStockID (msg s 0)"
    "strSide (msg s 1) = strSide (msg s 0)" "0 < length (g_mtskPool_match_cancel s)"
    "out_route (msg s 0) = Some Sh" "bCheck_Assets (tradePolicy (msg s 0))" "out_content Sh (g_outMsg_buffer s) = []"
    "length (g_mtskPool_match_cancel s) = 2" "is_sell_side (msg s 0)" "iTrade_type (msg s 0) = a_trade"
    "ui64LeavesQty (msg s 0) = 60" "strTrade_market (msg s 0) = TRADE_MARKET_SH" "strAccountId (msg s 0) = ''A1''"
    "strStockID (msg s 0) = ''600000''" "sellCps (msg s 0) = \<lparr>scps_ui64Etf_rdp = 30, scps_ui64Avl = 30\<rparr>"
    "cache_find (stock s) ''A1'' ''600000'' = Some sample_sold"
  by (simp_all add: s_def sample_cancel_gw_def sample_sell_order_def is_sell_side_def sample_gw_def MAX_QUEUE_SIZE_def TaskPriorityQueue_new_def match_task_kind_def
      sample_buy_order_def OrderMessage_new_def TradePolicyCell_new_def TADE_TYPE_defs out_route_def conf_msg_defs
      out_content_def OutMemoryManage_new_def)

lemma sample_cancel_thread:
  "order_thread sample_env (msg (sample_cancel_gw k) 0) 2 = 0" "order_thread sample_env (msg (sample_cancel_gw k) 1) 2 = 0"
proof -
  have "snd (String2Int_atoi ''600000'') = 600000"
    by (simp add: String2Int_atoi_def atoi_def strtoll_def scan_number_def c_str_def is_space_def is_digit_def of_char_def)
  then show "order_thread sample_env (msg (sample_cancel_gw k) 0) 2 = 0" "order_thread sample_env (msg (sample_cancel_gw k) 1) 2 = 0"
    by (simp_all add: order_thread_def key_thread_def GenerateKey_def sample_cancel_gw_def sample_gw_def sample_sell_order_def
        sample_buy_order_def OrderMessage_new_def is_buy_str_def is_sell_str_def conf_msg_defs)
qed

lemma cancellation_meets_order_witness:
  "\<exists>s1 s2 u'. GenTask_Match sample_env 1 (sample_cancel_gw Task_ABStockMatch) = Some (0, s1) \<and>
     thread_step sample_env 0 s1 = Some (True, s2) \<and> out_content Sh (g_outMsg_buffer s2) = [0] \<and>
     cache_find (stock s2) ''A1'' ''600000'' = Some u' \<and>
     m_stk_etf_rdp_Balance u' = m_stk_etf_rdp_Balance sample_volume \<and> m_stk_avl_Balance u' = m_stk_avl_Balance sample_volume"
proof -
  let ?s = "sample_cancel_gw Task_ABStockMatch"
  note sel = sample_cancel_sel [where k = Task_ABStockMatch]
  note found = sample_cancel_found [of Task_ABStockMatch]
  have t: "tasks ?s (m_uiId (SetOrderMsg sample_env Task_ABStockMatch 5 (sample_sell_order 60))) =
      Some (Task_ABStockMatch, 0)"
    "m_uiId (SetOrderMsg sample_env Task_ABStockMatch 5 (sample_sell_order 60)) \<noteq> g_uidTaskGen ?s"
    unfolding sample_task_id by (fact sel(4), fact sel(5))
  have th: "order_thread sample_env (msg ?s 0) (length (g_mtskPool_match_cancel ?s)) = 0"
    unfolding sel(14) by (rule sample_cancel_thread)
  have chk: "iTrade_type (msg ?s 0) \<in> {a_trade, b_trade} \<and> ui64LeavesQty (msg ?s 0) \<noteq> 0 \<and>
      (strTrade_market (msg ?s 0) = TRADE_MARKET_SZ \<longrightarrow> strApplID (msg ?s 0) = ''010'') \<and>
      (is_sell_side (msg ?s 0) \<longrightarrow> cache_find (stock ?s) (strAccountId (msg ?s 0)) (strStockID (msg ?s 0)) = Some sample_sold)"
    unfolding sel(16-22) by (simp add: TRADE_MARKET_SH_def TRADE_MARKET_SZ_def)
  have "released 30 30 sample_sold u' \<Longrightarrow> m_stk_etf_rdp_Balance u' = m_stk_etf_rdp_Balance sample_volume \<and>
      m_stk_avl_Balance u' = m_stk_avl_Balance sample_volume" for u'
    by (simp add: released_def gives_back_def sample_sold_counters freeze_part_def)
  with cancellation_meets_order [OF sel(1,2,3) found t sel(6,7,8,9,10) th sel(11) chk] show ?thesis
    unfolding sel(13,19-21) using sel(12,15) by auto
qed

text \<open>
  The cast in \<open>ProcCancelSuccess\<close> is not checked: when a cancellation meets a waiting order that
  is not an AB-share order (an ETF creation or redemption, or a rule order), it dereferences a null
  pointer.
\<close>

theorem cancelling_other_orders_null:
  fixes s :: "'r Gw"
  defines "pool \<equiv> g_mtskPool_match_cancel s"
  assumes q: "m_p4_que (pool ! i) = []" "m_p3_order_que (pool ! i) = []" "m_uiTaskNums (pool ! i) < MAX_QUEUE_SIZE"
    and found: "DeleteOrderByClordId (m_p3_unorder_que (pool ! i)) (strOrigClordid (msg s pc)) = Some (t, l)"
    and t: "tasks s (m_uiId t) = Some (k, p)" "m_uiId t \<noteq> g_uidTaskGen s" "k \<noteq> Task_ABStockMatch"
    and c: "match_task_kind (msg s pc) = Some Task_CancelOrder"
    and i: "i < length pool" "order_thread env (msg s pc) (length pool) = i"
  shows "\<exists>s1. GenTask_Match env pc s = Some (0, s1) \<and> thread_step env i s1 = None"
proof -
  let ?tc = "cancel_task env (g_uidTaskGen s) (msg s pc)"
  let ?q' = "(pool ! i)\<lparr>m_p3_unorder_que := l, m_uiTaskNums := m_uiTaskNums (pool ! i) - 1\<rparr>"
  obtain s1 where s1: "GenTask_Match env pc s = Some (0, s1)"
    "thread_step env i s1 = map_option (\<lambda>(_, s2). (True, s2))
      (ProcSingleCancelOrder env (Some i) ?tc (length (heap s)) (s1\<lparr>g_mtskPool_match_cancel := pool\<rparr>))"
    "heap s1 = heap s @ [OrderMessage_copy (msg s pc)]"
    "tasks s1 = (tasks s)(g_uidTaskGen s \<mapsto> (Task_CancelOrder, length (heap s)))"
    using GenTask_cancel [of s pc i env] q c i unfolding pool_def by blast
  have "strOrigClordid (heap s1 ! length (heap s)) = strOrigClordid (msg s pc)"
    using s1(3) by (simp add: OrderMessage_copy_def)
  moreover have "TaskPriorityQueue_DeleteIfHaveTask (m_iKey ?tc) (strOrigClordid (msg s pc)) (pool ! i) = (0, Some t, ?q')"
    using q(2) found by (simp add: TaskPriorityQueue_DeleteIfHaveTask_def Let_def)
  moreover have "tasks s1 (m_uiId t) = Some (k, p)" using t(1,2) s1(4) by simp
  ultimately show ?thesis
    using s1(1,2) t(3) by (cases k) (simp_all add: ProcSingleCancelOrder_def Let_def)
qed

lemma cancelling_other_orders_null_witness:
  "\<exists>s1. GenTask_Match sample_env 1 (sample_cancel_gw Task_Etf_Match) = Some (0, s1) \<and> thread_step sample_env 0 s1 = None"
proof -
  let ?s = "sample_cancel_gw Task_Etf_Match"
  note sel = sample_cancel_sel [where k = Task_Etf_Match]
  note found = sample_cancel_found [of Task_Etf_Match]
  have t: "tasks ?s (m_uiId (SetOrderMsg sample_env Task_ABStockMatch 5 (sample_sell_order 60))) =
      Some (Task_Etf_Match, 0)"
    "m_uiId (SetOrderMsg sample_env Task_ABStockMatch 5 (sample_sell_order 60)) \<noteq> g_uidTaskGen ?s"
    unfolding sample_task_id by (fact sel(4), fact sel(5))
  have th: "order_thread sample_env (msg ?s 1) (length (g_mtskPool_match_cancel ?s)) = 0"
    unfolding sel(14) by (rule sample_cancel_thread)
  show ?thesis
    by (rule cancelling_other_orders_null [OF sel(1,2,3) found t _ sel(7,10) th]) simp
qed

section \<open>Market orders whose rest is cancelled\<close>

definition rest_cancelled :: "DECLARATION_TYPE \<Rightarrow> bool" where
  "rest_cancelled d \<longleftrightarrow> d \<in> {deltype_match_at_market_and_remainder_cancel, deltype_all_match_at_market_or_cancel,
     deltype_match_at_market_in_five_and_remainder_cancel}"

lemma set_exec_ids_one:
  assumes "p < length (heap s)"
  obtains i where "msg (set_exec_ids env p s) p = (msg s p)\<lparr>strExecID := i, strOrderID := i\<rparr>"
  using set_exec_ids_msg [OF assms, of env p] by auto

lemma out_route_set [simp]: "out_route (o1\<lparr>enMatchType := ty\<rparr>) = out_route o1"
  by (simp add: out_route_def)

lemma match_rest_cancelled:
  assumes ok: "price_ok False sl je (msg s p)" and l: "sl < ui64LeavesQty (msg s p)"
    and chk: "\<not> bCheck_Assets (tradePolicy (msg s p))" and p: "p < length (heap s)" and r: "out_route (msg s p) = Some c"
  obtains s' where "match_quotation False True env p sl je s = Some (0, 0, s')"
    and "out_content c (g_outMsg_buffer s') = out_content c (g_outMsg_buffer s) @ [p]" and "redis s' = redis s"
    and "enMatchType (msg s' p) = CancelMatch" and "strExecType (msg s' p) = STEPMSG_EXECTYPE_CANCEL"
    and "strLastQty (msg s' p) = itos (ui64LeavesQty (msg s p) - sl)" and "ui64Orderqty_matched (msg s' p) = sl"
proof -
  have c: "Check_Match_Method (msg s p) sl je False = Some (0, msg s p)"
    using ok by (auto simp: price_ok_def Check_Match_Method_def Let_def not_less)
  let ?o = "cancel_fields (fill_part sl (je div sl) (msg s p))"
  let ?s1 = "put_msg p (msg s p) s"
  let ?s3 = "modify_msg p cancel_fields (modify_msg p (fill_part sl (je div sl)) ?s1)"
  let ?s4 = "set_exec_ids env p ?s3"
  have m3: "msg ?s3 p = ?o" "p < length (heap ?s3)" using p by (simp_all add: modify_msg_def)
  obtain i where m4: "msg ?s4 p = ?o\<lparr>strExecID := i, strOrderID := i\<rparr>"
    using set_exec_ids_one [OF m3(2), of env] m3(1) by metis
  let ?s5 = "snd (PushBack p ?s4)"
  have m5: "msg ?s5 p = ?o\<lparr>strExecID := i, strOrderID := i\<rparr>" "p < length (heap ?s5)" using m4 m3(2) by simp_all
  have "\<not> bCheck_Assets (tradePolicy (msg ?s5 p))"
    unfolding m5 using chk by (simp add: cancel_fields_def fill_part_def Let_def)
  then obtain s' where am: "after_match env p ?s5 = Some s'" using after_match_unchecked by fastforce
  note af = after_match_msg [OF am m5(2)]
  have o: "enMatchType ?o = CancelMatch" "strExecType ?o = STEPMSG_EXECTYPE_CANCEL"
    "strLastQty ?o = itos (ui64LeavesQty (msg s p) - sl)" "ui64Orderqty_matched ?o = sl"
    by (simp_all add: cancel_fields_def fill_part_def Let_def)
  have route: "out_route (msg ?s4 p) = Some c"
    unfolding m4 r [symmetric] by (simp add: out_route_def cancel_fields_def fill_part_def Let_def)
  have "match_quotation False True env p sl je s = Some (0, 0, s')"
    using c l am by (simp add: match_quotation_def Let_def ProcSingleCancelOrder_Without_Request_def)
  moreover have "out_content c (g_outMsg_buffer s') = out_content c (g_outMsg_buffer s) @ [p]"
    using PushBack_content [of "msg ?s4" p c "g_outMsg_buffer ?s4", OF route] af(6)
    by (simp add: PushBack_buffer modify_msg_def)
  moreover have "redis s' = redis s" using af(2) by (simp add: modify_msg_def)
  moreover have "enMatchType (msg s' p) = enMatchType ?o" "strExecType (msg s' p) = strExecType ?o"
    "strLastQty (msg s' p) = strLastQty ?o" "ui64Orderqty_matched (msg s' p) = ui64Orderqty_matched ?o"
    using same_trade_sel [OF af(5)] unfolding m5(1) by simp_all
  ultimately show thesis using that o by metis
qed

text \<open>
  C38.  A market order whose rest is to be cancelled, whose assets are not checked, and that trades part
  of what it has left, hides its trade: \<open>ProcSingleCancelOrder_Without_Request\<close> overwrites the very
  order with the cancel report (the pointer is shared), so the only report says that the rest was
  cancelled; the shares that traded are never reported, and the quotation is not reduced by them.
  This holds for the type that is to be filled as a whole or cancelled as a whole, too: the comment
  of \<open>Match_All_Market_Or_Cancel\<close> says so, and the code trades a part of it and cancels the rest.
\<close>

theorem rest_cancel_hides_trade:
  assumes get: "GetCurrQuotGapByCircle (e_ptime env) (e_redis env) (strStockID (msg s p)) (strSide (msg s p))
      (Get_Order_CircleID (msg s p)) (iQuotationMatchType (tradePolicy (msg s p))) (redis s) = (Some (0, g), rd)"
    and d: "rest_cancelled (enDelType (msg s p))" and g: "out_Tpbz g = ''F''" "out_Cjje g \<noteq> 0"
    and ok: "price_ok False (out_Cjsl g) (out_Cjje g) (msg s p)" and l: "out_Cjsl g < ui64LeavesQty (msg s p)"
    and chk: "\<not> bCheck_Assets (tradePolicy (msg s p))" and p: "p < length (heap s)" and r: "out_route (msg s p) = Some c"
  shows "\<exists>s'. ABStockEnableQuoMatch env p s = Some (0, s') \<and>
    out_content c (g_outMsg_buffer s') = out_content c (g_outMsg_buffer s) @ [p] \<and>
    strExecType (msg s' p) = STEPMSG_EXECTYPE_CANCEL \<and>
    strLastQty (msg s' p) = itos (ui64LeavesQty (msg s p) - out_Cjsl g) \<and>
    ui64Orderqty_matched (msg s' p) = out_Cjsl g \<and> out_Cjsl g \<noteq> 0 \<and> redis s' = rd"
proof -
  let ?o = "(msg s p)\<lparr>enMatchType := NotMatch\<rparr>"
  let ?s0 = "modify_msg p (\<lambda>o1. o1\<lparr>enMatchType := NotMatch\<rparr>) (s\<lparr>redis := rd\<rparr>)"
  let ?s1 = "put_msg p ?o ?s0"
  have m: "msg ?s0 p = ?o" "msg ?s1 p = ?o" "p < length (heap ?s1)" using p by (simp_all add: modify_msg_def)
  obtain s' where s': "match_quotation False True env p (out_Cjsl g) (out_Cjje g) ?s1 = Some (0, 0, s')"
    "out_content c (g_outMsg_buffer s') = out_content c (g_outMsg_buffer ?s1) @ [p]" "redis s' = redis ?s1"
    "enMatchType (msg s' p) = CancelMatch" "strExecType (msg s' p) = STEPMSG_EXECTYPE_CANCEL"
    "strLastQty (msg s' p) = itos (ui64LeavesQty ?o - out_Cjsl g)" "ui64Orderqty_matched (msg s' p) = out_Cjsl g"
    by (rule match_rest_cancelled [of "out_Cjsl g" "out_Cjje g" ?s1 p c env, unfolded m(2)])
      (use ok l chk m(3) r in \<open>simp_all\<close>)
  have t: "CheckTPBZ ?o (out_Tpbz g) = (0, ?o)" using g(1) by (simp add: CheckTPBZ_def)
  have nz: "out_Cjsl g \<noteq> 0" using ok by (simp add: price_ok_def)
  have "Quot_MatchByMarket env p g (s\<lparr>redis := rd\<rparr>) = Some (CancelMatch, 0, 0, s')"
    using d s'(1,4) g(2) nz unfolding rest_cancelled_def
    by (elim insertE emptyE; simp add: Quot_MatchByMarket_def Let_def m(1) t Match_Optimal_And_Remainder_Cancel_def Match_All_Market_Or_Cancel_def)
  then have "Quot_MatchOrder env p s = Some (CancelMatch, s')"
    using get by (simp add: Quot_MatchOrder_def Let_def)
  then have "ABStockEnableQuoMatch env p s = Some (0, s')" by (simp add: ABStockEnableQuoMatch_def Let_def)
  then show ?thesis using s' nz by (simp add: modify_msg_def)
qed

lemma rest_cancel_hides_trade_witness:
  "\<exists>s'. ABStockEnableQuoMatch sample_env 0 (sample_gw [sample_buy_order deltype_match_at_market_and_remainder_cancel 800]) =
      Some (0, s') \<and> out_content Sh (g_outMsg_buffer s') = [0] \<and> strLastQty (msg s' 0) = itos 300 \<and>
     ui64Orderqty_matched (msg s' 0) = 500"
proof -
  let ?o = "sample_buy_order deltype_match_at_market_and_remainder_cancel 800"
  let ?s = "sample_gw [?o]"
  have m: "msg ?s 0 = ?o" "0 < length (heap ?s)" "redis ?s = sample_hash" "out_content Sh (g_outMsg_buffer ?s) = []"
    by (simp_all add: sample_gw_def out_content_def OutMemoryManage_new_def)
  have e: "e_ptime sample_env = sample_ptime" "e_redis sample_env = hash_server" by (simp_all add: sample_env_def)
  have o: "strStockID ?o = ''600000''" "strSide ?o = STEPMSG_SIDE_BUY_1" "Get_Order_CircleID ?o = ''C1''"
    "iQuotationMatchType (tradePolicy ?o) = AveragePrice" "out_route ?o = Some Sh"
    by (simp_all add: sample_buy_order_def OrderMessage_new_def TradePolicyCell_new_def Get_Order_CircleID_def out_route_def
        conf_msg_defs)
  have get: "GetCurrQuotGapByCircle (e_ptime sample_env) (e_redis sample_env) (strStockID (msg ?s 0)) (strSide (msg ?s 0))
      (Get_Order_CircleID (msg ?s 0)) (iQuotationMatchType (tradePolicy (msg ?s 0))) (redis ?s) = (Some (0, sample_gap), sample_hash)"
    unfolding m(1,3) e o by (rule sample_read)
  have g: "rest_cancelled (enDelType (msg ?s 0))" "out_Tpbz sample_gap = ''F''" "out_Cjje sample_gap \<noteq> 0"
    "price_ok False (out_Cjsl sample_gap) (out_Cjje sample_gap) (msg ?s 0)" "out_Cjsl sample_gap < ui64LeavesQty (msg ?s 0)"
    "\<not> bCheck_Assets (tradePolicy (msg ?s 0))" "out_route (msg ?s 0) = Some Sh"
    unfolding m(1) by (simp_all add: sample_buy_sel rest_cancelled_def sample_gap_def price_ok_def TradePolicyCell_new_def o(5))
  have "itos (ui64LeavesQty (msg ?s 0) - out_Cjsl sample_gap) = itos 300" "out_Cjsl sample_gap = 500"
    unfolding m(1) by (simp_all add: sample_buy_sel sample_gap_def)
  then show ?thesis using rest_cancel_hides_trade [OF get g(1-6) m(2) g(7)] m(4) by auto
qed

end
