(* ===== verification/OrderEntry.thy ===== *)
theory OrderEntry
  imports PreTrade MatchThread
begin

text \<open>
  How a received order enters the gateway: the buffer of received orders and the validation tasks
  (\<open>simutgw/work_manage/Proc_Distribute_InMsg.cpp\<close>, \<open>GenTaskHelper.cpp\<close>, \<open>Task_ValidOrder.cpp\<close>), the
  check for repeated orders in Redis (\<open>simutgw/order/OrderRepeatChecker.cpp\<close>), the validation and
  preparation per market (\<open>simutgw/mkt_interface/SzConn_StepOrder.cpp\<close>, \<open>ShConn_DbfOrder.cpp\<close>), and
  the confirmation that hands an order to the matching threads
  (\<open>simutgw/db_oper/RecordNewOrderHelper.cpp\<close>).

  Orders are at addresses, as before.  Sending a reject over FIX is kept as the list of the orders
  rejected; the log texts are left out.
\<close>

section \<open>Repeated orders\<close>

definition g_redis_Key_OrderId_Record :: string where
  "g_redis_Key_OrderId_Record = ''tgw_orderids''"

definition CheckIfRepeatOrder_Redis :: "'r redis \<Rightarrow> OrderMessage \<Rightarrow> 'r \<Rightarrow> bool \<times> 'r" where
  "CheckIfRepeatOrder_Redis run o1 rd =
     (case run [''HGET'', g_redis_Key_OrderId_Record, strClordid o1] rd of (reply, rd1) \<Rightarrow>
        (case reply of RedisReply_nil \<Rightarrow> False | RedisReply_string _ \<Rightarrow> True | _ \<Rightarrow> True, rd1))"

definition CheckIfRepeatOrder :: "'r redis \<Rightarrow> OrderMessage \<Rightarrow> 'r \<Rightarrow> bool \<times> 'r" where
  "CheckIfRepeatOrder = CheckIfRepeatOrder_Redis"

definition is_integer_reply :: "RedisReply \<Rightarrow> bool" where
  "is_integer_reply reply = (case reply of RedisReply_integer _ \<Rightarrow> True | _ \<Rightarrow> False)"

definition RecordOrderInRedis :: "'r redis \<Rightarrow> OrderMessage \<Rightarrow> 'r \<Rightarrow> int \<times> 'r" where
  "RecordOrderInRedis run o1 rd =
     (case run [''HSET'', g_redis_Key_OrderId_Record, strClordid o1, ''1''] rd of (reply, rd1) \<Rightarrow>
        (if is_integer_reply reply then 0 else -1, rd1))"

definition DayEndCleanUpInRedis :: "'r redis \<Rightarrow> 'r \<Rightarrow> int \<times> 'r" where
  "DayEndCleanUpInRedis run rd =
     (case run [''DEL'', g_redis_Key_OrderId_Record] rd of (reply, rd1) \<Rightarrow>
        (if is_integer_reply reply then 0 else -1, rd1))"

section \<open>Confirming an order and handing it over\<close>

text \<open>A copy of the order, changed by \<open>f\<close>, is pushed as the confirmation.\<close>

definition push_copy :: "msgref \<Rightarrow> (OrderMessage \<Rightarrow> OrderMessage) \<Rightarrow> 'r Gw \<Rightarrow> 'r Gw" where
  "push_copy p f s =
     snd (PushBack (length (heap s)) (s\<lparr>heap := heap s @ [f (OrderMessage_copy (msg s p))]\<rparr>))"

definition confirm_fields :: "OrderMessage \<Rightarrow> OrderMessage" where
  "confirm_fields o1 = o1\<lparr>strOrderPrice := iLiToStr (ui64mOrderPrice o1) 4,
     strExecType := STEPMSG_EXECTYPE_NEW, strOrdStatus := STEPMSG_ORDSTATUS_NEW\<rparr>"

definition record_new_order :: "msgref \<Rightarrow> 'r Gw \<Rightarrow> 'r Gw" where
  "record_new_order p s = s\<lparr>g_uidTaskGen := g_uidTaskGen s + 1,
     stock := (stock s)\<lparr>db_queue := db_queue (stock s) @ [RecordNewOrder (OrderMessage_copy (msg s p))]\<rparr>\<rparr>"

definition RecordInOrderToDb_Match :: "'r Env \<Rightarrow> msgref \<Rightarrow> 'r Gw \<Rightarrow> (int \<times> 'r Gw) option" where
  "RecordInOrderToDb_Match env p s =
     (let o1 = msg s p; pol = tradePolicy o1;
          s1 = (if ui64RuleId pol \<noteq> 0 then push_copy p id s
                else
                  let s0 = (if iRunMode pol = NormalMode then record_new_order p s else s)
                  in if strMsgType o1 = ''D'' \<and> iMatchMode pol \<noteq> SimulErrMatch \<and> strApplID o1 \<noteq> ''120''
                     then push_copy p confirm_fields s0 else s0);
          s2 = s1\<lparr>redis := snd (RecordOrderInRedis (e_redis env) o1 (redis s1))\<rparr>
      in map_option (\<lambda>(r, s3). (if r < 0 then -1 else r, s3)) (GenTask_Match env p s2))"

section \<open>Validation per market\<close>

definition text_price_invalid :: string where
  "text_price_invalid = [CHR 0xBC, CHR 0xDB, CHR 0xB8, CHR 0xF1, CHR 0xCE, CHR 0xDE, CHR 0xD0, CHR 0xA7]"
definition text_freeze_failed :: string where
  "text_freeze_failed = [CHR 0xB6, CHR 0xB3, CHR 0xBD, CHR 0xE1, CHR 0xB9, CHR 0xC9, CHR 0xB7, CHR 0xDD, CHR 0xCA, CHR 0xA7, CHR 0xB0, CHR 0xDC]"

text \<open>A failed preparation is reported on the order with a code and a text.\<close>

definition reject_order :: "msgref \<Rightarrow> string \<Rightarrow> string \<Rightarrow> 'r Gw \<Rightarrow> 'r Gw" where
  "reject_order p code t s = snd (PushBack p (modify_msg p (\<lambda>o1. o1\<lparr>bDataError := True,
     enMatchType := ErrorMatch, strErrorCode := code, strError := t\<rparr>) s))"

text \<open>
  The part after the validation: prepare, reject with the market's codes, or go on with \<open>rest\<close>.
  \<open>Valide_Record_Order\<close> of both markets has these statements.
\<close>

definition prepare_or_reject ::
  "'d EtfEnv \<Rightarrow> 'r Env \<Rightarrow> string \<Rightarrow> string \<Rightarrow> msgref \<Rightarrow> 'r Gw \<Rightarrow> ('r Gw \<Rightarrow> (int \<times> 'r Gw) option) \<Rightarrow> (int \<times> 'r Gw) option" where
  "prepare_or_reject x env price_code froze_code p s rest =
     (case TradePrep x env (msg s p) (stock s) (redis s) of None \<Rightarrow> None
      | Some (iRes, o1, st, rd) \<Rightarrow>
          let s1 = (put_msg p o1 s)\<lparr>stock := st, redis := rd\<rparr> in
          if iRes = -2 then Some (-1, reject_order p price_code text_price_invalid s1)
          else if iRes < 0 then Some (-1, reject_order p froze_code text_freeze_failed s1)
          else rest s1)"

text \<open>\<open>conns\<close> is \<open>g_mapSzConns\<close> with the log-on state of each connection.\<close>

definition SzConn_Valide_Record_Order ::
  "'d EtfEnv \<Rightarrow> 'r Env \<Rightarrow> (string \<rightharpoonup> bool) \<Rightarrow> msgref \<Rightarrow> 'r Gw \<Rightarrow> (int \<times> 'r Gw) option" where
  "SzConn_Valide_Record_Order x env conns p s =
     (let o1 = msg s p in
      if conns (strSenderCompID o1) \<noteq> Some True then Some (0, s)
      else
        let record = (\<lambda>s'. map_option (\<lambda>(r, s3). (if r < 0 then -1 else 0, s3)) (RecordInOrderToDb_Match env p s')) in
        if ui64RuleId (tradePolicy o1) \<noteq> 0
        then (if ptrRule_Sz (tradePolicy o1) = None then Some (-1, s) else record s)
        else
          let validate = (\<lambda>v. case v o1 of (iRes, o2) \<Rightarrow>
                let s1 = put_msg p o2 s in
                if iRes < 0 then Some (-1, snd (PushBack p s1))
                else prepare_or_reject x env SZ_ERRCODE_c20009 SZ_ERRCODE_c20022 p s1 record)
          in if strApplID o1 = ''010'' then validate AppId_010_ValidateOrder
             else if strApplID o1 = ''120'' then validate AppId_120_ValidateOrder
             else
               let s1 = modify_msg p (\<lambda>o2. o2\<lparr>bDataError := True, enMatchType := ErrorMatch,
                          strErrorCode := SZ_ERRCODE_c20005\<rparr>) s;
                   s2 = snd (PushBack p s1)
               in Some (-1, modify_msg p (\<lambda>o2. o2\<lparr>strError :=
                    ''error applid='' @ strApplID o2 @ ''order cliordid='' @ strClordid o2\<rparr>) s2))"

definition ShConn_Valide_Record_Order :: "'d EtfEnv \<Rightarrow> 'r Env \<Rightarrow> msgref \<Rightarrow> 'r Gw \<Rightarrow> (int \<times> 'r Gw) option" where
  "ShConn_Valide_Record_Order x env p s =
     (let o1 = msg s p;
          record = (\<lambda>s'. map_option (\<lambda>(r, s3). (0, s3)) (RecordInOrderToDb_Match env p s')) in
      if ui64RuleId (tradePolicy o1) \<noteq> 0
      then (if ptrRule_Sh (tradePolicy o1) = None then Some (-1, s) else record s)
      else (case AppId_010_ValidateOrder o1 of (iRes, o2) \<Rightarrow>
             let s1 = put_msg p o2 s in
             if iRes < 0 then Some (-1, snd (PushBack p s1))
             else prepare_or_reject x env SH_ERRCODE_c212 SH_ERRCODE_c231 p s1 record))"

section \<open>Validation tasks\<close>

text \<open>The gateway with what order entry adds to it.\<close>

record 'r Front =
  gw :: "'r Gw"
  g_mapSzConns :: "string \<rightharpoonup> bool"
  confirm_sz :: u64
  confirm_sh :: u64
  fix_rejects :: "msgref list"
  g_inMsg_buffer :: "msgref list"
  g_mtskPool_valid :: "TaskPriorityQueue list"
  valid_tasks :: "u64 \<rightharpoonup> msgref"

definition Inc_Confirm_sz :: "'r Front \<Rightarrow> 'r Front" where
  "Inc_Confirm_sz f = f\<lparr>confirm_sz := confirm_sz f + 1\<rparr>"
definition Inc_Confirm_sh :: "'r Front \<Rightarrow> 'r Front" where
  "Inc_Confirm_sh f = f\<lparr>confirm_sh := confirm_sh f + 1\<rparr>"

text \<open>The check for a repeat, in every mode but the pressure mode.\<close>

definition valid_check :: "'r Env \<Rightarrow> msgref \<Rightarrow> 'r Front \<Rightarrow> bool \<times> 'r Front" where
  "valid_check env p f =
     (let o1 = msg (gw f) p in
      if iRunMode (tradePolicy o1) \<noteq> PressureMode
      then (case CheckIfRepeatOrder (e_redis env) o1 (redis (gw f)) of
              (rep, rd) \<Rightarrow> (rep, f\<lparr>gw := (gw f)\<lparr>redis := rd\<rparr>\<rparr>))
      else (False, f))"

definition valid_record :: "'d EtfEnv \<Rightarrow> 'r Env \<Rightarrow> msgref \<Rightarrow> 'r Front \<Rightarrow> (int \<times> 'r Front) option" where
  "valid_record x env p f =
     (if strTrade_market (msg (gw f) p) = TRADE_MARKET_SZ
      then map_option (\<lambda>(r, s). if r < 0 then (-1, f\<lparr>gw := s\<rparr>) else (0, Inc_Confirm_sz (f\<lparr>gw := s\<rparr>)))
             (SzConn_Valide_Record_Order x env (g_mapSzConns f) p (gw f))
      else map_option (\<lambda>(r, s). if r < 0 then (-1, f\<lparr>gw := s\<rparr>) else (0, Inc_Confirm_sh (f\<lparr>gw := s\<rparr>)))
             (ShConn_Valide_Record_Order x env p (gw f)))"

definition Task_ValidOrder_ValidateOrder :: "'d EtfEnv \<Rightarrow> 'r Env \<Rightarrow> msgref \<Rightarrow> 'r Front \<Rightarrow> (int \<times> 'r Front) option" where
  "Task_ValidOrder_ValidateOrder x env p f =
     (let market = strTrade_market (msg (gw f) p) in
      if market = TRADE_MARKET_SZ \<or> market = TRADE_MARKET_SH then
        (case valid_check env p f of (rep, f1) \<Rightarrow>
           if rep then Some (1, if market = TRADE_MARKET_SZ then f1\<lparr>fix_rejects := fix_rejects f1 @ [p]\<rparr> else f1)
           else valid_record x env p f1)
      else Some (0, f))"

definition GenTask_Valid :: "'r Env \<Rightarrow> msgref \<Rightarrow> 'r Front \<Rightarrow> (int \<times> 'r Front) option" where
  "GenTask_Valid env p f =
     (let o1 = msg (gw f) p; uid = g_uidTaskGen (gw f);
          t = \<lparr>m_uiId = uid, m_iKey = GenerateKey (e_hash env) (strStockID o1) (strSide o1) False,
               m_tOrderTime = 0, m_ui64Price = 0, m_strClordid = [], m_strSide = [],
               m_Prio = Level_Check_Order, m_bIsMatchOrdered = False\<rparr>;
          f1 = f\<lparr>gw := (gw f)\<lparr>g_uidTaskGen := uid + 1\<rparr>, valid_tasks := (valid_tasks f)(uid \<mapsto> p)\<rparr>
      in map_option (\<lambda>(r, pool). (if r \<noteq> 0 then -1 else 0, f1\<lparr>g_mtskPool_valid := pool\<rparr>))
           (PriorityThreadPool_AssignTaskInMini t (g_mtskPool_valid f1)))"

text \<open>The buffer of received orders; it never holds a null pointer here.\<close>

definition ProcInMessage :: "'r Env \<Rightarrow> 'r Front \<Rightarrow> (int \<times> 'r Front) option" where
  "ProcInMessage env f =
     (case MemoryStoreCell_PopFront (g_inMsg_buffer f) of
        (iRes, out, b) \<Rightarrow>
          let f1 = f\<lparr>g_inMsg_buffer := b\<rparr> in
          if iRes = 0 then (case out of None \<Rightarrow> Some (-1, f1)
              | Some p \<Rightarrow> map_option (\<lambda>(r, f2). (if r \<noteq> 0 then -1 else 0, f2)) (GenTask_Valid env p f1))
          else if iRes = 1 then Some (0, f1) else Some (-1, f1))"

section \<open>What the steps leave alone\<close>

lemma put_msg_frame [simp]:
  "stock (put_msg p o1 s) = stock s" "redis (put_msg p o1 s) = redis s"
  "g_mtskPool_match_cancel (put_msg p o1 s) = g_mtskPool_match_cancel s" "tasks (put_msg p o1 s) = tasks s"
  "g_outMsg_buffer (put_msg p o1 s) = g_outMsg_buffer s" "length (heap (put_msg p o1 s)) = length (heap s)"
  "p < length (heap s) \<Longrightarrow> msg (put_msg p o1 s) p = o1"
  by (simp_all add: put_msg_def)

lemma push_copy_frame [simp]:
  "heap (push_copy p f s) = heap s @ [f (OrderMessage_copy (msg s p))]" "stock (push_copy p f s) = stock s"
  "g_mtskPool_match_cancel (push_copy p f s) = g_mtskPool_match_cancel s" "tasks (push_copy p f s) = tasks s"
  "g_uidTaskGen (push_copy p f s) = g_uidTaskGen s"
  by (simp_all add: push_copy_def)

lemma record_new_order_frame [simp]:
  "heap (record_new_order p s) = heap s" "g_mtskPool_match_cancel (record_new_order p s) = g_mtskPool_match_cancel s"
  "cache_find (stock (record_new_order p s)) = cache_find (stock s)"
  "same_off cache_look k (stock s) (stock (record_new_order p s))"
  by (simp_all add: record_new_order_def cache_find_def fun_eq_iff same_off_def cache_look_def)

text \<open>An order for the AB-share matching lands at the end of its thread's queue.\<close>

lemma GenTask_match_order:
  assumes k: "match_task_kind (msg s p) = Some Task_ABStockMatch"
    and i: "i < length (g_mtskPool_match_cancel s)" "order_thread env (msg s p) (length (g_mtskPool_match_cancel s)) = i"
    and room: "m_uiTaskNums (g_mtskPool_match_cancel s ! i) < MAX_QUEUE_SIZE"
  obtains t s1 where "GenTask_Match env p s = Some (0, s1)"
    and "g_mtskPool_match_cancel s1 = (g_mtskPool_match_cancel s)[i := (g_mtskPool_match_cancel s ! i)
      \<lparr>m_p3_unorder_que := m_p3_unorder_que (g_mtskPool_match_cancel s ! i) @ [t],
       m_uiTaskNums := m_uiTaskNums (g_mtskPool_match_cancel s ! i) + 1\<rparr>]"
    and "tasks s1 (m_uiId t) = Some (Task_ABStockMatch, length (heap s))"
    and "heap s1 = heap s @ [OrderMessage_copy (msg s p)]" and "stock s1 = stock s"
    and "g_outMsg_buffer s1 = g_outMsg_buffer s"
proof -
  let ?pool = "g_mtskPool_match_cancel s" and ?o = "OrderMessage_copy (msg s p)"
  let ?q = "?pool ! i" and ?t = "SetOrderMsg env Task_ABStockMatch (g_uidTaskGen s) ?o"
  have t: "m_Prio ?t = Level_Match_Order" "m_uiId ?t = g_uidTaskGen s" "\<not> m_bIsMatchOrdered ?t"
    "key_thread (m_iKey ?t) (length ?pool) = i"
    using i(2) order_thread_copy [of env "msg s p" "length ?pool"] by (simp_all add: SetOrderMsg_def order_thread_def)
  have "\<not> MAX_QUEUE_SIZE \<le> m_uiTaskNums ?q" using room by simp
  then have "TaskPriorityQueue_AddTask (Some ?t) False ?q = Some (0, Some (m_uiTaskNums ?q + 1),
      ?q\<lparr>m_p3_unorder_que := m_p3_unorder_que ?q @ [?t], m_uiTaskNums := m_uiTaskNums ?q + 1\<rparr>)"
    using t(1) by (simp add: TaskPriorityQueue_AddTask_def Let_def)
  moreover have "?pool \<noteq> []" using i(1) by auto
  ultimately have a: "PriorityThreadPool_AssignTaskWithKey ?t ?pool = Some (0, ?pool[i :=
      ?q\<lparr>m_p3_unorder_que := m_p3_unorder_que ?q @ [?t], m_uiTaskNums := m_uiTaskNums ?q + 1\<rparr>])"
    using t by (simp add: PriorityThreadPool_AssignTaskWithKey_def PriorityThread_AddTask_def Let_def)
  show thesis
    by (rule that [of "s\<lparr>g_uidTaskGen := g_uidTaskGen s + 1, heap := heap s @ [?o],
        tasks := (tasks s)(g_uidTaskGen s \<mapsto> (Task_ABStockMatch, length (heap s))),
        g_mtskPool_match_cancel := ?pool[i := ?q\<lparr>m_p3_unorder_que := m_p3_unorder_que ?q @ [?t],
          m_uiTaskNums := m_uiTaskNums ?q + 1\<rparr>]\<rparr>" ?t])
      (use k a t(2) in \<open>simp_all add: GenTask_Match_def Let_def\<close>)
qed

text \<open>\<open>queued_at env i q s s'\<close>: the only new task is one for the order at \<open>q\<close>, at the end of thread \<open>i\<close>.\<close>

definition queued_at :: "nat \<Rightarrow> msgref \<Rightarrow> 'r Gw \<Rightarrow> 'r Gw \<Rightarrow> bool" where
  "queued_at i q s s' \<longleftrightarrow> (\<exists>t. tasks s' (m_uiId t) = Some (Task_ABStockMatch, q) \<and>
     g_mtskPool_match_cancel s' = (g_mtskPool_match_cancel s)[i := (g_mtskPool_match_cancel s ! i)
       \<lparr>m_p3_unorder_que := m_p3_unorder_que (g_mtskPool_match_cancel s ! i) @ [t],
        m_uiTaskNums := m_uiTaskNums (g_mtskPool_match_cancel s ! i) + 1\<rparr>])"

lemma Record_match_order:
  assumes r: "ui64RuleId (tradePolicy (msg s p)) = 0" and k: "match_task_kind (msg s p) = Some Task_ABStockMatch"
    and p: "p < length (heap s)"
    and i: "i < length (g_mtskPool_match_cancel s)" "order_thread env (msg s p) (length (g_mtskPool_match_cancel s)) = i"
    and room: "m_uiTaskNums (g_mtskPool_match_cancel s ! i) < MAX_QUEUE_SIZE"
  obtains s1 q where "RecordInOrderToDb_Match env p s = Some (0, s1)" and "queued_at i q s s1"
    and "msg s1 q = OrderMessage_copy (msg s p)" and "cache_find (stock s1) = cache_find (stock s)"
    and "\<And>k. same_off cache_look k (stock s) (stock s1)"
proof -
  let ?pol = "tradePolicy (msg s p)"
  define s0 where "s0 = (if iRunMode ?pol = NormalMode then record_new_order p s else s)"
  define s1 where "s1 = (if strMsgType (msg s p) = ''D'' \<and> iMatchMode ?pol \<noteq> SimulErrMatch \<and> strApplID (msg s p) \<noteq> ''120''
    then push_copy p confirm_fields s0 else s0)"
  let ?s2 = "s1\<lparr>redis := snd (RecordOrderInRedis (e_redis env) (msg s p) (redis s1))\<rparr>"
  have s0: "heap s0 = heap s" "g_mtskPool_match_cancel s0 = g_mtskPool_match_cancel s"
    "cache_find (stock s0) = cache_find (stock s)" "same_off cache_look k (stock s) (stock s0)" for k
    by (simp_all add: s0_def)
  have s1: "msg ?s2 p = msg s p" "g_mtskPool_match_cancel ?s2 = g_mtskPool_match_cancel s" "stock ?s2 = stock s0"
    using s0 p by (simp_all add: s1_def nth_append)
  obtain t s3 where s3: "GenTask_Match env p ?s2 = Some (0, s3)"
    "g_mtskPool_match_cancel s3 = (g_mtskPool_match_cancel s)[i := (g_mtskPool_match_cancel s ! i)
      \<lparr>m_p3_unorder_que := m_p3_unorder_que (g_mtskPool_match_cancel s ! i) @ [t],
       m_uiTaskNums := m_uiTaskNums (g_mtskPool_match_cancel s ! i) + 1\<rparr>]"
    "tasks s3 (m_uiId t) = Some (Task_ABStockMatch, length (heap ?s2))"
    "heap s3 = heap ?s2 @ [OrderMessage_copy (msg s p)]" "stock s3 = stock s0"
    by (rule GenTask_match_order [of ?s2 p i env]) (use s1 k i room in simp_all)
  have "RecordInOrderToDb_Match env p s = map_option (\<lambda>(r, s3). (if r < 0 then -1 else r, s3)) (GenTask_Match env p ?s2)"
    unfolding RecordInOrderToDb_Match_def Let_def s0_def s1_def using r by simp
  then have "RecordInOrderToDb_Match env p s = Some (0, s3)" by (simp add: s3(1))
  moreover have "queued_at i (length (heap ?s2)) s s3" using s3(2,3) by (auto simp: queued_at_def)
  ultimately show thesis using s3(4,5) s0(3,4) by (intro that [of s3 "length (heap ?s2)"]) simp_all
qed

section \<open>A checked sale\<close>

text \<open>A check returns 0 or -1 and leaves the order's connection alone.\<close>

definition conn_key :: "OrderMessage \<Rightarrow> string \<times> string" where
  "conn_key o1 = (strTrade_market o1, strSenderCompID o1)"

lemma conn_key_route: "conn_key o2 = conn_key o1 \<Longrightarrow> out_route o2 = out_route o1"
  by (simp add: conn_key_def out_route_def)

definition keeps :: "int \<times> OrderMessage \<Rightarrow> OrderMessage \<Rightarrow> bool" where
  "keeps x o1 \<longleftrightarrow> conn_key (snd x) = conn_key o1 \<and> (fst x = 0 \<or> fst x = -1)"

lemma keeps_results:
  "conn_key o2 = conn_key o1 \<Longrightarrow> keeps (data_error t o2) o1"
  "conn_key o2 = conn_key o1 \<Longrightarrow> keeps (0, o2) o1" "conn_key o2 = conn_key o1 \<Longrightarrow> keeps (-1, o2) o1"
  by (simp_all add: keeps_def data_error_def conn_key_def)

lemma keeps_checked: "keeps y o1 \<Longrightarrow> (\<And>o2. keeps (f o2) o2) \<Longrightarrow> keeps (checked y f) o1"
  by (cases y) (auto simp: keeps_def checked_def)

lemma keeps_cases:
  "(b \<Longrightarrow> keeps y o1) \<Longrightarrow> (\<not> b \<Longrightarrow> keeps z o1) \<Longrightarrow> keeps (if b then y else z) o1"
  "(\<And>r n. keeps (g r n) o1) \<Longrightarrow> keeps (case u of (r, n) \<Rightarrow> g r n) o1"
  "keeps y o1 \<Longrightarrow> (\<And>d. keeps (h d) o1) \<Longrightarrow> keeps (case v of None \<Rightarrow> y | Some d \<Rightarrow> h d) o1"
  by (simp, cases u, simp, cases v, simp_all)

lemmas keeps_rules = keeps_results keeps_checked keeps_cases

lemma BasicValidate_keeps: "keeps (BasicValidate o1) o1"
  unfolding BasicValidate_def Let_def by (intro keeps_rules; simp add: conn_key_def)

lemma CheckOrder_TradeType_keeps: "keeps (CheckOrder_TradeType o1) o1"
  unfolding CheckOrder_TradeType_def Let_def by (intro keeps_rules; simp add: conn_key_def)

lemma GetOrder_DEL_TYPE_keeps: "keeps (GetOrder_DEL_TYPE o1) o1"
  unfolding GetOrder_DEL_TYPE_def Let_def by (intro keeps_rules; simp add: conn_key_def)

lemma AppId_010_keeps: "keeps (AppId_010_ValidateOrder o1) o1"
  unfolding AppId_010_ValidateOrder_def Let_def
  by (intro keeps_rules BasicValidate_keeps CheckOrder_TradeType_keeps GetOrder_DEL_TYPE_keeps; simp add: conn_key_def)

lemma market_error_conn_key: "conn_key (set_market_error a b o1) = conn_key o1"
  by (simp add: set_market_error_def conn_key_def)

lemma CheckOrderByQuotation_key:
  "CheckOrderByQuotation env o1 rd = Some (r, o2, rd1) \<Longrightarrow> conn_key o2 = conn_key o1"
  by (auto simp: CheckOrderByQuotation_def PreTrade_CheckTPBZ_def PreTrade_Check_MaxGain_And_MinFall_def
      market_error_conn_key split: if_splits option.splits prod.splits) (simp_all add: conn_key_def)

lemma prep_sell_key:
  "prepared (prep_sell env o1 st rd) = Some (r, o2, st2, rd2) \<Longrightarrow> conn_key o2 = conn_key o1"
  by (auto simp: prepared_def prep_sell_def conn_key_def split: if_splits option.splits prod.splits)

lemma TradePrep_sale_key:
  assumes "TradePrep x env o1 st rd = Some (r, o2, st2, rd2)" and "length (strStockID o1) = 6"
    and "\<not> etf_code (strStockID o1)" and "is_sell_side o1" and "strMsgType o1 \<noteq> STEPMSG_MSGTYPE_ORDER_CACEL"
  shows "conn_key o2 = conn_key o1"
proof -
  have k: "conn_key (o1\<lparr>iTrade_type := a_trade\<rparr>) = conn_key o1" by (simp add: conn_key_def)
  show ?thesis
    using assms(1) unfolding TradePrep_sale [OF assms(2-5)] quoted_def
    by (auto dest!: CheckOrderByQuotation_key prep_sell_key simp: k split: if_splits option.splits prod.splits)
qed

lemma frozen_for_copy [simp]: "frozen_for (OrderMessage_copy o1) u u' = frozen_for o1 u u'"
  by (simp add: frozen_for_def OrderMessage_copy_def)

lemma push_reported:
  assumes "p < length (heap s)" and "out_route (msg s p) = Some c"
  shows "out_content c (g_outMsg_buffer (snd (PushBack p s))) = out_content c (g_outMsg_buffer s) @ [p]"
  using PushBack_content [of "msg s" p c, OF assms(2)] by (simp add: PushBack_buffer)

text \<open>
  \<open>refused i p s s'\<close>: the order at \<open>p\<close> is reported back and nothing is queued; its account holds
  what it held.
\<close>

definition refused :: "'r Env \<Rightarrow> UserStockVolume \<Rightarrow> out_channel \<Rightarrow> msgref \<Rightarrow> 'r Gw \<Rightarrow> 'r Gw \<Rightarrow> bool" where
  "refused env u c p s s' \<longleftrightarrow> g_mtskPool_match_cancel s' = g_mtskPool_match_cancel s \<and> tasks s' = tasks s \<and>
     out_content c (g_outMsg_buffer s') = out_content c (g_outMsg_buffer s) @ [p] \<and>
     holding_of (e_loader env) (e_clock env) (strAccountId (msg s p)) (strStockID (msg s p)) (stock s') \<in>
       {Some u, Some (touch (e_clock env) u)}"

text \<open>What is asked of the order and the state: a checked sale on a thread with room.\<close>

definition checked_sale :: "'r Env \<Rightarrow> nat \<Rightarrow> msgref \<Rightarrow> 'r Gw \<Rightarrow> bool" where
  "checked_sale env i p s \<longleftrightarrow> p < length (heap s) \<and> ui64RuleId (tradePolicy (msg s p)) = 0 \<and>
     bCheck_Assets (tradePolicy (msg s p)) \<and> is_sell_side (msg s p) \<and> \<not> etf_code (strStockID (msg s p)) \<and>
     strMsgType (msg s p) = ''D'' \<and> i < length (g_mtskPool_match_cancel s) \<and>
     order_thread env (msg s p) (length (g_mtskPool_match_cancel s)) = i \<and>
     m_uiTaskNums (g_mtskPool_match_cancel s ! i) < MAX_QUEUE_SIZE"

lemma prepared_sale:
  assumes c: "checked_sale env i p s" and v: "AppId_010_ValidateOrder (msg s p) = (0, o2)"
    and u: "holding_of (e_loader env) (e_clock env) (strAccountId (msg s p)) (strStockID (msg s p)) (stock s) = Some u"
    and route: "out_route (msg s p) = Some ch"
    and rest: "\<And>s1. rest s1 = map_option (\<lambda>(r, s3). (f r, s3)) (RecordInOrderToDb_Match env p s1)" "f 0 = 0"
    and res: "prepare_or_reject x env pc fc p (put_msg p o2 s) rest = Some (r, s')"
  shows "same_off cache_look (strAccountId (msg s p), strStockID (msg s p)) (stock s) (stock s')"
    and "(r = 0 \<and> (\<exists>q u'. queued_at i q s s' \<and> cache_find (stock s') (strAccountId (msg s p)) (strStockID (msg s p)) = Some u' \<and>
        frozen_for (msg s' q) u u' \<and> ui64LeavesQty (msg s' q) = snd (String2UInt64_strtoui64 (strLeavesQty (msg s p))))) \<or>
      (r = -1 \<and> refused env u ch p s s')"
proof -
  let ?a = "strAccountId (msg s p)" and ?k = "strStockID (msg s p)"
  have p: "p < length (heap s)" and c': "ui64RuleId (tradePolicy (msg s p)) = 0" "is_sell_side (msg s p)" "\<not> etf_code ?k"
    "strMsgType (msg s p) \<noteq> STEPMSG_MSGTYPE_ORDER_CACEL" "bCheck_Assets (tradePolicy (msg s p))"
    and i: "i < length (g_mtskPool_match_cancel s)" "order_thread env (msg s p) (length (g_mtskPool_match_cancel s)) = i"
      "m_uiTaskNums (g_mtskPool_match_cancel s ! i) < MAX_QUEUE_SIZE"
    using c by (simp_all add: checked_sale_def STEPMSG_MSGTYPE_ORDER_CACEL_def)
  from v c'(4) obtain t d where d: "basic_ok (msg s p)" "o2 = validated (msg s p) d t" by (rule AppId_010_validated)
  have o2: "length (strStockID o2) = 6" "\<not> etf_code (strStockID o2)" "is_sell_side o2"
    "strMsgType o2 \<noteq> STEPMSG_MSGTYPE_ORDER_CACEL" "bCheck_Assets (tradePolicy o2)" "ui64RuleId (tradePolicy o2) = 0"
    "strAccountId o2 = ?a" "strStockID o2 = ?k" "strSide o2 = strSide (msg s p)"
    "ui64LeavesQty o2 = snd (String2UInt64_strtoui64 (strLeavesQty (msg s p)))"
    using d(1) c' by (simp_all add: d(2) basic_ok_def is_sell_side_def)
  have k2: "conn_key o2 = conn_key (msg s p)" using AppId_010_keeps [of "msg s p"] by (simp add: v keeps_def)
  obtain iRes o3 st rd where prep: "TradePrep x env o2 (stock s) (redis s) = Some (iRes, o3, st, rd)"
    using res p by (auto simp: prepare_or_reject_def split: option.splits)
  let ?s1 = "(put_msg p o3 (put_msg p o2 s))\<lparr>stock := st, redis := rd\<rparr>"
  have u2: "holding_of (e_loader env) (e_clock env) (strAccountId o2) (strStockID o2) (stock s) = Some u" using u o2 by simp
  note sp = sale_prepared [OF prep o2(1-5) u2]
  have s1: "msg ?s1 p = o3" "length (heap ?s1) = length (heap s)" "g_mtskPool_match_cancel ?s1 = g_mtskPool_match_cancel s"
    "g_outMsg_buffer ?s1 = g_outMsg_buffer s" "tasks ?s1 = tasks s" "stock ?s1 = st"
    using p by simp_all
  have k3: "out_route o3 = Some ch"
    using conn_key_route [OF TradePrep_sale_key [OF prep o2(1-4)]] conn_key_route [OF k2] route by simp
  have "same_off cache_look (?a, ?k) (stock s) (stock s') \<and>
    ((r = 0 \<and> (\<exists>q u'. queued_at i q s s' \<and> cache_find (stock s') ?a ?k = Some u' \<and>
        frozen_for (msg s' q) u u' \<and> ui64LeavesQty (msg s' q) = snd (String2UInt64_strtoui64 (strLeavesQty (msg s p))))) \<or>
      (r = -1 \<and> refused env u ch p s s'))"
  proof (cases "iRes = 0")
    case True
    from sp(3) [OF this] obtain rdp avl u' where o3: "o3 = o2\<lparr>iTrade_type := a_trade, sellCps := \<lparr>scps_ui64Etf_rdp = rdp, scps_ui64Avl = avl\<rparr>\<rparr>"
      and u': "cache_find st ?a ?k = Some u'" "frozen_for o3 u u'" using o2 by auto
    have "ui64RuleId (tradePolicy (msg ?s1 p)) = 0" "match_task_kind (msg ?s1 p) = Some Task_ABStockMatch"
      "order_thread env (msg ?s1 p) (length (g_mtskPool_match_cancel ?s1)) = i"
      unfolding s1 using o2 i(2) by (simp_all add: o3 match_task_kind_def TADE_TYPE_defs order_thread_def)
    note k = this
    obtain s2 q where raw: "RecordInOrderToDb_Match env p ?s1 = Some (0, s2)" "queued_at i q ?s1 s2"
      "msg s2 q = OrderMessage_copy (msg ?s1 p)" "cache_find (stock s2) = cache_find (stock ?s1)"
      "\<And>k. same_off cache_look k (stock ?s1) (stock s2)"
      by (rule Record_match_order [OF k(1,2) _ _ k(3)]) (use p i in \<open>simp_all add: s1(2,3)\<close>)
    note s2 = raw(1,2) raw(3-5) [unfolded s1(1,6)]
    have "r = 0 \<and> s' = s2" using res s2(1) rest prep True p by (simp add: prepare_or_reject_def Let_def)
    moreover have "queued_at i q s s2" using s2(2) by (simp add: queued_at_def s1)
    moreover have "ui64LeavesQty (msg s2 q) = ui64LeavesQty o2" by (simp add: s2(3) o3 OrderMessage_copy_def)
    moreover have "same_off cache_look (?a, ?k) (stock s) (stock s2)"
      using sp(1) s2(5) o2 by (metis same_off_trans)
    ultimately show ?thesis using s2(3,4) u' o2 by auto
  next
    case False
    then have "iRes = -1 \<or> iRes = -2" using sp(2) by simp
    then obtain code tx where s': "r = -1" "s' = reject_order p code tx ?s1"
      using res prep p by (auto simp: prepare_or_reject_def Let_def split: if_splits)
    let ?s2 = "modify_msg p (\<lambda>o1. o1\<lparr>bDataError := True, enMatchType := ErrorMatch, strErrorCode := code, strError := tx\<rparr>) ?s1"
    have "conn_key (msg ?s2 p) = conn_key o3" using p by (simp add: modify_msg_def conn_key_def)
    from trans [OF conn_key_route [OF this] k3] have "out_route (msg ?s2 p) = Some ch" .
    then have "out_content ch (g_outMsg_buffer (snd (PushBack p ?s2))) = out_content ch (g_outMsg_buffer s) @ [p]"
      using push_reported [of p ?s2 ch] p by (simp add: modify_msg_def)
    then show ?thesis
      using sp(1) sp(4) [OF False] o2 by (simp add: s' refused_def reject_order_def modify_msg_def)
  qed
  then show "same_off cache_look (?a, ?k) (stock s) (stock s')"
    and "(r = 0 \<and> (\<exists>q u'. queued_at i q s s' \<and> cache_find (stock s') ?a ?k = Some u' \<and>
        frozen_for (msg s' q) u u' \<and> ui64LeavesQty (msg s' q) = snd (String2UInt64_strtoui64 (strLeavesQty (msg s p))))) \<or>
      (r = -1 \<and> refused env u ch p s s')"
    by simp_all
qed

text \<open>
  C3.  A checked sale that reaches the Shenzhen entry is either accepted, and then one task for it
  waits at the end of its thread's queue with exactly its open quantity frozen out of the account's
  redeemed and available shares; or it is refused, and then it is reported back once, no task is
  added and the account holds what it held.  No other holding changes either way.
\<close>

theorem sz_sale_frozen_or_refused:
  assumes conn: "conns (strSenderCompID (msg s p)) = Some True" "out_route (msg s p) = Some ch"
    and sale: "checked_sale env i p s" "strApplID (msg s p) = ''010''"
    and u: "holding_of (e_loader env) (e_clock env) (strAccountId (msg s p)) (strStockID (msg s p)) (stock s) = Some u"
    and res: "SzConn_Valide_Record_Order x env conns p s = Some (r, s')"
  shows "same_off cache_look (strAccountId (msg s p), strStockID (msg s p)) (stock s) (stock s') \<and>
    ((r = 0 \<and> (\<exists>q u'. queued_at i q s s' \<and> cache_find (stock s') (strAccountId (msg s p)) (strStockID (msg s p)) = Some u' \<and>
        frozen_for (msg s' q) u u' \<and> ui64LeavesQty (msg s' q) = snd (String2UInt64_strtoui64 (strLeavesQty (msg s p))))) \<or>
      (r = -1 \<and> refused env u ch p s s'))"
proof -
  have p: "p < length (heap s)" "ui64RuleId (tradePolicy (msg s p)) = 0" using sale(1) by (simp_all add: checked_sale_def)
  obtain iRes o2 where v: "AppId_010_ValidateOrder (msg s p) = (iRes, o2)" by force
  show ?thesis
  proof (cases "iRes = 0")
    case True
    show ?thesis
      using res conn(1) sale(2) p(2) v True
      by (intro conjI prepared_sale [OF sale(1) _ u conn(2), where f = "\<lambda>r. if r < 0 then -1 else 0" and rest = "\<lambda>s'. map_option
            (\<lambda>(r, s3). (if r < 0 then -1 else 0, s3)) (RecordInOrderToDb_Match env p s')"
          and x = x and pc = SZ_ERRCODE_c20009 and fc = SZ_ERRCODE_c20022])
        (simp_all add: SzConn_Valide_Record_Order_def Let_def)
  next
    case False
    with AppId_010_keeps [of "msg s p"] have k: "iRes = -1" "conn_key o2 = conn_key (msg s p)" by (simp_all add: v keeps_def)
    then have s': "r = -1" "s' = snd (PushBack p (put_msg p o2 s))"
      using res conn(1) sale(2) p(2) v by (simp_all add: SzConn_Valide_Record_Order_def Let_def)
    then show ?thesis
      using push_reported [of p "put_msg p o2 s" ch] conn_key_route [OF k(2)] conn(2) p(1) u
      by (simp add: refused_def)
  qed
qed

text \<open>A sale of 60 out of 30 redeemed and 50 available shares, on a log-on connection.\<close>

definition sale_env :: "(string \<Rightarrow> string option) Env" where
  "sale_env = sample_env\<lparr>e_loader := \<lambda>_ _. sample_loader ''A1'' ''600000''\<rparr>"

definition sale_order :: OrderMessage where
  "sale_order = sample_request\<lparr>strOrderqty_origin := ''60'', strLeavesQty := ''60'', strSenderCompID := ''X'',
     tradePolicy := TradePolicyCell_new\<lparr>bCheck_Assets := True, iMatchMode := SimulMatchAll\<rparr>\<rparr>"

lemma sale_order_sel [simp]:
  "strAccountId sale_order = ''acc''" "strStockID sale_order = ''000001''" "strSide sale_order = ''2''"
  "strSenderCompID sale_order = ''X''" "strApplID sale_order = ''010''" "strLeavesQty sale_order = ''60''"
  "strMsgType sale_order = ''D''" "ui64RuleId (tradePolicy sale_order) = 0" "bCheck_Assets (tradePolicy sale_order)"
  "iMatchMode (tradePolicy sale_order) = SimulMatchAll" "strTrade_market sale_order = TRADE_MARKET_SZ"
  by (simp_all add: sale_order_def sample_request_def TradePolicyCell_new_def)

lemma read_60 [simp]: "snd (String2UInt64_strtoui64 ''60'') = 60"
  by (simp add: String2UInt64_strtoui64_def strtoll_def scan_number_def c_str_def is_space_def is_digit_def of_char_def)

lemma sale_order_validated: "AppId_010_ValidateOrder sale_order = (0, validated sale_order deltype_ordinary_limit a_trade)"
proof -
  have "strMsgType sale_order \<noteq> STEPMSG_MSGTYPE_ORDER_CACEL" by (simp add: STEPMSG_MSGTYPE_ORDER_CACEL_def)
  then show ?thesis
    by (simp add: AppId_010_iff) (simp add: basic_ok_def is_sell_side_def is_buy_side_def conf_msg_defs code_trade_type_def
      margin_market_sz_def request_type_def sz_del_type_def basic_fields_def sale_order_def sample_request_def
      OrderMessage_new_def Let_def)
qed

lemma sale_held: "holding_of (e_loader sale_env) (e_clock sale_env) acc stk empty_cache = Some sample_volume"
  by (simp add: holding_of_def sale_env_def sample_env_def sample_loader_def sample_volume_def)

lemma sale_checked: "checked_sale sale_env (order_thread sale_env sale_order 2) 0 (sample_gw [sale_order])"
  by (simp add: checked_sale_def sample_gw_def is_sell_side_def conf_msg_defs etf_code_def order_thread_def key_thread_def
      TaskPriorityQueue_new_def MAX_QUEUE_SIZE_def nth_Cons' unat_mod)

lemma sale_prep:
  "\<exists>st. TradePrep x sale_env (validated sale_order deltype_ordinary_limit a_trade) empty_cache rd =
     Some (0, (validated sale_order deltype_ordinary_limit a_trade)\<lparr>iTrade_type := a_trade,
       sellCps := \<lparr>scps_ui64Etf_rdp = 30, scps_ui64Avl = 30\<rparr>\<rparr>, st, rd)"
proof -
  let ?o = "validated sale_order deltype_ordinary_limit a_trade"
  have side: "is_sell_side ?o" by (simp add: is_sell_side_def conf_msg_defs)
  obtain s0 where l: "UserStockHelper_LookUp (e_loader sale_env) (e_clock sale_env) ''acc'' ''000001'' empty_cache = (0, s0)"
      "cache_find s0 ''acc'' ''000001'' = Some sample_volume"
    using LookUp_eq [of "e_loader sale_env" "e_clock sale_env" "''acc''" "''000001''" empty_cache] by (auto simp: sale_held)
  then obtain st where "UserStockHelper_SellFroze (e_loader sale_env) (e_clock sale_env) ''acc'' ''000001'' 60 empty_cache =
      Some (0, Some (30, 30), st)"
    using SellFroze_both [of sample_volume 60 "e_clock sale_env"] by (simp add: UserStockHelper_SellFroze_def held_freeze_def)
  moreover have "is_sell_side (?o\<lparr>iTrade_type := a_trade\<rparr>)" using side by (simp add: is_sell_side_def)
  ultimately show ?thesis
    by (subst TradePrep_sale) (use side in \<open>simp_all add: etf_code_def STEPMSG_MSGTYPE_ORDER_CACEL_def quoted_def prep_sell_def
      prepared_def\<close>)
qed

lemma sale_recorded:
  "\<exists>s'. prepare_or_reject x sale_env pc fc 0 (put_msg 0 (validated sale_order deltype_ordinary_limit a_trade) (sample_gw [sale_order]))
     (\<lambda>s'. map_option (\<lambda>(r, s3). (f r, s3)) (RecordInOrderToDb_Match sale_env 0 s')) = Some (f 0, s')"
proof -
  let ?o = "validated sale_order deltype_ordinary_limit a_trade"
  let ?s = "put_msg 0 ?o (sample_gw [sale_order])"
  obtain st where st: "TradePrep x sale_env ?o empty_cache sample_hash =
     Some (0, ?o\<lparr>iTrade_type := a_trade, sellCps := \<lparr>scps_ui64Etf_rdp = 30, scps_ui64Avl = 30\<rparr>\<rparr>, st, sample_hash)"
    using sale_prep by blast
  let ?o3 = "?o\<lparr>iTrade_type := a_trade, sellCps := \<lparr>scps_ui64Etf_rdp = 30, scps_ui64Avl = 30\<rparr>\<rparr>"
  define s1 where "s1 = (put_msg 0 ?o3 ?s)\<lparr>stock := st, redis := sample_hash\<rparr>"
  have g: "heap s1 = [?o3]" "length (g_mtskPool_match_cancel s1) = 2"
    "j < 2 \<Longrightarrow> g_mtskPool_match_cancel s1 ! j = TaskPriorityQueue_new" for j
    by (simp_all add: s1_def sample_gw_def put_msg_def nth_Cons')
  have s: "stock ?s = empty_cache" "redis ?s = sample_hash" "msg ?s 0 = ?o" by (simp_all add: sample_gw_def put_msg_def)
  have i: "order_thread sale_env ?o3 2 < 2" by (simp add: order_thread_def key_thread_def unat_mod)
  obtain s2 q where "RecordInOrderToDb_Match sale_env 0 s1 = Some (0, s2)"
    by (rule Record_match_order [of s1 0 "order_thread sale_env ?o3 2" sale_env])
      (use i in \<open>simp_all add: g match_task_kind_def TADE_TYPE_defs TaskPriorityQueue_new_def MAX_QUEUE_SIZE_def\<close>)
  then show ?thesis using st unfolding prepare_or_reject_def s by (simp add: Let_def flip: s1_def)
qed

lemma sz_sale_frozen_or_refused_witness:
  "\<exists>s' q u'. SzConn_Valide_Record_Order sample_etf_env sale_env [''X'' \<mapsto> True] 0 (sample_gw [sale_order]) = Some (0, s') \<and>
     frozen_for (msg s' q) sample_volume u' \<and> ui64LeavesQty (msg s' q) = 60"
proof -
  have m: "msg (sample_gw [sale_order]) 0 = sale_order" by (simp add: sample_gw_def)
  have st: "stock (sample_gw [sale_order]) = empty_cache" by (simp add: sample_gw_def)
  obtain s' where r: "SzConn_Valide_Record_Order sample_etf_env sale_env [''X'' \<mapsto> True] 0 (sample_gw [sale_order]) = Some (0, s')"
    using sale_recorded [of sample_etf_env SZ_ERRCODE_c20009 SZ_ERRCODE_c20022 "\<lambda>r. if r < 0 then -1 else 0"]
    by (auto simp: SzConn_Valide_Record_Order_def m sale_order_validated Let_def)
  show ?thesis
    using sz_sale_frozen_or_refused [OF _ _ sale_checked _ _ r, of "Sz ''X''" sample_volume] r sale_held
    by (auto simp: m st out_route_def)
qed

text \<open>The same of a checked sale that reaches the Shanghai entry.\<close>

theorem sh_sale_frozen_or_refused:
  assumes route: "out_route (msg s p) = Some ch" and sale: "checked_sale env i p s"
    and u: "holding_of (e_loader env) (e_clock env) (strAccountId (msg s p)) (strStockID (msg s p)) (stock s) = Some u"
    and res: "ShConn_Valide_Record_Order x env p s = Some (r, s')"
  shows "same_off cache_look (strAccountId (msg s p), strStockID (msg s p)) (stock s) (stock s') \<and>
    ((r = 0 \<and> (\<exists>q u'. queued_at i q s s' \<and> cache_find (stock s') (strAccountId (msg s p)) (strStockID (msg s p)) = Some u' \<and>
        frozen_for (msg s' q) u u' \<and> ui64LeavesQty (msg s' q) = snd (String2UInt64_strtoui64 (strLeavesQty (msg s p))))) \<or>
      (r = -1 \<and> refused env u ch p s s'))"
proof -
  have p: "p < length (heap s)" "ui64RuleId (tradePolicy (msg s p)) = 0" using sale by (simp_all add: checked_sale_def)
  obtain iRes o2 where v: "AppId_010_ValidateOrder (msg s p) = (iRes, o2)" by force
  show ?thesis
  proof (cases "iRes = 0")
    case True
    show ?thesis
      using res p(2) v True
      by (intro conjI prepared_sale [OF sale _ u route, where f = "\<lambda>r. 0" and rest = "\<lambda>s'. map_option
            (\<lambda>(r, s3). (0, s3)) (RecordInOrderToDb_Match env p s')"
          and x = x and pc = SH_ERRCODE_c212 and fc = SH_ERRCODE_c231])
        (simp_all add: ShConn_Valide_Record_Order_def Let_def)
  next
    case False
    with AppId_010_keeps [of "msg s p"] have k: "iRes = -1" "conn_key o2 = conn_key (msg s p)" by (simp_all add: v keeps_def)
    then have s': "r = -1" "s' = snd (PushBack p (put_msg p o2 s))"
      using res p(2) v by (simp_all add: ShConn_Valide_Record_Order_def Let_def)
    then show ?thesis
      using push_reported [of p "put_msg p o2 s" ch] conn_key_route [OF k(2)] route p(1) u
      by (simp add: refused_def)
  qed
qed


lemma sh_sale_frozen_or_refused_witness:
  "\<exists>s' q u'. ShConn_Valide_Record_Order sample_etf_env sale_env 0 (sample_gw [sale_order]) = Some (0, s') \<and>
     frozen_for (msg s' q) sample_volume u' \<and> ui64LeavesQty (msg s' q) = 60"
proof -
  have m: "msg (sample_gw [sale_order]) 0 = sale_order" by (simp add: sample_gw_def)
  have st: "stock (sample_gw [sale_order]) = empty_cache" by (simp add: sample_gw_def)
  obtain s' where r: "ShConn_Valide_Record_Order sample_etf_env sale_env 0 (sample_gw [sale_order]) = Some (0, s')"
    using sale_recorded [of sample_etf_env SH_ERRCODE_c212 SH_ERRCODE_c231 "\<lambda>r. 0"]
    by (auto simp: ShConn_Valide_Record_Order_def m sale_order_validated Let_def)
  show ?thesis
    using sh_sale_frozen_or_refused [OF _ sale_checked _ r, of "Sz ''X''" sample_volume] r sale_held
    by (auto simp: m st out_route_def)
qed

section \<open>Repeated orders, one after the other and at the same time\<close>

text \<open>
  The documented behaviour of HGET, HSET and DEL on the hash of order numbers: \<open>ids\<close> is the set of
  its fields.
\<close>

definition redis_ids_ok :: "'r redis \<Rightarrow> ('r \<Rightarrow> string set) \<Rightarrow> bool" where
  "redis_ids_ok run ids \<longleftrightarrow>
     (\<forall>r c. c \<in> ids r \<longrightarrow> (\<exists>v. run [''HGET'', g_redis_Key_OrderId_Record, c] r = (RedisReply_string v, r))) \<and>
     (\<forall>r c. c \<notin> ids r \<longrightarrow> run [''HGET'', g_redis_Key_OrderId_Record, c] r = (RedisReply_nil, r)) \<and>
     (\<forall>r c v. \<exists>n r'. run [''HSET'', g_redis_Key_OrderId_Record, c, v] r = (RedisReply_integer n, r') \<and>
        ids r' = insert c (ids r)) \<and>
     (\<forall>r. \<exists>n r'. run [''DEL'', g_redis_Key_OrderId_Record] r = (RedisReply_integer n, r') \<and> ids r' = {})"

text \<open>A server that behaves so, its state being the set.\<close>

definition id_server :: "string set redis" where
  "id_server cmd r = (case cmd of
     [c, k, f] \<Rightarrow> (if f \<in> r then RedisReply_string ''1'' else RedisReply_nil, r)
   | [c, k, f, v] \<Rightarrow> (RedisReply_integer 1, insert f r)
   | _ \<Rightarrow> (RedisReply_integer 1, {}))"

lemma id_server_ok: "redis_ids_ok id_server (\<lambda>r. r)"
  by (simp add: redis_ids_ok_def id_server_def)

lemma Check_ids:
  "redis_ids_ok run ids \<Longrightarrow> CheckIfRepeatOrder run o1 r = (strClordid o1 \<in> ids r, r)"
  by (cases "strClordid o1 \<in> ids r") (fastforce simp: redis_ids_ok_def CheckIfRepeatOrder_def CheckIfRepeatOrder_Redis_def)+

lemma Record_ids:
  assumes "redis_ids_ok run ids"
  obtains r' where "RecordOrderInRedis run o1 r = (0, r')" and "ids r' = insert (strClordid o1) (ids r)"
proof -
  obtain n r' where "run [''HSET'', g_redis_Key_OrderId_Record, strClordid o1, ''1''] r = (RedisReply_integer n, r')"
    "ids r' = insert (strClordid o1) (ids r)" using assms unfolding redis_ids_ok_def by blast
  then show thesis by (intro that) (simp_all add: RecordOrderInRedis_def is_integer_reply_def)
qed

text \<open>
  C8.  An order number that was recorded is found to be a repeat from then on, whatever other numbers
  are recorded, until the day-end clean-up; after it no number is.
\<close>

theorem recorded_order_repeats:
  assumes "redis_ids_ok run ids"
  shows "(fst (CheckIfRepeatOrder run q (fold (\<lambda>o1 r. snd (RecordOrderInRedis run o1 r)) os r)) \<longleftrightarrow>
      strClordid q \<in> strClordid ` set os \<or> fst (CheckIfRepeatOrder run q r)) \<and>
    \<not> fst (CheckIfRepeatOrder run q (snd (DayEndCleanUpInRedis run r)))"
proof (intro conjI)
  have "ids (fold (\<lambda>o1 r. snd (RecordOrderInRedis run o1 r)) os r) = strClordid ` set os \<union> ids r"
  proof (induction os arbitrary: r)
    case (Cons o1 os)
    obtain r' where "RecordOrderInRedis run o1 r = (0, r')" "ids r' = insert (strClordid o1) (ids r)"
      by (rule Record_ids [OF assms])
    then show ?case by (simp add: Cons.IH)
  qed simp
  then show "fst (CheckIfRepeatOrder run q (fold (\<lambda>o1 r. snd (RecordOrderInRedis run o1 r)) os r)) \<longleftrightarrow>
      strClordid q \<in> strClordid ` set os \<or> fst (CheckIfRepeatOrder run q r)"
    by (simp add: Check_ids [OF assms])
  obtain n r' where "run [''DEL'', g_redis_Key_OrderId_Record] r = (RedisReply_integer n, r')" "ids r' = {}"
    using assms unfolding redis_ids_ok_def by blast
  then show "\<not> fst (CheckIfRepeatOrder run q (snd (DayEndCleanUpInRedis run r)))"
    by (simp add: DayEndCleanUpInRedis_def Check_ids [OF assms])
qed

lemma recorded_order_repeats_witness:
  "fst (CheckIfRepeatOrder id_server sale_order (snd (RecordOrderInRedis id_server sale_order {}))) \<and>
   \<not> fst (CheckIfRepeatOrder id_server sale_order (snd (DayEndCleanUpInRedis id_server {''c1''})))"
  using recorded_order_repeats [OF id_server_ok, of sale_order "[sale_order]" "{}"]
    recorded_order_repeats [OF id_server_ok, of sale_order "[]" "{''c1''}"] by simp

text \<open>
  Validation tasks run in several threads.  Each is a check followed by the rest; the two are not one
  step, so those of different tasks interleave.
\<close>

datatype vtask = VStart msgref | VChecked msgref | VDone int

inductive valid_step ::
  "'d EtfEnv \<Rightarrow> 'r Env \<Rightarrow> vtask list \<times> 'r Front \<Rightarrow> vtask list \<times> 'r Front \<Rightarrow> bool" for x env where
  check: "i < length ts \<Longrightarrow> ts ! i = VStart p \<Longrightarrow> valid_check env p f = (False, f') \<Longrightarrow>
     valid_step x env (ts, f) (ts[i := VChecked p], f')"
| repeat: "i < length ts \<Longrightarrow> ts ! i = VStart p \<Longrightarrow> valid_check env p f = (True, f') \<Longrightarrow>
     valid_step x env (ts, f) (ts[i := VDone 1],
       if strTrade_market (msg (gw f) p) = TRADE_MARKET_SZ then f'\<lparr>fix_rejects := fix_rejects f' @ [p]\<rparr> else f')"
| record_order: "i < length ts \<Longrightarrow> ts ! i = VChecked p \<Longrightarrow> valid_record x env p f = Some (r, f') \<Longrightarrow>
     valid_step x env (ts, f) (ts[i := VDone r], f')"

text \<open>Without another task in between, the two steps are \<open>ValidateOrder\<close>.\<close>

lemma valid_steps_alone:
  assumes "strTrade_market (msg (gw f) p) \<in> {TRADE_MARKET_SZ, TRADE_MARKET_SH}"
    and "Task_ValidOrder_ValidateOrder x env p f = Some (r, f')"
  shows "(valid_step x env)\<^sup>*\<^sup>* ([VStart p], f) ([VDone r], f')"
proof -
  obtain b f1 where c: "valid_check env p f = (b, f1)" by force
  show ?thesis
  proof (cases b)
    case True
    then show ?thesis using assms c valid_step.repeat [where i = 0 and ts = "[VStart p]" and p = p and env = env and f = f and f' = f1 and x = x]
      by (auto simp: Task_ValidOrder_ValidateOrder_def Let_def)
  next
    case False
    then have "valid_step x env ([VStart p], f) ([VChecked p], f1)" "valid_record x env p f1 = Some (r, f')"
      using assms c valid_step.check [where i = 0 and ts = "[VStart p]" and p = p and env = env and f = f and f' = f1 and x = x]
      by (auto simp: Task_ValidOrder_ValidateOrder_def Let_def)
    moreover from this(2) have "valid_step x env ([VChecked p], f1) ([VDone r], f')"
      using valid_step.record_order [where i = 0 and ts = "[VChecked p]" and p = p and env = env and f = f1 and r = r and f' = f' and x = x] by simp
    ultimately show ?thesis by (meson r_into_rtranclp rtranclp.rtrancl_into_rtrancl)
  qed
qed

text \<open>
  C9.  The check does not keep repeats out when two orders of the same new number are validated at
  the same time: both checks can come before either order is recorded, and then both orders are
  processed to the end, as if the number were not taken.
\<close>

theorem repeat_race:
  assumes redis: "redis_ids_ok (e_redis env) ids" and new: "strClordid (msg (gw f) p) \<notin> ids (redis (gw f))"
    and same: "strClordid (msg (gw f) q) = strClordid (msg (gw f) p)"
    and rec: "valid_record x env p f = Some (r, f1)" "valid_record x env q f1 = Some (r', f2)"
  shows "(valid_step x env)\<^sup>*\<^sup>* ([VStart p, VStart q], f) ([VDone r, VDone r'], f2)"
proof -
  have c: "valid_check env p f = (False, f)" "valid_check env q f = (False, f)"
    using new same by (simp_all add: valid_check_def Check_ids [OF redis] Let_def)
  have "valid_step x env ([VStart p, VStart q], f) ([VChecked p, VStart q], f)"
    using valid_step.check [where i = 0 and ts = "[VStart p, VStart q]" and p = p and env = env and f = f and f' = f and x = x] c by simp
  moreover have "valid_step x env ([VChecked p, VStart q], f) ([VChecked p, VChecked q], f)"
    using valid_step.check [where i = 1 and ts = "[VChecked p, VStart q]" and p = q and env = env and f = f and f' = f and x = x] c by simp
  moreover have "valid_step x env ([VChecked p, VChecked q], f) ([VDone r, VChecked q], f1)"
    using valid_step.record_order [where i = 0 and ts = "[VChecked p, VChecked q]" and p = p and env = env and f = f and r = r and f' = f1 and x = x] rec by simp
  moreover have "valid_step x env ([VDone r, VChecked q], f1) ([VDone r, VDone r'], f2)"
    using valid_step.record_order [where i = 1 and ts = "[VDone r, VChecked q]" and p = q and env = env and f = f1 and r = r' and f' = f2 and x = x] rec by simp
  ultimately show ?thesis by (meson converse_rtranclp_into_rtranclp rtranclp.rtrancl_refl)
qed

text \<open>Two Shenzhen rule orders of the same number, in a pool of one thread.\<close>

definition rule_order :: OrderMessage where
  "rule_order = sale_order\<lparr>tradePolicy := TradePolicyCell_new\<lparr>ui64RuleId := 1, ptrRule_Sz := Some 0\<rparr>\<rparr>"

definition race_env :: "string set Env" where
  "race_env = \<lparr>e_loader = \<lambda>_ _. None, e_clock = 0, e_redis = id_server, e_ptime = \<lambda>_. None,
     e_hash = \<lambda>_. 0, e_random15 = ''1'', e_trade_time = [], g_Quotation_Type = AveragePrice\<rparr>"

definition race_front :: "string set Front" where
  "race_front = \<lparr>gw = \<lparr>heap = [rule_order, rule_order], tasks = Map.empty, g_uidTaskGen = 1,
       g_mtskPool_match_cancel = [TaskPriorityQueue_new], g_outMsg_buffer = OutMemoryManage_new, stock = empty_cache,
       ui64ExecID = 0, redis = {}, counter_sz = \<lparr>cnt_MatchAll = 0, cnt_MatchPart = 0\<rparr>,
       counter_sh = \<lparr>cnt_MatchAll = 0, cnt_MatchPart = 0\<rparr>\<rparr>,
     g_mapSzConns = [''X'' \<mapsto> True], confirm_sz = 0, confirm_sh = 0, fix_rejects = [], g_inMsg_buffer = [],
     g_mtskPool_valid = [], valid_tasks = Map.empty\<rparr>"

lemma record_rule_order:
  assumes r: "ui64RuleId (tradePolicy (msg s p)) \<noteq> 0" "ptrRule_Sh (tradePolicy (msg s p)) = None"
      "ptrRule_Sz (tradePolicy (msg s p)) \<noteq> None"
    and p: "p < length (heap s)" and q: "g_mtskPool_match_cancel s = [q]" "m_uiTaskNums q < MAX_QUEUE_SIZE"
  obtains s' q' where "RecordInOrderToDb_Match env p s = Some (0, s')" and "\<And>x. x < length (heap s) \<Longrightarrow> msg s' x = msg s x"
    and "length (heap s) \<le> length (heap s')" and "g_mtskPool_match_cancel s' = [q']" and "m_uiTaskNums q' = m_uiTaskNums q + 1"
proof -
  define s1 where "s1 = (push_copy p id s)\<lparr>redis := snd (RecordOrderInRedis (e_redis env) (msg s p) (redis (push_copy p id s)))\<rparr>"
  have s1: "msg s1 p = msg s p" "g_mtskPool_match_cancel s1 = [q]" "heap s1 = heap s @ [OrderMessage_copy (msg s p)]"
    using p q by (simp_all add: s1_def nth_append)
  have k: "key_thread i (Suc 0) = 0" for i by (simp add: key_thread_def)
  let ?t = "SetOrderMsg env Task_SzRule_Match (g_uidTaskGen s1) (OrderMessage_copy (msg s p))"
  let ?q = "q\<lparr>m_p3_unorder_que := m_p3_unorder_que q @ [?t], m_uiTaskNums := m_uiTaskNums q + 1\<rparr>"
  have t: "m_Prio ?t = Level_Match_Order" "\<not> m_bIsMatchOrdered ?t" by (simp_all add: SetOrderMsg_def)
  have "\<not> MAX_QUEUE_SIZE \<le> m_uiTaskNums q" using q(2) by simp
  then have "TaskPriorityQueue_AddTask (Some ?t) False q = Some (0, Some (m_uiTaskNums q + 1), ?q)"
    using t(1) by (simp add: TaskPriorityQueue_AddTask_def Let_def)
  then have "PriorityThreadPool_AssignTaskWithKey ?t [q] = Some (0, [?q])"
    using t(2) by (simp add: PriorityThreadPool_AssignTaskWithKey_def PriorityThread_AddTask_def k)
  moreover have "match_task_kind (msg s p) = Some Task_SzRule_Match" using r by (auto simp: match_task_kind_def)
  ultimately have "GenTask_Match env p s1 = Some (0, s1\<lparr>g_uidTaskGen := g_uidTaskGen s1 + 1,
      heap := heap s1 @ [OrderMessage_copy (msg s p)], tasks := (tasks s1)(g_uidTaskGen s1 \<mapsto> (Task_SzRule_Match, length (heap s1))),
      g_mtskPool_match_cancel := [?q]\<rparr>)"
    unfolding GenTask_Match_def s1(1) by (simp add: Let_def s1(2))
  then obtain s' where s': "GenTask_Match env p s1 = Some (0, s')" "heap s' = heap s1 @ [OrderMessage_copy (msg s p)]"
    "g_mtskPool_match_cancel s' = [?q]" by simp
  have "RecordInOrderToDb_Match env p s = map_option (\<lambda>(r, s3). (if r < 0 then -1 else r, s3)) (GenTask_Match env p s1)"
    unfolding RecordInOrderToDb_Match_def Let_def s1_def using r(1) by simp
  then show thesis using s' s1(3) by (intro that [of s' ?q]) (simp_all add: nth_append)
qed

lemma valid_record_rule:
  assumes "strTrade_market (msg (gw f) p) = TRADE_MARKET_SZ" "g_mapSzConns f (strSenderCompID (msg (gw f) p)) = Some True"
    and r: "ui64RuleId (tradePolicy (msg (gw f) p)) \<noteq> 0" "ptrRule_Sh (tradePolicy (msg (gw f) p)) = None"
      "ptrRule_Sz (tradePolicy (msg (gw f) p)) \<noteq> None"
    and p: "p < length (heap (gw f))" and q: "g_mtskPool_match_cancel (gw f) = [q]" "m_uiTaskNums q < MAX_QUEUE_SIZE"
  obtains s' q' where "valid_record x env p f = Some (0, Inc_Confirm_sz (f\<lparr>gw := s'\<rparr>))"
    and "\<And>x. x < length (heap (gw f)) \<Longrightarrow> msg s' x = msg (gw f) x" and "length (heap (gw f)) \<le> length (heap s')"
    and "g_mtskPool_match_cancel s' = [q']" and "m_uiTaskNums q' = m_uiTaskNums q + 1"
proof -
  obtain s' q' where s': "RecordInOrderToDb_Match env p (gw f) = Some (0, s')"
    "\<And>x. x < length (heap (gw f)) \<Longrightarrow> msg s' x = msg (gw f) x" "length (heap (gw f)) \<le> length (heap s')"
    "g_mtskPool_match_cancel s' = [q']" "m_uiTaskNums q' = m_uiTaskNums q + 1"
    by (rule record_rule_order [OF r p q]) blast
  then show thesis using assms(1-5) by (intro that) (simp_all add: valid_record_def SzConn_Valide_Record_Order_def Let_def)
qed

lemma rule_order_sel [simp]:
  "strTrade_market rule_order = TRADE_MARKET_SZ" "strSenderCompID rule_order = ''X''"
  "ui64RuleId (tradePolicy rule_order) = 1" "ptrRule_Sh (tradePolicy rule_order) = None"
  "ptrRule_Sz (tradePolicy rule_order) = Some 0"
  by (simp_all add: rule_order_def TradePolicyCell_new_def)

lemma repeat_race_witness:
  "\<exists>f1 f2. (valid_step sample_etf_env race_env)\<^sup>*\<^sup>* ([VStart 0, VStart 1], race_front) ([VDone 0, VDone 0], f2) \<and>
     valid_record sample_etf_env race_env 0 race_front = Some (0, f1)"
proof -
  have q: "m_uiTaskNums TaskPriorityQueue_new = 0" by (simp add: TaskPriorityQueue_new_def)
  obtain s1 q1 where s1: "valid_record sample_etf_env race_env 0 race_front = Some (0, Inc_Confirm_sz (race_front\<lparr>gw := s1\<rparr>))"
    "\<And>x. x < length (heap (gw race_front)) \<Longrightarrow> msg s1 x = msg (gw race_front) x" "length (heap (gw race_front)) \<le> length (heap s1)"
    "g_mtskPool_match_cancel s1 = [q1]" "m_uiTaskNums q1 = m_uiTaskNums TaskPriorityQueue_new + 1"
    by (rule valid_record_rule [of race_front 0 TaskPriorityQueue_new sample_etf_env race_env])
      (simp_all add: race_front_def q MAX_QUEUE_SIZE_def)
  define f1 where "f1 = Inc_Confirm_sz (race_front\<lparr>gw := s1\<rparr>)"
  have g: "msg (gw f1) 1 = rule_order" "1 < length (heap (gw f1))" "g_mtskPool_match_cancel (gw f1) = [q1]"
    "m_uiTaskNums q1 < MAX_QUEUE_SIZE" "g_mapSzConns f1 ''X'' = Some True"
    using s1(2) [of 1] s1(3-5) by (simp_all add: f1_def Inc_Confirm_sz_def race_front_def q MAX_QUEUE_SIZE_def)
  obtain f2 where f: "valid_record sample_etf_env race_env 1 f1 = Some (0, f2)"
    by (rule valid_record_rule [of f1 1 q1 sample_etf_env race_env]) (simp_all add: g [simplified])
  have "redis_ids_ok (e_redis race_env) (\<lambda>r. r)" using id_server_ok by (simp add: race_env_def)
  from repeat_race [OF this _ _ s1(1) [folded f1_def] f]
  have "(valid_step sample_etf_env race_env)\<^sup>*\<^sup>* ([VStart 0, VStart 1], race_front) ([VDone 0, VDone 0], f2)"
    by (simp add: race_front_def)
  then show ?thesis using s1(1) by blast
qed

end
