(* ===== verification/OrderAcquire.thy ===== *)
theory OrderAcquire
  imports MatchRule OrderEntry
begin

text \<open>
  How orders enter the gateway: \<open>simutgw/stgw_fix_acceptor/SZ_STEP_OrderHelper.cpp\<close> and
  \<open>StgwMsgHelper.cpp\<close> turn a FIX message of Shenzhen into an order,
  \<open>simutgw/mkt_interface/ShDbfOrderHelper.cpp\<close>, \<open>ShConn_DbfOrder.cpp\<close> and
  \<open>simutgw/work_manage/Proc_ShConn_Db_Declare.cpp\<close> the rows of a table of Shanghai; both look up the
  rule and the trading policy of the order and put it into the buffer of received orders.  Also the
  connections of both markets (\<open>SzConnection_define.h\<close>, \<open>ShConnection_define.h\<close>).
\<close>

section \<open>Connections\<close>

record SzConnection =
  m_bLogOn :: bool
  m_bReportSyn :: bool
  m_ui64ReportIndex :: u64
  m_ui64QueLookUpTimes :: u64
  m_strSenderID :: string
  m_strTargetID :: string
  m_ptrmapPartitions :: "(int, u64) omap"

definition SzConnection_new :: SzConnection where
  "SzConnection_new = \<lparr>m_bLogOn = False, m_bReportSyn = False, m_ui64ReportIndex = 0, m_ui64QueLookUpTimes = 0,
     m_strSenderID = [], m_strTargetID = [], m_ptrmapPartitions = []\<rparr>"

definition LogOn :: "SzConnection \<Rightarrow> SzConnection" where
  "LogOn c = c\<lparr>m_bLogOn := True\<rparr>"

definition LogOut :: "SzConnection \<Rightarrow> SzConnection" where
  "LogOut c = c\<lparr>m_bLogOn := False, m_bReportSyn := False, m_ui64QueLookUpTimes := 0\<rparr>"

definition SetRptIdx :: "u64 \<Rightarrow> SzConnection \<Rightarrow> SzConnection" where
  "SetRptIdx n c = c\<lparr>m_ui64ReportIndex := n, m_bReportSyn := True\<rparr>"

definition GetRptIdex :: "SzConnection \<Rightarrow> u64 \<times> SzConnection" where
  "GetRptIdex c = (m_ui64ReportIndex c, c\<lparr>m_ui64ReportIndex := m_ui64ReportIndex c + 1\<rparr>)"

record ShConnection =
  m_ui64Rec_Num :: u64
  m_ui64Teordernum :: u64
  m_ui64Cjbh :: u64
  m_strConnection :: string

definition ShConnection_new :: ShConnection where
  "ShConnection_new = \<lparr>m_ui64Rec_Num = 0, m_ui64Teordernum = 0, m_ui64Cjbh = 0, m_strConnection = []\<rparr>"

definition SetRecNum :: "u64 \<Rightarrow> ShConnection \<Rightarrow> ShConnection" where
  "SetRecNum n c = c\<lparr>m_ui64Rec_Num := n\<rparr>"

definition IncRecNum :: "ShConnection \<Rightarrow> u64 \<times> ShConnection" where
  "IncRecNum c = (m_ui64Rec_Num c + 1, c\<lparr>m_ui64Rec_Num := m_ui64Rec_Num c + 1\<rparr>)"

definition GetTeordNum :: "ShConnection \<Rightarrow> u64 \<times> ShConnection" where
  "GetTeordNum c = (m_ui64Teordernum c, c\<lparr>m_ui64Teordernum := m_ui64Teordernum c + 1\<rparr>)"

definition SetCjbh :: "u64 \<Rightarrow> ShConnection \<Rightarrow> ShConnection" where
  "SetCjbh n c = c\<lparr>m_ui64Cjbh := n\<rparr>"

definition IncCjbh :: "ShConnection \<Rightarrow> u64 \<times> ShConnection" where
  "IncCjbh c = (m_ui64Cjbh c + 1, c\<lparr>m_ui64Cjbh := m_ui64Cjbh c + 1\<rparr>)"

section \<open>Environment and state\<close>

text \<open>
  What acquisition reads: the libraries, the configuration, the global trading policy, the policies
  and the rules, one reading of the clock, and the table of Shanghai as the query returns it
  (\<open>None\<close>: it failed); the connection of a session can be refused.
\<close>

record acq_env =
  a_fix :: fix_lib
  a_rules_lib :: rule_lib
  g_WebMode :: bool
  g_mapSzConn_webConfig :: "(string, Connection_webConfig) omap"
  g_mapShConn_webConfig :: "(string, Connection_webConfig) omap"
  g_global_policy :: policy
  g_tradePolicy :: TradePolicyManage
  g_matchRule :: MatchRules
  a_now :: int
  a_oper_time :: string
  a_connect :: "string \<Rightarrow> bool"
  a_query :: "string \<Rightarrow> string \<Rightarrow> (string \<Rightarrow> string) list option"
  g_strSH_Ordwth_TableName :: string
  g_strSH_Ordwth2_TableName :: string
  g_strSH_Cjhb_TableName :: string

record 'r Acq =
  front :: "'r Front"
  sz_conns :: "(string, SzConnection) omap"
  sh_conns :: "(string, ShConnection) omap"
  executed :: "(string \<times> string) list"
  received_sz :: u64
  received_sh :: u64
  link_received :: "string \<Rightarrow> u64"

definition Inc_Link_Receive :: "string \<Rightarrow> 'r Acq \<Rightarrow> 'r Acq" where
  "Inc_Link_Receive c s = s\<lparr>link_received := (link_received s)(c := link_received s c + 1)\<rparr>"

text \<open>A new order is an object of the heap.\<close>

definition new_order :: "OrderMessage \<Rightarrow> 'r Gw \<Rightarrow> msgref \<times> 'r Gw" where
  "new_order o1 s = (length (heap s), s\<lparr>heap := heap s @ [o1]\<rparr>)"

section \<open>The rule of an order\<close>

definition GetOrderMatchRule :: "acq_env \<Rightarrow> (u64, u64) omap \<Rightarrow> OrderMessage \<Rightarrow> int \<times> OrderMessage" where
  "GetOrderMatchRule a links o1 =
     (if strTrade_market o1 = TRADE_MARKET_SH then
        (case GetShRule (a_rules_lib a) (map_of (jsOrder o1)) links (g_matchRule a) of
           (iRes, Some (i, r)) \<Rightarrow>
             if iRes = 0 then (0, o1\<lparr>tradePolicy := (tradePolicy o1)\<lparr>ui64RuleId := i, ptrRule_Sh := Some r\<rparr>\<rparr>)
             else (-1, o1)
         | (iRes, None) \<Rightarrow> (-1, o1))
      else if strTrade_market o1 = TRADE_MARKET_SZ then
        (case GetSzRule (a_rules_lib a) (GetStringField (a_fix a) (szfixMsg o1)) links (g_matchRule a) of
           (iRes, Some (i, r)) \<Rightarrow>
             if iRes = 0 then (0, o1\<lparr>tradePolicy := (tradePolicy o1)\<lparr>ui64RuleId := i, ptrRule_Sz := Some r\<rparr>\<rparr>)
             else (-1, o1)
         | (iRes, None) \<Rightarrow> (-1, o1))
      else (-1, o1))"

text \<open>The policy looked up for an order, written into it.\<close>

definition with_policy :: "policy \<Rightarrow> OrderMessage \<Rightarrow> OrderMessage" where
  "with_policy p o1 = o1\<lparr>tradePolicy := TradePolicyCell_Set p (tradePolicy o1)\<rparr>"

section \<open>Orders of Shenzhen\<close>

text \<open>
  \<open>NewOrder2Struct\<close>, in three parts; \<open>None\<close> is the return of -1, after which the order is dropped.
  First the session, the parties, the identity and the amounts.
\<close>

definition step_identity :: "acq_env \<Rightarrow> FixMessage \<Rightarrow> OrderMessage \<Rightarrow> OrderMessage option" where
  "step_identity a m o1 =
     (let lib = a_fix a; hd1 = fix_header m; bd = fix_body m; st = stepFields o1;
          (iParties, seat, account, branch) =
            GetNopartyIds lib bd (strSecurity_seat st, strAccountId o1, strMarket_branchid o1) in
      Option.bind (if isSetField bd (fld lib ''BodyLength'') then getField hd1 (fld lib ''BodyLength'')
                   else Some (strBodyLength st)) (\<lambda>bodylen.
      let qty = field_or lib bd ''OrderQty'' (strOrderqty_origin o1);
          (iQty, nQty) = String2UInt64_strtoui64 qty;
          price = field_or lib bd ''Price'' (strOrderPrice o1);
          (iPrice, nPrice) = String2UInt64MoneyInLi_strtoui64 price in
      if iQty \<noteq> 0 then None
      else if iPrice \<noteq> 0 then None
      else Some (o1\<lparr>tRcvTime := a_now a, strTrade_market := TRADE_MARKET_SZ, strSessionId := fix_SessionID m,
             strAccountId := account, strMarket_branchid := branch,
             stepFields := st\<lparr>strSecurity_seat := seat, strBeginString := fix_BeginString m,
               strBodyLength := bodylen,
               strCheckSum := field_or lib (fix_trailer m) ''CheckSum'' (strCheckSum st),
               strSecurityIDSource := field_or lib bd ''SecurityIDSource'' (strSecurityIDSource st),
               strMsgSeqNum := field_or lib hd1 ''MsgSeqNum'' (strMsgSeqNum st),
               strPossDupFlag := field_or lib bd ''PossDupFlag'' (strPossDupFlag st)\<rparr>,
             strClordid := field_or lib bd ''ClOrdID'' (strClordid o1),
             strMsgType := field_or lib hd1 ''MsgType'' (strMsgType o1),
             strOrderqty_origin := qty, ui64Orderqty_origin := nQty, ui64LeavesQty := nQty, strLeavesQty := qty,
             strOrdType := field_or lib bd ''OrdType'' (strOrdType o1),
             ui64mOrderPrice := nPrice, strOrderPrice := itos nPrice\<rparr>)))"

text \<open>Then the other fields; the two ids of the header have to be there.\<close>

definition cash_text :: "fix_lib \<Rightarrow> FieldMap \<Rightarrow> string \<Rightarrow> string" where
  "cash_text lib bd x = (case getField bd (fld lib ''CashOrderQty'') of
     None \<Rightarrow> x | Some v \<Rightarrow> itos (snd (String2UInt64MoneyInLi_strtoui64 v)))"

definition step_fields :: "acq_env \<Rightarrow> FixMessage \<Rightarrow> OrderMessage \<Rightarrow> OrderMessage option" where
  "step_fields a m o1 =
     (let lib = a_fix a; hd1 = fix_header m; bd = fix_body m; st = stepFields o1 in
      Option.bind (getField hd1 (fld lib ''SenderCompID'')) (\<lambda>sender.
      Option.bind (getField hd1 (fld lib ''TargetCompID'')) (\<lambda>target.
      Some (o1\<lparr>strStockID := field_or lib bd ''SecurityID'' (strStockID o1),
        strSenderCompID := sender, strTargetCompID := target,
        strSide := field_or lib bd ''Side'' (strSide o1),
        strTimeInForce := field_or lib bd ''TimeInForce'' (strTimeInForce o1),
        strMinQty := field_or lib bd ''MinQty'' (strMinQty o1),
        strCashorderqty := cash_text lib bd (strCashorderqty o1),
        strCashMargin := field_or lib bd ''CashMargin'' (strCashMargin o1),
        strMaxPriceLevels := field_or lib bd ''MaxPriceLevels'' (strMaxPriceLevels o1),
        strApplID := field_or lib bd ''ApplID'' (strApplID o1),
        strOrigClordid := field_or lib bd ''OrigClOrdID'' (strOrigClordid o1),
        stepFields := st\<lparr>strSendingTime := field_or lib bd ''SendingTime'' (strSendingTime st),
          strText := field_or lib bd ''Text'' (strText st),
          strTransactTime := field_or lib bd ''TransactTime'' (strTransactTime st),
          strPositionEffect := field_or lib bd ''PositionEffect'' (strPositionEffect st),
          strStoppx := field_or lib bd ''StopPx'' (strStoppx st),
          strOrigSendingTime := field_or lib bd ''OrigSendingTime'' (strOrigSendingTime st),
          strCoveredOrUncovered := field_or lib bd ''CoveredOrUncovered'' (strCoveredOrUncovered st),
          strOwnerType := field_or lib bd ''OwnerType'' (strOwnerType st),
          strOrderRestrictions := field_or lib bd ''OrderRestrictions'' (strOrderRestrictions st),
          strConfirmID := field_or lib bd ''ConfirmID'' (strConfirmID st),
          strOper_time := a_oper_time a\<rparr>\<rparr>))))"

text \<open>At last the rule, when the administrators manage the gateway, and the policy.\<close>

definition step_policy :: "acq_env \<Rightarrow> FixMessage \<Rightarrow> OrderMessage \<Rightarrow> OrderMessage option" where
  "step_policy a m o1 =
     (let (name, settle, o2) =
        (if g_WebMode a then
           (case map_of (g_mapSzConn_webConfig a) (strSenderCompID o1) of
              None \<Rightarrow> ([], [], snd (GetOrderMatchRule a (mapLinkRules (tradePolicy o1)) (o1\<lparr>szfixMsg := m\<rparr>)))
            | Some c \<Rightarrow>
                let links = omap_insert_range (web_mapLinkRules c) (mapLinkRules (tradePolicy o1)) in
                (strWebLinkid c, web_strSettleGroupName c,
                 snd (GetOrderMatchRule a links
                   (o1\<lparr>tradePolicy := (tradePolicy o1)\<lparr>mapLinkRules := links\<rparr>, szfixMsg := m\<rparr>))))
         else ([], [], o1));
        o3 = with_policy (snd (Get_Sz_seat (g_global_policy a) name (strSecurity_seat (stepFields o2)) (g_tradePolicy a))) o2;
        o4 = o3\<lparr>tradePolicy := (tradePolicy o3)\<lparr>strSettleGroupName := settle\<rparr>\<rparr>
      in if ui64RuleId (tradePolicy o4) = 0
         then (case CheckOrder_TradeType o4 of (iRes, o5) \<Rightarrow> if iRes \<noteq> 0 then None else Some o5)
         else Some o4)"

definition NewOrder2Struct :: "acq_env \<Rightarrow> FixMessage \<Rightarrow> OrderMessage \<Rightarrow> OrderMessage option" where
  "NewOrder2Struct a m o1 =
     Option.bind (step_identity a m o1) (\<lambda>o2. Option.bind (step_fields a m o2) (step_policy a m))"

section \<open>Messages of a FIX session\<close>

definition sz_conn :: "'r Acq \<Rightarrow> string \<Rightarrow> SzConnection" where
  "sz_conn s c = (case map_of (sz_conns s) c of None \<Rightarrow> SzConnection_new | Some x \<Rightarrow> x)"

definition put_sz_conn :: "string \<Rightarrow> SzConnection \<Rightarrow> 'r Acq \<Rightarrow> 'r Acq" where
  "put_sz_conn c x s = s\<lparr>sz_conns := omap_put c x (sz_conns s)\<rparr>"

text \<open>A session logs on and off; \<open>sender\<close> and \<open>target\<close> are those of the client.\<close>

definition ProcLogOn :: "string \<Rightarrow> string \<Rightarrow> 'r Acq \<Rightarrow> int \<times> 'r Acq" where
  "ProcLogOn sender target s =
     (let c = LogOn (sz_conn s sender) in
      (0, put_sz_conn sender (c\<lparr>m_strSenderID := sender, m_strTargetID := target,
            m_ptrmapPartitions := omap_put 2 0 (omap_put 1 0 (m_ptrmapPartitions c))\<rparr>) s))"

definition ProcLogOut :: "string \<Rightarrow> 'r Acq \<Rightarrow> int \<times> 'r Acq" where
  "ProcLogOut sender s =
     (case map_of (sz_conns s) sender of
        None \<Rightarrow> (-1, s)
      | Some c \<Rightarrow> (0, put_sz_conn sender (LogOut c) s))"

text \<open>
  \<open>ReportSynchronization\<close>: the index from which the client wants its reports.  In version 1.10 of
  the protocol it is in the groups of partitions, the last one wins.
\<close>

definition ReportSynchronization :: "fix_lib \<Rightarrow> bool \<Rightarrow> FixMessage \<Rightarrow> 'r Acq \<Rightarrow> int option \<times> 'r Acq" where
  "ReportSynchronization lib ver110 m s =
     (let groups = getGroups (fix_body m) (fld lib ''NoPartitions'');
          index = (if ver110
            then (if groups = [] then None
                  else Some (fold (\<lambda>g x. if g = FieldMap_new then x else field_or lib g ''ReportIndex'' x) groups []))
            else getField (fix_body m) (fld lib ''ReportIndex'')) in
      case index of
        None \<Rightarrow> (Some (-1), s)
      | Some strReportIndex \<Rightarrow>
          (case String2UInt64_strtoui64 strReportIndex of (iRes, n) \<Rightarrow>
             if iRes < 0 then (Some (-1), s)
             else if \<not> isSetField (fix_header m) (fld lib ''TargetCompID'') then (Some (-1), s)
             else (case getField (fix_header m) (fld lib ''SenderCompID'') of
                 None \<Rightarrow> (None, s)
               | Some sender \<Rightarrow>
                   (case map_of (sz_conns s) sender of
                      None \<Rightarrow> (Some 0, s)
                    | Some c \<Rightarrow> (Some 0, put_sz_conn sender (SetRptIdx n c) s)))))"

text \<open>
  The dispatch of \<open>ProcAppMsg\<close> by message type; the types are the library's constants.  \<open>None\<close> is an exception of the
  library that leaves the call.
\<close>

definition MsgType_NewOrderSingle :: string where "MsgType_NewOrderSingle = ''D''"
definition MsgType_OrderCancelRequest :: string where "MsgType_OrderCancelRequest = ''F''"

definition ProcAppMsg_dispatch ::
  "acq_env \<Rightarrow> string \<Rightarrow> bool \<Rightarrow> string \<Rightarrow> FixMessage \<Rightarrow> 'r Acq \<Rightarrow> int option \<times> 'r Acq" where
  "ProcAppMsg_dispatch a sync_type ver110 client m s =
     (case getField (fix_header m) (fld (a_fix a) ''MsgType'') of
        None \<Rightarrow> (Some (-1), s)
      | Some strMsgType1 \<Rightarrow>
          if strMsgType1 = sync_type then
            (case ReportSynchronization (a_fix a) ver110 m s of
               (None, s1) \<Rightarrow> (None, s1) | (Some n, s1) \<Rightarrow> (Some 0, s1))
          else if strMsgType1 = MsgType_NewOrderSingle \<or> strMsgType1 = MsgType_OrderCancelRequest then
            (case NewOrder2Struct a m OrderMessage_new of
               None \<Rightarrow> (Some (-1), s)
             | Some o1 \<Rightarrow>
                 (case new_order o1 (gw (front s)) of (p, g) \<Rightarrow>
                    (Some 0, Inc_Link_Receive client
                       (s\<lparr>front := (front s)\<lparr>gw := g, g_inMsg_buffer := snd (MemoryStoreCell_PushBack p (g_inMsg_buffer (front s)))\<rparr>,
                          received_sz := received_sz s + 1\<rparr>))))
          else (Some (-1), s))"

section \<open>Orders of Shanghai\<close>

definition sh_conn :: "'r Acq \<Rightarrow> string \<Rightarrow> ShConnection" where
  "sh_conn s c = (case map_of (sh_conns s) c of None \<Rightarrow> ShConnection_new | Some x \<Rightarrow> x)"

definition put_sh_conn :: "string \<Rightarrow> ShConnection \<Rightarrow> 'r Acq \<Rightarrow> 'r Acq" where
  "put_sh_conn c x s = s\<lparr>sh_conns := omap_put c x (sh_conns s)\<rparr>"

definition sh_connected :: "acq_env \<Rightarrow> string \<Rightarrow> 'r Acq \<Rightarrow> bool" where
  "sh_connected a c s = a_connect a (m_strConnection (sh_conn s c))"

text \<open>The columns of a row, in the order they are added to the JSON object.\<close>

definition sh_columns :: "string list" where
  "sh_columns = [''rec_num'', ''date'', ''time'', ''reff'', ''acc'', ''stock'', ''bs'', ''price'', ''qty'',
     ''owflag'', ''ordrec'', ''firmid'', ''branchid'']"

definition sh_side :: "string \<Rightarrow> string" where
  "sh_side s = (if s = ''b'' then ''B'' else if s = ''s'' then ''S'' else s)"

text \<open>
  A row as an order; the policy is copied, and that copy leaves the rule links out.  A cancellation
  exchanges the two references.
\<close>

definition sh_order :: "acq_env \<Rightarrow> string \<Rightarrow> TradePolicyCell \<Rightarrow> (string \<Rightarrow> string) \<Rightarrow> OrderMessage" where
  "sh_order a strSessionid in_policy row =
     (let o1 = OrderMessage_new;
          nPrice = snd (String2UInt64MoneyInLi_strtoui64 (row ''price''));
          cancel = (row ''owflag'' = ''WTH'') in
      o1\<lparr>tradePolicy := TradePolicyCell_copy (tradePolicy o1) in_policy,
         tRcvTime := a_now a,
         jsOrder := map (\<lambda>c. (c, c_str (row c))) sh_columns,
         strClordid := (if cancel then row ''ordrec'' else row ''reff''),
         strAccountId := row ''acc'', strStockID := row ''stock'', strSide := sh_side (row ''bs''),
         ui64mOrderPrice := nPrice, strOrderPrice := itos nPrice,
         strOrderqty_origin := row ''qty'', ui64Orderqty_origin := snd (String2UInt64_strtoui64 (row ''qty'')),
         strLeavesQty := row ''qty'', strOrdType := row ''owflag'',
         strOrigClordid := (if cancel then row ''reff'' else row ''ordrec''),
         strMarket_branchid := row ''branchid'', strTrade_market := TRADE_MARKET_SH,
         strSessionId := strSessionid, strMsgType := (if cancel then ''F'' else ''D''),
         stepFields := (stepFields o1)\<lparr>strMsgSeqNum := row ''rec_num'', strConfirmID := row ''firmid'',
           strTransactTime := row ''date'' @ ''-'' @ row ''time'' @ ''.000'', strOper_time := a_oper_time a\<rparr>\<rparr>)"

definition SetOrdwthStatus :: "acq_env \<Rightarrow> string \<Rightarrow> string \<Rightarrow> 'r Acq \<Rightarrow> int \<times> 'r Acq" where
  "SetOrdwthStatus a c strRec_num s =
     (if \<not> sh_connected a c s then (-1, s)
      else (0, s\<lparr>executed := executed s @ [(c, ''update '' @ g_strSH_Ordwth_TableName a @
        '' set status='' @ sq @ ''P'' @ sq @ '' where rec_num='' @ strRec_num)]\<rparr>))"

fun comma_list :: "string list \<Rightarrow> string" where
  "comma_list [] = []"
| "comma_list [x] = x"
| "comma_list (x # xs) = x @ '','' @ comma_list xs"

definition Set_MutilOrd_Status :: "acq_env \<Rightarrow> string \<Rightarrow> string list \<Rightarrow> 'r Acq \<Rightarrow> int \<times> 'r Acq" where
  "Set_MutilOrd_Status a c recs s =
     (if recs = [] then (0, s)
      else if \<not> sh_connected a c s then (-1, s)
      else (0, s\<lparr>executed := executed s @ [(c, ''update '' @ g_strSH_Ordwth_TableName a @
        '' set status='' @ sq @ ''P'' @ sq @ '' where rec_num in ('' @ comma_list recs @ '')'')]\<rparr>))"

text \<open>One row of \<open>SHOrderToFix\<close>: the order goes to the vector, or as an error to the outgoing buffer.\<close>

definition sh_row :: "acq_env \<Rightarrow> string \<Rightarrow> TradePolicyCell \<Rightarrow> (string \<Rightarrow> string) \<Rightarrow> 'r Acq \<Rightarrow> msgref option \<times> 'r Acq" where
  "sh_row a c pol row s =
     (let o1 = sh_order a c pol row;
          s1 = (if m_ui64Rec_Num (sh_conn s c) = 0
                then put_sh_conn c (SetRecNum (snd (String2UInt64_strtoui64 (row ''rec_num'')) + 1) (sh_conn s c)) s else s);
          o2 = (if g_WebMode a then snd (GetOrderMatchRule a (mapLinkRules (tradePolicy o1)) o1) else o1);
          (iRes, o3) = (if ui64RuleId (tradePolicy o2) = 0 then CheckOrder_TradeType o2 else (0, o2)) in
      if iRes \<noteq> 0 then
        (let s2 = snd (SetOrdwthStatus a c (strMsgSeqNum (stepFields o3)) s1);
             (p, g) = new_order (o3\<lparr>enMatchType := ErrorMatch, bDataError := True\<rparr>) (gw (front s2))
         in (None, s2\<lparr>front := (front s2)\<lparr>gw := snd (PushBack p g)\<rparr>\<rparr>))
      else
        (let (p, g) = new_order o3 (gw (front s1)) in (Some p, s1\<lparr>front := (front s1)\<lparr>gw := g\<rparr>\<rparr>)))"

fun sh_rows ::
  "acq_env \<Rightarrow> string \<Rightarrow> TradePolicyCell \<Rightarrow> (string \<Rightarrow> string) list \<Rightarrow> 'r Acq \<Rightarrow> msgref list \<times> 'r Acq" where
  "sh_rows a c pol [] s = ([], s)"
| "sh_rows a c pol (row # rows) s =
     (case sh_row a c pol row s of (r, s1) \<Rightarrow>
        (case sh_rows a c pol rows s1 of (ps, s2) \<Rightarrow> ((case r of None \<Rightarrow> ps | Some p \<Rightarrow> p # ps), s2)))"

definition SHOrderToFix ::
  "acq_env \<Rightarrow> string \<Rightarrow> TradePolicyCell \<Rightarrow> (string \<Rightarrow> string) list \<Rightarrow> msgref list \<Rightarrow> 'r Acq \<Rightarrow> int \<times> msgref list \<times> 'r Acq" where
  "SHOrderToFix a c pol rows vec s =
     (case sh_rows a c pol rows s of (ps, s1) \<Rightarrow>
        (0, vec @ ps, snd (Set_MutilOrd_Status a c (map (\<lambda>row. row ''rec_num'') rows) s1)))"

definition Validate_SH_Order :: "OrderMessage \<Rightarrow> int \<times> OrderMessage" where
  "Validate_SH_Order o1 =
     (let bad = o1\<lparr>bDataError := True, enMatchType := ErrorMatch, strErrorCode := ''269''\<rparr> in
      if strAccountId o1 = ''799988'' \<and> strConfirmID (stepFields o1) = ''939988'' then (-1, bad)
      else if strStockID o1 = ''799999'' \<and> ui64mOrderPrice o1 = 1 \<and> ui64Orderqty_origin o1 = 1 then (-1, bad)
      else if strStockID o1 = [] \<and> strAccountId o1 = [] \<and> strClordid o1 = [] then (-1, bad)
      else (0, o1))"

text \<open>The numbers a connection goes on from.  A query that returns no row gives 0.\<close>

definition last_number :: "string \<Rightarrow> (string \<Rightarrow> string) list \<Rightarrow> u64" where
  "last_number col rows = snd (String2UInt64_strtoui64 (if rows = [] then [] else (last rows) col))"

definition GetSHCjbh :: "acq_env \<Rightarrow> string \<Rightarrow> 'r Acq \<Rightarrow> int \<times> 'r Acq" where
  "GetSHCjbh a c s =
     (if \<not> sh_connected a c s then (-1, s)
      else (case a_query a (m_strConnection (sh_conn s c))
              (''SELECT TOP 1 cjbh FROM '' @ g_strSH_Cjhb_TableName a @ '' ORDER BY cjbh DESC'') of
          None \<Rightarrow> (-1, s)
        | Some rows \<Rightarrow> (0, put_sh_conn c (SetCjbh (last_number ''cjbh'' rows) (sh_conn s c)) s)))"

definition GetSHRec_Num :: "acq_env \<Rightarrow> string \<Rightarrow> 'r Acq \<Rightarrow> int \<times> 'r Acq" where
  "GetSHRec_Num a c s =
     (if \<not> sh_connected a c s then (-1, s)
      else (case a_query a (m_strConnection (sh_conn s c))
              (''SELECT TOP 1 rec_num FROM '' @ g_strSH_Ordwth2_TableName a @ '' ORDER BY rec_num DESC'') of
          None \<Rightarrow> (-1, s)
        | Some rows \<Rightarrow> (0, put_sh_conn c (SetRecNum (last_number ''rec_num'' rows) (sh_conn s c)) s)))"

text \<open>
  The policy the orders of a connection get: the settle group and the links come from the
  configuration, the five values from the policy of the connection's own name.
\<close>

definition sh_policy :: "acq_env \<Rightarrow> string \<Rightarrow> TradePolicyCell" where
  "sh_policy a c =
     (let conf = (if g_WebMode a then map_of (g_mapShConn_webConfig a) c else None);
          p1 = (case conf of None \<Rightarrow> TradePolicyCell_new
                | Some w \<Rightarrow> TradePolicyCell_new\<lparr>mapLinkRules := omap_insert_range (web_mapLinkRules w) (mapLinkRules TradePolicyCell_new)\<rparr>);
          p2 = p1\<lparr>strSettleGroupName := (case conf of None \<Rightarrow> [] | Some w \<Rightarrow> web_strSettleGroupName w)\<rparr>
      in TradePolicyCell_Set (snd (Get_Sh (g_global_policy a) c (g_tradePolicy a))) p2)"

definition GetOneConnSHOrder :: "acq_env \<Rightarrow> string \<Rightarrow> msgref list \<Rightarrow> 'r Acq \<Rightarrow> int \<times> msgref list \<times> 'r Acq" where
  "GetOneConnSHOrder a c vec s =
     (let (r1, s1) = (if m_ui64Cjbh (sh_conn s c) = 0 then GetSHCjbh a c s else (0, s)) in
      if r1 \<noteq> 0 then (-1, vec, s1)
      else let (r2, s2) = (if m_ui64Rec_Num (sh_conn s1 c) = 0 then GetSHRec_Num a c s1 else (0, s1)) in
      if r2 \<noteq> 0 then (-1, vec, s2)
      else if \<not> sh_connected a c s2 then (-1, vec, s2)
      else (case a_query a (m_strConnection (sh_conn s2 c))
              (''select top 10000 * from '' @ g_strSH_Ordwth_TableName a @ '' where status='' @ sq @ ''R'' @ sq) of
          None \<Rightarrow> (-1, vec, s2)
        | Some rows \<Rightarrow>
            (case SHOrderToFix a c (sh_policy a c) rows vec s2 of
               (iRes, vec1, s3) \<Rightarrow> (0, vec1, (Inc_Link_Receive c ^^ length vec1) s3))))"

fun get_orders :: "acq_env \<Rightarrow> string list \<Rightarrow> msgref list \<Rightarrow> 'r Acq \<Rightarrow> msgref list \<times> 'r Acq" where
  "get_orders a [] vec s = (vec, s)"
| "get_orders a (c # cs) vec s = (case GetOneConnSHOrder a c vec s of (_, vec1, s1) \<Rightarrow> get_orders a cs vec1 s1)"

definition BatchGetSHOrder :: "acq_env \<Rightarrow> msgref list \<Rightarrow> 'r Acq \<Rightarrow> int \<times> msgref list \<times> 'r Acq" where
  "BatchGetSHOrder a vec s = (case get_orders a (map fst (sh_conns s)) vec s of (vec1, s1) \<Rightarrow> (0, vec1, s1))"

definition ProcShMessage :: "acq_env \<Rightarrow> 'r Acq \<Rightarrow> int \<times> 'r Acq" where
  "ProcShMessage a s =
     (case BatchGetSHOrder a [] s of (iRes, vec, s1) \<Rightarrow>
        if iRes \<noteq> 0 then (-1, s1)
        else (0, fold (\<lambda>p s. s\<lparr>front := (front s)\<lparr>g_inMsg_buffer := snd (MemoryStoreCell_PushBack p (g_inMsg_buffer (front s)))\<rparr>,
                              received_sh := received_sh s + 1\<rparr>) vec s1))"

section \<open>What an acquired order is\<close>

lemma CheckOrder_TradeType_eq:
  assumes "CheckOrder_TradeType o1 = (r, o2)"
  obtains t where "o2 = o1\<lparr>iTrade_type := t\<rparr>"
proof -
  have "\<exists>t. o2 = o1\<lparr>iTrade_type := t\<rparr>"
  proof (cases "o2 = o1")
    case True
    then have "o2 = o1\<lparr>iTrade_type := iTrade_type o1\<rparr>" by simp
    then show ?thesis ..
  qed (use assms in \<open>auto simp: CheckOrder_TradeType_def Let_def split: option.splits if_splits\<close>)
  then show thesis using that by blast
qed

text \<open>The order holds an object of the rule it names.\<close>

definition holds_rule :: "'k RuleStore \<Rightarrow> u64 \<Rightarrow> nat option \<Rightarrow> bool" where
  "holds_rule s i r \<longleftrightarrow> i = 0 \<or> (\<exists>a. r = Some a \<and> a < length (rule_heap s) \<and> rule_ui64RuleId (rule_heap s ! a) = i)"

definition holds_rules :: "MatchRules \<Rightarrow> OrderMessage \<Rightarrow> bool" where
  "holds_rules m o1 \<longleftrightarrow>
     (if strTrade_market o1 = TRADE_MARKET_SH
      then holds_rule (m_shRules m) (ui64RuleId (tradePolicy o1)) (ptrRule_Sh (tradePolicy o1))
      else holds_rule (m_szRules m) (ui64RuleId (tradePolicy o1)) (ptrRule_Sz (tradePolicy o1)))"

lemma GetShRule_object:
  assumes "match_rules_wf m" "GetShRule lib order links m = (0, Some (i, a))"
  shows "a < length (rule_heap (m_shRules m)) \<and> rule_ui64RuleId (rule_heap (m_shRules m) ! a) = i"
  using assms found_rule_object [of "m_shRules m"]
  by (auto simp: GetRule_found rule_found_def find_rule_sh_find match_rules_wf_def split: option.splits)

lemma find_takeWhile: "find P (takeWhile Q xs) = Some x \<Longrightarrow> find (\<lambda>y. P y \<and> y = x) xs = Some x"
  by (induction xs) (auto split: if_splits)

lemma GetSzRule_object:
  assumes "match_rules_wf m" "GetSzRule lib order links m = (0, Some (i, a))"
  shows "a < length (rule_heap (m_szRules m)) \<and> rule_ui64RuleId (rule_heap (m_szRules m) ! a) = i"
proof -
  obtain Q where "find (\<lambda>y. Q y \<and> y = (i, a)) (m_mapRules (m_szRules m)) = Some (i, a)"
    using assms(2) find_takeWhile
    by (fastforce simp: GetRule_found rule_found_def find_rule_sz_find split: option.splits)
  then show ?thesis using assms(1) found_rule_object [of "m_szRules m"] by (auto simp: match_rules_wf_def)
qed

text \<open>Looking for a rule sets the two rule members or nothing.\<close>

lemma GetOrderMatchRule_eq:
  assumes "match_rules_wf (g_matchRule a)" "GetOrderMatchRule a links o1 = (r, o2)"
  shows "o2 = o1 \<or> (\<exists>i x. holds_rules (g_matchRule a) o2 \<and>
    (o2 = o1\<lparr>tradePolicy := (tradePolicy o1)\<lparr>ui64RuleId := i, ptrRule_Sh := Some x\<rparr>\<rparr> \<or>
     o2 = o1\<lparr>tradePolicy := (tradePolicy o1)\<lparr>ui64RuleId := i, ptrRule_Sz := Some x\<rparr>\<rparr>))"
proof (cases "o2 = o1")
  case False
  show ?thesis
  proof (cases "strTrade_market o1 = TRADE_MARKET_SH")
    case True
    then obtain i x where "GetShRule (a_rules_lib a) (map_of (jsOrder o1)) links (g_matchRule a) = (0, Some (i, x))"
      and o2: "o2 = o1\<lparr>tradePolicy := (tradePolicy o1)\<lparr>ui64RuleId := i, ptrRule_Sh := Some x\<rparr>\<rparr>"
      using assms(2) False by (auto simp: GetOrderMatchRule_def split: prod.splits option.splits if_splits)
    then have "holds_rules (g_matchRule a) o2"
      using GetShRule_object [OF assms(1)] True by (auto simp: holds_rules_def holds_rule_def)
    with o2 show ?thesis by blast
  next
    case sz: False
    then obtain i x where "GetSzRule (a_rules_lib a) (GetStringField (a_fix a) (szfixMsg o1)) links (g_matchRule a) = (0, Some (i, x))"
      and o2: "o2 = o1\<lparr>tradePolicy := (tradePolicy o1)\<lparr>ui64RuleId := i, ptrRule_Sz := Some x\<rparr>\<rparr>"
      using assms(2) False by (auto simp: GetOrderMatchRule_def split: prod.splits option.splits if_splits)
    then have "holds_rules (g_matchRule a) o2"
      using GetSzRule_object [OF assms(1)] sz by (auto simp: holds_rules_def holds_rule_def)
    with o2 show ?thesis by blast
  qed
qed simp

text \<open>The name under which the policy of an order is looked up, and its settle group.\<close>

definition web_conn :: "acq_env \<Rightarrow> string \<Rightarrow> Connection_webConfig option" where
  "web_conn a sender = (if g_WebMode a then map_of (g_mapSzConn_webConfig a) sender else None)"

definition link_name :: "acq_env \<Rightarrow> string \<Rightarrow> string" where
  "link_name a sender = (case web_conn a sender of None \<Rightarrow> [] | Some c \<Rightarrow> strWebLinkid c)"

definition settle_group :: "acq_env \<Rightarrow> string \<Rightarrow> string" where
  "settle_group a sender = (case web_conn a sender of None \<Rightarrow> [] | Some c \<Rightarrow> web_strSettleGroupName c)"

definition same_request :: "OrderMessage \<Rightarrow> OrderMessage \<Rightarrow> bool" where
  "same_request o1 o2 \<longleftrightarrow> (\<exists>tp m t. o2 = o1\<lparr>tradePolicy := tp, szfixMsg := m, iTrade_type := t\<rparr>)"

lemma same_requestI:
  "same_request o1 (o1\<lparr>tradePolicy := tp\<rparr>)" "same_request o1 (o1\<lparr>szfixMsg := m\<rparr>)"
  "same_request o1 (o1\<lparr>iTrade_type := t\<rparr>)" "same_request o1 o1"
proof -
  have "o1\<lparr>tradePolicy := tp\<rparr> = o1\<lparr>tradePolicy := tp, szfixMsg := szfixMsg o1, iTrade_type := iTrade_type o1\<rparr>"
    "o1\<lparr>szfixMsg := m\<rparr> = o1\<lparr>tradePolicy := tradePolicy o1, szfixMsg := m, iTrade_type := iTrade_type o1\<rparr>"
    "o1\<lparr>iTrade_type := t\<rparr> = o1\<lparr>tradePolicy := tradePolicy o1, szfixMsg := szfixMsg o1, iTrade_type := t\<rparr>"
    "o1 = o1\<lparr>tradePolicy := tradePolicy o1, szfixMsg := szfixMsg o1, iTrade_type := iTrade_type o1\<rparr>"
    by simp_all
  then show "same_request o1 (o1\<lparr>tradePolicy := tp\<rparr>)" "same_request o1 (o1\<lparr>szfixMsg := m\<rparr>)"
    "same_request o1 (o1\<lparr>iTrade_type := t\<rparr>)" "same_request o1 o1"
    unfolding same_request_def by blast+
qed

lemma same_request_trans [trans]: "same_request o1 o2 \<Longrightarrow> same_request o2 o3 \<Longrightarrow> same_request o1 o3"
  unfolding same_request_def by clarsimp blast

lemma same_request_sel:
  assumes "same_request o1 o2"
  shows "stepFields o2 = stepFields o1" "strSenderCompID o2 = strSenderCompID o1" "strTargetCompID o2 = strTargetCompID o1"
    "strTrade_market o2 = strTrade_market o1" "strClordid o2 = strClordid o1" "strAccountId o2 = strAccountId o1"
    "strStockID o2 = strStockID o1" "strSide o2 = strSide o1" "ui64Orderqty_origin o2 = ui64Orderqty_origin o1"
    "ui64LeavesQty o2 = ui64LeavesQty o1" "ui64mOrderPrice o2 = ui64mOrderPrice o1" "strApplID o2 = strApplID o1"
    "strMarket_branchid o2 = strMarket_branchid o1" "strMsgType o2 = strMsgType o1"
  using assms by (auto simp: same_request_def)

lemma step_policy_facts:
  assumes "step_policy a m o1 = Some o5" "match_rules_wf (g_matchRule a)"
    and "strTrade_market o1 = TRADE_MARKET_SZ" "ui64RuleId (tradePolicy o1) = 0"
  shows "same_request o1 o5 \<and> holds_rules (g_matchRule a) o5 \<and>
    cell_policy (tradePolicy o5) =
      snd (Get_Sz_seat (g_global_policy a) (link_name a (strSenderCompID o1)) (strSecurity_seat (stepFields o1)) (g_tradePolicy a)) \<and>
    strSettleGroupName (tradePolicy o5) = settle_group a (strSenderCompID o1)"
proof -
  define links where "links = (case web_conn a (strSenderCompID o1) of None \<Rightarrow> mapLinkRules (tradePolicy o1)
      | Some c \<Rightarrow> omap_insert_range (web_mapLinkRules c) (mapLinkRules (tradePolicy o1)))"
  define pre where "pre = (if g_WebMode a then o1\<lparr>tradePolicy := (tradePolicy o1)\<lparr>mapLinkRules := links\<rparr>, szfixMsg := m\<rparr> else o1)"
  define o2 where "o2 = (if g_WebMode a then snd (GetOrderMatchRule a links pre) else pre)"
  define p where "p = snd (Get_Sz_seat (g_global_policy a) (link_name a (strSenderCompID o1)) (strSecurity_seat (stepFields o2)) (g_tradePolicy a))"
  define o4 where "o4 = (with_policy p o2)\<lparr>tradePolicy := (tradePolicy (with_policy p o2))\<lparr>strSettleGroupName := settle_group a (strSenderCompID o1)\<rparr>\<rparr>"
  have o4: "same_request o4 o5" "tradePolicy o5 = tradePolicy o4" "strTrade_market o5 = strTrade_market o4"
    using assms(1) same_requestI
    by (auto simp: step_policy_def Let_def o4_def p_def o2_def pre_def links_def link_name_def settle_group_def
        web_conn_def split: option.splits if_splits prod.splits elim!: CheckOrder_TradeType_eq)
  have pre: "same_request o1 pre" "ui64RuleId (tradePolicy pre) = 0" "strTrade_market pre = TRADE_MARKET_SZ"
    using assms(3,4) same_request_trans [OF same_requestI(1) same_requestI(2)] same_requestI(4)
    by (auto simp: pre_def)
  have o2: "same_request pre o2" "holds_rules (g_matchRule a) o2"
  proof -
    have "same_request pre o2 \<and> holds_rules (g_matchRule a) o2"
      using GetOrderMatchRule_eq [OF assms(2), of links pre] pre(2) same_requestI(1,4) [of pre]
      by (cases "GetOrderMatchRule a links pre") (auto simp: o2_def holds_rules_def holds_rule_def)
    then show "same_request pre o2" "holds_rules (g_matchRule a) o2" by auto
  qed
  have o24: "same_request o2 o4"
    unfolding o4_def with_policy_def by (rule same_request_trans) (rule same_requestI)+
  have "same_request o1 o2" by (rule same_request_trans [OF pre(1) o2(1)])
  moreover from this have "same_request o1 o5" using o24 o4(1) same_request_trans by blast
  moreover have "holds_rules (g_matchRule a) o5"
    using o2(2) o4(2,3) o24 unfolding holds_rules_def
    by (simp add: same_request_sel o4_def with_policy_def TradePolicyCell_Set_def split: prod.splits)
  ultimately show ?thesis
    using o4(2) by (simp add: same_request_sel o4_def with_policy_def p_def cell_policy_def TradePolicyCell_Set_def
        split: prod.splits)
qed

text \<open>What the fields of an acquired order are, read off the message.\<close>

definition message_parties :: "acq_env \<Rightarrow> FixMessage \<Rightarrow> parties" where
  "message_parties a m = snd (GetNopartyIds (a_fix a) (fix_body m) ([], [], []))"

lemma step_identity_fields:
  assumes "step_identity a m OrderMessage_new = Some o1"
  defines "bd \<equiv> fix_body m" and "lib \<equiv> a_fix a"
  shows "tradePolicy o1 = TradePolicyCell_new" "strTrade_market o1 = TRADE_MARKET_SZ"
    "(strSecurity_seat (stepFields o1), strAccountId o1, strMarket_branchid o1) = message_parties a m"
    "strBeginString (stepFields o1) = fix_BeginString m" "strSessionId o1 = fix_SessionID m"
    "strClordid o1 = field_or lib bd ''ClOrdID'' []" "strMsgType o1 = field_or lib (fix_header m) ''MsgType'' []"
    "strOrderqty_origin o1 = field_or lib bd ''OrderQty'' []"
    "ui64Orderqty_origin o1 = snd (String2UInt64_strtoui64 (field_or lib bd ''OrderQty'' []))"
    "ui64LeavesQty o1 = ui64Orderqty_origin o1"
    "ui64mOrderPrice o1 = snd (String2UInt64MoneyInLi_strtoui64 (field_or lib bd ''Price'' []))"
    "strOrderPrice o1 = itos (ui64mOrderPrice o1)"
  using assms
  by (auto simp: step_identity_def Let_def message_parties_def OrderMessage_new_def StepFields_new_def
      split: prod.splits bind_splits if_splits)

lemma step_fields_fields:
  assumes "step_fields a m o1 = Some o2"
  defines "bd \<equiv> fix_body m" and "lib \<equiv> a_fix a"
  shows "tradePolicy o2 = tradePolicy o1" "strTrade_market o2 = strTrade_market o1"
    "strSecurity_seat (stepFields o2) = strSecurity_seat (stepFields o1)" "strAccountId o2 = strAccountId o1"
    "strMarket_branchid o2 = strMarket_branchid o1" "strBeginString (stepFields o2) = strBeginString (stepFields o1)"
    "strClordid o2 = strClordid o1" "strMsgType o2 = strMsgType o1" "strSessionId o2 = strSessionId o1"
    "ui64Orderqty_origin o2 = ui64Orderqty_origin o1" "ui64LeavesQty o2 = ui64LeavesQty o1"
    "ui64mOrderPrice o2 = ui64mOrderPrice o1" "strOrderPrice o2 = strOrderPrice o1"
    "getField (fix_header m) (fld lib ''SenderCompID'') = Some (strSenderCompID o2)"
    "getField (fix_header m) (fld lib ''TargetCompID'') = Some (strTargetCompID o2)"
    "strStockID o2 = field_or lib bd ''SecurityID'' (strStockID o1)" "strSide o2 = field_or lib bd ''Side'' (strSide o1)"
    "strApplID o2 = field_or lib bd ''ApplID'' (strApplID o1)"
    "strOwnerType (stepFields o2) = field_or lib bd ''OwnerType'' (strOwnerType (stepFields o1))"
  using assms by (auto simp: step_fields_def Let_def split: bind_splits)

lemma NewOrder2Struct_stages:
  assumes "NewOrder2Struct a m o0 = Some o3"
  obtains o1 o2 where "step_identity a m o0 = Some o1" "step_fields a m o1 = Some o2" "step_policy a m o2 = Some o3"
  using assms by (auto simp: NewOrder2Struct_def split: bind_splits)

lemma acquired_order:
  assumes "NewOrder2Struct a m OrderMessage_new = Some o1" "match_rules_wf (g_matchRule a)"
  defines "bd \<equiv> fix_body m" and "lib \<equiv> a_fix a"
  shows "(strSecurity_seat (stepFields o1), strAccountId o1, strMarket_branchid o1) = message_parties a m"
    "strTrade_market o1 = TRADE_MARKET_SZ"
    "getField (fix_header m) (fld lib ''SenderCompID'') = Some (strSenderCompID o1)"
    "getField (fix_header m) (fld lib ''TargetCompID'') = Some (strTargetCompID o1)"
    "strBeginString (stepFields o1) = fix_BeginString m" "strClordid o1 = field_or lib bd ''ClOrdID'' []"
    "strStockID o1 = field_or lib bd ''SecurityID'' []" "strSide o1 = field_or lib bd ''Side'' []"
    "ui64Orderqty_origin o1 = snd (String2UInt64_strtoui64 (field_or lib bd ''OrderQty'' []))"
    "ui64LeavesQty o1 = ui64Orderqty_origin o1"
    "ui64mOrderPrice o1 = snd (String2UInt64MoneyInLi_strtoui64 (field_or lib bd ''Price'' []))"
    "holds_rules (g_matchRule a) o1"
    "cell_policy (tradePolicy o1) = snd (Get_Sz_seat (g_global_policy a) (link_name a (strSenderCompID o1))
       (strSecurity_seat (stepFields o1)) (g_tradePolicy a))"
    "strSettleGroupName (tradePolicy o1) = settle_group a (strSenderCompID o1)"
proof -
  obtain o2 o3 where st: "step_identity a m OrderMessage_new = Some o2" "step_fields a m o2 = Some o3" "step_policy a m o3 = Some o1"
    by (rule NewOrder2Struct_stages [OF assms(1)])
  note i = step_identity_fields [OF st(1)] and f = step_fields_fields [OF st(2)]
  have p: "same_request o3 o1 \<and> holds_rules (g_matchRule a) o1 \<and>
    cell_policy (tradePolicy o1) =
      snd (Get_Sz_seat (g_global_policy a) (link_name a (strSenderCompID o3)) (strSecurity_seat (stepFields o3)) (g_tradePolicy a)) \<and>
    strSettleGroupName (tradePolicy o1) = settle_group a (strSenderCompID o3)"
    by (rule step_policy_facts [OF st(3) assms(2)]) (simp_all add: f i TradePolicyCell_new_def)
  note q = same_request_sel [OF conjunct1 [OF p]]
  have "strStockID o2 = []" "strSide o2 = []"
    using st(1) by (auto simp: step_identity_def Let_def OrderMessage_new_def split: prod.splits bind_splits if_splits)
  then show "(strSecurity_seat (stepFields o1), strAccountId o1, strMarket_branchid o1) = message_parties a m"
    "strTrade_market o1 = TRADE_MARKET_SZ"
    "getField (fix_header m) (fld lib ''SenderCompID'') = Some (strSenderCompID o1)"
    "getField (fix_header m) (fld lib ''TargetCompID'') = Some (strTargetCompID o1)"
    "strBeginString (stepFields o1) = fix_BeginString m" "strClordid o1 = field_or lib bd ''ClOrdID'' []"
    "strStockID o1 = field_or lib bd ''SecurityID'' []" "strSide o1 = field_or lib bd ''Side'' []"
    "ui64Orderqty_origin o1 = snd (String2UInt64_strtoui64 (field_or lib bd ''OrderQty'' []))"
    "ui64LeavesQty o1 = ui64Orderqty_origin o1"
    "ui64mOrderPrice o1 = snd (String2UInt64MoneyInLi_strtoui64 (field_or lib bd ''Price'' []))"
    using i f q by (simp_all add: bd_def lib_def)
  show "holds_rules (g_matchRule a) o1"
    "cell_policy (tradePolicy o1) = snd (Get_Sz_seat (g_global_policy a) (link_name a (strSenderCompID o1))
       (strSecurity_seat (stepFields o1)) (g_tradePolicy a))"
    "strSettleGroupName (tradePolicy o1) = settle_group a (strSenderCompID o1)"
    using p q by simp_all
qed

text \<open>A message with both ids, a security code of the market and nothing odd in it becomes an order.\<close>

lemma GetOrderMatchRule_same: "same_request o1 (snd (GetOrderMatchRule a links o1))"
  using same_requestI by (auto simp: GetOrderMatchRule_def split: prod.splits option.splits)

lemma step_policy_None:
  assumes "step_policy a m o1 = None"
  shows "\<exists>o4. same_request o1 o4 \<and> fst (CheckOrder_TradeType o4) \<noteq> 0"
proof -
  define links where "links = (case web_conn a (strSenderCompID o1) of None \<Rightarrow> mapLinkRules (tradePolicy o1)
      | Some c \<Rightarrow> omap_insert_range (web_mapLinkRules c) (mapLinkRules (tradePolicy o1)))"
  define pre where "pre = o1\<lparr>tradePolicy := (tradePolicy o1)\<lparr>mapLinkRules := links\<rparr>, szfixMsg := m\<rparr>"
  have "same_request o1 pre"
    unfolding pre_def by (rule same_request_trans [OF same_requestI(1) same_requestI(2)])
  then have rule: "same_request o1 (snd (GetOrderMatchRule a links pre))"
    using GetOrderMatchRule_same same_request_trans by blast
  obtain tp o2 where "fst (CheckOrder_TradeType (o2\<lparr>tradePolicy := tp\<rparr>)) \<noteq> 0"
    and "o2 = o1 \<or> o2 = snd (GetOrderMatchRule a links pre)"
    using assms
    by (auto simp: step_policy_def Let_def with_policy_def links_def pre_def web_conn_def
        split: option.splits if_splits prod.splits) (metis fst_conv)+
  then show ?thesis
    using rule same_requestI same_request_trans by blast
qed

lemma split_at_not_Nil: "split_at d s \<noteq> []"
  by (induction s) (auto split: list.splits)

lemma money_accepted: "fst (String2UInt64MoneyInLi_strtoui64 s) = 0"
  using split_at_not_Nil [of "CHR ''.''" s]
  by (auto simp: String2UInt64MoneyInLi_strtoui64_def Let_def split: list.splits)

lemma accepted_message:
  assumes "getField (fix_body m) (fld (a_fix a) ''BodyLength'') = None"
    and "getField (fix_header m) (fld (a_fix a) ''SenderCompID'') = Some s"
    and "getField (fix_header m) (fld (a_fix a) ''TargetCompID'') = Some t"
    and "getField (fix_body m) (fld (a_fix a) ''SecurityID'') = Some code"
    and "length code = 6" "margin_market_sz code"
  shows "\<exists>o1. NewOrder2Struct a m OrderMessage_new = Some o1"
proof -
  have "\<exists>o2. step_identity a m OrderMessage_new = Some o2"
    using assms(1) money_accepted [of "field_or (a_fix a) (fix_body m) ''Price'' (strOrderPrice OrderMessage_new)"]
    by (auto simp: step_identity_def Let_def isSetField_def String2UInt64_strtoui64_def split: prod.splits)
  then obtain o2 where o2: "step_identity a m OrderMessage_new = Some o2" ..
  obtain o3 where o3: "step_fields a m o2 = Some o3"
    using assms(2,3) by (simp add: step_fields_def Let_def)
  have code: "strStockID o3 = code"
    using step_fields_fields(16) [OF o3] assms(4) by (simp add: field_or_def)
  have "step_policy a m o3 \<noteq> None"
  proof
    assume "step_policy a m o3 = None"
    then obtain o4 where o4: "same_request o3 o4" "fst (CheckOrder_TradeType o4) \<noteq> 0"
      using step_policy_None by blast
    have "strStockID o4 = code" using o4(1) code by (simp add: same_request_sel)
    then have "code_trade_type o4 \<noteq> None" "length (strStockID o4) = 6"
      using assms(5,6) by (simp_all add: code_trade_type_def Let_def)
    then show False using o4(2) CheckOrder_TradeType_iff by (metis fst_conv)
  qed
  then show ?thesis using o2 o3 by (simp add: NewOrder2Struct_def)
qed

section \<open>Properties\<close>

text \<open>
  C5.  The policy of an order taken in from FIX, whatever settings the administrators have made: an
  order without a seat, or whose client has no link, gets the global policy, also when its link has
  one of its own.  Any other gets the last policy set for its seat on the link; else the last set for
  the link itself; else the first that was set for any seat of the link, which is how the store
  understands the first setting of a seat; else the global one.  And an order names a rule only
  together with the object of that rule, so that it never fails for a missing rule later.
\<close>

theorem acquired_order_policy:
  assumes "NewOrder2Struct a m OrderMessage_new = Some o1" and "match_rules_wf (g_matchRule a)"
    and "g_tradePolicy a = apply_settings h"
  shows "cell_policy (tradePolicy o1) =
      (if link_name a (strSenderCompID o1) = [] \<or> strSecurity_seat (stepFields o1) = [] then g_global_policy a
       else policy_or (g_global_policy a)
         (seat_policy h (link_name a (strSenderCompID o1)) (strSecurity_seat (stepFields o1)))) \<and>
    holds_rules (g_matchRule a) o1"
proof (cases "link_name a (strSenderCompID o1) = [] \<or> strSecurity_seat (stepFields o1) = []")
  case True
  then show ?thesis using acquired_order(12,13) [OF assms(1,2)] by (auto simp: Get_Sz_seat_def)
next
  case False
  then show ?thesis using acquired_order(12,13) [OF assms(1,2)] assms(3) by (simp add: Get_settings)
qed

text \<open>
  An order of Shanghai does not get the policy set for its link, nor the rules its connection is
  linked to: the policy is looked up under the name of the connection, not of the link, and copying it
  into the order drops the links, so that every rule is tried.
\<close>

theorem sh_link_ignored:
  assumes "g_tradePolicy a = apply_settings h" and "c \<noteq> []" and "last_of (sh_set c) h = None"
  shows "cell_policy (tradePolicy (sh_order a c (sh_policy a c) row)) = g_global_policy a \<and>
    mapLinkRules (tradePolicy (sh_order a c (sh_policy a c) row)) = []"
proof -
  have "snd (Get_Sh (g_global_policy a) c (g_tradePolicy a)) = g_global_policy a"
    using Get_settings(3) [OF assms(2), of "g_global_policy a" h] assms(1,3) by (simp add: policy_or_def)
  then show ?thesis
    by (cases "g_global_policy a")
      (simp add: sh_order_def sh_policy_def TradePolicyCell_copy_def TradePolicyCell_Set_def cell_policy_def Let_def
        OrderMessage_new_def TradePolicyCell_new_def)
qed

text \<open>A client on the link L1 orders 100 shares for the seat S1.\<close>

definition sample_fix :: FixMessage where
  "sample_fix = (let f = fld sample_fix_lib in FixMessage_new
     \<lparr>fix_header := setField (f ''MsgType'') ''D'' (setField (f ''SenderCompID'') ''C1''
        (setField (f ''TargetCompID'') ''GW'' FieldMap_new)),
      fix_body := addGroup (f ''NoPartyIDs'') (setField (f ''PartyID'') ''S1'' (setField (f ''PartyIDSource'') ''C''
          (setField (f ''PartyRole'') ''1'' FieldMap_new)))
        (addGroup (f ''NoPartyIDs'') (setField (f ''PartyID'') ''A1'' (setField (f ''PartyIDSource'') ''5''
          (setField (f ''PartyRole'') ''5'' FieldMap_new)))
        (setField (f ''SecurityID'') ''000001'' (setField (f ''OrderQty'') ''100.00'' (setField (f ''Price'') ''10.50''
        (setField (f ''ClOrdID'') ''O1'' FieldMap_new))))), fix_BeginString := ''FIX.4.2''\<rparr>)"

definition sample_settings :: "setting list" where
  "sample_settings = [SetSeat ''L1'' ''S1'' match_all, SetSh ''L1'' match_all]"

definition sample_acq :: acq_env where
  "sample_acq = \<lparr>a_fix = sample_fix_lib, a_rules_lib = sample_lib, g_WebMode = True,
     g_mapSzConn_webConfig = [(''C1'', \<lparr>strWebLinkid = ''L1'', web_strSettleGroupName = ''G1'', web_mapLinkRules = []\<rparr>)],
     g_mapShConn_webConfig = [(''N1'', \<lparr>strWebLinkid = ''L1'', web_strSettleGroupName = ''G1'', web_mapLinkRules = [(7, 100)]\<rparr>)],
     g_global_policy = default_policy, g_tradePolicy = apply_settings sample_settings, g_matchRule = MatchRules_new,
     a_now = 0, a_oper_time = [], a_connect = (\<lambda>c. True), a_query = (\<lambda>c q. None),
     g_strSH_Ordwth_TableName = ''ordwth'', g_strSH_Ordwth2_TableName = ''ordwth2'', g_strSH_Cjhb_TableName = ''cjhb''\<rparr>"

lemma sample_acq_rules: "match_rules_wf (g_matchRule sample_acq)"
  by (simp add: sample_acq_def match_rules_wf_def MatchRules_new_def)

lemma sample_header:
  "getField (fix_header sample_fix) (fld sample_fix_lib ''SenderCompID'') = Some ''C1''"
  "getField (fix_header sample_fix) (fld sample_fix_lib ''TargetCompID'') = Some ''GW''"
  "getField (fix_body sample_fix) (fld sample_fix_lib ''SecurityID'') = Some ''000001''"
  "getField (fix_body sample_fix) (fld sample_fix_lib ''OrderQty'') = Some ''100.00''"
  "getField (fix_body sample_fix) (fld sample_fix_lib ''ClOrdID'') = Some ''O1''"
  "getField (fix_body sample_fix) (fld sample_fix_lib ''BodyLength'') = None"
  by (simp_all add: sample_fix_def Let_def fld_eq [OF sample_fix_lib_ok] getField_def [of FieldMap_new])

lemma sample_parties: "message_parties sample_acq sample_fix = (''S1'', ''A1'', [])"
proof -
  have e: "setField t v g \<noteq> FieldMap_new" for t v g
  proof
    assume "setField t v g = FieldMap_new"
    then have "getField (setField t v g) t = getField FieldMap_new t" by (rule arg_cong)
    then show False by (simp add: getField_def [of FieldMap_new])
  qed
  show ?thesis
    by (simp add: message_parties_def GetNopartyIds_def sample_fix_def Let_def sample_acq_def read_party_def e field_or_def
        fld_eq [OF sample_fix_lib_ok] getField_def [of FieldMap_new] getGroups_def [of FieldMap_new])
qed

lemma sample_acquired: "\<exists>o1. NewOrder2Struct sample_acq sample_fix OrderMessage_new = Some o1"
  by (rule accepted_message [where code = "''000001''"]) (simp_all add: sample_acq_def sample_header margin_market_sz_def)

theorem acquired_order_policy_witness:
  "\<exists>o1. NewOrder2Struct sample_acq sample_fix OrderMessage_new = Some o1 \<and>
     cell_policy (tradePolicy o1) = match_all \<and> holds_rules (g_matchRule sample_acq) o1"
proof -
  obtain o1 where o1: "NewOrder2Struct sample_acq sample_fix OrderMessage_new = Some o1" using sample_acquired ..
  have "strSenderCompID o1 = ''C1''" "strSecurity_seat (stepFields o1) = ''S1''"
    using acquired_order(1,3) [OF o1 sample_acq_rules] by (simp_all add: sample_parties sample_header sample_acq_def [THEN arg_cong, of a_fix])
  moreover have "link_name sample_acq ''C1'' = ''L1''" "g_tradePolicy sample_acq = apply_settings sample_settings"
    by (simp_all add: link_name_def web_conn_def sample_acq_def)
  ultimately show ?thesis
    using acquired_order_policy [OF o1 sample_acq_rules, of sample_settings] o1
    by (simp add: seat_policy_def conn_policy_def last_of_def sample_settings_def policy_or_def)
qed

text \<open>The policy of the link L1 matches everything and checks assets; the orders of its connection N1 do not get it.\<close>

theorem sh_link_ignored_witness:
  "cell_policy (tradePolicy (sh_order sample_acq ''N1'' (sh_policy sample_acq ''N1'') (\<lambda>col. []))) = default_policy \<and>
   snd (Get_Sh default_policy ''L1'' (g_tradePolicy sample_acq)) = match_all \<and> default_policy \<noteq> match_all"
  using sh_link_ignored [of sample_acq sample_settings "''N1''" "\<lambda>col. []"]
    Get_settings(3) [of "''L1''" default_policy sample_settings]
  by (simp add: sample_acq_def sample_settings_def last_of_def policy_or_def default_policy_def match_all_def)

end
