(* ===== verification/RuleWord.thy ===== *)
theory RuleWord
  imports OrderAcquire
begin

text \<open>
  \<open>match_rule/RuleWordProc_Base.cpp\<close>, \<open>RuleWordProc_ShDb.cpp\<close> and \<open>RuleWordProc_SzEzSTEP.cpp\<close>: how the
  words of a rule's document become the values of a confirmation or a report.  A value is one word, a
  field of the order (\<open>@\<close>), a value of the gateway (\<open>$\<close>) or itself, or words and operators evaluated
  from the left.  Also \<open>DoubleToString\<close> of \<open>tool_string/Tgw_StringUtil.cpp\<close>.  Double-precision
  arithmetic is a parameter (\<open>word_ops\<close>), like the formatted times.
\<close>

section \<open>Numbers\<close>

record 'd word_ops =
  w_zero :: 'd
  w_plus :: "'d \<Rightarrow> 'd \<Rightarrow> 'd"
  w_minus :: "'d \<Rightarrow> 'd \<Rightarrow> 'd"
  w_mult :: "'d \<Rightarrow> 'd \<Rightarrow> 'd"
  w_divide :: "'d \<Rightarrow> 'd \<Rightarrow> 'd"
  w_is_zero :: "'d \<Rightarrow> bool"
  w_atof :: "string \<Rightarrow> 'd"
  w_trunc :: "'d \<Rightarrow> int"
  w_scaled :: "'d \<Rightarrow> int \<Rightarrow> int"

text \<open>\<open>w_trunc d\<close> is \<open>(int64_t)d\<close>, \<open>w_scaled d n\<close> is \<open>(int64_t)(d * n)\<close>; the remainder of C has the sign of the dividend.\<close>

definition c_rem :: "int \<Rightarrow> int \<Rightarrow> int" where
  "c_rem a b = (if 0 \<le> a then a mod b else - ((- a) mod b))"

definition DoubleToString :: "'d word_ops \<Rightarrow> 'd \<Rightarrow> nat \<Rightarrow> string" where
  "DoubleToString ops d uiDecimalLen =
     (let strBeforePoint = signed_decimal (w_trunc ops d);
          (n, zeros) = (if uiDecimalLen = 1 then (10, ''.0'') else if uiDecimalLen = 2 then (100, ''.00'')
                        else (1000, ''.000''));
          iAfterPoint = c_rem (w_scaled ops d n) n
      in strBeforePoint @ (if iAfterPoint = 0 then zeros else ''.'' @ signed_decimal iAfterPoint))"

definition String2Double_atof :: "'d word_ops \<Rightarrow> string \<Rightarrow> int \<times> 'd" where
  "String2Double_atof ops s = (if s = [] then (0, w_zero ops) else (0, w_atof ops s))"

section \<open>Words and operators\<close>

definition IsOperator :: "string \<Rightarrow> bool" where
  "IsOperator w \<longleftrightarrow> w = ''+'' \<or> w = ''-'' \<or> w = ''*'' \<or> w = ''/''"

definition apply_operator :: "'d word_ops \<Rightarrow> string \<Rightarrow> 'd \<Rightarrow> 'd \<Rightarrow> 'd option" where
  "apply_operator ops w left right =
     (if w = ''+'' then Some (w_plus ops left right)
      else if w = ''-'' then Some (w_minus ops left right)
      else if w = ''*'' then Some (w_mult ops left right)
      else if w_is_zero ops right then None
      else Some (w_divide ops left right))"

text \<open>
  The loop over the words: an operator takes the next word as its right operand, any other word
  replaces what was computed so far.  An operator at the end is dropped.
\<close>

fun eval_words :: "'d word_ops \<Rightarrow> (string \<Rightarrow> 'd option) \<Rightarrow> string list \<Rightarrow> 'd \<Rightarrow> 'd option" where
  "eval_words ops rep [] left = Some left"
| "eval_words ops rep [w] left = (if IsOperator w then Some left else rep w)"
| "eval_words ops rep (w # v # ws) left =
     (if IsOperator w then
        (case rep v of
           None \<Rightarrow> None
         | Some right \<Rightarrow>
             (case apply_operator ops w left right of
                None \<Rightarrow> None
              | Some l \<Rightarrow> eval_words ops rep ws l))
      else (case rep w of None \<Rightarrow> None | Some l \<Rightarrow> eval_words ops rep (v # ws) l))"

text \<open>The clock as the words read it.\<close>

record word_clock =
  time_YYYYMMDD :: string
  time_C8 :: string
  time_C6 :: string
  time_fixmsg :: string

section \<open>Shanghai\<close>

text \<open>The number of a record or of a trade is the next one of the connection.\<close>

definition next_number ::
  "(ShConnection \<Rightarrow> u64 \<times> ShConnection) \<Rightarrow> OrderMessage \<Rightarrow> 'r Acq \<Rightarrow> int \<times> string \<times> 'r Acq" where
  "next_number inc o1 s =
     (case map_of (sh_conns s) (strSessionId o1) of
        None \<Rightarrow> (-1, [], s)
      | Some c \<Rightarrow> (case inc c of (n, c1) \<Rightarrow> (0, itos n, put_sh_conn (strSessionId o1) c1 s)))"

definition ShDb_ReplaceWord ::
  "word_clock \<Rightarrow> string \<Rightarrow> OrderMessage \<Rightarrow> 'r Acq \<Rightarrow> int \<times> string \<times> 'r Acq" where
  "ShDb_ReplaceWord clk w o1 s =
     (if w = [] then (0, [], s)
      else if hd w = CHR ''$'' then
        (if w = ''$REC_NUM'' then next_number IncRecNum o1 s
         else if w = ''$DATE'' then (0, time_YYYYMMDD clk, s)
         else if w = ''$TIME_C8'' then (0, time_C8 clk, s)
         else if w = ''$TIME_C6'' then (0, time_C6 clk, s)
         else if w = ''$SH_CJBH'' then next_number IncCjbh o1 s
         else (0, w, s))
      else if hd w = CHR ''@'' then
        (case map_of (jsOrder o1) (c_str (tl w)) of
           None \<Rightarrow> (-1, [], s)
         | Some v \<Rightarrow> (0, c_str v, s))
      else (0, w, s))"

definition ShDb_ReplaceWordDouble :: "'d word_ops \<Rightarrow> OrderMessage \<Rightarrow> string \<Rightarrow> 'd option" where
  "ShDb_ReplaceWordDouble ops o1 w =
     (if w = [] then Some (w_zero ops)
      else if hd w = CHR ''@'' then
        (case map_of (jsOrder o1) (c_str (tl w)) of
           None \<Rightarrow> None
         | Some v \<Rightarrow> (case String2Double_atof ops (c_str v) of (r, d) \<Rightarrow> if r \<noteq> 0 then None else Some d))
      else (case String2Double_atof ops w of (r, d) \<Rightarrow> if r \<noteq> 0 then None else Some d))"

text \<open>\<open>ResolveRule\<close>: the return code and the text; the text is left empty on failure.\<close>

definition ShDb_ResolveRule ::
  "'d word_ops \<Rightarrow> word_clock \<Rightarrow> (string \<times> json) list \<Rightarrow> string \<Rightarrow> OrderMessage \<Rightarrow> 'r Acq \<Rightarrow> int \<times> string \<times> 'r Acq" where
  "ShDb_ResolveRule ops clk docRule strRuleKey o1 s =
     (case map_of docRule strRuleKey of
        Some (JStr t) \<Rightarrow>
          (let vecWords = split_at (CHR '' '') (c_str t) in
           if length vecWords = 1 then ShDb_ReplaceWord clk (hd vecWords) o1 s
           else (case eval_words ops (ShDb_ReplaceWordDouble ops o1) vecWords (w_zero ops) of
               None \<Rightarrow> (-1, [], s)
             | Some d \<Rightarrow> (0, DoubleToString ops d 2, s)))
      | _ \<Rightarrow> (-1, [], s))"

section \<open>Shenzhen\<close>

text \<open>What resolving a rule reads: the FIX library, the environment of the execution ids, the clock, the protocol version.\<close>

record ('d, 'r) sz_words =
  z_ops :: "'d word_ops"
  z_fix :: fix_lib
  z_env :: "'r Env"
  z_clock :: word_clock
  g_bSZ_Step_ver110 :: bool

definition next_exec_id :: "'r Env \<Rightarrow> 'r Acq \<Rightarrow> string \<times> 'r Acq" where
  "next_exec_id env s = (case ExRandom15 env (gw (front s)) of (i, g) \<Rightarrow> (i, s\<lparr>front := (front s)\<lparr>gw := g\<rparr>\<rparr>))"

definition SzStep_ReplaceWord ::
  "('d, 'r) sz_words \<Rightarrow> string \<Rightarrow> string \<Rightarrow> string \<Rightarrow> OrderMessage \<Rightarrow> 'r Acq \<Rightarrow> int \<times> string \<times> 'r Acq" where
  "SzStep_ReplaceWord z seat account w o1 s =
     (if w = [] then (1, [], s)
      else if hd w = CHR ''$'' then
        (if w = ''$EXEC_ID'' \<or> w = ''$ORDER_ID'' then (case next_exec_id (z_env z) s of (i, s1) \<Rightarrow> (0, i, s1))
         else if w = ''$LOCAL_TIME_STAMP'' then (0, time_fixmsg (z_clock z), s)
         else if w = ''$SEAT'' then (0, seat, s)
         else if w = ''$ACCOUNT'' then (0, account, s)
         else (0, w, s))
      else if hd w = CHR ''@'' then
        (case String2Int_atoi (tl w) of (iRes, iOrderField) \<Rightarrow>
           if iRes = 0 then
             (case GetStringField (z_fix z) (szfixMsg o1) iOrderField of
                None \<Rightarrow> (-1, [], s)
              | Some v \<Rightarrow> (0, v, s))
           else (0, w, s))
      else (0, w, s))"

definition SzStep_ReplaceWordDouble :: "('d, 'r) sz_words \<Rightarrow> OrderMessage \<Rightarrow> string \<Rightarrow> 'd option" where
  "SzStep_ReplaceWordDouble z o1 w =
     (if w = [] then Some (w_zero (z_ops z))
      else if hd w = CHR ''@'' then
        (case String2Int_atoi (tl w) of (iRes, iOrderField) \<Rightarrow>
           if iRes = 0 then
             (case GetStringField (z_fix z) (szfixMsg o1) iOrderField of
                None \<Rightarrow> None
              | Some v \<Rightarrow> (case String2Double_atof (z_ops z) v of (r, d) \<Rightarrow> if r \<noteq> 0 then None else Some d))
           else None)
      else None)"

text \<open>
  The target of a field is a message or a group, which is a message with a body only: writing a tag of
  the header or trailer into a group is undefined, because the code casts the group to a message.
\<close>

definition set_target :: "fix_lib \<Rightarrow> bool \<Rightarrow> int \<Rightarrow> string \<Rightarrow> FixMessage \<Rightarrow> FixMessage option" where
  "set_target lib main tag v m =
     (if \<not> main \<and> (isHeaderField lib tag \<or> isTrailerField lib tag) then None else Some (SetField lib tag v m))"

text \<open>One string member of a rule's document; \<open>None\<close> is undefined.\<close>

definition resolve_text ::
  "('d, 'r) sz_words \<Rightarrow> string \<Rightarrow> string \<Rightarrow> bool \<Rightarrow> OrderMessage \<Rightarrow> int \<Rightarrow> string \<Rightarrow> FixMessage \<Rightarrow> 'r Acq \<Rightarrow>
   (int \<times> FixMessage \<times> 'r Acq) option" where
  "resolve_text z seat account main o1 tag t m s =
     (if t = [] then Some (0, m, s)
      else let vecWords = split_at (CHR '' '') t in
        if length vecWords = 1 then
          (case SzStep_ReplaceWord z seat account (hd vecWords) o1 s of (iRes, v, s1) \<Rightarrow>
             if iRes = 0 then map_option (\<lambda>m1. (0, m1, s1)) (set_target (z_fix z) main tag v m)
             else Some (0, m, s1))
        else (case eval_words (z_ops z) (SzStep_ReplaceWordDouble z o1) vecWords (w_zero (z_ops z)) of
            None \<Rightarrow> Some (-1, m, s)
          | Some d \<Rightarrow> map_option (\<lambda>m1. (0, m1, s)) (set_target (z_fix z) main tag (DoubleToString (z_ops z) d 2) m)))"

fun json_size :: "json \<Rightarrow> nat" where
  "json_size (JArr es) = Suc (sum_list (map (\<lambda>e. Suc (json_size e)) es))"
| "json_size (JObj ms) = Suc (sum_list (map (\<lambda>m. Suc (json_size (snd m))) ms))"
| "json_size _ = 1"

text \<open>\<open>ResolveElement\<close> over the members of an object, and over the objects of an array as groups of a field.\<close>

function resolve_members ::
  "('d, 'r) sz_words \<Rightarrow> string \<Rightarrow> string \<Rightarrow> bool \<Rightarrow> OrderMessage \<Rightarrow> (string \<times> json) list \<Rightarrow> FixMessage \<Rightarrow> 'r Acq \<Rightarrow>
   (int \<times> FixMessage \<times> 'r Acq) option"
and resolve_groups ::
  "('d, 'r) sz_words \<Rightarrow> string \<Rightarrow> string \<Rightarrow> OrderMessage \<Rightarrow> int \<Rightarrow> json list \<Rightarrow> FixMessage \<Rightarrow> 'r Acq \<Rightarrow>
   (int \<times> FixMessage \<times> 'r Acq) option" where
  "resolve_members z seat account main o1 [] m s = Some (0, m, s)"
| "resolve_members z seat account main o1 ((name, v) # ms) m s =
     (case String2Int_atoi (c_str name) of (iTranRes, tag) \<Rightarrow>
        if iTranRes \<noteq> 0 then resolve_members z seat account main o1 ms m s
        else (case (case v of
                JStr t \<Rightarrow> resolve_text z seat account main o1 tag (c_str t) m s
              | JArr es \<Rightarrow> resolve_groups z seat account o1 tag es m s
              | _ \<Rightarrow> Some (0, m, s)) of
            None \<Rightarrow> None
          | Some (iRes, m1, s1) \<Rightarrow>
              if iRes \<noteq> 0 then Some (-1, m1, s1) else resolve_members z seat account main o1 ms m1 s1))"
| "resolve_groups z seat account o1 tag [] m s = Some (0, m, s)"
| "resolve_groups z seat account o1 tag (e # es) m s =
     (case e of
        JObj (sub # ms) \<Rightarrow>
          (case resolve_members z seat account False o1 (sub # ms) FixMessage_new s of
             None \<Rightarrow> None
           | Some (iRes, g, s1) \<Rightarrow>
               if iRes \<noteq> 0 then Some (-1, m, s1)
               else resolve_groups z seat account o1 tag es (m\<lparr>fix_body := addGroup tag (fix_body g) (fix_body m)\<rparr>) s1)
      | _ \<Rightarrow> None)"
  by pat_completeness auto

termination
  by (relation "measure (case_sum (\<lambda>(z, seat, account, main, o1, ms, m, s). sum_list (map (\<lambda>m. Suc (json_size (snd m))) ms))
      (\<lambda>(z, seat, account, o1, tag, es, m, s). sum_list (map (\<lambda>e. Suc (json_size e)) es)))") auto

text \<open>
  \<open>ResolveRule\<close>.  The fields of the header are copied from the order's message, with sender and
  target exchanged; the report gets the next index of its client.  A field the order's message does
  not have throws.
\<close>

definition report_index :: "bool \<Rightarrow> string \<Rightarrow> 'r Acq \<Rightarrow> u64 \<times> int \<times> 'r Acq" where
  "report_index ver110 client s =
     (case map_of (sz_conns s) client of
        None \<Rightarrow> (0, 0, s)
      | Some c \<Rightarrow>
          (case GetRptIdex c of (n, c1) \<Rightarrow>
             (n, if ver110 then (case m_ptrmapPartitions c of [] \<Rightarrow> 0 | (i, _) # _ \<Rightarrow> i) else 0, put_sz_conn client c1 s)))"

definition SzStep_ResolveRule ::
  "('d, 'r) sz_words \<Rightarrow> (string \<times> json) list \<Rightarrow> OrderMessage \<Rightarrow> FixMessage \<Rightarrow> 'r Acq \<Rightarrow>
   outcome \<times> FixMessage \<times> 'r Acq" where
  "SzStep_ResolveRule z docRule o1 m s =
     (let lib = z_fix z; h = fix_header (szfixMsg o1); f = fld lib in
      if strSenderCompID o1 = [] then (Ret (-1), m, s)
      else if strTargetCompID o1 = [] then (Ret (-1), m, s)
      else (case (getField h (f ''BeginString''), getField h (f ''SenderCompID''), getField h (f ''TargetCompID'')) of
          (Some begin1, Some sender, Some target) \<Rightarrow>
            (let m1 = SetField lib (f ''SenderCompID'') target (SetField lib (f ''TargetCompID'') sender
                  (SetField lib (f ''MsgType'') ''8'' (SetField lib (f ''BeginString'') begin1 m))) in
             case GetStringField lib (szfixMsg o1) (f ''SenderCompID'') of
               None \<Rightarrow> (Ret (-1), m1, s)
             | Some client \<Rightarrow>
                 (case report_index (g_bSZ_Step_ver110 z) client s of (n, part, s1) \<Rightarrow>
                    let m2 = SetField lib (f ''ReportIndex'') (itos n) m1;
                        m3 = (if g_bSZ_Step_ver110 z then SetField lib (f ''PartitionNo'') (signed_decimal part) m2 else m2) in
                    case GetStringField lib (szfixMsg o1) (f ''ApplID'') of
                      None \<Rightarrow> (Ret (-1), m3, s1)
                    | Some appl \<Rightarrow>
                        if appl = [] then (Ret (-1), m3, s1)
                        else (case snd (GetNopartyIds lib (fix_body (szfixMsg o1)) ([], [], [])) of
                            (seat, account, branch) \<Rightarrow>
                              (case resolve_members z seat account True o1 docRule (SetField lib (f ''ApplID'') appl m3) s1 of
                                 None \<Rightarrow> (Undefined, m3, s1)
                               | Some (iRes, m4, s2) \<Rightarrow> (Ret (if iRes \<noteq> 0 then -1 else 0), m4, s2)))))
        | _ \<Rightarrow> (Throws, m, s)))"


section \<open>Properties\<close>

text \<open>
  The two digits after the point lose a zero: the text of \<open>n + c / 100\<close> for a digit \<open>c\<close> other
  than 0 is \<open>n\<close>, a point and that digit, which reads as \<open>n + c / 10\<close>; and the sign of \<open>- c / 100\<close>
  comes after the point.
\<close>

theorem cents_lose_zero:
  assumes "w_trunc ops d = n" "w_scaled ops d 100 = 100 * n + c" "0 \<le> n" "0 < c" "c < 10"
    "w_trunc ops e = 0" "w_scaled ops e 100 = - c"
  shows "DoubleToString ops d 2 = signed_decimal n @ ''.'' @ signed_decimal c \<and> length (signed_decimal c) = 1 \<and>
    DoubleToString ops e 2 = ''0.-'' @ signed_decimal c"
proof -
  have "c_rem (100 * n + c) 100 = c" "c_rem (- c) 100 = - c" using assms(3-5) by (simp_all add: c_rem_def)
  moreover have "signed_decimal (- c) = CHR ''-'' # signed_decimal c" "signed_decimal 0 = ''0''"
    using assms(4) by (simp_all add: signed_decimal_def decimal_0)
  moreover have "length (signed_decimal c) = 1" using assms(4,5) by (simp add: signed_decimal_def length_decimal_0)
  ultimately show ?thesis using assms by (simp add: DoubleToString_def)
qed

text \<open>
  The markets differ in what an operand may be: a number written in a rule is a value for
  Shanghai, and for Shenzhen makes the expression, and with it the whole report, fail.
\<close>

theorem literal_operand_by_market:
  assumes "lit \<noteq> []" "hd lit \<noteq> CHR ''@''" "split_at (CHR '' '') t = x # oper # lit # ws" "\<not> IsOperator x" "IsOperator oper" "t \<noteq> []"
  shows "ShDb_ReplaceWordDouble ops o1 lit = Some (w_atof ops lit) \<and>
    resolve_text z seat account main o1 tag t m s = Some (-1, m, s)"
  using assms
  by (auto simp: ShDb_ReplaceWordDouble_def String2Double_atof_def resolve_text_def SzStep_ReplaceWordDouble_def Let_def
      split: option.splits)

section \<open>The properties at sample values\<close>

text \<open>Values counted in cents.\<close>

definition cent_ops :: "int word_ops" where
  "cent_ops = \<lparr>w_zero = 0, w_plus = (+), w_minus = (-), w_mult = (\<lambda>a b. a * b div 100), w_divide = (\<lambda>a b. a * 100 div b),
     w_is_zero = (\<lambda>d. d = 0), w_atof = (\<lambda>s. 100 * int (length s)), w_trunc = (\<lambda>d. if 0 \<le> d then d div 100 else - ((- d) div 100)),
     w_scaled = (\<lambda>d n. d * n div 100)\<rparr>"

theorem cents_lose_zero_witness:
  "DoubleToString cent_ops 1205 2 = ''12.5'' \<and> DoubleToString cent_ops (-5) 2 = ''0.-5''"
proof -
  have "signed_decimal 12 = ''12''" "signed_decimal 5 = ''5''"
    by (simp_all add: signed_decimal_def decimal.simps digit_char_def char_of_def bit_Suc_0_iff)
  then show ?thesis using cents_lose_zero [of cent_ops 1205 12 5 "-5"] by (simp add: cent_ops_def)
qed

theorem literal_operand_by_market_witness:
  "\<forall>o1 m z (s :: (string \<Rightarrow> string option) Acq). ShDb_ReplaceWordDouble cent_ops o1 ''100'' = Some 300 \<and>
     resolve_text (z\<lparr>z_ops := cent_ops\<rparr>) ''S1'' ''A1'' True o1 38 ''@38 * 100'' m s = Some (-1, m, s)"
proof (intro allI)
  fix o1 m z and s :: "(string \<Rightarrow> string option) Acq"
  show "ShDb_ReplaceWordDouble cent_ops o1 ''100'' = Some 300 \<and>
     resolve_text (z\<lparr>z_ops := cent_ops\<rparr>) ''S1'' ''A1'' True o1 38 ''@38 * 100'' m s = Some (-1, m, s)"
    using literal_operand_by_market [of "''100''" "''@38 * 100''" "''@38''" "''*''" "[]" cent_ops o1
      "z\<lparr>z_ops := cent_ops\<rparr>" "''S1''" "''A1''" True 38 m s]
    by (simp add: cent_ops_def IsOperator_def)
qed

end
