(* ===== verification/FixReport.thy ===== *)
theory FixReport
  imports RuleWord
begin

text \<open>
  \<open>simutgw/stgw_fix_acceptor/StgwFixReport.cpp\<close>: the reports to the clients of Shenzhen.  One call of
  \<open>Send_SZReport\<close> takes the first report from the queue of some client that is logged on and has
  synchronized its reports, turns it into a FIX message and sends it.  The writing of reports and
  trades to the database is recorded as events; a report is an object of the heap, changed while it is
  turned into a message.
\<close>

section \<open>State\<close>

datatype report_event = RecordReport msgref | TransInfo msgref | CancelSuccess msgref | CancelFail msgref | TransError msgref

record 'r Rep =
  acq :: "'r Acq"
  sent :: "FixMessage list"
  recorded :: "report_event list"
  cnt_MatchCancel :: u64
  cnt_Error :: u64
  link_sent :: "string \<Rightarrow> u64"

abbreviation rep_msg :: "'r Rep \<Rightarrow> msgref \<Rightarrow> OrderMessage" where
  "rep_msg s p \<equiv> msg (gw (front (acq s))) p"

definition on_gw :: "('r Gw \<Rightarrow> 'r Gw) \<Rightarrow> 'r Rep \<Rightarrow> 'r Rep" where
  "on_gw f s = s\<lparr>acq := (acq s)\<lparr>front := (front (acq s))\<lparr>gw := f (gw (front (acq s)))\<rparr>\<rparr>\<rparr>"

definition change_report :: "msgref \<Rightarrow> (OrderMessage \<Rightarrow> OrderMessage) \<Rightarrow> 'r Rep \<Rightarrow> 'r Rep" where
  "change_report p f = on_gw (modify_msg p f)"

text \<open>
  What is written to the database, in normal mode only.  The task of a report takes a number of its
  own, the task of a trade the number 1.
\<close>

definition record_event :: "report_event \<Rightarrow> msgref \<Rightarrow> 'r Rep \<Rightarrow> 'r Rep" where
  "record_event e p s =
     (if iRunMode (tradePolicy (rep_msg s p)) = NormalMode then s\<lparr>recorded := recorded s @ [e]\<rparr> else s)"

definition RecordReportToDb :: "msgref \<Rightarrow> 'r Rep \<Rightarrow> 'r Rep" where
  "RecordReportToDb p s =
     (if iRunMode (tradePolicy (rep_msg s p)) = NormalMode
      then on_gw (\<lambda>g. g\<lparr>g_uidTaskGen := g_uidTaskGen g + 1\<rparr>) (s\<lparr>recorded := recorded s @ [RecordReport p]\<rparr>)
      else s)"

definition WriteTransInfoInDb :: "msgref \<Rightarrow> 'r Rep \<Rightarrow> 'r Rep" where
  "WriteTransInfoInDb p = record_event (TransInfo p) p"

definition WriteTransInfoInDb_CancelSuccess :: "msgref \<Rightarrow> 'r Rep \<Rightarrow> 'r Rep" where
  "WriteTransInfoInDb_CancelSuccess p = record_event (CancelSuccess p) p"

definition WriteTransInfoInDb_CancelFail :: "msgref \<Rightarrow> 'r Rep \<Rightarrow> 'r Rep" where
  "WriteTransInfoInDb_CancelFail p = record_event (CancelFail p) p"

definition WriteTransInfoInDb_Error :: "msgref \<Rightarrow> 'r Rep \<Rightarrow> 'r Rep" where
  "WriteTransInfoInDb_Error p = record_event (TransError p) p"

section \<open>The fields of a report\<close>

definition put :: "fix_lib \<Rightarrow> FIELD \<Rightarrow> string \<Rightarrow> FixMessage \<Rightarrow> FixMessage" where
  "put lib f v = SetField lib (fld lib f) v"

definition put_some :: "fix_lib \<Rightarrow> FIELD \<Rightarrow> string \<Rightarrow> FixMessage \<Rightarrow> FixMessage" where
  "put_some lib f v m = (if v = [] then m else put lib f v m)"

definition party_group :: "fix_lib \<Rightarrow> string \<Rightarrow> string \<Rightarrow> string \<Rightarrow> FieldMap" where
  "party_group lib party source role =
     setField (fld lib ''PartyRole'') role (setField (fld lib ''PartyIDSource'') source
       (setField (fld lib ''PartyID'') party FieldMap_new))"

definition add_group :: "fix_lib \<Rightarrow> FIELD \<Rightarrow> FieldMap \<Rightarrow> FixMessage \<Rightarrow> FixMessage" where
  "add_group lib f g m = m\<lparr>fix_body := addGroup (fld lib f) g (fix_body m)\<rparr>"

definition AddNoPartyIds :: "fix_lib \<Rightarrow> string \<Rightarrow> string \<Rightarrow> string \<Rightarrow> FixMessage \<Rightarrow> FixMessage" where
  "AddNoPartyIds lib seat account branch m =
     fold (add_group lib ''NoPartyIDs'')
       [party_group lib seat ''C'' ''27'', party_group lib seat ''C'' ''1'', party_group lib account ''5'' ''5'',
        party_group lib branch ''D'' ''4001'', party_group lib ''01'' ''F'' ''4''] m"

text \<open>The components of an ETF; the number stays 0 for a side that is neither creation nor redemption.\<close>

definition component_group :: "fix_lib \<Rightarrow> string \<Rightarrow> EtfCrt_FrozeComponent \<Rightarrow> FieldMap" where
  "component_group lib side c =
     (let n = (if side = ''D'' then fc_ui64act_pch_count c + fc_ui64avl_count c
               else if side = ''E'' then fc_ui64rdp_count c else 0) in
      setField (fld lib ''SubstCash'') (iLiToStr (fc_ui64Cash c) 2)
        (setField (fld lib ''DeliverQty'') (itos n)
        (setField (fld lib ''UnderlyingSecurityIDSource'') ''102''
        (setField (fld lib ''UnderlyingSecurityID'') (fc_strSecurityID c) FieldMap_new))))"

definition AddNoSecurity :: "fix_lib \<Rightarrow> OrderMessage \<Rightarrow> FixMessage \<Rightarrow> FixMessage" where
  "AddNoSecurity lib o1 m =
     fold (\<lambda>c. add_group lib ''NoSecurity'' (component_group lib (strSide o1) c)) (vecFrozeComponent o1) m"

definition put_index :: "('d, 'r) sz_words \<Rightarrow> u64 \<Rightarrow> int \<Rightarrow> FixMessage \<Rightarrow> FixMessage" where
  "put_index z n part m =
     (let m1 = put (z_fix z) ''ReportIndex'' (itos n) m
      in if g_bSZ_Step_ver110 z then put (z_fix z) ''PartitionNo'' (signed_decimal part) m1 else m1)"

text \<open>
  \<open>ProcMsgType_8_Report\<close>.  The head up to the index, then the fields, then the groups.  The fields
  without which there is no report: the session's, the application, the owner, and the three parties.
\<close>

definition report_head :: "fix_lib \<Rightarrow> OrderMessage \<Rightarrow> FixMessage \<Rightarrow> FixMessage" where
  "report_head lib o1 m =
     put lib ''MsgType'' (strMsgType o1) (put lib ''SenderCompID'' (strTargetCompID o1)
       (put lib ''TargetCompID'' (strSenderCompID o1) (put lib ''BeginString'' (strBeginString (stepFields o1)) m)))"

definition report_fields :: "fix_lib \<Rightarrow> OrderMessage \<Rightarrow> FixMessage \<Rightarrow> FixMessage" where
  "report_fields lib o1 m =
     (let st = stepFields o1 in
      put_some lib ''ConfirmID'' (strConfirmID st)
      (put_some lib ''CoveredOrUncovered'' (strCoveredOrUncovered st)
      (put_some lib ''PositionEffect'' (strPositionEffect st)
      (put lib ''CashMargin'' (strCashMargin o1)
      (put lib ''MinQty'' (strMinQty o1)
      (put lib ''MaxPriceLevels'' (strMaxPriceLevels o1)
      (put lib ''OrdType'' (strOrdType o1)
      (put_some lib ''TimeInForce'' (strTimeInForce o1)
      (put lib ''StopPx'' (strStoppx st)
      (put lib ''Price'' (strOrderPrice o1)
      (put lib ''OrderQty'' (strOrderqty_origin o1)
      (put_some lib ''CashOrderQty'' (strCashorderqty o1)
      (put lib ''SecurityIDSource'' (strSecurityIDSource st)
      (put lib ''SecurityID'' (strStockID o1)
      (put_some lib ''OrigClOrdID'' (strOrigClordid o1)
      (put lib ''ClOrdID'' (strClordid o1)
      (put lib ''TransactTime'' (strTransactTime st)
      (put lib ''Side'' (strSide o1)
      (put_some lib ''RejectText'' (strRejectText st)
      (put lib ''OrdRejReason'' (strOrdrejReason st)
      (put lib ''CumQty'' (itos (ui64Orderqty_origin o1 - ui64LeavesQty o1) @ ''.00'')
      (put lib ''LeavesQty'' (itos (ui64LeavesQty o1) @ ''.00'')
      (put_some lib ''LastQty'' (strLastQty o1)
      (put_some lib ''LastPx'' (strLastPx o1)
      (put lib ''OrdStatus'' (strOrdStatus o1)
      (put lib ''ExecType'' (strExecType o1)
      (put_some lib ''OrderID'' (strOrderID o1)
      (put_some lib ''ExecID'' (strExecID o1)
      (put_some lib ''OrderRestrictions'' (strOrderRestrictions st)
      (put lib ''OwnerType'' (strOwnerType st) m))))))))))))))))))))))))))))))"

definition with_reject_reason :: "OrderMessage \<Rightarrow> OrderMessage" where
  "with_reject_reason o1 =
     (if strOrdrejReason (stepFields o1) = [] then o1\<lparr>stepFields := (stepFields o1)\<lparr>strOrdrejReason := ''0''\<rparr>\<rparr> else o1)"

definition ProcMsgType_8_Report ::
  "('d, 'r) sz_words \<Rightarrow> msgref \<Rightarrow> FixMessage \<Rightarrow> 'r Rep \<Rightarrow> int \<times> FixMessage \<times> 'r Rep" where
  "ProcMsgType_8_Report z p m s =
     (let lib = z_fix z; o1 = rep_msg s p in
      if strBeginString (stepFields o1) = [] then (-1, m, s)
      else if strSenderCompID o1 = [] then (-1, m, s)
      else if strTargetCompID o1 = [] then (-1, m, s)
      else if strMsgType o1 = [] then (-1, m, s)
      else (case report_index (g_bSZ_Step_ver110 z) (strSenderCompID o1) (acq s) of (n, part, a1) \<Rightarrow>
        let s1 = s\<lparr>acq := a1\<rparr>; m1 = put_index z n part (report_head lib o1 m) in
        if strApplID o1 = [] then (-1, m1, s1)
        else if strOwnerType (stepFields o1) = [] then (-1, m1, s1)
        else
          let s2 = change_report p with_reject_reason s1; o2 = rep_msg s2 p;
              m2 = report_fields lib o2 (put lib ''ApplID'' (strApplID o1) m1) in
          if strSecurity_seat (stepFields o2) = [] then (-1, m2, s2)
          else if strAccountId o2 = [] then (-1, m2, s2)
          else if strMarket_branchid o2 = [] then (-1, m2, s2)
          else (0, put_some lib ''Text'' (strText (stepFields o2))
                     (AddNoSecurity lib o2 (AddNoPartyIds lib (strSecurity_seat (stepFields o2)) (strAccountId o2)
                        (strMarket_branchid o2) m2)), s2)))"

definition ProcMsgType_9_Report ::
  "('d, 'r) sz_words \<Rightarrow> msgref \<Rightarrow> FixMessage \<Rightarrow> 'r Rep \<Rightarrow> int \<times> FixMessage \<times> 'r Rep" where
  "ProcMsgType_9_Report z p m s =
     (let lib = z_fix z; o1 = rep_msg s p; st = stepFields o1 in
      case report_index (g_bSZ_Step_ver110 z) (strSenderCompID o1) (acq s) of (n, part, a1) \<Rightarrow>
        let s1 = s\<lparr>acq := a1\<rparr>;
            m1 = put_index z n part (report_head lib o1 m);
            m2 = put lib ''Text'' (strText st) (put lib ''SecurityIDSource'' (strSecurityIDSource st)
              (put lib ''SecurityID'' (strStockID o1) (put lib ''RejectText'' (strRejectText st)
              (put lib ''CxlRejReason'' (strCxlRejReason o1) (put lib ''OrdStatus'' (strOrdStatus o1)
              (put lib ''OrigClOrdID'' (strOrigClordid o1) (put lib ''TransactTime'' (strTransactTime st)
              (put lib ''ClOrdID'' (strClordid o1) (put lib ''OrderID'' (strOrderID o1)
              (put lib ''OwnerType'' (strOwnerType st) (put lib ''ApplID'' (strApplID o1) m1))))))))))) in
        if strSecurity_seat st = [] then (-1, m2, s1)
        else (0, add_group lib ''NoPartyIDs'' (party_group lib (strSecurity_seat st) ''C'' ''1'') m2, s1))"

text \<open>
  With a rule, the confirmation is the rule's, and the report the first element of its matches; 1 is
  no report.  An exception is caught and gives -1; \<open>None\<close> is undefined.
\<close>

definition resolved :: "outcome \<times> FixMessage \<times> 'r Acq \<Rightarrow> 'r Rep \<Rightarrow> (int \<times> FixMessage \<times> 'r Rep) option" where
  "resolved x s = (case x of (e, m, a1) \<Rightarrow>
     (case e of
        Ret n \<Rightarrow> Some (if n \<noteq> 0 then -1 else 0, m, s\<lparr>acq := a1\<rparr>)
      | Throws \<Rightarrow> Some (-1, m, s\<lparr>acq := a1\<rparr>)
      | Undefined \<Rightarrow> None))"

definition ProcMsgType_8_Confirm_JsonRule ::
  "('d, 'r) sz_words \<Rightarrow> int MATCH_RULE \<Rightarrow> msgref \<Rightarrow> FixMessage \<Rightarrow> 'r Rep \<Rightarrow> (int \<times> FixMessage \<times> 'r Rep) option" where
  "ProcMsgType_8_Confirm_JsonRule z rule p m s =
     (case docRuleConfirm rule of
        JObj ms \<Rightarrow> resolved (SzStep_ResolveRule z ms (rep_msg s p) m (acq s)) s
      | _ \<Rightarrow> Some (-1, m, s))"

definition ProcMsgType_8_Report_JsonRule ::
  "('d, 'r) sz_words \<Rightarrow> int MATCH_RULE \<Rightarrow> msgref \<Rightarrow> FixMessage \<Rightarrow> 'r Rep \<Rightarrow> (int \<times> FixMessage \<times> 'r Rep) option" where
  "ProcMsgType_8_Report_JsonRule z rule p m s =
     (case docRuleMatch rule of
        JArr [] \<Rightarrow> Some (1, m, s)
      | JArr (JObj ms # es) \<Rightarrow> resolved (SzStep_ResolveRule z ms (rep_msg s p) m (acq s)) s
      | _ \<Rightarrow> Some (-1, m, s))"


section \<open>Sending\<close>

text \<open>
  The results: 0 a message to send, 1 nothing to send, -1 failure.  On failure the message is dropped,
  and how far it was filled in is not followed.
\<close>

type_synonym 'r step_report = "(int \<times> FixMessage \<times> 'r Rep) option"

definition ProcSingleReport :: "('d, 'r) sz_words \<Rightarrow> (nat \<Rightarrow> int MATCH_RULE) \<Rightarrow> msgref \<Rightarrow> FixMessage \<Rightarrow> 'r Rep \<Rightarrow> 'r step_report" where
  "ProcSingleReport z rules p m s =
     (let o1 = rep_msg s p in
      if strTrade_market o1 = TRADE_MARKET_SZ then
        map_option (\<lambda>(iRes, m1, s1). (if iRes = 1 then 1 else if iRes \<noteq> 0 then -1 else 0, m1, s1))
          (if ui64RuleId (tradePolicy o1) \<noteq> 0 then
             (case ptrRule_Sz (tradePolicy o1) of
                None \<Rightarrow> Some (-1, m, s)
              | Some r \<Rightarrow> ProcMsgType_8_Report_JsonRule z (rules r) p m s)
           else Some (ProcMsgType_8_Report z p m (on_gw (set_exec_ids (z_env z) p) (WriteTransInfoInDb p s))))
      else Some (-1, m, s))"

definition ProcSZCancelOrder :: "('d, 'r) sz_words \<Rightarrow> msgref \<Rightarrow> FixMessage \<Rightarrow> 'r Rep \<Rightarrow> int \<times> FixMessage \<times> 'r Rep" where
  "ProcSZCancelOrder z p m s =
     (let o1 = rep_msg s p in
      if enMatchType o1 = CancelMatch then
        if strMsgType o1 = STEPMSG_MSGTYPE_EXECREPORT then ProcMsgType_8_Report z p m (WriteTransInfoInDb_CancelSuccess p s)
        else if strMsgType o1 = STEPMSG_MSGTYPE_CANCELREJECT then ProcMsgType_9_Report z p m (WriteTransInfoInDb_CancelFail p s)
        else (0, m, s)
      else (0, m, s))"

definition refused_order :: "OrderMessage \<Rightarrow> OrderMessage" where
  "refused_order o1 = o1\<lparr>strMsgType := ''8'', strExecType := ''8'', strOrdStatus := ''8'', bDataError := True,
     stepFields := (stepFields o1)\<lparr>strOrdrejReason := strErrorCode o1\<rparr>\<rparr>"

definition refused_cancel :: "OrderMessage \<Rightarrow> OrderMessage" where
  "refused_cancel o1 = o1\<lparr>strMsgType := ''9'', strOrdStatus := ''8'',
     stepFields := (stepFields o1)\<lparr>strOrdrejReason := strErrorCode o1\<rparr>\<rparr>"

definition ProcSZErrorOrder :: "('d, 'r) sz_words \<Rightarrow> msgref \<Rightarrow> FixMessage \<Rightarrow> 'r Rep \<Rightarrow> int \<times> FixMessage \<times> 'r Rep" where
  "ProcSZErrorOrder z p m s =
     (case (if strMsgType (rep_msg s p) = STEPMSG_MSGTYPE_NEW_ORDER
            then ProcMsgType_8_Report z p m (change_report p refused_order s)
            else if strMsgType (rep_msg s p) = STEPMSG_MSGTYPE_ORDER_CACEL
            then ProcMsgType_9_Report z p m (change_report p refused_cancel s)
            else (0, m, s)) of
        (iRes, m1, s1) \<Rightarrow> (iRes, m1, WriteTransInfoInDb_Error p s1))"

definition ProcSZConfirmOrder :: "('d, 'r) sz_words \<Rightarrow> (nat \<Rightarrow> int MATCH_RULE) \<Rightarrow> msgref \<Rightarrow> FixMessage \<Rightarrow> 'r Rep \<Rightarrow> 'r step_report" where
  "ProcSZConfirmOrder z rules p m s =
     (let o1 = rep_msg s p in
      if strTrade_market o1 = TRADE_MARKET_SZ then
        map_option (\<lambda>(iRes, m1, s1). (if iRes \<noteq> 0 then -1 else 0, m1, s1))
          (if ui64RuleId (tradePolicy o1) \<noteq> 0 then
             (case ptrRule_Sz (tradePolicy o1) of
                None \<Rightarrow> Some (-1, m, s)
              | Some r \<Rightarrow> ProcMsgType_8_Confirm_JsonRule z (rules r) p m s)
           else Some (ProcMsgType_8_Report z p m (on_gw (set_exec_ids (z_env z) p) s)))
      else Some (-1, m, s))"

text \<open>
  One report that has been taken from its queue, by its match type.  \<open>None\<close> in the result code is a
  match type that is not reported.
\<close>

definition report_one ::
  "('d, 'r) sz_words \<Rightarrow> (nat \<Rightarrow> int MATCH_RULE) \<Rightarrow> msgref \<Rightarrow> 'r Rep \<Rightarrow> (int option \<times> FixMessage \<times> 'r Rep) option" where
  "report_one z rules p s =
     (case enMatchType (rep_msg s p) of
        MatchAll \<Rightarrow> map_option (apfst Some) (ProcSingleReport z rules p FixMessage_new s)
      | MatchPart \<Rightarrow> map_option (apfst Some) (ProcSingleReport z rules p FixMessage_new s)
      | CancelMatch \<Rightarrow> (case ProcSZCancelOrder z p FixMessage_new s of (iRes, m, s1) \<Rightarrow>
          Some (Some iRes, m, if iRes = 0 then s1\<lparr>cnt_MatchCancel := cnt_MatchCancel s1 + 1\<rparr> else s1))
      | ErrorMatch \<Rightarrow> (case ProcSZErrorOrder z p FixMessage_new s of (iRes, m, s1) \<Rightarrow>
          Some (Some iRes, m, if iRes = 0 then s1\<lparr>cnt_Error := cnt_Error s1 + 1\<rparr> else s1))
      | NotMatch \<Rightarrow> map_option (apfst Some)
          (ProcSZConfirmOrder z rules p FixMessage_new (change_report p (\<lambda>o1. o1\<lparr>strMsgType := STEPMSG_MSGTYPE_EXECREPORT\<rparr>) s))
      | _ \<Rightarrow> Some (None, FixMessage_new, s))"

definition send_report :: "FixMessage \<Rightarrow> msgref \<Rightarrow> 'r Rep \<Rightarrow> 'r Rep" where
  "send_report m p s =
     (let c = strSenderCompID (rep_msg s p) in
      s\<lparr>sent := sent s @ [m], link_sent := (link_sent s)(c := link_sent s c + 1)\<rparr>)"

text \<open>
  A client that is logged on and has not synchronized its reports: the test of its index counts the
  index up.
\<close>

definition look_up_client :: "string \<Rightarrow> SzConnection \<Rightarrow> 'r Rep \<Rightarrow> 'r Rep" where
  "look_up_client k c s =
     (case GetRptIdex c of (n, c1) \<Rightarrow>
        let c2 = (if n = 0 then c1\<lparr>m_ui64QueLookUpTimes := m_ui64QueLookUpTimes c1 + 1\<rparr> else c1);
            c3 = (if n = 0 \<and> m_ui64QueLookUpTimes c2 \<ge> 10
                     \<and> OutMemoryManage_GetSize_sz k (g_outMsg_buffer (gw (front (acq s)))) \<ge> 10
                  then c2\<lparr>m_ui64QueLookUpTimes := 0\<rparr> else c2) in
        s\<lparr>acq := put_sz_conn k c3 (acq s)\<rparr>)"

fun send_loop ::
  "('d, 'r) sz_words \<Rightarrow> (nat \<Rightarrow> int MATCH_RULE) \<Rightarrow> string list \<Rightarrow> 'r Rep \<Rightarrow> (int \<times> 'r Rep) option" where
  "send_loop z rules [] s = Some (1, s)"
| "send_loop z rules (k # ks) s =
     (case map_of (sz_conns (acq s)) k of
        None \<Rightarrow> send_loop z rules ks s
      | Some c \<Rightarrow>
          if m_bLogOn c \<and> m_bReportSyn c then
            (case OutMemoryManage_PopFront_sz k (g_outMsg_buffer (gw (front (acq s)))) of (iPop, ptrReport, buf) \<Rightarrow>
               let s1 = on_gw (\<lambda>g. g\<lparr>g_outMsg_buffer := buf\<rparr>) s in
               if iPop < 0 then Some (-1, s1)
               else if iPop > 0 then send_loop z rules ks s1
               else (case ptrReport of
                   None \<Rightarrow> send_loop z rules ks s1
                 | Some p \<Rightarrow> (case report_one z rules p (RecordReportToDb p s1) of
                     None \<Rightarrow> None
                   | Some (iRes, m, s2) \<Rightarrow>
                       if iRes = Some 0 then Some (0, send_report m p s2)
                       else if iRes = Some 1 then Some (0, s2)
                       else send_loop z rules ks s2)))
          else if m_bLogOn c then send_loop z rules ks (look_up_client k c s)
          else send_loop z rules ks s)"

definition Send_SZReport :: "('d, 'r) sz_words \<Rightarrow> (nat \<Rightarrow> int MATCH_RULE) \<Rightarrow> 'r Rep \<Rightarrow> (int \<times> 'r Rep) option" where
  "Send_SZReport z rules s = send_loop z rules (map fst (sz_conns (acq s))) s"

text \<open>The refusal of an order sent twice, from the fields of the order.\<close>

definition Send_SZ_RepeatRejectMsg :: "fix_lib \<Rightarrow> OrderMessage \<Rightarrow> 'r Rep \<Rightarrow> int \<times> 'r Rep" where
  "Send_SZ_RepeatRejectMsg lib o1 s =
     (let st = stepFields o1;
          m1 = put lib ''SecurityIDSource'' (strSecurityIDSource st) (put lib ''SecurityID'' (strStockID o1)
            (put lib ''TransactTime'' (strTransactTime st) (put lib ''ApplID'' (strApplID o1)
            (put lib ''RefMsgType'' (strMsgType o1) (put lib ''RefSeqNum'' (strMsgSeqNum st)
            (put lib ''TargetCompID'' (strSenderCompID o1) (put lib ''SenderCompID'' (strTargetCompID o1)
            (put lib ''MsgType'' ''j'' (put lib ''BeginString'' (strBeginString st) FixMessage_new)))))))));
          m2 = add_group lib ''NoPartyIDs'' (party_group lib (strSecurity_seat st) ''C'' ''1'') m1;
          m3 = put lib ''Text'' ''order message repetition'' (put lib ''BusinessRejectReason'' ''20099''
            (put lib ''BusinessRejectRefID'' (strClordid o1) m2)) in
      (0, s\<lparr>sent := sent s @ [m3]\<rparr>))"


section \<open>Reading a report\<close>

lemma put_read [simp]:
  "fix_lib_ok lib \<Longrightarrow>
   GetStringField lib (put lib f v m) (fld lib g) = (if g = f then Some v else GetStringField lib m (fld lib g))"
  by (simp add: put_def)

lemma put_some_read [simp]:
  "fix_lib_ok lib \<Longrightarrow> g \<noteq> f \<Longrightarrow>
   GetStringField lib (put_some lib f v m) (fld lib g) = GetStringField lib m (fld lib g)"
  by (simp add: put_some_def)

lemma add_group_read [simp]: "GetStringField lib (add_group lib f g m) = GetStringField lib m"
  by (simp add: add_group_def GetStringField_def fun_eq_iff)

lemma put_groups [simp]: "getGroups (fix_body (put lib f v m)) = getGroups (fix_body m)"
  by (simp add: put_def SetField_def)

lemma put_some_groups [simp]: "getGroups (fix_body (put_some lib f v m)) = getGroups (fix_body m)"
  by (simp add: put_some_def)

lemma add_group_groups [simp]:
  "getGroups (fix_body (add_group lib f g m)) tag =
     (if tag = fld lib f then getGroups (fix_body m) tag @ [g] else getGroups (fix_body m) tag)"
  by (simp add: add_group_def)

lemma AddNoSecurity_read [simp]: "GetStringField lib (AddNoSecurity lib o1 m) = GetStringField lib m"
proof -
  have "GetStringField lib (fold (\<lambda>c. add_group lib f (g c)) xs m) = GetStringField lib m" for f g and xs :: "'b list"
    by (induction xs arbitrary: m) simp_all
  then show ?thesis by (simp add: AddNoSecurity_def)
qed

lemma AddNoSecurity_groups [simp]:
  "tag \<noteq> fld lib ''NoSecurity'' \<Longrightarrow> getGroups (fix_body (AddNoSecurity lib o1 m)) tag = getGroups (fix_body m) tag"
proof -
  have "tag \<noteq> fld lib f \<Longrightarrow>
      getGroups (fix_body (fold (\<lambda>c. add_group lib f (g c)) xs m)) tag = getGroups (fix_body m) tag"
    for f g and xs :: "'b list" by (induction xs arbitrary: m) simp_all
  then show "tag \<noteq> fld lib ''NoSecurity'' \<Longrightarrow> ?thesis" by (simp add: AddNoSecurity_def)
qed

lemma AddNoPartyIds_read [simp]: "GetStringField lib (AddNoPartyIds lib seat account branch m) = GetStringField lib m"
  by (simp add: AddNoPartyIds_def)

lemma party_group_read [simp]:
  "fix_lib_ok lib \<Longrightarrow> field_or lib (party_group lib party source role) ''PartyID'' x = party"
  "fix_lib_ok lib \<Longrightarrow> field_or lib (party_group lib party source role) ''PartyIDSource'' x = source"
  "fix_lib_ok lib \<Longrightarrow> field_or lib (party_group lib party source role) ''PartyRole'' x = role"
  by (simp_all add: field_or_def party_group_def)

lemma party_group_new [simp]: "party_group lib party source role \<noteq> FieldMap_new"
proof -
  have "getField (party_group lib party source role) (fld lib ''PartyRole'') \<noteq> getField FieldMap_new (fld lib ''PartyRole'')"
    unfolding getField_def [of FieldMap_new] by (simp add: party_group_def)
  then show ?thesis by auto
qed

lemma parties_read:
  assumes "fix_lib_ok lib" "getGroups b (fld lib ''NoPartyIDs'') =
     [party_group lib seat ''C'' ''27'', party_group lib seat ''C'' ''1'', party_group lib account ''5'' ''5'',
      party_group lib branch ''D'' ''4001'', party_group lib ''01'' ''F'' ''4'']"
  shows "GetNopartyIds lib b out = (0, seat, account, branch)"
  using assms by (simp add: GetNopartyIds_def read_party_def split: prod.splits)

lemma report_head_read [simp]:
  "fix_lib_ok lib \<Longrightarrow> GetStringField lib (report_head lib o1 m) (fld lib f) =
     (if f = ''MsgType'' then Some (strMsgType o1) else if f = ''SenderCompID'' then Some (strTargetCompID o1)
      else if f = ''TargetCompID'' then Some (strSenderCompID o1)
      else if f = ''BeginString'' then Some (strBeginString (stepFields o1)) else GetStringField lib m (fld lib f))"
  by (simp add: report_head_def)

lemma put_index_read [simp]:
  "fix_lib_ok (z_fix z) \<Longrightarrow> f \<noteq> ''PartitionNo'' \<Longrightarrow> GetStringField (z_fix z) (put_index z n part m) (fld (z_fix z) f) =
     (if f = ''ReportIndex'' then Some (itos n) else GetStringField (z_fix z) m (fld (z_fix z) f))"
  by (simp add: put_index_def Let_def)

lemma report_fields_read:
  assumes "fix_lib_ok lib"
  shows
    "GetStringField lib (report_fields lib o1 m) (fld lib ''ClOrdID'') = Some (strClordid o1)"
    "GetStringField lib (report_fields lib o1 m) (fld lib ''OrdStatus'') = Some (strOrdStatus o1)"
    "GetStringField lib (report_fields lib o1 m) (fld lib ''ExecType'') = Some (strExecType o1)"
    "GetStringField lib (report_fields lib o1 m) (fld lib ''LeavesQty'') = Some (itos (ui64LeavesQty o1) @ ''.00'')"
    "GetStringField lib (report_fields lib o1 m) (fld lib ''CumQty'') =
       Some (itos (ui64Orderqty_origin o1 - ui64LeavesQty o1) @ ''.00'')"
    "f \<in> {''MsgType'', ''SenderCompID'', ''TargetCompID'', ''ReportIndex''} \<Longrightarrow>
       GetStringField lib (report_fields lib o1 m) (fld lib f) = GetStringField lib m (fld lib f)"
  using assms by (auto simp: report_fields_def Let_def)

lemma report_groups [simp]:
  "getGroups (fix_body (report_head lib o1 m)) = getGroups (fix_body m)"
  "getGroups (fix_body (put_index z n part m)) = getGroups (fix_body m)"
  "getGroups (fix_body (report_fields lib o1 m)) = getGroups (fix_body m)"
  by (simp_all add: report_head_def put_index_def report_fields_def Let_def)

lemma FixMessage_new_groups [simp]: "getGroups (fix_body FixMessage_new) tag = []"
  by (simp add: FixMessage_new_def getGroups_def)

section \<open>Properties\<close>

text \<open>The order of a report that can be sent.\<close>

definition reportable :: "OrderMessage \<Rightarrow> bool" where
  "reportable o1 \<longleftrightarrow> strBeginString (stepFields o1) \<noteq> [] \<and> strSenderCompID o1 \<noteq> [] \<and> strTargetCompID o1 \<noteq> [] \<and>
     strMsgType o1 \<noteq> [] \<and> strApplID o1 \<noteq> [] \<and> strOwnerType (stepFields o1) \<noteq> [] \<and>
     strSecurity_seat (stepFields o1) \<noteq> [] \<and> strAccountId o1 \<noteq> [] \<and> strMarket_branchid o1 \<noteq> []"

lemma rep_msg_change_report [simp]:
  "p < length (heap (gw (front (acq s)))) \<Longrightarrow> rep_msg (change_report p f s) p = f (rep_msg s p)"
  by (simp add: change_report_def on_gw_def modify_msg_def)

lemma sz_conns_on_gw [simp]: "sz_conns (acq (on_gw f s)) = sz_conns (acq s)"
  "sz_conns (acq (change_report p h s)) = sz_conns (acq s)"
  by (simp_all add: on_gw_def change_report_def)

lemma report_index_facts:
  assumes "map_of (sz_conns a) client = Some c"
  obtains part a1 where "report_index v client a = (m_ui64ReportIndex c, part, a1)" "front a1 = front a"
    "map_of (sz_conns a1) client = Some (c\<lparr>m_ui64ReportIndex := m_ui64ReportIndex c + 1\<rparr>)"
  using assms by (auto simp: report_index_def GetRptIdex_def put_sz_conn_def)

lemma with_reject_reason_keeps [simp]:
  "strSecurity_seat (stepFields (with_reject_reason o1)) = strSecurity_seat (stepFields o1)"
  "strAccountId (with_reject_reason o1) = strAccountId o1" "strMarket_branchid (with_reject_reason o1) = strMarket_branchid o1"
  "strClordid (with_reject_reason o1) = strClordid o1" "ui64LeavesQty (with_reject_reason o1) = ui64LeavesQty o1"
  "ui64Orderqty_origin (with_reject_reason o1) = ui64Orderqty_origin o1"
  "strOrdStatus (with_reject_reason o1) = strOrdStatus o1" "strExecType (with_reject_reason o1) = strExecType o1"
  by (simp_all add: with_reject_reason_def)

text \<open>
  C11.  The report of an order is read back by the client as the order: a reportable order gives a
  message addressed to its sender, with the next index of the client, its order number, its state and
  what is left of it and done of it, whose parties are the seat, the account and the branch of the
  order; the index of the client is counted up by one.
\<close>

theorem order_report_readable:
  assumes "fix_lib_ok (z_fix z)" "reportable (rep_msg s p)" "p < length (heap (gw (front (acq s))))"
    "map_of (sz_conns (acq s)) (strSenderCompID (rep_msg s p)) = Some c"
  shows "\<exists>m s1. ProcMsgType_8_Report z p FixMessage_new s = (0, m, s1) \<and>
     (let o1 = rep_msg s p; got = (\<lambda>f. GetStringField (z_fix z) m (fld (z_fix z) f)) in
      got ''MsgType'' = Some (strMsgType o1) \<and>
      got ''SenderCompID'' = Some (strTargetCompID o1) \<and> got ''TargetCompID'' = Some (strSenderCompID o1) \<and>
      got ''ReportIndex'' = Some (itos (m_ui64ReportIndex c)) \<and> got ''ClOrdID'' = Some (strClordid o1) \<and>
      got ''OrdStatus'' = Some (strOrdStatus o1) \<and> got ''ExecType'' = Some (strExecType o1) \<and>
      got ''LeavesQty'' = Some (itos (ui64LeavesQty o1) @ ''.00'') \<and>
      got ''CumQty'' = Some (itos (ui64Orderqty_origin o1 - ui64LeavesQty o1) @ ''.00'') \<and>
      GetNopartyIds (z_fix z) (fix_body m) ([], [], []) =
        (0, strSecurity_seat (stepFields o1), strAccountId o1, strMarket_branchid o1) \<and>
      map_of (sz_conns (acq s1)) (strSenderCompID o1) = Some (c\<lparr>m_ui64ReportIndex := m_ui64ReportIndex c + 1\<rparr>))"
proof -
  obtain part a1 where ix: "report_index (g_bSZ_Step_ver110 z) (strSenderCompID (rep_msg s p)) (acq s) =
      (m_ui64ReportIndex c, part, a1)" "front a1 = front (acq s)"
    "map_of (sz_conns a1) (strSenderCompID (rep_msg s p)) = Some (c\<lparr>m_ui64ReportIndex := m_ui64ReportIndex c + 1\<rparr>)"
    by (rule report_index_facts [OF assms(4)])
  show ?thesis
    using assms ix
    by (simp add: ProcMsgType_8_Report_def reportable_def Let_def report_fields_read)
      (rule parties_read, simp, simp add: AddNoPartyIds_def)
qed

text \<open>What one report leaves as it is: the messages sent, and the queues of reports.\<close>

abbreviation out_buffer :: "'r Rep \<Rightarrow> OutMemoryManage" where
  "out_buffer s \<equiv> g_outMsg_buffer (gw (front (acq s)))"

definition keeps_out :: "'r Rep \<Rightarrow> 'r Rep \<Rightarrow> bool" where
  "keeps_out s s1 \<longleftrightarrow> sent s1 = sent s \<and> out_buffer s1 = out_buffer s"

lemma keeps_out_trans [trans]: "keeps_out s s1 \<Longrightarrow> keeps_out s1 s2 \<Longrightarrow> keeps_out s s2"
  by (simp add: keeps_out_def)

lemma keeps_out_report_index [simp]:
  "report_index v c a = (n, part, a1) \<Longrightarrow> front a1 = front a"
  by (auto simp: report_index_def GetRptIdex_def put_sz_conn_def split: option.splits list.splits if_splits)

lemma keeps_out_simps [simp]:
  "keeps_out s s" "keeps_out s (s\<lparr>recorded := rs\<rparr>)" "keeps_out s (s\<lparr>cnt_MatchCancel := n\<rparr>)" "keeps_out s (s\<lparr>cnt_Error := n\<rparr>)"
  "keeps_out s (change_report p f s)" "keeps_out s (on_gw (set_exec_ids env p) s)"
  "keeps_out s (record_event e p s)" "keeps_out s (RecordReportToDb p s)"
  "front a1 = front (acq s) \<Longrightarrow> keeps_out s (s\<lparr>acq := a1\<rparr>)"
  by (simp_all add: keeps_out_def change_report_def on_gw_def modify_msg_def record_event_def RecordReportToDb_def
      set_exec_ids_def ExRandom15_def Let_def)

lemma ProcMsgType_keeps_out:
  "ProcMsgType_8_Report z p m s = (r, m1, s1) \<Longrightarrow> keeps_out s s1"
  "ProcMsgType_9_Report z p m s = (r, m1, s1) \<Longrightarrow> keeps_out s s1"
proof -
  have acq: "report_index v c (acq s) = (n, part, a1) \<Longrightarrow> keeps_out s (change_report p f (s\<lparr>acq := a1\<rparr>))"
    for v c n part f and a1
    by (rule keeps_out_trans [of _ "s\<lparr>acq := a1\<rparr>"]) simp_all
  show "ProcMsgType_8_Report z p m s = (r, m1, s1) \<Longrightarrow> keeps_out s s1"
    by (auto simp: ProcMsgType_8_Report_def Let_def acq split: prod.splits if_splits)
  show "ProcMsgType_9_Report z p m s = (r, m1, s1) \<Longrightarrow> keeps_out s s1"
    by (auto simp: ProcMsgType_9_Report_def Let_def split: prod.splits if_splits)
qed

lemma SzStep_ReplaceWord_out:
  "SzStep_ReplaceWord z seat account w o1 a = (r, v, a1) \<Longrightarrow>
   g_outMsg_buffer (gw (front a1)) = g_outMsg_buffer (gw (front a))"
  by (auto simp: SzStep_ReplaceWord_def next_exec_id_def ExRandom15_def Let_def split: if_splits prod.splits option.splits)

lemma resolve_text_out:
  "resolve_text z seat account main o1 tag t m a = Some (r, m1, a1) \<Longrightarrow>
   g_outMsg_buffer (gw (front a1)) = g_outMsg_buffer (gw (front a))"
  by (auto simp: resolve_text_def Let_def dest: SzStep_ReplaceWord_out split: if_splits prod.splits option.splits)

lemma resolve_out:
  "resolve_members z seat account main o1 ms m a = Some (r, m1, a1) \<Longrightarrow>
     g_outMsg_buffer (gw (front a1)) = g_outMsg_buffer (gw (front a))"
  "resolve_groups z seat account o1 tag es m a = Some (r, m1, a1) \<Longrightarrow>
     g_outMsg_buffer (gw (front a1)) = g_outMsg_buffer (gw (front a))"
proof (induction z seat account main o1 ms m a and z seat account o1 tag es m a
    arbitrary: r m1 a1 and r m1 a1 rule: resolve_members_resolve_groups.induct)
  case (2 z seat account main o1 name v ms m s)
  obtain iTranRes tag where k: "String2Int_atoi (c_str name) = (iTranRes, tag)" by fastforce
  show ?case
  proof (cases "iTranRes = 0")
    case False
    then show ?thesis using "2.prems" "2.IH"(1) [OF k [symmetric]] k by simp
  next
    case True
    let ?one = "case v of JStr t \<Rightarrow> resolve_text z seat account main o1 tag (c_str t) m s
        | JArr es \<Rightarrow> resolve_groups z seat account o1 tag es m s | _ \<Rightarrow> Some (0, m, s)"
    obtain q m2 s2 where one: "?one = Some (q, m2, s2)"
      using "2.prems" k True by (auto split: option.splits)
    have "g_outMsg_buffer (gw (front s2)) = g_outMsg_buffer (gw (front s))"
    proof (cases v)
      case (JStr t)
      then show ?thesis using one by (simp add: resolve_text_out)
    next
      case (JArr es)
      have "\<not> iTranRes \<noteq> 0" using True by simp
      from "2.IH"(2) [OF k [symmetric] this JArr] JArr one show ?thesis by simp
    qed (use one in simp_all)
    moreover have "g_outMsg_buffer (gw (front a1)) = g_outMsg_buffer (gw (front s2))"
      using "2.prems" k True one "2.IH"(3) [OF k [symmetric] _ one refl refl] by (simp split: if_splits)
    ultimately show ?thesis by simp
  qed
next
  case (4 z seat account o1 tag e es m s)
  from "4.prems" obtain sub ms where e: "e = JObj (sub # ms)" by (auto split: json.splits list.splits)
  with "4.prems" obtain q g s2 where one: "resolve_members z seat account False o1 (sub # ms) FixMessage_new s = Some (q, g, s2)"
    by (auto split: option.splits)
  have s2: "g_outMsg_buffer (gw (front s2)) = g_outMsg_buffer (gw (front s))" by (rule "4.IH"(1) [OF e refl one])
  show ?case
  proof (cases "q = 0")
    case True
    with "4.prems" e one have "resolve_groups z seat account o1 tag es
        (m\<lparr>fix_body := addGroup tag (fix_body g) (fix_body m)\<rparr>) s2 = Some (r, m1, a1)" by simp
    with "4.IH"(2) [OF e refl one refl refl] True s2 show ?thesis by simp
  qed (use "4.prems" e one s2 in simp)
qed auto

lemma SzStep_ResolveRule_out:
  "SzStep_ResolveRule z ms o1 m a = (e, m1, a1) \<Longrightarrow> g_outMsg_buffer (gw (front a1)) = g_outMsg_buffer (gw (front a))"
  by (auto simp: SzStep_ResolveRule_def Let_def dest!: resolve_out split: prod.splits if_splits option.splits)

lemma resolved_out:
  "resolved (SzStep_ResolveRule z ms o1 m (acq s)) s = Some (r, m1, s1) \<Longrightarrow> keeps_out s s1"
  by (auto simp: resolved_def keeps_out_def dest: SzStep_ResolveRule_out split: prod.splits outcome.splits)

lemma JsonRule_keeps_out:
  "ProcMsgType_8_Confirm_JsonRule z r p m s = Some (n, m1, s1) \<Longrightarrow> keeps_out s s1"
  "ProcMsgType_8_Report_JsonRule z r p m s = Some (n, m1, s1) \<Longrightarrow> keeps_out s s1"
  by (auto simp: ProcMsgType_8_Confirm_JsonRule_def ProcMsgType_8_Report_JsonRule_def
      split: json.splits list.splits dest: resolved_out)

lemma Proc_keeps_out:
  "ProcSingleReport z rules p m s = Some (r, m1, s1) \<Longrightarrow> keeps_out s s1"
  "ProcSZCancelOrder z p m s = (r, m1, s1) \<Longrightarrow> keeps_out s s1"
  "ProcSZErrorOrder z p m s = (r, m1, s1) \<Longrightarrow> keeps_out s s1"
  "ProcSZConfirmOrder z rules p m s = Some (r, m1, s1) \<Longrightarrow> keeps_out s s1"
proof -
  have pre: "keeps_out s s1" if "ProcMsgType_8_Report z p m s0 = (r, m1, s1) \<or> ProcMsgType_9_Report z p m s0 = (r, m1, s1)"
      and "keeps_out s s0" for s0 s1 r m1
    using that ProcMsgType_keeps_out keeps_out_trans by blast
  have trade: "keeps_out s (on_gw f (WriteTransInfoInDb p s))" if "\<And>s :: 'a Rep. keeps_out s (on_gw f s)" for f
    using keeps_out_trans [OF _ that] by (simp add: WriteTransInfoInDb_def)
  have last: "keeps_out s (WriteTransInfoInDb_Error p s1)" if "keeps_out s s1" for s1
    using keeps_out_trans [OF that] by (simp add: WriteTransInfoInDb_Error_def)
  have ids: "keeps_out s (on_gw (set_exec_ids (z_env z) p) s)" for s :: "'a Rep" by simp
  show "keeps_out s s1" if "ProcSingleReport z rules p m s = Some (r, m1, s1)"
  proof -
    from that obtain q where "ProcMsgType_8_Report z p m (on_gw (set_exec_ids (z_env z) p) (WriteTransInfoInDb p s)) = (q, m1, s1) \<or>
        (\<exists>rule. ProcMsgType_8_Report_JsonRule z rule p m s = Some (q, m1, s1)) \<or> s1 = s"
      by (auto simp: ProcSingleReport_def Let_def split: if_split_asm option.splits)
    then show ?thesis using pre [OF disjI1 trade [OF ids]] JsonRule_keeps_out(2) by auto
  qed
  show "keeps_out s s1" if "ProcSZConfirmOrder z rules p m s = Some (r, m1, s1)"
  proof -
    from that obtain q where "ProcMsgType_8_Report z p m (on_gw (set_exec_ids (z_env z) p) s) = (q, m1, s1) \<or>
        (\<exists>rule. ProcMsgType_8_Confirm_JsonRule z rule p m s = Some (q, m1, s1)) \<or> s1 = s"
      by (auto simp: ProcSZConfirmOrder_def Let_def split: if_split_asm option.splits)
    then show ?thesis using pre [OF disjI1 ids] JsonRule_keeps_out(1) by auto
  qed
  show "ProcSZCancelOrder z p m s = (r, m1, s1) \<Longrightarrow> keeps_out s s1"
    by (auto simp: ProcSZCancelOrder_def Let_def WriteTransInfoInDb_CancelSuccess_def WriteTransInfoInDb_CancelFail_def
        split: if_splits intro: pre)
  show "ProcSZErrorOrder z p m s = (r, m1, s1) \<Longrightarrow> keeps_out s s1"
    by (auto simp: ProcSZErrorOrder_def split: prod.splits if_splits intro!: last intro: pre)
qed

lemma report_one_keeps_out:
  assumes "report_one z rules p s = Some (r, m, s1)"
  shows "keeps_out s s1"
proof -
  have inc: "keeps_out s (s2\<lparr>cnt_MatchCancel := n\<rparr>)" "keeps_out s (s2\<lparr>cnt_Error := n\<rparr>)" if "keeps_out s s2" for s2 n
    using that by (simp_all add: keeps_out_def)
  have chg: "keeps_out s s2" if "keeps_out (change_report p f s) s2" for s2 f
    using keeps_out_trans [OF _ that] by simp
  show ?thesis
    using assms
    by (auto simp: report_one_def split: MatchType.splits prod.splits if_splits
        dest: Proc_keeps_out(1) Proc_keeps_out(2,3) intro: inc chg [OF Proc_keeps_out(4)])
qed

definition client_queue :: "OutMemoryManage \<Rightarrow> string \<Rightarrow> msgref list" where
  "client_queue b k = (case m_sz_Buffer b k of None \<Rightarrow> [] | Some q \<Rightarrow> q)"

definition taken_at_most_one :: "string set \<Rightarrow> 'r Rep \<Rightarrow> 'r Rep \<Rightarrow> bool" where
  "taken_at_most_one ks s s1 \<longleftrightarrow>
     (\<forall>k. client_queue (out_buffer s1) k = client_queue (out_buffer s) k \<or>
          k \<in> ks \<and> client_queue (out_buffer s1) k = tl (client_queue (out_buffer s) k))"

definition sent_at_most_one :: "int \<Rightarrow> 'r Rep \<Rightarrow> 'r Rep \<Rightarrow> bool" where
  "sent_at_most_one r s s1 \<longleftrightarrow> sent s1 = sent s \<or> r = 0 \<and> (\<exists>m. sent s1 = sent s @ [m])"

lemma PopFront_sz_queue:
  assumes "OutMemoryManage_PopFront_sz k b = (r, x, b1)"
  shows "client_queue b1 j = (if j = k then tl (client_queue b j) else client_queue b j) \<or> b1 = b"
    "x = Some p \<Longrightarrow> \<exists>q. client_queue b k = p # q"
  using assms
  by (auto simp: OutMemoryManage_PopFront_sz_def MemoryStoreCell_PopFront_def client_queue_def
      split: if_splits option.splits list.splits)

lemma taken_step:
  assumes "k \<notin> ks" "OutMemoryManage_PopFront_sz k (out_buffer s) = (r, x, b1)" "out_buffer s2 = b1"
    "taken_at_most_one ks s2 s1"
  shows "taken_at_most_one (insert k ks) s s1"
  unfolding taken_at_most_one_def
proof (rule allI)
  fix j
  show "client_queue (out_buffer s1) j = client_queue (out_buffer s) j \<or>
      j \<in> insert k ks \<and> client_queue (out_buffer s1) j = tl (client_queue (out_buffer s) j)"
    using assms(1,4) PopFront_sz_queue(1) [OF assms(2), of j] unfolding taken_at_most_one_def assms(3)
    by (cases "j = k") (auto split: if_splits dest: spec [of _ j])
qed

lemma taken_keeps:
  "keeps_out s s2 \<Longrightarrow> taken_at_most_one ks s2 s1 \<Longrightarrow> taken_at_most_one (insert k ks) s s1"
  "taken_at_most_one ks s s"
  by (auto simp: taken_at_most_one_def keeps_out_def)

lemma keeps_out_look_up [simp]: "keeps_out s (look_up_client k c s)"
  by (simp add: look_up_client_def keeps_out_def GetRptIdex_def Let_def put_sz_conn_def)

lemma sent_send_report [simp]:
  "sent (send_report m p s) = sent s @ [m]" "acq (send_report m p s) = acq s"
  by (simp_all add: send_report_def Let_def)

lemma send_loop_one:
  "send_loop z rules ks s = Some (r, s1) \<Longrightarrow> distinct ks \<Longrightarrow>
   taken_at_most_one (set ks) s s1 \<and> sent_at_most_one r s s1"
proof (induction ks arbitrary: s)
  case Nil
  then show ?case by (simp add: taken_at_most_one_def sent_at_most_one_def)
next
  case (Cons k ks)
  have k: "k \<notin> set ks" "distinct ks" using Cons.prems by simp_all
  have go: "taken_at_most_one (set (k # ks)) s s1 \<and> sent_at_most_one r s s1"
    if "keeps_out s s2" "send_loop z rules ks s2 = Some (r, s1)" for s2
    using that(1) Cons.IH [OF that(2) k(2)] taken_keeps(1) [OF that(1)] by (auto simp: keeps_out_def sent_at_most_one_def)
  show ?case
  proof (cases "map_of (sz_conns (acq s)) k")
    case None
    then show ?thesis using Cons.prems(1) go [of s] by simp
  next
    case (Some c)
    note c = this
    consider (on) "m_bLogOn c \<and> m_bReportSyn c" | (wait) "\<not> (m_bLogOn c \<and> m_bReportSyn c)" "m_bLogOn c" | (off) "\<not> m_bLogOn c" by blast
    then show ?thesis
    proof cases
      case on
      obtain iPop x b where pop: "OutMemoryManage_PopFront_sz k (out_buffer s) = (iPop, x, b)" by (metis prod_cases3)
      define s2 where "s2 = on_gw (\<lambda>g. g\<lparr>g_outMsg_buffer := b\<rparr>) s"
      have s2: "out_buffer s2 = b" "sent s2 = sent s" by (simp_all add: s2_def on_gw_def)
      have taken: "taken_at_most_one (set (k # ks)) s s1"
        if "keeps_out s2 s3" "taken_at_most_one (set ks) s3 s1" for s3
        using taken_step [OF k(1) pop _ that(2)] that(1) s2 by (simp add: keeps_out_def)
      have stop: "taken_at_most_one (set (k # ks)) s s2" if "keeps_out s2 s3" "out_buffer s1 = out_buffer s3" for s3
        using taken_step [OF k(1) pop s2(1) taken_keeps(2)] by simp
      have next1: "taken_at_most_one (set (k # ks)) s s1 \<and> sent_at_most_one r s s1"
        if "keeps_out s2 s3" "send_loop z rules ks s3 = Some (r, s1)" for s3
        using taken [OF that(1)] Cons.IH [OF that(2) k(2)] that(1) s2 by (auto simp: keeps_out_def sent_at_most_one_def)
      have end1: "taken_at_most_one (set (k # ks)) s s1 \<and> sent_at_most_one r s s1"
        if "keeps_out s2 s3" "s1 = s3 \<or> r = 0 \<and> (\<exists>m p. s1 = send_report m p s3)" for s3
        using taken [OF that(1)] stop [OF that(1)] that s2 taken_keeps(2) [of "set ks" s1]
        by (auto simp: keeps_out_def sent_at_most_one_def taken_at_most_one_def)
      note body = Cons.prems(1) [unfolded send_loop.simps c option.simps if_P [OF on] pop prod.case Let_def s2_def [symmetric]]
      show ?thesis
      proof (cases "iPop = 0")
        case False
        then show ?thesis using body next1 [of s2] end1 [of s2] by (auto split: if_splits)
      next
        case True
        show ?thesis
        proof (cases x)
          case None
          then show ?thesis using True body next1 [of s2] by simp
        next
          case (Some p)
          with True body obtain i m s3 where one: "report_one z rules p (RecordReportToDb p s2) = Some (i, m, s3)"
            by (auto split: option.splits)
          have "keeps_out s2 s3" using keeps_out_trans [OF keeps_out_simps(8) report_one_keeps_out [OF one]] .
          with True Some one body next1 [of s3] end1 [of s3] show ?thesis by (auto split: if_splits)
        qed
      qed
    next
      case wait
      then show ?thesis using Cons.prems(1) c go [of "look_up_client k c s"] by simp
    next
      case off
      then show ?thesis using Cons.prems(1) c go [of s] by simp
    qed
  qed
qed

text \<open>
  C14.  One call of \<open>Send_SZReport\<close> sends at most one message, and only when it returns 0, and takes at
  most one report from the queue of each client; what is in the queues stays in order, and the queue of
  Shanghai is not touched by a client's name.  A report that is taken and not sent is lost.
\<close>

theorem one_report_per_call:
  assumes "Send_SZReport z rules s = Some (r, s1)" "omap_wf (sz_conns (acq s))"
  shows "(sent s1 = sent s \<or> r = 0 \<and> (\<exists>m. sent s1 = sent s @ [m])) \<and>
     (\<forall>k. client_queue (out_buffer s1) k = client_queue (out_buffer s) k \<or>
        k \<in> fst ` set (sz_conns (acq s)) \<and> client_queue (out_buffer s1) k = tl (client_queue (out_buffer s) k))"
proof -
  have one: "taken_at_most_one (fst ` set (sz_conns (acq s))) s s1 \<and> sent_at_most_one r s s1"
    using send_loop_one [OF assms(1) [unfolded Send_SZReport_def] omap_wf_distinct [OF assms(2)]] by (simp only: set_map)
  show ?thesis
    by (rule conjI) (rule one [THEN conjunct2, unfolded sent_at_most_one_def],
      rule one [THEN conjunct1, unfolded taken_at_most_one_def])
qed

lemma rep_msg_set_exec_ids:
  assumes "p < length (heap (gw (front (acq s))))"
  obtains i where "rep_msg (on_gw (set_exec_ids env p) s) p = (rep_msg s p)\<lparr>strExecID := i, strOrderID := i\<rparr>"
proof
  show "rep_msg (on_gw (set_exec_ids env p) s) p =
      (rep_msg s p)\<lparr>strExecID := fst (ExRandom15 env (gw (front (acq s)))), strOrderID := fst (ExRandom15 env (gw (front (acq s))))\<rparr>"
    using assms by (simp add: on_gw_def set_exec_ids_def ExRandom15_def modify_msg_def Let_def)
qed

lemma rep_msg_records [simp]:
  "rep_msg (record_event e p s) q = rep_msg s q" "rep_msg (RecordReportToDb p s) q = rep_msg s q"
  "sz_conns (acq (record_event e p s)) = sz_conns (acq s)" "sz_conns (acq (RecordReportToDb p s)) = sz_conns (acq s)"
  "heap (gw (front (acq (RecordReportToDb p s)))) = heap (gw (front (acq s)))"
  by (simp_all add: record_event_def RecordReportToDb_def on_gw_def)

lemma incomplete_report:
  assumes "strOwnerType (stepFields (rep_msg s p)) = []" "p < length (heap (gw (front (acq s))))"
    "strTrade_market (rep_msg s p) = TRADE_MARKET_SZ" "ui64RuleId (tradePolicy (rep_msg s p)) = 0"
    "strBeginString (stepFields (rep_msg s p)) \<noteq> []" "strSenderCompID (rep_msg s p) = k" "k \<noteq> []"
    "strTargetCompID (rep_msg s p) \<noteq> []" "strMsgType (rep_msg s p) \<noteq> []"
    "enMatchType (rep_msg s p) \<in> {MatchAll, MatchPart}"
    "map_of (sz_conns (acq s)) k = Some c"
  obtains m s1 where "report_one z rules p s = Some (Some (-1), m, s1)"
    "map_of (sz_conns (acq s1)) k = Some (c\<lparr>m_ui64ReportIndex := m_ui64ReportIndex c + 1\<rparr>)"
proof -
  let ?w = "WriteTransInfoInDb p s"
  let ?s = "on_gw (set_exec_ids (z_env z) p) ?w"
  have w: "rep_msg ?w p = rep_msg s p" "p < length (heap (gw (front (acq ?w))))"
    using assms(2) by (simp_all add: WriteTransInfoInDb_def record_event_def)
  obtain i where i: "rep_msg ?s p = (rep_msg s p)\<lparr>strExecID := i, strOrderID := i\<rparr>"
    using rep_msg_set_exec_ids [OF w(2)] w(1) by metis
  have "map_of (sz_conns (acq ?s)) k = Some c" using assms(11) by (simp add: WriteTransInfoInDb_def)
  then obtain part a1 where ix: "report_index (g_bSZ_Step_ver110 z) k (acq ?s) = (m_ui64ReportIndex c, part, a1)"
    "map_of (sz_conns a1) k = Some (c\<lparr>m_ui64ReportIndex := m_ui64ReportIndex c + 1\<rparr>)"
    by (rule report_index_facts)
  obtain m where "ProcMsgType_8_Report z p FixMessage_new ?s = (-1, m, ?s\<lparr>acq := a1\<rparr>)"
    using assms i ix(1) by (simp add: ProcMsgType_8_Report_def Let_def)
  then have "ProcSingleReport z rules p FixMessage_new s = Some (-1, m, ?s\<lparr>acq := a1\<rparr>)"
    using assms(3,4) by (simp add: ProcSingleReport_def Let_def)
  then have "report_one z rules p s = Some (Some (-1), m, ?s\<lparr>acq := a1\<rparr>)"
    using assms(10) by (auto simp: report_one_def)
  with ix(2) show ?thesis by (auto intro: that)
qed

text \<open>
  A report that cannot be made is lost: when the order of the next report of the only client has
  no owner type, the report is taken from its queue, the client's index is counted up, nothing is
  sent, and the call says that there was no report.
\<close>

theorem incomplete_report_lost:
  assumes "sz_conns (acq s) = [(k, c)]" "k \<noteq> []" "m_bLogOn c" "m_bReportSyn c"
    "m_sz_Buffer (out_buffer s) k = Some (p # q)" "p < length (heap (gw (front (acq s))))"
    "enMatchType (rep_msg s p) \<in> {MatchAll, MatchPart}" "strTrade_market (rep_msg s p) = TRADE_MARKET_SZ"
    "ui64RuleId (tradePolicy (rep_msg s p)) = 0" "strSenderCompID (rep_msg s p) = k"
    "strBeginString (stepFields (rep_msg s p)) \<noteq> []" "strTargetCompID (rep_msg s p) \<noteq> []"
    "strMsgType (rep_msg s p) \<noteq> []" "strOwnerType (stepFields (rep_msg s p)) = []"
  shows "\<exists>s1. Send_SZReport z rules s = Some (1, s1) \<and> sent s1 = sent s \<and> client_queue (out_buffer s1) k = q \<and>
     map_of (sz_conns (acq s1)) k = Some (c\<lparr>m_ui64ReportIndex := m_ui64ReportIndex c + 1\<rparr>)"
proof -
  define b where "b = (out_buffer s)\<lparr>m_sz_Buffer := (m_sz_Buffer (out_buffer s))(k \<mapsto> q)\<rparr>"
  define s2 where "s2 = on_gw (\<lambda>g. g\<lparr>g_outMsg_buffer := b\<rparr>) s"
  have pop: "OutMemoryManage_PopFront_sz k (out_buffer s) = (0, Some p, b)"
    using assms(2,5) by (simp add: OutMemoryManage_PopFront_sz_def MemoryStoreCell_PopFront_def b_def)
  have s2: "rep_msg s2 p = rep_msg s p" "heap (gw (front (acq s2))) = heap (gw (front (acq s)))"
      "sz_conns (acq s2) = sz_conns (acq s)" "sent s2 = sent s" "out_buffer s2 = b"
    by (simp_all add: s2_def on_gw_def)
  obtain m s3 where one: "report_one z rules p (RecordReportToDb p s2) = Some (Some (-1), m, s3)"
      "map_of (sz_conns (acq s3)) k = Some (c\<lparr>m_ui64ReportIndex := m_ui64ReportIndex c + 1\<rparr>)"
    by (rule incomplete_report [where s = "RecordReportToDb p s2" and p = p and k = k and c = c]) (use assms s2 in simp_all)
  have "keeps_out s2 s3" using keeps_out_trans [OF keeps_out_simps(8) report_one_keeps_out [OF one(1)]] .
  then have "sent s3 = sent s" "client_queue (out_buffer s3) k = q"
    using s2 by (simp_all add: keeps_out_def client_queue_def b_def)
  moreover have "Send_SZReport z rules s = Some (1, s3)"
    using assms(1,3,4) pop one(1) by (simp add: Send_SZReport_def s2_def [symmetric])
  ultimately show ?thesis using one(2) by blast
qed

section \<open>The properties at sample values\<close>

definition sample_report :: "string \<Rightarrow> OrderMessage" where
  "sample_report owner = OrderMessage_new\<lparr>enMatchType := MatchAll, strTrade_market := TRADE_MARKET_SZ,
     strSenderCompID := ''C1'', strTargetCompID := ''GW'', strMsgType := ''8'', strApplID := ''010'', strAccountId := ''A1'',
     strMarket_branchid := ''B1'', ui64Orderqty_origin := 300, ui64LeavesQty := 100,
     stepFields := StepFields_new\<lparr>strBeginString := ''STEP'', strOwnerType := owner, strSecurity_seat := ''S1''\<rparr>\<rparr>"

definition sample_link :: SzConnection where
  "sample_link = LogOn (SetRptIdx 5 SzConnection_new)"

definition sample_rep :: "string \<Rightarrow> (string \<Rightarrow> string option) Rep" where
  "sample_rep owner = \<lparr>acq = \<lparr>front = \<lparr>gw = (sample_gw [sample_report owner])\<lparr>g_outMsg_buffer :=
       \<lparr>m_sz_Buffer = [''C1'' \<mapsto> [0]], m_sh_Buffer = []\<rparr>\<rparr>,
       g_mapSzConns = Map.empty, confirm_sz = 0, confirm_sh = 0, fix_rejects = [], g_inMsg_buffer = [],
       g_mtskPool_valid = [], valid_tasks = Map.empty\<rparr>,
     sz_conns = [(''C1'', sample_link)], sh_conns = [], executed = [], received_sz = 0, received_sh = 0,
     link_received = (\<lambda>c. 0)\<rparr>, sent = [], recorded = [], cnt_MatchCancel = 0, cnt_Error = 0, link_sent = (\<lambda>c. 0)\<rparr>"

definition sample_words :: "(int, string \<Rightarrow> string option) sz_words" where
  "sample_words = \<lparr>z_ops = cent_ops, z_fix = sample_fix_lib, z_env = sample_env,
     z_clock = \<lparr>time_YYYYMMDD = [], time_C8 = [], time_C6 = [], time_fixmsg = []\<rparr>, g_bSZ_Step_ver110 = False\<rparr>"

lemma sample_rep_facts:
  "rep_msg (sample_rep owner) 0 = sample_report owner" "length (heap (gw (front (acq (sample_rep owner))))) = 1"
  "sz_conns (acq (sample_rep owner)) = [(''C1'', sample_link)]" "out_buffer (sample_rep owner) = \<lparr>m_sz_Buffer = [''C1'' \<mapsto> [0]], m_sh_Buffer = []\<rparr>"
  "m_bLogOn sample_link" "m_bReportSyn sample_link" "m_ui64ReportIndex sample_link = 5" "z_fix sample_words = sample_fix_lib"
  by (simp_all add: sample_rep_def sample_gw_def sample_link_def LogOn_def SetRptIdx_def sample_words_def)

theorem order_report_readable_witness:
  "\<exists>m s1. ProcMsgType_8_Report sample_words 0 FixMessage_new (sample_rep ''1'') = (0, m, s1) \<and>
     GetStringField sample_fix_lib m (fld sample_fix_lib ''ReportIndex'') = Some (itos 5) \<and>
     GetNopartyIds sample_fix_lib (fix_body m) ([], [], []) = (0, ''S1'', ''A1'', ''B1'')"
proof -
  have a: "fix_lib_ok (z_fix sample_words)" by (simp add: sample_rep_facts sample_fix_lib_ok)
  have b: "reportable (rep_msg (sample_rep ''1'') 0)"
    by (simp add: sample_rep_facts reportable_def sample_report_def StepFields_new_def)
  have c: "map_of (sz_conns (acq (sample_rep ''1''))) (strSenderCompID (rep_msg (sample_rep ''1'') 0)) = Some sample_link"
    by (simp add: sample_rep_facts sample_report_def)
  have d: "strSecurity_seat (stepFields (sample_report ''1'')) = ''S1''" "strAccountId (sample_report ''1'') = ''A1''"
    "strMarket_branchid (sample_report ''1'') = ''B1''" by (simp_all add: sample_report_def)
  have len: "0 < length (heap (gw (front (acq (sample_rep ''1'')))))" by (simp add: sample_rep_facts)
  show ?thesis
    using order_report_readable [OF a b len c] unfolding sample_rep_facts d Let_def
    by (elim exE conjE) (intro exI conjI; assumption)
qed

lemma sample_incomplete:
  assumes "owner = []"
  shows "strOwnerType (stepFields (sample_report owner)) = []" "enMatchType (sample_report owner) = MatchAll"
    "strTrade_market (sample_report owner) = TRADE_MARKET_SZ" "ui64RuleId (tradePolicy (sample_report owner)) = 0"
    "strBeginString (stepFields (sample_report owner)) = ''STEP''" "strSenderCompID (sample_report owner) = ''C1''"
    "strTargetCompID (sample_report owner) = ''GW''" "strMsgType (sample_report owner) = ''8''"
  using assms by (simp_all add: sample_report_def OrderMessage_new_def TradePolicyCell_new_def)

theorem incomplete_report_lost_witness:
  "\<exists>s1. Send_SZReport sample_words (\<lambda>i. MATCH_RULE_new) (sample_rep []) = Some (1, s1) \<and> sent s1 = [] \<and>
     client_queue (out_buffer s1) ''C1'' = []"
proof -
  have "sent (sample_rep []) = []" by (simp add: sample_rep_def)
  then show ?thesis
    using incomplete_report_lost [where s = "sample_rep []" and z = sample_words and k = "''C1''" and c = sample_link
        and p = 0 and q = "[]" and rules = "\<lambda>i. MATCH_RULE_new"]
    by (auto simp: sample_rep_facts sample_incomplete)
qed

lemma sample_sent:
  "\<exists>r s1. Send_SZReport sample_words (\<lambda>i. MATCH_RULE_new) (sample_rep []) = Some (r, s1)"
proof -
  have r: "report_one sample_words rules p s \<noteq> None" if "enMatchType (rep_msg s p) = MatchAll" "ui64RuleId (tradePolicy (rep_msg s p)) = 0"
    for rules p and s :: "(string \<Rightarrow> string option) Rep"
    using that by (auto simp: report_one_def ProcSingleReport_def Let_def split: prod.splits)
  obtain b where pop: "OutMemoryManage_PopFront_sz ''C1'' (out_buffer (sample_rep [])) = (0, Some 0, b)"
    by (simp add: sample_rep_facts OutMemoryManage_PopFront_sz_def MemoryStoreCell_PopFront_def)
  define s2 where "s2 = on_gw (g_outMsg_buffer_update (\<lambda>_. b)) (sample_rep [])"
  have "rep_msg s2 0 = sample_report []" by (simp add: s2_def on_gw_def sample_rep_facts)
  then obtain i m s3 where "report_one sample_words (\<lambda>i. MATCH_RULE_new) 0 (RecordReportToDb 0 s2) = Some (i, m, s3)"
    using r [of "RecordReportToDb 0 s2" 0 "\<lambda>i. MATCH_RULE_new"] by (auto simp: sample_incomplete)
  then show ?thesis
    by (simp add: Send_SZReport_def sample_rep_facts(3,5,6) pop s2_def [symmetric] Let_def)
qed

theorem one_report_per_call_witness:
  "\<exists>r s1. Send_SZReport sample_words (\<lambda>i. MATCH_RULE_new) (sample_rep []) = Some (r, s1) \<and> length (sent s1) \<le> 1"
proof -
  obtain r s1 where s: "Send_SZReport sample_words (\<lambda>i. MATCH_RULE_new) (sample_rep []) = Some (r, s1)"
    using sample_sent by blast
  have "omap_wf (sz_conns (acq (sample_rep [])))" "sent (sample_rep []) = []"
    by (simp_all add: sample_rep_facts omap_wf_def) (simp add: sample_rep_def)
  with one_report_per_call [OF s] s show ?thesis by (auto simp del: sample_rep_facts)
qed

end
