(* ===== verification/FixAcceptor.thy ===== *)
theory FixAcceptor
  imports FixReport
begin

text \<open>
  The entry points of the FIX acceptor, \<open>simutgw/stgw_fix_acceptor/StgwApplication.cpp\<close> and
  \<open>StgwMsgHelper.cpp\<close>, and the configured answers, \<open>StgwMockerResponse.cpp\<close> and
  \<open>MockerResponseManager.cpp\<close>: an order is answered by the messages of a JSON file named after its
  application, with words replaced by values of the order.  The call of the answers in
  \<open>ProcAppMsg\<close> is commented out, so that no message of a client reaches them; they are modelled as
  the operation \<open>Mocker_Response\<close> of its own.  The files and the JSON parser are parameters.
\<close>

section \<open>State\<close>

record 'r Fix =
  rep :: "'r Rep"
  m_Responses :: "(string, string) omap"

text \<open>What the acceptor reads: the files, the JSON parser, the protocol's constants.\<close>

record ('d, 'r) fix_env =
  f_words :: "('d, 'r) sz_words"
  f_acq :: acq_env
  f_file :: "string \<Rightarrow> string option"
  f_parse :: "string \<Rightarrow> json option"
  MsgType_ReportSynchronization :: string
  MsgType_PlatformStateInfo :: string
  MsgType_PlatformInfo :: string

definition on_acq :: "('r Acq \<Rightarrow> 'r Acq) \<Rightarrow> 'r Fix \<Rightarrow> 'r Fix" where
  "on_acq f s = s\<lparr>rep := (rep s)\<lparr>acq := f (acq (rep s))\<rparr>\<rparr>"

definition SendFIXMessage :: "FixMessage \<Rightarrow> 'r Fix \<Rightarrow> 'r Fix" where
  "SendFIXMessage m s = s\<lparr>rep := (rep s)\<lparr>sent := sent (rep s) @ [m]\<rparr>\<rparr>"

section \<open>Sessions\<close>

text \<open>\<open>find\<close> of a text in a text.\<close>

fun contains :: "string \<Rightarrow> string \<Rightarrow> bool" where
  "contains p [] \<longleftrightarrow> p = []"
| "contains p (c # cs) \<longleftrightarrow> take (length p) (c # cs) = p \<or> contains p cs"

definition platform_id :: "string \<Rightarrow> string" where
  "platform_id client = (if contains ''applid_120'' client then ''3'' else ''1'')"

definition Get_PlatformStateInfo :: "('d, 'r) fix_env \<Rightarrow> string \<Rightarrow> FixMessage" where
  "Get_PlatformStateInfo e client =
     (let lib = z_fix (f_words e) in
      put lib ''PlatformStatus'' ''2'' (put lib ''PlatformID'' (platform_id client)
        (put lib ''MsgType'' (MsgType_PlatformStateInfo e) FixMessage_new)))"

definition Get_PlatformInfo :: "('d, 'r) fix_env \<Rightarrow> string \<Rightarrow> 'r Acq \<Rightarrow> int \<times> FixMessage" where
  "Get_PlatformInfo e client a =
     (let lib = z_fix (f_words e);
          m = put lib ''PlatformID'' (platform_id client) (put lib ''MsgType'' (MsgType_PlatformInfo e) FixMessage_new) in
      case map_of (sz_conns a) client of
        None \<Rightarrow> (-1, m)
      | Some c \<Rightarrow>
          (0, put lib ''PlatformStatus'' ''2''
             (fold (\<lambda>(i, n). add_group lib ''NoPartitions''
                (setField (fld lib ''PartitionNo'') (signed_decimal i) FieldMap_new)) (m_ptrmapPartitions c) m)))"

text \<open>The platform information is sent whether or not it could be made.\<close>

definition onLogon :: "('d, 'r) fix_env \<Rightarrow> string \<Rightarrow> string \<Rightarrow> 'r Fix \<Rightarrow> 'r Fix" where
  "onLogon e client server s =
     (let s1 = on_acq (\<lambda>a. snd (ProcLogOn client server a)) s;
          s2 = SendFIXMessage (Get_PlatformStateInfo e client) s1 in
      if g_bSZ_Step_ver110 (f_words e)
      then SendFIXMessage (snd (Get_PlatformInfo e client (acq (rep s2)))) s2 else s2)"

definition onLogout :: "string \<Rightarrow> 'r Fix \<Rightarrow> 'r Fix" where
  "onLogout client = on_acq (\<lambda>a. snd (ProcLogOut client a))"

definition ProcAdminMsg :: "('d, 'r) fix_env \<Rightarrow> FixMessage \<Rightarrow> int" where
  "ProcAdminMsg e m = (if isSetField (fix_header m) (fld (z_fix (f_words e)) ''MsgType'') then 0 else -1)"

section \<open>Configured answers\<close>

definition response_file :: "string \<Rightarrow> string" where
  "response_file applid = ''config'' @ [CHR 0x5C] @ ''rsp'' @ [CHR 0x5C] @ applid @ ''.json''"

definition LoadResponseFromFile :: "('d, 'r) fix_env \<Rightarrow> string \<Rightarrow> (string, string) omap \<Rightarrow> int \<times> (string, string) omap" where
  "LoadResponseFromFile e applid rs =
     (case f_file e (response_file applid) of
        None \<Rightarrow> (-1, rs)
      | Some t \<Rightarrow> (case f_parse e t of None \<Rightarrow> (-1, rs) | Some d \<Rightarrow> (0, omap_put applid t rs)))"

definition GetResponse :: "('d, 'r) fix_env \<Rightarrow> string \<Rightarrow> (string, string) omap \<Rightarrow> int \<times> string \<times> (string, string) omap" where
  "GetResponse e applid rs =
     (case map_of rs applid of
        Some t \<Rightarrow> (0, t, rs)
      | None \<Rightarrow> (case LoadResponseFromFile e applid rs of (iRes, rs1) \<Rightarrow>
          if iRes = -1 then (-1, [], rs1)
          else (case map_of rs1 applid of None \<Rightarrow> (-1, [], rs1) | Some t \<Rightarrow> (0, t, rs1))))"

text \<open>
  The value of one text member.  \<open>main\<close> tells a message from a group of it.  A word the answers do
  not know ends the replacement with -1; a field the order does not have throws.
\<close>

definition replace_text ::
  "('d, 'r) sz_words \<Rightarrow> FixMessage \<Rightarrow> string \<Rightarrow> string \<Rightarrow> bool \<Rightarrow> int \<Rightarrow> string \<Rightarrow> FixMessage \<Rightarrow> 'r Acq \<Rightarrow>
   outcome \<times> FixMessage \<times> 'r Acq" where
  "replace_text z om seat account main tag t m a =
     (let set1 = (\<lambda>v a1. case set_target (z_fix z) main tag v m of
                     None \<Rightarrow> (Undefined, m, a1) | Some m1 \<Rightarrow> (Ret 0, m1, a1)) in
      if t = [] then (Ret 0, m, a)
      else if hd t = CHR ''$'' then
        (if t = ''$UNIQUE'' then (case next_exec_id (z_env z) a of (i, a1) \<Rightarrow> set1 i a1)
         else if t = ''$SEAT'' then set1 seat a
         else if t = ''$ACCOUNT'' then set1 account a
         else if length t \<ge> 3 \<and> take 3 t = ''$ID'' then
           (case getField (fix_body om) (snd (String2Int_atoi (drop 3 t))) of
              None \<Rightarrow> (Throws, m, a)
            | Some v \<Rightarrow> set1 v a)
         else (Ret (-1), m, a))
      else set1 t a)"

text \<open>\<open>ReplaceConfig\<close>; the result of a group is not looked at.\<close>

function replace_members ::
  "('d, 'r) sz_words \<Rightarrow> FixMessage \<Rightarrow> string \<Rightarrow> string \<Rightarrow> bool \<Rightarrow> (string \<times> json) list \<Rightarrow> FixMessage \<Rightarrow> 'r Acq \<Rightarrow>
   outcome \<times> FixMessage \<times> 'r Acq"
and replace_groups ::
  "('d, 'r) sz_words \<Rightarrow> FixMessage \<Rightarrow> string \<Rightarrow> string \<Rightarrow> int \<Rightarrow> json list \<Rightarrow> FixMessage \<Rightarrow> 'r Acq \<Rightarrow>
   outcome \<times> FixMessage \<times> 'r Acq" where
  "replace_members z om seat account main [] m a = (Ret 0, m, a)"
| "replace_members z om seat account main ((name, v) # ms) m a =
     (let tag = snd (String2Int_atoi (c_str name)) in
      case (case v of
          JStr t \<Rightarrow> replace_text z om seat account main tag (c_str t) m a
        | JArr es \<Rightarrow> replace_groups z om seat account tag es m a
        | _ \<Rightarrow> (Ret 0, m, a)) of
        (r, m1, a1) \<Rightarrow> if r = Ret 0 then replace_members z om seat account main ms m1 a1 else (r, m1, a1))"
| "replace_groups z om seat account tag [] m a = (Ret 0, m, a)"
| "replace_groups z om seat account tag (e # es) m a =
     (case e of
        JObj (sub # ms) \<Rightarrow>
          (case replace_members z om seat account False (sub # ms) FixMessage_new a of
             (Ret n, g, a1) \<Rightarrow> replace_groups z om seat account tag es (m\<lparr>fix_body := addGroup tag (fix_body g) (fix_body m)\<rparr>) a1
           | (r, g, a1) \<Rightarrow> (r, m, a1))
      | _ \<Rightarrow> (Undefined, m, a))"
  by pat_completeness auto

termination
  by (relation "measure (case_sum (\<lambda>(z, om, seat, account, main, ms, m, a). sum_list (map (\<lambda>m. Suc (json_size (snd m))) ms))
      (\<lambda>(z, om, seat, account, tag, es, m, a). sum_list (map (\<lambda>e. Suc (json_size e)) es)))") auto

text \<open>
  \<open>ReplaceConfig_SendResponse\<close>: the answer starts as a copy of the order, addressed back, with the
  next index of the client.  An exception is caught and nothing is sent; a replacement that gave up
  is sent as far as it came.  \<open>None\<close> is undefined.
\<close>

definition ReplaceConfig_SendResponse ::
  "('d, 'r) fix_env \<Rightarrow> FixMessage \<Rightarrow> json \<Rightarrow> 'r Fix \<Rightarrow> (int \<times> 'r Fix) option" where
  "ReplaceConfig_SendResponse e om d s =
     (let z = f_words e; lib = z_fix z; h = fix_header om in
      case (getField h (fld lib ''SenderCompID''), getField h (fld lib ''TargetCompID'')) of
        (Some sender, Some target) \<Rightarrow>
          (case report_index False sender (acq (rep s)) of (n, part, a1) \<Rightarrow>
             let s1 = on_acq (\<lambda>a. a1) s;
                 m1 = put lib ''ReportIndex'' (itos n) (put lib ''SenderCompID'' target (put lib ''TargetCompID'' sender om)) in
             case snd (GetNopartyIds lib (fix_body om) ([], [], [])) of (seat, account, branch) \<Rightarrow>
               (case d of
                  JObj ms \<Rightarrow>
                    (case replace_members z om seat account True ms m1 a1 of
                       (Ret n, m2, a2) \<Rightarrow> Some (0, SendFIXMessage m2 (on_acq (\<lambda>a. a2) s1))
                     | (Throws, m2, a2) \<Rightarrow> Some (0, on_acq (\<lambda>a. a2) s1)
                     | (Undefined, m2, a2) \<Rightarrow> None)
                | _ \<Rightarrow> None))
      | _ \<Rightarrow> Some (0, s))"

fun send_responses :: "('d, 'r) fix_env \<Rightarrow> FixMessage \<Rightarrow> json list \<Rightarrow> 'r Fix \<Rightarrow> (int \<times> 'r Fix) option" where
  "send_responses e om [] s = Some (0, s)"
| "send_responses e om (d # ds) s =
     Option.bind (ReplaceConfig_SendResponse e om d s) (\<lambda>(r, s1). send_responses e om ds s1)"

definition ParseConfigResponse :: "('d, 'r) fix_env \<Rightarrow> FixMessage \<Rightarrow> (string \<times> json) list \<Rightarrow> 'r Fix \<Rightarrow> (int \<times> 'r Fix) option" where
  "ParseConfigResponse e om ms s =
     (case map_of ms ''response'' of
        Some (JArr ds) \<Rightarrow> send_responses e om ds s
      | _ \<Rightarrow> Some (-1, s))"

text \<open>An entry is for an order when every field it names as a text, and the order has, has that value.\<close>

definition response_for :: "fix_lib \<Rightarrow> FixMessage \<Rightarrow> string \<times> json \<Rightarrow> bool" where
  "response_for lib om entry =
     (if fst entry = ''response'' then True
      else case snd entry of
        JStr t \<Rightarrow> (case GetStringField lib om (snd (String2Int_atoi (c_str (fst entry)))) of
          None \<Rightarrow> True | Some v \<Rightarrow> v = c_str t)
      | _ \<Rightarrow> True)"

fun find_response :: "fix_lib \<Rightarrow> FixMessage \<Rightarrow> json list \<Rightarrow> (string \<times> json) list option option" where
  "find_response lib om [] = Some None"
| "find_response lib om (d # ds) =
     (case d of
        JObj ms \<Rightarrow> if list_all (response_for lib om) ms then Some (Some ms) else find_response lib om ds
      | _ \<Rightarrow> None)"

definition Mocker_Response :: "('d, 'r) fix_env \<Rightarrow> FixMessage \<Rightarrow> 'r Fix \<Rightarrow> (int \<times> 'r Fix) option" where
  "Mocker_Response e om s =
     (let lib = z_fix (f_words e) in
      case GetStringField lib om (fld lib ''ApplID'') of
        None \<Rightarrow> Some (-1, s)
      | Some applid \<Rightarrow>
          (case GetResponse e applid (m_Responses s) of (iRes, t, rs) \<Rightarrow>
             let s1 = s\<lparr>m_Responses := rs\<rparr> in
             if iRes \<noteq> 0 then Some (-1, s1)
             else (case f_parse e (c_str t) of
                 Some (JArr ds) \<Rightarrow>
                   Option.bind (find_response lib om ds) (\<lambda>found.
                     case found of None \<Rightarrow> Some (-1, s1) | Some ms \<Rightarrow> ParseConfigResponse e om ms s1)
               | _ \<Rightarrow> Some (-1, s1))))"

text \<open>
  \<open>ProcAppMsg\<close>: every message that has a type is dispatched, whatever the run mode.  The inner
  \<open>None\<close> of the result is an exception that leaves the call.
\<close>

definition ProcAppMsg :: "('d, 'r) fix_env \<Rightarrow> string \<Rightarrow> FixMessage \<Rightarrow> 'r Fix \<Rightarrow> int option \<times> 'r Fix" where
  "ProcAppMsg e client m s =
     (case getField (fix_header m) (fld (z_fix (f_words e)) ''MsgType'') of
        None \<Rightarrow> (Some (-1), s)
      | Some t \<Rightarrow>
          (case ProcAppMsg_dispatch (f_acq e) (MsgType_ReportSynchronization e) (g_bSZ_Step_ver110 (f_words e)) client m (acq (rep s)) of
              (r, a) \<Rightarrow> (r, on_acq (\<lambda>_. a) s)))"

text \<open>The callbacks of the library look at the result only to log it.\<close>

definition fromApp :: "('d, 'r) fix_env \<Rightarrow> string \<Rightarrow> FixMessage \<Rightarrow> 'r Fix \<Rightarrow> 'r Fix" where
  "fromApp e client m s = snd (ProcAppMsg e client m s)"


section \<open>Properties\<close>

text \<open>
  C6.  An order taken in: a message of an order or of a cancellation with both company ids, no body length
  among its fields, and a six-digit code of the classes that \<open>margin_market_sz\<close> names, is always
  accepted.  It waits once, at the end of the buffer of incoming orders, as a new object, and the
  object carries what the message says: client and gateway, parties, order number, security, side,
  quantity (all of it still to be filled) and price in thousandths, for the market of Shenzhen; if it
  names a rule it holds the object of that rule.  It is counted once and nothing is sent for it.
\<close>

theorem received_order_waits:
  assumes "getField (fix_header m) (fld (z_fix (f_words e)) ''MsgType'') = Some t" and "t = ''D'' \<or> t = ''F''"
    and "t \<noteq> MsgType_ReportSynchronization e" and lib: "a_fix (f_acq e) = z_fix (f_words e)"
    and "getField (fix_body m) (fld (z_fix (f_words e)) ''BodyLength'') = None"
    and "getField (fix_header m) (fld (z_fix (f_words e)) ''SenderCompID'') = Some sender"
    and "getField (fix_header m) (fld (z_fix (f_words e)) ''TargetCompID'') = Some target"
    and "getField (fix_body m) (fld (z_fix (f_words e)) ''SecurityID'') = Some code"
    and "length code = 6" and "margin_market_sz code" and "match_rules_wf (g_matchRule (f_acq e))"
  shows "\<exists>s1 o1. ProcAppMsg e client m s = (Some 0, s1) \<and>
    heap (gw (front (acq (rep s1)))) = heap (gw (front (acq (rep s)))) @ [o1] \<and>
    g_inMsg_buffer (front (acq (rep s1))) = g_inMsg_buffer (front (acq (rep s))) @ [length (heap (gw (front (acq (rep s)))))] \<and>
    received_sz (acq (rep s1)) = received_sz (acq (rep s)) + 1 \<and> sent (rep s1) = sent (rep s) \<and>
    (strSecurity_seat (stepFields o1), strAccountId o1, strMarket_branchid o1) = message_parties (f_acq e) m \<and>
    strSenderCompID o1 = sender \<and> strTargetCompID o1 = target \<and> strStockID o1 = code \<and>
    strClordid o1 = field_or (z_fix (f_words e)) (fix_body m) ''ClOrdID'' [] \<and>
    strSide o1 = field_or (z_fix (f_words e)) (fix_body m) ''Side'' [] \<and>
    ui64Orderqty_origin o1 = snd (String2UInt64_strtoui64 (field_or (z_fix (f_words e)) (fix_body m) ''OrderQty'' [])) \<and>
    ui64LeavesQty o1 = ui64Orderqty_origin o1 \<and>
    ui64mOrderPrice o1 = snd (String2UInt64MoneyInLi_strtoui64 (field_or (z_fix (f_words e)) (fix_body m) ''Price'' [])) \<and>
    strTrade_market o1 = TRADE_MARKET_SZ \<and> holds_rules (g_matchRule (f_acq e)) o1"
proof -
  obtain o1 where o1: "NewOrder2Struct (f_acq e) m OrderMessage_new = Some o1"
    using accepted_message [of m "f_acq e" sender target code] assms(5-10) lib by auto
  define a1 where "a1 = snd (ProcAppMsg_dispatch (f_acq e) (MsgType_ReportSynchronization e)
    (g_bSZ_Step_ver110 (f_words e)) client m (acq (rep s)))"
  have "ProcAppMsg e client m s = (Some 0, on_acq (\<lambda>_. a1) s)"
    and a1: "heap (gw (front a1)) = heap (gw (front (acq (rep s)))) @ [o1]"
      "g_inMsg_buffer (front a1) = g_inMsg_buffer (front (acq (rep s))) @ [length (heap (gw (front (acq (rep s)))))]"
      "received_sz a1 = received_sz (acq (rep s)) + 1"
    using assms(1-3) lib o1
    by (auto simp: ProcAppMsg_def a1_def ProcAppMsg_dispatch_def new_order_def MemoryStoreCell_PushBack_def
        Inc_Link_Receive_def MsgType_NewOrderSingle_def MsgType_OrderCancelRequest_def)
  then show ?thesis
    using acquired_order [OF o1 assms(11)] assms(6-8) lib
    by (intro exI [of _ "on_acq (\<lambda>_. a1) s"] exI [of _ o1]) (simp add: on_acq_def field_or_def)
qed

lemma replace_members_append:
  "replace_members z om seat account main (pre @ post) m a =
     (case replace_members z om seat account main pre m a of
        (r, m1, a1) \<Rightarrow> if r = Ret 0 then replace_members z om seat account main post m1 a1 else (r, m1, a1))"
  by (induction pre arbitrary: m a) (auto simp: Let_def split: prod.splits)

text \<open>
  A word the answers do not know cuts an answer short and does not stop it: whatever comes after
  the word is ignored, and the answer is sent as far as it was filled in, with the order's own fields
  for the rest.
\<close>

theorem unknown_word_cuts_answer:
  assumes "hd (c_str w) = CHR ''$''" "c_str w \<noteq> []" "take 3 (c_str w) \<noteq> ''$ID''"
    "c_str w \<notin> {''$UNIQUE'', ''$SEAT'', ''$ACCOUNT''}"
  shows "ReplaceConfig_SendResponse e om (JObj (pre @ (name, JStr w) # post)) s =
     ReplaceConfig_SendResponse e om (JObj pre) s"
proof -
  have word: "replace_members z om seat account True ((name, JStr w) # post) m a = (Ret (-1), m, a)"
    for z seat account m and a :: "'a Acq"
    using assms by (simp add: replace_text_def Let_def)
  have cut: "(case replace_members z om seat account True (pre @ (name, JStr w) # post) m a of
        (Ret n, m2, a2) \<Rightarrow> Some (f m2 a2) | (Throws, m2, a2) \<Rightarrow> Some (g a2) | (Undefined, m2, a2) \<Rightarrow> None) =
      (case replace_members z om seat account True pre m a of
        (Ret n, m2, a2) \<Rightarrow> Some (f m2 a2) | (Throws, m2, a2) \<Rightarrow> Some (g a2) | (Undefined, m2, a2) \<Rightarrow> None)"
    for z :: "('b, 'a) sz_words" and seat account m and a :: "'a Acq" and f :: "FixMessage \<Rightarrow> 'a Acq \<Rightarrow> int \<times> 'a Fix" and g
    unfolding replace_members_append word by (auto split: prod.splits outcome.splits)
  show ?thesis unfolding ReplaceConfig_SendResponse_def Let_def json.case cut ..
qed

text \<open>The answer of literal values: the order addressed back with an index, and the values put over it.\<close>

definition is_literal :: "string \<times> string \<Rightarrow> bool" where
  "is_literal f \<longleftrightarrow> c_str (snd f) \<noteq> [] \<and> hd (c_str (snd f)) \<noteq> CHR ''$''"

definition literal_answer :: "fix_lib \<Rightarrow> FixMessage \<Rightarrow> string \<Rightarrow> string \<Rightarrow> u64 \<Rightarrow> (string \<times> string) list \<Rightarrow> FixMessage" where
  "literal_answer lib om sender target n fs =
     fold (\<lambda>(name, v). SetField lib (snd (String2Int_atoi (c_str name))) (c_str v)) fs
       (put lib ''ReportIndex'' (itos n) (put lib ''SenderCompID'' target (put lib ''TargetCompID'' sender om)))"

lemma replace_literals:
  "list_all is_literal fs \<Longrightarrow>
   replace_members z om seat account True (map (\<lambda>(name, v). (name, JStr v)) fs) m a =
     (Ret 0, fold (\<lambda>(name, v). SetField (z_fix z) (snd (String2Int_atoi (c_str name))) (c_str v)) fs m, a)"
  by (induction fs arbitrary: m) (auto simp: replace_text_def set_target_def is_literal_def Let_def)

lemma send_literals:
  assumes "getField (fix_header om) (fld (z_fix (f_words e)) ''SenderCompID'') = Some sender"
    "getField (fix_header om) (fld (z_fix (f_words e)) ''TargetCompID'') = Some target"
    "list_all (list_all is_literal) fss" "map_of (sz_conns (acq (rep s))) sender = Some c"
  shows "\<exists>s1. send_responses e om (map (\<lambda>fs. JObj (map (\<lambda>(name, v). (name, JStr v)) fs)) fss) s = Some (0, s1) \<and>
     sent (rep s1) = sent (rep s) @
       map (\<lambda>i. literal_answer (z_fix (f_words e)) om sender target (m_ui64ReportIndex c + of_nat i) (fss ! i)) [0..<length fss] \<and>
     map_of (sz_conns (acq (rep s1))) sender = Some (c\<lparr>m_ui64ReportIndex := m_ui64ReportIndex c + of_nat (length fss)\<rparr>) \<and>
     m_Responses s1 = m_Responses s"
  using assms(3,4)
proof (induction fss arbitrary: s c)
  case (Cons fs fss)
  obtain part a1 where ix: "report_index False sender (acq (rep s)) = (m_ui64ReportIndex c, part, a1)"
    "map_of (sz_conns a1) sender = Some (c\<lparr>m_ui64ReportIndex := m_ui64ReportIndex c + 1\<rparr>)"
    by (rule report_index_facts [OF Cons.prems(2)])
  define s2 where "s2 = SendFIXMessage (literal_answer (z_fix (f_words e)) om sender target (m_ui64ReportIndex c) fs) (on_acq (\<lambda>_. a1) s)"
  have step: "ReplaceConfig_SendResponse e om (JObj (map (\<lambda>(name, v). (name, JStr v)) fs)) s = Some (0, s2)"
    using assms(1,2) ix(1) Cons.prems(1)
    by (auto simp: ReplaceConfig_SendResponse_def replace_literals Let_def literal_answer_def s2_def on_acq_def split: prod.splits)
  have s2: "map_of (sz_conns (acq (rep s2))) sender = Some (c\<lparr>m_ui64ReportIndex := m_ui64ReportIndex c + 1\<rparr>)"
    "sent (rep s2) = sent (rep s) @ [literal_answer (z_fix (f_words e)) om sender target (m_ui64ReportIndex c) fs]"
    "m_Responses s2 = m_Responses s"
    using ix(2) by (simp_all add: s2_def SendFIXMessage_def on_acq_def)
  from Cons.IH [OF _ s2(1)] Cons.prems(1) obtain s1 where
    s1: "send_responses e om (map (\<lambda>fs. JObj (map (\<lambda>(name, v). (name, JStr v)) fs)) fss) s2 = Some (0, s1)"
    "sent (rep s1) = sent (rep s2) @
       map (\<lambda>i. literal_answer (z_fix (f_words e)) om sender target (m_ui64ReportIndex c + 1 + of_nat i) (fss ! i)) [0..<length fss]"
    "map_of (sz_conns (acq (rep s1))) sender = Some (c\<lparr>m_ui64ReportIndex := m_ui64ReportIndex c + 1 + of_nat (length fss)\<rparr>)"
    "m_Responses s1 = m_Responses s2"
    by auto
  have "map f [0..<Suc n] = f 0 # map (\<lambda>i. f (Suc i)) [0..<n]" for f :: "nat \<Rightarrow> FixMessage" and n
    by (induction n) simp_all
  with s1 step s2 show ?case by (simp add: algebra_simps del: upt_Suc)
qed simp

text \<open>
  The configured answers: an order whose application has a file with an entry for it is answered by one message for each response of the entry, in their order, with
  consecutive indices of the client, each the order addressed back with the configured values put
  over it; nothing else is sent.  The values are literal ones.
\<close>

theorem configured_answers_given:
  assumes "getField (fix_header om) (fld (z_fix (f_words e)) ''SenderCompID'') = Some sender"
    "getField (fix_header om) (fld (z_fix (f_words e)) ''TargetCompID'') = Some target"
    "GetStringField (z_fix (f_words e)) om (fld (z_fix (f_words e)) ''ApplID'') = Some applid"
    "map_of (m_Responses s) applid = Some txt" "f_parse e (c_str txt) = Some (JArr ds)"
    "find_response (z_fix (f_words e)) om ds = Some (Some ms)"
    "map_of ms ''response'' = Some (JArr (map (\<lambda>fs. JObj (map (\<lambda>(name, v). (name, JStr v)) fs)) fss))"
    "list_all (list_all is_literal) fss" "map_of (sz_conns (acq (rep s))) sender = Some c"
  shows "\<exists>s1. Mocker_Response e om s = Some (0, s1) \<and>
     sent (rep s1) = sent (rep s) @
       map (\<lambda>i. literal_answer (z_fix (f_words e)) om sender target (m_ui64ReportIndex c + of_nat i) (fss ! i)) [0..<length fss] \<and>
     map_of (sz_conns (acq (rep s1))) sender = Some (c\<lparr>m_ui64ReportIndex := m_ui64ReportIndex c + of_nat (length fss)\<rparr>)"
proof -
  obtain s1 where s1: "send_responses e om (map (\<lambda>fs. JObj (map (\<lambda>(name, v). (name, JStr v)) fs)) fss) s = Some (0, s1)"
    "sent (rep s1) = sent (rep s) @
       map (\<lambda>i. literal_answer (z_fix (f_words e)) om sender target (m_ui64ReportIndex c + of_nat i) (fss ! i)) [0..<length fss]"
    "map_of (sz_conns (acq (rep s1))) sender = Some (c\<lparr>m_ui64ReportIndex := m_ui64ReportIndex c + of_nat (length fss)\<rparr>)"
    using send_literals [OF assms(1,2,8,9)] by blast
  have "Mocker_Response e om s = Some (0, s1)"
    using assms(3-7) s1(1) by (simp add: Mocker_Response_def GetResponse_def ParseConfigResponse_def Let_def)
  then show ?thesis using s1(2,3) by blast
qed

section \<open>The properties at sample values\<close>

definition sample_answers :: json where
  "sample_answers = JArr [JObj [(''response'', JArr [JObj [(''150'', JStr ''0'')], JObj [(''150'', JStr ''F'')]])]]"

definition sample_fix_env :: "(int, string \<Rightarrow> string option) fix_env" where
  "sample_fix_env = \<lparr>f_words = sample_words, f_acq = sample_acq, f_file = (\<lambda>n. None), f_parse = (\<lambda>t. Some sample_answers),
     MsgType_ReportSynchronization = ''U100'',
     MsgType_PlatformStateInfo = ''U102'', MsgType_PlatformInfo = ''U104''\<rparr>"

definition sample_order :: FixMessage where
  "sample_order = put sample_fix_lib ''ApplID'' ''010'' (put sample_fix_lib ''MsgType'' ''D''
     (put sample_fix_lib ''SenderCompID'' ''C1'' (put sample_fix_lib ''TargetCompID'' ''GW'' FixMessage_new)))"

definition sample_fix_state :: "(string \<Rightarrow> string option) Fix" where
  "sample_fix_state = \<lparr>rep = sample_rep [], m_Responses = [(''010'', ''text'')]\<rparr>"

text \<open>The client C1 orders 100 shares.\<close>

theorem received_order_waits_witness:
  "\<exists>s1 o1. ProcAppMsg sample_fix_env ''C1'' sample_fix sample_fix_state = (Some 0, s1) \<and>
     heap (gw (front (acq (rep s1)))) = heap (gw (front (acq (rep sample_fix_state)))) @ [o1] \<and>
     g_inMsg_buffer (front (acq (rep s1))) = [1] \<and> strClordid o1 = ''O1'' \<and> strAccountId o1 = ''A1'' \<and>
     strStockID o1 = ''000001'' \<and> ui64LeavesQty o1 = 100"
proof -
  have e: "f_words sample_fix_env = sample_words" "z_fix sample_words = sample_fix_lib" "f_acq sample_fix_env = sample_acq"
    "MsgType_ReportSynchronization sample_fix_env = ''U100''" "a_fix sample_acq = sample_fix_lib"
    by (simp_all add: sample_fix_env_def sample_words_def sample_acq_def)
  have t: "getField (fix_header sample_fix) (fld sample_fix_lib ''MsgType'') = Some ''D''"
    by (simp add: sample_fix_def Let_def fld_eq [OF sample_fix_lib_ok] getField_def [of FieldMap_new])
  have code: "length ''000001'' = 6" "margin_market_sz ''000001''" by (simp_all add: margin_market_sz_def)
  have q: "snd (String2UInt64_strtoui64 ''100.00'') = 100"
    by (simp add: String2UInt64_strtoui64_def strtoll_def scan_number_def c_str_def is_space_def is_digit_def of_char_def)
  have b: "g_inMsg_buffer (front (acq (rep sample_fix_state))) = []" "length (heap (gw (front (acq (rep sample_fix_state))))) = 1"
    by (simp_all add: sample_fix_state_def sample_rep_def sample_gw_def)
  have ne: "''D'' = ''D'' \<or> ''D'' = ''F''" "''D'' \<noteq> ''U100''" by simp_all
  show ?thesis
    using received_order_waits [of sample_fix sample_fix_env "''D''" "''C1''" "''GW''" "''000001''" "''C1''" sample_fix_state,
        unfolded e, OF t ne refl sample_header(6,1,2,3) code sample_acq_rules] q b
    by (auto simp: sample_header sample_parties field_or_def)
qed

lemma sample_order_header:
  "is_header_FIELD f \<Longrightarrow> getField (fix_header sample_order) (fld sample_fix_lib f) =
     GetStringField sample_fix_lib sample_order (fld sample_fix_lib f)"
  by (simp add: GetStringField_def fld_header [OF sample_fix_lib_ok])

lemma sample_order_facts:
  "getField (fix_header sample_order) (fld sample_fix_lib ''SenderCompID'') = Some ''C1''"
  "getField (fix_header sample_order) (fld sample_fix_lib ''TargetCompID'') = Some ''GW''"
  "GetStringField sample_fix_lib sample_order (fld sample_fix_lib ''ApplID'') = Some ''010''"
  by (simp_all add: sample_order_header is_header_FIELD_def, simp_all add: sample_order_def sample_fix_lib_ok)

theorem configured_answers_given_witness:
  "\<exists>s1. Mocker_Response sample_fix_env sample_order sample_fix_state = Some (0, s1) \<and>
     sent (rep s1) = [literal_answer sample_fix_lib sample_order ''C1'' ''GW'' 5 [(''150'', ''0'')],
       literal_answer sample_fix_lib sample_order ''C1'' ''GW'' 6 [(''150'', ''F'')]]"
proof -
  have e: "f_words sample_fix_env = sample_words" "z_fix sample_words = sample_fix_lib"
    "f_parse sample_fix_env t = Some sample_answers" for t
    by (simp_all add: sample_fix_env_def sample_words_def)
  define fss where "fss = [[(''150'', ''0'')], [(''150'', ''F'')]]"
  have lit: "list_all (list_all is_literal) fss" by (simp add: fss_def is_literal_def c_str_def)
  have ds: "sample_answers = JArr [JObj [(''response'', JArr (map (\<lambda>fs. JObj (map (\<lambda>(name, v). (name, JStr v)) fs)) fss))]]"
    by (simp add: sample_answers_def fss_def)
  have c: "map_of (sz_conns (acq (rep sample_fix_state))) ''C1'' = Some sample_link" "sent (rep sample_fix_state) = []"
    "map_of (m_Responses sample_fix_state) ''010'' = Some ''text''"
    by (simp_all add: sample_fix_state_def sample_rep_facts) (simp add: sample_rep_def)
  have "find_response sample_fix_lib sample_order
      [JObj [(''response'', JArr (map (\<lambda>fs. JObj (map (\<lambda>(name, v). (name, JStr v)) fs)) fss))]] =
      Some (Some [(''response'', JArr (map (\<lambda>fs. JObj (map (\<lambda>(name, v). (name, JStr v)) fs)) fss))])"
    by (simp add: response_for_def)
  from configured_answers_given [of sample_order sample_fix_env "''C1''" "''GW''" "''010''" sample_fix_state "''text''", unfolded e,
      OF sample_order_facts c(3) arg_cong [OF ds, of Some] this _ lit c(1)]
  show ?thesis by (auto simp: c(2) sample_rep_facts fss_def)
qed

theorem unknown_word_cuts_answer_witness:
  "ReplaceConfig_SendResponse sample_fix_env sample_order
     (JObj [(''150'', JStr ''0''), (''37'', JStr ''$ORDER''), (''39'', JStr ''0'')]) sample_fix_state =
   ReplaceConfig_SendResponse sample_fix_env sample_order (JObj [(''150'', JStr ''0'')]) sample_fix_state"
  using unknown_word_cuts_answer [of "''$ORDER''" sample_fix_env sample_order "[(''150'', JStr ''0'')]" "''37''"
      "[(''39'', JStr ''0'')]" sample_fix_state]
  by (simp add: c_str_def)

end
