(* ===== verification/ShReport.thy ===== *)
theory ShReport
  imports FixReport
begin

text \<open>
  \<open>simutgw/msg_biz/ReportMsg_Sh.cpp\<close>, \<open>ProcMemoryReport.cpp\<close> and
  \<open>simutgw/work_manage/Proc_ShConn_Db_Report.cpp\<close>: the reports of Shanghai.  A report becomes
  statements that insert a row into the table of confirmations or of trades; the statements are
  collected by connection while the queue of reports is emptied, and are then executed.
\<close>

section \<open>State\<close>

text \<open>The counters of Shanghai are beside the state the reports of both markets share.\<close>

record 'r ShRep =
  sh_rep :: "'r Rep"
  sh_MatchCancel :: u64
  sh_Error :: u64
  sh_link_sent :: "string \<Rightarrow> u64"

record 'd sh_env =
  se_acq :: acq_env
  se_ops :: "'d word_ops"
  se_clock :: word_clock
  se_rules :: "nat \<Rightarrow> string MATCH_RULE"

definition with_acq :: "'r Acq \<Rightarrow> 'r Rep \<Rightarrow> 'r Rep" where
  "with_acq a s = s\<lparr>acq := a\<rparr>"

section \<open>Texts\<close>

text \<open>
  The date and the time of \<open>YYYYMMDD-HH:MM:SS.mmm\<close>.  A point before the dash makes the length of the
  time wrap around, so that the rest of the text is taken.
\<close>

definition split_time :: "string \<Rightarrow> (string \<times> string) option" where
  "split_time t =
     (if CHR ''-'' \<notin> set t then None
      else if CHR ''.'' \<notin> set t then None
      else let pos = length (takeWhile (\<lambda>c. c \<noteq> CHR ''-'') t); posTime = length (takeWhile (\<lambda>c. c \<noteq> CHR ''.'') t);
               rest = drop (pos + 1) t in
        Some (take pos t, if pos + 1 \<le> posTime then take (posTime - pos - 1) rest else rest))"

definition confirm_head :: "acq_env \<Rightarrow> string" where
  "confirm_head a = ''INSERT INTO '' @ g_strSH_Ordwth2_TableName a @ '' (rec_num,date,time,reff,acc,stock,'' @
     ''bs,price,qty,status,qty2,remark,status1,teordernum,owflag,ordrec,firmid,branchid,checkord) VALUES(''"

definition report_head_sh :: "acq_env \<Rightarrow> string" where
  "report_head_sh a = ''INSERT INTO '' @ g_strSH_Cjhb_TableName a @ ''(gddm,gdxm,bcrq,cjbh,gsdm,cjsl,bcye,zqdm,'' @
     ''sbsj,cjsj,cjjg,cjje,sqbh,bs,mjbh) VALUES(''"

definition no_check :: string where
  "no_check = ''0x00000000000000000000000000000000''"

text \<open>Values in quotes, with a comma between them.\<close>

definition quoted :: "string \<Rightarrow> string" where
  "quoted v = sq @ v @ sq"

fun quoted_list :: "string list \<Rightarrow> string" where
  "quoted_list [] = []"
| "quoted_list [v] = quoted v"
| "quoted_list (v # vs) = quoted v @ '','' @ quoted_list vs"

section \<open>Confirmations\<close>

definition is_cancelled :: "OrderMessage \<Rightarrow> bool" where
  "is_cancelled o1 \<longleftrightarrow> strOrdStatus o1 = STEPMSG_ORDSTATUS_CANCEL"

definition confirm_reff :: "OrderMessage \<Rightarrow> string option" where
  "confirm_reff o1 =
     (if strMsgType o1 = STEPMSG_MSGTYPE_NEW_ORDER then Some (strClordid o1)
      else if strMsgType o1 = STEPMSG_MSGTYPE_ORDER_CACEL \<or> strMsgType o1 = STEPMSG_MSGTYPE_CANCELREJECT \<or> is_cancelled o1
      then Some (strOrigClordid o1) else None)"

definition confirm_status :: "OrderMessage \<Rightarrow> string option" where
  "confirm_status o1 =
     (if enMatchType o1 = ErrorMatch then Some ''F''
      else if is_cancelled o1 then Some ''W''
      else if strMsgType o1 = STEPMSG_MSGTYPE_NEW_ORDER then Some ''O''
      else if strMsgType o1 = STEPMSG_MSGTYPE_ORDER_CACEL then Some ''W''
      else if strMsgType o1 = STEPMSG_MSGTYPE_CANCELREJECT then Some ''F'' else None)"

definition confirm_keeps :: "OrderMessage \<Rightarrow> bool" where
  "confirm_keeps o1 \<longleftrightarrow> strMsgType o1 = STEPMSG_MSGTYPE_NEW_ORDER \<or> strMsgType o1 = STEPMSG_MSGTYPE_CANCELREJECT"

definition confirm_releases :: "OrderMessage \<Rightarrow> bool" where
  "confirm_releases o1 \<longleftrightarrow> strMsgType o1 = STEPMSG_MSGTYPE_ORDER_CACEL \<or> is_cancelled o1"

definition confirm_qty2 :: "OrderMessage \<Rightarrow> string option" where
  "confirm_qty2 o1 = (if confirm_keeps o1 then Some [] else if confirm_releases o1 then Some (strLastQty o1) else None)"

definition confirm_remark :: "OrderMessage \<Rightarrow> string" where
  "confirm_remark o1 = (if is_cancelled o1 then ''0'' else if strErrorCode o1 = [] then '' '' else strErrorCode o1)"

definition confirm_ordrec :: "OrderMessage \<Rightarrow> string option" where
  "confirm_ordrec o1 =
     (if confirm_keeps o1 then Some ''0'' else if confirm_releases o1 then Some (quoted (strClordid o1)) else None)"

text \<open>
  \<open>FixToSHConfirm\<close>.  The record number is taken before the checks of the message type; a cancellation
  takes another record number as its number of the exchange.
\<close>

definition FixToSHConfirm :: "'d sh_env \<Rightarrow> OrderMessage \<Rightarrow> 'r Acq \<Rightarrow> int \<times> string list \<times> 'r Acq" where
  "FixToSHConfirm e o1 a =
     (case split_time (strTransactTime (stepFields o1)) of
        None \<Rightarrow> (-1, [], a)
      | Some (strTransDate, strTransTime) \<Rightarrow>
          (case map_of (sh_conns a) (strSessionId o1) of
             None \<Rightarrow> (-1, [], a)
           | Some c \<Rightarrow> (case IncRecNum c of (n, c1) \<Rightarrow>
               let a1 = put_sh_conn (strSessionId o1) c1 a in
               (case confirm_reff o1 of None \<Rightarrow> (-1, [], a1) | Some reff \<Rightarrow>
               (case confirm_status o1 of None \<Rightarrow> (-1, [], a1) | Some status \<Rightarrow>
               (case confirm_qty2 o1 of None \<Rightarrow> (-1, [], a1) | Some qty2 \<Rightarrow>
               (case (if is_cancelled o1 then IncRecNum c1 else GetTeordNum c1) of (n2, c2) \<Rightarrow>
               let a2 = put_sh_conn (strSessionId o1) c2 a1 in
               (case confirm_ordrec o1 of None \<Rightarrow> (-1, [], a2) | Some ordrec \<Rightarrow>
                  (0, [confirm_head (se_acq e) @ itos n @ '','' @
                     quoted_list [strTransDate, strTransTime, reff, strAccountId o1, strStockID o1, strSide o1,
                       iLiToStr (ui64mOrderPrice o1) 3, strOrderqty_origin o1, status, qty2, confirm_remark o1, ''R'',
                       itos n2, if is_cancelled o1 then ''WTH'' else strOrdType o1] @ '','' @ ordrec @ '','' @
                     (if strConfirmID (stepFields o1) \<noteq> [] then quoted (strConfirmID (stepFields o1)) else ''null'') @ '','' @
                     quoted (strMarket_branchid o1) @ '','' @ no_check @ '');''], a2)))))))))"

text \<open>
  The columns of a rule's document.  The values are resolved one after the other; an empty one is
  \<open>NULL\<close>; the last one has no comma and a value of its own when it is empty.
\<close>

fun resolve_columns ::
  "'d sh_env \<Rightarrow> (string \<times> json) list \<Rightarrow> OrderMessage \<Rightarrow> string \<Rightarrow> string list \<Rightarrow> 'r Acq \<Rightarrow> string option \<times> 'r Acq" where
  "resolve_columns e doc o1 last_empty [] a = (Some [], a)"
| "resolve_columns e doc o1 last_empty (col # cols) a =
     (case ShDb_ResolveRule (se_ops e) (se_clock e) doc col o1 a of (iRes, v, a1) \<Rightarrow>
        if iRes = -1 then (None, a1)
        else (case resolve_columns e doc o1 last_empty cols a1 of
            (None, a2) \<Rightarrow> (None, a2)
          | (Some rest, a2) \<Rightarrow>
              (Some ((if v = [] then (if cols = [] then last_empty else ''NULL'') else quoted v) @
                     (if cols = [] then [] else '','') @ rest), a2)))"

definition confirm_columns :: "string list" where
  "confirm_columns = [''rec_num'', ''date'', ''time'', ''reff'', ''acc'', ''stock'', ''bs'', ''price'', ''qty'', ''status'',
     ''qty2'', ''remark'', ''status1'', ''teordernum'', ''owflag'', ''ordrec'', ''firmid'', ''branchid'', ''checkord'']"

definition report_columns :: "string list" where
  "report_columns = [''gddm'', ''gdxm'', ''bcrq'', ''cjbh'', ''gsdm'', ''cjsl'', ''bcye'', ''zqdm'', ''sbsj'', ''cjsj'',
     ''cjjg'', ''cjje'', ''sqbh'', ''bs'', ''mjbh'']"

definition FixToSHConfirm_JsonRule ::
  "'d sh_env \<Rightarrow> string MATCH_RULE \<Rightarrow> OrderMessage \<Rightarrow> 'r Acq \<Rightarrow> int \<times> string list \<times> 'r Acq" where
  "FixToSHConfirm_JsonRule e rule o1 a =
     (case docRuleConfirm rule of
        JObj doc \<Rightarrow>
          (case resolve_columns e doc o1 no_check confirm_columns a of
             (None, a1) \<Rightarrow> (-1, [], a1)
           | (Some t, a1) \<Rightarrow> (0, [confirm_head (se_acq e) @ t @ '');''], a1))
      | _ \<Rightarrow> (-1, [], a))"

section \<open>Trades\<close>

text \<open>An amount above 999,999,999.99 yuan is written as -1.\<close>

definition trade_amount :: "u64 \<Rightarrow> string" where
  "trade_amount n = (if 999999999990 < n then ''-1'' else iLiToStr n 2)"

definition trade_statement :: "acq_env \<Rightarrow> OrderMessage \<Rightarrow> string \<times> string \<Rightarrow> u64 \<Rightarrow> string" where
  "trade_statement a o1 = (\<lambda>(strTransDate, time) n.
     (let strTransTime = filter (\<lambda>c. c \<noteq> CHR '':'') time in
      report_head_sh a @
      quoted_list [strAccountId o1, ''1'', strTransDate, itos n, strSecurity_seat (stepFields o1), strLastQty o1,
        ''0000000001'', strStockID o1, strTransTime, strTransTime, iLiToStr (ui64mPrice_matched o1) 3,
        trade_amount (ui64mCashorderqty_matched o1), strClordid o1, strSide o1, ''66666''] @ '');''))"

definition FixToSHReport :: "'d sh_env \<Rightarrow> msgref \<Rightarrow> 'r Rep \<Rightarrow> int \<times> string list \<times> 'r Rep" where
  "FixToSHReport e p s =
     (let o1 = rep_msg s p in
      case split_time (strTransactTime (stepFields o1)) of
        None \<Rightarrow> (-1, [], s)
      | Some t \<Rightarrow>
          (case map_of (sh_conns (acq s)) (strSessionId o1) of
             None \<Rightarrow> (-1, [], s)
           | Some c \<Rightarrow> (case IncCjbh c of (n, c1) \<Rightarrow>
               (0, [trade_statement (se_acq e) o1 t n],
                change_report p (\<lambda>o1. o1\<lparr>strOrderID := itos n\<rparr>) (with_acq (put_sh_conn (strSessionId o1) c1 (acq s)) s)))))"

text \<open>One row for each element of the matches; the rows before one that fails are kept.\<close>

fun rule_rows ::
  "'d sh_env \<Rightarrow> OrderMessage \<Rightarrow> json list \<Rightarrow> 'r Acq \<Rightarrow> int \<times> string list \<times> 'r Acq" where
  "rule_rows e o1 [] a = (0, [], a)"
| "rule_rows e o1 (d # ds) a =
     (case d of
        JObj doc \<Rightarrow>
          (case resolve_columns e doc o1 ''NULL'' report_columns a of
             (None, a1) \<Rightarrow> (-1, [], a1)
           | (Some t, a1) \<Rightarrow> (case rule_rows e o1 ds a1 of
               (iRes, rows, a2) \<Rightarrow> (iRes, (report_head_sh (se_acq e) @ t @ '');'') # rows, a2)))
      | _ \<Rightarrow> (-1, [], a))"

definition FixToSHReport_JsonRule ::
  "'d sh_env \<Rightarrow> string MATCH_RULE \<Rightarrow> OrderMessage \<Rightarrow> 'r Acq \<Rightarrow> int \<times> string list \<times> 'r Acq" where
  "FixToSHReport_JsonRule e rule o1 a =
     (case docRuleMatch rule of JArr ds \<Rightarrow> rule_rows e o1 ds a | _ \<Rightarrow> (-1, [], a))"

section \<open>One report\<close>

definition keep_acq :: "'r Rep \<Rightarrow> int \<times> string list \<times> 'r Acq \<Rightarrow> int \<times> string list \<times> 'r Rep" where
  "keep_acq s = (\<lambda>(iRes, rows, a). (iRes, rows, with_acq a s))"

definition Sh_ProcSingleReport :: "'d sh_env \<Rightarrow> msgref \<Rightarrow> 'r Rep \<Rightarrow> int \<times> string list \<times> 'r Rep" where
  "Sh_ProcSingleReport e p s =
     (let o1 = rep_msg s p in
      if strTrade_market o1 = TRADE_MARKET_SZ then (0, [], s)
      else if strTrade_market o1 = TRADE_MARKET_SH then
        if ui64RuleId (tradePolicy o1) \<noteq> 0 then
          (case ptrRule_Sh (tradePolicy o1) of
             None \<Rightarrow> (-1, [], s)
           | Some r \<Rightarrow> keep_acq s (FixToSHReport_JsonRule e (se_rules e r) o1 (acq s)))
        else FixToSHReport e p (WriteTransInfoInDb p s)
      else (-1, [], s))"

definition ProcSHCancelOrder :: "'d sh_env \<Rightarrow> msgref \<Rightarrow> 'r ShRep \<Rightarrow> int \<times> string list \<times> 'r ShRep" where
  "ProcSHCancelOrder e p s =
     (let r = sh_rep s; o1 = rep_msg r p in
      if enMatchType o1 = CancelMatch then
        if strMsgType o1 = STEPMSG_MSGTYPE_EXECREPORT then
          (let r1 = WriteTransInfoInDb_CancelSuccess p r in
           case keep_acq r1 (FixToSHConfirm e o1 (acq r1)) of (iRes, rows, r2) \<Rightarrow>
             (0, rows, s\<lparr>sh_rep := r2, sh_MatchCancel := sh_MatchCancel s + 1\<rparr>))
        else if strMsgType o1 = STEPMSG_MSGTYPE_CANCELREJECT then
          (let r1 = WriteTransInfoInDb_CancelFail p r in
           case keep_acq r1 (FixToSHConfirm e o1 (acq r1)) of (iRes, rows, r2) \<Rightarrow> (0, rows, s\<lparr>sh_rep := r2\<rparr>))
        else (0, [], s)
      else (0, [], s))"

definition ProcSHErrorOrder :: "'d sh_env \<Rightarrow> msgref \<Rightarrow> 'r ShRep \<Rightarrow> int \<times> string list \<times> 'r ShRep" where
  "ProcSHErrorOrder e p s =
     (let r1 = WriteTransInfoInDb_Error p (sh_rep s); o1 = rep_msg r1 p in
      case (if strMsgType o1 = STEPMSG_MSGTYPE_NEW_ORDER then keep_acq r1 (FixToSHConfirm e o1 (acq r1)) else (0, [], r1)) of
        (iRes, rows, r2) \<Rightarrow> (0, rows, s\<lparr>sh_rep := r2, sh_Error := sh_Error s + 1\<rparr>))"

definition ProcSHConfirmOrder :: "'d sh_env \<Rightarrow> msgref \<Rightarrow> 'r Rep \<Rightarrow> int \<times> string list \<times> 'r Rep" where
  "ProcSHConfirmOrder e p s =
     (let o1 = rep_msg s p in
      if strTrade_market o1 = TRADE_MARKET_SZ then (-1, [], s)
      else if strTrade_market o1 = TRADE_MARKET_SH then
        if ui64RuleId (tradePolicy o1) \<noteq> 0 then
          (case ptrRule_Sh (tradePolicy o1) of
             None \<Rightarrow> (-1, [], s)
           | Some r \<Rightarrow> (case keep_acq s (FixToSHConfirm_JsonRule e (se_rules e r) o1 (acq s)) of
               (iRes, rows, s1) \<Rightarrow> (if iRes \<noteq> 0 then -1 else 0, rows, s1)))
        else (case keep_acq s (FixToSHConfirm e o1 (acq s)) of
            (iRes, rows, s1) \<Rightarrow> (if iRes \<noteq> 0 then -1 else 0, rows, s1))
      else (-1, [], s))"

text \<open>One report that has been taken from the queue: its statements, kept whatever the result was.\<close>

definition sh_report_one :: "'d sh_env \<Rightarrow> msgref \<Rightarrow> 'r ShRep \<Rightarrow> string list \<times> 'r ShRep" where
  "sh_report_one e p s =
     (let r = sh_rep s in
      case enMatchType (rep_msg r p) of
        MatchAll \<Rightarrow> (case Sh_ProcSingleReport e p r of (iRes, rows, r1) \<Rightarrow> (rows, s\<lparr>sh_rep := r1\<rparr>))
      | MatchPart \<Rightarrow> (case Sh_ProcSingleReport e p r of (iRes, rows, r1) \<Rightarrow> (rows, s\<lparr>sh_rep := r1\<rparr>))
      | CancelMatch \<Rightarrow> (case ProcSHCancelOrder e p s of (iRes, rows, s1) \<Rightarrow>
          (rows, if iRes = 0 then s1\<lparr>sh_MatchCancel := sh_MatchCancel s1 + 1\<rparr> else s1))
      | ErrorMatch \<Rightarrow> (case ProcSHErrorOrder e p s of (iRes, rows, s1) \<Rightarrow>
          (rows, if iRes = 0 then s1\<lparr>sh_Error := sh_Error s1 + 1\<rparr> else s1))
      | NotMatch \<Rightarrow> (case ProcSHConfirmOrder e p r of (iRes, rows, r1) \<Rightarrow> (rows, s\<lparr>sh_rep := r1\<rparr>))
      | _ \<Rightarrow> ([], s))"

section \<open>All reports\<close>

type_synonym sh_updates = "(string, string list) omap"

definition add_rows :: "string \<Rightarrow> string list \<Rightarrow> sh_updates \<Rightarrow> sh_updates" where
  "add_rows conn rows m =
     (if rows = [] then m
      else omap_put conn ((case map_of m conn of None \<Rightarrow> [] | Some old \<Rightarrow> old) @ rows) m)"

definition pop_sh :: "'r ShRep \<Rightarrow> int \<times> msgref option \<times> 'r ShRep" where
  "pop_sh s =
     (case OutMemoryManage_PopFront_sh (g_outMsg_buffer (gw (front (acq (sh_rep s))))) of (iRes, p, b) \<Rightarrow>
        (iRes, p, s\<lparr>sh_rep := on_gw (\<lambda>g. g\<lparr>g_outMsg_buffer := b\<rparr>) (sh_rep s)\<rparr>))"

text \<open>The loop ends when the queue is empty, and after 20000 reports.\<close>

fun sh_loop :: "'d sh_env \<Rightarrow> nat \<Rightarrow> sh_updates \<Rightarrow> 'r ShRep \<Rightarrow> int \<times> sh_updates \<times> 'r ShRep" where
  "sh_loop e 0 m s = (0, m, s)"
| "sh_loop e (Suc n) m s =
     (case pop_sh s of (iRes, x, s1) \<Rightarrow>
        if iRes < 0 then sh_loop e n m s1
        else if iRes > 0 then (0, m, s1)
        else (case x of
            None \<Rightarrow> sh_loop e n m s1
          | Some p \<Rightarrow>
              (let s2 = s1\<lparr>sh_rep := RecordReportToDb p (sh_rep s1)\<rparr> in
               case sh_report_one e p s2 of (rows, s3) \<Rightarrow>
                 sh_loop e n (add_rows (strSessionId (rep_msg (sh_rep s3) p)) rows m) s3)))"

definition iMaxLoopcount :: nat where
  "iMaxLoopcount = 20000"

definition Get_SHReport :: "'d sh_env \<Rightarrow> sh_updates \<Rightarrow> 'r ShRep \<Rightarrow> int \<times> sh_updates \<times> 'r ShRep" where
  "Get_SHReport e m s = sh_loop e iMaxLoopcount m s"

text \<open>
  The statements of a connection are executed one by one; one that fails is logged.  A connection
  that cannot be opened ends the call.
\<close>

definition exec_rows :: "string \<Rightarrow> string list \<Rightarrow> 'r ShRep \<Rightarrow> 'r ShRep" where
  "exec_rows conn rows s =
     s\<lparr>sh_rep := with_acq ((acq (sh_rep s))\<lparr>executed := executed (acq (sh_rep s)) @ map (\<lambda>r. (conn, r)) rows\<rparr>) (sh_rep s),
       sh_link_sent := (sh_link_sent s)(conn := sh_link_sent s conn + of_nat (length rows))\<rparr>"

fun Send_SH_ReportOrConfirm :: "'d sh_env \<Rightarrow> sh_updates \<Rightarrow> 'r ShRep \<Rightarrow> int \<times> 'r ShRep" where
  "Send_SH_ReportOrConfirm e [] s = (0, s)"
| "Send_SH_ReportOrConfirm e ((conn, rows) # m) s =
     (if rows = [] then Send_SH_ReportOrConfirm e m s
      else let s1 = s\<lparr>sh_rep := with_acq (put_sh_conn conn (sh_conn (acq (sh_rep s)) conn) (acq (sh_rep s))) (sh_rep s)\<rparr> in
        if \<not> sh_connected (se_acq e) conn (acq (sh_rep s1)) then (-1, s1)
        else Send_SH_ReportOrConfirm e m (exec_rows conn rows s1))"

text \<open>
  \<open>Proc_ShConn_Db_Report::ProcShReport\<close> does not look at the result of sending;
  \<open>ProcMemoryReport::ProcSHReport\<close> returns it.
\<close>

definition ProcShReport :: "'d sh_env \<Rightarrow> 'r ShRep \<Rightarrow> int \<times> 'r ShRep" where
  "ProcShReport e s =
     (case Get_SHReport e [] s of (iRes, m, s1) \<Rightarrow>
        if iRes = 0 then (0, snd (Send_SH_ReportOrConfirm e m s1))
        else if iRes = 1 then (0, s1) else (-1, s1))"

definition ProcSHReport :: "'d sh_env \<Rightarrow> 'r ShRep \<Rightarrow> int \<times> 'r ShRep" where
  "ProcSHReport e s =
     (case Get_SHReport e [] s of (iRes, m, s1) \<Rightarrow>
        if iRes = 0 then Send_SH_ReportOrConfirm e m s1 else (iRes, s1))"

section \<open>Properties\<close>

text \<open>The values in quotes of a statement, in order.\<close>

function sql_values :: "string \<Rightarrow> string list" where
  "sql_values t =
     (case dropWhile (\<lambda>c. c \<noteq> CHR 0x27) t of
        [] \<Rightarrow> []
      | _ # r \<Rightarrow> (case dropWhile (\<lambda>c. c \<noteq> CHR 0x27) r of
           [] \<Rightarrow> []
         | _ # rest \<Rightarrow> takeWhile (\<lambda>c. c \<noteq> CHR 0x27) r # sql_values rest))"
  by pat_completeness auto
termination
proof (relation "measure length")
  fix t r rest :: string and q q'
  assume a: "dropWhile (\<lambda>c. c \<noteq> CHR 0x27) t = q # r" "dropWhile (\<lambda>c. c \<noteq> CHR 0x27) r = q' # rest"
  have "length (q # r) \<le> length t" "length (q' # rest) \<le> length r"
    unfolding a [symmetric] by (rule length_dropWhile_le)+
  then show "(rest, t) \<in> measure length" by simp
qed simp

declare sql_values.simps [simp del]

definition plain :: "string \<Rightarrow> bool" where
  "plain t \<longleftrightarrow> CHR 0x27 \<notin> set t"

lemma plain_append [simp]: "plain (a @ b) \<longleftrightarrow> plain a \<and> plain b"
  by (auto simp: plain_def)

lemma sql_values_quoted: "plain v \<Longrightarrow> sql_values (quoted v @ r) = v # sql_values r"
proof -
  assume v: "plain v"
  have "dropWhile (\<lambda>c. c \<noteq> CHR 0x27) (v @ CHR 0x27 # r) = CHR 0x27 # r"
    "takeWhile (\<lambda>c. c \<noteq> CHR 0x27) (v @ CHR 0x27 # r) = v"
    using v by (subst dropWhile_append2 takeWhile_append2; auto simp: plain_def)+
  then show ?thesis by (subst sql_values.simps) (simp add: quoted_def sq_def)
qed

lemma sql_values_plain: "plain h \<Longrightarrow> sql_values (h @ r) = sql_values r"
  by (subst (1 2) sql_values.simps) (simp add: plain_def dropWhile_append)

lemma sql_values_list: "\<forall>v\<in>set vs. plain v \<Longrightarrow> plain r \<Longrightarrow> sql_values (quoted_list vs @ r) = vs"
proof (induction vs rule: quoted_list.induct)
  case 1
  then show ?case using sql_values_plain [of r "[]"] by (simp add: sql_values.simps)
next
  case (2 v)
  then show ?case using sql_values_plain [of r "[]"] by (simp add: sql_values_quoted) (simp add: sql_values.simps)
next
  case (3 v w vs)
  have "sql_values ('','' @ quoted_list (w # vs) @ r) = w # vs"
    using 3 by (subst sql_values_plain) (simp_all add: plain_def)
  with 3 show ?case by (simp add: sql_values_quoted)
qed

lemma plain_Cons [simp]: "plain (c # t) \<longleftrightarrow> c \<noteq> CHR 0x27 \<and> plain t"
  by (auto simp: plain_def)

lemma plain_Nil [simp]: "plain []"
  by (simp add: plain_def)

lemma digit_no_quote [simp]: "k < 10 \<Longrightarrow> digit_char k \<noteq> CHR 0x27"
proof
  assume k: "k < 10" and "digit_char k = CHR 0x27"
  then have "(of_char (char_of (48 + k)) :: nat) = of_char (CHR 0x27)" by (simp only: digit_char_def)
  with k show False by (simp add: of_char_of)
qed

lemma plain_itos [simp]: "plain (itos n)"
proof -
  have "plain (decimal k)" for k
    by (induction k rule: decimal.induct) (subst decimal.simps, simp)
  then show ?thesis by (simp add: itos_decimal)
qed

lemma plain_iLiToStr [simp]: "plain (iLiToStr n k)"
proof -
  have z: "plain ''0.00''" "plain ''0.000''" "plain ''0.0000''" "plain ''0.000000''" "plain ''0''" "plain ''000''"
    "plain ''.0''" "plain ''.00''" "plain (CHR ''.'' # itos m)" for m by simp_all
  show ?thesis unfolding iLiToStr_def Let_def by (simp only: z plain_append plain_itos plain_Nil simp_thms if_split)
qed

lemma plain_amount [simp]: "plain (trade_amount n)"
  by (simp add: trade_amount_def)

lemma trade_statement_values:
  assumes "plain (report_head_sh a)" "plain date" "plain time"
    "\<forall>v\<in>{strAccountId o1, strSecurity_seat (stepFields o1), strLastQty o1, strStockID o1, strClordid o1, strSide o1}. plain v"
  shows "sql_values (trade_statement a o1 (date, time) n) =
    [strAccountId o1, ''1'', date, itos n, strSecurity_seat (stepFields o1), strLastQty o1, ''0000000001'', strStockID o1,
     filter (\<lambda>c. c \<noteq> CHR '':'') time, filter (\<lambda>c. c \<noteq> CHR '':'') time, iLiToStr (ui64mPrice_matched o1) 3,
     trade_amount (ui64mCashorderqty_matched o1), strClordid o1, strSide o1, ''66666'']"
proof -
  have "plain (filter (\<lambda>c. c \<noteq> CHR '':'') time)" "plain ''1''" "plain ''0000000001''" "plain ''66666''" "plain '');''"
    using assms(3) by (simp_all add: plain_def)
  with assms show ?thesis
    unfolding trade_statement_def Let_def prod.case sql_values_plain [OF assms(1)]
    by (intro sql_values_list) auto
qed

lemma plain_parts: "split_time t = Some (d, h) \<Longrightarrow> plain t \<Longrightarrow> plain d \<and> plain h"
  by (auto simp: split_time_def plain_def Let_def split: if_splits dest!: in_set_takeD in_set_dropD)

text \<open>The report of a trade that no rule makes, for a connection that is known.\<close>

definition trade_ready :: "'r ShRep \<Rightarrow> msgref \<Rightarrow> bool" where
  "trade_ready s p \<longleftrightarrow> (let o1 = rep_msg (sh_rep s) p in
     (enMatchType o1 = MatchAll \<or> enMatchType o1 = MatchPart) \<and> strTrade_market o1 = TRADE_MARKET_SH \<and>
     ui64RuleId (tradePolicy o1) = 0 \<and> split_time (strTransactTime (stepFields o1)) \<noteq> None \<and>
     map_of (sh_conns (acq (sh_rep s))) (strSessionId o1) \<noteq> None)"

definition next_trade :: "'r ShRep \<Rightarrow> string \<Rightarrow> u64" where
  "next_trade s k = m_ui64Cjbh (sh_conn (acq (sh_rep s)) k)"

definition report_statement :: "acq_env \<Rightarrow> OrderMessage \<Rightarrow> u64 \<Rightarrow> string" where
  "report_statement a o1 = trade_statement a o1 (the (split_time (strTransactTime (stepFields o1))))"

abbreviation sh_queue :: "'r ShRep \<Rightarrow> msgref list" where
  "sh_queue s \<equiv> m_sh_Buffer (g_outMsg_buffer (gw (front (acq (sh_rep s)))))"

abbreviation connected_to :: "'d sh_env \<Rightarrow> 'r ShRep \<Rightarrow> string \<Rightarrow> bool" where
  "connected_to e s k \<equiv> sh_connected (se_acq e) k (acq (sh_rep s))"

text \<open>The statements that were executed on a connection.\<close>

definition executed_for :: "string \<Rightarrow> 'r ShRep \<Rightarrow> string list" where
  "executed_for k s = map snd (filter (\<lambda>x. fst x = k) (executed (acq (sh_rep s))))"

text \<open>What a report of a trade leaves as it is: the statements executed, and the links.\<close>

definition keeps_links :: "'r ShRep \<Rightarrow> 'r ShRep \<Rightarrow> bool" where
  "keeps_links s s1 \<longleftrightarrow> executed (acq (sh_rep s1)) = executed (acq (sh_rep s)) \<and>
     (\<forall>k. m_strConnection (sh_conn (acq (sh_rep s1)) k) = m_strConnection (sh_conn (acq (sh_rep s)) k))"

lemma keeps_links_facts:
  "keeps_links s s1 \<Longrightarrow> executed_for k s1 = executed_for k s"
  "keeps_links s s1 \<Longrightarrow> connected_to e s1 k = connected_to e s k"
  by (simp_all add: keeps_links_def executed_for_def sh_connected_def)

lemma keeps_links_trans [trans]: "keeps_links s s1 \<Longrightarrow> keeps_links s1 s2 \<Longrightarrow> keeps_links s s2"
  by (simp add: keeps_links_def)

text \<open>States whose reports differ at most in the numbers they were given.\<close>

definition same_reports :: "'r ShRep \<Rightarrow> 'r ShRep \<Rightarrow> bool" where
  "same_reports s s1 \<longleftrightarrow> (\<forall>p. \<exists>x. rep_msg (sh_rep s1) p = rep_msg (sh_rep s) p\<lparr>strOrderID := x\<rparr>)"

lemma strOrderID_self: "\<exists>x. o1 = o1\<lparr>strOrderID := x\<rparr>"
  by (rule exI [of _ "strOrderID o1"]) simp

lemma same_reports_facts:
  assumes "same_reports s s1"
  shows "report_statement a (rep_msg (sh_rep s1) p) n = report_statement a (rep_msg (sh_rep s) p) n"
    "strSessionId (rep_msg (sh_rep s1) p) = strSessionId (rep_msg (sh_rep s) p)"
    "(\<And>k. map_of (sh_conns (acq (sh_rep s1))) k = None \<longleftrightarrow> map_of (sh_conns (acq (sh_rep s))) k = None) \<Longrightarrow>
       trade_ready s1 p = trade_ready s p"
proof -
  obtain x where x: "rep_msg (sh_rep s1) p = rep_msg (sh_rep s) p\<lparr>strOrderID := x\<rparr>"
    using assms by (auto simp: same_reports_def)
  show "report_statement a (rep_msg (sh_rep s1) p) n = report_statement a (rep_msg (sh_rep s) p) n"
    "strSessionId (rep_msg (sh_rep s1) p) = strSessionId (rep_msg (sh_rep s) p)"
    "(\<And>k. map_of (sh_conns (acq (sh_rep s1))) k = None \<longleftrightarrow> map_of (sh_conns (acq (sh_rep s))) k = None) \<Longrightarrow>
       trade_ready s1 p = trade_ready s p"
    unfolding x trade_ready_def by (simp_all add: report_statement_def trade_statement_def Let_def split: prod.splits)
qed

lemma record_acq [simp]: "acq (WriteTransInfoInDb p r) = acq r"
  by (simp add: WriteTransInfoInDb_def record_event_def)

lemma record_report_facts [simp]:
  "rep_msg (RecordReportToDb p r) q = rep_msg r q" "sh_conns (acq (RecordReportToDb p r)) = sh_conns (acq r)"
  "g_outMsg_buffer (gw (front (acq (RecordReportToDb p r)))) = g_outMsg_buffer (gw (front (acq r)))"
  by (simp_all add: RecordReportToDb_def on_gw_def)

lemma put_sh_conn_facts [simp]:
  "sh_conns (put_sh_conn k c a) = omap_put k c (sh_conns a)" "front (put_sh_conn k c a) = front a"
  by (simp_all add: put_sh_conn_def)

lemma one_trade:
  assumes "trade_ready s p"
  defines "o1 \<equiv> rep_msg (sh_rep s) p"
  obtains s1 where
    "sh_report_one e p s = ([report_statement (se_acq e) o1 (next_trade s (strSessionId o1) + 1)], s1)"
    "same_reports s s1" "sh_queue s1 = sh_queue s"
    "\<And>k. next_trade s1 k = (if k = strSessionId o1 then next_trade s k + 1 else next_trade s k)"
    "\<And>k. map_of (sh_conns (acq (sh_rep s1))) k = None \<longleftrightarrow> map_of (sh_conns (acq (sh_rep s))) k = None"
    "keeps_links s s1"
proof -
  from assms obtain t c where t: "split_time (strTransactTime (stepFields o1)) = Some t"
    "map_of (sh_conns (acq (sh_rep s))) (strSessionId o1) = Some c" "ui64RuleId (tradePolicy o1) = 0"
    "strTrade_market o1 = TRADE_MARKET_SH" "enMatchType o1 = MatchAll \<or> enMatchType o1 = MatchPart"
    by (auto simp: trade_ready_def Let_def)
  define r where "r = WriteTransInfoInDb p (sh_rep s)"
  have r [simp]: "acq r = acq (sh_rep s)" by (simp add: r_def)
  define n where "n = m_ui64Cjbh c + 1"
  define a1 where "a1 = put_sh_conn (strSessionId o1) (c\<lparr>m_ui64Cjbh := n\<rparr>) (acq (sh_rep s))"
  define s1 where "s1 = s\<lparr>sh_rep := change_report p (\<lambda>o1. o1\<lparr>strOrderID := itos n\<rparr>) (with_acq a1 r)\<rparr>"
  have c: "next_trade s (strSessionId o1) = m_ui64Cjbh c" using t(2) by (simp add: next_trade_def sh_conn_def)
  have "TRADE_MARKET_SH \<noteq> TRADE_MARKET_SZ" by (simp add: TRADE_MARKET_SH_def TRADE_MARKET_SZ_def)
  then have "Sh_ProcSingleReport e p (sh_rep s) = (0, [report_statement (se_acq e) o1 n], sh_rep s1)"
    using t unfolding Sh_ProcSingleReport_def o1_def [symmetric] Let_def r_def [symmetric]
    by (simp add: FixToSHReport_def Let_def o1_def [symmetric] IncCjbh_def n_def report_statement_def s1_def a1_def)
  then have one: "sh_report_one e p s = ([report_statement (se_acq e) o1 (next_trade s (strSessionId o1) + 1)], s1)"
    using t(5) unfolding c n_def by (auto simp: sh_report_one_def o1_def s1_def Let_def)
  have same: "same_reports s s1"
    unfolding same_reports_def
  proof
    fix q
    show "\<exists>x. rep_msg (sh_rep s1) q = rep_msg (sh_rep s) q\<lparr>strOrderID := x\<rparr>"
    proof (cases "q = p \<and> p < length (heap (gw (front (acq (sh_rep s)))))")
      case True
      then have "rep_msg (sh_rep s1) q = rep_msg (sh_rep s) q\<lparr>strOrderID := itos n\<rparr>"
        by (simp add: s1_def change_report_def on_gw_def modify_msg_def with_acq_def a1_def)
      then show ?thesis ..
    next
      case False
      then have "rep_msg (sh_rep s1) q = rep_msg (sh_rep s) q"
        by (cases "p < length (heap (gw (front (acq (sh_rep s)))))")
          (auto simp: s1_def change_report_def on_gw_def modify_msg_def put_msg_def with_acq_def a1_def
            list_update_beyond not_less)
      then show ?thesis using strOrderID_self by simp
    qed
  qed
  have conns: "sh_conns (acq (sh_rep s1)) = omap_put (strSessionId o1) (c\<lparr>m_ui64Cjbh := n\<rparr>) (sh_conns (acq (sh_rep s)))"
    by (simp add: s1_def change_report_def on_gw_def with_acq_def a1_def)
  show thesis
  proof (rule that [OF one same])
    show "sh_queue s1 = sh_queue s"
      by (simp add: s1_def change_report_def on_gw_def with_acq_def a1_def modify_msg_def)
    show "next_trade s1 k = (if k = strSessionId o1 then next_trade s k + 1 else next_trade s k)" for k
      using t(2) by (simp add: next_trade_def sh_conn_def conns n_def)
    show "map_of (sh_conns (acq (sh_rep s1))) k = None \<longleftrightarrow> map_of (sh_conns (acq (sh_rep s))) k = None" for k
      using t(2) by (simp add: conns)
    have "executed (acq (sh_rep s1)) = executed (acq (sh_rep s))"
      by (simp add: s1_def change_report_def on_gw_def with_acq_def a1_def put_sh_conn_def)
    then show "keeps_links s s1" using t(2) by (simp add: keeps_links_def sh_conn_def conns)
  qed
qed

text \<open>The statements of a connection: its trades numbered one after the other from the number \<open>n\<close>.\<close>

fun numbered :: "acq_env \<Rightarrow> OrderMessage list \<Rightarrow> u64 \<Rightarrow> string list" where
  "numbered a [] n = []"
| "numbered a (o1 # os) n = report_statement a o1 (n + 1) # numbered a os (n + 1)"

definition of_session :: "string \<Rightarrow> 'r ShRep \<Rightarrow> msgref list \<Rightarrow> OrderMessage list" where
  "of_session k s ps = filter (\<lambda>o1. strSessionId o1 = k) (map (rep_msg (sh_rep s)) ps)"

definition rows_of :: "sh_updates \<Rightarrow> string \<Rightarrow> string list" where
  "rows_of m k = (case map_of m k of None \<Rightarrow> [] | Some rows \<Rightarrow> rows)"

lemma rows_of_add [simp]: "rows_of (add_rows k rows m) k' = (if k' = k then rows_of m k @ rows else rows_of m k')"
  by (simp add: rows_of_def add_rows_def split: option.split)

lemma numbered_same:
  "same_reports s s1 \<Longrightarrow> numbered a (of_session k s1 ps) n = numbered a (of_session k s ps) n \<and>
     length (of_session k s1 ps) = length (of_session k s ps)"
  by (induction ps arbitrary: n) (simp_all add: of_session_def same_reports_facts)

lemma same_reports_recorded: "same_reports s (s\<lparr>sh_rep := RecordReportToDb p (sh_rep s)\<rparr>)"
  by (simp add: same_reports_def strOrderID_self)

lemma sh_loop_numbers:
  assumes "length ps \<le> n" "sh_queue s = ps" "\<forall>p\<in>set ps. trade_ready s p" "omap_wf m"
  shows "\<exists>m1 s1. sh_loop e n m s = (0, m1, s1) \<and> sh_queue s1 = [] \<and> omap_wf m1 \<and> keeps_links s s1 \<and>
    (\<forall>k. rows_of m1 k = rows_of m k @ numbered (se_acq e) (of_session k s ps) (next_trade s k) \<and>
       next_trade s1 k = next_trade s k + of_nat (length (of_session k s ps)))"
  using assms
proof (induction ps arbitrary: n m s)
  case Nil
  then show ?case
    by (cases n) (simp_all add: pop_sh_def OutMemoryManage_PopFront_sh_def MemoryStoreCell_PopFront_def of_session_def
        on_gw_def next_trade_def sh_conn_def keeps_links_def)
next
  case (Cons p ps)
  then obtain n' where n: "n = Suc n'" "length ps \<le> n'" by (cases n) auto
  define s0 where "s0 = snd (snd (pop_sh s))"
  have pop: "pop_sh s = (0, Some p, s0)" "sh_queue s0 = ps" "\<And>q. rep_msg (sh_rep s0) q = rep_msg (sh_rep s) q"
    "sh_conns (acq (sh_rep s0)) = sh_conns (acq (sh_rep s))"
    using Cons.prems(2)
    by (simp_all add: s0_def pop_sh_def OutMemoryManage_PopFront_sh_def MemoryStoreCell_PopFront_def on_gw_def)
  define s2 where "s2 = s0\<lparr>sh_rep := RecordReportToDb p (sh_rep s0)\<rparr>"
  have s2: "same_reports s s2" "sh_queue s2 = ps" "sh_conns (acq (sh_rep s2)) = sh_conns (acq (sh_rep s))"
    "\<And>q. rep_msg (sh_rep s2) q = rep_msg (sh_rep s) q" "\<And>k. next_trade s2 k = next_trade s k"
    using pop by (simp_all add: s2_def same_reports_def strOrderID_self next_trade_def sh_conn_def)
  have "executed (acq (sh_rep s2)) = executed (acq (sh_rep s))"
    by (simp add: s2_def RecordReportToDb_def on_gw_def s0_def pop_sh_def split: prod.split)
  then have links2: "keeps_links s s2" by (simp add: keeps_links_def sh_conn_def s2(3))
  have ready2: "trade_ready s2 q = trade_ready s q" for q
    by (rule same_reports_facts(3) [OF s2(1)]) (simp add: s2(3))
  have "trade_ready s2 p" using Cons.prems(3) ready2 by simp
  define o1 where "o1 = rep_msg (sh_rep s) p"
  obtain s3 where s3: "sh_report_one e p s2 = ([report_statement (se_acq e) o1 (next_trade s (strSessionId o1) + 1)], s3)"
    "same_reports s2 s3" "sh_queue s3 = ps"
    "\<And>k. next_trade s3 k = (if k = strSessionId o1 then next_trade s k + 1 else next_trade s k)"
    "\<And>k. map_of (sh_conns (acq (sh_rep s3))) k = None \<longleftrightarrow> map_of (sh_conns (acq (sh_rep s2))) k = None"
    "keeps_links s2 s3"
    by (rule one_trade [OF \<open>trade_ready s2 p\<close>, of e, unfolded s2(2,4,5) o1_def [symmetric]]) (rule that)
  define m' where "m' = add_rows (strSessionId o1) [report_statement (se_acq e) o1 (next_trade s (strSessionId o1) + 1)] m"
  have same: "same_reports s s3" using s3(2) by (simp add: same_reports_def s2(4))
  have "\<forall>q\<in>set ps. trade_ready s3 q"
    using same_reports_facts(3) [OF s3(2,5)] ready2 Cons.prems(3) by simp
  have "omap_wf m'" using Cons.prems(4) by (simp add: m'_def add_rows_def omap_wf_put)
  from Cons.IH [OF n(2) s3(3) \<open>\<forall>q\<in>set ps. trade_ready s3 q\<close> this] obtain m1 s1 where
    IH: "sh_loop e n' m' s3 = (0, m1, s1)" "sh_queue s1 = []" "omap_wf m1" "keeps_links s3 s1"
    "\<And>k. rows_of m1 k = rows_of m' k @ numbered (se_acq e) (of_session k s3 ps) (next_trade s3 k)"
    "\<And>k. next_trade s1 k = next_trade s3 k + of_nat (length (of_session k s3 ps))"
    by blast
  have "strSessionId (rep_msg (sh_rep s3) p) = strSessionId o1"
    using same_reports_facts(2) [OF same] by (simp add: o1_def)
  then have run: "sh_loop e n m s = (0, m1, s1)"
    using IH(1) by (simp add: n(1) pop(1) s2_def [symmetric] s3(1) m'_def Let_def)
  show ?case
  proof (intro exI conjI allI)
    show "sh_loop e n m s = (0, m1, s1)" by (rule run)
    show "sh_queue s1 = []" "omap_wf m1" by (rule IH)+
    show "keeps_links s s1" using links2 s3(6) IH(4) keeps_links_trans by blast
    show "rows_of m1 k = rows_of m k @ numbered (se_acq e) (of_session k s (p # ps)) (next_trade s k)" for k
      unfolding IH(5) using numbered_same [OF same, of "se_acq e" k ps]
      by (simp add: m'_def s3(4)) (simp add: of_session_def o1_def)
    show "next_trade s1 k = next_trade s k + of_nat (length (of_session k s (p # ps)))" for k
      unfolding IH(6) using numbered_same [OF same, of "se_acq e" k ps]
      by (simp add: s3(4)) (simp add: of_session_def o1_def)
  qed
qed

text \<open>The state with the entry of a connection made, which \<open>operator[]\<close> of the connections does.\<close>

definition entered :: "string \<Rightarrow> 'r ShRep \<Rightarrow> 'r ShRep" where
  "entered conn s = s\<lparr>sh_rep := with_acq (put_sh_conn conn (sh_conn (acq (sh_rep s)) conn) (acq (sh_rep s))) (sh_rep s)\<rparr>"

lemma entered_conn: "sh_conn (acq (sh_rep (entered conn s))) k = sh_conn (acq (sh_rep s)) k"
  by (simp add: entered_def with_acq_def sh_conn_def)

lemma entered_facts [simp]:
  "next_trade (entered conn s) k = next_trade s k" "connected_to e (entered conn s) k = connected_to e s k"
  "sh_queue (entered conn s) = sh_queue s" "executed_for k (entered conn s) = executed_for k s"
  by (simp_all add: next_trade_def sh_connected_def entered_conn)
    (simp_all add: entered_def with_acq_def executed_for_def put_sh_conn_def)

lemma exec_rows_facts [simp]:
  "next_trade (exec_rows conn rows s) k = next_trade s k" "connected_to e (exec_rows conn rows s) k = connected_to e s k"
  "sh_queue (exec_rows conn rows s) = sh_queue s"
  "executed_for k (exec_rows conn rows s) = executed_for k s @ (if k = conn then rows else [])"
proof -
  have "filter (\<lambda>x. fst x = k) (map (\<lambda>r. (conn, r)) rows) = (if k = conn then map (\<lambda>r. (conn, r)) rows else [])"
    by (induction rows) auto
  then show "executed_for k (exec_rows conn rows s) = executed_for k s @ (if k = conn then rows else [])"
    by (simp add: executed_for_def exec_rows_def with_acq_def comp_def)
qed (simp_all add: exec_rows_def with_acq_def next_trade_def sh_conn_def sh_connected_def)

lemma Send_step:
  "rows \<noteq> [] \<Longrightarrow> connected_to e s conn \<Longrightarrow>
     Send_SH_ReportOrConfirm e ((conn, rows) # m) s = Send_SH_ReportOrConfirm e m (exec_rows conn rows (entered conn s))"
  "rows \<noteq> [] \<Longrightarrow> \<not> connected_to e s conn \<Longrightarrow> Send_SH_ReportOrConfirm e ((conn, rows) # m) s = (-1, entered conn s)"
  using entered_facts(2) [where e = e and conn = conn and s = s and k = conn] by (simp_all add: entered_def [symmetric])

declare Send_SH_ReportOrConfirm.simps(2) [simp del]

lemma rows_of_simps [simp]:
  "rows_of [] k = []" "rows_of ((conn, rows) # m) k = (if k = conn then rows else rows_of m k)"
  by (auto simp: rows_of_def)

lemma rows_of_none: "k \<notin> fst ` set m \<Longrightarrow> rows_of m k = []"
  by (induction m) auto

lemma Send_all:
  assumes "distinct (map fst m)" "\<forall>k. rows_of m k \<noteq> [] \<longrightarrow> connected_to e s k"
  shows "\<exists>s1. Send_SH_ReportOrConfirm e m s = (0, s1) \<and> sh_queue s1 = sh_queue s \<and>
    (\<forall>k. executed_for k s1 = executed_for k s @ rows_of m k \<and> next_trade s1 k = next_trade s k)"
  using assms
proof (induction m arbitrary: s)
  case (Cons x m)
  obtain conn rows where x: "x = (conn, rows)" by fastforce
  have new: "rows_of m conn = []" using Cons.prems(1) x by (simp add: rows_of_none)
  have rest: "\<forall>k. rows_of m k \<noteq> [] \<longrightarrow> connected_to e s k"
  proof (intro allI impI)
    fix k assume k: "rows_of m k \<noteq> []"
    then have "k \<noteq> conn" using new by auto
    with k have "rows_of (x # m) k \<noteq> []" by (simp add: x)
    then show "connected_to e s k" by (rule Cons.prems(2) [rule_format])
  qed
  show ?case
  proof (cases "rows = []")
    case True
    with Cons.IH [OF _ rest] Cons.prems(1) x new show ?thesis by (auto simp: Send_SH_ReportOrConfirm.simps(2))
  next
    case False
    then have c: "connected_to e s conn" using Cons.prems(2) x by simp
    let ?s = "exec_rows conn rows (entered conn s)"
    have "\<forall>k. rows_of m k \<noteq> [] \<longrightarrow> connected_to e ?s k" using rest by simp
    from Cons.IH [OF _ this] Cons.prems(1) x obtain s1 where
      "Send_SH_ReportOrConfirm e m ?s = (0, s1)" "sh_queue s1 = sh_queue s"
      "\<forall>k. executed_for k s1 = executed_for k ?s @ rows_of m k \<and> next_trade s1 k = next_trade s k"
      by auto
    then show ?thesis using x new by (auto simp: Send_step(1) [OF False c])
  qed
qed simp

lemma Send_never_to:
  assumes "\<not> connected_to e s k"
  shows "\<exists>iRes s1. Send_SH_ReportOrConfirm e m s = (iRes, s1) \<and> sh_queue s1 = sh_queue s \<and>
    executed_for k s1 = executed_for k s \<and> next_trade s1 k = next_trade s k"
  using assms
proof (induction m arbitrary: s)
  case (Cons x m)
  obtain conn rows where x: "x = (conn, rows)" by fastforce
  consider "rows = []" | "rows \<noteq> []" "\<not> connected_to e s conn" | "rows \<noteq> []" "connected_to e s conn" by blast
  then show ?case
  proof cases
    case 1
    with Cons x show ?thesis by (simp add: Send_SH_ReportOrConfirm.simps(2))
  next
    case 2
    then show ?thesis by (simp add: x Send_step(2))
  next
    case 3
    then have "k \<noteq> conn" using Cons.prems by auto
    with Cons.IH [of "exec_rows conn rows (entered conn s)"] Cons.prems show ?thesis
      by (simp add: x Send_step(1) [OF 3])
  qed
qed simp

lemma numbered_Nil: "numbered a os n = [] \<longleftrightarrow> os = []"
  by (cases os) simp_all

text \<open>
  C13.  The statement of a trade reads back as the trade: for a report that no rule makes there is one
  statement, whose values in quotes are the account, the date and time of the trade, the next number
  of the connection, the seat, quantity, security, price and amount, the order's number and its side.
\<close>

theorem trade_statement_readable:
  assumes "trade_ready s p" "o1 = rep_msg (sh_rep s) p" "split_time (strTransactTime (stepFields o1)) = Some (date, time)"
    "plain (report_head_sh (se_acq e))"
    "\<forall>v\<in>{strTransactTime (stepFields o1), strAccountId o1, strSecurity_seat (stepFields o1), strLastQty o1, strStockID o1,
       strClordid o1, strSide o1}. plain v"
  shows "\<exists>t s1. sh_report_one e p s = ([t], s1) \<and>
    sql_values t = [strAccountId o1, ''1'', date, itos (next_trade s (strSessionId o1) + 1), strSecurity_seat (stepFields o1),
      strLastQty o1, ''0000000001'', strStockID o1, filter (\<lambda>c. c \<noteq> CHR '':'') time, filter (\<lambda>c. c \<noteq> CHR '':'') time,
      iLiToStr (ui64mPrice_matched o1) 3, trade_amount (ui64mCashorderqty_matched o1), strClordid o1, strSide o1, ''66666'']"
proof -
  have "plain date" "plain time" using plain_parts [OF assms(3)] assms(5) by simp_all
  with assms(4,5) have "sql_values (report_statement (se_acq e) o1 n) = [strAccountId o1, ''1'', date, itos n,
      strSecurity_seat (stepFields o1), strLastQty o1, ''0000000001'', strStockID o1, filter (\<lambda>c. c \<noteq> CHR '':'') time,
      filter (\<lambda>c. c \<noteq> CHR '':'') time, iLiToStr (ui64mPrice_matched o1) 3,
      trade_amount (ui64mCashorderqty_matched o1), strClordid o1, strSide o1, ''66666'']" for n
    unfolding report_statement_def assms(3) option.sel by (intro trade_statement_values) simp_all
  then show ?thesis
    using one_trade [OF assms(1), of e] unfolding assms(2) [symmetric] by metis
qed

text \<open>
  C12.  The reports of Shanghai are numbered without gaps: when trades are queued whose connections can
  be opened, one round empties the queue and executes, on each connection, one statement for each of
  its trades, in the order of the queue, numbered one after the other from the last number.
\<close>

theorem ProcShReport_numbers_trades:
  assumes "length (sh_queue s) \<le> iMaxLoopcount"
    "\<forall>p\<in>set (sh_queue s). trade_ready s p \<and> connected_to e s (strSessionId (rep_msg (sh_rep s) p))"
  shows "\<exists>s1. ProcShReport e s = (0, s1) \<and> sh_queue s1 = [] \<and>
    (\<forall>k. let os = of_session k s (sh_queue s) in
       executed_for k s1 = executed_for k s @ numbered (se_acq e) os (next_trade s k) \<and>
       next_trade s1 k = next_trade s k + of_nat (length os))"
proof -
  obtain m s0 where loop: "Get_SHReport e [] s = (0, m, s0)" "sh_queue s0 = []" "omap_wf m" "keeps_links s s0"
    "\<And>k. rows_of m k = numbered (se_acq e) (of_session k s (sh_queue s)) (next_trade s k)"
    "\<And>k. next_trade s0 k = next_trade s k + of_nat (length (of_session k s (sh_queue s)))"
    using sh_loop_numbers [OF assms(1) refl, where m = "[]" and e = e] assms(2) unfolding Get_SHReport_def by auto
  have "connected_to e s k" if "of_session k s (sh_queue s) \<noteq> []" for k
    using that assms(2) by (auto simp: of_session_def filter_empty_conv)
  then have "\<forall>k. rows_of m k \<noteq> [] \<longrightarrow> connected_to e s0 k"
    by (simp add: loop(5) numbered_Nil keeps_links_facts(2) [OF loop(4)])
  from Send_all [OF omap_wf_distinct [OF loop(3)] this] obtain s1 where
    "Send_SH_ReportOrConfirm e m s0 = (0, s1)" "sh_queue s1 = []"
    "\<And>k. executed_for k s1 = executed_for k s0 @ rows_of m k" "\<And>k. next_trade s1 k = next_trade s0 k"
    using loop(2) by auto
  then show ?thesis
    using loop keeps_links_facts(1) [OF loop(4)] by (auto simp: ProcShReport_def Let_def)
qed

text \<open>
  C39.  A connection that cannot be opened loses its reports: the round still returns 0, the queue is
  empty, nothing is executed on the connection, and the numbers of its trades are used up.
\<close>

theorem failed_link_loses_reports:
  assumes "length (sh_queue s) \<le> iMaxLoopcount" "\<forall>p\<in>set (sh_queue s). trade_ready s p" "\<not> connected_to e s k"
  shows "\<exists>s1. ProcShReport e s = (0, s1) \<and> sh_queue s1 = [] \<and> executed_for k s1 = executed_for k s \<and>
    next_trade s1 k = next_trade s k + of_nat (length (of_session k s (sh_queue s)))"
proof -
  obtain m s0 where loop: "Get_SHReport e [] s = (0, m, s0)" "sh_queue s0 = []" "keeps_links s s0"
    "next_trade s0 k = next_trade s k + of_nat (length (of_session k s (sh_queue s)))"
    using sh_loop_numbers [OF assms(1) refl assms(2), where m = "[]" and e = e] unfolding Get_SHReport_def by auto
  have "\<not> connected_to e s0 k" using assms(3) by (simp add: keeps_links_facts(2) [OF loop(3)])
  from Send_never_to [OF this, of m] loop show ?thesis
    using keeps_links_facts(1) [OF loop(3)] by (auto simp: ProcShReport_def)
qed

section \<open>The properties at sample values\<close>

text \<open>Two trades of the connection N1, whose last number is 41.\<close>

definition sample_trade :: "string \<Rightarrow> OrderMessage" where
  "sample_trade n = OrderMessage_new\<lparr>enMatchType := MatchAll, strTrade_market := TRADE_MARKET_SH, strSessionId := ''N1'',
     strClordid := n, strAccountId := ''A1'', strLastQty := ''100'', strStockID := ''600000'', strSide := ''B'',
     ui64mPrice_matched := 10100, ui64mCashorderqty_matched := 1010000,
     stepFields := StepFields_new\<lparr>strSecurity_seat := ''S1'', strTransactTime := ''20200102-09:30:00.000''\<rparr>\<rparr>"

definition sample_sh_rep :: "(string \<Rightarrow> string option) ShRep" where
  "sample_sh_rep = \<lparr>sh_rep = \<lparr>acq = \<lparr>front = \<lparr>gw = (sample_gw [sample_trade ''7'', sample_trade ''8''])\<lparr>g_outMsg_buffer :=
         \<lparr>m_sz_Buffer = Map.empty, m_sh_Buffer = [0, 1]\<rparr>\<rparr>,
         g_mapSzConns = Map.empty, confirm_sz = 0, confirm_sh = 0, fix_rejects = [], g_inMsg_buffer = [],
         g_mtskPool_valid = [], valid_tasks = Map.empty\<rparr>,
       sz_conns = [], sh_conns = [(''N1'', ShConnection_new\<lparr>m_ui64Cjbh := 41\<rparr>)], executed = [], received_sz = 0,
       received_sh = 0, link_received = (\<lambda>c. 0)\<rparr>, sent = [], recorded = [], cnt_MatchCancel = 0, cnt_Error = 0,
       link_sent = (\<lambda>c. 0)\<rparr>, sh_MatchCancel = 0, sh_Error = 0, sh_link_sent = (\<lambda>c. 0)\<rparr>"

definition sample_sh_env :: "bool \<Rightarrow> int sh_env" where
  "sample_sh_env up = \<lparr>se_acq = sample_acq\<lparr>a_connect := (\<lambda>c. up)\<rparr>, se_ops = cent_ops,
     se_clock = \<lparr>time_YYYYMMDD = [], time_C8 = [], time_C6 = [], time_fixmsg = []\<rparr>, se_rules = (\<lambda>r. MATCH_RULE_new)\<rparr>"

lemma sample_sh_facts:
  "sh_queue sample_sh_rep = [0, 1]" "rep_msg (sh_rep sample_sh_rep) 0 = sample_trade ''7''"
  "rep_msg (sh_rep sample_sh_rep) (Suc 0) = sample_trade ''8''" "connected_to (sample_sh_env up) sample_sh_rep k = up"
  "next_trade sample_sh_rep ''N1'' = 41" "executed_for k sample_sh_rep = []"
  by (simp_all add: sample_sh_rep_def sample_gw_def sh_connected_def sample_sh_env_def next_trade_def sh_conn_def
      executed_for_def)

lemma sample_time: "split_time ''20200102-09:30:00.000'' = Some (''20200102'', ''09:30:00'')"
  by (simp add: split_time_def Let_def)

lemma sample_ready: "trade_ready sample_sh_rep 0" "trade_ready sample_sh_rep (Suc 0)"
  unfolding trade_ready_def sample_sh_facts Let_def
  by (simp_all add: sample_trade_def sample_time OrderMessage_new_def TradePolicyCell_new_def sample_sh_rep_def)

lemma sample_limit: "length (sh_queue sample_sh_rep) \<le> iMaxLoopcount"
  unfolding sample_sh_facts iMaxLoopcount_def by simp

theorem trade_statement_readable_witness:
  "\<exists>t s1. sh_report_one (sample_sh_env True) 0 sample_sh_rep = ([t], s1) \<and>
     sql_values t = [''A1'', ''1'', ''20200102'', itos 42, ''S1'', ''100'', ''0000000001'', ''600000'', ''093000'', ''093000'',
       iLiToStr 10100 3, trade_amount 1010000, ''7'', ''B'', ''66666'']"
proof -
  let ?o = "sample_trade ''7''"
  have o: "strSessionId ?o = ''N1''" "strTransactTime (stepFields ?o) = ''20200102-09:30:00.000''" "strAccountId ?o = ''A1''"
    "strSecurity_seat (stepFields ?o) = ''S1''" "strLastQty ?o = ''100''" "strStockID ?o = ''600000''"
    "strClordid ?o = ''7''" "strSide ?o = ''B''" "ui64mPrice_matched ?o = 10100" "ui64mCashorderqty_matched ?o = 1010000"
    by (simp_all add: sample_trade_def)
  have a: "?o = rep_msg (sh_rep sample_sh_rep) 0" by (simp add: sample_sh_facts)
  have b: "split_time (strTransactTime (stepFields ?o)) = Some (''20200102'', ''09:30:00'')"
    unfolding o by (rule sample_time)
  have c: "plain (report_head_sh (se_acq (sample_sh_env True)))"
    by (simp add: report_head_sh_def sample_sh_env_def sample_acq_def)
  have d: "\<forall>v\<in>{strTransactTime (stepFields ?o), strAccountId ?o, strSecurity_seat (stepFields ?o), strLastQty ?o,
      strStockID ?o, strClordid ?o, strSide ?o}. plain v"
    unfolding o by simp
  have e: "filter (\<lambda>c. c \<noteq> CHR '':'') ''09:30:00'' = ''093000''" "(41 :: u64) + 1 = 42" by simp_all
  show ?thesis
    using trade_statement_readable [OF sample_ready(1) a b c d] unfolding o sample_sh_facts e .
qed

theorem ProcShReport_numbers_trades_witness:
  "\<exists>s1. ProcShReport (sample_sh_env True) sample_sh_rep = (0, s1) \<and> sh_queue s1 = [] \<and>
     executed_for ''N1'' s1 = [report_statement sample_acq (sample_trade ''7'') 42, report_statement sample_acq (sample_trade ''8'') 43]"
proof -
  have a: "\<forall>p\<in>set (sh_queue sample_sh_rep). trade_ready sample_sh_rep p \<and>
      connected_to (sample_sh_env True) sample_sh_rep (strSessionId (rep_msg (sh_rep sample_sh_rep) p))"
    unfolding sample_sh_facts using sample_ready by simp
  have os: "of_session ''N1'' sample_sh_rep [0, 1] = [sample_trade ''7'', sample_trade ''8'']"
    by (simp add: of_session_def sample_sh_facts) (simp add: sample_trade_def)
  have st: "report_statement (se_acq (sample_sh_env True)) = report_statement sample_acq"
    by (intro ext) (simp add: report_statement_def trade_statement_def report_head_sh_def sample_sh_env_def split: prod.split)
  from ProcShReport_numbers_trades [OF sample_limit a] obtain s1 where
    s1: "ProcShReport (sample_sh_env True) sample_sh_rep = (0, s1)" "sh_queue s1 = []" and
    all: "\<forall>k. executed_for k s1 = executed_for k sample_sh_rep @
       numbered (se_acq (sample_sh_env True)) (of_session k sample_sh_rep (sh_queue sample_sh_rep)) (next_trade sample_sh_rep k)"
    unfolding Let_def by blast
  have "executed_for ''N1'' s1 = [] @ numbered (se_acq (sample_sh_env True)) (of_session ''N1'' sample_sh_rep [0, 1]) 41"
    using all [THEN spec, of "''N1''"] unfolding sample_sh_facts .
  then show ?thesis using s1 unfolding os by (intro exI [of _ s1] conjI) (simp_all add: st)
qed

theorem failed_link_loses_reports_witness:
  "\<exists>s1. ProcShReport (sample_sh_env False) sample_sh_rep = (0, s1) \<and> sh_queue s1 = [] \<and> executed_for ''N1'' s1 = [] \<and>
     next_trade s1 ''N1'' = 43"
proof -
  have a: "\<forall>p\<in>set (sh_queue sample_sh_rep). trade_ready sample_sh_rep p" "\<not> connected_to (sample_sh_env False) sample_sh_rep ''N1''"
    unfolding sample_sh_facts using sample_ready by simp_all
  have os: "of_session ''N1'' sample_sh_rep [0, 1] = [sample_trade ''7'', sample_trade ''8'']"
    by (simp add: of_session_def sample_sh_facts) (simp add: sample_trade_def)
  show ?thesis
    using failed_link_loses_reports [OF sample_limit a] unfolding sample_sh_facts os by simp
qed

end
