(* ===== verification/EtfContainer.thy ===== *)
theory EtfContainer
  imports ShReport
begin

text \<open>
  \<open>etf/ETFContainer.cpp\<close>, \<open>etf/ValidateETF.cpp\<close> and the structures of \<open>etf/conf_etf_info.h\<close>: the table of ETF
  packages.  A package comes from the administration as a JSON object, is validated, stored in the
  database by statements inside a transaction, and entered into the table; a reload reads the table
  back from the database.  A member of a package is set by its name, in both directions by the same
  names; amounts of money come as text in yuan from the administration and as li from the database.
\<close>

section \<open>Packages\<close>

record 'd EtfPackage = "'d SzETF" +
  etf_strVersion :: string
  etf_strSecurityID :: string
  etf_strSecurityIDSource :: string
  etf_strSymbol :: string
  etf_strFundManagementCompany :: string
  etf_strUnderlyingSecurityID :: string
  etf_strUnderlyingSecurityIDSource :: string
  ui64mEstimateCashComponent :: u64
  bPublish :: bool
  ui64RecordNum :: u64
  ui64TotalRecordNum :: u64
  strTradingDay :: string
  strPreTradingDay :: string
  ui64mCashComponent :: u64
  ui64mNAV :: u64
  ui64mDividendPerCU :: u64
  ui64CreationLimit :: u64
  ui64RedemptionLimit :: u64
  ui64CreationLimitPerUser :: u64
  ui64RedemptionLimitPerUser :: u64
  ui64NetCreationLimit :: u64
  ui64NetRedemptionLimit :: u64
  ui64NetCreationLimitPerUser :: u64
  ui64NetRedemptionLimitPerUser :: u64

text \<open>The constructor leaves \<open>bPublish\<close> uninitialized; its value is an argument.\<close>

definition EtfPackage_new :: "'d word_ops \<Rightarrow> bool \<Rightarrow> 'd EtfPackage" where
  "EtfPackage_new ops publish = \<lparr>ui64CreationRedemptionUnit = 0, dMaxCashRatio = w_zero ops, bCreation = False,
     bRedemption = False, ui64mNAVperCU = 0, vecComponents = [], etf_strVersion = [], etf_strSecurityID = [],
     etf_strSecurityIDSource = [], etf_strSymbol = [], etf_strFundManagementCompany = [], etf_strUnderlyingSecurityID = [],
     etf_strUnderlyingSecurityIDSource = [], ui64mEstimateCashComponent = 0, bPublish = publish, ui64RecordNum = 0,
     ui64TotalRecordNum = 0, strTradingDay = [], strPreTradingDay = [], ui64mCashComponent = 0, ui64mNAV = 0,
     ui64mDividendPerCU = 0, ui64CreationLimit = 0, ui64RedemptionLimit = 0, ui64CreationLimitPerUser = 0,
     ui64RedemptionLimitPerUser = 0, ui64NetCreationLimit = 0, ui64NetRedemptionLimit = 0,
     ui64NetCreationLimitPerUser = 0, ui64NetRedemptionLimitPerUser = 0\<rparr>"

definition EtfComponent_new :: "'d word_ops \<Rightarrow> 'd SzETFComponent" where
  "EtfComponent_new ops = \<lparr>comp_strUnderlyingSecurityID = [], comp_strUnderlyingSecurityIDSource = [],
     comp_strUnderlyingSymbol = [], ui64ComponentShare = 0, iSubstituteFlag = 0, dPremiumRatio = w_zero ops,
     ui64mCreationCashSubstitute = 0, ui64mRedemptionCashSubstitute = 0\<rparr>"

section \<open>Setting a member by its name\<close>

text \<open>The members whose value is taken as it is, the flags, the numbers and the amounts.\<close>

definition text_members :: "(string \<times> (string \<Rightarrow> 'd EtfPackage \<Rightarrow> 'd EtfPackage)) list" where
  "text_members =
     [(''Version'', \<lambda>v e. e\<lparr>etf_strVersion := v\<rparr>), (''SecurityID'', \<lambda>v e. e\<lparr>etf_strSecurityID := v\<rparr>),
      (''SecurityIDSource'', \<lambda>v e. e\<lparr>etf_strSecurityIDSource := v\<rparr>), (''Symbol'', \<lambda>v e. e\<lparr>etf_strSymbol := v\<rparr>),
      (''FundManagementCompany'', \<lambda>v e. e\<lparr>etf_strFundManagementCompany := v\<rparr>),
      (''UnderlyingSecurityID'', \<lambda>v e. e\<lparr>etf_strUnderlyingSecurityID := v\<rparr>),
      (''UnderlyingSecurityIDSource'', \<lambda>v e. e\<lparr>etf_strUnderlyingSecurityIDSource := v\<rparr>),
      (''TradingDay'', \<lambda>v e. e\<lparr>strTradingDay := v\<rparr>), (''PreTradingDay'', \<lambda>v e. e\<lparr>strPreTradingDay := v\<rparr>)]"

definition flag_members :: "(string \<times> (bool \<Rightarrow> 'd EtfPackage \<Rightarrow> 'd EtfPackage)) list" where
  "flag_members = [(''Publish'', \<lambda>b e. e\<lparr>bPublish := b\<rparr>), (''Creation'', \<lambda>b e. e\<lparr>bCreation := b\<rparr>),
     (''Redemption'', \<lambda>b e. e\<lparr>bRedemption := b\<rparr>)]"

definition count_members :: "(string \<times> (u64 \<Rightarrow> 'd EtfPackage \<Rightarrow> 'd EtfPackage)) list" where
  "count_members =
     [(''CreationRedemptionUnit'', \<lambda>n e. e\<lparr>ui64CreationRedemptionUnit := n\<rparr>),
      (''RecordNum'', \<lambda>n e. e\<lparr>ui64RecordNum := n\<rparr>), (''TotalRecordNum'', \<lambda>n e. e\<lparr>ui64TotalRecordNum := n\<rparr>),
      (''CreationLimit'', \<lambda>n e. e\<lparr>ui64CreationLimit := n\<rparr>), (''RedemptionLimit'', \<lambda>n e. e\<lparr>ui64RedemptionLimit := n\<rparr>),
      (''CreationLimitPerUser'', \<lambda>n e. e\<lparr>ui64CreationLimitPerUser := n\<rparr>),
      (''RedemptionLimitPerUser'', \<lambda>n e. e\<lparr>ui64RedemptionLimitPerUser := n\<rparr>),
      (''NetCreationLimit'', \<lambda>n e. e\<lparr>ui64NetCreationLimit := n\<rparr>),
      (''NetRedemptionLimit'', \<lambda>n e. e\<lparr>ui64NetRedemptionLimit := n\<rparr>),
      (''NetCreationLimitPerUser'', \<lambda>n e. e\<lparr>ui64NetCreationLimitPerUser := n\<rparr>),
      (''NetRedemptionLimitPerUser'', \<lambda>n e. e\<lparr>ui64NetRedemptionLimitPerUser := n\<rparr>)]"

definition money_members :: "(string \<times> (u64 \<Rightarrow> 'd EtfPackage \<Rightarrow> 'd EtfPackage)) list" where
  "money_members =
     [(''EstimateCashComponent'', \<lambda>n e. e\<lparr>ui64mEstimateCashComponent := n\<rparr>),
      (''CashComponent'', \<lambda>n e. e\<lparr>ui64mCashComponent := n\<rparr>), (''NAVperCU'', \<lambda>n e. e\<lparr>ui64mNAVperCU := n\<rparr>),
      (''NAV'', \<lambda>n e. e\<lparr>ui64mNAV := n\<rparr>), (''DividendPerCU'', \<lambda>n e. e\<lparr>ui64mDividendPerCU := n\<rparr>)]"

text \<open>A number that is converted before it is stored; a failing conversion changes nothing.\<close>

definition store_converted :: "(string \<Rightarrow> int \<times> 'n) \<Rightarrow> ('n \<Rightarrow> 'c \<Rightarrow> 'c) \<Rightarrow> string \<Rightarrow> 'c \<Rightarrow> int \<times> 'c" where
  "store_converted conv upd v c = (case conv v of (iRes, n) \<Rightarrow> if iRes \<noteq> 0 then (-1, c) else (0, upd n c))"

text \<open>A name that is none of the members is only logged.\<close>

definition Set_ETF_Info ::
  "(string \<Rightarrow> int \<times> u64) \<Rightarrow> 'd word_ops \<Rightarrow> string \<Rightarrow> string \<Rightarrow> 'd EtfPackage \<Rightarrow> int \<times> 'd EtfPackage" where
  "Set_ETF_Info money ops key v e =
     (case map_of text_members key of Some upd \<Rightarrow> (0, upd v e) | None \<Rightarrow>
     (case map_of flag_members key of Some upd \<Rightarrow> (0, upd (v = ''1'') e) | None \<Rightarrow>
     (case map_of count_members key of Some upd \<Rightarrow> store_converted String2UInt64_strtoui64 upd v e | None \<Rightarrow>
     (case map_of money_members key of Some upd \<Rightarrow> store_converted money upd v e | None \<Rightarrow>
        if key = ''MaxCashRatio'' then store_converted (String2Double_atof ops) (\<lambda>d e. e\<lparr>dMaxCashRatio := d\<rparr>) v e
        else (0, e)))))"

definition Set_ETF_Info_FromWebControl :: "'d word_ops \<Rightarrow> string \<Rightarrow> string \<Rightarrow> 'd EtfPackage \<Rightarrow> int \<times> 'd EtfPackage" where
  "Set_ETF_Info_FromWebControl = Set_ETF_Info String2UInt64MoneyInLi_strtoui64"

text \<open>A row of the database; \<open>None\<close> is \<open>NULL\<close>, which leaves the member as it is.\<close>

type_synonym row = "string \<Rightarrow> string option"

definition Set_ETF_Info_FromDb :: "'d word_ops \<Rightarrow> string \<Rightarrow> row \<Rightarrow> 'd EtfPackage \<Rightarrow> int \<times> 'd EtfPackage" where
  "Set_ETF_Info_FromDb ops key row e =
     (case row key of None \<Rightarrow> (0, e) | Some v \<Rightarrow> Set_ETF_Info String2UInt64_strtoui64 ops key v e)"

definition component_members ::
  "(string \<Rightarrow> int \<times> u64) \<Rightarrow> 'd word_ops \<Rightarrow> (string \<times> (string \<Rightarrow> 'd SzETFComponent \<Rightarrow> int \<times> 'd SzETFComponent)) list" where
  "component_members money ops =
     [(''UnderlyingSecurityID'', \<lambda>v c. (0, c\<lparr>comp_strUnderlyingSecurityID := v\<rparr>)),
      (''UnderlyingSecurityIDSource'', \<lambda>v c. (0, c\<lparr>comp_strUnderlyingSecurityIDSource := v\<rparr>)),
      (''UnderlyingSymbol'', \<lambda>v c. (0, c\<lparr>comp_strUnderlyingSymbol := v\<rparr>)),
      (''ComponentShare'', store_converted String2UInt64_strtoui64 (\<lambda>n c. c\<lparr>ui64ComponentShare := n\<rparr>)),
      (''SubstituteFlag'', store_converted String2Int_atoi (\<lambda>i c. c\<lparr>iSubstituteFlag := i\<rparr>)),
      (''PremiumRatio'', store_converted (String2Double_atof ops) (\<lambda>d c. c\<lparr>dPremiumRatio := d\<rparr>)),
      (''CreationCashSubstitute'', store_converted money (\<lambda>n c. c\<lparr>ui64mCreationCashSubstitute := n\<rparr>)),
      (''RedemptionCashSubstitute'', store_converted money (\<lambda>n c. c\<lparr>ui64mRedemptionCashSubstitute := n\<rparr>))]"

text \<open>
  From the administration every member must be there; \<open>GetString\<close> of a value that is no string is
  undefined.
\<close>

fun set_component_web ::
  "(string \<times> json) list \<Rightarrow> (string \<times> (string \<Rightarrow> 'c \<Rightarrow> int \<times> 'c)) list \<Rightarrow> 'c \<Rightarrow> outcome \<times> 'c" where
  "set_component_web doc [] c = (Ret 0, c)"
| "set_component_web doc ((key, upd) # ms) c =
     (case map_of doc key of
        None \<Rightarrow> (Ret (-1), c)
      | Some (JStr v) \<Rightarrow> (case upd (c_str v) c of (iRes, c1) \<Rightarrow>
          if iRes \<noteq> 0 then (Ret (-1), c1) else set_component_web doc ms c1)
      | Some _ \<Rightarrow> (Undefined, c))"

definition Set_ETF_Component_FromWebControl ::
  "'d word_ops \<Rightarrow> (string \<times> json) list \<Rightarrow> 'd SzETFComponent \<Rightarrow> outcome \<times> 'd SzETFComponent" where
  "Set_ETF_Component_FromWebControl ops doc c = set_component_web doc (component_members String2UInt64MoneyInLi_strtoui64 ops) c"

definition Set_ETF_Component_FromDb ::
  "'d word_ops \<Rightarrow> string \<Rightarrow> row \<Rightarrow> 'd SzETFComponent \<Rightarrow> int \<times> 'd SzETFComponent" where
  "Set_ETF_Component_FromDb ops key row c =
     (case row key of None \<Rightarrow> (0, c) | Some v \<Rightarrow>
        (case map_of (component_members String2UInt64_strtoui64 ops) key of None \<Rightarrow> (0, c) | Some upd \<Rightarrow> upd v c))"

section \<open>Validation\<close>

definition Validate_ETFComponent_Info :: "'d word_ops \<Rightarrow> 'd SzETFComponent \<Rightarrow> int" where
  "Validate_ETFComponent_Info ops c =
     (if comp_strUnderlyingSecurityID c = [] then -1
      else if comp_strUnderlyingSecurityID c = ''159900''
      then (if iSubstituteFlag c \<noteq> Only_Cash then -1 else if ui64mCreationCashSubstitute c = 0 then -1 else 0)
      else if iSubstituteFlag c = Only_Security then (if ui64ComponentShare c = 0 then -1 else 0)
      else if iSubstituteFlag c = Security_And_Cash
      then (if ui64ComponentShare c = 0 then -1 else if w_is_zero ops (dPremiumRatio c) then -1 else 0)
      else if iSubstituteFlag c = Only_Cash
      then (if ui64mCreationCashSubstitute c = 0 \<or> ui64mRedemptionCashSubstitute c = 0 then -1 else 0)
      else 0)"

definition Validate_ETF_Info :: "'d EtfPackage \<Rightarrow> int" where
  "Validate_ETF_Info e =
     (if etf_strSecurityID e = [] then -1 else if ui64CreationRedemptionUnit e = 0 then -1
      else if ui64TotalRecordNum e \<noteq> of_nat (length (vecComponents e)) then -1 else 0)"

section \<open>The database\<close>

text \<open>
  What is sent to the database on the connection.  \<open>ee_exec\<close> is the result code of a statement and the
  number of affected rows, \<open>ee_select\<close> the rows of a query (\<open>None\<close>: it failed), each given what was sent
  before; \<open>ee_print\<close> is \<open>std::to_string\<close> of a double.
\<close>

datatype db_event = StartTransaction | Commit | RollBack | Statement string

record 'd etf_env =
  ee_ops :: "'d word_ops"
  ee_print :: "'d \<Rightarrow> string"
  ee_publish :: bool
  ee_connect :: "db_event list \<Rightarrow> bool"
  ee_exec :: "db_event list \<Rightarrow> string \<Rightarrow> int \<times> nat"
  ee_select :: "db_event list \<Rightarrow> string \<Rightarrow> row list option"
  g_DBTable_etf_info :: string
  g_DBTable_etf_component :: string

record 'd ETFContainer =
  m_mapEtfContents :: "(string, 'd EtfPackage) omap"
  etf_log :: "db_event list"

definition ETFContainer_new :: "'d ETFContainer" where
  "ETFContainer_new = \<lparr>m_mapEtfContents = [], etf_log = []\<rparr>"

text \<open>The values of a statement: a quoted text, a number, or \<open>NULL\<close>.\<close>

datatype sql_value = SqlText string | SqlNumber string | SqlNull

fun sql_render :: "sql_value \<Rightarrow> string" where
  "sql_render (SqlText t) = quoted t"
| "sql_render (SqlNumber t) = t"
| "sql_render SqlNull = ''NULL''"

definition text_or_null :: "string \<Rightarrow> sql_value" where
  "text_or_null t = (if t = [] then SqlNull else SqlText t)"

definition sql_flag :: "bool \<Rightarrow> sql_value" where
  "sql_flag b = SqlNumber (if b then ''1'' else ''0'')"

definition etf_columns :: "string list" where
  "etf_columns = [''Version'', ''SecurityID'', ''SecurityIDSource'', ''Symbol'', ''FundManagementCompany'',
     ''UnderlyingSecurityID'', ''UnderlyingSecurityIDSource'', ''CreationRedemptionUnit'', ''EstimateCashComponent'',
     ''MaxCashRatio'', ''Publish'', ''Creation'', ''Redemption'', ''RecordNum'', ''TotalRecordNum'', ''TradingDay'',
     ''PreTradingDay'', ''CashComponent'', ''NAVperCU'', ''NAV'', ''DividendPerCU'', ''CreationLimit'',
     ''RedemptionLimit'', ''CreationLimitPerUser'', ''RedemptionLimitPerUser'', ''NetCreationLimit'',
     ''NetRedemptionLimit'', ''NetCreationLimitPerUser'', ''NetRedemptionLimitPerUser'']"

definition etf_values :: "'d etf_env \<Rightarrow> 'd EtfPackage \<Rightarrow> sql_value list" where
  "etf_values x e =
     [SqlText (etf_strVersion e), SqlText (etf_strSecurityID e), SqlText (etf_strSecurityIDSource e),
      text_or_null (etf_strSymbol e), text_or_null (etf_strFundManagementCompany e),
      text_or_null (etf_strUnderlyingSecurityID e), text_or_null (etf_strUnderlyingSecurityIDSource e),
      SqlNumber (itos (ui64CreationRedemptionUnit e)), SqlText (itos (ui64mEstimateCashComponent e)),
      SqlText (ee_print x (dMaxCashRatio e)), sql_flag (bPublish e), sql_flag (bCreation e), sql_flag (bRedemption e),
      SqlNumber (itos (ui64RecordNum e)), SqlNumber (itos (ui64TotalRecordNum e)), SqlText (strTradingDay e),
      SqlText (strPreTradingDay e), SqlNumber (itos (ui64mCashComponent e)), SqlNumber (itos (ui64mNAVperCU e)),
      SqlNumber (itos (ui64mNAV e)), SqlNumber (itos (ui64mDividendPerCU e)), SqlNumber (itos (ui64CreationLimit e)),
      SqlNumber (itos (ui64RedemptionLimit e)), SqlNumber (itos (ui64CreationLimitPerUser e)),
      SqlNumber (itos (ui64RedemptionLimitPerUser e)), SqlNumber (itos (ui64NetCreationLimit e)),
      SqlNumber (itos (ui64NetRedemptionLimit e)), SqlNumber (itos (ui64NetCreationLimitPerUser e)),
      SqlNumber (itos (ui64NetRedemptionLimitPerUser e))]"

definition column_list :: "string list \<Rightarrow> string" where
  "column_list cs = comma_list (map (\<lambda>c. [CHR 0x60] @ c @ [CHR 0x60]) cs)"

definition etf_statement :: "'d etf_env \<Rightarrow> 'd EtfPackage \<Rightarrow> string" where
  "etf_statement x e = ''REPLACE INTO '' @ g_DBTable_etf_info x @ '' ('' @ column_list etf_columns @ '') VALUES('' @
     comma_list (map sql_render (etf_values x e)) @ '');''"

definition Update_EtfInfo :: "'d etf_env \<Rightarrow> 'd EtfPackage \<Rightarrow> db_event list \<Rightarrow> int \<times> db_event list" where
  "Update_EtfInfo x e log =
     (case ee_exec x log (etf_statement x e) of (iRes, n) \<Rightarrow>
        (if iRes = 2 then (if 2 < n then -1 else 0) else -1, log @ [Statement (etf_statement x e)]))"

definition component_columns :: "string list" where
  "component_columns = [''UnderlyingSecurityID'', ''UnderlyingSecurityIDSource'', ''UnderlyingSymbol'', ''ComponentShare'',
     ''SubstituteFlag'', ''PremiumRatio'', ''CreationCashSubstitute'', ''RedemptionCashSubstitute'']"

definition component_values :: "'d etf_env \<Rightarrow> 'd SzETFComponent \<Rightarrow> sql_value list" where
  "component_values x c =
     [SqlText (comp_strUnderlyingSecurityID c), SqlText (comp_strUnderlyingSecurityIDSource c),
      SqlText (comp_strUnderlyingSymbol c), SqlNumber (itos (ui64ComponentShare c)),
      SqlNumber (signed_decimal (iSubstituteFlag c)), SqlNumber (ee_print x (dPremiumRatio c)),
      SqlNumber (itos (ui64mCreationCashSubstitute c)), SqlNumber (itos (ui64mRedemptionCashSubstitute c))]"

text \<open>
  The components are inserted in batches: a statement is sent at the last one, and when the count has
  reached 50; the count is set to 0 and then counted up by the loop.
\<close>

definition component_head :: "'d etf_env \<Rightarrow> string" where
  "component_head x = ''INSERT INTO '' @ g_DBTable_etf_component x @
     '' ('' @ column_list [''SecurityID''] @ '' ,'' @ column_list component_columns @ '') VALUES ''"

definition component_text :: "'d etf_env \<Rightarrow> string \<Rightarrow> 'd SzETFComponent \<Rightarrow> string" where
  "component_text x ident c =
     ''('' @ comma_list (map sql_render (SqlText ident # component_values x c)) @ '')''"

definition iBatchInsertSize :: nat where
  "iBatchInsertSize = 50"

fun insert_components ::
  "'d etf_env \<Rightarrow> string \<Rightarrow> 'd SzETFComponent list \<Rightarrow> nat \<Rightarrow> string \<Rightarrow> db_event list \<Rightarrow> int \<times> db_event list" where
  "insert_components x ident [] n sql log = (0, log)"
| "insert_components x ident (c # cs) n sql log =
     (let sql1 = sql @ component_text x ident c in
      if cs = [] \<or> iBatchInsertSize \<le> n
      then (let stmt = sql1 @ '';''; log1 = log @ [Statement stmt] in
            case ee_exec x log stmt of (iRes, rows) \<Rightarrow>
              if iRes \<noteq> 2 then (-1, log1)
              else if rows = 0 then (-1, log1)
              else insert_components x ident cs 1 (component_head x @ '' '') log1)
      else insert_components x ident cs (n + 1) (sql1 @ '','') log)"

definition delete_statement :: "'d etf_env \<Rightarrow> string \<Rightarrow> string" where
  "delete_statement x ident = ''DELETE FROM '' @ g_DBTable_etf_component x @ '' WHERE '' @ column_list [''SecurityID''] @
     ''='' @ quoted ident @ '';''"

definition Update_EtfComponent :: "'d etf_env \<Rightarrow> 'd EtfPackage \<Rightarrow> db_event list \<Rightarrow> int \<times> db_event list" where
  "Update_EtfComponent x e log =
     (let stmt = delete_statement x (etf_strSecurityID e); log1 = log @ [Statement stmt] in
      case ee_exec x log stmt of (iRes, rows) \<Rightarrow>
        if iRes \<noteq> 2 then (-1, log1)
        else insert_components x (etf_strSecurityID e) (vecComponents e) 0 (component_head x) log1)"

definition UpdateOneEtfPackageToDb :: "'d etf_env \<Rightarrow> 'd EtfPackage \<Rightarrow> db_event list \<Rightarrow> int \<times> db_event list" where
  "UpdateOneEtfPackageToDb x e log =
     (if \<not> ee_connect x log then (-1, log)
      else case Update_EtfInfo x e (log @ [StartTransaction]) of (iRes, log1) \<Rightarrow>
        if iRes \<noteq> 0 then (-1, log1 @ [RollBack])
        else case Update_EtfComponent x e log1 of (iRes2, log2) \<Rightarrow>
          if iRes2 \<noteq> 0 then (-1, log2 @ [RollBack]) else (0, log2 @ [Commit]))"

section \<open>Packages of the administration\<close>

fun set_infos_web :: "'d word_ops \<Rightarrow> (string \<times> json) list \<Rightarrow> 'd EtfPackage \<Rightarrow> outcome \<times> 'd EtfPackage" where
  "set_infos_web ops [] e = (Ret 0, e)"
| "set_infos_web ops ((name, v) # ms) e =
     (case v of
        JStr t \<Rightarrow> (case Set_ETF_Info_FromWebControl ops (c_str name) (c_str t) e of (iRes, e1) \<Rightarrow>
          if iRes = -1 then (Ret (-1), e1) else set_infos_web ops ms e1)
      | _ \<Rightarrow> (Undefined, e))"

fun set_components_web :: "'d word_ops \<Rightarrow> json list \<Rightarrow> 'd EtfPackage \<Rightarrow> outcome \<times> 'd EtfPackage" where
  "set_components_web ops [] e = (Ret 0, e)"
| "set_components_web ops (d # ds) e =
     (case d of
        JObj doc \<Rightarrow>
          (case Set_ETF_Component_FromWebControl ops doc (EtfComponent_new ops) of
             (Ret iRes, c) \<Rightarrow>
               if iRes = -1 then (Ret (-1), e)
               else if Validate_ETFComponent_Info ops c \<noteq> 0 then (Ret (-1), e)
               else set_components_web ops ds (e\<lparr>vecComponents := vecComponents e @ [c]\<rparr>)
           | (r, c) \<Rightarrow> (r, e))
      | _ \<Rightarrow> (Ret (-1), e))"

text \<open>
  The checks of the two members are joined by \<open>&&\<close>: a missing one and one of the wrong kind are
  looked into all the same, which is undefined.
\<close>

definition package_of_web :: "'d etf_env \<Rightarrow> (string \<times> json) list \<Rightarrow> (outcome \<times> string \<times> 'd EtfPackage)" where
  "package_of_web x doc =
     (let e0 = EtfPackage_new (ee_ops x) (ee_publish x) in
      case map_of doc ''etf_info'' of
        Some (JObj info) \<Rightarrow>
          (case map_of info ''SecurityID'' of
             None \<Rightarrow> (Ret (-1), [], e0)
           | Some (JStr t) \<Rightarrow>
               if c_str t = [] then (Ret (-1), [], e0)
               else (case set_infos_web (ee_ops x) info e0 of
                   (Ret iRes, e1) \<Rightarrow>
                     if iRes = -1 then (Ret (-1), c_str t, e1)
                     else (case map_of doc ''etf_component'' of
                         Some (JArr ds) \<Rightarrow> (case set_components_web (ee_ops x) ds e1 of (r, e2) \<Rightarrow> (r, c_str t, e2))
                       | _ \<Rightarrow> (Undefined, c_str t, e1))
                 | (r, e1) \<Rightarrow> (r, c_str t, e1))
           | Some _ \<Rightarrow> (Undefined, [], e0))
      | _ \<Rightarrow> (Undefined, [], e0))"

definition InsertEtf_FromWebControl ::
  "'d etf_env \<Rightarrow> (string \<times> json) list \<Rightarrow> 'd ETFContainer \<Rightarrow> outcome \<times> 'd ETFContainer" where
  "InsertEtf_FromWebControl x doc s =
     (case package_of_web x doc of
        (Ret iRes, ident, e) \<Rightarrow>
          if iRes \<noteq> 0 then (Ret (-1), s)
          else if Validate_ETF_Info e \<noteq> 0 then (Ret (-1), s)
          else (case UpdateOneEtfPackageToDb x e (etf_log s) of (iRes2, log1) \<Rightarrow>
            if iRes2 \<noteq> 0 then (Ret (-1), s\<lparr>etf_log := log1\<rparr>)
            else (Ret 0, s\<lparr>m_mapEtfContents := omap_put ident e (m_mapEtfContents s), etf_log := log1\<rparr>))
      | (r, _, _) \<Rightarrow> (r, s))"

section \<open>Reading packages back\<close>

fun set_columns :: "(string \<Rightarrow> 'c \<Rightarrow> int \<times> 'c) \<Rightarrow> string list \<Rightarrow> 'c \<Rightarrow> int \<times> 'c" where
  "set_columns upd [] e = (0, e)"
| "set_columns upd (k # ks) e = (case upd k e of (iRes, e1) \<Rightarrow> if iRes \<noteq> 0 then (-1, e1) else set_columns upd ks e1)"

fun set_rows :: "'d word_ops \<Rightarrow> row list \<Rightarrow> 'd EtfPackage \<Rightarrow> int \<times> 'd EtfPackage" where
  "set_rows ops [] e = (0, e)"
| "set_rows ops (r # rs) e =
     (case set_columns (\<lambda>k. Set_ETF_Info_FromDb ops k r) etf_columns e of (iRes, e1) \<Rightarrow>
        if iRes \<noteq> 0 then (-1, e1) else set_rows ops rs e1)"

text \<open>The code is compared with no quotes, which the database reads as a number.\<close>

definition select_info :: "'d etf_env \<Rightarrow> string \<Rightarrow> string" where
  "select_info x ident = ''SELECT '' @ column_list etf_columns @ '' FROM '' @ g_DBTable_etf_info x @ '' WHERE '' @
     column_list [''SecurityID''] @ ''='' @ ident @ '';''"

definition GetFromDB_OneEtfInfo :: "'d etf_env \<Rightarrow> db_event list \<Rightarrow> string \<Rightarrow> 'd EtfPackage \<Rightarrow> int \<times> 'd EtfPackage" where
  "GetFromDB_OneEtfInfo x log ident e =
     (case ee_select x log (select_info x ident) of None \<Rightarrow> (-1, e) | Some rows \<Rightarrow> set_rows (ee_ops x) rows e)"

fun component_rows :: "'d word_ops \<Rightarrow> row list \<Rightarrow> 'd EtfPackage \<Rightarrow> int \<times> 'd EtfPackage" where
  "component_rows ops [] e = (0, e)"
| "component_rows ops (r # rs) e =
     (case set_columns (\<lambda>k. Set_ETF_Component_FromDb ops k r) component_columns (EtfComponent_new ops) of (iRes, c) \<Rightarrow>
        if iRes \<noteq> 0 then (-1, e)
        else if Validate_ETFComponent_Info ops c \<noteq> 0 then (-1, e)
        else component_rows ops rs (e\<lparr>vecComponents := vecComponents e @ [c]\<rparr>))"

definition select_components :: "'d etf_env \<Rightarrow> string \<Rightarrow> string" where
  "select_components x ident = ''SELECT '' @ column_list component_columns @ '' FROM '' @ g_DBTable_etf_component x @
     '' WHERE '' @ column_list [''SecurityID''] @ ''='' @ ident @ '';''"

definition GetFromDB_OneEtfComponents :: "'d etf_env \<Rightarrow> db_event list \<Rightarrow> string \<Rightarrow> 'd EtfPackage \<Rightarrow> int \<times> 'd EtfPackage" where
  "GetFromDB_OneEtfComponents x log ident e =
     (case ee_select x log (select_components x ident) of None \<Rightarrow> (-1, e) | Some rows \<Rightarrow> component_rows (ee_ops x) rows e)"

definition GetFromDB_OneEtfPackage :: "'d etf_env \<Rightarrow> db_event list \<Rightarrow> string \<Rightarrow> 'd EtfPackage \<Rightarrow> int \<times> 'd EtfPackage" where
  "GetFromDB_OneEtfPackage x log ident e =
     (case GetFromDB_OneEtfInfo x log ident e of (iRes, e1) \<Rightarrow>
        if iRes \<noteq> 0 then (-1, e1)
        else case GetFromDB_OneEtfComponents x log ident e1 of (iRes, e2) \<Rightarrow>
          if iRes \<noteq> 0 then (-1, e2) else if Validate_ETF_Info e2 \<noteq> 0 then (-1, e2) else (0, e2))"

text \<open>A query that fails gives no codes, and is not an error; a code that is \<open>NULL\<close> is empty.\<close>

definition GetFromDB_AllEtfStockIds :: "'d etf_env \<Rightarrow> db_event list \<Rightarrow> string list" where
  "GetFromDB_AllEtfStockIds x log =
     (case ee_select x log (''SELECT '' @ column_list [''SecurityID''] @ '' FROM '' @ g_DBTable_etf_info x @
         '' GROUP BY '' @ column_list [''SecurityID''] @ '';'') of
        None \<Rightarrow> []
      | Some rows \<Rightarrow> map (\<lambda>r. case r ''SecurityID'' of None \<Rightarrow> [] | Some v \<Rightarrow> v) rows)"

fun load_packages ::
  "'d etf_env \<Rightarrow> db_event list \<Rightarrow> string list \<Rightarrow> (string, 'd EtfPackage) omap \<Rightarrow> int \<times> (string, 'd EtfPackage) omap" where
  "load_packages x log [] m = (0, m)"
| "load_packages x log (ident # ids) m =
     (case GetFromDB_OneEtfPackage x log ident (EtfPackage_new (ee_ops x) (ee_publish x)) of (iRes, e) \<Rightarrow>
        if iRes \<noteq> 0 then (-1, m) else load_packages x log ids (omap_put ident e m))"

definition ETFContainer_ReloadFromDb :: "'d etf_env \<Rightarrow> 'd ETFContainer \<Rightarrow> int \<times> 'd ETFContainer" where
  "ETFContainer_ReloadFromDb x s =
     (if \<not> ee_connect x (etf_log s) then (-1, s\<lparr>m_mapEtfContents := []\<rparr>)
      else case load_packages x (etf_log s) (GetFromDB_AllEtfStockIds x (etf_log s)) [] of (iRes, m) \<Rightarrow>
        (iRes, s\<lparr>m_mapEtfContents := m\<rparr>))"

section \<open>What is stored is what is read\<close>

text \<open>The row a database gives that has stored the values of a statement under its columns.\<close>

fun stored :: "sql_value \<Rightarrow> string option" where
  "stored (SqlText t) = Some t"
| "stored (SqlNumber t) = Some t"
| "stored SqlNull = None"

definition table_row :: "string list \<Rightarrow> sql_value list \<Rightarrow> row" where
  "table_row cs vs k = Option.bind (map_of (zip cs vs) k) stored"

text \<open>Numbers that fit the signed conversion, and ratios that their text gives back.\<close>

definition prints_back :: "'d etf_env \<Rightarrow> 'd \<Rightarrow> bool" where
  "prints_back x d \<longleftrightarrow> ee_print x d \<noteq> [] \<and> w_atof (ee_ops x) (ee_print x d) = d"

definition component_stores :: "'d etf_env \<Rightarrow> 'd SzETFComponent \<Rightarrow> bool" where
  "component_stores x c \<longleftrightarrow> prints_back x (dPremiumRatio c) \<and>
     (\<forall>n\<in>{ui64ComponentShare c, ui64mCreationCashSubstitute c, ui64mRedemptionCashSubstitute c}. n < 2 ^ 63) \<and>
     - (2 ^ 31) \<le> iSubstituteFlag c \<and> iSubstituteFlag c < 2 ^ 31"

definition package_stores :: "'d etf_env \<Rightarrow> 'd EtfPackage \<Rightarrow> bool" where
  "package_stores x e \<longleftrightarrow> prints_back x (dMaxCashRatio e) \<and>
     (\<forall>n\<in>{ui64CreationRedemptionUnit e, ui64mEstimateCashComponent e, ui64RecordNum e, ui64TotalRecordNum e,
       ui64mCashComponent e, ui64mNAVperCU e, ui64mNAV e, ui64mDividendPerCU e, ui64CreationLimit e, ui64RedemptionLimit e,
       ui64CreationLimitPerUser e, ui64RedemptionLimitPerUser e, ui64NetCreationLimit e, ui64NetRedemptionLimit e,
       ui64NetCreationLimitPerUser e, ui64NetRedemptionLimitPerUser e}. n < 2 ^ 63)"

lemma store_count: "n < 2 ^ 63 \<Longrightarrow> store_converted String2UInt64_strtoui64 upd (itos n) c = (0, upd n c)"
  using strtoui64_itos [of n] by (auto simp: store_converted_def String2UInt64_strtoui64_def)

lemma store_ratio:
  "prints_back x d \<Longrightarrow> store_converted (String2Double_atof (ee_ops x)) upd (ee_print x d) c = (0, upd d c)"
  by (simp add: store_converted_def String2Double_atof_def prints_back_def)

lemma store_flag:
  assumes "- (2 ^ 31) \<le> i" "i < 2 ^ 31"
  shows "store_converted String2Int_atoi upd (signed_decimal i) c = (0, upd i c)"
proof -
  have "signed_decimal i \<noteq> []" by (simp add: signed_decimal_def)
  moreover have "strtoll (signed_decimal i) = i" using assms by (intro strtoll_signed_decimal) auto
  moreover have "sint (word_of_int i :: 32 word) = i"
    using assms by (simp add: sint_sbintrunc' signed_take_bit_int_eq_self)
  ultimately show ?thesis by (simp add: store_converted_def String2Int_atoi_def atoi_def)
qed

lemma component_row_read:
  assumes "component_stores x c"
  shows "set_columns (\<lambda>k. Set_ETF_Component_FromDb (ee_ops x) k (table_row component_columns (component_values x c)))
    component_columns (EtfComponent_new (ee_ops x)) = (0, c)"
proof -
  note n = assms [unfolded component_stores_def]
  show ?thesis
    using n by (simp add: component_columns_def component_values_def table_row_def Set_ETF_Component_FromDb_def
        component_members_def store_count store_ratio store_flag EtfComponent_new_def)
qed

text \<open>The columns of a stored package, and the members they are read into.\<close>

lemma etf_row:
  "table_row etf_columns (etf_values x e) ''Version'' = Some (etf_strVersion e)"
  "table_row etf_columns (etf_values x e) ''SecurityID'' = Some (etf_strSecurityID e)"
  "table_row etf_columns (etf_values x e) ''SecurityIDSource'' = Some (etf_strSecurityIDSource e)"
  "table_row etf_columns (etf_values x e) ''TradingDay'' = Some (strTradingDay e)"
  "table_row etf_columns (etf_values x e) ''PreTradingDay'' = Some (strPreTradingDay e)"
  "table_row etf_columns (etf_values x e) ''Symbol'' = stored (text_or_null (etf_strSymbol e))"
  "table_row etf_columns (etf_values x e) ''FundManagementCompany'' = stored (text_or_null (etf_strFundManagementCompany e))"
  "table_row etf_columns (etf_values x e) ''UnderlyingSecurityID'' = stored (text_or_null (etf_strUnderlyingSecurityID e))"
  "table_row etf_columns (etf_values x e) ''UnderlyingSecurityIDSource'' = stored (text_or_null (etf_strUnderlyingSecurityIDSource e))"
  "table_row etf_columns (etf_values x e) ''CreationRedemptionUnit'' = Some (itos (ui64CreationRedemptionUnit e))"
  "table_row etf_columns (etf_values x e) ''RecordNum'' = Some (itos (ui64RecordNum e))"
  "table_row etf_columns (etf_values x e) ''TotalRecordNum'' = Some (itos (ui64TotalRecordNum e))"
  "table_row etf_columns (etf_values x e) ''CreationLimit'' = Some (itos (ui64CreationLimit e))"
  "table_row etf_columns (etf_values x e) ''RedemptionLimit'' = Some (itos (ui64RedemptionLimit e))"
  "table_row etf_columns (etf_values x e) ''CreationLimitPerUser'' = Some (itos (ui64CreationLimitPerUser e))"
  "table_row etf_columns (etf_values x e) ''RedemptionLimitPerUser'' = Some (itos (ui64RedemptionLimitPerUser e))"
  "table_row etf_columns (etf_values x e) ''NetCreationLimit'' = Some (itos (ui64NetCreationLimit e))"
  "table_row etf_columns (etf_values x e) ''NetRedemptionLimit'' = Some (itos (ui64NetRedemptionLimit e))"
  "table_row etf_columns (etf_values x e) ''NetCreationLimitPerUser'' = Some (itos (ui64NetCreationLimitPerUser e))"
  "table_row etf_columns (etf_values x e) ''NetRedemptionLimitPerUser'' = Some (itos (ui64NetRedemptionLimitPerUser e))"
  "table_row etf_columns (etf_values x e) ''EstimateCashComponent'' = Some (itos (ui64mEstimateCashComponent e))"
  "table_row etf_columns (etf_values x e) ''CashComponent'' = Some (itos (ui64mCashComponent e))"
  "table_row etf_columns (etf_values x e) ''NAVperCU'' = Some (itos (ui64mNAVperCU e))"
  "table_row etf_columns (etf_values x e) ''NAV'' = Some (itos (ui64mNAV e))"
  "table_row etf_columns (etf_values x e) ''DividendPerCU'' = Some (itos (ui64mDividendPerCU e))"
  "table_row etf_columns (etf_values x e) ''Publish'' = stored (sql_flag (bPublish e))"
  "table_row etf_columns (etf_values x e) ''Creation'' = stored (sql_flag (bCreation e))"
  "table_row etf_columns (etf_values x e) ''Redemption'' = stored (sql_flag (bRedemption e))"
  "table_row etf_columns (etf_values x e) ''MaxCashRatio'' = Some (ee_print x (dMaxCashRatio e))"
  by (simp_all add: table_row_def etf_columns_def etf_values_def)

lemma set_member:
  "Set_ETF_Info m ops ''Version'' t p = (0, p\<lparr>etf_strVersion := t\<rparr>)"
  "Set_ETF_Info m ops ''SecurityID'' t p = (0, p\<lparr>etf_strSecurityID := t\<rparr>)"
  "Set_ETF_Info m ops ''SecurityIDSource'' t p = (0, p\<lparr>etf_strSecurityIDSource := t\<rparr>)"
  "Set_ETF_Info m ops ''TradingDay'' t p = (0, p\<lparr>strTradingDay := t\<rparr>)"
  "Set_ETF_Info m ops ''PreTradingDay'' t p = (0, p\<lparr>strPreTradingDay := t\<rparr>)"
  "Set_ETF_Info m ops ''Symbol'' t p = (0, p\<lparr>etf_strSymbol := t\<rparr>)"
  "Set_ETF_Info m ops ''FundManagementCompany'' t p = (0, p\<lparr>etf_strFundManagementCompany := t\<rparr>)"
  "Set_ETF_Info m ops ''UnderlyingSecurityID'' t p = (0, p\<lparr>etf_strUnderlyingSecurityID := t\<rparr>)"
  "Set_ETF_Info m ops ''UnderlyingSecurityIDSource'' t p = (0, p\<lparr>etf_strUnderlyingSecurityIDSource := t\<rparr>)"
  "Set_ETF_Info m ops ''Publish'' t p = (0, p\<lparr>bPublish := (t = ''1'')\<rparr>)"
  "Set_ETF_Info m ops ''Creation'' t p = (0, p\<lparr>bCreation := (t = ''1'')\<rparr>)"
  "Set_ETF_Info m ops ''Redemption'' t p = (0, p\<lparr>bRedemption := (t = ''1'')\<rparr>)"
  "Set_ETF_Info m ops ''CreationRedemptionUnit'' t p = store_converted String2UInt64_strtoui64 (\<lambda>n p. p\<lparr>ui64CreationRedemptionUnit := n\<rparr>) t p"
  "Set_ETF_Info m ops ''RecordNum'' t p = store_converted String2UInt64_strtoui64 (\<lambda>n p. p\<lparr>ui64RecordNum := n\<rparr>) t p"
  "Set_ETF_Info m ops ''TotalRecordNum'' t p = store_converted String2UInt64_strtoui64 (\<lambda>n p. p\<lparr>ui64TotalRecordNum := n\<rparr>) t p"
  "Set_ETF_Info m ops ''CreationLimit'' t p = store_converted String2UInt64_strtoui64 (\<lambda>n p. p\<lparr>ui64CreationLimit := n\<rparr>) t p"
  "Set_ETF_Info m ops ''RedemptionLimit'' t p = store_converted String2UInt64_strtoui64 (\<lambda>n p. p\<lparr>ui64RedemptionLimit := n\<rparr>) t p"
  "Set_ETF_Info m ops ''CreationLimitPerUser'' t p = store_converted String2UInt64_strtoui64 (\<lambda>n p. p\<lparr>ui64CreationLimitPerUser := n\<rparr>) t p"
  "Set_ETF_Info m ops ''RedemptionLimitPerUser'' t p = store_converted String2UInt64_strtoui64 (\<lambda>n p. p\<lparr>ui64RedemptionLimitPerUser := n\<rparr>) t p"
  "Set_ETF_Info m ops ''NetCreationLimit'' t p = store_converted String2UInt64_strtoui64 (\<lambda>n p. p\<lparr>ui64NetCreationLimit := n\<rparr>) t p"
  "Set_ETF_Info m ops ''NetRedemptionLimit'' t p = store_converted String2UInt64_strtoui64 (\<lambda>n p. p\<lparr>ui64NetRedemptionLimit := n\<rparr>) t p"
  "Set_ETF_Info m ops ''NetCreationLimitPerUser'' t p = store_converted String2UInt64_strtoui64 (\<lambda>n p. p\<lparr>ui64NetCreationLimitPerUser := n\<rparr>) t p"
  "Set_ETF_Info m ops ''NetRedemptionLimitPerUser'' t p = store_converted String2UInt64_strtoui64 (\<lambda>n p. p\<lparr>ui64NetRedemptionLimitPerUser := n\<rparr>) t p"
  "Set_ETF_Info m ops ''EstimateCashComponent'' t p = store_converted m (\<lambda>n p. p\<lparr>ui64mEstimateCashComponent := n\<rparr>) t p"
  "Set_ETF_Info m ops ''CashComponent'' t p = store_converted m (\<lambda>n p. p\<lparr>ui64mCashComponent := n\<rparr>) t p"
  "Set_ETF_Info m ops ''NAVperCU'' t p = store_converted m (\<lambda>n p. p\<lparr>ui64mNAVperCU := n\<rparr>) t p"
  "Set_ETF_Info m ops ''NAV'' t p = store_converted m (\<lambda>n p. p\<lparr>ui64mNAV := n\<rparr>) t p"
  "Set_ETF_Info m ops ''DividendPerCU'' t p = store_converted m (\<lambda>n p. p\<lparr>ui64mDividendPerCU := n\<rparr>) t p"
  "Set_ETF_Info m ops ''MaxCashRatio'' t p = store_converted (String2Double_atof ops) (\<lambda>d p. p\<lparr>dMaxCashRatio := d\<rparr>) t p"
  by (simp_all add: Set_ETF_Info_def text_members_def flag_members_def count_members_def money_members_def)

definition stored_step :: "'d etf_env \<Rightarrow> 'd EtfPackage \<Rightarrow> string \<Rightarrow> 'd EtfPackage \<Rightarrow> int \<times> 'd EtfPackage" where
  "stored_step x e k = Set_ETF_Info_FromDb (ee_ops x) k (table_row etf_columns (etf_values x e))"

lemma stored_text:
  "stored_step x e ''Version'' p = (0, p\<lparr>etf_strVersion := etf_strVersion e\<rparr>)"
  "stored_step x e ''SecurityID'' p = (0, p\<lparr>etf_strSecurityID := etf_strSecurityID e\<rparr>)"
  "stored_step x e ''SecurityIDSource'' p = (0, p\<lparr>etf_strSecurityIDSource := etf_strSecurityIDSource e\<rparr>)"
  "stored_step x e ''TradingDay'' p = (0, p\<lparr>strTradingDay := strTradingDay e\<rparr>)"
  "stored_step x e ''PreTradingDay'' p = (0, p\<lparr>strPreTradingDay := strPreTradingDay e\<rparr>)"
  "stored_step x e ''Publish'' p = (0, p\<lparr>bPublish := bPublish e\<rparr>)"
  "stored_step x e ''Creation'' p = (0, p\<lparr>bCreation := bCreation e\<rparr>)"
  "stored_step x e ''Redemption'' p = (0, p\<lparr>bRedemption := bRedemption e\<rparr>)"
  by (simp_all add: stored_step_def Set_ETF_Info_FromDb_def etf_row set_member sql_flag_def)

lemma stored_text_or_null:
  "etf_strSymbol p = [] \<Longrightarrow> stored_step x e ''Symbol'' p = (0, p\<lparr>etf_strSymbol := etf_strSymbol e\<rparr>)"
  "etf_strFundManagementCompany p = [] \<Longrightarrow> stored_step x e ''FundManagementCompany'' p = (0, p\<lparr>etf_strFundManagementCompany := etf_strFundManagementCompany e\<rparr>)"
  "etf_strUnderlyingSecurityID p = [] \<Longrightarrow> stored_step x e ''UnderlyingSecurityID'' p = (0, p\<lparr>etf_strUnderlyingSecurityID := etf_strUnderlyingSecurityID e\<rparr>)"
  "etf_strUnderlyingSecurityIDSource p = [] \<Longrightarrow> stored_step x e ''UnderlyingSecurityIDSource'' p = (0, p\<lparr>etf_strUnderlyingSecurityIDSource := etf_strUnderlyingSecurityIDSource e\<rparr>)"
  by (cases p; simp add: stored_step_def Set_ETF_Info_FromDb_def etf_row set_member text_or_null_def)+

lemma stored_number:
  "package_stores x e \<Longrightarrow> stored_step x e ''CreationRedemptionUnit'' p = (0, p\<lparr>ui64CreationRedemptionUnit := ui64CreationRedemptionUnit e\<rparr>)"
  "package_stores x e \<Longrightarrow> stored_step x e ''RecordNum'' p = (0, p\<lparr>ui64RecordNum := ui64RecordNum e\<rparr>)"
  "package_stores x e \<Longrightarrow> stored_step x e ''TotalRecordNum'' p = (0, p\<lparr>ui64TotalRecordNum := ui64TotalRecordNum e\<rparr>)"
  "package_stores x e \<Longrightarrow> stored_step x e ''CreationLimit'' p = (0, p\<lparr>ui64CreationLimit := ui64CreationLimit e\<rparr>)"
  "package_stores x e \<Longrightarrow> stored_step x e ''RedemptionLimit'' p = (0, p\<lparr>ui64RedemptionLimit := ui64RedemptionLimit e\<rparr>)"
  "package_stores x e \<Longrightarrow> stored_step x e ''CreationLimitPerUser'' p = (0, p\<lparr>ui64CreationLimitPerUser := ui64CreationLimitPerUser e\<rparr>)"
  "package_stores x e \<Longrightarrow> stored_step x e ''RedemptionLimitPerUser'' p = (0, p\<lparr>ui64RedemptionLimitPerUser := ui64RedemptionLimitPerUser e\<rparr>)"
  "package_stores x e \<Longrightarrow> stored_step x e ''NetCreationLimit'' p = (0, p\<lparr>ui64NetCreationLimit := ui64NetCreationLimit e\<rparr>)"
  "package_stores x e \<Longrightarrow> stored_step x e ''NetRedemptionLimit'' p = (0, p\<lparr>ui64NetRedemptionLimit := ui64NetRedemptionLimit e\<rparr>)"
  "package_stores x e \<Longrightarrow> stored_step x e ''NetCreationLimitPerUser'' p = (0, p\<lparr>ui64NetCreationLimitPerUser := ui64NetCreationLimitPerUser e\<rparr>)"
  "package_stores x e \<Longrightarrow> stored_step x e ''NetRedemptionLimitPerUser'' p = (0, p\<lparr>ui64NetRedemptionLimitPerUser := ui64NetRedemptionLimitPerUser e\<rparr>)"
  "package_stores x e \<Longrightarrow> stored_step x e ''EstimateCashComponent'' p = (0, p\<lparr>ui64mEstimateCashComponent := ui64mEstimateCashComponent e\<rparr>)"
  "package_stores x e \<Longrightarrow> stored_step x e ''CashComponent'' p = (0, p\<lparr>ui64mCashComponent := ui64mCashComponent e\<rparr>)"
  "package_stores x e \<Longrightarrow> stored_step x e ''NAVperCU'' p = (0, p\<lparr>ui64mNAVperCU := ui64mNAVperCU e\<rparr>)"
  "package_stores x e \<Longrightarrow> stored_step x e ''NAV'' p = (0, p\<lparr>ui64mNAV := ui64mNAV e\<rparr>)"
  "package_stores x e \<Longrightarrow> stored_step x e ''DividendPerCU'' p = (0, p\<lparr>ui64mDividendPerCU := ui64mDividendPerCU e\<rparr>)"
  "package_stores x e \<Longrightarrow> stored_step x e ''MaxCashRatio'' p = (0, p\<lparr>dMaxCashRatio := dMaxCashRatio e\<rparr>)"
  by (simp_all add: stored_step_def Set_ETF_Info_FromDb_def etf_row set_member package_stores_def store_count store_ratio)

lemma package_row_step:
  "package_stores x e \<Longrightarrow>
   set_columns (stored_step x e) etf_columns (EtfPackage_new (ee_ops x) publish) = (0, e\<lparr>vecComponents := []\<rparr>)"
  unfolding etf_columns_def
  by (simp add: stored_text stored_text_or_null stored_number EtfPackage_new_def)

lemma package_row_read:
  assumes "package_stores x e"
  shows "set_columns (\<lambda>k. Set_ETF_Info_FromDb (ee_ops x) k (table_row etf_columns (etf_values x e))) etf_columns
    (EtfPackage_new (ee_ops x) publish) = (0, e\<lparr>vecComponents := []\<rparr>)"
proof -
  have "(\<lambda>k. Set_ETF_Info_FromDb (ee_ops x) k (table_row etf_columns (etf_values x e))) = stored_step x e"
    by (simp add: fun_eq_iff stored_step_def)
  then show ?thesis using package_row_step [OF assms] by simp
qed

lemma component_rows_read:
  assumes "\<forall>c\<in>set cs. component_stores x c \<and> Validate_ETFComponent_Info (ee_ops x) c = 0"
  shows "component_rows (ee_ops x) (map (\<lambda>c. table_row component_columns (component_values x c)) cs) e =
    (0, e\<lparr>vecComponents := vecComponents e @ cs\<rparr>)"
  using assms by (induction cs arbitrary: e) (simp_all add: component_row_read)

section \<open>Valid packages\<close>

definition package_valid :: "'d word_ops \<Rightarrow> 'd EtfPackage \<Rightarrow> bool" where
  "package_valid ops e \<longleftrightarrow> Validate_ETF_Info e = 0 \<and> (\<forall>c\<in>set (vecComponents e). Validate_ETFComponent_Info ops c = 0)"

text \<open>
  A database that holds the packages of the table: its codes are those of the table, and the rows it
  gives for a code are the values that were stored for it.
\<close>

definition db_holds :: "'d etf_env \<Rightarrow> db_event list \<Rightarrow> (string, 'd EtfPackage) omap \<Rightarrow> bool" where
  "db_holds x log m \<longleftrightarrow> GetFromDB_AllEtfStockIds x log = map fst m \<and>
     (\<forall>(ident, e)\<in>set m. ee_select x log (select_info x ident) = Some [table_row etf_columns (etf_values x e)] \<and>
        ee_select x log (select_components x ident) =
          Some (map (\<lambda>c. table_row component_columns (component_values x c)) (vecComponents e)))"

lemma package_read:
  assumes "package_valid (ee_ops x) e" "package_stores x e" "\<forall>c\<in>set (vecComponents e). component_stores x c"
    "ee_select x log (select_info x ident) = Some [table_row etf_columns (etf_values x e)]"
    "ee_select x log (select_components x ident) =
       Some (map (\<lambda>c. table_row component_columns (component_values x c)) (vecComponents e))"
  shows "GetFromDB_OneEtfPackage x log ident (EtfPackage_new (ee_ops x) publish) = (0, e)"
  using assms
  by (simp add: GetFromDB_OneEtfPackage_def GetFromDB_OneEtfInfo_def package_row_read GetFromDB_OneEtfComponents_def
      component_rows_read package_valid_def)

lemma load_packages_read:
  assumes "\<forall>(ident, e)\<in>set m. \<forall>publish. GetFromDB_OneEtfPackage x log ident (EtfPackage_new (ee_ops x) publish) = (0, e)"
    "distinct (map fst m)"
  shows "\<exists>m1. load_packages x log (map fst m) m0 = (0, m1) \<and>
    (\<forall>k. map_of m1 k = (case map_of m k of None \<Rightarrow> map_of m0 k | Some e \<Rightarrow> Some e))"
  using assms
proof (induction m arbitrary: m0)
  case (Cons a m)
  obtain ident e where a: "a = (ident, e)" by fastforce
  from Cons.IH [of "omap_put ident e m0"] Cons.prems obtain m1 where
    m1: "load_packages x log (map fst m) (omap_put ident e m0) = (0, m1)"
    "\<forall>k. map_of m1 k = (case map_of m k of None \<Rightarrow> map_of (omap_put ident e m0) k | Some e \<Rightarrow> Some e)" by auto
  have "map_of m ident = None" using Cons.prems(2) a by (simp add: map_of_eq_None_iff)
  with m1 Cons.prems(1) show ?case by (auto simp: a split: option.splits)
qed simp

lemma member_keeps_components [simp]:
  "map_of text_members k = Some ut \<Longrightarrow> vecComponents (ut t e) = vecComponents e"
  "map_of flag_members k = Some uf \<Longrightarrow> vecComponents (uf b e) = vecComponents e"
  "map_of count_members k = Some uc \<Longrightarrow> vecComponents (uc n e) = vecComponents e"
  "map_of money_members k = Some uc \<Longrightarrow> vecComponents (uc n e) = vecComponents e"
  by (auto simp: text_members_def flag_members_def count_members_def money_members_def split: if_splits)

lemma Set_ETF_Info_components: "Set_ETF_Info m ops k v e = (r, e1) \<Longrightarrow> vecComponents e1 = vecComponents e"
  by (auto simp: Set_ETF_Info_def store_converted_def split: option.splits prod.splits if_splits)

lemma set_infos_web_components: "set_infos_web ops ms e = (r, e1) \<Longrightarrow> vecComponents e1 = vecComponents e"
proof (induction ms arbitrary: e)
  case (Cons nv ms)
  obtain name v where nv: "nv = (name, v)" by fastforce
  show ?case
  proof (cases v)
    case (JStr t)
    obtain iRes e0 where u: "Set_ETF_Info_FromWebControl ops (c_str name) (c_str t) e = (iRes, e0)" by fastforce
    then have "vecComponents e0 = vecComponents e"
      by (simp add: Set_ETF_Info_FromWebControl_def Set_ETF_Info_components)
    with Cons nv JStr u show ?thesis by (simp split: if_splits)
  qed (use Cons.prems nv in simp_all)
qed simp

lemma set_columns_keeps:
  assumes "set_columns upd ks e = (r, e1)" "\<And>k e r e1. upd k e = (r, e1) \<Longrightarrow> f e1 = f e"
  shows "f e1 = f e"
  using assms(1)
proof (induction ks arbitrary: e)
  case (Cons k ks)
  obtain r0 e0 where u: "upd k e = (r0, e0)" by fastforce
  with Cons assms(2) [OF u] show ?case by (auto split: if_splits)
qed simp

lemma set_rows_components: "set_rows ops rows e = (r, e1) \<Longrightarrow> vecComponents e1 = vecComponents e"
proof (induction ops rows e arbitrary: r e1 rule: set_rows.induct)
  case (2 ops row rs e)
  obtain r0 e0 where u: "set_columns (\<lambda>k. Set_ETF_Info_FromDb ops k row) etf_columns e = (r0, e0)" by fastforce
  have "vecComponents e0 = vecComponents e"
    by (rule set_columns_keeps [OF u]) (auto simp: Set_ETF_Info_FromDb_def dest: Set_ETF_Info_components split: option.splits)
  with 2 u show ?case by (auto split: if_splits)
qed simp

abbreviation components_valid :: "'d word_ops \<Rightarrow> 'd EtfPackage \<Rightarrow> bool" where
  "components_valid ops e \<equiv> \<forall>c\<in>set (vecComponents e). Validate_ETFComponent_Info ops c = 0"

lemma set_components_web_valid:
  "set_components_web ops ds e = (Ret 0, e1) \<Longrightarrow> components_valid ops e \<Longrightarrow> components_valid ops e1"
proof (induction ds arbitrary: e)
  case (Cons d ds)
  show ?case
  proof (cases d)
    case (JObj doc)
    obtain r c where c: "Set_ETF_Component_FromWebControl ops doc (EtfComponent_new ops) = (r, c)" by fastforce
    show ?thesis
    proof (cases r)
      case (Ret i)
      have run: "(if i = -1 then (Ret (-1), e) else if Validate_ETFComponent_Info ops c \<noteq> 0 then (Ret (-1), e)
          else set_components_web ops ds (e\<lparr>vecComponents := vecComponents e @ [c]\<rparr>)) = (Ret 0, e1)"
        using Cons.prems(1) unfolding JObj set_components_web.simps json.case c Ret prod.case outcome.case .
      then have c0: "Validate_ETFComponent_Info ops c = 0"
        and rest: "set_components_web ops ds (e\<lparr>vecComponents := vecComponents e @ [c]\<rparr>) = (Ret 0, e1)"
        by (simp_all only: split: if_splits) simp_all
      have "components_valid ops (e\<lparr>vecComponents := vecComponents e @ [c]\<rparr>)" using c0 Cons.prems(2) by auto
      from Cons.IH [OF rest this] show ?thesis .
    qed (use Cons.prems JObj c in simp_all)
  qed (use Cons.prems in simp_all)
qed simp

lemma component_rows_valid:
  "component_rows ops rows e = (0, e1) \<Longrightarrow> components_valid ops e \<Longrightarrow> components_valid ops e1"
  by (induction ops rows e arbitrary: e1 rule: component_rows.induct) (auto split: prod.splits if_splits)

lemma EtfPackage_new_components [simp]: "vecComponents (EtfPackage_new ops b) = []"
  by (simp add: EtfPackage_new_def)

lemma package_of_web_valid:
  assumes "package_of_web x doc = (Ret 0, ident, e)"
  shows "components_valid (ee_ops x) e"
proof -
  from assms obtain info i e1 ds where "set_infos_web (ee_ops x) info (EtfPackage_new (ee_ops x) (ee_publish x)) = (Ret i, e1)"
    "set_components_web (ee_ops x) ds e1 = (Ret 0, e)"
    by (auto simp: package_of_web_def Let_def split: option.splits json.splits prod.splits outcome.splits if_splits)
  moreover from this have "vecComponents e1 = []" using set_infos_web_components by fastforce
  ultimately show ?thesis using set_components_web_valid [of "ee_ops x" ds e1 e] by simp
qed

lemma GetFromDB_OneEtfPackage_valid:
  assumes "GetFromDB_OneEtfPackage x log ident (EtfPackage_new ops0 b) = (0, e)"
  shows "package_valid (ee_ops x) e"
proof -
  obtain r1 e1 where i: "GetFromDB_OneEtfInfo x log ident (EtfPackage_new ops0 b) = (r1, e1)" by fastforce
  obtain r2 e2 where c: "GetFromDB_OneEtfComponents x log ident e1 = (r2, e2)" by fastforce
  have "vecComponents e1 = []"
    using i by (auto simp: GetFromDB_OneEtfInfo_def dest: set_rows_components split: option.splits)
  moreover have "e2 = e" "r2 = 0" "Validate_ETF_Info e = 0"
    using assms i c by (auto simp: GetFromDB_OneEtfPackage_def split: if_splits)
  moreover have "components_valid (ee_ops x) e"
    using calculation c component_rows_valid [of "ee_ops x" _ e1 e]
    by (auto simp: GetFromDB_OneEtfComponents_def split: option.splits)
  ultimately show ?thesis by (simp add: package_valid_def)
qed

lemma load_packages_valid:
  assumes "load_packages x log ids m = (r, m1)" "omap_wf m" "\<forall>k e. map_of m k = Some e \<longrightarrow> package_valid (ee_ops x) e"
  shows "omap_wf m1 \<and> (\<forall>k e. map_of m1 k = Some e \<longrightarrow> package_valid (ee_ops x) e)"
  using assms
proof (induction ids arbitrary: m)
  case (Cons ident ids)
  obtain iRes e where g: "GetFromDB_OneEtfPackage x log ident (EtfPackage_new (ee_ops x) (ee_publish x)) = (iRes, e)"
    by fastforce
  show ?case
  proof (cases "iRes = 0")
    case True
    have "package_valid (ee_ops x) e" using g True by (intro GetFromDB_OneEtfPackage_valid) simp
    then have "\<forall>k e0. map_of (omap_put ident e m) k = Some e0 \<longrightarrow> package_valid (ee_ops x) e0"
      using Cons.prems(3) by simp
    moreover have "load_packages x log ids (omap_put ident e m) = (r, m1)" using Cons.prems(1) g True by simp
    ultimately show ?thesis using Cons.IH omap_wf_put [OF Cons.prems(2)] by blast
  qed (use Cons.prems g in simp)
qed simp

section \<open>Batches\<close>

definition batch_text :: "'d etf_env \<Rightarrow> string \<Rightarrow> 'd SzETFComponent list \<Rightarrow> string" where
  "batch_text x ident b = comma_list (map (component_text x ident) b) @ '';''"

lemma comma_list_Cons: "b \<noteq> [] \<Longrightarrow> comma_list (t # b) = t @ '','' @ comma_list b"
  by (cases b) simp_all

lemma batch_text_Cons: "b \<noteq> [] \<Longrightarrow> batch_text x ident (c # b) = component_text x ident c @ '','' @ batch_text x ident b"
  by (simp add: batch_text_def comma_list_Cons)

text \<open>The statements of the batches; the first one goes on after \<open>sql\<close>.\<close>

fun batch_statements :: "'d etf_env \<Rightarrow> string \<Rightarrow> string \<Rightarrow> 'd SzETFComponent list list \<Rightarrow> string list" where
  "batch_statements x ident sql [] = []"
| "batch_statements x ident sql (b # bs) =
     (sql @ batch_text x ident b) # batch_statements x ident (component_head x @ '' '') bs"

lemma insert_components_batches:
  assumes "insert_components x ident cs n sql log = (0, log1)" "n \<le> iBatchInsertSize"
  shows "\<exists>bs. concat bs = cs \<and> (\<forall>b\<in>set bs. b \<noteq> []) \<and> (\<forall>b\<in>set (take 1 bs). length b + n \<le> Suc iBatchInsertSize) \<and>
    (\<forall>b\<in>set (drop 1 bs). length b \<le> iBatchInsertSize) \<and> log1 = log @ map Statement (batch_statements x ident sql bs)"
  using assms
proof (induction cs arbitrary: n sql log)
  case Nil
  then show ?case by (intro exI [of _ "[]"]) simp
next
  case (Cons c cs)
  let ?sql = "sql @ component_text x ident c"
  show ?case
  proof (cases "cs = [] \<or> iBatchInsertSize \<le> n")
    case True
    with Cons.prems(1) have run: "insert_components x ident cs 1 (component_head x @ '' '') (log @ [Statement (?sql @ '';'')]) = (0, log1)"
      by (auto simp: Let_def split: prod.splits if_splits)
    obtain bs where bs: "concat bs = cs" "\<forall>b\<in>set bs. b \<noteq> []" "\<forall>b\<in>set (take 1 bs). length b + 1 \<le> Suc iBatchInsertSize"
      "\<forall>b\<in>set (drop 1 bs). length b \<le> iBatchInsertSize"
      "log1 = (log @ [Statement (?sql @ '';'')]) @ map Statement (batch_statements x ident (component_head x @ '' '') bs)"
      using Cons.IH [OF run] by (auto simp: iBatchInsertSize_def)
    have "\<forall>b\<in>set bs. length b \<le> iBatchInsertSize" using bs(3,4) by (cases bs) auto
    with bs Cons.prems(2) show ?thesis
      by (intro exI [of _ "[c] # bs"]) (simp add: batch_text_def)
  next
    case False
    with Cons.prems have run: "insert_components x ident cs (n + 1) (?sql @ '','') log = (0, log1)" and "n + 1 \<le> iBatchInsertSize"
      by (simp_all add: Let_def)
    from Cons.IH [OF this] obtain bs where bs: "concat bs = cs" "\<forall>b\<in>set bs. b \<noteq> []"
      "\<forall>b\<in>set (take 1 bs). length b + (n + 1) \<le> Suc iBatchInsertSize" "\<forall>b\<in>set (drop 1 bs). length b \<le> iBatchInsertSize"
      "log1 = log @ map Statement (batch_statements x ident (?sql @ '','') bs)" by blast
    from bs(1) False obtain b rest where b: "bs = b # rest" by (cases bs) auto
    with bs show ?thesis
      by (intro exI [of _ "(c # b) # rest"]) (simp add: batch_text_Cons)
  qed
qed

section \<open>Properties\<close>

inductive etf_reachable :: "'d word_ops \<Rightarrow> 'd ETFContainer \<Rightarrow> bool" for ops where
  start: "etf_reachable ops ETFContainer_new"
| upload: "etf_reachable ops s \<Longrightarrow> ee_ops x = ops \<Longrightarrow> InsertEtf_FromWebControl x doc s = (r, s1) \<Longrightarrow> etf_reachable ops s1"
| reload: "etf_reachable ops s \<Longrightarrow> ee_ops x = ops \<Longrightarrow> ETFContainer_ReloadFromDb x s = (iRes, s1) \<Longrightarrow> etf_reachable ops s1"

lemma upload_cases:
  assumes "InsertEtf_FromWebControl x doc s = (r, s1)"
  obtains (refused) "r \<noteq> Ret 0" "s1 = s"
  | (failed) e log1 where "r = Ret (-1)" "UpdateOneEtfPackageToDb x e (etf_log s) = (-1, log1)" "s1 = s\<lparr>etf_log := log1\<rparr>"
  | (stored) ident e log1 where "r = Ret 0" "package_of_web x doc = (Ret 0, ident, e)" "package_valid (ee_ops x) e"
      "UpdateOneEtfPackageToDb x e (etf_log s) = (0, log1)"
      "s1 = s\<lparr>m_mapEtfContents := omap_put ident e (m_mapEtfContents s), etf_log := log1\<rparr>"
proof -
  obtain o1 ident e where p: "package_of_web x doc = (o1, ident, e)" by (metis prod_cases3)
  obtain iRes2 log1 where u: "UpdateOneEtfPackageToDb x e (etf_log s) = (iRes2, log1)" by fastforce
  have two: "iRes2 = 0 \<or> iRes2 = -1" using u by (auto simp: UpdateOneEtfPackageToDb_def split: prod.splits if_splits)
  consider "o1 \<noteq> Ret 0 \<or> Validate_ETF_Info e \<noteq> 0" | "o1 = Ret 0" "Validate_ETF_Info e = 0" by blast
  then show thesis
  proof cases
    case 1
    then show thesis using assms p by (intro refused) (auto simp: InsertEtf_FromWebControl_def split: outcome.splits if_splits)
  next
    case 2
    show thesis
    proof (cases "iRes2 = 0")
      case True
      then show thesis using assms p u 2 package_of_web_valid [of x doc ident e]
        by (intro stored [of ident e log1]) (simp_all add: InsertEtf_FromWebControl_def package_valid_def)
    next
      case False
      then show thesis using assms p u 2 two
        by (intro failed [of e log1]) (simp_all add: InsertEtf_FromWebControl_def)
    qed
  qed
qed

lemma reachable_packages:
  "etf_reachable ops s \<Longrightarrow>
     omap_wf (m_mapEtfContents s) \<and> (\<forall>k e. map_of (m_mapEtfContents s) k = Some e \<longrightarrow> package_valid ops e)"
proof (induction rule: etf_reachable.induct)
  case start
  then show ?case by (simp add: ETFContainer_new_def)
next
  case (upload s x doc r s1)
  show ?case using upload(3)
    by (cases rule: upload_cases) (use upload.IH upload(2) in \<open>auto intro: omap_wf_put\<close>)
next
  case (reload s x iRes s1)
  then show ?case
    using load_packages_valid [of x "etf_log s" "GetFromDB_AllEtfStockIds x (etf_log s)" "[]"]
    by (auto simp: ETFContainer_ReloadFromDb_def split: prod.splits if_splits)
qed

text \<open>
  C15.  Every package in the table is valid, whatever packages were sent by the administration and
  whatever the database gave on a reload: it has a code and a unit, its number of components is the
  one it states, and each component has what its substitution flag asks for.
\<close>

theorem etf_packages_valid:
  "etf_reachable ops s \<Longrightarrow> map_of (m_mapEtfContents s) k = Some e \<Longrightarrow> package_valid ops e"
  using reachable_packages by blast

text \<open>
  C16.  A reload restores the table: if the database holds the packages of the table and their numbers
  and ratios fit, the reload succeeds and every code has the package it had.
\<close>

theorem etf_reload_restores:
  assumes "etf_reachable (ee_ops x) s" "ee_connect x (etf_log s)" "db_holds x (etf_log s) (m_mapEtfContents s)"
    "\<forall>(ident, e)\<in>set (m_mapEtfContents s). package_stores x e \<and> (\<forall>c\<in>set (vecComponents e). component_stores x c)"
  shows "\<exists>s1. ETFContainer_ReloadFromDb x s = (0, s1) \<and> map_of (m_mapEtfContents s1) = map_of (m_mapEtfContents s)"
proof -
  have wf: "distinct (map fst (m_mapEtfContents s))" using reachable_packages [OF assms(1)] omap_wf_distinct by blast
  have "GetFromDB_OneEtfPackage x (etf_log s) ident (EtfPackage_new (ee_ops x) publish) = (0, e)"
    if "(ident, e) \<in> set (m_mapEtfContents s)" for ident e publish
  proof (rule package_read)
    show "package_valid (ee_ops x) e"
      using that map_of_is_SomeI [OF wf that] reachable_packages [OF assms(1)] by blast
  qed (use that assms(3,4) in \<open>auto simp: db_holds_def\<close>)
  then have "\<forall>(ident, e)\<in>set (m_mapEtfContents s). \<forall>publish.
      GetFromDB_OneEtfPackage x (etf_log s) ident (EtfPackage_new (ee_ops x) publish) = (0, e)" by blast
  from load_packages_read [OF this wf, of "[]"] obtain m1 where
    "load_packages x (etf_log s) (map fst (m_mapEtfContents s)) [] = (0, m1)"
    "\<forall>k. map_of m1 k = (case map_of (m_mapEtfContents s) k of None \<Rightarrow> map_of [] k | Some e \<Rightarrow> Some e)" by blast
  moreover from this(2) have "map_of m1 = map_of (m_mapEtfContents s)" by (auto simp: fun_eq_iff split: option.split)
  ultimately show ?thesis using assms(2,3) by (simp add: ETFContainer_ReloadFromDb_def db_holds_def)
qed

lemma insert_components_log: "\<exists>sqls. snd (insert_components x ident cs n sql log) = log @ map Statement sqls"
proof (induction cs arbitrary: n sql log)
  case (Cons c cs)
  let ?stmt = "(sql @ component_text x ident c) @ '';''"
  obtain a where "snd (insert_components x ident cs 1 (component_head x @ '' '') (log @ [Statement ?stmt])) =
      (log @ [Statement ?stmt]) @ map Statement a" using Cons.IH by blast
  then have flush: "snd (insert_components x ident cs 1 (component_head x @ '' '') (log @ [Statement ?stmt])) =
      log @ map Statement (?stmt # a)" by simp
  obtain b where more: "snd (insert_components x ident cs (n + 1) ((sql @ component_text x ident c) @ '','') log) =
      log @ map Statement b" using Cons.IH by blast
  have one: "snd (-1 :: int, log @ [Statement ?stmt]) = log @ map Statement [?stmt]" by simp
  obtain iRes rows where "ee_exec x log ?stmt = (iRes, rows)" by fastforce
  then show ?case
    using flush more one by (simp only: insert_components.simps Let_def prod.case split: if_split) blast
qed (auto intro: exI [of _ "[]"])

lemma UpdateOne_log:
  assumes "UpdateOneEtfPackageToDb x e log = (iRes, log1)"
  shows "(log1 = log \<and> iRes = -1) \<or> (\<exists>sqls. log1 = log @ StartTransaction # map Statement sqls @ [if iRes = 0 then Commit else RollBack])"
proof (cases "ee_connect x log")
  case True
  let ?log = "log @ [StartTransaction]"
  define i1 where "i1 = fst (Update_EtfInfo x e ?log)"
  have i: "Update_EtfInfo x e ?log = (i1, ?log @ [Statement (etf_statement x e)])"
    by (simp add: i1_def Update_EtfInfo_def split: prod.split)
  let ?log1 = "?log @ [Statement (etf_statement x e)]"
  have "\<exists>sqls. snd (Update_EtfComponent x e ?log1) = ?log1 @ map Statement sqls"
  proof -
    let ?stmt = "delete_statement x (etf_strSecurityID e)"
    obtain i2 rows where d: "ee_exec x ?log1 ?stmt = (i2, rows)" by fastforce
    obtain sqls where "snd (insert_components x (etf_strSecurityID e) (vecComponents e) 0 (component_head x)
        (?log1 @ [Statement ?stmt])) = (?log1 @ [Statement ?stmt]) @ map Statement sqls"
      using insert_components_log by blast
    then have "snd (Update_EtfComponent x e ?log1) = ?log1 @ map Statement (?stmt # sqls)
        \<or> snd (Update_EtfComponent x e ?log1) = ?log1 @ map Statement [?stmt]"
      using d by (simp add: Update_EtfComponent_def Let_def)
    then show ?thesis by blast
  qed
  then obtain i2 sqls where c: "Update_EtfComponent x e ?log1 = (i2, ?log1 @ map Statement sqls)" by (metis prod.collapse)
  show ?thesis
  proof (cases "i1 = 0")
    case False
    with assms True i show ?thesis
      by (intro disjI2 exI [of _ "[etf_statement x e]"]) (auto simp: UpdateOneEtfPackageToDb_def)
  next
    case i1: True
    with assms True i c show ?thesis
      by (intro disjI2 exI [of _ "etf_statement x e # sqls"]) (auto simp: UpdateOneEtfPackageToDb_def split: if_splits)
  qed
qed (use assms in \<open>simp add: UpdateOneEtfPackageToDb_def\<close>)

text \<open>
  C17.  An upload is one transaction or nothing: what is sent to the database is empty or one transaction
  of statements, which is committed exactly when the upload succeeds; then the valid package of the
  upload is entered under its code, and otherwise the table stays as it was.
\<close>

theorem etf_upload_atomic:
  assumes "InsertEtf_FromWebControl x doc s = (r, s1)"
  shows "(etf_log s1 = etf_log s \<and> r \<noteq> Ret 0 \<or>
      (\<exists>sqls. etf_log s1 = etf_log s @ StartTransaction # map Statement sqls @ [if r = Ret 0 then Commit else RollBack])) \<and>
    (if r = Ret 0 then \<exists>ident e. package_of_web x doc = (Ret 0, ident, e) \<and> package_valid (ee_ops x) e \<and>
         m_mapEtfContents s1 = omap_put ident e (m_mapEtfContents s)
     else m_mapEtfContents s1 = m_mapEtfContents s)"
  using assms
proof (cases rule: upload_cases)
  case refused
  then show ?thesis by simp
next
  case (failed e log1)
  then show ?thesis using UpdateOne_log [OF failed(2)] by auto
next
  case (stored ident e log1)
  then show ?thesis using UpdateOne_log [OF stored(4)] by auto
qed

text \<open>
  The components of a package are inserted in batches: when the update succeeds, the statements
  after the deletion hold every component exactly once, in order, at least one and at most 51 in each.
\<close>

theorem component_batches_bounded:
  assumes "Update_EtfComponent x e log = (0, log1)"
  shows "\<exists>bs. concat bs = vecComponents e \<and> (\<forall>b\<in>set bs. b \<noteq> [] \<and> length b \<le> 51) \<and>
    log1 = log @ Statement (delete_statement x (etf_strSecurityID e)) #
      map Statement (batch_statements x (etf_strSecurityID e) (component_head x) bs)"
proof -
  from assms have "insert_components x (etf_strSecurityID e) (vecComponents e) 0 (component_head x)
      (log @ [Statement (delete_statement x (etf_strSecurityID e))]) = (0, log1)"
    by (auto simp: Update_EtfComponent_def Let_def split: prod.splits if_splits)
  from insert_components_batches [OF this] obtain bs where bs: "concat bs = vecComponents e" "\<forall>b\<in>set bs. b \<noteq> []"
    "\<forall>b\<in>set (take 1 bs). length b \<le> 51" "\<forall>b\<in>set (drop 1 bs). length b \<le> 50"
    "log1 = (log @ [Statement (delete_statement x (etf_strSecurityID e))]) @
       map Statement (batch_statements x (etf_strSecurityID e) (component_head x) bs)"
    unfolding iBatchInsertSize_def by auto
  have "\<forall>b\<in>set bs. length b \<le> 51" using bs(3,4) by (cases bs) auto
  with bs show ?thesis by (intro exI [of _ bs]) simp
qed

section \<open>The properties at sample values\<close>

text \<open>A package of one component, its upload, and a database that has stored it.\<close>

definition sample_etf_component :: "int SzETFComponent" where
  "sample_etf_component = (EtfComponent_new cent_ops)\<lparr>comp_strUnderlyingSecurityID := ''000001'', ui64ComponentShare := 100\<rparr>"

definition sample_etf_package :: "int EtfPackage" where
  "sample_etf_package = (EtfPackage_new cent_ops False)\<lparr>etf_strSecurityID := ''159901'', ui64CreationRedemptionUnit := 1,
     ui64TotalRecordNum := 1, vecComponents := [sample_etf_component]\<rparr>"

definition sample_etf_doc :: "(string \<times> json) list" where
  "sample_etf_doc =
     [(''etf_info'', JObj [(''SecurityID'', JStr ''159901''), (''CreationRedemptionUnit'', JStr ''1''), (''TotalRecordNum'', JStr ''1'')]),
      (''etf_component'', JArr [JObj [(''UnderlyingSecurityID'', JStr ''000001''), (''UnderlyingSecurityIDSource'', JStr []),
        (''UnderlyingSymbol'', JStr []), (''ComponentShare'', JStr ''100''), (''SubstituteFlag'', JStr []), (''PremiumRatio'', JStr []),
        (''CreationCashSubstitute'', JStr []), (''RedemptionCashSubstitute'', JStr [])]])]"

definition etf_printer :: "int etf_env" where
  "etf_printer = \<lparr>ee_ops = cent_ops\<lparr>w_atof := (\<lambda>t. 0)\<rparr>, ee_print = (\<lambda>d. ''0''), ee_publish = False, ee_connect = (\<lambda>l. True),
     ee_exec = (\<lambda>l q. (2, 1)), ee_select = (\<lambda>l q. None), g_DBTable_etf_info = ''etf_info'', g_DBTable_etf_component = ''etf_component''\<rparr>"

lemma sample_numbers:
  "String2UInt64_strtoui64 ''1'' = (0, 1)" "String2UInt64_strtoui64 ''100'' = (0, 100)" "String2Int_atoi [] = (0, 0)"
  "String2UInt64MoneyInLi_strtoui64 [] = (0, 0)" "String2Double_atof ops [] = (0, w_zero ops)"
  by (code_simp, code_simp, simp_all add: String2Int_atoi_def String2UInt64MoneyInLi_strtoui64_def String2Double_atof_def)

lemma sample_upload: "package_of_web etf_printer sample_etf_doc = (Ret 0, ''159901'', sample_etf_package)"
proof -
  let ?ops = "ee_ops etf_printer"
  let ?doc = "[(''UnderlyingSecurityID'', JStr ''000001''), (''UnderlyingSecurityIDSource'', JStr []),
        (''UnderlyingSymbol'', JStr []), (''ComponentShare'', JStr ''100''), (''SubstituteFlag'', JStr []), (''PremiumRatio'', JStr []),
        (''CreationCashSubstitute'', JStr []), (''RedemptionCashSubstitute'', JStr [])]"
  have zero: "w_zero ?ops = 0" by (simp add: etf_printer_def cent_ops_def)
  have new: "EtfComponent_new ?ops = EtfComponent_new cent_ops" by (simp add: EtfComponent_new_def zero) (simp add: cent_ops_def)
  have comp: "Set_ETF_Component_FromWebControl ?ops ?doc (EtfComponent_new ?ops) = (Ret 0, sample_etf_component)"
    unfolding new by (simp add: Set_ETF_Component_FromWebControl_def component_members_def store_converted_def sample_numbers
        c_str_def sample_etf_component_def zero) (simp add: EtfComponent_new_def cent_ops_def)
  have valid: "Validate_ETFComponent_Info ?ops sample_etf_component = 0"
    by (simp add: Validate_ETFComponent_Info_def sample_etf_component_def EtfComponent_new_def Only_Security_def)
  have info: "set_infos_web ?ops [(''SecurityID'', JStr ''159901''), (''CreationRedemptionUnit'', JStr ''1''), (''TotalRecordNum'', JStr ''1'')]
      (EtfPackage_new ?ops False) = (Ret 0, (EtfPackage_new cent_ops False)\<lparr>etf_strSecurityID := ''159901'',
        ui64CreationRedemptionUnit := 1, ui64TotalRecordNum := 1\<rparr>)"
    by (simp add: Set_ETF_Info_FromWebControl_def set_member store_converted_def sample_numbers c_str_def EtfPackage_new_def zero)
      (simp add: cent_ops_def)
  have pub: "ee_publish etf_printer = False" by (simp add: etf_printer_def)
  have comps: "set_components_web ?ops [JObj ?doc] e = (Ret 0, e\<lparr>vecComponents := vecComponents e @ [sample_etf_component]\<rparr>)" for e
    by (simp add: comp valid)
  show ?thesis
    by (simp add: package_of_web_def sample_etf_doc_def Let_def pub info comps c_str_def
        del: set_infos_web.simps set_components_web.simps)
      (simp add: sample_etf_package_def EtfPackage_new_def)
qed

lemma sample_valid: "package_valid ops sample_etf_package"
  by (simp add: package_valid_def Validate_ETF_Info_def sample_etf_package_def EtfPackage_new_def
      Validate_ETFComponent_Info_def sample_etf_component_def EtfComponent_new_def Only_Security_def)

lemma sample_exec: "ee_exec etf_printer log q = (2, 1)" "ee_connect etf_printer log"
  by (simp_all add: etf_printer_def)

lemma sample_stored:
  obtains log where "InsertEtf_FromWebControl etf_printer sample_etf_doc ETFContainer_new =
    (Ret 0, \<lparr>m_mapEtfContents = [(''159901'', sample_etf_package)], etf_log = log\<rparr>)"
proof -
  have "fst (UpdateOneEtfPackageToDb etf_printer sample_etf_package []) = 0"
    by (simp add: UpdateOneEtfPackageToDb_def sample_exec Update_EtfInfo_def Update_EtfComponent_def Let_def)
      (simp add: sample_etf_package_def sample_exec Let_def split: prod.split)
  then obtain log where "UpdateOneEtfPackageToDb etf_printer sample_etf_package [] = (0, log)" by (metis prod.collapse)
  then show thesis
    using sample_valid [of cent_ops]
    by (intro that [of log]) (simp add: InsertEtf_FromWebControl_def sample_upload ETFContainer_new_def package_valid_def)
qed

theorem etf_packages_valid_witness:
  "\<exists>s :: int ETFContainer. map_of (m_mapEtfContents s) ''159901'' = Some sample_etf_package \<and> package_valid (ee_ops etf_printer) sample_etf_package"
proof -
  obtain log where i: "InsertEtf_FromWebControl etf_printer sample_etf_doc ETFContainer_new =
      (Ret 0, \<lparr>m_mapEtfContents = [(''159901'', sample_etf_package)], etf_log = log\<rparr>)" by (rule sample_stored)
  let ?s = "\<lparr>m_mapEtfContents = [(''159901'', sample_etf_package)], etf_log = log\<rparr>"
  have "map_of (m_mapEtfContents ?s) ''159901'' = Some sample_etf_package" by simp
  with etf_packages_valid [OF upload [OF start refl i] this] show ?thesis by (intro exI [of _ ?s] conjI)
qed

definition sample_etf_db :: "int etf_env" where
  "sample_etf_db = etf_printer\<lparr>ee_select := (\<lambda>log q.
     if q ! 8 = CHR ''V'' then Some [table_row etf_columns (etf_values etf_printer sample_etf_package)]
     else if q ! 8 = CHR ''U'' then Some [table_row component_columns (component_values etf_printer sample_etf_component)]
     else Some [(\<lambda>k. Some ''159901'')])\<rparr>"

lemma sample_db_values:
  "etf_values sample_etf_db e = etf_values etf_printer e" "component_values sample_etf_db c = component_values etf_printer c"
  "ee_ops sample_etf_db = ee_ops etf_printer" "ee_connect sample_etf_db log"
  by (simp_all add: etf_values_def component_values_def sample_etf_db_def sample_exec)

lemma sample_queries:
  "select_info sample_etf_db ident ! 8 = CHR ''V''" "select_components sample_etf_db ident ! 8 = CHR ''U''"
  "(''SELECT '' @ column_list [''SecurityID''] @ t) ! 8 = CHR ''S''"
  by (simp_all add: select_info_def select_components_def column_list_def etf_columns_def component_columns_def)

theorem etf_reload_restores_witness:
  "\<exists>s s1. ETFContainer_ReloadFromDb sample_etf_db s = (0, s1) \<and>
     map_of (m_mapEtfContents s1) ''159901'' = Some sample_etf_package"
proof -
  obtain log where i: "InsertEtf_FromWebControl etf_printer sample_etf_doc ETFContainer_new =
      (Ret 0, \<lparr>m_mapEtfContents = [(''159901'', sample_etf_package)], etf_log = log\<rparr>)" by (rule sample_stored)
  let ?s = "\<lparr>m_mapEtfContents = [(''159901'', sample_etf_package)], etf_log = log\<rparr>"
  have r: "etf_reachable (ee_ops sample_etf_db) ?s"
    by (rule upload [OF start _ i]) (simp add: sample_db_values)
  have d: "db_holds sample_etf_db (etf_log ?s) (m_mapEtfContents ?s)"
    using sample_queries unfolding sample_etf_db_def
    by (simp add: db_holds_def GetFromDB_AllEtfStockIds_def sample_db_values [unfolded sample_etf_db_def])
      (simp add: sample_etf_package_def)
  have "prints_back sample_etf_db 0" by (simp add: prints_back_def sample_etf_db_def etf_printer_def)
  then have n: "\<forall>(ident, e)\<in>set (m_mapEtfContents ?s). package_stores sample_etf_db e \<and>
      (\<forall>c\<in>set (vecComponents e). component_stores sample_etf_db c)"
    by (simp add: package_stores_def component_stores_def sample_etf_package_def sample_etf_component_def
        EtfPackage_new_def EtfComponent_new_def cent_ops_def)
  obtain s1 where "ETFContainer_ReloadFromDb sample_etf_db ?s = (0, s1)" "map_of (m_mapEtfContents s1) = map_of (m_mapEtfContents ?s)"
    using etf_reload_restores [OF r _ d n] sample_db_values(4) by auto
  then show ?thesis by (intro exI [of _ ?s] exI [of _ s1]) simp
qed

theorem etf_upload_atomic_witness:
  "\<exists>(s1 :: int ETFContainer) sqls. etf_log s1 = StartTransaction # map Statement sqls @ [Commit] \<and> map fst (m_mapEtfContents s1) = [''159901'']"
proof -
  obtain log where i: "InsertEtf_FromWebControl etf_printer sample_etf_doc ETFContainer_new =
      (Ret 0, \<lparr>m_mapEtfContents = [(''159901'', sample_etf_package)], etf_log = log\<rparr>)" by (rule sample_stored)
  show ?thesis
    using etf_upload_atomic [OF i]
    by (intro exI [of _ "\<lparr>m_mapEtfContents = [(''159901'', sample_etf_package)], etf_log = log\<rparr>"])
      (auto simp: ETFContainer_new_def)
qed

theorem component_batches_bounded_witness:
  "\<exists>bs. concat bs = [sample_etf_component] \<and> (\<forall>b\<in>set bs. b \<noteq> [] \<and> length b \<le> 51)"
proof -
  have "fst (Update_EtfComponent etf_printer sample_etf_package []) = 0"
    by (simp add: Update_EtfComponent_def Let_def sample_exec) (simp add: sample_etf_package_def sample_exec Let_def)
  then obtain log where "Update_EtfComponent etf_printer sample_etf_package [] = (0, log)" by (metis prod.collapse)
  from component_batches_bounded [OF this] show ?thesis by (auto simp: sample_etf_package_def)
qed

end
