(* ===== verification/EtfTradeVolume.thy ===== *)
theory EtfTradeVolume
  imports EtfContainer
begin

text \<open>
  \<open>etf/ETF_TradeVolume_Basket.cpp\<close> and \<open>etf/ETF_TradeVolume.cpp\<close>: the limits of the creations and
  redemptions of an ETF in a day, in total and for each customer, gross and net.  A limit is a counter
  of the class \<open>FrozeVolume\<close>; a limit of 0 for a customer is no limit, one
  of 0 for the ETF lets nothing through.  The members of a basket come
  twice, for creations and for redemptions, and the code has every operation twice with the same body;
  the model has one record and one operation for both.
\<close>

section \<open>One basket\<close>

record EtfLimits =
  lim_max :: u64
  lim_total :: FrozeVolume
  lim_user_max :: u64
  lim_users :: "(string, FrozeVolume) omap"
  net_max :: u64
  net_total :: FrozeVolume
  net_user_max :: u64
  net_users :: "(string, FrozeVolume) omap"

definition EtfLimits_new :: "u64 \<Rightarrow> u64 \<Rightarrow> u64 \<Rightarrow> u64 \<Rightarrow> EtfLimits" where
  "EtfLimits_new limit per_user net net_per_user =
     \<lparr>lim_max = limit, lim_total = FrozeVolume_max limit, lim_user_max = per_user, lim_users = [],
      net_max = net, net_total = FrozeVolume_max net, net_user_max = net_per_user, net_users = []\<rparr>"

record ETF_TradeVolume_Basket =
  m_Creation :: EtfLimits
  m_Redemption :: EtfLimits

definition Basket_default :: ETF_TradeVolume_Basket where
  "Basket_default = \<lparr>m_Creation = EtfLimits_new 0 0 0 0, m_Redemption = EtfLimits_new 0 0 0 0\<rparr>"

definition Basket_of :: "'d EtfPackage \<Rightarrow> ETF_TradeVolume_Basket" where
  "Basket_of e =
     \<lparr>m_Creation = EtfLimits_new (ui64CreationLimit e) (ui64CreationLimitPerUser e) (ui64NetCreationLimit e)
        (ui64NetCreationLimitPerUser e),
      m_Redemption = EtfLimits_new (ui64RedemptionLimit e) (ui64RedemptionLimitPerUser e) (ui64NetRedemptionLimit e)
        (ui64NetRedemptionLimitPerUser e)\<rparr>"

text \<open>
  An operation of a counter as its result code and new state.  The counter of a customer is created
  full by a freeze; the other operations fail when there is none.
\<close>

definition froze_code :: "FrozeVolume \<Rightarrow> u64 \<Rightarrow> int \<times> FrozeVolume" where
  "froze_code v n = (case FrozeVolume_Froze v n of (iRes, _, v1) \<Rightarrow> (iRes, v1))"

definition froze_user :: "u64 \<Rightarrow> u64 \<Rightarrow> string \<Rightarrow> (string, FrozeVolume) omap \<Rightarrow> int \<times> (string, FrozeVolume) omap" where
  "froze_user n mx cust users =
     (if mx = 0 then (0, users)
      else case froze_code (case map_of users cust of None \<Rightarrow> FrozeVolume_max mx | Some v \<Rightarrow> v) n of
        (iRes, v1) \<Rightarrow> (iRes, omap_put cust v1 users))"

definition change_user ::
  "(FrozeVolume \<Rightarrow> u64 \<Rightarrow> int \<times> FrozeVolume) \<Rightarrow> u64 \<Rightarrow> u64 \<Rightarrow> string \<Rightarrow> (string, FrozeVolume) omap \<Rightarrow>
   int \<times> (string, FrozeVolume) omap" where
  "change_user f n mx cust users =
     (if mx = 0 then (0, users)
      else case map_of users cust of None \<Rightarrow> (-1, users)
      | Some v \<Rightarrow> (case f v n of (iRes, v1) \<Rightarrow> (if iRes \<noteq> 0 then -1 else 0, omap_put cust v1 users)))"

definition defroze_user :: "u64 \<Rightarrow> u64 \<Rightarrow> string \<Rightarrow> (string, FrozeVolume) omap \<Rightarrow> (string, FrozeVolume) omap" where
  "defroze_user n mx cust users = snd (change_user FrozeVolume_Defroze n mx cust users)"

text \<open>
  \<open>FrozeCreation\<close> and \<open>FrozeRedemption\<close>.  The result of freezing the net total is not stored; the test
  after it looks at the result before, which is 0 there.
\<close>

definition Froze_limits :: "u64 \<Rightarrow> string \<Rightarrow> EtfLimits \<Rightarrow> int \<times> EtfLimits" where
  "Froze_limits n cust b =
     (if n = 0 \<or> cust = [] then (0, b)
      else case froze_code (lim_total b) n of (iRes, t1) \<Rightarrow>
        let b1 = b\<lparr>lim_total := t1\<rparr> in
        if iRes \<noteq> 0 then (-1, b1)
        else case froze_user n (lim_user_max b1) cust (lim_users b1) of (iRes, users) \<Rightarrow>
          let b2 = b1\<lparr>lim_users := users\<rparr> in
          if iRes \<noteq> 0 then (-1, b2\<lparr>lim_total := snd (FrozeVolume_Defroze (lim_total b2) n)\<rparr>)
          else
            let b3 = b2\<lparr>net_total := snd (froze_code (net_total b2) n)\<rparr> in
            if iRes \<noteq> 0
            then (-1, b3\<lparr>lim_total := snd (FrozeVolume_Defroze (lim_total b3) n),
                        lim_users := defroze_user n (lim_user_max b3) cust (lim_users b3)\<rparr>)
            else case froze_user n (net_user_max b3) cust (net_users b3) of (iRes, nusers) \<Rightarrow>
              let b4 = b3\<lparr>net_users := nusers\<rparr> in
              if iRes \<noteq> 0
              then (-1, b4\<lparr>lim_total := snd (FrozeVolume_Defroze (lim_total b4) n),
                          lim_users := defroze_user n (lim_user_max b4) cust (lim_users b4),
                          net_total := snd (FrozeVolume_Defroze (net_total b4) n)\<rparr>)
              else (0, b4))"

text \<open>
  \<open>DefrozeCreation\<close>, \<open>DefrozeRedemption\<close>, \<open>ConfirmCreation\<close> and \<open>ConfirmRedemption\<close>.  A failure leaves
  what was changed before it; the result of the net total is again not stored.
\<close>

definition Change_limits ::
  "(FrozeVolume \<Rightarrow> u64 \<Rightarrow> int \<times> FrozeVolume) \<Rightarrow> u64 \<Rightarrow> string \<Rightarrow> EtfLimits \<Rightarrow> int \<times> EtfLimits" where
  "Change_limits f n cust b =
     (if n = 0 \<or> cust = [] then (0, b)
      else case f (lim_total b) n of (iRes, t1) \<Rightarrow>
        let b1 = b\<lparr>lim_total := t1\<rparr> in
        if iRes \<noteq> 0 then (-1, b1)
        else case change_user f n (lim_user_max b1) cust (lim_users b1) of (iRes, users) \<Rightarrow>
          let b2 = b1\<lparr>lim_users := users\<rparr> in
          if iRes \<noteq> 0 then (-1, b2)
          else
            let b3 = b2\<lparr>net_total := snd (f (net_total b2) n)\<rparr> in
            case change_user f n (net_user_max b3) cust (net_users b3) of (iRes, nusers) \<Rightarrow>
              let b4 = b3\<lparr>net_users := nusers\<rparr> in
              if iRes \<noteq> 0 then (-1, b4) else (0, b4))"

definition on_creation :: "(EtfLimits \<Rightarrow> int \<times> EtfLimits) \<Rightarrow> ETF_TradeVolume_Basket \<Rightarrow> int \<times> ETF_TradeVolume_Basket" where
  "on_creation f b = (case f (m_Creation b) of (iRes, l) \<Rightarrow> (iRes, b\<lparr>m_Creation := l\<rparr>))"

definition on_redemption :: "(EtfLimits \<Rightarrow> int \<times> EtfLimits) \<Rightarrow> ETF_TradeVolume_Basket \<Rightarrow> int \<times> ETF_TradeVolume_Basket" where
  "on_redemption f b = (case f (m_Redemption b) of (iRes, l) \<Rightarrow> (iRes, b\<lparr>m_Redemption := l\<rparr>))"

definition Basket_FrozeCreation :: "u64 \<Rightarrow> string \<Rightarrow> ETF_TradeVolume_Basket \<Rightarrow> int \<times> ETF_TradeVolume_Basket" where
  "Basket_FrozeCreation n cust = on_creation (Froze_limits n cust)"

definition Basket_DefrozeCreation :: "u64 \<Rightarrow> string \<Rightarrow> ETF_TradeVolume_Basket \<Rightarrow> int \<times> ETF_TradeVolume_Basket" where
  "Basket_DefrozeCreation n cust = on_creation (Change_limits FrozeVolume_Defroze n cust)"

definition Basket_ConfirmCreation :: "u64 \<Rightarrow> string \<Rightarrow> ETF_TradeVolume_Basket \<Rightarrow> int \<times> ETF_TradeVolume_Basket" where
  "Basket_ConfirmCreation n cust = on_creation (Change_limits FrozeVolume_Confirm n cust)"

definition Basket_FrozeRedemption :: "u64 \<Rightarrow> string \<Rightarrow> ETF_TradeVolume_Basket \<Rightarrow> int \<times> ETF_TradeVolume_Basket" where
  "Basket_FrozeRedemption n cust = on_redemption (Froze_limits n cust)"

definition Basket_DefrozeRedemption :: "u64 \<Rightarrow> string \<Rightarrow> ETF_TradeVolume_Basket \<Rightarrow> int \<times> ETF_TradeVolume_Basket" where
  "Basket_DefrozeRedemption n cust = on_redemption (Change_limits FrozeVolume_Defroze n cust)"

definition Basket_ConfirmRedemption :: "u64 \<Rightarrow> string \<Rightarrow> ETF_TradeVolume_Basket \<Rightarrow> int \<times> ETF_TradeVolume_Basket" where
  "Basket_ConfirmRedemption n cust = on_redemption (Change_limits FrozeVolume_Confirm n cust)"

section \<open>All baskets\<close>

type_synonym ETF_TradeVolume = "(string, ETF_TradeVolume_Basket) omap"

text \<open>
  The basket is looked up by the code of the ETF and entered under the number of the customer; an
  entry that is there already makes the insertion fail.
\<close>

definition with_basket ::
  "string \<Rightarrow> string \<Rightarrow> ETF_TradeVolume_Basket \<Rightarrow> (ETF_TradeVolume_Basket \<Rightarrow> int \<times> ETF_TradeVolume_Basket) \<Rightarrow>
   ETF_TradeVolume \<Rightarrow> int \<times> ETF_TradeVolume" where
  "with_basket security cust fresh f m =
     (case map_of m security of
        Some b \<Rightarrow> (case f b of (iRes, b1) \<Rightarrow> (if iRes \<noteq> 0 then -1 else 0, omap_put security b1 m))
      | None \<Rightarrow>
          if map_of m cust \<noteq> None then (-1, m)
          else (case f fresh of (iRes, b1) \<Rightarrow> (if iRes \<noteq> 0 then -1 else 0, omap_put cust b1 m)))"

definition TV_FrozeCreation :: "u64 \<Rightarrow> string \<Rightarrow> string \<Rightarrow> 'd EtfPackage \<Rightarrow> ETF_TradeVolume \<Rightarrow> int \<times> ETF_TradeVolume" where
  "TV_FrozeCreation n security cust e = with_basket security cust (Basket_of e) (Basket_FrozeCreation n cust)"

definition TV_DefrozeCreation :: "u64 \<Rightarrow> string \<Rightarrow> string \<Rightarrow> ETF_TradeVolume \<Rightarrow> int \<times> ETF_TradeVolume" where
  "TV_DefrozeCreation n security cust = with_basket security cust Basket_default (Basket_DefrozeCreation n cust)"

definition TV_ConfirmCreation :: "u64 \<Rightarrow> string \<Rightarrow> string \<Rightarrow> ETF_TradeVolume \<Rightarrow> int \<times> ETF_TradeVolume" where
  "TV_ConfirmCreation n security cust = with_basket security cust Basket_default (Basket_ConfirmCreation n cust)"

definition TV_FrozeRedemption :: "u64 \<Rightarrow> string \<Rightarrow> string \<Rightarrow> 'd EtfPackage \<Rightarrow> ETF_TradeVolume \<Rightarrow> int \<times> ETF_TradeVolume" where
  "TV_FrozeRedemption n security cust e = with_basket security cust (Basket_of e) (Basket_FrozeRedemption n cust)"

definition TV_DefrozeRedemption :: "u64 \<Rightarrow> string \<Rightarrow> string \<Rightarrow> ETF_TradeVolume \<Rightarrow> int \<times> ETF_TradeVolume" where
  "TV_DefrozeRedemption n security cust = with_basket security cust Basket_default (Basket_DefrozeRedemption n cust)"

definition TV_ConfirmRedemption :: "u64 \<Rightarrow> string \<Rightarrow> string \<Rightarrow> ETF_TradeVolume \<Rightarrow> int \<times> ETF_TradeVolume" where
  "TV_ConfirmRedemption n security cust = with_basket security cust Basket_default (Basket_ConfirmRedemption n cust)"

section \<open>What is confirmed\<close>

definition fr :: "FrozeVolume \<Rightarrow> u64 \<Rightarrow> FrozeVolume" where
  "fr v n = freeze_part v (min (m_ui64UnFrozeVolume v) n)"

lemma froze_code_eq [simp]: "froze_code v n = (0, fr v n)"
  by (simp add: froze_code_def Froze_freeze_part fr_def)

lemma fr_holding: "fv_wf v \<Longrightarrow> fv_holding (fr v n) = fv_holding v"
  by (simp add: fr_def freeze_part_holding)

lemma Froze_limits_eq:
  "n \<noteq> 0 \<Longrightarrow> cust \<noteq> [] \<Longrightarrow> Froze_limits n cust b = (0, b\<lparr>lim_total := fr (lim_total b) n,
     lim_users := snd (froze_user n (lim_user_max b) cust (lim_users b)), net_total := fr (net_total b) n,
     net_users := snd (froze_user n (net_user_max b) cust (net_users b))\<rparr>)"
  by (cases b) (simp add: Froze_limits_def froze_user_def Let_def cong: option.case_cong if_cong)

text \<open>The counters of the customers, and what each has confirmed.\<close>

definition user_ok :: "u64 \<Rightarrow> (string, FrozeVolume) omap \<Rightarrow> (string \<Rightarrow> nat) \<Rightarrow> bool" where
  "user_ok mx users used \<longleftrightarrow> (mx \<noteq> 0 \<longrightarrow> (\<forall>c. case map_of users c of None \<Rightarrow> used c = 0 | Some v \<Rightarrow> fv_holding v + used c \<le> unat mx))"

lemma holding_wf: "fv_holding v + k \<le> unat (mx :: u64) \<Longrightarrow> fv_wf v"
  using unsigned_less [of mx, where ?'a = nat] by (simp add: fv_wf_def)

lemma FrozeVolume_max_holding [simp]: "fv_holding (FrozeVolume_max mx) = unat mx"
  by (simp add: FrozeVolume_max_def fv_holding_def)

lemma user_ok_put:
  "user_ok mx users used \<Longrightarrow> (mx \<noteq> 0 \<Longrightarrow> fv_holding v + k \<le> unat mx) \<Longrightarrow> user_ok mx (omap_put c v users) (used(c := k))"
  by (auto simp: user_ok_def cong: option.case_cong)

lemma user_ok_entry:
  "user_ok mx users used \<Longrightarrow> mx \<noteq> 0 \<Longrightarrow> map_of users c = Some v \<Longrightarrow> fv_holding v + used c \<le> unat mx"
  by (auto simp: user_ok_def dest!: spec [of _ c])

lemma froze_user_ok:
  assumes "user_ok mx users used"
  shows "user_ok mx (snd (froze_user n mx cust users)) used"
proof (cases "mx = 0")
  case False
  define v where "v = (case map_of users cust of None \<Rightarrow> FrozeVolume_max mx | Some v \<Rightarrow> v)"
  have "fv_holding v + used cust \<le> unat mx"
    using assms False by (auto simp: v_def user_ok_def dest!: spec [of _ cust] split: option.splits)
  then have "fv_holding (fr v n) + used cust \<le> unat mx" using fr_holding [OF holding_wf] by simp
  with user_ok_put [OF assms, of "fr v n" "used cust" cust] False show ?thesis
    by (simp add: froze_user_def v_def [symmetric])
qed (simp add: user_ok_def)

lemma Confirm_facts:
  "FrozeVolume_Confirm v n = (0, v1) \<Longrightarrow> fv_holding v1 + unat n = fv_holding v"
  "FrozeVolume_Confirm v n = (r, v1) \<Longrightarrow> r \<noteq> 0 \<Longrightarrow> v1 = v"
proof -
  show "FrozeVolume_Confirm v n = (r, v1) \<Longrightarrow> r \<noteq> 0 \<Longrightarrow> v1 = v"
    by (auto simp: FrozeVolume_Confirm_def split: if_splits)
  assume c: "FrozeVolume_Confirm v n = (0, v1)"
  then have "n \<le> m_ui64ForzeVolume v" by (auto simp: FrozeVolume_Confirm_def split: if_splits)
  then have "fv_holding (snd (FrozeVolume_Confirm v n)) = fv_holding v - unat n" "unat n \<le> fv_holding v"
    using FrozeVolume_Confirm_holding by (auto simp: fv_holding_def word_le_nat_alt)
  with c show "fv_holding v1 + unat n = fv_holding v" by simp
qed

lemma confirm_user_ok:
  assumes "user_ok mx users used" "change_user FrozeVolume_Confirm n mx cust users = (r, users1)"
  shows "user_ok mx users1 used" "r = 0 \<Longrightarrow> user_ok mx users1 (used(cust := used cust + unat n))"
proof -
  show "user_ok mx users1 used"
  proof (cases "mx = 0 \<or> map_of users cust = None")
    case False
    then obtain v where v: "map_of users cust = Some v" "mx \<noteq> 0" by auto
    obtain i v1 where c: "FrozeVolume_Confirm v n = (i, v1)" by fastforce
    have "fv_holding v1 \<le> fv_holding v" using Confirm_facts [of v n] c by (cases "i = 0") fastforce+
    then have "fv_holding v1 + used cust \<le> unat mx" using user_ok_entry [OF assms(1) v(2,1)] by simp
    moreover have "users1 = omap_put cust v1 users" using assms(2) v c by (simp add: change_user_def)
    ultimately show ?thesis using user_ok_put [OF assms(1), of v1 "used cust" cust] by simp
  qed (use assms in \<open>auto simp: change_user_def user_ok_def\<close>)
  assume r: "r = 0"
  show "user_ok mx users1 (used(cust := used cust + unat n))"
  proof (cases "mx = 0")
    case False
    with assms(2) r obtain v v1 where v: "map_of users cust = Some v" "FrozeVolume_Confirm v n = (0, v1)"
      "users1 = omap_put cust v1 users"
      by (auto simp: change_user_def split: option.splits prod.splits if_splits)
    have "fv_holding v1 + (used cust + unat n) \<le> unat mx"
      using user_ok_entry [OF assms(1) False v(1)] Confirm_facts(1) [OF v(2)] by simp
    then show ?thesis unfolding v(3) by (intro user_ok_put [OF assms(1)])
  qed (simp add: user_ok_def)
qed

text \<open>A day of freezes and confirmations; \<open>used\<close> counts what each customer has confirmed with success.\<close>

datatype limit_op = OpFroze u64 string | OpConfirm u64 string

fun limit_run :: "limit_op list \<Rightarrow> (string \<Rightarrow> nat) \<times> EtfLimits \<Rightarrow> (string \<Rightarrow> nat) \<times> EtfLimits" where
  "limit_run [] s = s"
| "limit_run (OpFroze n cust # ops) (used, b) = limit_run ops (used, snd (Froze_limits n cust b))"
| "limit_run (OpConfirm n cust # ops) (used, b) =
     (case Change_limits FrozeVolume_Confirm n cust b of (iRes, b1) \<Rightarrow>
        limit_run ops (if iRes = 0 \<and> cust \<noteq> [] then used(cust := used cust + unat n) else used, b1))"

definition limits_ok :: "u64 \<Rightarrow> u64 \<Rightarrow> u64 \<Rightarrow> nat \<Rightarrow> (string \<Rightarrow> nat) \<Rightarrow> EtfLimits \<Rightarrow> bool" where
  "limits_ok limit per nper t used b \<longleftrightarrow> lim_user_max b = per \<and> net_user_max b = nper \<and>
     fv_holding (lim_total b) + t \<le> unat limit \<and> user_ok per (lim_users b) used \<and> user_ok nper (net_users b) used"

lemma Froze_limits_ok:
  assumes "limits_ok limit per nper t used b"
  shows "limits_ok limit per nper t used (snd (Froze_limits n cust b))"
proof (cases "n = 0 \<or> cust = []")
  case False
  have "fv_wf (lim_total b)" using assms by (auto simp: limits_ok_def intro: holding_wf)
  with False assms show ?thesis
    by (simp add: Froze_limits_eq limits_ok_def fr_holding froze_user_ok)
qed (use assms in \<open>auto simp: Froze_limits_def\<close>)

lemma Confirm_limits_ok:
  assumes "limits_ok limit per nper t used b" "Change_limits FrozeVolume_Confirm n cust b = (r, b1)"
  shows "if r = 0 \<and> cust \<noteq> [] then limits_ok limit per nper (t + unat n) (used(cust := used cust + unat n)) b1
    else limits_ok limit per nper t used b1"
proof (cases "n = 0 \<or> cust = []")
  case True
  then show ?thesis using assms by (auto simp: Change_limits_def)
next
  case False
  obtain r1 t1 where a: "FrozeVolume_Confirm (lim_total b) n = (r1, t1)" by fastforce
  obtain r2 us where u: "change_user FrozeVolume_Confirm n (lim_user_max b) cust (lim_users b) = (r2, us)" by fastforce
  obtain r3 nus where v: "change_user FrozeVolume_Confirm n (net_user_max b) cust (net_users b) = (r3, nus)" by fastforce
  note ok = assms(1) [unfolded limits_ok_def]
  have us: "user_ok per us used" "r2 = 0 \<Longrightarrow> user_ok per us (used(cust := used cust + unat n))"
    using confirm_user_ok [of per "lim_users b" used n cust r2 us] ok u by auto
  have nus: "user_ok nper nus used" "r3 = 0 \<Longrightarrow> user_ok nper nus (used(cust := used cust + unat n))"
    using confirm_user_ok [of nper "net_users b" used n cust r3 nus] ok v by auto
  show ?thesis
  proof (cases "r1 = 0")
    case r1: False
    then show ?thesis using assms False a Confirm_facts(2) [OF a] by (auto simp: Change_limits_def)
  next
    case True
    have t1: "fv_holding t1 + unat n = fv_holding (lim_total b)" using Confirm_facts(1) a True by simp
    show ?thesis
      using assms(2) False a u v True t1 us nus ok
      by (auto simp: Change_limits_def Let_def limits_ok_def split: if_splits)
  qed
qed

section \<open>Properties\<close>

definition confirmed_by :: "limit_op list \<Rightarrow> EtfLimits \<Rightarrow> string \<Rightarrow> nat" where
  "confirmed_by ops b = fst (limit_run ops ((\<lambda>c. 0), b))"

text \<open>The operations name finitely many customers; the sum goes over them.\<close>

definition customers :: "limit_op list \<Rightarrow> string set" where
  "customers ops = (\<lambda>x. case x of OpFroze n c \<Rightarrow> c | OpConfirm n c \<Rightarrow> c) ` set ops"

lemma limit_run_ok:
  assumes "limits_ok limit per nper (sum used A) used b" "finite A" "customers ops \<subseteq> A"
  shows "limits_ok limit per nper (sum (fst (limit_run ops (used, b))) A) (fst (limit_run ops (used, b))) (snd (limit_run ops (used, b)))"
  using assms
proof (induction ops arbitrary: used b)
  case (Cons x ops)
  have rest: "customers ops \<subseteq> A" using Cons.prems(3) by (auto simp: customers_def)
  show ?case
  proof (cases x)
    case (OpFroze n cust)
    then show ?thesis using Cons.IH [OF Froze_limits_ok [OF Cons.prems(1)] Cons.prems(2) rest] by simp
  next
    case (OpConfirm n cust)
    obtain r b1 where c: "Change_limits FrozeVolume_Confirm n cust b = (r, b1)" by fastforce
    define used1 where "used1 = (if r = 0 \<and> cust \<noteq> [] then used(cust := used cust + unat n) else used)"
    have "cust \<in> A" using Cons.prems(3) OpConfirm by (auto simp: customers_def)
    then have "sum (used(cust := used cust + unat n)) A = sum used A + unat n"
      using Cons.prems(2) by (simp add: sum.remove [of A cust])
    then have "limits_ok limit per nper (sum used1 A) used1 b1"
      using Confirm_limits_ok [OF Cons.prems(1) c] by (simp add: used1_def split: if_splits)
    from Cons.IH [OF this Cons.prems(2) rest] show ?thesis by (simp add: OpConfirm c used1_def)
  qed
qed simp

text \<open>
  C18.  Freezes and confirmations alone keep the gross limits of a day: after any sequence of them,
  what was confirmed with success does not exceed the limit of the ETF in sum, and for no customer
  exceeds a gross or net limit for each customer that is not 0.  This holds for a limit of the ETF of
  0 as well, which lets nothing through, although the comments of the class say that 0 is no limit
  (\<open>zero_limit_admits_nothing\<close>).  Releases are left out: the release of a freeze above the limit
  raises the limit (\<open>release_raises_limit\<close>).
\<close>

theorem confirmed_within_limits:
  "sum (confirmed_by ops (EtfLimits_new limit per net nper)) (customers ops) \<le> unat limit \<and>
   (per \<noteq> 0 \<longrightarrow> confirmed_by ops (EtfLimits_new limit per net nper) c \<le> unat per) \<and>
   (nper \<noteq> 0 \<longrightarrow> confirmed_by ops (EtfLimits_new limit per net nper) c \<le> unat nper)"
proof -
  let ?b = "EtfLimits_new limit per net nper"
  have "limits_ok limit per nper (sum (\<lambda>c. 0) (customers ops)) (\<lambda>c. 0) ?b"
    by (simp add: limits_ok_def EtfLimits_new_def user_ok_def)
  from limit_run_ok [OF this _ order_refl]
  have ok: "limits_ok limit per nper (sum (confirmed_by ops ?b) (customers ops)) (confirmed_by ops ?b) (snd (limit_run ops ((\<lambda>c. 0), ?b)))"
    by (simp add: confirmed_by_def customers_def)
  have "confirmed_by ops ?b c \<le> unat mx" if "user_ok mx users (confirmed_by ops ?b)" "mx \<noteq> 0" for mx users
    using that by (auto simp: user_ok_def dest!: spec [of _ c] split: option.splits)
  with ok show ?thesis by (auto simp: limits_ok_def)
qed

text \<open>
  An ETF whose published limit is 0, which means that there is none, lets nothing through: the freeze
  succeeds, and the confirmation of any quantity fails.
\<close>

theorem zero_limit_admits_nothing:
  assumes "0 < n" "cust \<noteq> []"
  shows "fst (Froze_limits n cust (EtfLimits_new 0 0 net 0)) = 0 \<and>
    fst (Change_limits FrozeVolume_Confirm n cust (snd (Froze_limits n cust (EtfLimits_new 0 0 net 0)))) = -1"
  using assms
  by (auto simp: Froze_limits_eq Change_limits_def Let_def EtfLimits_new_def froze_user_def fr_def
      FrozeVolume_max_def FrozeVolume_Confirm_def freeze_part_def)

text \<open>
  The net limit of the ETF is not kept: a creation within the gross limits is frozen and confirmed
  with success whatever the net limit is.
\<close>

theorem net_limit_not_kept:
  assumes "0 < n" "n \<le> limit" "cust \<noteq> []"
  shows "fst (Froze_limits n cust (EtfLimits_new limit 0 net 0)) = 0 \<and>
    fst (Change_limits FrozeVolume_Confirm n cust (snd (Froze_limits n cust (EtfLimits_new limit 0 net 0)))) = 0"
  using assms
  by (auto simp: Froze_limits_eq Change_limits_def Let_def EtfLimits_new_def froze_user_def change_user_def fr_def
      FrozeVolume_max_def FrozeVolume_Confirm_def freeze_part_def min_absorb2 not_less)

text \<open>
  A freeze above the limit succeeds, and releasing it raises the limit: after both the free part
  of the counter is what was asked for.
\<close>

theorem release_raises_limit:
  assumes "limit < n" "cust \<noteq> []"
  shows "fst (Froze_limits n cust (EtfLimits_new limit 0 net 0)) = 0 \<and>
    (case Change_limits FrozeVolume_Defroze n cust (snd (Froze_limits n cust (EtfLimits_new limit 0 net 0))) of (iRes, b) \<Rightarrow>
       iRes = 0 \<and> m_ui64UnFrozeVolume (lim_total b) = n)"
proof -
  have "n \<noteq> 0" using assms(1) by auto
  moreover have "min limit n = limit" using assms(1) by (simp add: min_absorb1)
  ultimately show ?thesis using assms
    by (simp add: Froze_limits_eq Change_limits_def Let_def EtfLimits_new_def froze_user_def change_user_def fr_def
      FrozeVolume_max_def FrozeVolume_Defroze_def freeze_part_def)
qed

text \<open>
  C40.  A customer can ask once: the first freeze of a customer enters the basket under the number of
  the customer; from then on its confirmation, its release and every further request of the customer
  are refused and change nothing, for every ETF that has no basket under its code.
\<close>

theorem customer_blocked:
  assumes "map_of m cust = None" "map_of m s1 = None" "s2 \<noteq> cust" "map_of m s2 = None"
  shows "\<exists>m1. TV_FrozeCreation n s1 cust e m = (0, m1) \<and> map_of m1 cust \<noteq> None \<and>
    TV_ConfirmCreation k s2 cust m1 = (-1, m1) \<and> TV_DefrozeCreation k s2 cust m1 = (-1, m1) \<and>
    TV_FrozeCreation k s2 cust e m1 = (-1, m1) \<and> TV_FrozeRedemption k s2 cust e m1 = (-1, m1)"
proof -
  have "fst (Basket_FrozeCreation n cust (Basket_of e)) = 0"
    by (cases "n = 0 \<or> cust = []")
      (auto simp: Basket_FrozeCreation_def on_creation_def Froze_limits_eq, simp_all add: Froze_limits_def)
  then obtain b where "Basket_FrozeCreation n cust (Basket_of e) = (0, b)" by (metis prod.collapse)
  with assms show ?thesis
    by (intro exI [of _ "omap_put cust b m"])
      (simp add: TV_FrozeCreation_def TV_ConfirmCreation_def TV_DefrozeCreation_def TV_FrozeRedemption_def with_basket_def)
qed

section \<open>The properties at sample values\<close>

theorem net_limit_not_kept_witness:
  "fst (Change_limits FrozeVolume_Confirm 80 ''U1'' (snd (Froze_limits 80 ''U1'' (EtfLimits_new 100 0 10 0)))) = 0"
  using net_limit_not_kept [of 80 100 "''U1''" 10] by simp

theorem release_raises_limit_witness:
  "case Change_limits FrozeVolume_Defroze 150 ''U1'' (snd (Froze_limits 150 ''U1'' (EtfLimits_new 100 0 10 0))) of (iRes, b) \<Rightarrow>
     iRes = 0 \<and> m_ui64UnFrozeVolume (lim_total b) = 150"
  using release_raises_limit [of 100 150 "''U1''" 10] by simp

theorem confirmed_within_limits_witness:
  "confirmed_by [OpFroze 80 ''U1'', OpConfirm 80 ''U1'', OpFroze 80 ''U1''] (EtfLimits_new 100 90 100 90) ''U1'' \<le> 90"
  using confirmed_within_limits [of "[OpFroze 80 ''U1'', OpConfirm 80 ''U1'', OpFroze 80 ''U1'']" 100 90 100 90 "''U1''"]
  by simp

theorem customer_blocked_witness:
  "\<exists>m1. TV_FrozeCreation 10 ''159901'' ''U1'' sample_etf_package [] = (0, m1) \<and>
     TV_ConfirmCreation 10 ''159901'' ''U1'' m1 = (-1, m1)"
proof -
  have "map_of [] ''U1'' = None" "map_of [] ''159901'' = None" "''159901'' \<noteq> ''U1''" by simp_all
  from customer_blocked [OF this(1,2,3,2), of 10 sample_etf_package 10] show ?thesis by blast
qed

theorem zero_limit_admits_nothing_witness:
  "fst (Change_limits FrozeVolume_Confirm 100 ''A1'' (snd (Froze_limits 100 ''A1'' (EtfLimits_new 0 0 0 0)))) = -1"
  using zero_limit_admits_nothing [of 100 "''A1''" 0] by simp

end
