(* ===== verification/DbfFile.thy ===== *)
theory DbfFile
  imports RuleWord
begin

text \<open>
  \<open>tool_file/DBF.CPP\<close> and \<open>tool_file/TgwDBFOperHelper.cpp\<close>: tables in the DBF format, as bytes.  A disk
  maps file names to contents; an open table holds the name of its file.  The structures of
  \<open>DBF.H\<close> are written to the file as they lie in memory, so the layout depends on the platform:
  \<open>unsigned long\<close> has four bytes on Windows and eight elsewhere, where the structures also have padding of
  unknown content.  Reading and writing an open file succeeds; on a closed file it fails.  Locks are taken to be
  granted (only Windows has them).  Results are optional: \<open>None\<close> is a write past a buffer.
\<close>

section \<open>Bytes of a file\<close>

definition read_at :: "nat \<Rightarrow> nat \<Rightarrow> string \<Rightarrow> string" where
  "read_at off n f = take n (drop off f)"

definition write_at :: "nat \<Rightarrow> string \<Rightarrow> string \<Rightarrow> string" where
  "write_at off bs f = take off f @ replicate (off - length f) (CHR 0x00) @ bs @ drop (off + length bs) f"

fun le_bytes :: "nat \<Rightarrow> nat \<Rightarrow> string" where
  "le_bytes 0 x = []"
| "le_bytes (Suc n) x = char_of x # le_bytes n (x div 256)"

fun le_value :: "string \<Rightarrow> nat" where
  "le_value [] = 0"
| "le_value (b # bs) = of_char b + 256 * le_value bs"

lemma length_le_bytes [simp]: "length (le_bytes n x) = n"
  by (induction n arbitrary: x) auto

lemma le_value_bytes: "le_value (le_bytes n x) = x mod 256 ^ n"
  by (induction n arbitrary: x) (simp_all add: mod_mult2_eq add.commute)

lemma le_bytes_zero: "le_bytes n 0 = replicate n (CHR 0x00)"
  by (induction n) (simp_all add: char_of_def)

declare le_bytes.simps [simp del]

lemma le_value_append: "le_value (as @ bs) = le_value as + 256 ^ length as * le_value bs"
  by (induction as) (auto simp: algebra_simps)

lemma length_read_at [simp]: "length (read_at off n f) = min n (length f - off)"
  by (simp add: read_at_def)

lemma length_write_at [simp]: "length (write_at off bs f) = max (length f) (off + length bs)"
  by (simp add: write_at_def)

lemma read_written [simp]: "n = length bs \<Longrightarrow> read_at off n (write_at off bs f) = bs"
  by (simp add: read_at_def write_at_def)

lemma read_below_written: "off + n \<le> off2 \<Longrightarrow> off + n \<le> length f \<Longrightarrow> read_at off n (write_at off2 bs f) = read_at off n f"
  by (auto simp: read_at_def write_at_def drop_take min_def)

lemma read_above_written: "off2 + length bs \<le> off \<Longrightarrow> off2 \<le> length f \<Longrightarrow> read_at off n (write_at off2 bs f) = read_at off n f"
  by (auto simp: read_at_def write_at_def min_def)

lemma read_within_written:
  "off2 \<le> off \<Longrightarrow> off + n \<le> off2 + length bs \<Longrightarrow> read_at off n (write_at off2 bs f) = read_at (off - off2) n bs"
  by (cases "off2 \<le> length f") (simp_all add: read_at_def write_at_def)

section \<open>The structures\<close>

record ColumnSettingInDBF =
  col_strName :: string
  col_cType :: char
  col_uWidth :: nat
  col_uDecWidth :: nat

record 'd DataInRow =
  d_iType :: int
  d_lValue :: int
  d_ulValue :: int
  d_dValue :: 'd
  d_strValue :: string

record FIELD_INFO =
  fi_name :: string
  fi_type :: char
  fi_offset :: nat
  fi_width :: nat
  fi_dec :: nat

record DBF_FIELD_INFO =
  nf_fieldName :: string
  nf_type :: char
  nf_beginOffset :: int
  nf_width :: u8
  nf_decWidth :: u8

record RECORD_INFO =
  rec_num :: nat
  rec_size :: nat
  rec_data :: string

record CDBF =
  fld_info :: "FIELD_INFO list"
  recInfo :: RECORD_INFO
  m_nRecBeginOffset :: nat
  m_nStructSize :: nat
  m_nCurrOffset :: nat
  m_nCurrRecNo :: nat
  m_handle :: "string option"
  m_pField :: "DBF_FIELD_INFO list"

type_synonym disk = "string \<Rightarrow> string option"

definition blank_record :: string where
  "blank_record = replicate 2048 (CHR '' '')"

definition CDBF_new :: CDBF where
  "CDBF_new = \<lparr>fld_info = [], recInfo = \<lparr>rec_num = 0, rec_size = 0, rec_data = replicate 2048 (CHR 0x00)\<rparr>,
     m_nRecBeginOffset = 0, m_nStructSize = 0, m_nCurrOffset = 0, m_nCurrRecNo = 0, m_handle = None, m_pField = []\<rparr>"

text \<open>
  The platform: the date a file gets, the padding bytes of the structures, the names that can be
  created, the numbers as the C library prints them, and whole numbers as doubles.
\<close>

record 'd platform =
  p_win32 :: bool
  p_today :: string
  p_padding :: string
  p_can_create :: "string \<Rightarrow> bool"
  p_printf :: "nat \<Rightarrow> nat \<Rightarrow> 'd \<Rightarrow> string"
  p_real :: "int \<Rightarrow> 'd"
  p_ops :: "'d word_ops"

definition long_size :: "'d platform \<Rightarrow> nat" where
  "long_size p = (if p_win32 p then 4 else 8)"

definition padding4 :: "'d platform \<Rightarrow> string" where
  "padding4 p = (if p_win32 p then [] else p_padding p)"

section \<open>Creating a table\<close>

definition AddField :: "string \<Rightarrow> char \<Rightarrow> nat \<Rightarrow> nat \<Rightarrow> CDBF \<Rightarrow> int \<times> CDBF" where
  "AddField name ty width decWidth c =
     (if 255 \<le> length (m_pField c) then (-1, c)
      else if ty \<noteq> CHR ''C'' \<and> ty \<noteq> CHR ''N'' \<and> ty \<noteq> CHR ''D'' then (-1, c)
      else
        let nm = take 10 (c_str name);
            begin1 = (if m_pField c = [] then 1
              else nf_beginOffset (last (m_pField c)) + sint (nf_width (last (m_pField c)))) in
        (0, c\<lparr>m_pField := m_pField c @ [\<lparr>nf_fieldName = nm @ replicate (10 - length nm) (CHR 0x00), nf_type = ty,
          nf_beginOffset = begin1, nf_width = word_of_nat width, nf_decWidth = word_of_nat decWidth\<rparr>]\<rparr>))"

definition byte :: "u8 \<Rightarrow> char" where
  "byte w = char_of (unat w)"

definition field_bytes :: "'d platform \<Rightarrow> DBF_FIELD_INFO \<Rightarrow> string" where
  "field_bytes p f =
     nf_fieldName f @ [CHR 0x00, nf_type f] @ padding4 p @
     le_bytes (long_size p) (nat (nf_beginOffset f mod 256 ^ long_size p)) @
     [byte (nf_width f), byte (nf_decWidth f)] @ replicate 14 (CHR 0x00)"

definition head_bytes :: "'d platform \<Rightarrow> DBF_FIELD_INFO list \<Rightarrow> string" where
  "head_bytes p fs =
     [CHR 0x03] @ p_today p @ padding4 p @ le_bytes (long_size p) 0 @
     le_bytes 2 (32 + 32 * length fs + 1) @
     le_bytes 2 (nat (((\<Sum>f\<leftarrow>fs. sint (nf_width f)) + 1) mod 65536)) @ replicate 20 (CHR 0x00)"

definition CDBF_Create :: "'d platform \<Rightarrow> string \<Rightarrow> CDBF \<times> disk \<Rightarrow> int \<times> CDBF \<times> disk" where
  "CDBF_Create p name s = (case s of (c, d) \<Rightarrow>
     if c_str name = [] then (-1, c\<lparr>m_pField := []\<rparr>, d)
     else if m_pField c = [] \<or> 255 < length (m_pField c) then (-1, c, d)
     else if \<not> p_can_create p name then (-1, c\<lparr>m_pField := []\<rparr>, d)
     else (0, c\<lparr>m_pField := []\<rparr>,
       d(name \<mapsto> head_bytes p (m_pField c) @ concat (map (field_bytes p) (m_pField c)) @ [CHR 0x0D])))"

section \<open>Opening and closing\<close>

definition Alltrim :: "string \<Rightarrow> string" where
  "Alltrim s = rev (dropWhile (\<lambda>c. c = CHR '' '') (rev (dropWhile (\<lambda>c. c = CHR '' '') s)))"

text \<open>
  The fields of a file: at most 128, until the offset reaches the size of the structure.  A read at
  the end of the file leaves the rest of the buffer as it was.
\<close>

primrec read_fields :: "nat \<Rightarrow> nat \<Rightarrow> nat \<Rightarrow> nat \<Rightarrow> string \<Rightarrow> string \<Rightarrow> FIELD_INFO list" where
  "read_fields 0 tmpoffset offset struct buf f = []"
| "read_fields (Suc n) tmpoffset offset struct buf f =
     (let got = read_at tmpoffset 32 f;
          buf1 = got @ drop (length got) buf;
          w = of_char (buf1 ! 16);
          fi = \<lparr>fi_name = Alltrim (c_str (take 10 buf1)), fi_type = buf1 ! 11, fi_offset = offset, fi_width = w,
                fi_dec = of_char (buf1 ! 17)\<rparr> in
      if int struct - 1 \<le> int (tmpoffset + 32) then [fi]
      else fi # read_fields n (tmpoffset + 32) (offset + w) struct buf1 f)"

definition CDBF_Open :: "string \<Rightarrow> CDBF \<times> disk \<Rightarrow> int \<times> CDBF" where
  "CDBF_Open name s = (case s of (c, d) \<Rightarrow>
     if m_handle c \<noteq> None then (-1, c)
     else
       let c1 = c\<lparr>m_nCurrOffset := 0, m_nRecBeginOffset := 0, m_nStructSize := 0, m_nCurrRecNo := 0, fld_info := [],
                  recInfo := (recInfo c)\<lparr>rec_num := 0, rec_size := 0\<rparr>\<rparr> in
       case d name of
         None \<Rightarrow> (-1, c1)
       | Some f \<Rightarrow>
           let struct = le_value (read_at 8 2 f);
               buf = read_at 8 2 f @ replicate (33 - length (read_at 8 2 f)) (CHR 0x00) in
           (0, c1\<lparr>recInfo := (recInfo c1)\<lparr>rec_num := le_value (read_at 4 4 f), rec_size := le_value (read_at 10 2 f)\<rparr>,
             m_nStructSize := struct, fld_info := read_fields 128 32 0 struct buf f,
             m_nRecBeginOffset := struct, m_nCurrOffset := struct, m_handle := Some name\<rparr>))"

definition CDBF_Close :: "CDBF \<Rightarrow> CDBF" where
  "CDBF_Close c =
     c\<lparr>m_nCurrOffset := 0, m_nRecBeginOffset := 0, m_nStructSize := 0, m_nCurrRecNo := 0, fld_info := [],
       recInfo := (recInfo c)\<lparr>rec_num := 0, rec_size := 0\<rparr>, m_handle := None\<rparr>"

section \<open>Records\<close>

text \<open>The contents of the open file; a closed one cannot be read or written.\<close>

definition contents :: "CDBF \<times> disk \<Rightarrow> string option" where
  "contents s = (case m_handle (fst s) of None \<Rightarrow> None | Some name \<Rightarrow> snd s name)"

definition write_file :: "nat \<Rightarrow> string \<Rightarrow> CDBF \<times> disk \<Rightarrow> CDBF \<times> disk" where
  "write_file off bs s = (case s of (c, d) \<Rightarrow>
     case m_handle c of None \<Rightarrow> s
     | Some name \<Rightarrow> (c, d(name := map_option (write_at off bs) (d name))))"

definition GetRecordNum :: "CDBF \<times> disk \<Rightarrow> CDBF" where
  "GetRecordNum s =
     (fst s)\<lparr>recInfo := (recInfo (fst s))\<lparr>rec_num := (case contents s of None \<Rightarrow> 0 | Some f \<Rightarrow> le_value (read_at 4 4 f))\<rparr>\<rparr>"

definition AddNewRecord :: "CDBF \<times> disk \<Rightarrow> (int \<times> CDBF \<times> disk) option" where
  "AddNewRecord s = (case s of (c, d) \<Rightarrow>
     let c1 = GetRecordNum (c\<lparr>recInfo := (recInfo c)\<lparr>rec_data := blank_record\<rparr>\<rparr>, d);
         r = recInfo c1;
         c2 = c1\<lparr>m_nCurrOffset := m_nRecBeginOffset c1 + rec_num r * rec_size r\<rparr> in
     if 2048 < rec_size r then None
     else if m_handle c2 = None then Some (-1, c2, d)
     else
       case write_file 4 (le_bytes 4 (rec_num r + 1))
              (write_file (m_nCurrOffset c2) (take (rec_size r) (rec_data r)) (c2, d)) of
         (c3, d3) \<Rightarrow> Some (int (rec_num r + 1), c3\<lparr>recInfo := r\<lparr>rec_num := rec_num r + 1\<rparr>\<rparr>, d3))"

definition GoToRec :: "int \<Rightarrow> CDBF \<times> disk \<Rightarrow> int \<times> CDBF" where
  "GoToRec recNo s =
     (let c1 = GetRecordNum s; r = recInfo c1 in
      if int (rec_num r) < recNo then (-1, c1)
      else
        let off = nat (int (m_nRecBeginOffset c1) + (recNo - 1) * int (rec_size r));
            got = (case contents s of None \<Rightarrow> [] | Some f \<Rightarrow> read_at off (rec_size r) f) in
        (0, c1\<lparr>m_nCurrRecNo := nat recNo, m_nCurrOffset := off,
              recInfo := r\<lparr>rec_data := got @ drop (length got) (rec_data r)\<rparr>\<rparr>))"

definition ModifyFileDate :: "'d platform \<Rightarrow> CDBF \<times> disk \<Rightarrow> CDBF \<times> disk" where
  "ModifyFileDate p s = (if p_win32 p then write_file 1 (p_today p) s else s)"

definition UpdateRecord :: "'d platform \<Rightarrow> CDBF \<times> disk \<Rightarrow> int \<times> CDBF \<times> disk" where
  "UpdateRecord p s =
     (let c = fst s; r = recInfo c in
      if m_handle c = None then (-1, s)
      else
        let s1 = write_file (m_nCurrOffset c) (take (rec_size r) (rec_data r)) s;
            s2 = (if m_nCurrRecNo c = rec_num r
                  then write_file (m_nRecBeginOffset c + rec_num r * rec_size r) [CHR 0x1A] s1 else s1)
        in (0, ModifyFileDate p s2))"

section \<open>Fields\<close>

definition lower :: "char \<Rightarrow> char" where
  "lower c = (if 65 \<le> (of_char c :: nat) \<and> (of_char c :: nat) \<le> 90 then char_of (of_char c + 32 :: nat) else c)"

definition same_name :: "string \<Rightarrow> string \<Rightarrow> bool" where
  "same_name a b \<longleftrightarrow> map lower (c_str a) = map lower (c_str b)"

definition FindFld :: "string \<Rightarrow> FIELD_INFO list \<Rightarrow> FIELD_INFO option" where
  "FindFld name fs = find (\<lambda>f. same_name (fi_name f) name) fs"

text \<open>
  \<open>FillFldValue\<close>: the value is printed into a buffer of \<open>buffer\<close> bytes, at least as wide as the
  field, and the first bytes of it are copied into the record.
\<close>

definition fill_field :: "nat \<Rightarrow> (FIELD_INFO \<Rightarrow> string) \<Rightarrow> string \<Rightarrow> CDBF \<Rightarrow> (int \<times> CDBF) option" where
  "fill_field buffer print name c =
     (case FindFld name (fld_info c) of
        None \<Rightarrow> Some (-1, c)
      | Some f \<Rightarrow>
          let t = print f in
          if buffer \<le> length t \<or> 2048 < 1 + fi_offset f + fi_width f then None
          else Some (0, c\<lparr>recInfo := (recInfo c)\<lparr>rec_data := write_at (1 + fi_offset f) (take (fi_width f) t) (rec_data (recInfo c))\<rparr>\<rparr>))"

definition pad_right :: "nat \<Rightarrow> string \<Rightarrow> string" where
  "pad_right n t = t @ replicate (n - length t) (CHR '' '')"

definition pad_left :: "nat \<Rightarrow> string \<Rightarrow> string" where
  "pad_left n t = replicate (n - length t) (CHR '' '') @ t"

definition FillFldValue_str :: "string \<Rightarrow> string \<Rightarrow> CDBF \<Rightarrow> (int \<times> CDBF) option" where
  "FillFldValue_str name v = fill_field 255 (\<lambda>f. pad_right (fi_width f) (c_str v)) name"

definition FillFldValue_long :: "string \<Rightarrow> int \<Rightarrow> CDBF \<Rightarrow> (int \<times> CDBF) option" where
  "FillFldValue_long name v = fill_field 256 (\<lambda>f. pad_left (fi_width f) (signed_decimal v)) name"

definition FillFldValue_ulong :: "'d platform \<Rightarrow> string \<Rightarrow> int \<Rightarrow> CDBF \<Rightarrow> (int \<times> CDBF) option" where
  "FillFldValue_ulong p name v =
     FillFldValue_long name (if v < 2 ^ (8 * long_size p - 1) then v else v - 2 ^ (8 * long_size p))"

definition FillFldValue_double :: "'d platform \<Rightarrow> string \<Rightarrow> 'd \<Rightarrow> CDBF \<Rightarrow> (int \<times> CDBF) option" where
  "FillFldValue_double p name v = fill_field 256 (\<lambda>f. pad_left (fi_width f) (p_printf p (fi_width f) (fi_dec f) v)) name"

definition GetFldValue_str :: "string \<Rightarrow> CDBF \<Rightarrow> string option" where
  "GetFldValue_str name c =
     map_option (\<lambda>f. Alltrim (c_str (read_at (fi_offset f + 1) (fi_width f) (rec_data (recInfo c))))) (FindFld name (fld_info c))"

definition GetFldValue_double :: "'d platform \<Rightarrow> string \<Rightarrow> CDBF \<Rightarrow> 'd option" where
  "GetFldValue_double p name c =
     map_option (\<lambda>f. let t = Alltrim (c_str (read_at (fi_offset f + 1) (fi_width f) (rec_data (recInfo c)))) in
        w_atof (p_ops p) (if take 2 t = ''-.'' then ''0'' else t)) (FindFld name (fld_info c))"

section \<open>The writer\<close>

record TgwDBFOperHelper =
  m_pDBF :: CDBF
  m_lRecNoNow :: int
  m_lTotalNum :: int

definition TgwDBFOperHelper_new :: TgwDBFOperHelper where
  "TgwDBFOperHelper_new = \<lparr>m_pDBF = CDBF_new, m_lRecNoNow = -1, m_lTotalNum = 0\<rparr>"

fun add_fields :: "ColumnSettingInDBF list \<Rightarrow> CDBF \<Rightarrow> int \<times> CDBF" where
  "add_fields [] c = (0, c)"
| "add_fields (s # ss) c =
     (case AddField (col_strName s) (col_cType s) (col_uWidth s) (col_uDecWidth s) c of
        (iRes, c1) \<Rightarrow> if iRes = -1 then (-1, c1) else add_fields ss c1)"

definition Dbf_Create ::
  "'d platform \<Rightarrow> string \<Rightarrow> ColumnSettingInDBF list \<Rightarrow> TgwDBFOperHelper \<times> disk \<Rightarrow> int \<times> TgwDBFOperHelper \<times> disk" where
  "Dbf_Create p name cols s = (case s of (h, d) \<Rightarrow>
     if name = [] then (-1, h, d)
     else case add_fields cols (m_pDBF h) of (iRes, c1) \<Rightarrow>
       if iRes \<noteq> 0 then (-1, h\<lparr>m_pDBF := c1\<rparr>, d)
       else case CDBF_Create p name (c1, d) of (iRes, c2, d2) \<Rightarrow>
         (if iRes \<noteq> 0 then -1 else 0, h\<lparr>m_pDBF := c2\<rparr>, d2))"

definition Dbf_Open :: "string \<Rightarrow> TgwDBFOperHelper \<times> disk \<Rightarrow> int \<times> TgwDBFOperHelper \<times> disk" where
  "Dbf_Open name s = (case s of (h, d) \<Rightarrow>
     if name = [] then (-1, h, d)
     else if d name = None then (-1, h, d)
     else case CDBF_Open name (m_pDBF h, d) of (iRes, c1) \<Rightarrow>
       (if iRes \<noteq> 0 then -1 else 0, h\<lparr>m_pDBF := c1\<rparr>, d))"

definition Dbf_Close :: "TgwDBFOperHelper \<Rightarrow> TgwDBFOperHelper" where
  "Dbf_Close h = h\<lparr>m_pDBF := CDBF_Close (m_pDBF h)\<rparr>"

definition fill_value :: "'d platform \<Rightarrow> string \<Rightarrow> 'd DataInRow \<Rightarrow> CDBF \<Rightarrow> (int \<times> CDBF) option" where
  "fill_value p name v c =
     (if d_iType v = 0 \<or> d_iType v = 4 then FillFldValue_str name (d_strValue v) c
      else if d_iType v = 1 then FillFldValue_long name (d_lValue v) c
      else if d_iType v = 2 then FillFldValue_ulong p name (d_ulValue v) c
      else if d_iType v = 3 then FillFldValue_double p name (d_dValue v) c
      else Some (-1, c))"

fun fill_values :: "'d platform \<Rightarrow> (string, 'd DataInRow) omap \<Rightarrow> CDBF \<Rightarrow> (int \<times> CDBF) option" where
  "fill_values p [] c = Some (0, c)"
| "fill_values p ((name, v) # vs) c =
     (case fill_value p name v c of
        None \<Rightarrow> None
      | Some (iRes, c1) \<Rightarrow> if iRes = -1 then Some (-1, c1) else fill_values p vs c1)"

definition Dbf_Append ::
  "'d platform \<Rightarrow> (string, 'd DataInRow) omap \<Rightarrow> TgwDBFOperHelper \<times> disk \<Rightarrow> (int \<times> TgwDBFOperHelper \<times> disk) option" where
  "Dbf_Append p vs s = (case s of (h, d) \<Rightarrow>
     case AddNewRecord (m_pDBF h, d) of
       None \<Rightarrow> None
     | Some (recno, c1, d1) \<Rightarrow>
         let h1 = h\<lparr>m_pDBF := c1, m_lRecNoNow := recno\<rparr> in
         if recno = -1 then Some (-1, h1, d1)
         else case GoToRec recno (c1, d1) of (iRes, c2) \<Rightarrow>
           if iRes = -1 then Some (-1, h1\<lparr>m_pDBF := c2\<rparr>, d1)
           else case fill_values p vs c2 of
             None \<Rightarrow> None
           | Some (iRes, c3) \<Rightarrow>
               if iRes = -1 then Some (-1, h1\<lparr>m_pDBF := c3\<rparr>, d1)
               else case UpdateRecord p (c3, d1) of (iRes, c4, d4) \<Rightarrow>
                 if iRes = -1 then Some (-1, h1\<lparr>m_pDBF := c4\<rparr>, d4)
                 else Some (0, h1\<lparr>m_pDBF := c4, m_lTotalNum := m_lTotalNum h1 + 1\<rparr>, d4))"

text \<open>
  \<open>Read\<close>: the next record, one value for each column of the schema; a value that is already in the
  map stays.  The result of \<open>ReadRecord\<close> is not looked at.
\<close>

definition GoTo :: "int \<Rightarrow> CDBF \<Rightarrow> int \<times> CDBF" where
  "GoTo recNo c =
     (let r = recInfo c; off = nat (int (m_nRecBeginOffset c) + (recNo - 1) * int (rec_size r));
          c1 = c\<lparr>m_nCurrOffset := off\<rparr> in
      if m_nRecBeginOffset c + rec_num r * rec_size r \<le> off \<or> off < m_nRecBeginOffset c then (-1, c1)
      else (0, c1\<lparr>m_nCurrRecNo := nat recNo\<rparr>))"

definition ReadRecord :: "int \<Rightarrow> CDBF \<times> disk \<Rightarrow> int \<times> CDBF" where
  "ReadRecord recNo s =
     (let c1 = GetRecordNum s in
      if recNo < 1 then (-1, fst s)
      else if int (rec_num (recInfo c1)) < recNo then (-1, c1)
      else case GoTo recNo c1 of (nRc, c2) \<Rightarrow>
        if nRc = -1 then (-1, c2)
        else
          let got = (case contents s of None \<Rightarrow> [] | Some f \<Rightarrow> read_at (m_nCurrOffset c2) (rec_size (recInfo c2)) f) in
          (0, c2\<lparr>m_nCurrRecNo := nat recNo, recInfo := (recInfo c2)\<lparr>rec_data := got @ drop (length got) (rec_data (recInfo c2))\<rparr>\<rparr>))"

definition read_column :: "'d platform \<Rightarrow> CDBF \<Rightarrow> ColumnSettingInDBF \<Rightarrow> 'd DataInRow \<Rightarrow> 'd DataInRow option" where
  "read_column p c col d =
     (if col_cType col = CHR ''C''
      then map_option (\<lambda>t. d\<lparr>d_iType := 0, d_strValue := t\<rparr>) (GetFldValue_str (col_strName col) c)
      else if col_cType col = CHR ''N''
      then map_option (\<lambda>x. d\<lparr>d_iType := 3, d_dValue := x\<rparr>) (GetFldValue_double p (col_strName col) c)
      else Some \<lparr>d_iType = 0, d_lValue = 0, d_ulValue = 0, d_dValue = w_zero (p_ops p), d_strValue = []\<rparr>)"

fun read_columns ::
  "'d platform \<Rightarrow> CDBF \<Rightarrow> ColumnSettingInDBF list \<Rightarrow> 'd DataInRow \<Rightarrow> (string, 'd DataInRow) omap \<Rightarrow>
   int \<times> (string, 'd DataInRow) omap" where
  "read_columns p c [] d m = (0, m)"
| "read_columns p c (col # cols) d m =
     (case read_column p c col d of
        None \<Rightarrow> (-1, m)
      | Some d1 \<Rightarrow> read_columns p c cols d1
          (if map_of m (col_strName col) = None then omap_put (col_strName col) d1 m else m))"

definition Dbf_Read ::
  "'d platform \<Rightarrow> ColumnSettingInDBF list \<Rightarrow> 'd DataInRow \<Rightarrow> (string, 'd DataInRow) omap \<Rightarrow> TgwDBFOperHelper \<times> disk \<Rightarrow>
   int \<times> (string, 'd DataInRow) omap \<times> TgwDBFOperHelper" where
  "Dbf_Read p cols d m s = (case s of (h, dk) \<Rightarrow>
     let h1 = (if m_lTotalNum h = 0
               then h\<lparr>m_pDBF := GetRecordNum (m_pDBF h, dk), m_lTotalNum := int (rec_num (recInfo (GetRecordNum (m_pDBF h, dk)))),
                      m_lRecNoNow := 0\<rparr>
               else h);
         h2 = h1\<lparr>m_lRecNoNow := m_lRecNoNow h1 + 1\<rparr> in
     if m_lTotalNum h2 < m_lRecNoNow h2 then (1, m, h2)
     else case ReadRecord (m_lRecNoNow h2) (m_pDBF h2, dk) of (_, c1) \<Rightarrow>
       case read_columns p c1 cols d m of (iRes, m1) \<Rightarrow> (iRes, m1, h2\<lparr>m_pDBF := c1\<rparr>))"

section \<open>An open table\<close>

text \<open>
  The record part of a file, what makes an open table usable, and the bytes a value and a row of
  values become.
\<close>

definition record_count :: "string \<Rightarrow> nat" where
  "record_count f = le_value (read_at 4 4 f)"

definition records_of :: "nat \<Rightarrow> nat \<Rightarrow> string \<Rightarrow> string list" where
  "records_of start len f = map (\<lambda>i. read_at (start + i * len) len f) [0..<record_count f]"

definition usable :: "CDBF \<Rightarrow> string \<Rightarrow> string \<Rightarrow> bool" where
  "usable c name f \<longleftrightarrow>
     m_handle c = Some name \<and> 32 \<le> m_nRecBeginOffset c \<and> 1 \<le> rec_size (recInfo c) \<and> rec_size (recInfo c) \<le> 2048 \<and>
     length (rec_data (recInfo c)) = 2048 \<and> m_nRecBeginOffset c + record_count f * rec_size (recInfo c) \<le> length f \<and>
     (\<forall>fi\<in>set (fld_info c). 1 + fi_offset fi + fi_width fi \<le> rec_size (recInfo c))"

definition printed :: "'d platform \<Rightarrow> 'd DataInRow \<Rightarrow> FIELD_INFO \<Rightarrow> string" where
  "printed p v f =
     (if d_iType v = 0 \<or> d_iType v = 4 then pad_right (fi_width f) (c_str (d_strValue v))
      else if d_iType v = 1 then pad_left (fi_width f) (signed_decimal (d_lValue v))
      else if d_iType v = 2 then pad_left (fi_width f) (signed_decimal
        (if d_ulValue v < 2 ^ (8 * long_size p - 1) then d_ulValue v else d_ulValue v - 2 ^ (8 * long_size p)))
      else pad_left (fi_width f) (p_printf p (fi_width f) (fi_dec f) (d_dValue v)))"

definition fits :: "'d platform \<Rightarrow> FIELD_INFO list \<Rightarrow> string \<times> 'd DataInRow \<Rightarrow> bool" where
  "fits p fs e \<longleftrightarrow> (\<exists>f. FindFld (fst e) fs = Some f \<and> d_iType (snd e) \<in> {0, 1, 2, 3, 4} \<and> length (printed p (snd e) f) < 255)"

fun image :: "'d platform \<Rightarrow> FIELD_INFO list \<Rightarrow> (string, 'd DataInRow) omap \<Rightarrow> string \<Rightarrow> string" where
  "image p fs [] r = r"
| "image p fs ((name, v) # vs) r =
     (case FindFld name fs of None \<Rightarrow> image p fs vs r
      | Some f \<Rightarrow> image p fs vs (write_at (1 + fi_offset f) (take (fi_width f) (printed p v f)) r))"

definition row_image :: "'d platform \<Rightarrow> CDBF \<Rightarrow> (string, 'd DataInRow) omap \<Rightarrow> string" where
  "row_image p c vs = image p (fld_info c) vs (replicate (rec_size (recInfo c)) (CHR '' ''))"

lemma FindFld_in: "FindFld name fs = Some f \<Longrightarrow> f \<in> set fs \<and> same_name (fi_name f) name"
  by (auto simp: FindFld_def find_Some_iff)

lemma printed_width: "fi_width f \<le> length (printed p v f)"
  by (auto simp: printed_def pad_right_def pad_left_def)

lemma fill_value_printed:
  assumes "FindFld name (fld_info c) = Some f" "d_iType v \<in> {0, 1, 2, 3, 4}" "length (printed p v f) < 255"
    "1 + fi_offset f + fi_width f \<le> 2048"
  shows "fill_value p name v c = Some (0, c\<lparr>recInfo := (recInfo c)\<lparr>rec_data :=
     write_at (1 + fi_offset f) (take (fi_width f) (printed p v f)) (rec_data (recInfo c))\<rparr>\<rparr>)"
  using assms
  by (auto simp: fill_value_def FillFldValue_str_def FillFldValue_long_def FillFldValue_ulong_def FillFldValue_double_def
      fill_field_def printed_def Let_def)

lemma fill_values_image:
  assumes "\<forall>e\<in>set vs. fits p (fld_info c) e" "\<forall>fi\<in>set (fld_info c). 1 + fi_offset fi + fi_width fi \<le> 2048"
  shows "fill_values p vs c = Some (0, c\<lparr>recInfo := (recInfo c)\<lparr>rec_data := image p (fld_info c) vs (rec_data (recInfo c))\<rparr>\<rparr>)"
  using assms
proof (induction vs arbitrary: c)
  case (Cons e vs)
  obtain name v where e: "e = (name, v)" by (cases e)
  obtain f where f: "FindFld name (fld_info c) = Some f" "d_iType v \<in> {0, 1, 2, 3, 4}" "length (printed p v f) < 255"
    using Cons.prems(1) by (auto simp: e fits_def)
  then have w: "1 + fi_offset f + fi_width f \<le> 2048" using Cons.prems(2) FindFld_in by blast
  let ?c = "c\<lparr>recInfo := (recInfo c)\<lparr>rec_data :=
     write_at (1 + fi_offset f) (take (fi_width f) (printed p v f)) (rec_data (recInfo c))\<rparr>\<rparr>"
  have "fill_values p vs ?c = Some (0, ?c\<lparr>recInfo := (recInfo ?c)\<lparr>rec_data := image p (fld_info ?c) vs (rec_data (recInfo ?c))\<rparr>\<rparr>)"
    by (rule Cons.IH) (use Cons.prems in auto)
  then show ?case by (simp add: e f(1) fill_value_printed [OF f w])
qed simp

lemma length_image:
  assumes "\<forall>fi\<in>set fs. 1 + fi_offset fi + fi_width fi \<le> length r"
  shows "length (image p fs vs r) = length r"
  using assms
proof (induction p fs vs r rule: image.induct)
  case (2 p fs name v vs r)
  show ?case
  proof (cases "FindFld name fs")
    case (Some f)
    then have "1 + fi_offset f + fi_width f \<le> length r" using 2(3) FindFld_in by blast
    then show ?thesis using 2(2) [OF Some] 2(3) by (simp add: Some)
  qed (use 2 in simp)
qed simp

lemma take_write_at: "off + length bs \<le> n \<Longrightarrow> n \<le> length r \<Longrightarrow>
    take n (write_at off bs r) = write_at off bs (take n r)"
proof -
  assume a: "off + length bs \<le> n" "n \<le> length r"
  then have "write_at off bs r = take off r @ bs @ drop (off + length bs) r"
    "write_at off bs (take n r) = take off r @ bs @ take (n - (off + length bs)) (drop (off + length bs) r)"
    by (simp_all add: write_at_def min_absorb1 drop_take)
  moreover have "min (length r) off = off" using a by simp
  ultimately show ?thesis using a(1) by simp
qed

lemma take_image:
  assumes "\<forall>fi\<in>set fs. 1 + fi_offset fi + fi_width fi \<le> n" "n \<le> length r"
  shows "take n (image p fs vs r) = image p fs vs (take n r)"
  using assms
proof (induction p fs vs r rule: image.induct)
  case (2 p fs name v vs r)
  show ?case
  proof (cases "FindFld name fs")
    case (Some f)
    then have "1 + fi_offset f + fi_width f \<le> n" using 2(3) FindFld_in by blast
    then show ?thesis using 2(2) [OF Some] 2(3,4) by (simp add: Some take_write_at)
  qed (use 2 in simp)
qed simp

lemma contents_written [simp]:
  "m_handle c = Some name \<Longrightarrow> d name = Some f \<Longrightarrow>
     write_file off bs (c, d) = (c, d(name \<mapsto> write_at off bs f))"
  by (simp add: write_file_def)

text \<open>The bytes of the file after a record was appended.\<close>

definition appended :: "'d platform \<Rightarrow> CDBF \<Rightarrow> string \<Rightarrow> string \<Rightarrow> string" where
  "appended p c r f =
     (let off = m_nRecBeginOffset c + record_count f * rec_size (recInfo c);
          f1 = write_at 4 (le_bytes 4 (record_count f + 1)) (write_at off (replicate (rec_size (recInfo c)) (CHR '' '')) f);
          f2 = write_at (off + rec_size (recInfo c)) [CHR 0x1A] (write_at off r f1) in
      if p_win32 p then write_at 1 (p_today p) f2 else f2)"

lemma Append_usable:
  assumes u: "usable (m_pDBF h) name f" "d name = Some f" "record_count f + 1 < 2 ^ 32"
    and v: "\<forall>e\<in>set vs. fits p (fld_info (m_pDBF h)) e"
  shows "\<exists>h1. Dbf_Append p vs (h, d) = Some (0, h1, d(name \<mapsto> appended p (m_pDBF h) (row_image p (m_pDBF h) vs) f)) \<and>
     m_handle (m_pDBF h1) = Some name \<and> fld_info (m_pDBF h1) = fld_info (m_pDBF h) \<and>
     m_nRecBeginOffset (m_pDBF h1) = m_nRecBeginOffset (m_pDBF h) \<and>
     rec_size (recInfo (m_pDBF h1)) = rec_size (recInfo (m_pDBF h)) \<and> length (rec_data (recInfo (m_pDBF h1))) = 2048"
proof -
  define c where "c = m_pDBF h"
  define n where "n = record_count f"
  define sz where "sz = rec_size (recInfo c)"
  define off where "off = m_nRecBeginOffset c + n * sz"
  define f1 where "f1 = write_at 4 (le_bytes 4 (n + 1)) (write_at off (replicate sz (CHR '' '')) f)"
  have c: "m_handle c = Some name" "1 \<le> sz" "sz \<le> 2048" "32 \<le> m_nRecBeginOffset c" "off \<le> length f"
    "\<forall>fi\<in>set (fld_info c). 1 + fi_offset fi + fi_width fi \<le> sz"
    using u(1) by (auto simp: usable_def c_def sz_def off_def n_def)
  let ?r = "\<lparr>rec_num = n, rec_size = sz, rec_data = blank_record\<rparr>"
  define c1 where "c1 = c\<lparr>recInfo := ?r\<lparr>rec_num := n + 1\<rparr>, m_nCurrOffset := off\<rparr>"
  define d1 where "d1 = d(name \<mapsto> f1)"
  have add: "AddNewRecord (c, d) = Some (int (n + 1), c1, d1)"
    using c(1-3) u(2)
    by (simp add: c1_def d1_def AddNewRecord_def GetRecordNum_def contents_def Let_def f1_def off_def n_def record_count_def sz_def
        blank_record_def)
  have rn: "read_at 4 4 f1 = le_bytes 4 (Suc n)" by (simp add: f1_def)
  have cnt: "le_value (le_bytes 4 (Suc n)) = Suc n" using u(3) by (simp add: le_value_bytes n_def)
  have reread: "read_at off sz f1 = replicate sz (CHR '' '')"
    using c(4,5) unfolding f1_def by (subst read_above_written) (auto simp: off_def)
  have full: "replicate sz (CHR '' '') @ drop sz blank_record = blank_record"
    using c(3) by (simp add: blank_record_def flip: replicate_add)
  have offs: "nat (int (m_nRecBeginOffset c) + int n * int sz) = off"
    by (simp add: off_def flip: of_nat_mult of_nat_add)
  define c2 where "c2 = c1\<lparr>m_nCurrRecNo := n + 1\<rparr>"
  have go: "GoToRec (int (n + 1)) (c1, d1) = (0, c2)"
    using c(1)
    by (simp add: c2_def c1_def d1_def GoToRec_def GetRecordNum_def contents_def Let_def rn cnt reread full offs del: length_read_at)
  let ?r2 = "\<lparr>rec_num = n + 1, rec_size = sz, rec_data = image p (fld_info c) vs blank_record\<rparr>"
  define c3 where "c3 = c2\<lparr>recInfo := ?r2\<rparr>"
  have fill: "fill_values p vs c2 = Some (0, c3)"
    using fill_values_image [of vs p c2] v c(3,6) by (fastforce simp: c_def c3_def c2_def c1_def)
  have img: "take sz (image p (fld_info c) vs blank_record) = row_image p c vs"
    using c(3,6) by (subst take_image [where n = sz]) (simp_all add: blank_record_def row_image_def sz_def)
  have len: "length (image p (fld_info c) vs blank_record) = 2048"
    using c(3,6) by (subst length_image) (auto simp: blank_record_def)
  have upd: "UpdateRecord p (c3, d1) = (0, c3, d(name \<mapsto> appended p c (row_image p c vs) f))"
    using c(1)
    by (simp add: c3_def c2_def c1_def d1_def UpdateRecord_def Let_def img [unfolded sz_def] ModifyFileDate_def appended_def f1_def off_def n_def sz_def algebra_simps)
  have "Dbf_Append p vs (h, d) = Some (0, h\<lparr>m_pDBF := c3, m_lRecNoNow := int (n + 1), m_lTotalNum := m_lTotalNum h + 1\<rparr>,
      d(name \<mapsto> appended p c (row_image p c vs) f))"
    using add go fill upd by (simp add: Dbf_Append_def c_def Let_def)
  then show ?thesis
    using c(1) len
    by (intro exI [of _ "h\<lparr>m_pDBF := c3, m_lRecNoNow := int (n + 1), m_lTotalNum := m_lTotalNum h + 1\<rparr>"])
      (simp add: c3_def c2_def c1_def c_def sz_def)
qed

lemma appended_reads:
  assumes u: "usable c name f" "length r = rec_size (recInfo c)" "length (p_today p) = 3"
  defines "off \<equiv> m_nRecBeginOffset c + record_count f * rec_size (recInfo c)"
  shows "8 \<le> k \<Longrightarrow> k + m \<le> off \<Longrightarrow> read_at k m (appended p c r f) = read_at k m f"
    and "read_at 4 4 (appended p c r f) = le_bytes 4 (record_count f + 1)"
    and "read_at off (rec_size (recInfo c)) (appended p c r f) = r"
    and "off + rec_size (recInfo c) \<le> length (appended p c r f)"
proof -
  define sz where "sz = rec_size (recInfo c)"
  define f1 where "f1 = write_at off (replicate sz (CHR '' '')) f"
  define f2 where "f2 = write_at 4 (le_bytes 4 (record_count f + 1)) f1"
  define f3 where "f3 = write_at off r f2"
  define f4 where "f4 = write_at (off + sz) [CHR 0x1A] f3"
  have o: "32 \<le> off" "off \<le> length f" using u(1) by (auto simp: usable_def off_def)
  have ap: "appended p c r f = (if p_win32 p then write_at 1 (p_today p) f4 else f4)"
    by (simp add: appended_def Let_def f4_def f3_def f2_def f1_def off_def sz_def)
  have l: "length f1 = max (length f) (off + sz)" "length f2 = length f1" "length f3 = length f1"
    "length f4 = max (length f) (off + sz + 1)"
    using o u(2) by (auto simp: f4_def f3_def f2_def f1_def sz_def)
  have top: "read_at k m (appended p c r f) = read_at k m f4" if "4 \<le> k" for k m
    using that l o u(3) by (auto simp: ap intro!: read_above_written)
  show "read_at k m (appended p c r f) = read_at k m f" if "8 \<le> k" "k + m \<le> off"
  proof -
    have "read_at k m f4 = read_at k m f3" unfolding f4_def using that l o by (intro read_below_written) auto
    also have "\<dots> = read_at k m f2" unfolding f3_def using that l o by (intro read_below_written) auto
    also have "\<dots> = read_at k m f1" unfolding f2_def using that l o by (intro read_above_written) auto
    also have "\<dots> = read_at k m f" unfolding f1_def using that o by (intro read_below_written) auto
    finally show ?thesis using that by (simp add: top)
  qed
  have "read_at 4 4 f4 = read_at 4 4 f3" unfolding f4_def using l o by (intro read_below_written) auto
  also have "\<dots> = read_at 4 4 f2" unfolding f3_def using l o by (intro read_below_written) auto
  also have "\<dots> = le_bytes 4 (record_count f + 1)" by (simp add: f2_def)
  finally show "read_at 4 4 (appended p c r f) = le_bytes 4 (record_count f + 1)" by (simp add: top)
  have "read_at off sz f4 = read_at off sz f3" unfolding f4_def using l o by (intro read_below_written) auto
  also have "\<dots> = r" using u(2) by (simp add: f3_def sz_def)
  finally show "read_at off (rec_size (recInfo c)) (appended p c r f) = r" using o by (simp add: top sz_def)
  show "off + rec_size (recInfo c) \<le> length (appended p c r f)" using l by (auto simp: ap sz_def)
qed

lemma appended_count:
  assumes "usable c name f" "length r = rec_size (recInfo c)" "length (p_today p) = 3" "record_count f + 1 < 2 ^ 32"
  shows "record_count (appended p c r f) = record_count f + 1"
  using appended_reads(2) [OF assms(1-3)] assms(4) by (simp add: record_count_def le_value_bytes)

lemma appended_records:
  assumes u: "usable c name f" "length r = rec_size (recInfo c)" "length (p_today p) = 3" "record_count f + 1 < 2 ^ 32"
  defines "start \<equiv> m_nRecBeginOffset c" and "len \<equiv> rec_size (recInfo c)"
  shows "records_of start len (appended p c r f) = records_of start len f @ [r]"
proof -
  have start: "32 \<le> start" using u(1) by (simp add: usable_def start_def)
  have "read_at (start + i * len) len (appended p c r f) = read_at (start + i * len) len f" if "i < record_count f" for i
  proof (rule appended_reads(1) [OF u(1-3)])
    have "i * len + len \<le> record_count f * len" using that by (metis Suc_leI mult_Suc mult_le_mono1 add.commute)
    then show "start + i * len + len \<le> m_nRecBeginOffset c + record_count f * rec_size (recInfo c)"
      by (simp add: start_def len_def)
  qed (use start in simp)
  moreover have "read_at (start + record_count f * len) len (appended p c r f) = r"
    using appended_reads(3) [OF u(1-3)] by (simp add: start_def len_def)
  ultimately show ?thesis by (simp add: records_of_def appended_count [OF u])
qed

lemma length_row_image: "usable c name f \<Longrightarrow> length (row_image p c vs) = rec_size (recInfo c)"
  by (subst row_image_def, subst length_image) (auto simp: usable_def)

text \<open>Appending to a usable table adds one record, keeps the others, and leaves the table usable.\<close>

lemma row_image_cong: "fld_info c1 = fld_info c \<Longrightarrow> rec_size (recInfo c1) = rec_size (recInfo c) \<Longrightarrow> row_image p c1 = row_image p c"
  by (auto simp: row_image_def fun_eq_iff)

lemma Append_adds:
  assumes "usable (m_pDBF h) name f" "d name = Some f" "record_count f + 1 < 2 ^ 32" "length (p_today p) = 3"
    "\<forall>e\<in>set vs. fits p (fld_info (m_pDBF h)) e"
  obtains h1 f1 where "Dbf_Append p vs (h, d) = Some (0, h1, d(name \<mapsto> f1))" "usable (m_pDBF h1) name f1"
    "record_count f1 = record_count f + 1" "f1 = appended p (m_pDBF h) (row_image p (m_pDBF h) vs) f"
    "records_of (m_nRecBeginOffset (m_pDBF h)) (rec_size (recInfo (m_pDBF h))) f1 =
     records_of (m_nRecBeginOffset (m_pDBF h)) (rec_size (recInfo (m_pDBF h))) f @ [row_image p (m_pDBF h) vs]"
    "fld_info (m_pDBF h1) = fld_info (m_pDBF h)" "m_nRecBeginOffset (m_pDBF h1) = m_nRecBeginOffset (m_pDBF h)"
    "rec_size (recInfo (m_pDBF h1)) = rec_size (recInfo (m_pDBF h))"
proof -
  let ?c = "m_pDBF h"
  let ?r = "row_image p ?c vs"
  let ?f1 = "appended p ?c ?r f"
  note len = length_row_image [OF assms(1), of p vs]
  obtain h1 where h1: "Dbf_Append p vs (h, d) = Some (0, h1, d(name \<mapsto> ?f1))" "m_handle (m_pDBF h1) = Some name"
    "fld_info (m_pDBF h1) = fld_info ?c" "m_nRecBeginOffset (m_pDBF h1) = m_nRecBeginOffset ?c"
    "rec_size (recInfo (m_pDBF h1)) = rec_size (recInfo ?c)" "length (rec_data (recInfo (m_pDBF h1))) = 2048"
    using Append_usable [of h name f d vs p] assms(1-3,5) by blast
  note n = appended_count [OF assms(1) len assms(4,3)]
  have "usable (m_pDBF h1) name ?f1"
    using assms(1) h1(2-6) n appended_reads(4) [OF assms(1) len assms(4)] by (auto simp: usable_def algebra_simps)
  then show thesis
    using h1 n appended_records [OF assms(1) len assms(4,3)] by (intro that [of h1 ?f1]) auto
qed

fun append_all :: "'d platform \<Rightarrow> (string, 'd DataInRow) omap list \<Rightarrow> TgwDBFOperHelper \<times> disk \<Rightarrow> (int \<times> TgwDBFOperHelper \<times> disk) option" where
  "append_all p [] s = Some (0, s)"
| "append_all p (vs # rows) s =
     (case Dbf_Append p vs s of
        None \<Rightarrow> None
      | Some (iRes, s1) \<Rightarrow> if iRes \<noteq> 0 then Some (-1, s1) else append_all p rows s1)"

lemma append_all_adds:
  assumes "usable (m_pDBF h) name f" "d name = Some f" "record_count f + length rows < 2 ^ 32" "length (p_today p) = 3"
    "\<forall>vs\<in>set rows. \<forall>e\<in>set vs. fits p (fld_info (m_pDBF h)) e"
  shows "\<exists>h1 f1. append_all p rows (h, d) = Some (0, h1, d(name \<mapsto> f1)) \<and> usable (m_pDBF h1) name f1 \<and>
    record_count f1 = record_count f + length rows \<and>
    records_of (m_nRecBeginOffset (m_pDBF h)) (rec_size (recInfo (m_pDBF h))) f1 =
     records_of (m_nRecBeginOffset (m_pDBF h)) (rec_size (recInfo (m_pDBF h))) f @ map (row_image p (m_pDBF h)) rows \<and>
    fld_info (m_pDBF h1) = fld_info (m_pDBF h) \<and> m_nRecBeginOffset (m_pDBF h1) = m_nRecBeginOffset (m_pDBF h) \<and>
    rec_size (recInfo (m_pDBF h1)) = rec_size (recInfo (m_pDBF h)) \<and>
    (\<forall>k m. 8 \<le> k \<longrightarrow> k + m \<le> m_nRecBeginOffset (m_pDBF h) \<longrightarrow> read_at k m f1 = read_at k m f)"
  using assms
proof (induction rows arbitrary: h d f)
  case Nil
  then show ?case by (intro exI [of _ h] exI [of _ f]) (simp add: fun_upd_idem)
next
  case (Cons vs rows)
  obtain h1 f1 where h1: "Dbf_Append p vs (h, d) = Some (0, h1, d(name \<mapsto> f1))" "usable (m_pDBF h1) name f1"
    "record_count f1 = record_count f + 1" "f1 = appended p (m_pDBF h) (row_image p (m_pDBF h) vs) f"
    "records_of (m_nRecBeginOffset (m_pDBF h)) (rec_size (recInfo (m_pDBF h))) f1 =
     records_of (m_nRecBeginOffset (m_pDBF h)) (rec_size (recInfo (m_pDBF h))) f @ [row_image p (m_pDBF h) vs]"
    "fld_info (m_pDBF h1) = fld_info (m_pDBF h)" "m_nRecBeginOffset (m_pDBF h1) = m_nRecBeginOffset (m_pDBF h)"
    "rec_size (recInfo (m_pDBF h1)) = rec_size (recInfo (m_pDBF h))"
    by (rule Append_adds [of h name f d p vs]) (use Cons.prems in auto)
  have keep: "read_at k m f1 = read_at k m f" if "8 \<le> k" "k + m \<le> m_nRecBeginOffset (m_pDBF h)" for k m
    unfolding h1(4)
    by (rule appended_reads(1) [OF Cons.prems(1) length_row_image [OF Cons.prems(1)] Cons.prems(4)]) (use that in auto)
  have here: "(d(name \<mapsto> f1)) name = Some f1" and room: "record_count f1 + length rows < 2 ^ 32"
    and fit: "\<forall>vs\<in>set rows. \<forall>e\<in>set vs. fits p (fld_info (m_pDBF h1)) e"
    using Cons.prems h1(3,6) by auto
  obtain h2 f2 where h2: "append_all p rows (h1, d(name \<mapsto> f1)) = Some (0, h2, (d(name \<mapsto> f1))(name \<mapsto> f2))"
    "usable (m_pDBF h2) name f2" "record_count f2 = record_count f1 + length rows"
    "records_of (m_nRecBeginOffset (m_pDBF h1)) (rec_size (recInfo (m_pDBF h1))) f2 =
     records_of (m_nRecBeginOffset (m_pDBF h1)) (rec_size (recInfo (m_pDBF h1))) f1 @ map (row_image p (m_pDBF h1)) rows"
    "fld_info (m_pDBF h2) = fld_info (m_pDBF h1)" "m_nRecBeginOffset (m_pDBF h2) = m_nRecBeginOffset (m_pDBF h1)"
    "rec_size (recInfo (m_pDBF h2)) = rec_size (recInfo (m_pDBF h1))"
    "\<forall>k m. 8 \<le> k \<longrightarrow> k + m \<le> m_nRecBeginOffset (m_pDBF h1) \<longrightarrow> read_at k m f2 = read_at k m f1"
    using Cons.IH [of h1 f1 "d(name \<mapsto> f1)", OF h1(2) here room Cons.prems(4) fit] by blast
  show ?case
    using h1(1,3,5-8) h2 keep
    by (intro exI [of _ h2] exI [of _ f2]) (auto simp: row_image_cong [OF h1(6,8)])
qed

section \<open>The header\<close>

definition column_ok :: "ColumnSettingInDBF \<Rightarrow> bool" where
  "column_ok s \<longleftrightarrow> col_cType s \<in> {CHR ''C'', CHR ''N'', CHR ''D''} \<and> length (col_strName s) \<le> 10 \<and>
     c_str (col_strName s) = col_strName s \<and> Alltrim (col_strName s) = col_strName s \<and>
     col_uWidth s < 128 \<and> col_uDecWidth s < 128"

definition record_width :: "ColumnSettingInDBF list \<Rightarrow> nat" where
  "record_width cols = 1 + sum_list (map col_uWidth cols)"

definition schema_ok :: "ColumnSettingInDBF list \<Rightarrow> bool" where
  "schema_ok cols \<longleftrightarrow> cols \<noteq> [] \<and> length cols \<le> 128 \<and> list_all column_ok cols \<and> record_width cols \<le> 2048"

fun layout :: "nat \<Rightarrow> ColumnSettingInDBF list \<Rightarrow> FIELD_INFO list" where
  "layout off [] = []"
| "layout off (s # ss) =
     \<lparr>fi_name = col_strName s, fi_type = col_cType s, fi_offset = off, fi_width = col_uWidth s, fi_dec = col_uDecWidth s\<rparr> #
     layout (off + col_uWidth s) ss"

fun new_fields :: "int \<Rightarrow> ColumnSettingInDBF list \<Rightarrow> DBF_FIELD_INFO list" where
  "new_fields b [] = []"
| "new_fields b (s # ss) =
     \<lparr>nf_fieldName = take 10 (c_str (col_strName s)) @ replicate (10 - length (take 10 (c_str (col_strName s)))) (CHR 0x00),
      nf_type = col_cType s, nf_beginOffset = b, nf_width = word_of_nat (col_uWidth s), nf_decWidth = word_of_nat (col_uDecWidth s)\<rparr> #
     new_fields (b + sint (word_of_nat (col_uWidth s) :: u8)) ss"

lemma length_new_fields [simp]: "length (new_fields b cols) = length cols"
  by (induction b cols rule: new_fields.induct) auto

lemma sint_small: "n < 128 \<Longrightarrow> sint (word_of_nat n :: u8) = int n"
  using sint_sbintrunc' [of "int n", where 'a = 8] by (simp add: signed_take_bit_int_eq_self)

definition next_begin :: "CDBF \<Rightarrow> int" where
  "next_begin c = (if m_pField c = [] then 1
     else nf_beginOffset (last (m_pField c)) + sint (nf_width (last (m_pField c))))"

lemma AddField_new:
  assumes "col_cType s \<in> {CHR ''C'', CHR ''N'', CHR ''D''}" "length (m_pField c) < 255"
  shows "AddField (col_strName s) (col_cType s) (col_uWidth s) (col_uDecWidth s) c =
     (0, c\<lparr>m_pField := m_pField c @ new_fields (next_begin c) [s]\<rparr>)"
  using assms by (simp add: AddField_def Let_def next_begin_def)

lemma next_begin_added: "next_begin (c\<lparr>m_pField := fs @ new_fields b [s]\<rparr>) = b + sint (word_of_nat (col_uWidth s) :: u8)"
  by (simp add: next_begin_def)

lemma add_fields_new:
  assumes "list_all (\<lambda>s. col_cType s \<in> {CHR ''C'', CHR ''N'', CHR ''D''}) cols" "length (m_pField c) + length cols \<le> 255"
  shows "add_fields cols c = (0, c\<lparr>m_pField := m_pField c @ new_fields (next_begin c) cols\<rparr>)"
  using assms
proof (induction cols arbitrary: c)
  case (Cons s ss)
  let ?c = "c\<lparr>m_pField := m_pField c @ new_fields (next_begin c) [s]\<rparr>"
  have "AddField (col_strName s) (col_cType s) (col_uWidth s) (col_uDecWidth s) c = (0, ?c)"
    by (rule AddField_new) (use Cons.prems in auto)
  moreover have "add_fields ss ?c = (0, ?c\<lparr>m_pField := m_pField ?c @ new_fields (next_begin ?c) ss\<rparr>)"
    by (rule Cons.IH) (use Cons.prems in auto)
  moreover have "new_fields (next_begin c) (s # ss) = new_fields (next_begin c) [s] @ new_fields (next_begin ?c) ss"
    unfolding next_begin_added by simp
  ultimately show ?case by (simp del: new_fields.simps)
qed simp

text \<open>What \<open>Create\<close> writes on Windows, where a structure has 32 bytes, is what \<open>Open\<close> reads.\<close>

lemma length_field_bytes: "p_win32 p \<Longrightarrow> length (nf_fieldName nf) = 10 \<Longrightarrow> length (field_bytes p nf) = 32"
  by (simp add: field_bytes_def padding4_def long_size_def)

lemma length_head_bytes: "p_win32 p \<Longrightarrow> length (p_today p) = 3 \<Longrightarrow> length (head_bytes p fs) = 32"
  by (simp add: head_bytes_def padding4_def long_size_def)

lemma nth_field_bytes:
  assumes "p_win32 p" "length (nf_fieldName nf) = 10"
  shows "take 10 (field_bytes p nf) = nf_fieldName nf" "field_bytes p nf ! 11 = nf_type nf"
    "field_bytes p nf ! 16 = byte (nf_width nf)" "field_bytes p nf ! 17 = byte (nf_decWidth nf)"
  using assms by (simp_all add: field_bytes_def padding4_def long_size_def nth_append)

lemma c_str_padded: "c_str s = s \<Longrightarrow> c_str (s @ replicate n (CHR 0x00)) = s"
  by (induction s) (auto simp: c_str_def split: if_splits)

lemma byte_small: "n < 256 \<Longrightarrow> of_char (byte (word_of_nat n)) = n"
  by (simp add: byte_def unat_of_nat)

lemma read_fields_layout:
  assumes "p_win32 p" "length (p_today p) = 3" "todo \<noteq> []" "length todo \<le> n" "list_all column_ok todo"
    "length done_bytes = 32 + 32 * k" "struct = 32 + 32 * (k + length todo) + 1" "length buf = 33"
  shows "read_fields n (32 + 32 * k) off struct buf (done_bytes @ concat (map (field_bytes p) (new_fields b todo)) @ [CHR 0x0D]) =
    layout off todo"
  using assms(3-)
proof (induction todo arbitrary: n k off buf b done_bytes)
  case (Cons s ss)
  obtain m where n: "n = Suc m" using Cons.prems(2) by (cases n) auto
  have s: "column_ok s" using Cons.prems(3) by simp
  define nf where "nf = hd (new_fields b [s])"
  define rest where "rest = concat (map (field_bytes p) (new_fields (b + sint (word_of_nat (col_uWidth s) :: u8)) ss)) @ [CHR 0x0D]"
  have nf: "length (nf_fieldName nf) = 10" "c_str (nf_fieldName nf) = col_strName s" "nf_type nf = col_cType s"
    "nf_width nf = word_of_nat (col_uWidth s)" "nf_decWidth nf = word_of_nat (col_uDecWidth s)"
    using s by (simp_all add: nf_def column_ok_def c_str_padded)
  have whole: "done_bytes @ concat (map (field_bytes p) (new_fields b (s # ss))) @ [CHR 0x0D] =
      (done_bytes @ field_bytes p nf) @ rest"
    by (simp add: nf_def rest_def)
  have got: "read_at (32 + 32 * k) 32 ((done_bytes @ field_bytes p nf) @ rest) = field_bytes p nf"
    using Cons.prems(4) length_field_bytes [OF assms(1) nf(1)] by (simp add: read_at_def)
  define buf1 where "buf1 = field_bytes p nf @ drop 32 buf"
  have buf1: "take 10 buf1 = nf_fieldName nf" "buf1 ! 11 = nf_type nf" "buf1 ! 16 = byte (nf_width nf)"
    "buf1 ! 17 = byte (nf_decWidth nf)" "length buf1 = 33"
    using nth_field_bytes [OF assms(1) nf(1)] length_field_bytes [OF assms(1) nf(1)] Cons.prems(6)
    by (simp_all add: buf1_def nth_append)
  have w: "of_char (byte (word_of_nat (col_uWidth s))) = col_uWidth s"
    "of_char (byte (word_of_nat (col_uDecWidth s))) = col_uDecWidth s" "Alltrim (col_strName s) = col_strName s"
    using s by (simp_all add: column_ok_def byte_small)
  have len: "length (field_bytes p nf) = 32" by (rule length_field_bytes [OF assms(1) nf(1)])
  show ?case
  proof (cases "ss = []")
    case True
    then show ?thesis
      using Cons.prems(5) unfolding whole n read_fields.simps(2) Let_def got len buf1_def [symmetric]
      by (simp add: buf1 nf w)
  next
    case False
    have "read_fields m (32 + 32 * Suc k) (off + col_uWidth s) struct buf1 ((done_bytes @ field_bytes p nf) @ rest) =
        layout (off + col_uWidth s) ss"
      unfolding rest_def by (rule Cons.IH) (use False Cons.prems n len buf1(5) in auto)
    moreover have "\<not> int struct - 1 \<le> int (32 + 32 * k + 32)" using False Cons.prems(5) by (cases ss) auto
    ultimately show ?thesis
      unfolding whole n read_fields.simps(2) Let_def got len buf1_def [symmetric]
      by (simp add: buf1 nf w add.commute)
  qed
qed simp

lemma read_fields_cong:
  assumes "\<forall>j. 32 \<le> j \<longrightarrow> j + 32 \<le> 33 + 32 * l \<longrightarrow> read_at j 32 f1 = read_at j 32 f" "k < l"
  shows "read_fields n (32 + 32 * k) off (33 + 32 * l) buf f1 = read_fields n (32 + 32 * k) off (33 + 32 * l) buf f"
  using assms(2)
proof (induction n arbitrary: k off buf)
  case (Suc n)
  have r: "read_at (32 + 32 * k) 32 f1 = read_at (32 + 32 * k) 32 f" using assms(1) Suc.prems by simp
  have "read_fields n (32 + 32 * k + 32) off' (33 + 32 * l) buf' f1 = read_fields n (32 + 32 * k + 32) off' (33 + 32 * l) buf' f"
    if "\<not> int (33 + 32 * l) - 1 \<le> int (32 + 32 * k + 32)" for off' buf'
    using Suc.IH [of "Suc k" off' buf'] that by (simp add: algebra_simps)
  then show ?case unfolding read_fields.simps(2) Let_def r by (auto simp del: length_read_at)
qed simp

text \<open>The files with the header of a schema.\<close>

definition header_size :: "ColumnSettingInDBF list \<Rightarrow> nat" where
  "header_size cols = 33 + 32 * length cols"

definition head_buffer :: "string \<Rightarrow> string" where
  "head_buffer f = read_at 8 2 f @ replicate (33 - length (read_at 8 2 f)) (CHR 0x00)"

definition table_file :: "ColumnSettingInDBF list \<Rightarrow> string \<Rightarrow> bool" where
  "table_file cols f \<longleftrightarrow>
     le_value (read_at 8 2 f) = header_size cols \<and> le_value (read_at 10 2 f) = record_width cols \<and>
     read_fields 128 32 0 (header_size cols) (head_buffer f) f = layout 0 cols \<and>
     header_size cols + record_count f * record_width cols \<le> length f"

definition table_records :: "ColumnSettingInDBF list \<Rightarrow> string \<Rightarrow> string list" where
  "table_records cols = records_of (header_size cols) (record_width cols)"

definition row_bytes :: "'d platform \<Rightarrow> ColumnSettingInDBF list \<Rightarrow> (string, 'd DataInRow) omap \<Rightarrow> string" where
  "row_bytes p cols vs = image p (layout 0 cols) vs (replicate (record_width cols) (CHR '' ''))"

lemma layout_bounds: "fi \<in> set (layout off cols) \<Longrightarrow> fi_offset fi + fi_width fi \<le> off + sum_list (map col_uWidth cols)"
proof (induction off cols rule: layout.induct)
  case (2 off s ss)
  then show ?case by auto
qed simp

lemma sum_new_fields:
  "list_all column_ok cols \<Longrightarrow> (\<Sum>f\<leftarrow>new_fields b cols. sint (nf_width f)) = int (sum_list (map col_uWidth cols))"
  by (induction b cols rule: new_fields.induct) (auto simp: column_ok_def sint_small)

lemma Create_table:
  assumes "p_win32 p" "length (p_today p) = 3" "p_can_create p name" "c_str name \<noteq> []" "schema_ok cols"
    "m_pField (m_pDBF h) = []"
  shows "\<exists>f. Dbf_Create p name cols (h, d) = (0, h, d(name \<mapsto> f)) \<and> table_file cols f \<and> record_count f = 0"
proof -
  define fs where "fs = new_fields 1 cols"
  define f where "f = head_bytes p fs @ concat (map (field_bytes p) fs) @ [CHR 0x0D]"
  have c: "list_all column_ok cols" "cols \<noteq> []" "length cols \<le> 128" "record_width cols \<le> 2048"
    using assms(5) by (auto simp: schema_ok_def)
  have "list_all (\<lambda>s. col_cType s \<in> {CHR ''C'', CHR ''N'', CHR ''D''}) cols"
    using c(1) by (auto simp: list_all_iff column_ok_def)
  then have "add_fields cols (m_pDBF h) = (0, (m_pDBF h)\<lparr>m_pField := fs\<rparr>)"
    using add_fields_new [of cols "m_pDBF h"] c(3) assms(6) by (simp add: fs_def next_begin_def)
  moreover have "fs \<noteq> []" "length fs \<le> 128" using c(2,3) by (auto simp: fs_def simp flip: length_greater_0_conv)
  moreover have "(m_pDBF h)\<lparr>m_pField := []\<rparr> = m_pDBF h" using assms(6) by (cases "m_pDBF h") simp
  moreover have "name \<noteq> []" using assms(4) by (auto simp: c_str_def)
  ultimately have cr: "Dbf_Create p name cols (h, d) = (0, h, d(name \<mapsto> f))"
    using assms(3,4) by (simp add: Dbf_Create_def CDBF_Create_def f_def)
  have hd: "head_bytes p fs = (CHR 0x03 # p_today p) @ le_bytes 4 0 @ le_bytes 2 (header_size cols) @
      le_bytes 2 (record_width cols) @ replicate 20 (CHR 0x00)"
    using assms(1) c(4)
    by (simp add: head_bytes_def padding4_def long_size_def fs_def sum_new_fields [OF c(1)] record_width_def header_size_def
        nat_add_distrib flip: int_Suc)
  have r: "read_at 4 4 f = le_bytes 4 0" "read_at 8 2 f = le_bytes 2 (header_size cols)"
    "read_at 10 2 f = le_bytes 2 (record_width cols)"
    using assms(2) by (simp_all add: f_def hd read_at_def)
  have "record_count f = 0" by (simp add: record_count_def r le_value_bytes)
  moreover have "table_file cols f"
  proof -
    have l: "length f = header_size cols"
    proof -
      have "length (concat (map (field_bytes p) (new_fields b cs))) = 32 * length cs" if "list_all column_ok cs" for b cs
        using that by (induction b cs rule: new_fields.induct)
          (auto simp: column_ok_def length_field_bytes [OF assms(1)])
      then show ?thesis using length_head_bytes [OF assms(1,2)] c(1) by (simp add: f_def header_size_def fs_def)
    qed
    have "read_fields 128 (32 + 32 * 0) 0 (header_size cols) (head_buffer f) f = layout 0 cols"
      unfolding f_def fs_def
      by (rule read_fields_layout)
        (use assms(1,2) c length_head_bytes [OF assms(1,2)] in \<open>simp_all add: header_size_def head_buffer_def\<close>)
    then show ?thesis
      using c(3,4) l \<open>record_count f = 0\<close> by (simp add: table_file_def r le_value_bytes header_size_def)
  qed
  ultimately show ?thesis using cr by blast
qed

lemma Open_table:
  assumes "table_file cols f" "d name = Some f" "name \<noteq> []" "schema_ok cols" "m_handle (m_pDBF h) = None"
    "length (rec_data (recInfo (m_pDBF h))) = 2048"
  shows "\<exists>h1. Dbf_Open name (h, d) = (0, h1, d) \<and> usable (m_pDBF h1) name f \<and> fld_info (m_pDBF h1) = layout 0 cols \<and>
    m_nRecBeginOffset (m_pDBF h1) = header_size cols \<and> rec_size (recInfo (m_pDBF h1)) = record_width cols \<and>
    m_lTotalNum h1 = m_lTotalNum h"
proof -
  obtain c1 where o: "CDBF_Open name (m_pDBF h, d) = (0, c1)" "m_handle c1 = Some name" "fld_info c1 = layout 0 cols"
    "m_nRecBeginOffset c1 = header_size cols" "rec_size (recInfo c1) = record_width cols" "length (rec_data (recInfo c1)) = 2048"
    using assms(1,2,5,6) by (simp add: CDBF_Open_def table_file_def Let_def head_buffer_def)
  have "\<forall>fi\<in>set (layout 0 cols). 1 + fi_offset fi + fi_width fi \<le> record_width cols"
    using layout_bounds [of _ 0 cols] by (fastforce simp: record_width_def)
  then have "usable c1 name f"
    using o assms(1,4) by (auto simp: usable_def table_file_def schema_ok_def header_size_def record_width_def)
  then show ?thesis
    using o assms(2,3) by (intro exI [of _ "h\<lparr>m_pDBF := c1\<rparr>"]) (simp add: Dbf_Open_def)
qed

lemma table_file_kept:
  assumes "table_file cols f" "cols \<noteq> []" "header_size cols + record_count f1 * record_width cols \<le> length f1"
    "\<forall>k m. 8 \<le> k \<longrightarrow> k + m \<le> header_size cols \<longrightarrow> read_at k m f1 = read_at k m f"
  shows "table_file cols f1"
proof -
  have "read_at 8 2 f1 = read_at 8 2 f" "read_at 10 2 f1 = read_at 10 2 f"
    using assms(4) by (simp_all add: header_size_def)
  moreover have "read_fields 128 (32 + 32 * 0) 0 (33 + 32 * length cols) (head_buffer f1) f1 =
      read_fields 128 (32 + 32 * 0) 0 (33 + 32 * length cols) (head_buffer f1) f"
    by (rule read_fields_cong) (use assms(2,4) in \<open>auto simp: header_size_def\<close>)
  ultimately show ?thesis
    using assms(1,3) by (simp add: table_file_def header_size_def head_buffer_def)
qed

text \<open>
  The way every statement is written: the table is created if there is no such file, opened, the rows
  are appended one by one, and it is closed.
\<close>

definition open_table ::
  "'d platform \<Rightarrow> string \<Rightarrow> ColumnSettingInDBF list \<Rightarrow> disk \<Rightarrow> int \<times> TgwDBFOperHelper \<times> disk" where
  "open_table p name cols d =
     (if d name = None
      then (case Dbf_Create p name cols (TgwDBFOperHelper_new, d) of (iRes, s1) \<Rightarrow>
        if iRes \<noteq> 0 then (-1, s1) else case Dbf_Open name s1 of (iRes, s2) \<Rightarrow> (if iRes \<noteq> 0 then -1 else 0, s2))
      else case Dbf_Open name (TgwDBFOperHelper_new, d) of (iRes, s2) \<Rightarrow> (if iRes \<noteq> 0 then -1 else 0, s2))"

definition old_records :: "ColumnSettingInDBF list \<Rightarrow> string option \<Rightarrow> string list" where
  "old_records cols fo = (case fo of None \<Rightarrow> [] | Some f \<Rightarrow> table_records cols f)"

definition good_platform :: "'d platform \<Rightarrow> string \<Rightarrow> bool" where
  "good_platform p name \<longleftrightarrow> p_win32 p \<and> length (p_today p) = 3 \<and> p_can_create p name \<and> c_str name \<noteq> []"

definition table_or_new :: "ColumnSettingInDBF list \<Rightarrow> string option \<Rightarrow> bool" where
  "table_or_new cols fo \<longleftrightarrow> (case fo of None \<Rightarrow> True | Some f \<Rightarrow> table_file cols f)"

lemma open_table_opens:
  assumes "good_platform p name" "schema_ok cols" "table_or_new cols (d name)"
  shows "\<exists>h1 f. open_table p name cols d = (0, h1, d(name \<mapsto> f)) \<and> table_file cols f \<and> usable (m_pDBF h1) name f \<and>
    table_records cols f = old_records cols (d name) \<and> fld_info (m_pDBF h1) = layout 0 cols \<and>
    m_nRecBeginOffset (m_pDBF h1) = header_size cols \<and> rec_size (recInfo (m_pDBF h1)) = record_width cols"
proof -
  have new: "m_handle (m_pDBF TgwDBFOperHelper_new) = None" "length (rec_data (recInfo (m_pDBF TgwDBFOperHelper_new))) = 2048"
    "m_pField (m_pDBF TgwDBFOperHelper_new) = []"
    by (simp_all add: TgwDBFOperHelper_new_def CDBF_new_def)
  have n: "name \<noteq> []" using assms(1) by (auto simp: good_platform_def c_str_def)
  show ?thesis
  proof (cases "d name")
    case None
    obtain f where f: "Dbf_Create p name cols (TgwDBFOperHelper_new, d) = (0, TgwDBFOperHelper_new, d(name \<mapsto> f))"
      "table_file cols f" "record_count f = 0"
      using Create_table [of p name cols TgwDBFOperHelper_new d] assms(1,2) new(3) by (auto simp: good_platform_def)
    then show ?thesis
      using Open_table [of cols f "d(name \<mapsto> f)" name TgwDBFOperHelper_new] n assms(2) new(1,2) None
      by (auto simp: open_table_def old_records_def table_records_def records_of_def)
  next
    case (Some f)
    then have "d(name \<mapsto> f) = d" by (simp add: fun_upd_idem)
    then show ?thesis
      using Open_table [of cols f d name TgwDBFOperHelper_new] n assms(2,3) new(1,2) Some
      by (fastforce simp: open_table_def old_records_def table_or_new_def)
  qed
qed

lemma written_table:
  assumes "good_platform p name" "schema_ok cols" "table_or_new cols (d name)"
    "length (old_records cols (d name)) + length rows < 2 ^ 32" "\<forall>vs\<in>set rows. \<forall>e\<in>set vs. fits p (layout 0 cols) e"
  obtains h1 d1 h2 f where "open_table p name cols d = (0, h1, d1)" "append_all p rows (h1, d1) = Some (0, h2, d(name \<mapsto> f))"
    "table_file cols f" "table_records cols f = old_records cols (d name) @ map (row_bytes p cols) rows"
proof -
  obtain h1 f where o: "open_table p name cols d = (0, h1, d(name \<mapsto> f))" "table_file cols f" "usable (m_pDBF h1) name f"
    "table_records cols f = old_records cols (d name)" "fld_info (m_pDBF h1) = layout 0 cols"
    "m_nRecBeginOffset (m_pDBF h1) = header_size cols" "rec_size (recInfo (m_pDBF h1)) = record_width cols"
    using open_table_opens [of p name cols d] assms(1-3) by blast
  have n: "record_count f = length (old_records cols (d name))"
    using arg_cong [OF o(4), of length] by (simp add: table_records_def records_of_def)
  have img: "row_image p (m_pDBF h1) = row_bytes p cols"
    by (simp add: fun_eq_iff row_image_def row_bytes_def o(5,7))
  have here: "(d(name \<mapsto> f)) name = Some f" and room: "record_count f + length rows < 2 ^ 32"
    and today: "length (p_today p) = 3"
    using n assms(1,4) by (auto simp: good_platform_def)
  obtain h2 f2 where a: "append_all p rows (h1, d(name \<mapsto> f)) = Some (0, h2, (d(name \<mapsto> f))(name \<mapsto> f2))"
    "usable (m_pDBF h2) name f2" "m_nRecBeginOffset (m_pDBF h2) = m_nRecBeginOffset (m_pDBF h1)"
    "rec_size (recInfo (m_pDBF h2)) = rec_size (recInfo (m_pDBF h1))"
    "records_of (m_nRecBeginOffset (m_pDBF h1)) (rec_size (recInfo (m_pDBF h1))) f2 =
     records_of (m_nRecBeginOffset (m_pDBF h1)) (rec_size (recInfo (m_pDBF h1))) f @ map (row_image p (m_pDBF h1)) rows"
    "\<forall>k m. 8 \<le> k \<longrightarrow> k + m \<le> m_nRecBeginOffset (m_pDBF h1) \<longrightarrow> read_at k m f2 = read_at k m f"
    using append_all_adds [of h1 name f "d(name \<mapsto> f)" rows p, OF o(3) here room today] assms(5) o(5) by auto
  have "table_file cols f2"
  proof (rule table_file_kept [OF o(2)])
    show "cols \<noteq> []" using assms(2) by (simp add: schema_ok_def)
    show "header_size cols + record_count f2 * record_width cols \<le> length f2"
      using a(2-4) by (simp add: usable_def o(6,7))
    show "\<forall>k m. 8 \<le> k \<longrightarrow> k + m \<le> header_size cols \<longrightarrow> read_at k m f2 = read_at k m f"
      using a(6) by (simp add: o(6))
  qed
  with o(1) a show thesis
    by (intro that [of h1 "d(name \<mapsto> f)" h2 f2]) (simp_all add: o(6,7) img table_records_def o(4) [unfolded table_records_def])
qed

section \<open>Reading a column back\<close>

lemma layout_disjoint:
  "f \<in> set (layout off cols) \<Longrightarrow> g \<in> set (layout off cols) \<Longrightarrow> f \<noteq> g \<Longrightarrow>
     fi_offset f + fi_width f \<le> fi_offset g \<or> fi_offset g + fi_width g \<le> fi_offset f"
proof (induction off cols rule: layout.induct)
  case (2 off s ss)
  have "off + col_uWidth s \<le> fi_offset x" if "x \<in> set (layout (off + col_uWidth s) ss)" for x
    using that by (induction "off + col_uWidth s" ss arbitrary: off s rule: layout.induct) (fastforce simp: add.assoc)+
  with 2 show ?case by auto
qed simp

lemma read_image_other:
  assumes "\<forall>e\<in>set vs. FindFld (fst e) fs \<noteq> Some f" "f \<in> set fs"
    "\<forall>g\<in>set fs. g \<noteq> f \<longrightarrow> fi_offset f + fi_width f \<le> fi_offset g \<or> fi_offset g + fi_width g \<le> fi_offset f"
    "\<forall>g\<in>set fs. 1 + fi_offset g + fi_width g \<le> length r"
  shows "read_at (1 + fi_offset f) (fi_width f) (image p fs vs r) = read_at (1 + fi_offset f) (fi_width f) r"
  using assms
proof (induction p fs vs r rule: image.induct)
  case (2 p fs name v vs r)
  show ?case
  proof (cases "FindFld name fs")
    case (Some g)
    then have g: "g \<in> set fs" "g \<noteq> f" "1 + fi_offset g + fi_width g \<le> length r" using 2(3,6) FindFld_in by auto
    have "read_at (1 + fi_offset f) (fi_width f) (write_at (1 + fi_offset g) (take (fi_width g) (printed p v g)) r) =
        read_at (1 + fi_offset f) (fi_width f) r"
    proof (cases "fi_offset f + fi_width f \<le> fi_offset g")
      case True
      then show ?thesis using g by (intro read_below_written) auto
    next
      case False
      then have "fi_offset g + fi_width g \<le> fi_offset f" using 2(5) g by blast
      then show ?thesis using g printed_width [of g p v] by (intro read_above_written) auto
    qed
    then show ?thesis using 2(2) [OF Some] 2(3-6) g(3) by (simp add: Some)
  qed (use 2 in simp)
qed simp

lemma read_image:
  assumes "(name, v) \<in> set vs" "FindFld name fs = Some f" "distinct (map (\<lambda>e. FindFld (fst e) fs) vs)"
    "\<forall>g\<in>set fs. g \<noteq> f \<longrightarrow> fi_offset f + fi_width f \<le> fi_offset g \<or> fi_offset g + fi_width g \<le> fi_offset f"
    "\<forall>g\<in>set fs. 1 + fi_offset g + fi_width g \<le> length r"
  shows "read_at (1 + fi_offset f) (fi_width f) (image p fs vs r) = take (fi_width f) (printed p v f)"
  using assms
proof (induction p fs vs r rule: image.induct)
  case (2 p fs name' v' vs r)
  show ?case
  proof (cases "(name', v') = (name, v)")
    case True
    let ?r = "write_at (1 + fi_offset f) (take (fi_width f) (printed p v f)) r"
    have f: "f \<in> set fs" using 2(4) FindFld_in by blast
    have "read_at (1 + fi_offset f) (fi_width f) (image p fs vs ?r) = read_at (1 + fi_offset f) (fi_width f) ?r"
      by (rule read_image_other) (use 2(4-7) f True printed_width [of f p v] in force)+
    then show ?thesis using True 2(4) printed_width [of f p v] by simp
  next
    case False
    then have m: "(name, v) \<in> set vs" using 2(3) by auto
    show ?thesis
    proof (cases "FindFld name' fs")
      case None
      then show ?thesis using 2(1) [OF None m] 2(4-7) by simp
    next
      case (Some g)
      then have "1 + fi_offset g + fi_width g \<le> length r" using 2(7) FindFld_in by blast
      then show ?thesis using 2(2) [OF Some m] 2(4-7) by (simp add: Some)
    qed
  qed
qed simp

lemma ReadRecord_usable:
  assumes "usable c name f" "d name = Some f" "i < record_count f"
  defines "start \<equiv> m_nRecBeginOffset c" and "len \<equiv> rec_size (recInfo c)"
  shows "\<exists>c1. ReadRecord (int i + 1) (c, d) = (0, c1) \<and> fld_info c1 = fld_info c \<and>
    take len (rec_data (recInfo c1)) = records_of start len f ! i"
proof -
  have h: "m_handle c = Some name" "1 \<le> len" and room: "start + record_count f * len \<le> length f"
    using assms(1) by (auto simp: usable_def start_def len_def)
  have i: "start + i * len + len \<le> start + record_count f * len"
    using assms(3) by (metis Suc_leI mult_Suc mult_le_mono1 add.commute add.assoc add_le_cancel_left)
  have off: "nat (int start + int i * int len) = start + i * len"
    by (simp flip: of_nat_mult of_nat_add)
  define c1 where "c1 = GetRecordNum (c, d)"
  have c1: "recInfo c1 = (recInfo c)\<lparr>rec_num := record_count f\<rparr>" "m_nRecBeginOffset c1 = start" "fld_info c1 = fld_info c"
    using h assms(2) by (simp_all add: c1_def GetRecordNum_def contents_def record_count_def start_def)
  have g: "GoTo (int i + 1) c1 = (0, c1\<lparr>m_nCurrOffset := start + i * len, m_nCurrRecNo := nat (int i + 1)\<rparr>)"
    using i h(2) assms(3) by (simp add: GoTo_def Let_def c1 off flip: len_def)
  have e: "int (record_count f) < int i + 1 \<longleftrightarrow> False" using assms(3) by simp
  have "length (read_at (start + i * len) len f) = len" using i room by simp
  moreover have "records_of start len f ! i = read_at (start + i * len) len f"
    using assms(3) by (simp add: records_of_def)
  ultimately show ?thesis
    using h assms(2,3) unfolding ReadRecord_def Let_def c1_def [symmetric] contents_def
    by (simp add: g c1 e del: length_read_at flip: len_def)
qed

lemma dropWhile_spaces: "dropWhile (\<lambda>c. c = CHR '' '') (replicate n (CHR '' '') @ xs) = dropWhile (\<lambda>c. c = CHR '' '') xs"
  by (induction n) auto

lemma dropWhile_all: "\<forall>c\<in>set xs. P c \<Longrightarrow> dropWhile P xs = []"
  by (induction xs) auto

lemma Alltrim_padded: "Alltrim (t @ replicate n (CHR '' '')) = Alltrim t"
proof (cases "\<forall>c\<in>set t. c = CHR '' ''")
  case True
  then have "dropWhile (\<lambda>c. c = CHR '' '') (t @ replicate n (CHR '' '')) = []" "dropWhile (\<lambda>c. c = CHR '' '') t = []"
    by (intro dropWhile_all; fastforce)+
  then show ?thesis by (simp only: Alltrim_def)
next
  case False
  then obtain x where "x \<in> set t" "x \<noteq> CHR '' ''" by blast
  then have "dropWhile (\<lambda>c. c = CHR '' '') (t @ replicate n (CHR '' '')) = dropWhile (\<lambda>c. c = CHR '' '') t @ replicate n (CHR '' '')"
    by (rule dropWhile_append1)
  then show ?thesis unfolding Alltrim_def by (simp only: rev_append rev_replicate dropWhile_spaces)
qed

lemma c_str_no_zero: "CHR 0x00 \<notin> set (c_str t)"
  by (auto simp: c_str_def dest: set_takeWhileD)

lemma c_str_id: "CHR 0x00 \<notin> set t \<Longrightarrow> c_str t = t"
  unfolding c_str_def by (induction t) auto

definition text_cell :: "nat \<Rightarrow> string \<Rightarrow> string" where
  "text_cell w t = Alltrim (take w (c_str t))"

lemma text_cell_exact: "c_str t = t \<Longrightarrow> Alltrim t = t \<Longrightarrow> length t \<le> w \<Longrightarrow> text_cell w t = t"
  by (simp add: text_cell_def)

lemma text_column:
  assumes "schema_ok cols" "take (record_width cols) (rec_data (recInfo c)) = row_bytes p cols vs" "fld_info c = layout 0 cols"
    "(name, v) \<in> set vs" "FindFld name (layout 0 cols) = Some f" "d_iType v = 0"
    "distinct (map (\<lambda>e. FindFld (fst e) (layout 0 cols)) vs)"
  shows "GetFldValue_str name c = Some (text_cell (fi_width f) (d_strValue v))"
proof -
  have in_layout: "f \<in> set (layout 0 cols)" using assms(5) FindFld_in by blast
  have b: "1 + fi_offset g + fi_width g \<le> record_width cols" if "g \<in> set (layout 0 cols)" for g
    using layout_bounds [OF that] by (simp add: record_width_def)
  have r: "read_at (1 + fi_offset f) (fi_width f) (rec_data (recInfo c)) = read_at (1 + fi_offset f) (fi_width f) (row_bytes p cols vs)"
    using b [OF in_layout] by (simp add: read_at_def flip: assms(2)) (simp add: drop_take min_def)
  have "read_at (1 + fi_offset f) (fi_width f) (row_bytes p cols vs) = take (fi_width f) (printed p v f)"
    unfolding row_bytes_def
    by (rule read_image [OF assms(4,5,7)]) (use b layout_disjoint [OF in_layout] in auto)
  also have "\<dots> = take (fi_width f) (c_str (d_strValue v)) @ replicate (fi_width f - length (c_str (d_strValue v))) (CHR '' '')"
    using assms(6) by (simp add: printed_def pad_right_def)
  finally have "read_at (1 + fi_offset f) (fi_width f) (row_bytes p cols vs) =
      take (fi_width f) (c_str (d_strValue v)) @ replicate (fi_width f - length (c_str (d_strValue v))) (CHR '' '')" .
  moreover have "c_str (take w (c_str t) @ replicate n (CHR '' '')) = take w (c_str t) @ replicate n (CHR '' '')" for w t n
    using c_str_no_zero [of t] by (intro c_str_id) (auto dest: in_set_takeD)
  ultimately show ?thesis
    using assms(3,5) r by (simp add: GetFldValue_str_def Alltrim_padded text_cell_def)
qed

section \<open>Properties\<close>


lemma read_fields_nameless:
  assumes "read_at off 32 f = CHR 0x00 # bs" "0 < n"
  shows "\<exists>fi. read_fields n off i 0 buf f = [fi] \<and> fi_name fi = []"
proof -
  have "c_str (CHR 0x00 # t) = []" for t by (simp add: c_str_def)
  then show ?thesis using assms(2) by (cases n) (auto simp: assms(1) Alltrim_def Let_def simp del: length_read_at)
qed

text \<open>
  Where \<open>unsigned long\<close> has eight bytes no table can be written: the header that \<open>Create\<close> writes is not
  the one \<open>Open\<close> reads, which finds one field without a name, and every row of named values is refused.
\<close>

theorem no_row_on_lp64:
  assumes "\<not> p_win32 p" "length (p_today p) = 3" "length (p_padding p) = 4" "p_can_create p name" "c_str name \<noteq> []"
    "d name = None" "schema_ok cols" "vs \<noteq> []" "c_str (fst (hd vs)) \<noteq> []"
  shows "\<exists>h1 d1 s2. open_table p name cols d = (0, h1, d1) \<and> Dbf_Append p vs (h1, d1) = Some (-1, s2)"
proof -
  define fs where "fs = new_fields 1 cols"
  define f where "f = head_bytes p fs @ concat (map (field_bytes p) fs) @ [CHR 0x0D]"
  have c: "list_all (\<lambda>s. col_cType s \<in> {CHR ''C'', CHR ''N'', CHR ''D''}) cols" "cols \<noteq> []" "length cols \<le> 128"
    using assms(7) by (auto simp: schema_ok_def list_all_iff column_ok_def)
  have new: "m_pField CDBF_new = []" "m_handle CDBF_new = None" by (simp_all add: CDBF_new_def)
  have "add_fields cols CDBF_new = (0, CDBF_new\<lparr>m_pField := fs\<rparr>)"
    using add_fields_new [OF c(1), of CDBF_new] c(3) new by (simp add: fs_def next_begin_def)
  moreover have "fs \<noteq> []" "length fs \<le> 128" using c(2,3) by (auto simp: fs_def simp flip: length_greater_0_conv)
  moreover have "CDBF_new\<lparr>m_pField := []\<rparr> = CDBF_new" by (simp add: CDBF_new_def)
  moreover have n: "name \<noteq> []" using assms(5) by (auto simp: c_str_def)
  ultimately have cr: "Dbf_Create p name cols (TgwDBFOperHelper_new, d) = (0, TgwDBFOperHelper_new, d(name \<mapsto> f))"
    using assms(4,5) by (simp add: Dbf_Create_def CDBF_Create_def f_def TgwDBFOperHelper_new_def)
  have z: "le_bytes 8 0 = replicate 8 (CHR 0x00)" by (rule le_bytes_zero)
  define A where "A = CHR 0x03 # p_today p @ p_padding p"
  define B where "B = le_bytes 2 (33 + 32 * length cols) @ le_bytes 2 (nat (((\<Sum>f\<leftarrow>fs. sint (nf_width f)) + 1) mod 65536))"
  have l: "length A = 8" "length B = 4" using assms(2,3) by (simp_all add: A_def B_def)
  have hd: "head_bytes p fs = A @ replicate 8 (CHR 0x00) @ B @ replicate 20 (CHR 0x00)"
    using assms(1) by (simp add: head_bytes_def padding4_def long_size_def z fs_def A_def B_def)
  have r: "read_at 8 2 f = replicate 2 (CHR 0x00)" "read_at 10 2 f = replicate 2 (CHR 0x00)" "read_at 32 8 f = replicate 8 (CHR 0x00)"
    unfolding f_def hd read_at_def using l by simp_all
  have "hd (read_at 32 32 f) = CHR 0x00" "length (read_at 32 32 f) > 0"
  proof -
    have "read_at 32 32 f = read_at 32 8 f @ take 24 (drop 40 f)"
      by (simp add: read_at_def flip: take_add [of 8 24 "drop 32 f", simplified])
    then show "hd (read_at 32 32 f) = CHR 0x00" "length (read_at 32 32 f) > 0" by (simp_all add: r(3) del: length_read_at)
  qed
  then obtain bs where bs: "read_at 32 32 f = CHR 0x00 # bs" by (cases "read_at 32 32 f") auto
  have noname: "FindFld (fst (hd vs)) (read_fields 128 32 0 0 buf f) = None" for buf
  proof -
    have "\<exists>fi. read_fields 128 32 0 0 buf f = [fi] \<and> fi_name fi = []" by (rule read_fields_nameless [OF bs]) simp
    then show ?thesis using assms(9) by (auto simp: FindFld_def same_name_def c_str_def)
  qed
  have z2: "le_value (replicate 2 (CHR 0x00)) = 0" by (simp add: numeral_2_eq_2)
  obtain h1 where h1: "Dbf_Open name (TgwDBFOperHelper_new, d(name \<mapsto> f)) = (0, h1, d(name \<mapsto> f))"
    "m_handle (m_pDBF h1) = Some name" "rec_size (recInfo (m_pDBF h1)) = 0" "m_nRecBeginOffset (m_pDBF h1) = 0"
    "FindFld (fst (hd vs)) (fld_info (m_pDBF h1)) = None"
    using n noname by (simp add: Dbf_Open_def CDBF_Open_def TgwDBFOperHelper_new_def CDBF_new_def Let_def r(1,2) z2)
  obtain vs' v where vs: "vs = (fst (hd vs), v) # vs'" using assms(8) by (cases vs) auto
  have "fill_values p vs c = Some (-1, c)" if "fld_info c = fld_info (m_pDBF h1)" for c
    using that h1(5)
    by (subst vs) (auto simp: fill_value_def FillFldValue_str_def FillFldValue_long_def FillFldValue_ulong_def
        FillFldValue_double_def fill_field_def)
  then have "\<exists>s2. Dbf_Append p vs (h1, d(name \<mapsto> f)) = Some (-1, s2)"
    using h1(2-4)
    by (auto simp: Dbf_Append_def AddNewRecord_def GetRecordNum_def contents_def GoToRec_def Let_def split: prod.splits)
  moreover have "open_table p name cols d = (0, h1, d(name \<mapsto> f))"
    using assms(6) cr h1(1) by (simp add: open_table_def)
  ultimately show ?thesis by blast
qed

section \<open>The properties at sample values\<close>

definition int_ops :: "int word_ops" where
  "int_ops = \<lparr>w_zero = 0, w_plus = (+), w_minus = (-), w_mult = (*), w_divide = (div), w_is_zero = (\<lambda>x. x = 0),
     w_atof = strtoll, w_trunc = id, w_scaled = (*)\<rparr>"

definition sample_platform :: "bool \<Rightarrow> int platform" where
  "sample_platform w = \<lparr>p_win32 = w, p_today = [CHR 0x18, CHR 0x01, CHR 0x02], p_padding = replicate 4 (CHR 0x55),
     p_can_create = (\<lambda>name. True), p_printf = (\<lambda>w d x. signed_decimal x), p_real = id, p_ops = int_ops\<rparr>"

definition sample_columns :: "ColumnSettingInDBF list" where
  "sample_columns = [\<lparr>col_strName = ''Gddm'', col_cType = CHR ''C'', col_uWidth = 10, col_uDecWidth = 0\<rparr>,
     \<lparr>col_strName = ''Bcye'', col_cType = CHR ''N'', col_uWidth = 8, col_uDecWidth = 0\<rparr>]"

definition sample_values :: "(string, int DataInRow) omap" where
  "sample_values = [(''Gddm'', \<lparr>d_iType = 0, d_lValue = 0, d_ulValue = 0, d_dValue = 0, d_strValue = ''A1''\<rparr>)]"

lemma sample_schema_ok: "schema_ok sample_columns"
  by (simp add: schema_ok_def sample_columns_def column_ok_def c_str_def Alltrim_def record_width_def)

lemma sample_find: "FindFld ''Gddm'' (layout 0 sample_columns) =
    Some \<lparr>fi_name = ''Gddm'', fi_type = CHR ''C'', fi_offset = 0, fi_width = 10, fi_dec = 0\<rparr>"
  by (simp add: FindFld_def sample_columns_def same_name_def)


theorem no_row_on_lp64_witness:
  "\<exists>h1 d1 s2. open_table (sample_platform False) ''t'' sample_columns Map.empty = (0, h1, d1) \<and>
     Dbf_Append (sample_platform False) sample_values (h1, d1) = Some (-1, s2)"
  by (rule no_row_on_lp64 [OF _ _ _ _ _ _ sample_schema_ok])
    (simp_all add: sample_platform_def c_str_def sample_values_def)

end
