(* ===== verification/SettleTable.thy ===== *)
theory SettleTable
  imports DbfFile
begin

text \<open>
  What the statements of \<open>simutgw/settlement/SHSettle.cpp\<close> and \<open>SZSettle.cpp\<close> have in common: a row of
  the database becomes the values of a table by filling one cell after the other, and the rows are
  appended to a DBF file.  A database row gives the text of its columns, the empty one for NULL.
  Conversions may throw, which the handler around the columns turns into a failure; \<open>Wild\<close> is the use
  of an iterator past the end.
\<close>

section \<open>Filling a row of values\<close>

type_synonym db_row = "string \<Rightarrow> string option"

type_synonym 'd row_values = "(string, 'd DataInRow) omap"

datatype 'a run = Fine 'a | Skip | Threw | Wild

text \<open>The cell that is filled and written again and again, and the values written so far.\<close>

record 'd fill =
  cell :: "'d DataInRow"
  filled :: "'d row_values"

type_synonym 'd step = "'d fill \<Rightarrow> 'd fill run"

fun run_steps :: "'d step list \<Rightarrow> 'd fill \<Rightarrow> 'd fill run" where
  "run_steps [] s = Fine s"
| "run_steps (t # ts) s = (case t s of Fine s1 \<Rightarrow> run_steps ts s1 | r \<Rightarrow> r)"

text \<open>
  The values of a row: the steps on a map that was cleared and a cell with unspecified content
  (\<open>junk\<close>).
\<close>

definition values_of :: "'d DataInRow \<Rightarrow> 'd step list \<Rightarrow> 'd row_values run" where
  "values_of junk ts =
     (case run_steps ts \<lparr>cell = junk, filled = []\<rparr> of Fine s \<Rightarrow> Fine (filled s) | Skip \<Rightarrow> Skip | Threw \<Rightarrow> Threw | Wild \<Rightarrow> Wild)"

definition again :: "string \<Rightarrow> 'd step" where
  "again c s = Fine (s\<lparr>filled := omap_put c (cell s) (filled s)\<rparr>)"

definition set_text :: "string \<Rightarrow> 'd step" where
  "set_text v s = Fine (s\<lparr>cell := (cell s)\<lparr>d_iType := 0, d_strValue := v\<rparr>\<rparr>)"

definition text_to :: "string \<Rightarrow> string \<Rightarrow> 'd step" where
  "text_to c v s = again c (s\<lparr>cell := (cell s)\<lparr>d_iType := 0, d_strValue := v\<rparr>\<rparr>)"

definition number_to :: "string \<Rightarrow> int \<Rightarrow> 'd step" where
  "number_to c n s = again c (s\<lparr>cell := (cell s)\<lparr>d_iType := 1, d_lValue := n\<rparr>\<rparr>)"

definition double_to :: "string \<Rightarrow> 'd \<Rightarrow> 'd step" where
  "double_to c x s = again c (s\<lparr>cell := (cell s)\<lparr>d_iType := 3, d_dValue := x\<rparr>\<rparr>)"

text \<open>A column of the database row, if it is there; with the side of the trade; \<open>std::string::substr\<close>.\<close>

definition from_row :: "db_row \<Rightarrow> string \<Rightarrow> (string \<Rightarrow> 'd step) \<Rightarrow> 'd step" where
  "from_row row k f s = (case row k of None \<Rightarrow> Fine s | Some v \<Rightarrow> f v s)"

definition with_side :: "db_row \<Rightarrow> string \<Rightarrow> (string \<Rightarrow> string \<Rightarrow> 'd step) \<Rightarrow> 'd step" where
  "with_side row k f s = (case (row k, row ''side'') of (Some v, Some side) \<Rightarrow> f side v s | _ \<Rightarrow> Fine s)"

definition sub_to :: "nat \<Rightarrow> nat \<Rightarrow> string \<Rightarrow> string \<Rightarrow> 'd step" where
  "sub_to i n c v s = (if length v < i then Threw else text_to c (take n (drop i v)) s)"

section \<open>Conversions\<close>

definition String2Long_atol :: "'d platform \<Rightarrow> string \<Rightarrow> int" where
  "String2Long_atol p v =
     (if v = [] then 0 else if p_win32 p then max (- (2 ^ 31)) (min (2 ^ 31 - 1) (strtoll v)) else strtoll v)"

definition long_to :: "'d platform \<Rightarrow> string \<Rightarrow> string \<Rightarrow> 'd step" where
  "long_to p c v = number_to c (String2Long_atol p v)"

definition zero_of :: "'d platform \<Rightarrow> 'd" where
  "zero_of p = w_zero (p_ops p)"

definition atof_to :: "'d platform \<Rightarrow> string \<Rightarrow> string \<Rightarrow> 'd step" where
  "atof_to p c v = double_to c (snd (String2Double_atof (p_ops p) v))"

definition c_quot :: "int \<Rightarrow> int \<Rightarrow> int" where
  "c_quot a b = (if 0 \<le> a then a div b else - ((- a) div b))"

definition StringLiToDouble :: "'d platform \<Rightarrow> nat \<Rightarrow> string \<Rightarrow> 'd" where
  "StringLiToDouble p uiDecimalLen v =
     (let i64Int = snd (String2Int64_atoi64 v); i64Yuan = c_quot i64Int 1000; lDecimal = c_rem i64Int 1000;
          (d, n) = (if uiDecimalLen = 1 then (c_quot lDecimal 100, 10)
                    else if uiDecimalLen = 2 then (c_quot lDecimal 10, 100) else (lDecimal, 1000)) in
      w_plus (p_ops p) (p_real p i64Yuan) (w_divide (p_ops p) (p_real p d) (p_real p n)))"

definition li_to :: "'d platform \<Rightarrow> nat \<Rightarrow> string \<Rightarrow> string \<Rightarrow> 'd step" where
  "li_to p n c v = double_to c (StringLiToDouble p n v)"

definition yuan_to :: "nat \<Rightarrow> string \<Rightarrow> string \<Rightarrow> 'd step" where
  "yuan_to n c v = text_to c (snd (StringLiToStringYuan v n))"

definition minus_if :: "bool \<Rightarrow> string \<Rightarrow> string" where
  "minus_if b v = (if b then CHR ''-'' # v else v)"

text \<open>
  The date library: the parse of an undelimited date, which may throw, and the ISO text of a day.  A date that was
  never set prints as not a date.
\<close>

record 'd settle_env =
  se_p :: "'d platform"
  se_junk :: "'d DataInRow"
  se_date :: "string \<Rightarrow> int option"
  se_iso :: "int \<Rightarrow> string"
  se_query :: "string \<Rightarrow> db_row list option"
  m_strNow :: string
  m_strNextDay :: string

definition day_to :: "'d settle_env \<Rightarrow> string \<Rightarrow> string \<Rightarrow> 'd step" where
  "day_to e c v s = (if se_date e (take 8 v) = None then Threw else text_to c (take 8 v) s)"

definition day_after :: "'d settle_env \<Rightarrow> int \<Rightarrow> string option \<Rightarrow> string" where
  "day_after e n vo =
     (case vo of None \<Rightarrow> ''not-a-date-time''
      | Some v \<Rightarrow> (case se_date e (take 8 v) of None \<Rightarrow> ''not-a-date-time'' | Some d \<Rightarrow> se_iso e (d + n)))"

section \<open>Columns\<close>

definition col :: "string \<Rightarrow> char \<Rightarrow> nat \<Rightarrow> nat \<Rightarrow> ColumnSettingInDBF" where
  "col name ty w d = \<lparr>col_strName = name, col_cType = ty, col_uWidth = w, col_uDecWidth = d\<rparr>"

section \<open>Writing the rows\<close>

text \<open>
  The loop over the rows: every failure ends it.  Only the result table of Shenzhen, which has a loop of its
  own, has rows to be skipped.
\<close>

fun write_rows ::
  "'d platform \<Rightarrow> ('r \<Rightarrow> 'd row_values run) \<Rightarrow> 'r list \<Rightarrow> TgwDBFOperHelper \<times> disk \<Rightarrow> (int \<times> TgwDBFOperHelper \<times> disk) option" where
  "write_rows p vals [] s = Some (0, s)"
| "write_rows p vals (r # rs) s =
     (case vals r of
        Wild \<Rightarrow> None
      | Threw \<Rightarrow> Some (-1, s)
      | Skip \<Rightarrow> Some (-1, s)
      | Fine vs \<Rightarrow>
          (case Dbf_Append p vs s of
             None \<Rightarrow> None
           | Some (iRes, s1) \<Rightarrow> if iRes \<noteq> 0 then Some (-1, s1) else write_rows p vals rs s1))"

definition write_table ::
  "'d platform \<Rightarrow> string \<Rightarrow> ColumnSettingInDBF list \<Rightarrow> ('r \<Rightarrow> 'd row_values run) \<Rightarrow> 'r list \<Rightarrow> disk \<Rightarrow> (int \<times> disk) option" where
  "write_table p name cols vals rows d =
     (case open_table p name cols d of (iRes, h, d1) \<Rightarrow>
        if iRes \<noteq> 0 then Some (-1, d1)
        else map_option (\<lambda>(iRes, h1, d2). (iRes, d2)) (write_rows p vals rows (h, d1)))"

text \<open>
  The statements written seat by seat: the rows are collected under their seat, and the writer is
  closed after each seat, though it was opened once before the loop.
\<close>

fun group_rows :: "string \<Rightarrow> db_row list \<Rightarrow> (string, db_row list) omap \<Rightarrow> (string, db_row list) omap" where
  "group_rows k [] m = m"
| "group_rows k (r # rs) m =
     (case r k of
        None \<Rightarrow> group_rows k rs m
      | Some key \<Rightarrow> group_rows k rs (omap_put key ((case map_of m key of None \<Rightarrow> [] | Some old \<Rightarrow> old) @ [r]) m))"

fun write_seats ::
  "'d platform \<Rightarrow> (db_row \<Rightarrow> 'd row_values run) \<Rightarrow> (string, db_row list) omap \<Rightarrow> TgwDBFOperHelper \<times> disk \<Rightarrow>
   (int \<times> TgwDBFOperHelper \<times> disk) option" where
  "write_seats p vals [] s = Some (0, s)"
| "write_seats p vals ((seat, rows) # m) s =
     (case write_rows p vals rows s of
        None \<Rightarrow> None
      | Some (iRes, h1, d1) \<Rightarrow>
          if iRes \<noteq> 0 then Some (-1, h1, d1) else write_seats p vals m (Dbf_Close h1, d1))"

definition group_prefix :: "string \<Rightarrow> string" where
  "group_prefix g = (if g = [] then [] else g @ ''_'')"

definition group_condition :: "string \<Rightarrow> string" where
  "group_condition g =
     (if g = [] then ''`settle_group` IS NULL '' else ''`settle_group`=\"'' @ g @ ''\" '')"

section \<open>Values that are changed, and the statements of a settlement\<close>

text \<open>A value is copied or changed with \<open>operator[]\<close>, which makes up one that is not there.\<close>

definition default_cell :: "'d platform \<Rightarrow> 'd DataInRow" where
  "default_cell p = \<lparr>d_iType = 0, d_lValue = 0, d_ulValue = 0, d_dValue = zero_of p, d_strValue = []\<rparr>"

definition value_at :: "'d platform \<Rightarrow> string \<Rightarrow> 'd row_values \<Rightarrow> 'd DataInRow" where
  "value_at p c m = (case map_of m c of None \<Rightarrow> default_cell p | Some v \<Rightarrow> v)"

text \<open>
  For the next day the purchases are added, each to the number of the value; a column the row does not
  have adds nothing.
\<close>

definition add_number :: "'d platform \<Rightarrow> string \<Rightarrow> 'd \<Rightarrow> 'd row_values \<Rightarrow> 'd row_values" where
  "add_number p c x m =
     (let v = value_at p c m in omap_put c (v\<lparr>d_dValue := w_plus (p_ops p) (d_dValue v) x\<rparr>) m)"

fun add_columns :: "'d platform \<Rightarrow> db_row \<Rightarrow> string \<Rightarrow> string list \<Rightarrow> 'd row_values \<Rightarrow> 'd row_values" where
  "add_columns p row c [] m = m"
| "add_columns p row c (k # ks) m =
     add_columns p row c ks
       (case row k of None \<Rightarrow> m | Some v \<Rightarrow> add_number p c (snd (String2Double_atof (p_ops p) v)) m)"

lemma value_at_put [simp]: "value_at p c (omap_put c v m) = v"
  by (simp add: value_at_def)

text \<open>The texts and the file of a statement, tables that are only written when there are rows, and one statement after another.\<close>

definition type_text :: "int \<Rightarrow> string" where
  "type_text t = itos (word_of_int t)"

definition statement_name :: "string \<Rightarrow> string \<Rightarrow> string \<Rightarrow> string \<Rightarrow> string" where
  "statement_name path g name day = path @ ''/'' @ group_prefix g @ name @ day @ ''.dbf''"

definition write_if_rows ::
  "'d platform \<Rightarrow> string \<Rightarrow> ColumnSettingInDBF list \<Rightarrow> (db_row \<Rightarrow> 'd row_values run) \<Rightarrow> db_row list \<Rightarrow> disk \<Rightarrow> (int \<times> disk) option" where
  "write_if_rows p name cols vals rows d = (if rows = [] then Some (0, d) else write_table p name cols vals rows d)"

definition then_also :: "(disk \<Rightarrow> (int \<times> disk) option) \<Rightarrow> (disk \<Rightarrow> (int \<times> disk) option) \<Rightarrow> disk \<Rightarrow> (int \<times> disk) option" where
  "then_also f g d =
     (case f d of None \<Rightarrow> None | Some (iRes, d1) \<Rightarrow> if iRes \<noteq> 0 then Some (-1, d1)
      else (case g d1 of None \<Rightarrow> None | Some (iRes, d2) \<Rightarrow> Some (if iRes \<noteq> 0 then -1 else 0, d2)))"

section \<open>What a list of steps writes\<close>

definition writes :: "string set \<Rightarrow> 'd step \<Rightarrow> bool" where
  "writes cs t \<longleftrightarrow> (\<forall>s s1. t s = Fine s1 \<longrightarrow> fst ` set (filled s1) \<subseteq> fst ` set (filled s) \<union> cs \<and>
     (omap_wf (filled s) \<longrightarrow> omap_wf (filled s1)))"

named_theorems writes_intros \<open>the columns that steps write\<close>

lemma writes_again [writes_intros]: "c \<in> cs \<Longrightarrow> writes cs (again c)"
  by (auto simp: writes_def again_def)

lemma writes_set_text [writes_intros]: "writes cs (set_text v)"
  by (auto simp: writes_def set_text_def)

lemma writes_text_to [writes_intros]: "c \<in> cs \<Longrightarrow> writes cs (text_to c v)"
  by (auto simp: writes_def text_to_def again_def)

lemma writes_number_to [writes_intros]: "c \<in> cs \<Longrightarrow> writes cs (number_to c n)"
  by (auto simp: writes_def number_to_def again_def)

lemma writes_double_to [writes_intros]: "c \<in> cs \<Longrightarrow> writes cs (double_to c x)"
  by (auto simp: writes_def double_to_def again_def)

lemma writes_from_row [writes_intros]: "(\<And>v. writes cs (f v)) \<Longrightarrow> writes cs (from_row row k f)"
  by (auto simp: writes_def from_row_def split: option.splits)

lemma writes_with_side [writes_intros]: "(\<And>v side. writes cs (f side v)) \<Longrightarrow> writes cs (with_side row k f)"
  unfolding writes_def with_side_def by (auto split: option.splits)

lemma writes_sub_to [writes_intros]: "c \<in> cs \<Longrightarrow> writes cs (sub_to i n c v)"
  by (auto simp: writes_def sub_to_def text_to_def again_def split: if_splits)

lemma writes_long_to [writes_intros]: "c \<in> cs \<Longrightarrow> writes cs (long_to p c v)"
  by (simp add: long_to_def writes_number_to)

lemma writes_atof_to [writes_intros]: "c \<in> cs \<Longrightarrow> writes cs (atof_to p c v)"
  by (simp add: atof_to_def writes_double_to)

lemma writes_li_to [writes_intros]: "c \<in> cs \<Longrightarrow> writes cs (li_to p n c v)"
  by (simp add: li_to_def writes_double_to)

lemma writes_yuan_to [writes_intros]: "c \<in> cs \<Longrightarrow> writes cs (yuan_to n c v)"
  by (simp add: yuan_to_def writes_text_to)

lemma writes_day_to [writes_intros]: "c \<in> cs \<Longrightarrow> writes cs (day_to e c v)"
  by (auto simp: writes_def day_to_def text_to_def again_def split: if_splits)

lemma run_steps_writes:
  assumes "list_all (writes cs) ts" "run_steps ts s = Fine s1"
  shows "fst ` set (filled s1) \<subseteq> fst ` set (filled s) \<union> cs \<and> (omap_wf (filled s) \<longrightarrow> omap_wf (filled s1))"
  using assms
proof (induction ts arbitrary: s)
  case (Cons t ts)
  then obtain s2 where t: "t s = Fine s2" "run_steps ts s2 = Fine s1" by (cases "t s") auto
  have "fst ` set (filled s1) \<subseteq> fst ` set (filled s2) \<union> cs \<and> (omap_wf (filled s2) \<longrightarrow> omap_wf (filled s1))" using Cons.IH [OF _ t(2)] Cons.prems(1) by simp
  moreover have "fst ` set (filled s2) \<subseteq> fst ` set (filled s) \<union> cs \<and> (omap_wf (filled s) \<longrightarrow> omap_wf (filled s2))" using Cons.prems(1) t(1) by (simp add: writes_def)
  ultimately show ?case by blast
qed simp

lemma values_of_writes:
  "list_all (writes cs) ts \<Longrightarrow> values_of junk ts = Fine vs \<Longrightarrow> fst ` set vs \<subseteq> cs \<and> omap_wf vs"
  by (auto simp: values_of_def split: run.splits dest!: run_steps_writes)

lemma run_steps_append: "run_steps (as @ bs) s = (case run_steps as s of Fine s1 \<Rightarrow> run_steps bs s1 | r \<Rightarrow> r)"
  by (induction as s rule: run_steps.induct) (auto split: run.splits)

text \<open>The steps that give each value a known type.\<close>

definition known_type :: "'d row_values \<Rightarrow> bool" where
  "known_type m \<longleftrightarrow> (\<forall>v\<in>snd ` set m. d_iType v \<in> {0, 1, 3})"

definition typed :: "'d step \<Rightarrow> bool" where
  "typed t \<longleftrightarrow> (\<forall>s s1. t s = Fine s1 \<longrightarrow> known_type (filled s) \<longrightarrow> known_type (filled s1))"

named_theorems typed_intros \<open>the steps that give each value a known type\<close>

lemma values_omap_put: "snd ` set (omap_put k v m) \<subseteq> insert v (snd ` set m)"
  by (induction k v m rule: omap_put.induct) auto

lemma known_type_put: "known_type m \<Longrightarrow> d_iType v \<in> {0, 1, 3} \<Longrightarrow> known_type (omap_put c v m)"
  using values_omap_put [of c v m] unfolding known_type_def by blast

lemma typed_text_to [typed_intros]: "typed (text_to c v)"
  by (auto simp: typed_def text_to_def again_def known_type_put)

lemma typed_number_to [typed_intros]: "typed (number_to c n)"
  by (auto simp: typed_def number_to_def again_def known_type_put)

lemma typed_double_to [typed_intros]: "typed (double_to c x)"
  by (auto simp: typed_def double_to_def again_def known_type_put)

lemma typed_from_row [typed_intros]: "(\<And>v. typed (f v)) \<Longrightarrow> typed (from_row row k f)"
  by (auto simp: typed_def from_row_def split: option.splits)

lemma typed_sub_to [typed_intros]: "typed (sub_to i n c v)"
  by (auto simp: typed_def sub_to_def text_to_def again_def known_type_put split: if_splits)

lemma typed_conversions [typed_intros]: "typed (long_to p c v)" "typed (atof_to p c v)" "typed (li_to p n c v)" "typed (yuan_to n c v)"
  by (simp_all add: long_to_def atof_to_def li_to_def yuan_to_def typed_number_to typed_double_to typed_text_to)

lemma run_steps_typed: "list_all typed ts \<Longrightarrow> run_steps ts s = Fine s1 \<Longrightarrow> known_type (filled s) \<Longrightarrow> known_type (filled s1)"
proof (induction ts arbitrary: s)
  case (Cons t ts)
  then obtain s2 where t: "t s = Fine s2" "run_steps ts s2 = Fine s1" by (cases "t s") auto
  show ?case using Cons.IH [OF _ t(2)] Cons.prems t(1) by (simp add: typed_def)
qed simp

lemma values_of_typed: "list_all typed ts \<Longrightarrow> values_of junk ts = Fine vs \<Longrightarrow> known_type vs"
  using run_steps_typed [of ts "\<lparr>cell = junk, filled = []\<rparr>"] by (auto simp: values_of_def known_type_def split: run.splits)

text \<open>With the cell: once it has a known type, writing it again gives one to the value.\<close>

definition known_cell :: "'d fill \<Rightarrow> bool" where
  "known_cell s \<longleftrightarrow> known_type (filled s) \<and> d_iType (cell s) \<in> {0, 1, 3}"

definition celled :: "'d step \<Rightarrow> bool" where
  "celled t \<longleftrightarrow> (\<forall>s s1. t s = Fine s1 \<longrightarrow> known_cell s \<longrightarrow> known_cell s1)"

named_theorems celled_intros \<open>the steps that keep the cell at a known type\<close>

lemma celled_writes [celled_intros]:
  "celled (again c)" "celled (set_text v)" "celled (text_to c v)" "celled (number_to c n)" "celled (double_to c x)" "celled Fine"
  by (auto simp: celled_def known_cell_def again_def set_text_def text_to_def number_to_def double_to_def known_type_put)

lemma celled_conversions [celled_intros]:
  "celled (long_to p c v)" "celled (atof_to p c v)" "celled (li_to p n c v)" "celled (yuan_to n c v)"
  by (simp_all add: long_to_def atof_to_def li_to_def yuan_to_def celled_writes)

lemma celled_from_row [celled_intros]: "(\<And>v. celled (f v)) \<Longrightarrow> celled (from_row row k f)"
  by (auto simp: celled_def from_row_def split: option.splits)

lemma celled_with_side [celled_intros]: "(\<And>v side. celled (f side v)) \<Longrightarrow> celled (with_side row k f)"
  unfolding celled_def with_side_def by (auto split: option.splits)

lemma celled_sub_to [celled_intros]: "celled (sub_to i n c v)"
  using celled_writes(3) by (auto simp: celled_def sub_to_def split: if_splits)

lemma celled_day_to [celled_intros]: "celled (day_to e c v)"
  using celled_writes(3) by (auto simp: celled_def day_to_def split: if_splits)

lemma run_steps_celled: "list_all celled ts \<Longrightarrow> run_steps ts s = Fine s1 \<Longrightarrow> known_cell s \<Longrightarrow> known_cell s1"
proof (induction ts arbitrary: s)
  case (Cons t ts)
  then obtain s2 where t: "t s = Fine s2" "run_steps ts s2 = Fine s1" by (cases "t s") auto
  show ?case using Cons.IH [OF _ t(2)] Cons.prems t(1) by (simp add: celled_def)
qed simp

lemma values_of_celled:
  assumes "list_all celled ts" "values_of junk (text_to c v # ts) = Fine vs"
  shows "known_type vs"
proof -
  obtain s1 s2 where s: "text_to c v \<lparr>cell = junk, filled = []\<rparr> = Fine s1" "run_steps ts s1 = Fine s2" "vs = filled s2"
    using assms(2) by (auto simp: values_of_def text_to_def again_def split: run.splits)
  have "known_cell s1" using s(1) by (auto simp: text_to_def again_def known_cell_def known_type_def)
  with run_steps_celled [OF assms(1) s(2)] s(3) show ?thesis by (simp add: known_cell_def)
qed

text \<open>The columns a step leaves alone.\<close>

definition keeps :: "string \<Rightarrow> 'd step \<Rightarrow> bool" where
  "keeps c t \<longleftrightarrow> (\<forall>s s1. t s = Fine s1 \<longrightarrow> map_of (filled s1) c = map_of (filled s) c)"

named_theorems keeps_intros \<open>the columns that steps leave alone\<close>

lemma keeps_writes [keeps_intros]:
  "c2 \<noteq> c \<Longrightarrow> keeps c (again c2)" "keeps c (set_text v)" "c2 \<noteq> c \<Longrightarrow> keeps c (text_to c2 v)"
  "c2 \<noteq> c \<Longrightarrow> keeps c (number_to c2 n)" "c2 \<noteq> c \<Longrightarrow> keeps c (double_to c2 x)" "keeps c Fine"
  "c2 \<noteq> c \<Longrightarrow> keeps c (long_to p c2 v)" "c2 \<noteq> c \<Longrightarrow> keeps c (atof_to p c2 v)" "c2 \<noteq> c \<Longrightarrow> keeps c (li_to p i c2 v)"
  by (auto simp: keeps_def again_def set_text_def text_to_def number_to_def double_to_def long_to_def atof_to_def li_to_def)

lemma keeps_from_row [keeps_intros]: "(\<And>v. keeps c (f v)) \<Longrightarrow> keeps c (from_row row k f)"
  by (auto simp: keeps_def from_row_def split: option.splits)

lemma keeps_day_to [keeps_intros]: "c2 \<noteq> c \<Longrightarrow> keeps c (day_to e c2 v)"
  by (auto simp: keeps_def day_to_def text_to_def again_def split: if_splits)

lemma run_steps_keeps: "list_all (keeps c) ts \<Longrightarrow> run_steps ts s = Fine s1 \<Longrightarrow> map_of (filled s1) c = map_of (filled s) c"
proof (induction ts arbitrary: s)
  case (Cons t ts)
  then obtain s2 where t: "t s = Fine s2" "run_steps ts s2 = Fine s1" by (cases "t s") auto
  show ?case using Cons.IH [OF _ t(2)] Cons.prems t(1) by (simp add: keeps_def)
qed simp

lemma values_of_double:
  assumes "values_of junk (before @ double_to c x # after) = Fine vs" "list_all (keeps c) after"
  shows "\<exists>v. map_of vs c = Some v \<and> d_iType v = 3 \<and> d_dValue v = x"
proof -
  obtain s1 s2 s3 where s: "double_to c x s1 = Fine s2" "run_steps after s2 = Fine s3" "vs = filled s3"
    using assms(1) by (auto simp: values_of_def run_steps_append double_to_def again_def split: run.splits)
  show ?thesis using run_steps_keeps [OF assms(2) s(2)] s(1,3) by (auto simp: double_to_def again_def)
qed

text \<open>Steps that always give a value.\<close>

definition runs :: "'d step \<Rightarrow> bool" where
  "runs t \<longleftrightarrow> (\<forall>s. \<exists>s1. t s = Fine s1)"

named_theorems runs_intros \<open>the steps that always give a value\<close>

lemma runs_writes [runs_intros]:
  "runs (again c)" "runs (set_text v)" "runs (text_to c v)" "runs (number_to c n)" "runs (double_to c x)" "runs Fine"
  "runs (long_to p c v)" "runs (atof_to p c v)" "runs (li_to p i c v)" "runs (yuan_to i c v)"
  by (simp_all add: runs_def again_def set_text_def text_to_def number_to_def double_to_def long_to_def atof_to_def li_to_def
      yuan_to_def)

lemma runs_from_row [runs_intros]: "(\<And>v. row k = Some v \<Longrightarrow> runs (f v)) \<Longrightarrow> runs (from_row row k f)"
  by (auto simp: runs_def from_row_def split: option.splits)

lemma runs_with_side [runs_intros]: "(\<And>v side. runs (f side v)) \<Longrightarrow> runs (with_side row k f)"
  unfolding runs_def with_side_def by (auto split: option.splits)

lemma run_steps_runs: "list_all runs ts \<Longrightarrow> \<exists>s1. run_steps ts s = Fine s1"
proof (induction ts arbitrary: s)
  case (Cons t ts)
  then obtain s1 where "t s = Fine s1" by (auto simp: runs_def)
  then show ?case using Cons by simp
qed simp

lemma values_of_runs: "list_all runs ts \<Longrightarrow> \<exists>vs. values_of junk ts = Fine vs"
  using run_steps_runs [of ts "\<lparr>cell = junk, filled = []\<rparr>"] by (auto simp: values_of_def)

lemma day_steps_cong:
  "se_date e1 = se_date e \<Longrightarrow> day_to e1 = day_to e"
  "se_date e1 = se_date e \<Longrightarrow> se_iso e1 = se_iso e \<Longrightarrow> day_after e1 = day_after e"
  by (auto simp: fun_eq_iff day_to_def day_after_def split: option.splits)

section \<open>Values and columns\<close>

definition names :: "ColumnSettingInDBF list \<Rightarrow> string set" where
  "names cols = col_strName ` set cols"

definition prints_short :: "'d platform \<Rightarrow> ColumnSettingInDBF list \<Rightarrow> 'd row_values \<Rightarrow> bool" where
  "prints_short p cols vs \<longleftrightarrow> (\<forall>v\<in>snd ` set vs. \<forall>f\<in>set (layout 0 cols). length (printed p v f) < 255)"

lemma FindFld_layout:
  assumes "c \<in> names cols"
  shows "\<exists>f. FindFld c (layout off cols) = Some f"
proof -
  have "\<exists>f\<in>set (layout off cols). fi_name f = c"
    using assms unfolding names_def by (induction off cols rule: layout.induct) auto
  then have "find (\<lambda>f. same_name (fi_name f) c) (layout off cols) \<noteq> None"
    by (auto simp: find_None_iff same_name_def)
  then show ?thesis by (simp add: FindFld_def)
qed

lemma fits_known:
  assumes "fst ` set vs \<subseteq> names cols" "known_type vs" "prints_short p cols vs"
  shows "\<forall>e\<in>set vs. fits p (layout 0 cols) e"
proof
  fix e assume e: "e \<in> set vs"
  then obtain f where "FindFld (fst e) (layout 0 cols) = Some f" using FindFld_layout assms(1) by blast
  then show "fits p (layout 0 cols) e"
    using assms(2,3) e FindFld_in by (fastforce simp: fits_def known_type_def prints_short_def)
qed

text \<open>Changing a value that prints the same does not change the record.\<close>

lemma image_same_print:
  assumes "omap_wf m" "map_of m c = Some v" "printed p v1 = printed p v"
  shows "image p fs (omap_put c v1 m) r = image p fs m r"
  using assms
proof (induction m arbitrary: r)
  case (Cons e m)
  obtain c2 v2 where e: "e = (c2, v2)" by (cases e)
  show ?case
  proof (cases "c = c2")
    case True
    then show ?thesis using Cons.prems by (auto simp: e split: option.splits)
  next
    case False
    then have m: "map_of m c = Some v" using Cons.prems(2) by (simp add: e)
    then have "c \<in> fst ` set m" by (metis domI dom_map_of_conv_image_fst)
    then have "c2 < c" using Cons.prems(1) by (auto simp: e omap_wf_def)
    then have "\<not> c < c2" by simp
    moreover have "omap_wf m" using Cons.prems(1) by (simp add: omap_wf_def)
    ultimately show ?thesis using False Cons.IH [OF _ m Cons.prems(3)] by (simp add: e split: option.splits)
  qed
qed simp

section \<open>Writing rows that fit\<close>

lemma write_rows_all:
  "list_all2 (\<lambda>r vs. vals r = Fine vs) rows vss \<Longrightarrow> write_rows p vals rows s = append_all p vss s"
proof (induction rows vss arbitrary: s rule: list_all2_induct)
  case (Cons r rows vs vss)
  then show ?case by (auto split: option.splits)
qed simp

lemma write_table_all:
  assumes "good_platform p name" "schema_ok cols" "table_or_new cols (d name)"
    "length (old_records cols (d name)) + length rows < 2 ^ 32" "list_all2 (\<lambda>r vs. vals r = Fine vs) rows vss"
    "\<forall>vs\<in>set vss. \<forall>e\<in>set vs. fits p (layout 0 cols) e"
  shows "\<exists>f. write_table p name cols vals rows d = Some (0, d(name \<mapsto> f)) \<and> table_file cols f \<and>
     table_records cols f = old_records cols (d name) @ map (row_bytes p cols) vss"
proof -
  have "length (old_records cols (d name)) + length vss < 2 ^ 32"
    using assms(4,5) by (simp add: list_all2_lengthD)
  then obtain h1 d1 h2 f where w: "open_table p name cols d = (0, h1, d1)"
    "append_all p vss (h1, d1) = Some (0, h2, d(name \<mapsto> f))" "table_file cols f"
    "table_records cols f = old_records cols (d name) @ map (row_bytes p cols) vss"
    using written_table [of p name cols d vss, OF assms(1-3) _ assms(6)] by metis
  then show ?thesis by (auto simp: write_table_def write_rows_all [OF assms(5)])
qed

text \<open>The second seat: its first row meets a closed file.\<close>

lemma Append_closed:
  assumes "m_handle (m_pDBF h) = None" "rec_size (recInfo (m_pDBF h)) = 0"
  shows "\<exists>h1. Dbf_Append p vs (h, d) = Some (-1, h1, d)"
  using assms by (auto simp: Dbf_Append_def AddNewRecord_def GetRecordNum_def contents_def Let_def)

lemma Dbf_Close_closed [simp]:
  "m_handle (m_pDBF (Dbf_Close h)) = None" "rec_size (recInfo (m_pDBF (Dbf_Close h))) = 0"
  by (simp_all add: Dbf_Close_def CDBF_Close_def)

lemma write_seats_two:
  assumes "list_all2 (\<lambda>r vs. vals r = Fine vs) rows vss" "append_all p vss s = Some (0, h1, d1)" "vals r = Fine vs"
  shows "\<exists>h2. write_seats p vals ((seat, rows) # (seat2, r # rs) # m) s = Some (-1, h2, d1)"
proof -
  obtain h2 where "Dbf_Append p vs (Dbf_Close h1, d1) = Some (-1, h2, d1)"
    using Append_closed [of "Dbf_Close h1" p vs d1] by auto
  then show ?thesis by (simp add: write_rows_all [OF assms(1)] assms(2,3))
qed

text \<open>A settlement on the platform of the samples, with the given rows for every query.\<close>

definition sample_settle :: "db_row list \<Rightarrow> int settle_env" where
  "sample_settle rows = \<lparr>se_p = sample_platform True,
     se_junk = \<lparr>d_iType = 7, d_lValue = 0, d_ulValue = 0, d_dValue = 0, d_strValue = []\<rparr>,
     se_date = (\<lambda>t. Some 0), se_iso = (\<lambda>n. ''20180102''), se_query = (\<lambda>q. Some rows), m_strNow = ''20180101'', m_strNextDay = ''20180102''\<rparr>"

end
