(* ===== verification/ShSettle.thy ===== *)
theory ShSettle
  imports SettleTable
begin

text \<open>
  \<open>simutgw/settlement/SHSettle.cpp\<close>: the settlement statements of Shanghai.  The transfers of the
  day (\<open>gh\<close>) and the B share settlement (\<open>bc1\<close>) are written seat by seat and account by account, the changes
  (\<open>zqbd\<close>) and the balances of the day and of the next (\<open>zqye\<close>) as one table.  The details of settlement
  (\<open>jsmx\<close>), which no caller asks for, are here as columns and values.
\<close>

section \<open>The transfers: gh\<close>

definition DBF_gh :: "ColumnSettingInDBF list" where
  "DBF_gh =
     [col ''Gddm'' (CHR ''C'') 10 0, col ''Gdxm'' (CHR ''C'') 8 0, col ''Bcrq'' (CHR ''C'') 8 0,
     col ''Cjbh'' (CHR ''N'') 8 0, col ''Gsdm'' (CHR ''C'') 8 0, col ''Cjsl'' (CHR ''N'') 10 0,
     col ''Bcye'' (CHR ''N'') 10 0, col ''zqdm'' (CHR ''C'') 6 0, col ''sbsj'' (CHR ''C'') 6 0,
     col ''cjsj'' (CHR ''C'') 6 0, col ''cjjg'' (CHR ''N'') 8 3, col ''cjje'' (CHR ''N'') 12 2,
     col ''sqbh'' (CHR ''C'') 10 0, col ''bs'' (CHR ''C'') 1 0, col ''mjbh'' (CHR ''C'') 5 0]"

text \<open>
  The test before the side is again on the iterator of \<open>clordid\<close>; the type of the trade is read and not used:
  the side is written as it is, its translation is commented out.
\<close>

definition gh_bs :: "db_row \<Rightarrow> 'd step" where
  "gh_bs row =
     from_row row ''clordid'' (\<lambda>v s.
       case (row ''trade_type'', row ''side'') of
         (Some t, Some side) \<Rightarrow> text_to ''bs'' side s
       | _ \<Rightarrow> Wild)"

definition gh_values1 :: "'d settle_env \<Rightarrow> db_row \<Rightarrow> 'd step list" where
  "gh_values1 e row =
     [from_row row ''security_account'' (text_to ''Gddm''), text_to ''Gdxm'' ''        '',
     from_row row ''trade_time_trans'' (sub_to 0 8 ''Bcrq''), from_row row ''id'' (long_to (se_p e) ''Cjbh''),
     from_row row ''security_seat'' (text_to ''Gsdm''), from_row row ''match_qty'' (long_to (se_p e) ''Cjsl''),
     number_to ''Bcye'' 0, from_row row ''securityid'' (text_to ''zqdm''),
     from_row row ''order_time_trans'' (sub_to 8 6 ''sbsj''),
     from_row row ''trade_time_trans'' (sub_to 8 6 ''cjsj''), from_row row ''match_price'' (li_to (se_p e) 3 ''cjjg'')]"

definition gh_values2 :: "'d settle_env \<Rightarrow> db_row \<Rightarrow> 'd step list" where
  "gh_values2 e row =
     [from_row row ''match_amount'' (li_to (se_p e) 2 ''cjje''), from_row row ''clordid'' (text_to ''sqbh''), gh_bs row,
     text_to ''mjbh'' ''simu '']"

definition DBF_Value_gh :: "'d settle_env \<Rightarrow> db_row \<Rightarrow> 'd row_values run" where
  "DBF_Value_gh e row = values_of (se_junk e) (gh_values1 e row @ gh_values2 e row)"

definition trade_rows :: string where
  "trade_rows = ''SELECT *,DATE_FORMAT(`trade_time`,'%Y%m%d%H%i%s') AS trade_time_trans, ''
     @ ''DATE_FORMAT(`order_time`,'%Y%m%d%H%i%s') AS order_time_trans ''
     @ ''FROM `order_match` WHERE trade_market=101 AND ''"

definition gh_query :: "string \<Rightarrow> string" where
  "gh_query g = trade_rows @ group_condition g @ ''AND (trade_type='' @ type_text a_trade @ '' OR trade_type='' @
     type_text margin_cash @ '' OR trade_type='' @ type_text margin_stock @ '') ORDER BY trade_time ASC''"

text \<open>The statements that are collected by a key column and written group by group.\<close>

definition write_groups ::
  "'d platform \<Rightarrow> string \<Rightarrow> ColumnSettingInDBF list \<Rightarrow> (db_row \<Rightarrow> 'd row_values run) \<Rightarrow> (string, db_row list) omap \<Rightarrow> disk \<Rightarrow>
   (int \<times> disk) option" where
  "write_groups p name cols vals m d =
     (if m = [] then Some (0, d)
      else case open_table p name cols d of (iRes, h, d1) \<Rightarrow>
        if iRes \<noteq> 0 then Some (-1, d1)
        else map_option (\<lambda>(iRes, h1, d2). (iRes, d2)) (write_seats p vals m (h, d1)))"

definition Gen_gh :: "'d settle_env \<Rightarrow> string \<Rightarrow> string \<Rightarrow> disk \<Rightarrow> (int \<times> disk) option" where
  "Gen_gh e g path d =
     (case se_query e (gh_query g) of
        None \<Rightarrow> Some (-1, d)
      | Some rows \<Rightarrow> write_groups (se_p e) (statement_name path g ''gh_'' (m_strNow e)) DBF_gh (DBF_Value_gh e)
          (group_rows ''security_seat'' rows []) d)"

section \<open>The settlement of B shares: bc1\<close>

definition bc1_columns1 :: "ColumnSettingInDBF list" where
  "bc1_columns1 =
     [col ''SSCCRC_ID'' (CHR ''C'') 15 0, col ''SSE_ORDER'' (CHR ''C'') 16 0, col ''SSE_REF'' (CHR ''C'') 16 0,
     col ''INV_CODE'' (CHR ''C'') 10 0, col ''SEC_CODE'' (CHR ''C'') 6 0, col ''TRADE_DATE'' (CHR ''C'') 8 0,
     col ''BS'' (CHR ''C'') 1 0, col ''PRICE'' (CHR ''N'') 8 3, col ''VOLUME'' (CHR ''N'') 10 0,
     col ''TRADE_VAL'' (CHR ''N'') 13 2, col ''ORDER_TIME'' (CHR ''C'') 6 0, col ''TRADE_TIME'' (CHR ''C'') 6 0,
     col ''SEAT_ID'' (CHR ''C'') 5 0]"

definition bc1_columns2 :: "ColumnSettingInDBF list" where
  "bc1_columns2 =
     [col ''TRADE_CP'' (CHR ''C'') 5 0, col ''SETTLE_CP'' (CHR ''C'') 5 0, col ''CP_ORDER'' (CHR ''C'') 16 0,
     col ''SETTLEDATE'' (CHR ''C'') 8 0, col ''STAMP_DUTY'' (CHR ''N'') 12 2, col ''SSE_CHARGE'' (CHR ''N'') 12 2,
     col ''TRANSF_FEE'' (CHR ''N'') 12 2, col ''CLEAR_FEE'' (CHR ''N'') 12 2, col ''OTHER_FEE'' (CHR ''N'') 12 2,
     col ''TOTAL_FEE'' (CHR ''N'') 12 2, col ''SETTLE_AMT'' (CHR ''N'') 13 2]"

definition DBF_bc1 :: "ColumnSettingInDBF list" where
  "DBF_bc1 = bc1_columns1 @ bc1_columns2"

text \<open>
  The iterator of the side is used without a test; the settlement day is the third after the order;
  a value is copied.
\<close>

definition need_side :: "db_row \<Rightarrow> (string \<Rightarrow> 'd step) \<Rightarrow> 'd step" where
  "need_side row f s = (case row ''side'' of None \<Rightarrow> Wild | Some side \<Rightarrow> f side s)"

definition settle_day :: "'d settle_env \<Rightarrow> string \<Rightarrow> 'd step" where
  "settle_day e v s =
     (case se_date e (take 8 v) of None \<Rightarrow> Threw | Some d \<Rightarrow> text_to ''SETTLEDATE'' (se_iso e (d + 3)) s)"

definition copy_value :: "'d platform \<Rightarrow> string \<Rightarrow> string \<Rightarrow> 'd step" where
  "copy_value p c c2 s =
     (let v = value_at p c (filled s) in Fine (s\<lparr>filled := omap_put c2 v (omap_put c v (filled s))\<rparr>))"

definition bc1_values1 :: "'d settle_env \<Rightarrow> db_row \<Rightarrow> 'd step list" where
  "bc1_values1 e row =
     [from_row row ''id'' (text_to ''SSCCRC_ID''), from_row row ''clordid'' (text_to ''SSE_ORDER''),
     from_row row ''orderid'' (text_to ''SSE_REF''), from_row row ''security_account'' (text_to ''INV_CODE''),
     from_row row ''securityid'' (text_to ''SEC_CODE''),
     from_row row ''trade_time_trans'' (sub_to 0 8 ''TRADE_DATE''),
     from_row row ''side'' (text_to ''BS''),
     from_row row ''match_price'' (li_to (se_p e) 3 ''PRICE'')]"

definition bc1_values2 :: "'d settle_env \<Rightarrow> db_row \<Rightarrow> 'd step list" where
  "bc1_values2 e row =
     [from_row row ''match_qty'' (\<lambda>v. need_side row (\<lambda>side. atof_to (se_p e) ''VOLUME'' (minus_if (side = ''2'') v))),
     from_row row ''match_amount'' (\<lambda>v. need_side row (\<lambda>side. li_to (se_p e) 2 ''TRADE_VAL''
        (minus_if (side = STEPMSG_SIDE_SELL_S \<or> side = STEPMSG_SIDE_SELL_2) v))),
     from_row row ''order_time_trans'' (sub_to 8 6 ''ORDER_TIME''),
     from_row row ''trade_time_trans'' (sub_to 8 6 ''TRADE_TIME''),
     from_row row ''security_seat'' (text_to ''SEAT_ID''), from_row row ''clordid'' (text_to ''CP_ORDER''),
     from_row row ''order_time_trans'' (settle_day e), double_to ''STAMP_DUTY'' (zero_of (se_p e)), again ''SSE_CHARGE'',
     again ''TRANSF_FEE'', again ''CLEAR_FEE'', again ''OTHER_FEE'', again ''TOTAL_FEE'',
     copy_value (se_p e) ''TRADE_VAL'' ''SETTLE_AMT'']"

definition DBF_Value_bc1 :: "'d settle_env \<Rightarrow> db_row \<Rightarrow> 'd row_values run" where
  "DBF_Value_bc1 e row = values_of (se_junk e) (bc1_values1 e row @ bc1_values2 e row)"

definition bc1_query :: "string \<Rightarrow> string" where
  "bc1_query g = trade_rows @ group_condition g @ ''AND trade_type='' @ type_text b_trade @ '' ORDER BY trade_time ASC''"

definition Gen_bc1 :: "'d settle_env \<Rightarrow> string \<Rightarrow> string \<Rightarrow> disk \<Rightarrow> (int \<times> disk) option" where
  "Gen_bc1 e g path d =
     (case se_query e (bc1_query g) of
        None \<Rightarrow> Some (-1, d)
      | Some rows \<Rightarrow> write_groups (se_p e) (statement_name path g ''bc1_'' (m_strNow e)) DBF_bc1 (DBF_Value_bc1 e)
          (group_rows ''security_account'' rows []) d)"

section \<open>The changes: zqbd\<close>

definition DBF_zqbd :: "ColumnSettingInDBF list" where
  "DBF_zqbd =
     [col ''SCDM'' (CHR ''C'') 2 0, col ''QSBH'' (CHR ''C'') 8 0, col ''ZQZH'' (CHR ''C'') 10 0,
     col ''XWH'' (CHR ''C'') 10 0, col ''ZQDM'' (CHR ''C'') 6 0, col ''ZQLB'' (CHR ''C'') 2 0,
     col ''LTLX'' (CHR ''C'') 1 0, col ''QYLB'' (CHR ''C'') 2 0, col ''GPNF'' (CHR ''C'') 4 0,
     col ''BDSL'' (CHR ''C'') 16 0, col ''BDLX'' (CHR ''C'') 3 0, col ''BDRQ'' (CHR ''C'') 8 0,
     col ''SL'' (CHR ''C'') 16 0, col ''BH'' (CHR ''C'') 20 0, col ''BY'' (CHR ''C'') 20 0]"

text \<open>Most values are put into the cell and not into the map.\<close>

definition zqbd_values :: "'d settle_env \<Rightarrow> db_row \<Rightarrow> 'd step list" where
  "zqbd_values e row =
     [set_text ''01'', from_row row ''security_account'' set_text, from_row row ''security_seat'' set_text,
      from_row row ''securityid'' set_text, set_text ''PT'', set_text ''0'',
      from_row row ''match_qty'' (long_to (se_p e) ''BDSL''), from_row row ''trade_time_trans'' (sub_to 0 8 ''BDRQ'')]"

definition DBF_Value_zqbd :: "'d settle_env \<Rightarrow> db_row \<Rightarrow> 'd row_values run" where
  "DBF_Value_zqbd e row = values_of (se_junk e) (zqbd_values e row)"

definition zqbd_query :: "string \<Rightarrow> string" where
  "zqbd_query g = ''SELECT *,DATE_FORMAT(`trade_time`,'%Y%m%d%H%i%s.000') AS oper_time '' @
     ''FROM `order_match` WHERE trade_market=101 AND '' @ group_condition g @ ''ORDER BY trade_time ASC''"

definition Gen_zqbd :: "'d settle_env \<Rightarrow> string \<Rightarrow> string \<Rightarrow> disk \<Rightarrow> (int \<times> disk) option" where
  "Gen_zqbd e g path d =
     (case se_query e (zqbd_query g) of
        None \<Rightarrow> Some (-1, d)
      | Some rows \<Rightarrow>
          write_if_rows (se_p e) (statement_name path g ''zqbd_'' (m_strNow e)) DBF_zqbd (DBF_Value_zqbd e) rows d)"

section \<open>The balances: zqye\<close>

definition DBF_zqye :: "ColumnSettingInDBF list" where
  "DBF_zqye =
     [col ''SCDM'' (CHR ''C'') 2 0, col ''QSBH'' (CHR ''C'') 8 0, col ''ZQZH'' (CHR ''C'') 10 0,
     col ''XWH'' (CHR ''C'') 5 0, col ''ZQDM'' (CHR ''C'') 6 0, col ''ZQLB'' (CHR ''C'') 2 0,
     col ''LTLX'' (CHR ''C'') 1 0, col ''QYLB'' (CHR ''C'') 2 0, col ''GPNF'' (CHR ''C'') 4 0,
     col ''YE1'' (CHR ''C'') 16 0, col ''YE2'' (CHR ''C'') 16 0, col ''BY'' (CHR ''C'') 12 0,
     col ''JZRQ'' (CHR ''C'') 8 0]"

definition zqye_values :: "'d settle_env \<Rightarrow> db_row \<Rightarrow> 'd step list" where
  "zqye_values e row =
     [text_to ''SCDM'' ''01'', from_row row ''id'' (text_to ''QSBH''), from_row row ''account_id'' (text_to ''ZQZH''),
     from_row row ''stock_id'' (text_to ''ZQDM''), text_to ''ZQLB'' ''PT'', text_to ''LTLX'' ''N'',
     text_to ''GPNF'' ''0'', from_row row ''stock_balance'' (text_to ''YE1''), text_to ''YE2'' ''0'',
     from_row row ''time'' (sub_to 0 8 ''JZRQ'')]"

definition DBF_Value_zqye :: "'d settle_env \<Rightarrow> bool \<Rightarrow> db_row \<Rightarrow> 'd row_values run" where
  "DBF_Value_zqye e bIsNextDay row =
     (case values_of (se_junk e) (zqye_values e row) of
        Fine m \<Rightarrow> Fine (if bIsNextDay
          then add_columns (se_p e) row ''YE1'' [''stock_auction_purchase_balance'', ''stock_staple_purchase_balance'',
            ''stock_etf_redemption_balance'', ''stock_available''] m
          else m)
      | r \<Rightarrow> r)"

definition zqye_query :: string where
  "zqye_query = ''SELECT *,DATE_FORMAT(`oper_time`,'%Y%m%d%H%i%s.000') AS time '' @
     ''FROM `stock_asset` WHERE trade_market=101 '' @ ''UNION '' @
     ''SELECT *, DATE_FORMAT(`oper_time`,'%Y%m%d%H%i%s.000') AS time '' @
     ''FROM `stock_etf_asset` WHERE trade_market = 101 '' @ ''ORDER BY oper_time ASC''"

definition Gen_DBF_zqye :: "'d settle_env \<Rightarrow> db_row list \<Rightarrow> string \<Rightarrow> bool \<Rightarrow> disk \<Rightarrow> (int \<times> disk) option" where
  "Gen_DBF_zqye e rows name bIsNextDay d = write_table (se_p e) name DBF_zqye (DBF_Value_zqye e bIsNextDay) rows d"

definition Gen_zqye_inTwoDays :: "'d settle_env \<Rightarrow> string \<Rightarrow> disk \<Rightarrow> (int \<times> disk) option" where
  "Gen_zqye_inTwoDays e path d =
     (case se_query e zqye_query of
        None \<Rightarrow> Some (-1, d)
      | Some rows \<Rightarrow>
          if rows = [] then Some (0, d)
          else then_also (Gen_DBF_zqye e rows (path @ ''/zqye_'' @ m_strNow e @ ''.dbf'') False)
                 (Gen_DBF_zqye e rows (path @ ''/zqye_'' @ m_strNextDay e @ ''.dbf'') True) d)"

section \<open>The details of settlement: jsmx\<close>

definition jsmx_columns1 :: "ColumnSettingInDBF list" where
  "jsmx_columns1 =
     [col ''SCDM'' (CHR ''C'') 2 0, col ''JLLX'' (CHR ''C'') 3 0, col ''JYFS'' (CHR ''C'') 3 0,
     col ''JSFS'' (CHR ''C'') 3 0, col ''YWLX'' (CHR ''C'') 3 0, col ''QSBZ'' (CHR ''C'') 3 0,
     col ''GHLX'' (CHR ''C'') 3 0, col ''JSBH'' (CHR ''C'') 16 0, col ''CJBH'' (CHR ''C'') 16 0,
     col ''SQBH'' (CHR ''C'') 16 0, col ''WTBH'' (CHR ''C'') 16 0, col ''JYRQ'' (CHR ''C'') 8 0,
     col ''QSRQ'' (CHR ''C'') 8 0, col ''JSRQ'' (CHR ''C'') 8 0, col ''QTRQ'' (CHR ''C'') 8 0,
     col ''WTSJ'' (CHR ''C'') 6 0, col ''CJSJ'' (CHR ''C'') 6 0, col ''XWH1'' (CHR ''C'') 1 0,
     col ''XWH2'' (CHR ''C'') 1 0, col ''XWHY'' (CHR ''C'') 8 0]"

definition jsmx_columns2 :: "ColumnSettingInDBF list" where
  "jsmx_columns2 =
     [col ''JSHY'' (CHR ''C'') 8 0, col ''TGHY'' (CHR ''C'') 8 0, col ''ZQZH'' (CHR ''C'') 10 0,
     col ''ZQDM1'' (CHR ''C'') 6 0, col ''ZQDM2'' (CHR ''C'') 6 0, col ''ZQLB'' (CHR ''C'') 2 0,
     col ''LTLX'' (CHR ''C'') 1 0, col ''QYLB'' (CHR ''C'') 2 0, col ''GPNF'' (CHR ''C'') 4 0,
     col ''MMBZ'' (CHR ''C'') 1 0, col ''SL'' (CHR ''C'') 16 0, col ''CJSL'' (CHR ''C'') 16 0,
     col ''ZJZH'' (CHR ''C'') 25 0, col ''BZ'' (CHR ''C'') 3 0, col ''JG1'' (CHR ''C'') 17 0,
     col ''JG2'' (CHR ''C'') 17 0, col ''QSJE'' (CHR ''C'') 19 0, col ''YHS'' (CHR ''C'') 17 0,
     col ''JSF'' (CHR ''C'') 17 0, col ''GHF'' (CHR ''C'') 17 0, col ''ZGF'' (CHR ''C'') 17 0]"

definition jsmx_columns3 :: "ColumnSettingInDBF list" where
  "jsmx_columns3 =
     [col ''SXF'' (CHR ''C'') 17 0, col ''QTJE1'' (CHR ''C'') 19 0, col ''QTJE2'' (CHR ''C'') 19 0,
     col ''QTJE3'' (CHR ''C'') 19 0, col ''SJSF'' (CHR ''C'') 19 0, col ''JGDM'' (CHR ''C'') 4 0,
     col ''FJSM'' (CHR ''C'') 40 0]"

definition SH_DBF_jsmx00001 :: "ColumnSettingInDBF list" where
  "SH_DBF_jsmx00001 = jsmx_columns1 @ jsmx_columns2 @ jsmx_columns3"

definition jsmx_values1 :: "'d settle_env \<Rightarrow> db_row \<Rightarrow> 'd step list" where
  "jsmx_values1 e row =
     [text_to ''SCDM'' ''01'', text_to ''JLLX'' ''001'', text_to ''JYFS'' ''001'', text_to ''JSFS'' ''001'',
     text_to ''YWLX'' ''001'', text_to ''QSBZ'' ''060'', text_to ''GHLX'' ''00A'',
     from_row row ''execid'' (text_to ''JSBH''), again ''CJBH'', from_row row ''clordid'' (text_to ''SQBH''),
     again ''WTBH'', from_row row ''oper_time'' (sub_to 0 8 ''JYRQ''), again ''QSRQ'', again ''JSRQ'',
     from_row row ''oper_time'' (sub_to 7 6 ''WTSJ''), again ''CJSJ'',
     from_row row ''security_seat'' (text_to ''XWH1''), again ''XWH2'']"

definition jsmx_values2 :: "'d settle_env \<Rightarrow> db_row \<Rightarrow> 'd step list" where
  "jsmx_values2 e row =
     [from_row row ''security_account'' (text_to ''ZQZH''), from_row row ''securityid'' (text_to ''ZQDM1''),
     text_to ''ZQLB'' ''PT'', text_to ''LTLX'' ''0'',
     from_row row ''side'' (text_to ''MMBZ''),
     with_side row ''match_qty'' (\<lambda>side v. text_to ''SL'' (minus_if (side = ''2'') v)), again ''CJSL'',
     text_to ''BZ'' ''RMB'', from_row row ''match_price'' (yuan_to 9 ''JG1''), again ''JG2'']"

definition jsmx_values3 :: "'d settle_env \<Rightarrow> db_row \<Rightarrow> 'd step list" where
  "jsmx_values3 e row =
     [with_side row ''match_amount'' (\<lambda>side. yuan_to 2 ''QSJE''), text_to ''YHS'' ''0.00'',
     text_to ''JSF'' ''0.00'', text_to ''GHF'' ''0.00'', text_to ''ZGF'' ''0.00'',
     with_side row ''match_amount'' (\<lambda>side. yuan_to 2 ''SJSF''), text_to ''JGDM'' ''0000'']"

text \<open>The map is not cleared: a column that is missing keeps the value of the row before.\<close>

definition SH_DBF_Value_jsmx00001 :: "'d settle_env \<Rightarrow> db_row \<Rightarrow> 'd row_values \<Rightarrow> 'd row_values run" where
  "SH_DBF_Value_jsmx00001 e row m =
     (case run_steps (jsmx_values1 e row @ jsmx_values2 e row @ jsmx_values3 e row) \<lparr>cell = se_junk e, filled = m\<rparr> of
        Fine s \<Rightarrow> Fine (filled s) | Skip \<Rightarrow> Skip | Threw \<Rightarrow> Threw | Wild \<Rightarrow> Wild)"

text \<open>
  Here the file is opened for each seat, and the values of a row stay in the map for the next row of the
  seat.  No caller asks for this statement.
\<close>

fun write_carried ::
  "'d platform \<Rightarrow> (db_row \<Rightarrow> 'd row_values \<Rightarrow> 'd row_values run) \<Rightarrow> db_row list \<Rightarrow> 'd row_values \<Rightarrow> TgwDBFOperHelper \<times> disk \<Rightarrow>
   (int \<times> TgwDBFOperHelper \<times> disk) option" where
  "write_carried p vals [] m s = Some (0, s)"
| "write_carried p vals (r # rs) m s =
     (case vals r m of
        Wild \<Rightarrow> None
      | Threw \<Rightarrow> Some (-1, s)
      | Skip \<Rightarrow> Some (-1, s)
      | Fine vs \<Rightarrow>
          (case Dbf_Append p vs s of
             None \<Rightarrow> None
           | Some (iRes, s1) \<Rightarrow> if iRes \<noteq> 0 then Some (-1, s1) else write_carried p vals rs vs s1))"

fun write_seat_files ::
  "'d platform \<Rightarrow> string \<Rightarrow> ColumnSettingInDBF list \<Rightarrow> (db_row \<Rightarrow> 'd row_values \<Rightarrow> 'd row_values run) \<Rightarrow>
   (string, db_row list) omap \<Rightarrow> disk \<Rightarrow> (int \<times> disk) option" where
  "write_seat_files p name cols vals [] d = Some (0, d)"
| "write_seat_files p name cols vals ((seat, rows) # m) d =
     (case open_table p name cols d of (iRes, h, d1) \<Rightarrow>
        if iRes \<noteq> 0 then Some (-1, d1)
        else case write_carried p vals rows [] (h, d1) of
            None \<Rightarrow> None
          | Some (iRes2, h2, d2) \<Rightarrow> if iRes2 \<noteq> 0 then Some (-1, d2) else write_seat_files p name cols vals m d2)"

definition SH_Gen_jsmx00001 :: "'d settle_env \<Rightarrow> string \<Rightarrow> disk \<Rightarrow> (int \<times> disk) option" where
  "SH_Gen_jsmx00001 e path d =
     (case se_query e (trade_rows @ ''trade_type='' @ type_text a_trade @ '' ORDER BY trade_time ASC'') of
        None \<Rightarrow> Some (-1, d)
      | Some rows \<Rightarrow> write_seat_files (se_p e) (path @ [CHR 0x5C] @ ''A'' @ [CHR 0x5C] @ ''jsmx.dbf'') SH_DBF_jsmx00001
          (SH_DBF_Value_jsmx00001 e) (group_rows ''security_seat'' rows []) d)"

section \<open>The statements of a settlement\<close>

definition SH_MakeSettlementDetails :: "'d settle_env \<Rightarrow> string \<Rightarrow> string \<Rightarrow> disk \<Rightarrow> (int \<times> disk) option" where
  "SH_MakeSettlementDetails e g path =
     then_also (Gen_gh e g path) (then_also (Gen_bc1 e g path) (Gen_zqbd e g path))"

definition SH_MakeSettlementSummary :: "'d settle_env \<Rightarrow> string \<Rightarrow> disk \<Rightarrow> (int \<times> disk) option" where
  "SH_MakeSettlementSummary e path d =
     (case Gen_zqye_inTwoDays e path d of None \<Rightarrow> None | Some (iRes, d1) \<Rightarrow> Some (if iRes \<noteq> 0 then -1 else 0, d1))"

section \<open>What the statements write\<close>

lemmas value_defs = gh_values1_def gh_values2_def bc1_values1_def bc1_values2_def zqbd_values_def zqye_values_def

lemma writes_gh_bs [writes_intros]: "''bs'' \<in> cs \<Longrightarrow> writes cs (gh_bs row)"
  by (auto simp: writes_def gh_bs_def from_row_def text_to_def again_def split: option.splits)

lemma typed_gh_bs [typed_intros]: "typed (gh_bs row)"
  by (auto simp: typed_def gh_bs_def from_row_def text_to_def again_def known_type_put split: option.splits)

lemma gh_names: "names DBF_gh = {''Gddm'', ''Gdxm'', ''Bcrq'', ''Cjbh'', ''Gsdm'', ''Cjsl'', ''Bcye'', ''zqdm'', ''sbsj'', ''cjsj'',
    ''cjjg'', ''cjje'', ''sqbh'', ''bs'', ''mjbh''}"
  by (simp add: names_def DBF_gh_def col_def)

lemma gh_values_known:
  assumes "DBF_Value_gh e row = Fine vs"
  shows "fst ` set vs \<subseteq> names DBF_gh" "known_type vs"
proof -
  have "list_all (writes (names DBF_gh)) (gh_values1 e row @ gh_values2 e row)"
    unfolding gh_values1_def gh_values2_def by (simp, intro conjI writes_intros; simp add: gh_names)
  then show "fst ` set vs \<subseteq> names DBF_gh" using values_of_writes assms unfolding DBF_Value_gh_def by blast
  have "list_all typed (gh_values1 e row @ gh_values2 e row)"
    unfolding gh_values1_def gh_values2_def by (simp, intro conjI typed_intros)
  then show "known_type vs" using values_of_typed assms unfolding DBF_Value_gh_def by blast
qed

lemma gh_schema_ok: "schema_ok DBF_gh"
  by code_simp

lemma gh_rows_fit:
  assumes "list_all2 (\<lambda>r vs. DBF_Value_gh e r = Fine vs) rows vss" "\<forall>vs\<in>set vss. prints_short p DBF_gh vs"
  shows "\<forall>vs\<in>set vss. \<forall>x\<in>set vs. fits p (layout 0 DBF_gh) x"
proof
  fix vs assume vs: "vs \<in> set vss"
  then obtain i where "i < length vss" "vs = vss ! i" by (auto simp: in_set_conv_nth)
  then have "DBF_Value_gh e (rows ! i) = Fine vs" using list_all2_nthD2 [OF assms(1)] by simp
  note known = gh_values_known [OF this]
  show "\<forall>x\<in>set vs. fits p (layout 0 DBF_gh) x" by (rule fits_known [OF known]) (use assms(2) vs in blast)
qed


lemma gh_two_seats:
  assumes "se_query e (gh_query g) = Some rows"
    "group_rows ''security_seat'' rows [] = (seat, trades) # (seat2, r # trades2) # m"
    "good_platform (se_p e) (statement_name path g ''gh_'' (m_strNow e))"
    "table_or_new DBF_gh (d (statement_name path g ''gh_'' (m_strNow e)))"
    "length (old_records DBF_gh (d (statement_name path g ''gh_'' (m_strNow e)))) + length trades < 2 ^ 32"
    "list_all2 (\<lambda>r vs. DBF_Value_gh e r = Fine vs) trades vss" "\<forall>vs\<in>set vss. prints_short (se_p e) DBF_gh vs"
    "DBF_Value_gh e r = Fine vs"
  shows "\<exists>f. Gen_gh e g path d = Some (-1, d(statement_name path g ''gh_'' (m_strNow e) \<mapsto> f)) \<and>
     table_records DBF_gh f = old_records DBF_gh (d (statement_name path g ''gh_'' (m_strNow e))) @ map (row_bytes (se_p e) DBF_gh) vss"
proof -
  let ?n = "statement_name path g ''gh_'' (m_strNow e)"
  have "length (old_records DBF_gh (d ?n)) + length vss < 2 ^ 32" using assms(5,6) by (simp add: list_all2_lengthD)
  then obtain h1 d1 h2 f where w: "open_table (se_p e) ?n DBF_gh d = (0, h1, d1)"
    "append_all (se_p e) vss (h1, d1) = Some (0, h2, d(?n \<mapsto> f))"
    "table_records DBF_gh f = old_records DBF_gh (d ?n) @ map (row_bytes (se_p e) DBF_gh) vss"
    using written_table [of "se_p e" ?n DBF_gh d vss, OF assms(3) gh_schema_ok assms(4) _ gh_rows_fit [OF assms(6,7)]] by metis
  obtain h3 where "write_seats (se_p e) (DBF_Value_gh e) ((seat, trades) # (seat2, r # trades2) # m) (h1, d1) =
      Some (-1, h3, d(?n \<mapsto> f))"
    using write_seats_two [OF assms(6) w(2) assms(8)] by blast
  then have "Gen_gh e g path d = Some (-1, d(?n \<mapsto> f))"
    by (simp add: Gen_gh_def assms(1,2) write_groups_def w(1) del: write_seats.simps)
  with w(3) show ?thesis by blast
qed

text \<open>
  With the trades of two seats it fails: the writer was closed after the first seat, so the first trade of
  the second is refused and only the trades of the first are in the file.
\<close>

theorem gh_second_seat_fails:
  assumes "se_query e (gh_query g) = Some rows"
    "group_rows ''security_seat'' rows [] = (seat, trades) # (seat2, r # trades2) # m"
    "good_platform (se_p e) (statement_name path g ''gh_'' (m_strNow e))"
    "table_or_new DBF_gh (d (statement_name path g ''gh_'' (m_strNow e)))"
    "length (old_records DBF_gh (d (statement_name path g ''gh_'' (m_strNow e)))) + length trades < 2 ^ 32"
    "list_all2 (\<lambda>r vs. DBF_Value_gh e r = Fine vs) trades vss" "\<forall>vs\<in>set vss. prints_short (se_p e) DBF_gh vs"
    "DBF_Value_gh e r = Fine vs"
  shows "\<exists>f. Gen_gh e g path d = Some (-1, d(statement_name path g ''gh_'' (m_strNow e) \<mapsto> f)) \<and>
     table_records DBF_gh f = old_records DBF_gh (d (statement_name path g ''gh_'' (m_strNow e))) @ map (row_bytes (se_p e) DBF_gh) vss"
  by (rule gh_two_seats [of e g rows seat trades seat2 r trades2 m path d vss vs]) (rule assms)+

lemma zqye_balance:
  assumes "DBF_Value_zqye e False row = Fine m" "row ''stock_balance'' = Some b"
  shows "\<exists>v. map_of m ''YE1'' = Some v \<and> d_iType v = 0 \<and> d_strValue v = b" "omap_wf m"
proof -
  have v: "values_of (se_junk e) (zqye_values e row) = Fine m"
    using assms(1) by (auto simp: DBF_Value_zqye_def split: run.splits)
  show "\<exists>v. map_of m ''YE1'' = Some v \<and> d_iType v = 0 \<and> d_strValue v = b"
    using v assms(2)
    by (auto simp: values_of_def zqye_values_def from_row_def text_to_def again_def sub_to_def split: option.splits if_splits)
  have "list_all (writes UNIV) (zqye_values e row)"
    unfolding zqye_values_def by (simp, intro conjI writes_intros; simp)
  then show "omap_wf m" using values_of_writes v by blast
qed

lemma add_columns_image:
  assumes "omap_wf m" "map_of m c = Some v" "d_iType v = 0"
  shows "image p fs (add_columns p2 row c ks m) r = image p fs m r"
  using assms
proof (induction ks arbitrary: m v)
  case (Cons k ks)
  show ?case
  proof (cases "row k")
    case None
    then show ?thesis using Cons.IH [OF Cons.prems] by simp
  next
    case (Some t)
    define v1 where "v1 = v\<lparr>d_dValue := w_plus (p_ops p2) (d_dValue v) (snd (String2Double_atof (p_ops p2) t))\<rparr>"
    have m1: "add_number p2 c (snd (String2Double_atof (p_ops p2) t)) m = omap_put c v1 m"
      by (simp add: add_number_def value_at_def Cons.prems(2) v1_def)
    have "image p fs (add_columns p2 row c ks (omap_put c v1 m)) r = image p fs (omap_put c v1 m) r"
      by (rule Cons.IH [where v = v1]) (use Cons.prems in \<open>auto simp: v1_def\<close>)
    also have "\<dots> = image p fs m r"
      by (rule image_same_print [OF Cons.prems(1,2)]) (simp add: v1_def printed_def Cons.prems(3) fun_eq_iff)
    finally show ?thesis by (simp add: Some m1)
  qed
qed simp

text \<open>
  The balances of the next day are those of the day: what was bought is added to a number, but the
  balance is a text, and the record of the next day is the same.
\<close>

theorem next_day_balance_same:
  assumes "DBF_Value_zqye e False row = Fine m" "row ''stock_balance'' = Some b"
  shows "\<exists>m1. DBF_Value_zqye e True row = Fine m1 \<and> row_bytes p DBF_zqye m1 = row_bytes p DBF_zqye m"
proof -
  have "values_of (se_junk e) (zqye_values e row) = Fine m"
    using assms(1) by (auto simp: DBF_Value_zqye_def split: run.splits)
  moreover obtain v where "map_of m ''YE1'' = Some v" "d_iType v = 0" "omap_wf m" using zqye_balance [OF assms] by blast
  ultimately show ?thesis by (auto simp: DBF_Value_zqye_def row_bytes_def simp del: add_columns.simps intro!: add_columns_image)
qed

text \<open>
  The statement of changes carries only the quantity of a trade: the account, the security and the
  other values are put into the cell but never into the row, and the query gives the time under another
  name than the one that is read.  Every column but \<open>BDSL\<close> is blank.
\<close>

theorem changes_only_quantity:
  assumes "DBF_Value_zqbd e row = Fine vs" "row ''trade_time_trans'' = None" "f \<in> set (layout 0 DBF_zqbd)" "fi_name f \<noteq> ''BDSL''"
  shows "read_at (1 + fi_offset f) (fi_width f) (row_bytes p DBF_zqbd vs) = replicate (fi_width f) (CHR '' '')"
proof -
  have keys: "fst ` set vs \<subseteq> {''BDSL''}"
    using assms(1,2)
    by (auto simp: DBF_Value_zqbd_def values_of_def zqbd_values_def from_row_def set_text_def long_to_def number_to_def again_def
        split: option.splits)
  have other: "FindFld ''BDSL'' (layout 0 DBF_zqbd) \<noteq> Some f"
    using assms(4) by (simp add: FindFld_def DBF_zqbd_def col_def same_name_def c_str_def lower_def) auto
  have b: "1 + fi_offset g + fi_width g \<le> record_width DBF_zqbd" if "g \<in> set (layout 0 DBF_zqbd)" for g
    using layout_bounds [OF that] by (simp add: record_width_def)
  have "read_at (1 + fi_offset f) (fi_width f) (row_bytes p DBF_zqbd vs) =
      read_at (1 + fi_offset f) (fi_width f) (replicate (record_width DBF_zqbd) (CHR '' ''))"
    unfolding row_bytes_def
    by (rule read_image_other) (use keys other assms(3) b layout_disjoint [OF assms(3)] in \<open>auto dest!: subsetD [OF keys, OF imageI]\<close>)
  also have "\<dots> = replicate (fi_width f) (CHR '' '')" using b [OF assms(3)] by (simp add: read_at_def min_def)
  finally show ?thesis .
qed

section \<open>The properties at sample values\<close>

definition sample_trade :: "string \<Rightarrow> db_row" where
  "sample_trade seat = [''security_account'' \<mapsto> ''A123'', ''security_seat'' \<mapsto> seat, ''match_qty'' \<mapsto> ''100'', ''stock_balance'' \<mapsto> ''700'']"

definition sample_gh_values :: "string \<Rightarrow> int row_values" where
  "sample_gh_values seat =
     (case DBF_Value_gh (sample_settle []) (sample_trade seat) of Fine vs \<Rightarrow> vs | _ \<Rightarrow> [])"

lemma sample_gh:
  "DBF_Value_gh (sample_settle rows) (sample_trade seat) = Fine (sample_gh_values seat)"
proof -
  have "DBF_Value_gh (sample_settle rows) = DBF_Value_gh (sample_settle [])"
    by (simp add: fun_eq_iff DBF_Value_gh_def gh_values1_def gh_values2_def sample_settle_def)
  moreover have "\<exists>vs. DBF_Value_gh (sample_settle []) (sample_trade seat) = Fine vs"
    by (simp add: DBF_Value_gh_def gh_values1_def gh_values2_def values_of_def from_row_def sample_trade_def gh_bs_def
        text_to_def long_to_def number_to_def again_def)
  ultimately show ?thesis by (auto simp: sample_gh_values_def)
qed

lemma sample_gh_short: "prints_short (sample_platform True) DBF_gh (sample_gh_values ''10001'')"
  by code_simp

lemma sample_gh_name: "good_platform (se_p (sample_settle rows)) (statement_name ''s'' [] ''gh_'' (m_strNow (sample_settle rows)))"
  by (simp add: good_platform_def sample_settle_def sample_platform_def statement_name_def group_prefix_def c_str_def)


theorem gh_second_seat_fails_witness:
  "\<exists>f. Gen_gh (sample_settle [sample_trade ''10001'', sample_trade ''10002'']) [] ''s'' Map.empty =
       Some (-1, [statement_name ''s'' [] ''gh_'' ''20180101'' \<mapsto> f]) \<and>
     table_records DBF_gh f = [row_bytes (sample_platform True) DBF_gh (sample_gh_values ''10001'')]"
proof -
  let ?e = "sample_settle [sample_trade ''10001'', sample_trade ''10002'']"
  have q: "se_query ?e (gh_query []) = Some [sample_trade ''10001'', sample_trade ''10002'']" "m_strNow ?e = ''20180101''"
    "se_p ?e = sample_platform True"
    by (simp_all add: sample_settle_def)
  have g: "group_rows ''security_seat'' [sample_trade ''10001'', sample_trade ''10002''] [] =
      [(''10001'', [sample_trade ''10001'']), (''10002'', [sample_trade ''10002''])]"
    by (simp add: sample_trade_def less_char_def)
  show ?thesis
    using gh_second_seat_fails [OF q(1) g sample_gh_name, of Map.empty "[sample_gh_values ''10001'']" "sample_gh_values ''10002''"]
    by (simp add: table_or_new_def old_records_def q sample_gh sample_gh_short)
qed

theorem next_day_balance_same_witness:
  "\<exists>m m1. DBF_Value_zqye (sample_settle []) False (sample_trade []) = Fine m \<and>
     DBF_Value_zqye (sample_settle []) True (sample_trade []) = Fine m1 \<and>
     row_bytes (sample_platform True) DBF_zqye m1 = row_bytes (sample_platform True) DBF_zqye m"
proof -
  have "\<exists>m. DBF_Value_zqye (sample_settle []) False (sample_trade []) = Fine m"
    by (simp add: DBF_Value_zqye_def zqye_values_def values_of_def from_row_def sample_trade_def text_to_def again_def)
  moreover have "sample_trade [] ''stock_balance'' = Some ''700''" by (simp add: sample_trade_def)
  ultimately show ?thesis using next_day_balance_same by blast
qed

theorem changes_only_quantity_witness:
  "\<exists>vs. DBF_Value_zqbd (sample_settle []) (sample_trade []) = Fine vs \<and>
     read_at 1 2 (row_bytes (sample_platform True) DBF_zqbd vs) = ''  ''"
proof -
  have "\<exists>vs. DBF_Value_zqbd (sample_settle []) (sample_trade []) = Fine vs"
    by (simp add: DBF_Value_zqbd_def zqbd_values_def values_of_def from_row_def sample_trade_def set_text_def long_to_def
        number_to_def again_def)
  then obtain vs where vs: "DBF_Value_zqbd (sample_settle []) (sample_trade []) = Fine vs" by blast
  have "read_at (1 + 0) 2 (row_bytes (sample_platform True) DBF_zqbd vs) = replicate 2 (CHR '' '')"
    using changes_only_quantity [OF vs, of "\<lparr>fi_name = ''SCDM'', fi_type = CHR ''C'', fi_offset = 0, fi_width = 2, fi_dec = 0\<rparr>"]
    by (simp add: sample_trade_def DBF_zqbd_def col_def)
  with vs show ?thesis by (auto simp: numeral_2_eq_2)
qed

end
