(* ===== verification/SzSettle.thy ===== *)
theory SzSettle
  imports SettleTable
begin

text \<open>
  \<open>simutgw/settlement/SZSettle.cpp\<close> and \<open>SettleUtil.cpp\<close>: the settlement statements of Shenzhen.  The
  details of clearing (\<open>SJSMX1\<close> for A shares and funds, \<open>SJSMX2\<close> for B shares), the results (\<open>SJSJG\<close>), and the
  balances of the day and of the next (\<open>SJSDZ\<close>).  The statistics (\<open>SJSTJ\<close>), which no caller asks for, are here as
  columns and values.
\<close>

definition IsSzEtf :: "string \<Rightarrow> bool" where
  "IsSzEtf s \<longleftrightarrow> 159901 \<le> snd (String2Int_atoi s) \<and> snd (String2Int_atoi s) \<le> 159999"

section \<open>What a trade is\<close>

text \<open>
  The type of the trade as a number; a creation or redemption of an ETF is the ETF itself when the row
  names no second security, and a component otherwise.
\<close>

definition trade_type_of :: "db_row \<Rightarrow> int" where
  "trade_type_of row = (case row ''trade_type'' of None \<Rightarrow> 0 | Some t \<Rightarrow> snd (String2Int_atoi t))"

definition text_or_empty :: "string option \<Rightarrow> string" where
  "text_or_empty vo = (case vo of None \<Rightarrow> [] | Some v \<Rightarrow> v)"

definition etf_trade :: "db_row \<Rightarrow> bool" where
  "etf_trade row \<longleftrightarrow> row ''trade_type'' \<noteq> None \<and> (trade_type_of row = etf_crt \<or> trade_type_of row = etf_rdp)"

definition etf_own :: "db_row \<Rightarrow> bool" where
  "etf_own row \<longleftrightarrow> text_or_empty (row ''security_id2'') = []"

definition when_etf :: "db_row \<Rightarrow> 'd step \<Rightarrow> 'd step" where
  "when_etf row t = (if etf_trade row then t else Fine)"

definition unless_etf :: "db_row \<Rightarrow> 'd step \<Rightarrow> 'd step" where
  "unless_etf row t = (if etf_trade row then Fine else t)"

text \<open>The type of the cell is set even where its text stays what it was.\<close>

definition keep_text :: "'d step" where
  "keep_text s = Fine (s\<lparr>cell := (cell s)\<lparr>d_iType := 0\<rparr>\<rparr>)"

definition mx_business :: "db_row \<Rightarrow> 'd step" where
  "mx_business row =
     (if row ''trade_type'' = None then keep_text
      else if trade_type_of row = etf_crt then set_text (if etf_own row then ''SGSF'' else ''SGSQ'')
      else if trade_type_of row = etf_rdp then set_text (if etf_own row then ''SHSF'' else ''SHSQ'')
      else set_text ''JY00'')"

definition jg_business :: "db_row \<Rightarrow> 'd step" where
  "jg_business row =
     (if row ''trade_type'' = None then keep_text
      else if trade_type_of row = etf_crt \<or> trade_type_of row = etf_rdp
      then (if etf_own row then set_text ''EFXC'' else (\<lambda>s. Skip))
      else set_text ''JY00'')"

definition jg_way :: "db_row \<Rightarrow> 'd step" where
  "jg_way row =
     (if etf_trade row then (if etf_own row then set_text ''Z'' else keep_text) else set_text ''A'')"

definition credit_mark :: "db_row \<Rightarrow> string option" where
  "credit_mark row =
     (if trade_type_of row = margin_cash then Some ''1'' else if trade_type_of row = margin_stock then Some ''2'' else None)"

definition credit_to :: "db_row \<Rightarrow> string \<Rightarrow> string \<Rightarrow> 'd step" where
  "credit_to row c other =
     (if row ''trade_type'' = None then Fine
      else text_to c (case credit_mark row of None \<Rightarrow> other | Some t \<Rightarrow> t))"

definition credit_same :: "db_row \<Rightarrow> string \<Rightarrow> 'd step" where
  "credit_same row c s =
     (if row ''trade_type'' = None then Fine s
      else text_to c (case credit_mark row of None \<Rightarrow> d_strValue (cell s) | Some t \<Rightarrow> t) s)"

definition is_purchase :: "string \<Rightarrow> bool" where
  "is_purchase side \<longleftrightarrow> side = STEPMSG_SIDE_BUY_B \<or> side = STEPMSG_SIDE_BUY_1"

text \<open>The amount, negative for a purchase, and zero where the row has none.\<close>

definition mx_amount :: "'d platform \<Rightarrow> db_row \<Rightarrow> 'd" where
  "mx_amount p row =
     (case (row ''match_amount'', row ''side'') of
        (Some v, Some side) \<Rightarrow> StringLiToDouble p 2 (minus_if (is_purchase side \<or> side = ''D'') v)
      | _ \<Rightarrow> zero_of p)"

definition jg_amount :: "'d platform \<Rightarrow> db_row \<Rightarrow> 'd" where
  "jg_amount p row =
     (case (row ''match_amount'', row ''side'') of
        (Some v, Some side) \<Rightarrow> StringLiToDouble p 2 (minus_if (is_purchase side) v)
      | _ \<Rightarrow> zero_of p)"

definition text_of_value :: "'d platform \<Rightarrow> string \<Rightarrow> string \<Rightarrow> 'd step" where
  "text_of_value p c c2 s = text_to c2 (d_strValue (value_at p c (filled s))) s"

section \<open>The details of clearing: SJSMXn\<close>

definition SJSMX_columns1 :: "ColumnSettingInDBF list" where
  "SJSMX_columns1 =
     [col ''MXJSZH'' (CHR ''C'') 6 0, col ''MXBFZH'' (CHR ''C'') 25 0, col ''MXSJLX'' (CHR ''C'') 2 0,
     col ''MXYWLB'' (CHR ''C'') 4 0, col ''MXZQDM'' (CHR ''C'') 8 0, col ''MXJYDY'' (CHR ''C'') 6 0,
     col ''MXTGDY'' (CHR ''C'') 6 0, col ''MXZQZH'' (CHR ''C'') 20 0, col ''MXDDBH'' (CHR ''C'') 24 0,
     col ''MXYYB'' (CHR ''C'') 4 0, col ''MXZXBH'' (CHR ''C'') 16 0, col ''MXYWLSH'' (CHR ''C'') 16 0,
     col ''MXCJSL'' (CHR ''N'') 15 2, col ''MXQSSL'' (CHR ''N'') 15 2, col ''MXCJJG'' (CHR ''N'') 13 4,
     col ''MXQSJG'' (CHR ''N'') 18 9, col ''MXXYJY'' (CHR ''C'') 1 0, col ''MXPCBS'' (CHR ''C'') 1 0,
     col ''MXZQLB'' (CHR ''C'') 2 0, col ''MXZQZL'' (CHR ''C'') 2 0]"

definition SJSMX_columns2 :: "ColumnSettingInDBF list" where
  "SJSMX_columns2 =
     [col ''MXGFXZ'' (CHR ''C'') 2 0, col ''MXJSFS'' (CHR ''C'') 1 0, col ''MXHBDH'' (CHR ''C'') 3 0,
     col ''MXQSBJ'' (CHR ''N'') 17 2, col ''MXYHS'' (CHR ''N'') 17 2, col ''MXJYJSF'' (CHR ''N'') 12 2,
     col ''MXJGGF'' (CHR ''N'') 12 2, col ''MXGHF'' (CHR ''N'') 12 2, col ''MXJSF'' (CHR ''N'') 12 2,
     col ''MXSXF'' (CHR ''N'') 12 2, col ''MXQSYJ'' (CHR ''N'') 12 2, col ''MXQTFY'' (CHR ''N'') 12 2,
     col ''MXZJJE'' (CHR ''N'') 17 2, col ''MXSFJE'' (CHR ''N'') 18 2, col ''MXCJRQ'' (CHR ''C'') 8 0,
     col ''MXQSRQ'' (CHR ''C'') 8 0, col ''MXJSRQ'' (CHR ''C'') 8 0, col ''MXFSRQ'' (CHR ''C'') 8 0,
     col ''MXQTRQ'' (CHR ''C'') 8 0, col ''MXSCDM'' (CHR ''C'') 2 0, col ''MXJYFS'' (CHR ''C'') 2 0]"

definition SJSMX_columns3 :: "ColumnSettingInDBF list" where
  "SJSMX_columns3 =
     [col ''MXZQDM2'' (CHR ''C'') 8 0, col ''MXTGDY2'' (CHR ''C'') 6 0, col ''MXDDBH2'' (CHR ''C'') 16 0,
     col ''MXCWDH'' (CHR ''C'') 4 0, col ''MXPPHM'' (CHR ''C'') 10 0, col ''MXFJSM'' (CHR ''C'') 30 0,
     col ''MXBYBZ'' (CHR ''C'') 1 0]"

definition DBF_SJSMXn :: "ColumnSettingInDBF list" where
  "DBF_SJSMXn = SJSMX_columns1 @ SJSMX_columns2 @ SJSMX_columns3"

definition SJSMX1_business :: "'d settle_env \<Rightarrow> db_row \<Rightarrow> 'd step list" where
  "SJSMX1_business e row =
     [text_to ''MXJSZH'' ''stgw01'', text_to ''MXBFZH'' ''bfzh_12345'', text_to ''MXSJLX'' ''01'', mx_business row,
     again ''MXYWLB'', text_to ''MXZQDM'' (text_or_empty (row ''securityid''))]"

definition SJSMX1_parties :: "'d settle_env \<Rightarrow> db_row \<Rightarrow> 'd step list" where
  "SJSMX1_parties e row =
     [from_row row ''security_seat'' (text_to ''MXJYDY''), again ''MXTGDY'',
     from_row row ''security_account'' (text_to ''MXZQZH''), from_row row ''clordid'' (text_to ''MXDDBH''),
     from_row row ''market_branchid'' (text_to ''MXYYB''), from_row row ''execid'' (text_to ''MXZXBH''),
     from_row row ''orderid'' (text_to ''MXYWLSH''),
     with_side row ''match_qty'' (\<lambda>side v. atof_to (se_p e) ''MXCJSL'' (minus_if (side = ''2'') v)),
     unless_etf row (again ''MXQSSL'')]"

definition SJSMX1_kind :: "'d settle_env \<Rightarrow> db_row \<Rightarrow> 'd step list" where
  "SJSMX1_kind e row =
     [unless_etf row (from_row row ''match_price'' (li_to (se_p e) 4 ''MXCJJG'')), unless_etf row (again ''MXQSJG''),
     unless_etf row (credit_to row ''MXXYJY'' []), text_to ''MXZQLB'' (if etf_trade row then ''EF'' else ''00''),
     when_etf row (text_to ''MXZQZL'' ''0''), text_to ''MXGFXZ'' ''00'',
     text_to ''MXJSFS'' (if etf_trade row \<and> etf_own row then ''Y'' else ''A''), text_to ''MXHBDH'' ''RMB'']"

definition SJSMX1_amounts :: "'d settle_env \<Rightarrow> db_row \<Rightarrow> 'd step list" where
  "SJSMX1_amounts e row =
     [unless_etf row (double_to ''MXQSBJ'' (mx_amount (se_p e) row)), double_to ''MXYHS'' (zero_of (se_p e)),
     double_to ''MXJYJSF'' (zero_of (se_p e)), double_to ''MXJGGF'' (zero_of (se_p e)), double_to ''MXGHF'' (zero_of (se_p e)),
     double_to ''MXJSF'' (zero_of (se_p e)), double_to ''MXSXF'' (zero_of (se_p e)), double_to ''MXQSYJ'' (zero_of (se_p e)),
     double_to ''MXQTFY'' (zero_of (se_p e)), double_to ''MXZJJE'' (zero_of (se_p e)),
     unless_etf row (double_to ''MXSFJE'' (mx_amount (se_p e) row))]"

definition SJSMX1_days :: "'d settle_env \<Rightarrow> db_row \<Rightarrow> 'd step list" where
  "SJSMX1_days e row =
     [from_row row ''oper_time'' (day_to e ''MXCJRQ''), again ''MXQSRQ'',
     text_to ''MXJSRQ'' (day_after e 1 (row ''oper_time'')), text_to ''MXFSRQ'' (day_after e 0 (row ''oper_time'')),
     text_to ''MXJYFS'' (if etf_trade row then ''03'' else ''01''),
     when_etf row (if etf_own row then Fine else text_to ''MXZQDM2'' (text_or_empty (row ''security_id2'')))]"

definition DBF_Value_SJSMX1 :: "'d settle_env \<Rightarrow> db_row \<Rightarrow> 'd row_values run" where
  "DBF_Value_SJSMX1 e row = values_of (se_junk e)
     (SJSMX1_business e row @ SJSMX1_parties e row @ SJSMX1_kind e row @ SJSMX1_amounts e row @ SJSMX1_days e row)"

definition SJSMX2_parties :: "'d settle_env \<Rightarrow> db_row \<Rightarrow> 'd step list" where
  "SJSMX2_parties e row =
     [text_to ''MXSJLX'' ''02'', text_to ''MXYWLB'' ''BG1C'', from_row row ''securityid'' (text_to ''MXZQDM''),
     from_row row ''security_seat'' (text_to ''MXJYDY''), again ''MXTGDY'',
     from_row row ''security_account'' (text_to ''MXZQZH''), from_row row ''clordid'' (text_to ''MXDDBH''),
     from_row row ''market_branchid'' (text_to ''MXYYB''), from_row row ''execid'' (text_to ''MXZXBH''),
     from_row row ''orderid'' (text_to ''MXYWLSH''),
     with_side row ''match_qty'' (\<lambda>side v. atof_to (se_p e) ''MXCJSL'' (minus_if (side = ''2'') v)),
     again ''MXQSSL'']"

definition SJSMX2_amounts :: "'d settle_env \<Rightarrow> db_row \<Rightarrow> 'd step list" where
  "SJSMX2_amounts e row =
     [from_row row ''match_price'' (li_to (se_p e) 4 ''MXCJJG''), again ''MXQSJG'', text_to ''MXZQLB'' ''20'',
     text_to ''MXZQLB'' ''00'', text_to ''MXJSFS'' ''A'', text_to ''MXHBDH'' ''HKD'',
     with_side row ''match_amount'' (\<lambda>side v. li_to (se_p e) 2 ''MXQSBJ'' (minus_if (is_purchase side) v)),
     double_to ''MXYHS'' (zero_of (se_p e)), double_to ''MXJYJSF'' (zero_of (se_p e)), double_to ''MXJGGF'' (zero_of (se_p e)),
     double_to ''MXGHF'' (zero_of (se_p e)), double_to ''MXJSF'' (zero_of (se_p e)), double_to ''MXSXF'' (zero_of (se_p e)),
     double_to ''MXQSYJ'' (zero_of (se_p e)), double_to ''MXQTFY'' (zero_of (se_p e)), double_to ''MXZJJE'' (zero_of (se_p e)),
     with_side row ''match_amount'' (\<lambda>side v. li_to (se_p e) 2 ''MXSFJE'' (minus_if (is_purchase side) v))]"

definition SJSMX2_days :: "'d settle_env \<Rightarrow> db_row \<Rightarrow> 'd step list" where
  "SJSMX2_days e row =
     [from_row row ''oper_time'' (day_to e ''MXCJRQ''), text_to ''MXQSRQ'' (day_after e 0 (row ''oper_time'')),
     text_to ''MXJSRQ'' (day_after e 3 (row ''oper_time'')), text_to ''MXFSRQ'' (day_after e 0 (row ''oper_time'')),
     again ''MXQTRQ'', text_to ''MXJYFS'' ''01'', text_of_value (se_p e) ''MXTGDY'' ''MXTGDY2'']"

definition DBF_Value_SJSMX2 :: "'d settle_env \<Rightarrow> db_row \<Rightarrow> 'd row_values run" where
  "DBF_Value_SJSMX2 e row =
     values_of (se_junk e) (SJSMX2_parties e row @ SJSMX2_amounts e row @ SJSMX2_days e row)"

definition sz_query :: "string \<Rightarrow> string" where
  "sz_query g = ''SELECT *,DATE_FORMAT(`trade_time`,'%Y%m%d%H%i%s.000') AS oper_time '' @
     ''FROM `order_match` WHERE trade_market=102 AND '' @ group_condition g @ ''ORDER BY trade_time ASC''"

definition A_types :: "int set" where
  "A_types = {a_trade, margin_cash, margin_stock, etf_buy, etf_sell, etf_crt, etf_rdp}"

definition Gen_SJSMXn :: "'d settle_env \<Rightarrow> string \<Rightarrow> string \<Rightarrow> disk \<Rightarrow> (int \<times> disk) option" where
  "Gen_SJSMXn e g path d =
     (case se_query e (sz_query g) of
        None \<Rightarrow> Some (-1, d)
      | Some rows \<Rightarrow>
          then_also
            (write_if_rows (se_p e) (statement_name path g ''SJSMX1_'' (m_strNow e)) DBF_SJSMXn (DBF_Value_SJSMX1 e)
              (filter (\<lambda>r. trade_type_of r \<in> A_types) rows))
            (write_if_rows (se_p e) (statement_name path g ''SJSMX2_'' (m_strNow e)) DBF_SJSMXn (DBF_Value_SJSMX2 e)
              (filter (\<lambda>r. trade_type_of r = b_trade) rows)) d)"

section \<open>The results: SJSJG\<close>

definition SJSJG_columns1 :: "ColumnSettingInDBF list" where
  "SJSJG_columns1 =
     [col ''JGJSZH'' (CHR ''C'') 6 0, col ''JGBFZH'' (CHR ''C'') 25 0, col ''JGSJLX'' (CHR ''C'') 2 0,
     col ''JGYWLB'' (CHR ''C'') 4 0, col ''JGZQDM'' (CHR ''C'') 8 0, col ''JGJYDY'' (CHR ''C'') 6 0,
     col ''JGTGDY'' (CHR ''C'') 6 0, col ''JGZQZH'' (CHR ''C'') 20 0, col ''JGDDBH'' (CHR ''C'') 24 0,
     col ''JGYYB'' (CHR ''C'') 4 0, col ''JGZXBH'' (CHR ''C'') 16 0, col ''JGYWLSH'' (CHR ''C'') 16 0,
     col ''JGCJSL'' (CHR ''N'') 15 2, col ''JGQSSL'' (CHR ''N'') 15 2, col ''JGJSSL'' (CHR ''N'') 15 2,
     col ''JGCJJG'' (CHR ''N'') 13 4, col ''JGQSJG'' (CHR ''N'') 18 9, col ''JGXYJY'' (CHR ''C'') 1 0,
     col ''JGPCBS'' (CHR ''C'') 1 0, col ''JGZQLB'' (CHR ''C'') 2 0]"

definition SJSJG_columns2 :: "ColumnSettingInDBF list" where
  "SJSJG_columns2 =
     [col ''JGZQZL'' (CHR ''C'') 2 0, col ''JGGFXZ'' (CHR ''C'') 2 0, col ''JGLTLX'' (CHR ''C'') 1 0,
     col ''JGJSFS'' (CHR ''C'') 1 0, col ''JGHBDH'' (CHR ''C'') 3 0, col ''JGQSBJ'' (CHR ''N'') 17 2,
     col ''JGYHS'' (CHR ''N'') 12 2, col ''JGJYJSF'' (CHR ''N'') 12 2, col ''JGJGGF'' (CHR ''N'') 12 2,
     col ''JGGHF'' (CHR ''N'') 12 2, col ''JGJSF'' (CHR ''N'') 12 2, col ''JGSXF'' (CHR ''N'') 12 2,
     col ''JGQSYJ'' (CHR ''N'') 12 2, col ''JGQTFY'' (CHR ''N'') 12 2, col ''JGZJJE'' (CHR ''N'') 17 2,
     col ''JGSFJE'' (CHR ''N'') 18 2, col ''JGJSBZ'' (CHR ''C'') 1 0, col ''JGZYDH'' (CHR ''C'') 4 0,
     col ''JGCJRQ'' (CHR ''C'') 8 0, col ''JGQSRQ'' (CHR ''C'') 8 0, col ''JGJSRQ'' (CHR ''C'') 8 0]"

definition SJSJG_columns3 :: "ColumnSettingInDBF list" where
  "SJSJG_columns3 =
     [col ''JGFSRQ'' (CHR ''C'') 8 0, col ''JGQTRQ'' (CHR ''C'') 8 0, col ''JGSCDM'' (CHR ''C'') 2 0,
     col ''JGJYFS'' (CHR ''C'') 2 0, col ''JGZQDM2'' (CHR ''C'') 8 0, col ''JGTGDY2'' (CHR ''C'') 6 0,
     col ''JGDDBH2'' (CHR ''C'') 16 0, col ''JGFJSM'' (CHR ''C'') 100 0, col ''JGBYBZ'' (CHR ''C'') 1 0]"

definition DBF_SJSJG :: "ColumnSettingInDBF list" where
  "DBF_SJSJG = SJSJG_columns1 @ SJSJG_columns2 @ SJSJG_columns3"

definition SJSJG_business :: "'d settle_env \<Rightarrow> db_row \<Rightarrow> 'd step list" where
  "SJSJG_business e row =
     [text_to ''JGJSZH'' ''stgw01'', text_to ''JGBFZH'' ''bfzh_12345'', text_to ''JGSJLX'' ''01'', jg_business row,
     again ''JGYWLB'', text_to ''JGZQDM'' (text_or_empty (row ''securityid''))]"

definition SJSJG_parties :: "'d settle_env \<Rightarrow> db_row \<Rightarrow> 'd step list" where
  "SJSJG_parties e row =
     [from_row row ''security_seat'' (text_to ''JGJYDY''), again ''JGTGDY'',
     from_row row ''security_account'' (text_to ''JGZQZH''), from_row row ''clordid'' (text_to ''JGDDBH''),
     from_row row ''market_branchid'' (text_to ''JGYYB''), from_row row ''execid'' (text_to ''JGZXBH''),
     from_row row ''orderid'' (text_to ''JGYWLSH''),
     with_side row ''match_qty'' (\<lambda>side v. atof_to (se_p e) ''JGCJSL'' (minus_if (side = ''2'') v)),
     again ''JGQSSL'', again ''JGJSSL'']"

definition SJSJG_kind :: "'d settle_env \<Rightarrow> db_row \<Rightarrow> 'd step list" where
  "SJSJG_kind e row =
     [from_row row ''match_price'' (li_to (se_p e) 4 ''JGCJJG''), again ''JGQSJG'', credit_to row ''JGXYJY'' [],
     text_to ''JGZQLB'' (if etf_trade row then ''EF'' else ''00''), when_etf row (text_to ''JGZQZL'' ''0''),
     text_to ''JGGFXZ'' ''00'', jg_way row, again ''JGJSFS'', text_to ''JGHBDH'' ''RMB'']"

definition SJSJG_amounts :: "'d settle_env \<Rightarrow> db_row \<Rightarrow> 'd step list" where
  "SJSJG_amounts e row =
     [double_to ''JGQSBJ'' (jg_amount (se_p e) row), double_to ''JGYHS'' (zero_of (se_p e)), double_to ''JGJYJSF'' (zero_of (se_p e)),
     double_to ''JGJGGF'' (zero_of (se_p e)), double_to ''JGGHF'' (zero_of (se_p e)), double_to ''JGJSF'' (zero_of (se_p e)),
     double_to ''JGSXF'' (zero_of (se_p e)), double_to ''JGQSYJ'' (zero_of (se_p e)), double_to ''JGQTFY'' (zero_of (se_p e)),
     double_to ''JGZJJE'' (zero_of (se_p e)), double_to ''JGSFJE'' (jg_amount (se_p e) row),
     when_etf row (if etf_own row then text_to ''JGJSBZ'' ''Y'' else Fine)]"

definition SJSJG_days :: "'d settle_env \<Rightarrow> db_row \<Rightarrow> 'd step list" where
  "SJSJG_days e row =
     [from_row row ''oper_time'' (day_to e ''JGCJRQ''), again ''JGQSRQ'',
     text_to ''JGJSRQ'' (day_after e 1 (row ''oper_time'')), text_to ''JGFSRQ'' (day_after e 0 (row ''oper_time'')),
     text_to ''JGJYFS'' (if etf_trade row then ''03'' else ''01'')]"

definition DBF_Value_SJSJG :: "'d settle_env \<Rightarrow> db_row \<Rightarrow> 'd row_values run" where
  "DBF_Value_SJSJG e row = values_of (se_junk e)
     (SJSJG_business e row @ SJSJG_parties e row @ SJSJG_kind e row @ SJSJG_amounts e row @ SJSJG_days e row)"

text \<open>
  The loop over the results: the components of a creation or redemption are passed over.  The result
  code of the last row is that of the function, and passing over is 1.
\<close>

fun write_results ::
  "'d platform \<Rightarrow> ('r \<Rightarrow> 'd row_values run) \<Rightarrow> 'r list \<Rightarrow> int \<Rightarrow> TgwDBFOperHelper \<times> disk \<Rightarrow> (int \<times> TgwDBFOperHelper \<times> disk) option" where
  "write_results p vals [] iReturn s = Some (iReturn, s)"
| "write_results p vals (r # rs) iReturn s =
     (case vals r of
        Wild \<Rightarrow> None
      | Threw \<Rightarrow> Some (-1, s)
      | Skip \<Rightarrow> write_results p vals rs 1 s
      | Fine vs \<Rightarrow>
          (case Dbf_Append p vs s of
             None \<Rightarrow> None
           | Some (iRes, s1) \<Rightarrow> if iRes \<noteq> 0 then Some (-1, s1) else write_results p vals rs 0 s1))"

definition Gen_SJSJG :: "'d settle_env \<Rightarrow> string \<Rightarrow> string \<Rightarrow> disk \<Rightarrow> (int \<times> disk) option" where
  "Gen_SJSJG e g path d =
     (case se_query e (sz_query g) of
        None \<Rightarrow> Some (-1, d)
      | Some all_rows \<Rightarrow>
          let rows = filter (\<lambda>r. etf_crt \<le> trade_type_of r) all_rows in
          if rows = [] then Some (0, d)
          else case open_table (se_p e) (statement_name path g ''SJSJG_'' (m_strNow e)) DBF_SJSJG d of (iRes, h, d1) \<Rightarrow>
            if iRes \<noteq> 0 then Some (-1, d1)
            else map_option (\<lambda>(iRes, h1, d2). (iRes, d2)) (write_results (se_p e) (DBF_Value_SJSJG e) rows 0 (h, d1)))"

section \<open>The balances: SJSDZ\<close>

definition DBF_SJSDZ :: "ColumnSettingInDBF list" where
  "DBF_SJSDZ =
     [col ''DZTGDY'' (CHR ''C'') 6 0, col ''DZZQDM'' (CHR ''C'') 8 0, col ''DZZQZH'' (CHR ''C'') 20 0,
     col ''DZGFXZ'' (CHR ''C'') 2 0, col ''DZLTLX'' (CHR ''C'') 1 0, col ''DZZYGS'' (CHR ''N'') 17 2,
     col ''DZFSRQ'' (CHR ''C'') 8 0, col ''DZBYBZ'' (CHR ''C'') 1 0]"

definition SJSDZ_values :: "'d settle_env \<Rightarrow> db_row \<Rightarrow> 'd step list" where
  "SJSDZ_values e row =
     [text_to ''DZTGDY'' ''stgw01'', from_row row ''stock_id'' (text_to ''DZZQDM''),
     from_row row ''account_id'' (text_to ''DZZQZH''), text_to ''DZGFXZ'' ''00'', text_to ''DZLTLX'' ''0'',
     from_row row ''stock_available'' (atof_to (se_p e) ''DZZYGS'')]"

definition DBF_Value_SJSDZ :: "'d settle_env \<Rightarrow> bool \<Rightarrow> db_row \<Rightarrow> 'd row_values run" where
  "DBF_Value_SJSDZ e bIsNextDay row =
     values_of (se_junk e) (SJSDZ_values e row @
       [(\<lambda>s. Fine (if bIsNextDay
          then s\<lparr>filled := add_columns (se_p e) row ''DZZYGS'' [''stock_auction_purchase_balance'', ''stock_staple_purchase_balance'',
            ''stock_etf_redemption_balance''] (filled s)\<rparr>
          else s)), from_row row ''time'' (sub_to 0 8 ''DZFSRQ'')])"

definition SJSDZ_query :: string where
  "SJSDZ_query = ''SELECT *,DATE_FORMAT(`oper_time`,'%Y%m%d%H%i%s.000') AS time '' @
     ''FROM `stock_asset` WHERE trade_market=102 '' @ ''UNION '' @
     ''SELECT *, DATE_FORMAT(`oper_time`,'%Y%m%d%H%i%s.000') AS time '' @
     ''FROM `stock_etf_asset` WHERE trade_market=102 '' @ ''ORDER BY oper_time ASC;''"

definition Gen_DBF_SJSDZ :: "'d settle_env \<Rightarrow> db_row list \<Rightarrow> string \<Rightarrow> bool \<Rightarrow> disk \<Rightarrow> (int \<times> disk) option" where
  "Gen_DBF_SJSDZ e rows name bIsNextDay d = write_table (se_p e) name DBF_SJSDZ (DBF_Value_SJSDZ e bIsNextDay) rows d"

definition Gen_SJSDZ :: "'d settle_env \<Rightarrow> string \<Rightarrow> disk \<Rightarrow> (int \<times> disk) option" where
  "Gen_SJSDZ e path d =
     (case se_query e SJSDZ_query of
        None \<Rightarrow> Some (-1, d)
      | Some rows \<Rightarrow>
          if rows = [] then Some (0, d)
          else then_also (Gen_DBF_SJSDZ e rows (path @ ''/SJSDZ_'' @ m_strNow e @ ''.dbf'') False)
                 (Gen_DBF_SJSDZ e rows (path @ ''/SJSDZ_'' @ m_strNextDay e @ ''.dbf'') True) d)"

section \<open>The statistics: SJSTJ\<close>

definition SJSTJ_columns1 :: "ColumnSettingInDBF list" where
  "SJSTJ_columns1 =
     [col ''JGJSZH'' (CHR ''C'') 6 0, col ''JGBFZH'' (CHR ''C'') 25 0, col ''JGSJLX'' (CHR ''C'') 2 0,
     col ''JGYWLB'' (CHR ''C'') 4 0, col ''JGZQDM'' (CHR ''C'') 8 0, col ''JGJYDY'' (CHR ''C'') 6 0,
     col ''JGTGDY'' (CHR ''C'') 6 0, col ''JGZQZH'' (CHR ''C'') 20 0, col ''JGDDBH'' (CHR ''C'') 24 0,
     col ''JGYYB'' (CHR ''C'') 4 0, col ''JGZXBH'' (CHR ''C'') 16 0, col ''JGYWLSH'' (CHR ''C'') 16 0,
     col ''JGCJSL'' (CHR ''N'') 15 2, col ''JGQSSL'' (CHR ''N'') 15 2, col ''JGJSSL'' (CHR ''N'') 15 4,
     col ''JGCJJG'' (CHR ''N'') 13 4, col ''JGQSJG'' (CHR ''N'') 18 9, col ''JGXYJY'' (CHR ''C'') 1 0,
     col ''JGPCBS'' (CHR ''C'') 1 0, col ''JGZQLB'' (CHR ''C'') 2 0]"

definition SJSTJ_columns2 :: "ColumnSettingInDBF list" where
  "SJSTJ_columns2 =
     [col ''JGZQZL'' (CHR ''C'') 2 0, col ''JGGFXZ'' (CHR ''C'') 2 0, col ''JGJSFS'' (CHR ''C'') 1 0,
     col ''JGHBDH'' (CHR ''C'') 3 0, col ''JGQSBJ'' (CHR ''N'') 17 2, col ''JGYHS'' (CHR ''N'') 12 2,
     col ''JGJYJSF'' (CHR ''N'') 12 2, col ''JGJGGF'' (CHR ''N'') 12 2, col ''JGGHF'' (CHR ''N'') 12 2,
     col ''JGJSF'' (CHR ''N'') 12 2, col ''JGSXF'' (CHR ''N'') 12 2, col ''JGQSYJ'' (CHR ''N'') 12 2,
     col ''JGQTFY'' (CHR ''N'') 12 2, col ''JGZJJE'' (CHR ''N'') 17 2, col ''JGSFJE'' (CHR ''N'') 18 2,
     col ''JGJSBZ'' (CHR ''C'') 1 0, col ''JGZYDH'' (CHR ''C'') 4 0, col ''JGCJRQ'' (CHR ''C'') 8 0,
     col ''JGQSRQ'' (CHR ''C'') 8 0, col ''JGJSRQ'' (CHR ''C'') 8 0, col ''JGFSRQ'' (CHR ''C'') 8 0]"

definition SJSTJ_columns3 :: "ColumnSettingInDBF list" where
  "SJSTJ_columns3 =
     [col ''JGQTRQ'' (CHR ''C'') 8 0, col ''JGSCDM'' (CHR ''C'') 2 0, col ''JGJYFS'' (CHR ''C'') 2 0,
     col ''JGZQDM2'' (CHR ''C'') 8 0, col ''JGTGDY2'' (CHR ''C'') 6 0, col ''JGDDBH2'' (CHR ''C'') 16 0,
     col ''JGFJSM'' (CHR ''C'') 30 0, col ''JGBYBZ'' (CHR ''C'') 1 0]"

definition SZ_DBF_SJSTJ :: "ColumnSettingInDBF list" where
  "SZ_DBF_SJSTJ = SJSTJ_columns1 @ SJSTJ_columns2 @ SJSTJ_columns3"

definition SJSTJ_parties :: "'d settle_env \<Rightarrow> db_row \<Rightarrow> 'd step list" where
  "SJSTJ_parties e row =
     [text_to ''JGSJLX'' ''01'', text_to ''JGYWLB'' ''JY00'', from_row row ''securityid'' (text_to ''JGZQDM''),
     from_row row ''security_seat'' (text_to ''JGJYDY''), again ''JGTGDY'',
     from_row row ''security_account'' (text_to ''JGZQZH''), from_row row ''clordid'' (text_to ''JGDDBH''),
     from_row row ''market_branchid'' (text_to ''JGYYB''), from_row row ''execid'' (text_to ''JGZXBH''),
     from_row row ''orderid'' (text_to ''JGYWLSH''),
     with_side row ''match_qty'' (\<lambda>side v. atof_to (se_p e) ''JGCJSL'' (minus_if (side = ''2'') v)),
     again ''JGQSSL'', again ''JGJSSL'']"

definition SJSTJ_amounts :: "'d settle_env \<Rightarrow> db_row \<Rightarrow> 'd step list" where
  "SJSTJ_amounts e row =
     [from_row row ''match_price'' (li_to (se_p e) 4 ''JGCJJG''), again ''JGQSJG'', credit_same row ''JGXYJY'',
     text_to ''JGZQLB'' ''00'', text_to ''JGGFXZ'' ''00'', text_to ''JGJSFS'' ''N'', text_to ''JGHBDH'' ''RMB'',
     with_side row ''match_amount'' (\<lambda>side v. li_to (se_p e) 2 ''JGQSBJ'' (minus_if (is_purchase side) v)),
     double_to ''JGYHS'' (zero_of (se_p e)), double_to ''JGJYJSF'' (zero_of (se_p e)), double_to ''JGJGGF'' (zero_of (se_p e)),
     double_to ''JGGHF'' (zero_of (se_p e)), double_to ''JGJSF'' (zero_of (se_p e)), double_to ''JGSXF'' (zero_of (se_p e)),
     double_to ''JGQSYJ'' (zero_of (se_p e)), double_to ''JGQTFY'' (zero_of (se_p e)), double_to ''JGZJJE'' (zero_of (se_p e)),
     with_side row ''match_amount'' (\<lambda>side v. li_to (se_p e) 2 ''JGSFJE'' (minus_if (is_purchase side) v))]"

definition SJSTJ_days :: "'d settle_env \<Rightarrow> db_row \<Rightarrow> 'd step list" where
  "SJSTJ_days e row =
     [from_row row ''oper_time'' (day_to e ''JGCJRQ''), again ''JGQSRQ'',
     text_to ''JGJSRQ'' (day_after e 1 (row ''oper_time'')), text_to ''JGFSRQ'' (day_after e 0 (row ''oper_time'')),
     text_to ''JGJYFS'' ''01'']"

definition SZ_DBF_Value_SJSTJ :: "'d settle_env \<Rightarrow> db_row \<Rightarrow> 'd row_values run" where
  "SZ_DBF_Value_SJSTJ e row = values_of (se_junk e) (SJSTJ_parties e row @ SJSTJ_amounts e row @ SJSTJ_days e row)"

section \<open>The statements of a settlement\<close>

definition SZ_MakeSettlementDetails :: "'d settle_env \<Rightarrow> string \<Rightarrow> string \<Rightarrow> disk \<Rightarrow> (int \<times> disk) option" where
  "SZ_MakeSettlementDetails e g path = then_also (Gen_SJSMXn e g path) (Gen_SJSJG e g path)"

definition SZ_MakeSettlementSummary :: "'d settle_env \<Rightarrow> string \<Rightarrow> disk \<Rightarrow> (int \<times> disk) option" where
  "SZ_MakeSettlementSummary e path d =
     (case Gen_SJSDZ e path d of None \<Rightarrow> None | Some (iRes, d1) \<Rightarrow> Some (if iRes \<noteq> 0 then -1 else 0, d1))"

section \<open>What the statements write\<close>

lemma etf_step_intros [writes_intros]:
  "writes cs t \<Longrightarrow> writes cs (when_etf row t)" "writes cs t \<Longrightarrow> writes cs (unless_etf row t)" "writes cs keep_text" "writes cs Fine"
  by (simp_all add: when_etf_def unless_etf_def writes_def keep_text_def)

lemma etf_step_celled [celled_intros]:
  "celled t \<Longrightarrow> celled (when_etf row t)" "celled t \<Longrightarrow> celled (unless_etf row t)" "celled keep_text"
  by (auto simp: when_etf_def unless_etf_def celled_def known_cell_def keep_text_def)

lemma etf_step_keeps [keeps_intros]:
  "keeps c t \<Longrightarrow> keeps c (when_etf row t)" "keeps c t \<Longrightarrow> keeps c (unless_etf row t)" "keeps c keep_text"
  by (auto simp: when_etf_def unless_etf_def keeps_def keep_text_def)

lemma business_writes [writes_intros]: "writes cs (jg_business row)" "writes cs (jg_way row)" "c \<in> cs \<Longrightarrow> writes cs (credit_to row c other)"
  by (auto simp: jg_business_def jg_way_def credit_to_def writes_def keep_text_def set_text_def text_to_def again_def
      split: if_splits)

lemma business_celled [celled_intros]: "celled (jg_business row)" "celled (jg_way row)" "celled (credit_to row c other)"
  by (auto simp: jg_business_def jg_way_def credit_to_def celled_def known_cell_def keep_text_def set_text_def text_to_def again_def
      known_type_put split: if_splits)

lemmas result_defs = SJSJG_business_def SJSJG_parties_def SJSJG_kind_def SJSJG_amounts_def SJSJG_days_def

lemma result_columns:
  "\<forall>c\<in>set [''JGJSZH'', ''JGBFZH'', ''JGSJLX'', ''JGYWLB'', ''JGZQDM'', ''JGJYDY'', ''JGTGDY'', ''JGZQZH'', ''JGDDBH'',
     ''JGYYB'', ''JGZXBH'', ''JGYWLSH'', ''JGCJSL'', ''JGQSSL'', ''JGJSSL'', ''JGCJJG'', ''JGQSJG'', ''JGXYJY'',
     ''JGZQLB'', ''JGZQZL'', ''JGGFXZ'', ''JGJSFS'', ''JGHBDH'', ''JGQSBJ'', ''JGYHS'', ''JGJYJSF'', ''JGJGGF'',
     ''JGGHF'', ''JGJSF'', ''JGSXF'', ''JGQSYJ'', ''JGQTFY'', ''JGZJJE'', ''JGSFJE'', ''JGJSBZ'', ''JGCJRQ'',
     ''JGQSRQ'', ''JGJSRQ'', ''JGFSRQ'', ''JGJYFS'']. c \<in> names DBF_SJSJG"
  by code_simp

lemmas result_column = result_columns [simplified]

lemma DBF_Value_SJSJG_known:
  assumes "DBF_Value_SJSJG e row = Fine vs"
  shows "fst ` set vs \<subseteq> names DBF_SJSJG" "known_type vs"
proof -
  let ?ts = "tl (SJSJG_business e row @ SJSJG_parties e row @ SJSJG_kind e row @ SJSJG_amounts e row @ SJSJG_days e row)"
  have v: "values_of (se_junk e) (text_to ''JGJSZH'' ''stgw01'' # ?ts) = Fine vs"
    using assms unfolding DBF_Value_SJSJG_def by (simp add: SJSJG_business_def)
  have "list_all (writes (names DBF_SJSJG)) (text_to ''JGJSZH'' ''stgw01'' # ?ts)"
    unfolding result_defs by (simp, intro conjI writes_intros) (simp_all add: result_column writes_intros)
  then show "fst ` set vs \<subseteq> names DBF_SJSJG" using values_of_writes v by blast
  have "list_all celled ?ts" unfolding result_defs by (simp, intro conjI celled_intros) (simp_all add: celled_intros)
  then show "known_type vs" using values_of_celled v by blast
qed

lemma component_skipped:
  assumes "etf_trade row" "\<not> etf_own row"
  shows "DBF_Value_SJSJG e row = Skip"
  using assms
  by (auto simp: DBF_Value_SJSJG_def values_of_def SJSJG_business_def jg_business_def etf_trade_def text_to_def again_def)

text \<open>The loop over the results as one write of the rows that are not passed over.\<close>

definition results_of :: "('r \<Rightarrow> 'd row_values run) \<Rightarrow> 'r list \<Rightarrow> 'd row_values list" where
  "results_of vals rows = concat (map (\<lambda>r. case vals r of Fine vs \<Rightarrow> [vs] | _ \<Rightarrow> []) rows)"

lemma results_of_length: "length (results_of vals rows) \<le> length rows"
proof (induction rows)
  case (Cons r rows)
  then show ?case by (cases "vals r") (auto simp: results_of_def)
qed (simp add: results_of_def)

lemma write_results_all:
  assumes "\<forall>r\<in>set rows. vals r = Skip \<or> (\<exists>vs. vals r = Fine vs)" "append_all p (results_of vals rows) s = Some (0, h, d)"
  shows "write_results p vals rows i s = Some (if rows = [] then i else if vals (last rows) = Skip then 1 else 0, h, d)"
  using assms
proof (induction rows arbitrary: i s)
  case (Cons r rows)
  have rows: "\<forall>r\<in>set rows. vals r = Skip \<or> (\<exists>vs. vals r = Fine vs)" using Cons.prems(1) by simp
  show ?case
  proof (cases "vals r = Skip")
    case True
    then show ?thesis using Cons.IH [OF rows] Cons.prems(2) by (simp add: results_of_def)
  next
    case False
    then obtain vs where vs: "vals r = Fine vs" using Cons.prems(1) by auto
    then obtain s1 where "Dbf_Append p vs s = Some (0, s1)" "append_all p (results_of vals rows) s1 = Some (0, h, d)"
      using Cons.prems(2) by (auto simp: results_of_def split: option.splits if_splits)
    then show ?thesis using Cons.IH [OF rows] vs by simp
  qed
qed (simp add: results_of_def)

lemma results_schema_ok: "schema_ok DBF_SJSJG"
  by code_simp


text \<open>
  The amount of a trade: for a trade that is no creation or redemption, the amount of clearing and the
  amount received of the details are the amount of the trade in yuan, negative for a purchase.
\<close>

theorem sz_amount_signed:
  assumes "DBF_Value_SJSMX1 e row = Fine vs" "\<not> etf_trade row" "row ''match_amount'' = Some amount" "row ''side'' = Some side"
  shows "\<forall>c\<in>{''MXQSBJ'', ''MXSFJE''}. \<exists>v. map_of vs c = Some v \<and> d_iType v = 3 \<and>
     d_dValue v = StringLiToDouble (se_p e) 2 (if is_purchase side \<or> side = ''D'' then CHR ''-'' # amount else amount)"
proof -
  define x where "x = StringLiToDouble (se_p e) 2 (if is_purchase side \<or> side = ''D'' then CHR ''-'' # amount else amount)"
  define first where "first = SJSMX1_business e row @ SJSMX1_parties e row @ SJSMX1_kind e row"
  define fees where "fees = tl (butlast (SJSMX1_amounts e row))"
  have "mx_amount (se_p e) row = x" by (simp add: mx_amount_def assms(3,4) minus_if_def x_def)
  then have "SJSMX1_amounts e row = double_to ''MXQSBJ'' x # fees @ [double_to ''MXSFJE'' x]"
    by (simp add: SJSMX1_amounts_def unless_etf_def assms(2) fees_def)
  then have all: "SJSMX1_business e row @ SJSMX1_parties e row @ SJSMX1_kind e row @ SJSMX1_amounts e row @ SJSMX1_days e row =
      first @ double_to ''MXQSBJ'' x # (fees @ [double_to ''MXSFJE'' x]) @ SJSMX1_days e row" by (simp add: first_def)
  then have steps: "values_of (se_junk e) (first @ double_to ''MXQSBJ'' x # (fees @ [double_to ''MXSFJE'' x]) @ SJSMX1_days e row) = Fine vs"
    "values_of (se_junk e) ((first @ double_to ''MXQSBJ'' x # fees) @ double_to ''MXSFJE'' x # SJSMX1_days e row) = Fine vs"
    using assms(1) unfolding DBF_Value_SJSMX1_def all by simp_all
  have days: "list_all (keeps c) (SJSMX1_days e row)" if "c \<in> {''MXQSBJ'', ''MXSFJE''}" for c
    using that unfolding SJSMX1_days_def when_etf_def by (auto intro!: keeps_intros simp: assms(2))
  have "list_all (keeps ''MXQSBJ'') (fees @ [double_to ''MXSFJE'' x])"
    unfolding SJSMX1_amounts_def fees_def by (auto intro!: keeps_intros)
  then show ?thesis using values_of_double [OF steps(1)] values_of_double [OF steps(2)] days unfolding x_def by auto
qed

text \<open>
  The balances of the next day: the number of shares is what was available with the purchases of the day, at
  auction, at staple and from redemptions, added; every other value is that of the day.
\<close>

theorem sz_next_day_adds:
  assumes "DBF_Value_SJSDZ e False row = Fine m" "row ''stock_available'' = Some a"
    "row ''stock_auction_purchase_balance'' = Some b1" "row ''stock_staple_purchase_balance'' = Some b2"
    "row ''stock_etf_redemption_balance'' = Some b3" "number = (\<lambda>t. snd (String2Double_atof (p_ops (se_p e)) t))"
    "plus = w_plus (p_ops (se_p e))"
  shows "\<exists>m1 v. DBF_Value_SJSDZ e True row = Fine m1 \<and> map_of m1 ''DZZYGS'' = Some v \<and> d_iType v = 3 \<and>
     d_dValue v = plus (plus (plus (number a) (number b1)) (number b2)) (number b3) \<and>
     (\<forall>c. c \<noteq> ''DZZYGS'' \<longrightarrow> map_of m1 c = map_of m c)"
proof -
  have "\<exists>s. run_steps (SJSDZ_values e row) \<lparr>cell = se_junk e, filled = []\<rparr> = Fine s"
    using assms(1) by (auto simp: DBF_Value_SJSDZ_def values_of_def run_steps_append split: run.splits)
  then obtain s where s: "run_steps (SJSDZ_values e row) \<lparr>cell = se_junk e, filled = []\<rparr> = Fine s" by blast
  then obtain v where v: "map_of (filled s) ''DZZYGS'' = Some v" "d_iType v = 3" "d_dValue v = number a"
    unfolding SJSDZ_values_def
    by (auto simp: from_row_def assms(2,6) atof_to_def double_to_def again_def text_to_def split: option.splits)
  have added: "add_columns (se_p e) row ''DZZYGS'' [''stock_auction_purchase_balance'', ''stock_staple_purchase_balance'',
      ''stock_etf_redemption_balance''] (filled s) =
     omap_put ''DZZYGS'' (v\<lparr>d_dValue := plus (plus (plus (number a) (number b1)) (number b2)) (number b3)\<rparr>)
       (omap_put ''DZZYGS'' (v\<lparr>d_dValue := plus (plus (number a) (number b1)) (number b2)\<rparr>)
         (omap_put ''DZZYGS'' (v\<lparr>d_dValue := plus (number a) (number b1)\<rparr>) (filled s)))" (is "_ = ?m")
    by (simp add: Let_def assms(3-7) add_number_def value_at_def v)
  show ?thesis
    using assms(1) v(2)
    by (cases "row ''time''") (auto simp: DBF_Value_SJSDZ_def values_of_def run_steps_append s added from_row_def sub_to_def
        text_to_def again_def simp del: add_columns.simps)
qed

section \<open>The properties at sample values\<close>

definition sample_basket_row :: "string \<Rightarrow> db_row" where
  "sample_basket_row other = [''trade_type'' \<mapsto> ''7'', ''security_id2'' \<mapsto> other]"

definition sample_sz_trade :: db_row where
  "sample_sz_trade = [''trade_type'' \<mapsto> ''1'', ''side'' \<mapsto> ''1'', ''match_amount'' \<mapsto> ''25000'',
      ''stock_available'' \<mapsto> ''700'', ''stock_auction_purchase_balance'' \<mapsto> ''50'', ''stock_staple_purchase_balance'' \<mapsto> ''20'',
      ''stock_etf_redemption_balance'' \<mapsto> ''3'']"

lemma sample_result:
  "\<exists>vs. DBF_Value_SJSJG (sample_settle rows) (sample_basket_row []) = Fine vs \<and> prints_short (sample_platform True) DBF_SJSJG vs"
proof -
  have "se_p (sample_settle rows) = se_p (sample_settle [])" "se_junk (sample_settle rows) = se_junk (sample_settle [])"
    "day_to (sample_settle rows) = day_to (sample_settle [])" "day_after (sample_settle rows) = day_after (sample_settle [])"
    by (simp_all add: sample_settle_def day_steps_cong)
  then have "DBF_Value_SJSJG (sample_settle rows) = DBF_Value_SJSJG (sample_settle [])"
    by (intro ext) (simp only: DBF_Value_SJSJG_def result_defs)
  moreover have "case DBF_Value_SJSJG (sample_settle []) (sample_basket_row []) of
      Fine vs \<Rightarrow> prints_short (sample_platform True) DBF_SJSJG vs | _ \<Rightarrow> False"
    by code_simp
  ultimately show ?thesis by (auto split: run.splits)
qed


theorem sz_amount_signed_witness:
  "\<exists>vs v. DBF_Value_SJSMX1 (sample_settle []) sample_sz_trade = Fine vs \<and> map_of vs ''MXSFJE'' = Some v \<and>
     d_dValue v = StringLiToDouble (sample_platform True) 2 ''-25000''"
proof -
  have t: "\<not> etf_trade sample_sz_trade" "sample_sz_trade ''oper_time'' = None" by code_simp+
  have "list_all runs (SJSMX1_business e sample_sz_trade @ SJSMX1_parties e sample_sz_trade @ SJSMX1_kind e sample_sz_trade @
      SJSMX1_amounts e sample_sz_trade @ SJSMX1_days e sample_sz_trade)" for e :: "int settle_env"
    unfolding SJSMX1_business_def SJSMX1_parties_def SJSMX1_kind_def SJSMX1_amounts_def SJSMX1_days_def when_etf_def unless_etf_def
      mx_business_def credit_to_def keep_text_def
    by (simp add: t runs_intros) (simp add: runs_def from_row_def t)
  then obtain vs where vs: "DBF_Value_SJSMX1 (sample_settle []) sample_sz_trade = Fine vs"
    using values_of_runs unfolding DBF_Value_SJSMX1_def by blast
  show ?thesis using sz_amount_signed [OF vs t(1), of "''25000''" "''1''"] vs
    by (auto simp: sample_sz_trade_def is_purchase_def STEPMSG_SIDE_BUY_1_def sample_settle_def)
qed

theorem sz_next_day_adds_witness:
  "\<exists>m v. DBF_Value_SJSDZ (sample_settle []) True sample_sz_trade = Fine m \<and>
     map_of m ''DZZYGS'' = Some v \<and> d_iType v = 3 \<and> d_dValue v = 773"
proof -
  have "\<exists>m. DBF_Value_SJSDZ (sample_settle []) False sample_sz_trade = Fine m"
    by (simp add: DBF_Value_SJSDZ_def SJSDZ_values_def values_of_def from_row_def sample_sz_trade_def text_to_def atof_to_def double_to_def again_def)
  then obtain m where m: "DBF_Value_SJSDZ (sample_settle []) False sample_sz_trade = Fine m" by blast
  have n: "snd (String2Double_atof int_ops ''700'') = 700" "snd (String2Double_atof int_ops ''50'') = 50"
    "snd (String2Double_atof int_ops ''20'') = 20" "snd (String2Double_atof int_ops ''3'') = 3" "w_plus int_ops = (+)"
    by (code_simp, code_simp, code_simp, code_simp, simp add: int_ops_def)
  show ?thesis
    using sz_next_day_adds [OF m, of "''700''" "''50''" "''20''" "''3''"]
    by (auto simp: sample_sz_trade_def sample_settle_def sample_platform_def n)
qed

end
