(* ===== verification/MysqlPool.thy ===== *)
theory MysqlPool
  imports TgwStringUtil
begin

text \<open>
  \<open>tool_mysql/MySqlCnnC602.cpp\<close>, a connection to the database, and \<open>tool_mysql/MysqlConnectionPool.cpp\<close>, the
  pool of connections that all threads share.  The client library of the database is a parameter: what it
  answers may depend on everything it was asked before, on any connection.  A handle is the number of
  calls that were made when it was allocated.
\<close>

section \<open>The client library\<close>

type_synonym row_data = "string \<Rightarrow> string option"

datatype db_call =
    RealConnect string string string "32 word" | SetCharacterSet string | SelectDb string | RealQuery string | CommitCall
  | RollBackCall | AutoCommitCall int | PingCall | CloseCall

type_synonym db_calls = "(nat \<times> db_call) list"

text \<open>
  \<open>mf_malloc\<close> tells whether there was memory for a handle, \<open>mf_result\<close> is the code of a call, 0 for success
  (for \<open>mysql_real_connect\<close>: a pointer was returned), \<open>mf_store\<close> the rows stored after a query, \<open>mf_fields\<close> its number
  of columns, \<open>mf_affected\<close> the number of rows it changed, and \<open>mf_time\<close> the clock.
\<close>

record mysql_library =
  mf_malloc :: "db_calls \<Rightarrow> bool"
  mf_result :: "db_calls \<Rightarrow> nat \<Rightarrow> db_call \<Rightarrow> int"
  mf_store :: "db_calls \<Rightarrow> nat \<Rightarrow> row_data list option"
  mf_fields :: "db_calls \<Rightarrow> nat \<Rightarrow> nat"
  mf_affected :: "db_calls \<Rightarrow> nat \<Rightarrow> 64 word"
  mf_time :: "db_calls \<Rightarrow> int"

definition db_ask :: "mysql_library \<Rightarrow> nat \<Rightarrow> db_call \<Rightarrow> db_calls \<Rightarrow> int \<times> db_calls" where
  "db_ask f h c w = (mf_result f w h c, w @ [(h, c)])"

section \<open>A connection\<close>

record MySqlCnnC602 =
  m_pMysql :: "nat option"
  m_strHost :: string
  m_strUserName :: string
  m_strPassWd :: string
  m_strSchema :: string
  m_uiPort :: "32 word"
  m_timeLastUseTime :: int

definition MySqlCnnC602_new :: MySqlCnnC602 where
  "MySqlCnnC602_new = \<lparr>m_pMysql = None, m_strHost = [], m_strUserName = [], m_strPassWd = [], m_strSchema = [],
     m_uiPort = 0, m_timeLastUseTime = 0\<rparr>"

definition IsClosed :: "MySqlCnnC602 \<Rightarrow> bool" where
  "IsClosed c \<longleftrightarrow> m_pMysql c = None"

definition UpdateUseTime :: "mysql_library \<Rightarrow> db_calls \<Rightarrow> MySqlCnnC602 \<Rightarrow> MySqlCnnC602" where
  "UpdateUseTime f w c = c\<lparr>m_timeLastUseTime := mf_time f w\<rparr>"

definition Connect_host ::
  "mysql_library \<Rightarrow> string \<Rightarrow> string \<Rightarrow> string \<Rightarrow> 32 word \<Rightarrow> MySqlCnnC602 \<Rightarrow> db_calls \<Rightarrow> int \<times> MySqlCnnC602 \<times> db_calls" where
  "Connect_host f host user pw port c w =
     (if \<not> IsClosed c then (-1, c, w)
      else
        let c1 = c\<lparr>m_strHost := host, m_strUserName := user, m_strPassWd := pw, m_uiPort := port\<rparr> in
        if \<not> mf_malloc f w then (-1, c1, w)
        else
          let h = length w in
          case db_ask f h (RealConnect (c_str host) (c_str user) (c_str pw) port) w of (iSql, w1) \<Rightarrow>
            if iSql \<noteq> 0 then (-1, c1, w1)
            else
              case db_ask f h (SetCharacterSet ''gbk'') w1 of (iRes, w2) \<Rightarrow>
                (if iRes \<noteq> 0 then -2 else 0, c1\<lparr>m_pMysql := Some h\<rparr>, w2))"

definition SetSchema :: "mysql_library \<Rightarrow> string \<Rightarrow> MySqlCnnC602 \<Rightarrow> db_calls \<Rightarrow> int \<times> MySqlCnnC602 \<times> db_calls" where
  "SetSchema f schema c w =
     (case m_pMysql c of
        None \<Rightarrow> (-1, c, w)
      | Some h \<Rightarrow>
          (case db_ask f h (SelectDb (c_str schema)) w of (iRes, w1) \<Rightarrow>
             if iRes \<noteq> 0 then (-2, c\<lparr>m_strSchema := []\<rparr>, w1) else (0, c\<lparr>m_strSchema := schema\<rparr>, w1)))"

definition Connect ::
  "mysql_library \<Rightarrow> string \<Rightarrow> string \<Rightarrow> string \<Rightarrow> 32 word \<Rightarrow> string \<Rightarrow> MySqlCnnC602 \<Rightarrow> db_calls \<Rightarrow> int \<times> MySqlCnnC602 \<times> db_calls" where
  "Connect f host user pw port catalog c w =
     (case Connect_host f host user pw port c w of (iRes, c1, w1) \<Rightarrow>
        if iRes \<noteq> 0 then (iRes, c1, w1) else SetSchema f catalog c1 w1)"

definition Close :: "MySqlCnnC602 \<Rightarrow> db_calls \<Rightarrow> MySqlCnnC602 \<times> db_calls" where
  "Close c w = (case m_pMysql c of None \<Rightarrow> (c, w) | Some h \<Rightarrow> (c\<lparr>m_pMysql := None\<rparr>, w @ [(h, CloseCall)]))"

text \<open>The mode that is asked for is not used: automatic commits are switched off in any case.\<close>

definition SetAutoCommit :: "mysql_library \<Rightarrow> int \<Rightarrow> MySqlCnnC602 \<Rightarrow> db_calls \<Rightarrow> int \<times> db_calls" where
  "SetAutoCommit f iAutoCommitMode c w =
     (case m_pMysql c of
        None \<Rightarrow> (-1, w)
      | Some h \<Rightarrow> (case db_ask f h (AutoCommitCall 0) w of (iRes, w1) \<Rightarrow> (if iRes \<noteq> 0 then -2 else 0, w1)))"

definition PingServer :: "mysql_library \<Rightarrow> MySqlCnnC602 \<Rightarrow> db_calls \<Rightarrow> int \<times> db_calls" where
  "PingServer f c w = (case m_pMysql c of None \<Rightarrow> (-1, w) | Some h \<Rightarrow> db_ask f h PingCall w)"

definition MySqlCnnC602_StartTransaction :: "mysql_library \<Rightarrow> MySqlCnnC602 \<Rightarrow> db_calls \<Rightarrow> int \<times> db_calls" where
  "MySqlCnnC602_StartTransaction f c w =
     (case m_pMysql c of
        None \<Rightarrow> (-1, w)
      | Some h \<Rightarrow> (case db_ask f h (RealQuery ''START TRANSACTION'') w of (iRes, w1) \<Rightarrow> (if iRes \<noteq> 0 then -2 else 0, w1)))"

text \<open>The rows of the query and the number of changed rows are left as they were where there are none.\<close>

definition Query ::
  "mysql_library \<Rightarrow> string \<Rightarrow> MySqlCnnC602 \<Rightarrow> row_data list option \<Rightarrow> 64 word \<Rightarrow> db_calls \<Rightarrow>
   int \<times> row_data list option \<times> 64 word \<times> db_calls" where
  "Query f sql c rows n w =
     (case m_pMysql c of
        None \<Rightarrow> (-1, rows, n, w)
      | Some h \<Rightarrow>
          (case db_ask f h (RealQuery (c_str sql)) w of (iRes, w1) \<Rightarrow>
             if iRes \<noteq> 0 then (-2, rows, n, w1)
             else
               case mf_store f w1 h of
                 Some result \<Rightarrow> (1, Some result, n, w1)
               | None \<Rightarrow> if mf_fields f w1 h = 0 then (2, rows, mf_affected f w1 h, w1) else (-2, rows, n, w1)))"

definition FetchNextRow :: "MySqlCnnC602 \<Rightarrow> row_data list option \<Rightarrow> row_data \<Rightarrow> int \<times> row_data list option \<times> row_data" where
  "FetchNextRow c rows out =
     (if IsClosed c then (0, rows, out)
      else case rows of
        None \<Rightarrow> (0, rows, out)
      | Some [] \<Rightarrow> (0, rows, Map.empty)
      | Some (r # rs) \<Rightarrow> (1, Some rs, r))"

definition MySqlCnnC602_Commit :: "mysql_library \<Rightarrow> MySqlCnnC602 \<Rightarrow> db_calls \<Rightarrow> int \<times> db_calls" where
  "MySqlCnnC602_Commit f c w =
     (case m_pMysql c of
        None \<Rightarrow> (-1, w)
      | Some h \<Rightarrow> (case db_ask f h CommitCall w of (iRes, w1) \<Rightarrow> (if iRes \<noteq> 0 then -1 else 0, w1)))"

definition MySqlCnnC602_RollBack :: "mysql_library \<Rightarrow> MySqlCnnC602 \<Rightarrow> db_calls \<Rightarrow> int \<times> db_calls" where
  "MySqlCnnC602_RollBack f c w =
     (case m_pMysql c of
        None \<Rightarrow> (-1, w)
      | Some h \<Rightarrow> (case db_ask f h RollBackCall w of (iRes, w1) \<Rightarrow> (if iRes \<noteq> 0 then -1 else 0, w1)))"

section \<open>The pool\<close>

record MysqlConnectionPool =
  m_bIsInited :: bool
  m_strSqlHost :: string
  m_strSqlUsername :: string
  m_strSqlPassword :: string
  m_uiSqlPort :: "32 word"
  m_strSqlCatalog :: string
  m_iCurSize :: int
  m_iMaxSize :: int
  m_connList :: "MySqlCnnC602 list"

text \<open>
  The pool is a global object: what its constructor does not set is 0.
\<close>

definition MysqlConnectionPool_new :: MysqlConnectionPool where
  "MysqlConnectionPool_new = \<lparr>m_bIsInited = False, m_strSqlHost = [], m_strSqlUsername = [], m_strSqlPassword = [], m_uiSqlPort = 0,
     m_strSqlCatalog = [], m_iCurSize = 0, m_iMaxSize = 0, m_connList = []\<rparr>"

definition SetConnection ::
  "string \<Rightarrow> string \<Rightarrow> string \<Rightarrow> 32 word \<Rightarrow> string \<Rightarrow> int \<Rightarrow> MysqlConnectionPool \<Rightarrow> MysqlConnectionPool" where
  "SetConnection host user pw port catalog maxSize pool =
     pool\<lparr>m_strSqlHost := host, m_strSqlUsername := user, m_strSqlPassword := pw, m_uiSqlPort := port,
       m_strSqlCatalog := catalog, m_iMaxSize := maxSize\<rparr>"

definition GetAvailablePoolSize :: "MysqlConnectionPool \<Rightarrow> nat" where
  "GetAvailablePoolSize pool = length (m_connList pool)"

definition SetDefaultCatalog :: "mysql_library \<Rightarrow> MysqlConnectionPool \<Rightarrow> MySqlCnnC602 \<Rightarrow> db_calls \<Rightarrow> bool \<times> db_calls" where
  "SetDefaultCatalog f pool c w =
     (case Query f (''USE `'' @ m_strSqlCatalog pool @ ''`;'') c None 0 w of (iRes, _, _, w1) \<Rightarrow> (iRes = 2, w1))"

text \<open>A connection that could not be made is dropped, which closes it.\<close>

definition CreateConnection :: "mysql_library \<Rightarrow> MysqlConnectionPool \<Rightarrow> db_calls \<Rightarrow> MySqlCnnC602 option \<times> db_calls" where
  "CreateConnection f pool w =
     (case Connect f (m_strSqlHost pool) (m_strSqlUsername pool) (m_strSqlPassword pool) (m_uiSqlPort pool) (m_strSqlCatalog pool)
        MySqlCnnC602_new w of (iRes, c, w1) \<Rightarrow>
        if iRes \<noteq> 0 then (None, snd (Close c w1))
        else if m_strSqlCatalog pool = [] then (Some (UpdateUseTime f w1 c), w1)
        else
          case SetDefaultCatalog f pool c w1 of (bres, w2) \<Rightarrow>
            if bres then (Some (UpdateUseTime f w2 c), w2) else (None, snd (Close c w2)))"

fun AddConn :: "mysql_library \<Rightarrow> nat \<Rightarrow> MysqlConnectionPool \<Rightarrow> db_calls \<Rightarrow> MysqlConnectionPool \<times> db_calls" where
  "AddConn f 0 pool w = (pool, w)"
| "AddConn f (Suc n) pool w =
     (case CreateConnection f pool w of
        (None, w1) \<Rightarrow> AddConn f n pool w1
      | (Some c, w1) \<Rightarrow> AddConn f n (pool\<lparr>m_connList := m_connList pool @ [c], m_iCurSize := m_iCurSize pool + 1\<rparr>) w1)"

definition c_half :: "int \<Rightarrow> int" where
  "c_half n = (if 0 \<le> n then n div 2 else - ((- n) div 2))"

definition Pool_Init :: "mysql_library \<Rightarrow> MysqlConnectionPool \<Rightarrow> db_calls \<Rightarrow> int \<times> MysqlConnectionPool \<times> db_calls" where
  "Pool_Init f pool w =
     (if m_bIsInited pool then (0, pool, w)
      else if m_strSqlHost pool = [] \<or> m_strSqlUsername pool = [] \<or> m_strSqlPassword pool = [] \<or> m_uiSqlPort pool = 0 then (-1, pool, w)
      else case AddConn f (nat (c_half (m_iMaxSize pool))) pool w of (pool1, w1) \<Rightarrow> (0, pool1\<lparr>m_bIsInited := True\<rparr>, w1))"

definition CONNECTION_EXPIRE_GAP :: int where
  "CONNECTION_EXPIRE_GAP = 60 * 60"

definition renew_connection ::
  "mysql_library \<Rightarrow> MySqlCnnC602 \<Rightarrow> MysqlConnectionPool \<Rightarrow> db_calls \<Rightarrow> MySqlCnnC602 option \<times> MysqlConnectionPool \<times> db_calls" where
  "renew_connection f c pool w =
     (case CreateConnection f pool (snd (Close c w)) of
        (None, w1) \<Rightarrow> (None, pool\<lparr>m_iCurSize := m_iCurSize pool - 1\<rparr>, w1)
      | (Some c1, w1) \<Rightarrow> (Some c1, pool, w1))"

definition GetConnection ::
  "mysql_library \<Rightarrow> MysqlConnectionPool \<Rightarrow> db_calls \<Rightarrow> MySqlCnnC602 option \<times> MysqlConnectionPool \<times> db_calls" where
  "GetConnection f pool w =
     (case m_connList pool of
        c # cs \<Rightarrow>
          (let pool1 = pool\<lparr>m_connList := cs\<rparr> in
           if IsClosed c then renew_connection f c pool1 w
           else if CONNECTION_EXPIRE_GAP < mf_time f w - m_timeLastUseTime c then renew_connection f c pool1 w
           else (Some c, pool1, w))
      | [] \<Rightarrow>
          (if m_iCurSize pool < m_iMaxSize pool
           then (case CreateConnection f pool w of
                   (None, w1) \<Rightarrow> (None, pool, w1)
                 | (Some c, w1) \<Rightarrow> (Some c, pool\<lparr>m_iCurSize := m_iCurSize pool + 1\<rparr>, w1))
           else (None, pool, w)))"

definition ReleaseConnection ::
  "mysql_library \<Rightarrow> MySqlCnnC602 option \<Rightarrow> MysqlConnectionPool \<Rightarrow> db_calls \<Rightarrow> MysqlConnectionPool \<times> db_calls" where
  "ReleaseConnection f sp pool w =
     (case sp of
        None \<Rightarrow> (pool\<lparr>m_iCurSize := m_iCurSize pool - 1\<rparr>, w)
      | Some c \<Rightarrow>
          (let w1 = snd (MySqlCnnC602_RollBack f c w) in (pool\<lparr>m_connList := m_connList pool @ [UpdateUseTime f w1 c]\<rparr>, w1)))"

fun close_all :: "MySqlCnnC602 list \<Rightarrow> db_calls \<Rightarrow> db_calls" where
  "close_all [] w = w"
| "close_all (c # cs) w = close_all cs (snd (Close c w))"

definition DestoryConnPool :: "MysqlConnectionPool \<Rightarrow> db_calls \<Rightarrow> MysqlConnectionPool \<times> db_calls" where
  "DestoryConnPool pool w = (pool\<lparr>m_iCurSize := 0, m_connList := []\<rparr>, close_all (m_connList pool) w)"

section \<open>The connections of the pool\<close>

text \<open>
  The pool with the connections that threads hold and the calls so far.  A thread takes a connection or is
  refused, uses the one it holds, and gives it back; every operation runs under the lock of the pool.
\<close>

record pool_state =
  the_pool :: MysqlConnectionPool
  held :: "MySqlCnnC602 list"
  calls_sent :: db_calls

inductive pool_step :: "mysql_library \<Rightarrow> pool_state \<Rightarrow> pool_state \<Rightarrow> bool" for f where
  taken: "GetConnection f (the_pool s) (calls_sent s) = (Some c, p, w) \<Longrightarrow>
    pool_step f s \<lparr>the_pool = p, held = c # held s, calls_sent = w\<rparr>"
| refused: "GetConnection f (the_pool s) (calls_sent s) = (None, p, w) \<Longrightarrow>
    pool_step f s \<lparr>the_pool = p, held = held s, calls_sent = w\<rparr>"
| used: "c \<in> set (held s) \<Longrightarrow> m_pMysql c = Some h \<Longrightarrow> call \<noteq> CloseCall \<Longrightarrow>
    pool_step f s (s\<lparr>calls_sent := calls_sent s @ [(h, call)]\<rparr>)"
| released: "c \<in> set (held s) \<Longrightarrow> ReleaseConnection f (Some c) (the_pool s) (calls_sent s) = (p, w) \<Longrightarrow>
    pool_step f s \<lparr>the_pool = p, held = remove1 c (held s), calls_sent = w\<rparr>"

definition pool_started :: "mysql_library \<Rightarrow> MysqlConnectionPool \<Rightarrow> pool_state \<Rightarrow> bool" where
  "pool_started f conf s \<longleftrightarrow> (fst (Pool_Init f conf []) = 0 \<and> m_connList conf = [] \<and> m_iCurSize conf = 0 \<and> \<not> m_bIsInited conf \<and>
     0 \<le> m_iMaxSize conf \<and>
     s = \<lparr>the_pool = fst (snd (Pool_Init f conf [])), held = [], calls_sent = snd (snd (Pool_Init f conf []))\<rparr>)"

text \<open>Whether a transaction was begun on a handle and neither committed nor rolled back since.\<close>

fun in_transaction :: "nat \<Rightarrow> bool \<Rightarrow> db_calls \<Rightarrow> bool" where
  "in_transaction h b [] = b"
| "in_transaction h b ((h1, call) # w) =
     in_transaction h (if h1 \<noteq> h then b else if call = RealQuery ''START TRANSACTION'' then True
       else if call = CommitCall \<or> call = RollBackCall then False else b) w"

lemma in_transaction_append: "in_transaction h b (w @ w1) = in_transaction h (in_transaction h b w) w1"
  by (induction h b w rule: in_transaction.induct) auto

lemma in_transaction_others: "\<forall>e\<in>set w. fst e \<noteq> h \<Longrightarrow> in_transaction h b w = b"
  by (induction w arbitrary: b) auto

lemma in_transaction_none:
  "\<forall>e\<in>set w. snd e \<noteq> RealQuery ''START TRANSACTION'' \<Longrightarrow> \<not> in_transaction h False w"
  by (induction w) (auto split: if_splits)

text \<open>A connection is live when its handle was allocated and not closed.\<close>

definition live :: "db_calls \<Rightarrow> MySqlCnnC602 \<Rightarrow> bool" where
  "live w c \<longleftrightarrow> (\<exists>h. m_pMysql c = Some h \<and> h < length w \<and> (h, CloseCall) \<notin> set w)"

definition pool_ok :: "MysqlConnectionPool \<Rightarrow> MySqlCnnC602 list \<Rightarrow> db_calls \<Rightarrow> bool" where
  "pool_ok p hs w \<longleftrightarrow> m_iCurSize p = int (length (m_connList p)) + int (length hs) \<and> m_iCurSize p \<le> m_iMaxSize p \<and>
     distinct (map m_pMysql (m_connList p @ hs)) \<and> (\<forall>c\<in>set (m_connList p @ hs). live w c) \<and>
     (\<forall>e\<in>set w. fst e < length w) \<and>
     (\<forall>c\<in>set (m_connList p). \<forall>h. m_pMysql c = Some h \<longrightarrow> \<not> in_transaction h False w)"

text \<open>What a new connection adds to the calls: all on a handle of its own.\<close>

definition new_calls :: "nat \<Rightarrow> db_calls \<Rightarrow> bool" where
  "new_calls h ts \<longleftrightarrow> (\<forall>e\<in>set ts. fst e = h \<and> snd e \<noteq> RealQuery ''START TRANSACTION'')"

lemma use_statement: "c_str (''USE `'' @ s) \<noteq> ''START TRANSACTION''"
  by (simp add: c_str_def)

lemma CreateConnection_calls:
  assumes "CreateConnection f p w = (r, w1)"
  shows "\<exists>ts. w1 = w @ ts \<and> new_calls (length w) ts \<and>
    (\<forall>c. r = Some c \<longrightarrow> ts \<noteq> [] \<and> m_pMysql c = Some (length w) \<and> (length w, CloseCall) \<notin> set ts)"
  using assms use_statement [of "m_strSqlCatalog p @ ''`;''"]
  by (auto simp: CreateConnection_def Connect_def Connect_host_def SetSchema_def SetDefaultCatalog_def Query_def db_ask_def
      MySqlCnnC602_new_def IsClosed_def Close_def Let_def UpdateUseTime_def new_calls_def
      split: if_splits prod.splits option.splits)

lemma live_handle: "live w c \<Longrightarrow> m_pMysql c = Some h \<Longrightarrow> h < length w \<and> (h, CloseCall) \<notin> set w"
  by (simp add: live_def)

lemma live_has_handle: "live w c \<Longrightarrow> \<exists>h. m_pMysql c = Some h"
  by (auto simp: live_def)

lemma pool_ok_live: "pool_ok p hs w \<Longrightarrow> c \<in> set (m_connList p @ hs) \<Longrightarrow> live w c"
  by (simp add: pool_ok_def)

lemma pool_ok_handles: "pool_ok p hs w \<Longrightarrow> e \<in> set w \<Longrightarrow> fst e < length w"
  by (simp add: pool_ok_def)

lemma pool_ok_pooled: "pool_ok p hs w \<Longrightarrow> c \<in> set (m_connList p) \<Longrightarrow> m_pMysql c = Some h \<Longrightarrow> \<not> in_transaction h False w"
  by (simp add: pool_ok_def)

text \<open>The calls may grow as long as they stay away from what is in the pool and close nothing of it.\<close>

lemma pool_ok_grow:
  assumes "pool_ok p hs w" "\<And>e. e \<in> set ts \<Longrightarrow> fst e < length (w @ ts)"
    "\<And>h c. c \<in> set (m_connList p @ hs) \<Longrightarrow> m_pMysql c = Some h \<Longrightarrow> (h, CloseCall) \<notin> set ts"
    "\<And>h c. c \<in> set (m_connList p) \<Longrightarrow> m_pMysql c = Some h \<Longrightarrow> \<forall>e\<in>set ts. fst e \<noteq> h"
  shows "pool_ok p hs (w @ ts)"
proof -
  have "live (w @ ts) c" if "c \<in> set (m_connList p @ hs)" for c
    using pool_ok_live [OF assms(1) that] assms(3) [OF that] by (auto simp: live_def)
  moreover have "fst e < length (w @ ts)" if "e \<in> set (w @ ts)" for e
    using that assms(2) [of e] pool_ok_handles [OF assms(1), of e] by auto
  moreover have "\<not> in_transaction h False (w @ ts)" if "c \<in> set (m_connList p)" "m_pMysql c = Some h" for c h
    using pool_ok_pooled [OF assms(1) that] in_transaction_others [OF assms(4) [OF that]] by (simp add: in_transaction_append)
  ultimately show ?thesis using assms(1) by (simp add: pool_ok_def)
qed

lemma pool_ok_calls:
  assumes "pool_ok p hs w" "CreateConnection f q w = (r, w1)"
  shows "pool_ok p hs w1"
proof -
  obtain ts where ts: "w1 = w @ ts" "new_calls (length w) ts" using CreateConnection_calls [OF assms(2)] by blast
  have other: "fst e \<noteq> h" if "c \<in> set (m_connList p @ hs)" "m_pMysql c = Some h" "e \<in> set ts" for c h e
    using live_handle [OF pool_ok_live [OF assms(1) that(1)] that(2)] that(3) ts(2) by (auto simp: new_calls_def)
  show ?thesis unfolding ts(1)
  proof (rule pool_ok_grow [OF assms(1)])
    show "fst e < length (w @ ts)" if "e \<in> set ts" for e
    proof -
      have "ts \<noteq> []" using that by auto
      then show ?thesis using that ts(2) by (auto simp: new_calls_def)
    qed
    show "(h, CloseCall) \<notin> set ts" if "c \<in> set (m_connList p @ hs)" "m_pMysql c = Some h" for c h using other [OF that] by fastforce
    show "\<forall>e\<in>set ts. fst e \<noteq> h" if "c \<in> set (m_connList p)" "m_pMysql c = Some h" for c h
      using other [of c h, OF _ that(2)] that(1) by simp
  qed
qed

lemma pool_ok_fresh:
  assumes "pool_ok p hs w" "CreateConnection f q w = (Some c, w1)"
  shows "live w1 c" "m_pMysql c \<notin> m_pMysql ` set (m_connList p @ hs)"
    "m_pMysql c = Some h \<Longrightarrow> \<not> in_transaction h False w1"
proof -
  obtain ts where ts: "w1 = w @ ts" "new_calls (length w) ts" "ts \<noteq> []" "m_pMysql c = Some (length w)" "(length w, CloseCall) \<notin> set ts"
    using CreateConnection_calls [OF assms(2)] by blast
  have w: "\<forall>e\<in>set w. fst e < length w" using assms(1) by (simp add: pool_ok_def)
  then show "live w1 c" using ts by (auto simp: live_def)
  have "m_pMysql c1 \<noteq> m_pMysql c" if "c1 \<in> set (m_connList p @ hs)" for c1
    using live_handle [OF pool_ok_live [OF assms(1) that]] ts(4) by auto
  then show "m_pMysql c \<notin> m_pMysql ` set (m_connList p @ hs)" by fastforce
  have "in_transaction (length w) False w = False" using w by (intro in_transaction_others) auto
  then show "\<not> in_transaction h False w1" if "m_pMysql c = Some h"
    using that ts in_transaction_none [of ts] by (auto simp: in_transaction_append new_calls_def)
qed

lemma pool_ok_given:
  assumes "pool_ok p hs w" "CreateConnection f q w = (Some c, w1)" "m_iCurSize p < m_iMaxSize p"
  shows "pool_ok (p\<lparr>m_iCurSize := m_iCurSize p + 1\<rparr>) (c # hs) w1"
    "pool_ok (p\<lparr>m_connList := m_connList p @ [c], m_iCurSize := m_iCurSize p + 1\<rparr>) hs w1"
  using pool_ok_calls [OF assms(1,2)] pool_ok_fresh [OF assms(1,2)] assms(3) by (auto simp: pool_ok_def)

lemma pool_ok_dropped:
  assumes "pool_ok p hs w" "m_connList p = c # cs"
  shows "pool_ok (p\<lparr>m_connList := cs, m_iCurSize := m_iCurSize p - 1\<rparr>) hs w" "m_pMysql c \<notin> m_pMysql ` set (cs @ hs)"
  using assms by (auto simp: pool_ok_def)

lemma pool_ok_closed:
  assumes "pool_ok p hs w" "m_connList p = c # cs"
  shows "pool_ok (p\<lparr>m_connList := cs, m_iCurSize := m_iCurSize p - 1\<rparr>) hs (snd (Close c w))"
proof -
  have c: "live w c" by (rule pool_ok_live [OF assms(1)]) (simp add: assms(2))
  then obtain h where h: "m_pMysql c = Some h" using live_has_handle by blast
  have other: "m_pMysql c1 \<noteq> Some h" if "c1 \<in> set (cs @ hs)" for c1
    using pool_ok_dropped(2) [OF assms] that h by (metis imageI)
  have "pool_ok (p\<lparr>m_connList := cs, m_iCurSize := m_iCurSize p - 1\<rparr>) hs (w @ [(h, CloseCall)])"
    by (rule pool_ok_grow [OF pool_ok_dropped(1) [OF assms]]) (use live_handle [OF c h] other in \<open>auto simp: less_SucI\<close>)
  then show ?thesis by (simp add: Close_def h)
qed

lemma pool_ok_taken:
  assumes "pool_ok p hs w" "m_connList p = c # cs"
  shows "pool_ok (p\<lparr>m_connList := cs\<rparr>) (c # hs) w"
  using assms by (auto simp: pool_ok_def)

lemma pool_ok_renewed:
  assumes "pool_ok p hs w" "m_connList p = c # cs" "renew_connection f c (p\<lparr>m_connList := cs\<rparr>) w = (r, p1, w1)"
  shows "pool_ok p1 (case r of None \<Rightarrow> hs | Some c1 \<Rightarrow> c1 # hs) w1"
proof -
  let ?p = "p\<lparr>m_connList := cs, m_iCurSize := m_iCurSize p - 1\<rparr>"
  note closed = pool_ok_closed [OF assms(1,2)]
  have room: "m_iCurSize ?p < m_iMaxSize ?p" using assms(1) by (simp add: pool_ok_def)
  show ?thesis
  proof (cases "CreateConnection f (p\<lparr>m_connList := cs\<rparr>) (snd (Close c w))")
    case (Pair r2 w2)
    then show ?thesis
      using assms(3) pool_ok_calls [OF closed Pair] pool_ok_given(1) [OF closed _ room]
      by (cases r2) (auto simp: renew_connection_def)
  qed
qed

lemma GetConnection_ok:
  assumes "pool_ok p hs w" "GetConnection f p w = (r, p1, w1)"
  shows "pool_ok p1 (case r of None \<Rightarrow> hs | Some c1 \<Rightarrow> c1 # hs) w1"
proof (cases "m_connList p")
  case Nil
  show ?thesis
  proof (cases "CreateConnection f p w")
    case (Pair r2 w2)
    then show ?thesis
      using assms Nil pool_ok_calls [OF assms(1) Pair] pool_ok_given(1) [OF assms(1)]
      by (cases r2) (auto simp: GetConnection_def split: if_splits)
  qed
next
  case (Cons c cs)
  then show ?thesis
    using assms(2) pool_ok_renewed [OF assms(1) Cons] pool_ok_taken [OF assms(1) Cons]
    by (auto simp: GetConnection_def Let_def split: if_splits)
qed

lemma pool_ok_used:
  assumes "pool_ok p hs w" "c \<in> set hs" "m_pMysql c = Some h" "call \<noteq> CloseCall"
  shows "pool_ok p hs (w @ [(h, call)])"
proof -
  have c: "live w c" by (rule pool_ok_live [OF assms(1)]) (simp add: assms(2))
  have other: "m_pMysql c1 \<noteq> Some h" if "c1 \<in> set (m_connList p)" for c1
    using assms(1-3) that by (auto simp: pool_ok_def) (metis IntI emptyE imageI)
  show ?thesis
    by (rule pool_ok_grow [OF assms(1)]) (use live_handle [OF c assms(3)] other assms(4) in \<open>auto simp: less_SucI\<close>)
qed

lemma pool_ok_back:
  assumes "pool_ok p hs w" "c \<in> set hs" "m_pMysql c = Some h" "\<not> in_transaction h False w"
  shows "pool_ok (p\<lparr>m_connList := m_connList p @ [c\<lparr>m_timeLastUseTime := t\<rparr>]\<rparr>) (remove1 c hs) w"
proof -
  obtain as bs where hs: "hs = as @ c # bs" "c \<notin> set as" using split_list_first [OF assms(2)] by blast
  have "live w (c\<lparr>m_timeLastUseTime := t\<rparr>)" using assms(1) hs by (simp add: pool_ok_def live_def)
  then show ?thesis using assms by (auto simp: pool_ok_def hs(1) remove1_append hs(2))
qed

lemma ReleaseConnection_ok:
  assumes "pool_ok p hs w" "c \<in> set hs" "ReleaseConnection f (Some c) p w = (p1, w1)"
  shows "pool_ok p1 (remove1 c hs) w1"
proof -
  have "live w c" by (rule pool_ok_live [OF assms(1)]) (simp add: assms(2))
  then obtain h where h: "m_pMysql c = Some h" using live_has_handle by blast
  have used: "pool_ok p hs (w @ [(h, RollBackCall)])" by (rule pool_ok_used [OF assms(1,2) h]) simp
  have "\<not> in_transaction h False (w @ [(h, RollBackCall)])" by (simp add: in_transaction_append)
  from pool_ok_back [OF used assms(2) h this] show ?thesis
    using assms(3) by (auto simp: ReleaseConnection_def MySqlCnnC602_RollBack_def h db_ask_def UpdateUseTime_def Let_def split: prod.splits)
qed

lemma AddConn_ok:
  assumes "pool_ok p [] w" "AddConn f n p w = (p1, w1)" "int (length (m_connList p)) + int n \<le> m_iMaxSize p"
  shows "pool_ok p1 [] w1"
  using assms
proof (induction n arbitrary: p w)
  case (Suc n)
  show ?case
  proof (cases "CreateConnection f p w")
    case (Pair r w2)
    show ?thesis
    proof (cases r)
      case None
      then show ?thesis using Suc.IH [OF pool_ok_calls [OF Suc.prems(1) Pair]] Suc.prems(2,3) Pair by simp
    next
      case (Some c)
      have "m_iCurSize p < m_iMaxSize p" using Suc.prems(1,3) by (simp add: pool_ok_def)
      from pool_ok_given(2) [OF Suc.prems(1) Pair [unfolded Some] this] show ?thesis
        by (rule Suc.IH) (use Suc.prems(2,3) Pair Some in simp_all)
    qed
  qed
qed simp

lemma AddConn_started:
  assumes "m_connList conf = []" "m_iCurSize conf = 0" "0 \<le> m_iMaxSize conf" "AddConn f (nat (m_iMaxSize conf div 2)) conf [] = (p, w)"
  shows "pool_ok (p\<lparr>m_bIsInited := b\<rparr>) [] w"
proof -
  have "pool_ok conf [] []" using assms(1-3) by (simp add: pool_ok_def)
  then have "pool_ok p [] w" by (rule AddConn_ok [OF _ assms(4)]) (use assms(1,3) in simp)
  then show ?thesis by (simp add: pool_ok_def)
qed

lemma pool_started_ok: "pool_started f conf s \<Longrightarrow> pool_ok (the_pool s) (held s) (calls_sent s)"
  by (auto simp: pool_started_def Pool_Init_def c_half_def pool_ok_def [of _ _ "[]"] intro!: AddConn_started
      split: prod.splits if_splits)

lemma pool_step_ok: "pool_step f s s1 \<Longrightarrow> pool_ok (the_pool s) (held s) (calls_sent s) \<Longrightarrow> pool_ok (the_pool s1) (held s1) (calls_sent s1)"
proof (induction rule: pool_step.induct)
  case (taken s c p w)
  then show ?case using GetConnection_ok [OF taken(2,1)] by simp
next
  case (refused s p w)
  then show ?case using GetConnection_ok [OF refused(2,1)] by simp
next
  case (used c s h call)
  then show ?case using pool_ok_used by simp
next
  case (released c s p w)
  then show ?case using ReleaseConnection_ok by simp
qed

lemma pool_run_ok: "(pool_step f)\<^sup>*\<^sup>* s s1 \<Longrightarrow> pool_ok (the_pool s) (held s) (calls_sent s) \<Longrightarrow> pool_ok (the_pool s1) (held s1) (calls_sent s1)"
  by (induction rule: rtranclp_induct) (auto dest: pool_step_ok)

text \<open>
  C19.  However the threads take, use and give back connections, as long as a thread gives back only what it holds:
  no connection is with two threads, or with a thread and in the pool; the counter of the pool is the number
  of its connections and of those held, and not above the maximum; none of them was closed; and no connection that
  waits in the pool has a transaction open that its last user began.
\<close>

theorem pool_connections_exclusive:
  assumes "pool_started f conf s" "(pool_step f)\<^sup>*\<^sup>* s s1" "p = the_pool s1"
  shows "distinct (map m_pMysql (m_connList p @ held s1)) \<and>
     m_iCurSize p = int (length (m_connList p)) + int (length (held s1)) \<and> m_iCurSize p \<le> m_iMaxSize p \<and>
     (\<forall>c\<in>set (m_connList p @ held s1). \<exists>h. m_pMysql c = Some h \<and> (h, CloseCall) \<notin> set (calls_sent s1)) \<and>
     (\<forall>c\<in>set (m_connList p). \<forall>h. m_pMysql c = Some h \<longrightarrow> \<not> in_transaction h False (calls_sent s1))"
  using pool_run_ok [OF assms(2) pool_started_ok [OF assms(1)]] assms(3) by (auto simp: pool_ok_def live_def)

definition library_works :: "mysql_library \<Rightarrow> bool" where
  "library_works f \<longleftrightarrow> (\<forall>w. mf_malloc f w) \<and> (\<forall>w h c. mf_result f w h c = 0) \<and> (\<forall>w h. mf_store f w h = None) \<and>
     (\<forall>w h. mf_fields f w h = 0)"

lemma CreateConnection_works:
  assumes "library_works f"
  shows "\<exists>c w1. CreateConnection f p w = (Some c, w1)"
  using assms
  by (auto simp: library_works_def CreateConnection_def Connect_def Connect_host_def SetSchema_def SetDefaultCatalog_def Query_def
      db_ask_def MySqlCnnC602_new_def IsClosed_def Let_def)

text \<open>A refused caller that gives back the missing connection, and one that comes next, again and again.\<close>

fun refused_and_next ::
  "mysql_library \<Rightarrow> nat \<Rightarrow> MysqlConnectionPool \<Rightarrow> db_calls \<Rightarrow> MySqlCnnC602 option list \<times> MysqlConnectionPool \<times> db_calls" where
  "refused_and_next f 0 p w = ([], p, w)"
| "refused_and_next f (Suc n) p w =
     (case GetConnection f p w of (sp, p1, w1) \<Rightarrow>
        case ReleaseConnection f sp p1 w1 of (p2, w2) \<Rightarrow>
          case GetConnection f p2 w2 of (sp3, p3, w3) \<Rightarrow>
            case refused_and_next f n p3 w3 of (sps, p4, w4) \<Rightarrow> (sp3 # sps, p4, w4))"

text \<open>
  The maximum is not kept by callers that give back what they were refused, as the settlement and others do: the
  counter goes down with every missing connection, the next call makes a new one, and after n such rounds n
  connections were given out beyond the maximum, with the counter where it was.
\<close>

theorem null_release_exceeds_maximum:
  assumes "library_works f" "m_connList p = []" "m_iCurSize p = m_iMaxSize p"
  shows "\<exists>cs w1. refused_and_next f n p w = (map Some cs, p, w1) \<and> length cs = n"
proof (induction n arbitrary: w)
  case (Suc n)
  obtain c w1 where c: "CreateConnection f (p\<lparr>m_iCurSize := m_iMaxSize p - 1\<rparr>) w = (Some c, w1)"
    using CreateConnection_works [OF assms(1)] by blast
  obtain cs w2 where cs: "refused_and_next f n p w1 = (map Some cs, p, w2)" "length cs = n" using Suc.IH by blast
  have same: "p\<lparr>m_iCurSize := m_iMaxSize p\<rparr> = p" using assms(3) by (metis MysqlConnectionPool.surjective MysqlConnectionPool.update_convs(7))
  then have "refused_and_next f (Suc n) p w = (map Some (c # cs), p, w2)"
    using c cs(1) assms(2,3) by (simp add: GetConnection_def ReleaseConnection_def same)
  then show ?case using cs(2) by (metis length_Cons)
qed simp

section \<open>The properties at sample values\<close>

definition sample_mysql :: mysql_library where
  "sample_mysql = \<lparr>mf_malloc = (\<lambda>w. True), mf_result = (\<lambda>w h c. 0), mf_store = (\<lambda>w h. None), mf_fields = (\<lambda>w h. 0),
     mf_affected = (\<lambda>w h. 1), mf_time = (\<lambda>w. 0)\<rparr>"

definition sample_conf :: MysqlConnectionPool where
  "sample_conf = SetConnection ''h'' ''u'' ''p'' 3306 [] 2 MysqlConnectionPool_new"

definition sample_pool :: pool_state where
  "sample_pool = \<lparr>the_pool = fst (snd (Pool_Init sample_mysql sample_conf [])), held = [],
     calls_sent = snd (snd (Pool_Init sample_mysql sample_conf []))\<rparr>"

lemma sample_pool_started: "pool_started sample_mysql sample_conf sample_pool"
  unfolding pool_started_def sample_pool_def
  by (simp add: sample_conf_def SetConnection_def MysqlConnectionPool_new_def Pool_Init_def split: prod.splits)

theorem pool_connections_exclusive_witness:
  "\<exists>s1 c. pool_step sample_mysql sample_pool s1 \<and> held s1 = [c] \<and> m_connList (the_pool s1) = [] \<and> m_iCurSize (the_pool s1) = 1 \<and>
     m_pMysql c = Some 0"
proof -
  have "case GetConnection sample_mysql (the_pool sample_pool) (calls_sent sample_pool) of
      (Some c, p, w) \<Rightarrow> m_connList p = [] \<and> m_pMysql c = Some 0 | _ \<Rightarrow> False"
    by code_simp
  then obtain c p w where g: "GetConnection sample_mysql (the_pool sample_pool) (calls_sent sample_pool) = (Some c, p, w)"
    "m_connList p = []" "m_pMysql c = Some 0"
    by (auto split: prod.splits option.splits)
  let ?s1 = "\<lparr>the_pool = p, held = c # held sample_pool, calls_sent = w\<rparr>"
  have step: "pool_step sample_mysql sample_pool ?s1" by (rule pool_step.taken [OF g(1)])
  then have steps: "(pool_step sample_mysql)\<^sup>*\<^sup>* sample_pool ?s1" by blast
  have "held sample_pool = []" by (simp add: sample_pool_def)
  then show ?thesis
    using pool_connections_exclusive [OF sample_pool_started steps refl] step g(2,3)
    by (intro exI [of _ ?s1] exI [of _ c]) simp
qed

theorem null_release_exceeds_maximum_witness:
  "\<exists>cs w1. refused_and_next sample_mysql 3 MysqlConnectionPool_new [] = (map Some cs, MysqlConnectionPool_new, w1) \<and> length cs = 3"
proof -
  have "library_works sample_mysql" by (simp add: library_works_def sample_mysql_def)
  then show ?thesis by (rule null_release_exceeds_maximum) (simp_all add: MysqlConnectionPool_new_def)
qed

end
