(* ===== verification/Settlement.thy ===== *)
theory Settlement
  imports ShSettle SzSettle MysqlPool MarketInfoHelper
begin

text \<open>
  \<open>simutgw/settlement/Settlement.cpp\<close>: the settlement of a day.  First the statements of both markets are
  written, group by group and then for all, and at the end the holdings are settled: what was bought becomes
  available, in one transaction for each of the two tables of holdings, on a connection of the pool.
\<close>

section \<open>The holdings\<close>

record StockRecord =
  strId :: string
  ui64StockBalance :: u64
  ui64ActBalance :: u64
  ui64StpBalance :: u64
  ui64RdpBalance :: u64
  ui64CrtBalance :: u64
  ui64AvlBalance :: u64

text \<open>A column that the query did not ask for, and one that is NULL, read as the empty text, which is 0.\<close>

definition column_of :: "row_data \<Rightarrow> string \<Rightarrow> string" where
  "column_of row k = (case row k of None \<Rightarrow> [] | Some v \<Rightarrow> v)"

definition number_of :: "row_data \<Rightarrow> string \<Rightarrow> u64" where
  "number_of row k = snd (String2UInt64_strtoui64 (column_of row k))"

definition stock_record :: "row_data \<Rightarrow> StockRecord" where
  "stock_record row = \<lparr>strId = column_of row ''id'', ui64StockBalance = number_of row ''stock_balance'',
     ui64ActBalance = number_of row ''stock_auction_purchase_balance'', ui64StpBalance = number_of row ''stock_staple_purchase_balance'',
     ui64RdpBalance = number_of row ''stock_etf_redemption_balance'', ui64CrtBalance = number_of row ''stock_creation_balance'',
     ui64AvlBalance = number_of row ''stock_available''\<rparr>"

definition is_settled :: "StockRecord \<Rightarrow> bool" where
  "is_settled r \<longleftrightarrow> ui64StockBalance r = ui64AvlBalance r \<and> 0 = ui64ActBalance r \<and> 0 = ui64StpBalance r \<and>
     0 = ui64RdpBalance r \<and> 0 = ui64CrtBalance r"

fun fetch_stock :: "row_data list \<Rightarrow> StockRecord list \<Rightarrow> StockRecord list" where
  "fetch_stock [] io = io"
| "fetch_stock (row # rows) io =
     (let record = stock_record row in if is_settled record then fetch_stock rows io else fetch_stock rows (io @ [record]))"

definition GetStock :: "mysql_library \<Rightarrow> MySqlCnnC602 \<Rightarrow> string \<Rightarrow> db_calls \<Rightarrow> int \<times> StockRecord list \<times> db_calls" where
  "GetStock f c sql w =
     (case Query f sql c None 0 w of (iRes, rows, n, w1) \<Rightarrow>
        if iRes = 1 then (0, fetch_stock (case rows of None \<Rightarrow> [] | Some rs \<Rightarrow> rs) [], w1) else (-2, [], w1))"

definition stock_asset_query :: string where
  "stock_asset_query = ''SELECT `id`,`stock_balance`,`stock_auction_purchase_balance`,'' @
     ''`stock_staple_purchase_balance`,`stock_etf_redemption_balance`,`stock_available` FROM `stock_asset`''"

definition stock_etf_asset_query :: string where
  "stock_etf_asset_query = ''SELECT `id`,`stock_balance`,`stock_auction_purchase_balance`,'' @
     ''`stock_staple_purchase_balance`,`stock_creation_balance`,`stock_available` FROM `stock_etf_asset`''"

text \<open>What an update sets, with the text before each column.\<close>

definition settled_total :: "StockRecord \<Rightarrow> u64" where
  "settled_total r = ui64ActBalance r + ui64StpBalance r + ui64RdpBalance r + ui64AvlBalance r"

definition settled_etf_total :: "StockRecord \<Rightarrow> u64" where
  "settled_etf_total r = ui64ActBalance r + ui64StpBalance r + ui64CrtBalance r + ui64AvlBalance r"

definition settled_columns :: "u64 \<Rightarrow> string \<Rightarrow> (string \<times> string \<times> string) list" where
  "settled_columns n third =
     [([], ''stock_balance'', itos n), ('', '', ''stock_available'', itos n),
      ('', '', ''stock_auction_purchase_balance'', ''0''), ('', '', ''stock_staple_purchase_balance'', ''0''), ('','', third, ''0'')]"

definition update_text :: "string \<Rightarrow> (string \<times> string \<times> string) list \<Rightarrow> StockRecord \<Rightarrow> string" where
  "update_text table sets r = ''UPDATE `'' @ table @ ''` SET '' @
     concat (map (\<lambda>(sep, column, v). sep @ ''`'' @ column @ ''`='' @ v) sets) @ '',`oper_time` = now()'' @
     '' WHERE `id`='' @ strId r @ '' AND `stock_balance`='' @ itos (ui64StockBalance r) @
     '' AND `stock_available`='' @ itos (ui64AvlBalance r)"

definition execute_update :: "mysql_library \<Rightarrow> MySqlCnnC602 \<Rightarrow> string \<Rightarrow> db_calls \<Rightarrow> int \<times> db_calls" where
  "execute_update f c sql w =
     (case Query f sql c None 0 w of (iRes, rows, n, w1) \<Rightarrow> (if iRes = 2 then (if n \<noteq> 1 then -1 else 0) else -1, w1))"

definition stock_asset_update :: "StockRecord \<Rightarrow> string" where
  "stock_asset_update r = update_text ''stock_asset'' (settled_columns (settled_total r) ''stock_etf_redemption_balance'') r"

definition Update_Stock_Asset :: "mysql_library \<Rightarrow> MySqlCnnC602 \<Rightarrow> StockRecord \<Rightarrow> db_calls \<Rightarrow> int \<times> db_calls" where
  "Update_Stock_Asset f c r = execute_update f c (stock_asset_update r)"

definition stock_etf_asset_update :: "StockRecord \<Rightarrow> string" where
  "stock_etf_asset_update r = update_text ''stock_etf_asset'' (settled_columns (settled_etf_total r) ''stock_creation_balance'') r"

definition Update_Stock_ETF_Asset :: "mysql_library \<Rightarrow> MySqlCnnC602 \<Rightarrow> StockRecord \<Rightarrow> db_calls \<Rightarrow> int \<times> db_calls" where
  "Update_Stock_ETF_Asset f c r = execute_update f c (stock_etf_asset_update r)"

fun update_all ::
  "(MySqlCnnC602 \<Rightarrow> StockRecord \<Rightarrow> db_calls \<Rightarrow> int \<times> db_calls) \<Rightarrow> MySqlCnnC602 \<Rightarrow> StockRecord list \<Rightarrow> db_calls \<Rightarrow> db_calls" where
  "update_all upd c [] w = w"
| "update_all upd c (r # rs) w = update_all upd c rs (snd (upd c r w))"

text \<open>
  The settlement of a table.  When the holdings cannot be read the connection is not given back: it is
  dropped with the last reference, which closes it.
\<close>

definition settle_holdings ::
  "mysql_library \<Rightarrow> string \<Rightarrow> (MySqlCnnC602 \<Rightarrow> StockRecord \<Rightarrow> db_calls \<Rightarrow> int \<times> db_calls) \<Rightarrow>
   MysqlConnectionPool \<Rightarrow> db_calls \<Rightarrow> int \<times> MysqlConnectionPool \<times> db_calls" where
  "settle_holdings f sql upd pool w =
     (case GetConnection f pool w of (sp, pool1, w1) \<Rightarrow>
        case sp of
          None \<Rightarrow> (-1, ReleaseConnection f sp pool1 w1)
        | Some c \<Rightarrow>
            (case GetStock f c sql (snd (MySqlCnnC602_StartTransaction f c w1)) of (iRes, records, w2) \<Rightarrow>
               if iRes < 0 then (-1, pool1, snd (Close c w2))
               else (0, ReleaseConnection f sp pool1 (snd (MySqlCnnC602_Commit f c (update_all upd c records w2))))))"

definition Stock_Asset_Settle :: "mysql_library \<Rightarrow> MysqlConnectionPool \<Rightarrow> db_calls \<Rightarrow> int \<times> MysqlConnectionPool \<times> db_calls" where
  "Stock_Asset_Settle f = settle_holdings f stock_asset_query (Update_Stock_Asset f)"

definition Stock_ETF_Asset_Settle :: "mysql_library \<Rightarrow> MysqlConnectionPool \<Rightarrow> db_calls \<Rightarrow> int \<times> MysqlConnectionPool \<times> db_calls" where
  "Stock_ETF_Asset_Settle f = settle_holdings f stock_etf_asset_query (Update_Stock_ETF_Asset f)"

definition Stock_Settle :: "mysql_library \<Rightarrow> MysqlConnectionPool \<Rightarrow> db_calls \<Rightarrow> int \<times> MysqlConnectionPool \<times> db_calls" where
  "Stock_Settle f pool w =
     (case Stock_Asset_Settle f pool w of (iRes, pool1, w1) \<Rightarrow>
        if iRes \<noteq> 0 then (-1, pool1, w1)
        else case Stock_ETF_Asset_Settle f pool1 w1 of (iRes2, pool2, w2) \<Rightarrow> (if iRes2 \<noteq> 0 then -1 else 0, pool2, w2))"

section \<open>The settlement\<close>

text \<open>A query that fails leaves the groups empty, and is no failure.\<close>

definition group_names_query :: string where
  "group_names_query = ''SELECT `settle_group` FROM `order_match` GROUP BY `settle_group`;''"

definition GetSettleGroupNames :: "'d settle_env \<Rightarrow> int \<times> string list" where
  "GetSettleGroupNames e =
     (0, case se_query e group_names_query of None \<Rightarrow> [] | Some rows \<Rightarrow> map (\<lambda>row. text_or_empty (row ''settle_group'')) rows)"

fun group_details :: "'d settle_env \<Rightarrow> string list \<Rightarrow> string \<Rightarrow> disk \<Rightarrow> (int \<times> disk) option" where
  "group_details e [] path d = Some (0, d)"
| "group_details e (g # gs) path d =
     (case SH_MakeSettlementDetails e g path d of
        None \<Rightarrow> None
      | Some (iRes, d1) \<Rightarrow>
          if iRes \<noteq> 0 then Some (-1, d1)
          else
            (case SZ_MakeSettlementDetails e g path d1 of
               None \<Rightarrow> None
             | Some (iRes2, d2) \<Rightarrow> if iRes2 \<noteq> 0 then Some (-1, d2) else group_details e gs path d2))"

text \<open>
  \<open>dir\<close> is what making the directory of the day gives: the code, the day and the path.  The result has the
  day and the path that are given to the caller, if they are.
\<close>

record settled =
  sd_result :: int
  sd_out :: "(string \<times> string) option"
  sd_disk :: disk
  sd_pool :: MysqlConnectionPool
  sd_calls :: db_calls

definition MakeSettlement ::
  "'d settle_env \<Rightarrow> int \<times> string \<times> string \<Rightarrow> mysql_library \<Rightarrow> string list \<Rightarrow> disk \<Rightarrow> MysqlConnectionPool \<Rightarrow> db_calls \<Rightarrow>
   settled option" where
  "MakeSettlement e dir f groups d pool w =
     (case dir of (iDir, strDay, strFilePath) \<Rightarrow>
        let failed = (\<lambda>d. \<lparr>sd_result = -1, sd_out = None, sd_disk = d, sd_pool = pool, sd_calls = w\<rparr>) in
        if iDir \<noteq> 0 then Some (failed d)
        else
          case (if groups = [] then GetSettleGroupNames e else (0, groups)) of (iRes, gnames) \<Rightarrow>
            if iRes \<noteq> 0 then Some (failed d)
            else
              case then_also (group_details e gnames strFilePath)
                  (then_also (SH_MakeSettlementSummary e strFilePath) (SZ_MakeSettlementSummary e strFilePath)) d of
                None \<Rightarrow> None
              | Some (iRes1, d1) \<Rightarrow>
                  if iRes1 \<noteq> 0 then Some (failed d1)
                  else
                    (case Stock_Settle f pool w of (iRes2, pool1, w1) \<Rightarrow>
                       if iRes2 \<noteq> 0 then Some ((failed d1)\<lparr>sd_pool := pool1, sd_calls := w1\<rparr>)
                       else Some \<lparr>sd_result = 0, sd_out = Some (strDay, strFilePath), sd_disk = d1, sd_pool = pool1, sd_calls = w1\<rparr>))"

section \<open>Settling the holdings\<close>

lemma fetch_stock_filter: "fetch_stock rows io = io @ filter (\<lambda>r. \<not> is_settled r) (map stock_record rows)"
  by (induction rows io rule: fetch_stock.induct) (auto simp: Let_def)

lemma execute_update_calls: "m_pMysql c = Some h \<Longrightarrow> snd (execute_update f c sql w) = w @ [(h, RealQuery (c_str sql))]"
  by (auto simp: execute_update_def Query_def db_ask_def split: prod.splits option.splits if_splits)

lemma update_all_calls:
  assumes "m_pMysql c = Some h"
  shows "update_all (\<lambda>c r. execute_update f c (stmt r)) c rs w = w @ map (\<lambda>r. (h, RealQuery (c_str (stmt r)))) rs"
  by (induction rs arbitrary: w) (simp_all add: execute_update_calls [OF assms])

lemma settle_holdings_calls:
  assumes "GetConnection f pool w = (Some c, pool1, w1)" "m_pMysql c = Some h"
    "w2 = w1 @ [(h, RealQuery ''START TRANSACTION''), (h, RealQuery (c_str sql))]"
    "mf_result f (w1 @ [(h, RealQuery ''START TRANSACTION'')]) h (RealQuery (c_str sql)) = 0" "mf_store f w2 h = Some rows"
    "w3 = w2 @ map (\<lambda>r. (h, RealQuery (c_str (stmt r)))) (filter (\<lambda>r. \<not> is_settled r) (map stock_record rows)) @
       [(h, CommitCall), (h, RollBackCall)]"
  shows "settle_holdings f sql (\<lambda>c r. execute_update f c (stmt r)) pool w =
     (0, pool1\<lparr>m_connList := m_connList pool1 @ [UpdateUseTime f w3 c]\<rparr>, w3)"
proof -
  have start: "snd (MySqlCnnC602_StartTransaction f c w1) = w1 @ [(h, RealQuery ''START TRANSACTION'')]"
    by (simp add: MySqlCnnC602_StartTransaction_def assms(2) db_ask_def)
  have get: "GetStock f c sql (w1 @ [(h, RealQuery ''START TRANSACTION'')]) =
      (0, filter (\<lambda>r. \<not> is_settled r) (map stock_record rows), w2)"
    using assms(3-5) by (simp add: GetStock_def Query_def assms(2) db_ask_def fetch_stock_filter)
  show ?thesis
    unfolding settle_holdings_def assms(1) prod.case option.case start get
    by (simp add: update_all_calls [OF assms(2)] MySqlCnnC602_Commit_def MySqlCnnC602_RollBack_def ReleaseConnection_def assms(2,6)
        db_ask_def Let_def)
qed


text \<open>The row of a holding as an update leaves it.\<close>

definition with_columns :: "(string \<times> string \<times> string) list \<Rightarrow> row_data \<Rightarrow> row_data" where
  "with_columns sets row = row ++ map_of (map (\<lambda>(sep, column, v). (column, v)) sets)"

definition after_settlement :: "row_data \<Rightarrow> row_data" where
  "after_settlement row =
     (let r = stock_record row in
      if is_settled r then row else with_columns (settled_columns (settled_total r) ''stock_etf_redemption_balance'') row)"

lemma number_0 [simp]: "snd (String2UInt64_strtoui64 ''0'') = 0"
  by (simp add: String2UInt64_strtoui64_def strtoll_def scan_number_def c_str_def is_space_def is_digit_def of_char_def)

lemma number_Nil [simp]: "snd (String2UInt64_strtoui64 []) = 0"
  by (simp add: String2UInt64_strtoui64_def)

lemma stock_record_after:
  assumes "row ''stock_creation_balance'' = None" "\<not> is_settled (stock_record row)"
  shows "ui64StockBalance (stock_record (after_settlement row)) = snd (String2UInt64_strtoui64 (itos (settled_total (stock_record row))))"
    "is_settled (stock_record (after_settlement row))"
  using assms
  by (auto simp: after_settlement_def Let_def with_columns_def settled_columns_def stock_record_def number_of_def column_of_def
      is_settled_def map_add_def)

text \<open>
  A holding is settled once: with the rows as the updates leave them, the next settlement finds none to update,
  and the balance of each that was updated is the sum of what was available and what was bought.
\<close>

theorem settled_once:
  assumes "\<forall>row\<in>set rows. row ''stock_creation_balance'' = None"
  shows "fetch_stock (map after_settlement rows) [] = [] \<and>
     (\<forall>row\<in>set rows. \<not> is_settled (stock_record row) \<longrightarrow> settled_total (stock_record row) < 2 ^ 63 \<longrightarrow>
        ui64StockBalance (stock_record (after_settlement row)) = settled_total (stock_record row))"
proof -
  have "is_settled (stock_record (after_settlement row))" if "row \<in> set rows" for row
    using stock_record_after(2) [of row] assms that by (cases "is_settled (stock_record row)") (auto simp: after_settlement_def Let_def)
  moreover have "ui64StockBalance (stock_record (after_settlement row)) = settled_total (stock_record row)"
    if "row \<in> set rows" "\<not> is_settled (stock_record row)" "settled_total (stock_record row) < 2 ^ 63" for row
    using stock_record_after(1) [of row] assms that strtoui64_itos by simp
  ultimately show ?thesis by (auto simp: fetch_stock_filter)
qed

section \<open>Settlements that fail\<close>

definition reads_fail :: "mysql_library \<Rightarrow> string \<Rightarrow> bool" where
  "reads_fail f sql \<longleftrightarrow> (\<forall>w. mf_malloc f w) \<and> (\<forall>w h c. mf_result f w h c \<noteq> 0 \<longleftrightarrow> c = RealQuery (c_str sql)) \<and>
     (\<forall>w h. mf_store f w h = None) \<and> (\<forall>w h. mf_fields f w h = 0)"

text \<open>The places of the pool that are counted but not in it.\<close>

definition missing_places :: "MysqlConnectionPool \<Rightarrow> int" where
  "missing_places p = m_iCurSize p - int (length (m_connList p))"

lemma CreateConnection_reads_fail:
  assumes "reads_fail f stock_asset_query"
  shows "\<exists>c w1. CreateConnection f p w = (Some c, w1) \<and> \<not> IsClosed c"
proof -
  have "RealQuery (c_str (''USE `'' @ m_strSqlCatalog p @ ''`;'')) \<noteq> RealQuery (c_str stock_asset_query)"
    by (simp add: stock_asset_query_def c_str_def)
  then show ?thesis
    using assms
    by (auto simp: reads_fail_def CreateConnection_def Connect_def Connect_host_def SetSchema_def SetDefaultCatalog_def Query_def
        db_ask_def MySqlCnnC602_new_def IsClosed_def Let_def UpdateUseTime_def)
qed

lemma GetConnection_reads_fail:
  assumes "reads_fail f stock_asset_query" "0 \<le> missing_places p" "missing_places p < m_iMaxSize p" "m_iCurSize p \<le> m_iMaxSize p"
  shows "\<exists>c p1 w1. GetConnection f p w = (Some c, p1, w1) \<and> missing_places p1 = missing_places p + 1 \<and>
    m_iMaxSize p1 = m_iMaxSize p \<and> m_iCurSize p1 \<le> m_iMaxSize p1"
proof (cases "m_connList p")
  case Nil
  obtain c w1 where "CreateConnection f p w = (Some c, w1)" using CreateConnection_reads_fail [OF assms(1)] by blast
  then show ?thesis using Nil assms(3) by (simp add: GetConnection_def missing_places_def)
next
  case (Cons c cs)
  obtain c1 w1 where "CreateConnection f (p\<lparr>m_connList := cs\<rparr>) (snd (Close c w)) = (Some c1, w1)"
    using CreateConnection_reads_fail [OF assms(1)] by blast
  then show ?thesis using Cons assms(4) by (auto simp: GetConnection_def renew_connection_def missing_places_def Let_def)
qed

lemma settlement_reads_fail:
  assumes "reads_fail f stock_asset_query" "0 \<le> missing_places p" "missing_places p < m_iMaxSize p" "m_iCurSize p \<le> m_iMaxSize p"
  shows "\<exists>p1 w1. Stock_Asset_Settle f p w = (-1, p1, w1) \<and> missing_places p1 = missing_places p + 1 \<and>
    m_iMaxSize p1 = m_iMaxSize p \<and> m_iCurSize p1 \<le> m_iMaxSize p1"
proof -
  obtain c p1 w1 where g: "GetConnection f p w = (Some c, p1, w1)" "missing_places p1 = missing_places p + 1"
    "m_iMaxSize p1 = m_iMaxSize p" "m_iCurSize p1 \<le> m_iMaxSize p1" using GetConnection_reads_fail [OF assms] by blast
  have "fst (GetStock f c stock_asset_query w2) = -2" for w2
    using assms(1) by (auto simp: GetStock_def Query_def db_ask_def reads_fail_def split: option.splits)
  moreover obtain i rs w2 where gs: "GetStock f c stock_asset_query (snd (MySqlCnnC602_StartTransaction f c w1)) = (i, rs, w2)"
    by (metis prod_cases3)
  ultimately have "i = -2" by (metis fst_conv)
  then show ?thesis using g gs by (simp add: Stock_Asset_Settle_def settle_holdings_def)
qed

fun settle_again :: "mysql_library \<Rightarrow> nat \<Rightarrow> MysqlConnectionPool \<Rightarrow> db_calls \<Rightarrow> MysqlConnectionPool \<times> db_calls" where
  "settle_again f 0 p w = (p, w)"
| "settle_again f (Suc n) p w = (case Stock_Asset_Settle f p w of (iRes, p1, w1) \<Rightarrow> settle_again f n p1 w1)"

lemma settle_again_places:
  assumes "reads_fail f stock_asset_query" "0 \<le> missing_places p" "missing_places p + int n \<le> m_iMaxSize p" "m_iCurSize p \<le> m_iMaxSize p"
  shows "missing_places (fst (settle_again f n p w)) = missing_places p + int n \<and> m_iMaxSize (fst (settle_again f n p w)) = m_iMaxSize p \<and>
    m_iCurSize (fst (settle_again f n p w)) \<le> m_iMaxSize p"
  using assms(2-4)
proof (induction n arbitrary: p w)
  case (Suc n)
  obtain p1 w1 where s: "Stock_Asset_Settle f p w = (-1, p1, w1)" "missing_places p1 = missing_places p + 1"
    "m_iMaxSize p1 = m_iMaxSize p" "m_iCurSize p1 \<le> m_iMaxSize p1"
    using settlement_reads_fail [OF assms(1) Suc.prems(1) _ Suc.prems(3)] Suc.prems(2) by fastforce
  then show ?case using Suc.IH [of p1 w1] Suc.prems by simp
qed simp

text \<open>
  A settlement that cannot read the holdings keeps the place of its connection in the pool: after as many such
  settlements as the pool has places, nobody gets a connection any more.
\<close>

theorem failed_settlements_exhaust_pool:
  assumes "reads_fail f stock_asset_query" "m_iCurSize p = int (length (m_connList p))" "m_iCurSize p \<le> m_iMaxSize p"
    "settle_again f (nat (m_iMaxSize p)) p w = (p1, w1)"
  shows "GetConnection f p1 w1 = (None, p1, w1)"
proof -
  have "missing_places p1 = m_iMaxSize p" "m_iMaxSize p1 = m_iMaxSize p" "m_iCurSize p1 \<le> m_iMaxSize p"
    using settle_again_places [OF assms(1), of p "nat (m_iMaxSize p)" w] assms(2-4) by (auto simp: missing_places_def)
  then have "int (length (m_connList p1)) \<le> 0" "m_iCurSize p1 = m_iMaxSize p1" unfolding missing_places_def by linarith+
  then show ?thesis by (simp add: GetConnection_def)
qed

section \<open>Statements come first\<close>

text \<open>
  A group of Shanghai with the trades of two seats keeps the holdings of everybody from being settled: its
  transfers fail at the second seat, and nothing is sent to the database.
\<close>

theorem two_seats_block_settlement:
  assumes "dir = (0, day, path)" "se_query e (gh_query g) = Some rows"
    "group_rows ''security_seat'' rows [] = (seat, trades) # (seat2, r # trades2) # m"
    "good_platform (se_p e) (statement_name path g ''gh_'' (m_strNow e))"
    "table_or_new DBF_gh (d (statement_name path g ''gh_'' (m_strNow e)))"
    "length (old_records DBF_gh (d (statement_name path g ''gh_'' (m_strNow e)))) + length trades < 2 ^ 32"
    "list_all2 (\<lambda>r vs. DBF_Value_gh e r = Fine vs) trades vss" "\<forall>vs\<in>set vss. prints_short (se_p e) DBF_gh vs"
    "DBF_Value_gh e r = Fine vs"
  shows "\<exists>d1. MakeSettlement e dir f (g # groups) d pool w =
     Some \<lparr>sd_result = -1, sd_out = None, sd_disk = d1, sd_pool = pool, sd_calls = w\<rparr>"
proof -
  obtain d1 where "Gen_gh e g path d = Some (-1, d1)" using gh_two_seats [of e g rows seat trades seat2 r trades2 m path d vss vs] assms(2-) by blast
  then have "group_details e (g # groups) path d = Some (-1, d1)" by (simp add: SH_MakeSettlementDetails_def then_also_def)
  then show ?thesis by (simp add: MakeSettlement_def assms(1) then_also_def Let_def)
qed

section \<open>The properties at sample values\<close>

definition sample_holding :: row_data where
  "sample_holding = [''id'' \<mapsto> ''7'', ''stock_balance'' \<mapsto> ''500'', ''stock_auction_purchase_balance'' \<mapsto> ''300'',
     ''stock_staple_purchase_balance'' \<mapsto> ''0'', ''stock_etf_redemption_balance'' \<mapsto> ''0'', ''stock_available'' \<mapsto> ''400'']"

definition sample_holdings_library :: mysql_library where
  "sample_holdings_library = sample_mysql\<lparr>mf_store := (\<lambda>w h. if w \<noteq> [] \<and> last w = (h, RealQuery (c_str stock_asset_query))
     then Some [sample_holding] else None)\<rparr>"

definition sample_no_library :: mysql_library where
  "sample_no_library = sample_mysql\<lparr>mf_result := (\<lambda>w h c. if c = RealQuery (c_str stock_asset_query) then 1 else 0)\<rparr>"

definition sample_connection :: MySqlCnnC602 where
  "sample_connection = MySqlCnnC602_new\<lparr>m_pMysql := Some 0\<rparr>"

definition sample_one_pool :: MysqlConnectionPool where
  "sample_one_pool = MysqlConnectionPool_new\<lparr>m_iCurSize := 1, m_iMaxSize := 1, m_connList := [sample_connection]\<rparr>"

lemma sample_one_pool_get: "mf_time f [] = 0 \<Longrightarrow> GetConnection f sample_one_pool [] = (Some sample_connection, sample_one_pool\<lparr>m_connList := []\<rparr>, [])"
  by (simp add: GetConnection_def sample_one_pool_def sample_connection_def MySqlCnnC602_new_def IsClosed_def CONNECTION_EXPIRE_GAP_def)


theorem settled_once_witness: "fetch_stock (map after_settlement [sample_holding]) [] = []"
  using settled_once [of "[sample_holding]"] by (simp add: sample_holding_def)

theorem failed_settlements_exhaust_pool_witness:
  "\<exists>p1 w1. settle_again sample_no_library 1 sample_one_pool [] = (p1, w1) \<and> GetConnection sample_no_library p1 w1 = (None, p1, w1)"
proof -
  have "reads_fail sample_no_library stock_asset_query" by (simp add: reads_fail_def sample_no_library_def sample_mysql_def)
  moreover have "m_iMaxSize sample_one_pool = 1" "m_iCurSize sample_one_pool = 1" "length (m_connList sample_one_pool) = 1"
    by (simp_all add: sample_one_pool_def)
  ultimately show ?thesis
    using failed_settlements_exhaust_pool [of sample_no_library sample_one_pool "[]"]
    by (cases "settle_again sample_no_library 1 sample_one_pool []") auto
qed

theorem two_seats_block_settlement_witness:
  "\<exists>d1. MakeSettlement (sample_settle [sample_trade ''10001'', sample_trade ''10002'']) (0, ''20180101'', ''s'') sample_mysql [''g''] Map.empty
       sample_one_pool [] = Some \<lparr>sd_result = -1, sd_out = None, sd_disk = d1, sd_pool = sample_one_pool, sd_calls = []\<rparr>"
proof -
  let ?e = "sample_settle [sample_trade ''10001'', sample_trade ''10002'']"
  have q: "se_query ?e (gh_query ''g'') = Some [sample_trade ''10001'', sample_trade ''10002'']" "se_p ?e = sample_platform True"
    by (simp_all add: sample_settle_def)
  have n: "good_platform (se_p ?e) (statement_name ''s'' ''g'' ''gh_'' (m_strNow ?e))"
    by (simp add: good_platform_def sample_settle_def sample_platform_def statement_name_def group_prefix_def c_str_def)
  have g: "group_rows ''security_seat'' [sample_trade ''10001'', sample_trade ''10002''] [] =
      [(''10001'', [sample_trade ''10001'']), (''10002'', [sample_trade ''10002''])]"
    by (simp add: sample_trade_def less_char_def)
  show ?thesis
    using two_seats_block_settlement [OF refl q(1) g n, of Map.empty "[sample_gh_values ''10001'']" "sample_gh_values ''10002''"]
    by (simp add: table_or_new_def old_records_def q(2) sample_gh sample_gh_short)
qed

end
