(* ===== verification/DayEnd.thy ===== *)
theory DayEnd
  imports Settlement OrderEntry
begin

text \<open>
  \<open>simutgw/settlement/DayEndClean.cpp\<close>, the end of a day: the tables of the day are copied to their archives and
  emptied; and the two entries of \<open>simutgw/stgw_config/sys_function.cpp\<close> through which an administrator
  starts the settlement and the end of the day.
\<close>

section \<open>The tables of the day\<close>

definition g_strSQL_NewOrder_TableName :: string where
  "g_strSQL_NewOrder_TableName = ''`order_record`''"

definition g_strSQL_OrderReport_TableName :: string where
  "g_strSQL_OrderReport_TableName = ''`order_report`''"

definition g_strSQL_OrderMatch_TableName :: string where
  "g_strSQL_OrderMatch_TableName = ''`order_match`''"

definition MoveDbdata :: "mysql_library \<Rightarrow> MySqlCnnC602 \<Rightarrow> string \<Rightarrow> db_calls \<Rightarrow> int \<times> db_calls" where
  "MoveDbdata f c sql w = (case Query f sql c None 0 w of (iRes, rows, n, w1) \<Rightarrow> (if iRes = 2 then 0 else -1, w1))"

definition truncate_statement :: "string \<Rightarrow> string" where
  "truncate_statement table = ''TRUNCATE TABLE '' @ table"

definition TruncateTable :: "mysql_library \<Rightarrow> MySqlCnnC602 \<Rightarrow> string \<Rightarrow> db_calls \<Rightarrow> int \<times> db_calls" where
  "TruncateTable f c table w =
     (case Query f (truncate_statement table) c None 0 w of (iRes, rows, n, w1) \<Rightarrow> (if iRes = 2 then 0 else -1, w1))"

definition move_match :: string where
  "move_match = ''INSERT INTO `order_match_old` ('' @
     ''`id`,`trade_market`,`trade_type`,`sessionid`,`security_account`,'' @
     ''`security_seat`,`trade_group`,`clordid`,`origclordid`,`securityid`,'' @
     ''`securityidsource`,`security_id2`,`side`,`msgtype`,`execid`,'' @
     ''`orderid`,`market`,`orderqty_origin`,`order_price`,`match_type`,'' @
     ''`match_price`,`match_qty`,`match_amount`,`leavesqty`,`cumqty`,'' @
     ''`stock_balance`,`trade_time`,`market_branchid`,`order_time`,`settle_group`,'' @
     ''`is_proc`,`text`) SELECT * from '' @ g_strSQL_OrderMatch_TableName"

text \<open>Orders and reports have the same columns.\<close>

definition order_columns :: string where
  "order_columns = ''`id`,`trade_market`,`trade_type`,`sessionid`,`security_account`,'' @
     ''`security_seat`,`trade_group`,`beginstring`,`bodylength`,`checksum`,'' @
     ''`clordid`,`securityidsource`,`msgseqnum`,`msgtype`,`orderqty_origin`,'' @
     ''`leavesqty`,`ordtype`,`origclordid`,`possdupflag`,`order_price`,'' @
     ''`securityid`,`sendercompid`,`sendingtime`,`side`,`targetcompid`,'' @
     ''`text`,`timeinforce`,`transacttime`,`positioneffect`,`stoppx`,'' @
     ''`minqty`,`origsendingtime`,`cashorderqty`,`coveredoruncovered`,`nopartyids`,'' @
     ''`ownertype`,`orderrestrictions`,`cashmargin`,`confirmid`,`maxpricelevels`,'' @
     ''`applid`,`market_branchid`,`oper_time`,`is_error`,`is_proc`,'' @ ''`error_msg`''"

definition move_record :: string where
  "move_record = ''INSERT INTO `order_record_old` ('' @ order_columns @ '') SELECT * from '' @ g_strSQL_NewOrder_TableName"

definition move_report :: string where
  "move_report = ''INSERT INTO `order_report_old` ('' @ order_columns @ '') SELECT * from '' @ g_strSQL_OrderReport_TableName"

text \<open>The steps of the backup, each ending it when it fails.\<close>

fun run_all :: "(db_calls \<Rightarrow> int \<times> db_calls) list \<Rightarrow> db_calls \<Rightarrow> int \<times> db_calls" where
  "run_all [] w = (0, w)"
| "run_all (t # ts) w = (case t w of (iRes, w1) \<Rightarrow> if iRes \<noteq> 0 then (-1, w1) else run_all ts w1)"

definition BackupDb :: "mysql_library \<Rightarrow> MySqlCnnC602 \<Rightarrow> db_calls \<Rightarrow> int \<times> db_calls" where
  "BackupDb f c w =
     (case run_all [MoveDbdata f c move_match, MoveDbdata f c move_record, MoveDbdata f c move_report,
        TruncateTable f c g_strSQL_NewOrder_TableName, TruncateTable f c g_strSQL_OrderMatch_TableName,
        TruncateTable f c g_strSQL_OrderReport_TableName] (snd (MySqlCnnC602_StartTransaction f c w)) of (iRes, w1) \<Rightarrow>
        if iRes \<noteq> 0 then (-1, w1) else MySqlCnnC602_Commit f c w1)"

text \<open>\<open>Reset\<close> has no statement left in it.\<close>

definition RunDayEndClean :: "mysql_library \<Rightarrow> MySqlCnnC602 \<Rightarrow> db_calls \<Rightarrow> int \<times> db_calls" where
  "RunDayEndClean f c w = (case BackupDb f c w of (iRes, w1) \<Rightarrow> (if iRes \<noteq> 0 then -1 else 0, w1))"

section \<open>The entries\<close>

text \<open>
  The connection of a settlement is held while \<open>MakeSettlement\<close> takes others for the holdings.  The result has the
  day and the path if they are given out.
\<close>

definition Simutgw_Settle ::
  "'d settle_env \<Rightarrow> int \<times> string \<times> string \<Rightarrow> mysql_library \<Rightarrow> string list \<Rightarrow> disk \<Rightarrow> MysqlConnectionPool \<Rightarrow> db_calls \<Rightarrow>
   settled option" where
  "Simutgw_Settle e dir f groups d pool w =
     (case GetConnection f pool w of (sp, pool1, w1) \<Rightarrow>
        case sp of
          None \<Rightarrow> (case ReleaseConnection f sp pool1 w1 of (pool2, w2) \<Rightarrow>
            Some \<lparr>sd_result = -1, sd_out = None, sd_disk = d, sd_pool = pool2, sd_calls = w2\<rparr>)
        | Some c \<Rightarrow>
            (case MakeSettlement e dir f groups d pool1 w1 of
               None \<Rightarrow> None
             | Some s \<Rightarrow>
                 (case ReleaseConnection f sp (sd_pool s) (sd_calls s) of (pool2, w2) \<Rightarrow>
                    Some (if sd_result s < 0 then s\<lparr>sd_result := -1, sd_out := None, sd_pool := pool2, sd_calls := w2\<rparr>
                      else s\<lparr>sd_result := 0, sd_pool := pool2, sd_calls := w2\<rparr>))))"

record 'r day_state =
  dy_pool :: MysqlConnectionPool
  dy_calls :: db_calls
  dy_cache :: StockCache
  dy_redis :: 'r

definition Simutgw_DayEnd :: "mysql_library \<Rightarrow> 'r redis \<Rightarrow> 'r day_state \<Rightarrow> int \<times> 'r day_state" where
  "Simutgw_DayEnd f run s =
     (case GetConnection f (dy_pool s) (dy_calls s) of (sp, pool1, w1) \<Rightarrow>
        case sp of
          None \<Rightarrow> (case ReleaseConnection f sp pool1 w1 of (pool2, w2) \<Rightarrow> (-1, s\<lparr>dy_pool := pool2, dy_calls := w2\<rparr>))
        | Some c \<Rightarrow>
            (case RunDayEndClean f c w1 of (iRes, w2) \<Rightarrow>
               case ReleaseConnection f sp pool1 w2 of (pool2, w3) \<Rightarrow>
                 if iRes < 0 then (-1, s\<lparr>dy_pool := pool2, dy_calls := w3\<rparr>)
                 else (0, s\<lparr>dy_pool := pool2, dy_calls := w3, dy_cache := UserStockHelper_DayEndCleanUp (dy_cache s),
                   dy_redis := snd (DayEndCleanUpInRedis run (dy_redis s))\<rparr>)))"

section \<open>Copies come before the emptying\<close>

definition day_end_statements :: "string list" where
  "day_end_statements = [move_match, move_record, move_report, truncate_statement g_strSQL_NewOrder_TableName,
     truncate_statement g_strSQL_OrderMatch_TableName, truncate_statement g_strSQL_OrderReport_TableName]"

text \<open>All calls of the end of a day: the start of the transaction, three copies, three tables emptied, the commit.\<close>

definition day_end_calls :: "db_call list" where
  "day_end_calls = RealQuery ''START TRANSACTION'' # map (\<lambda>q. RealQuery (c_str q)) day_end_statements @ [CommitCall]"

lemma TruncateTable_move: "TruncateTable f c t = MoveDbdata f c (truncate_statement t)"
  by (simp add: fun_eq_iff TruncateTable_def MoveDbdata_def)

lemma MoveDbdata_calls:
  assumes "m_pMysql c = Some h" "MoveDbdata f c q w = (r, w1)"
  shows "w1 = w @ [(h, RealQuery (c_str q))]" "r = 0 \<or> r = -1" "r = 0 \<Longrightarrow> mf_result f w h (RealQuery (c_str q)) = 0"
  using assms by (auto simp: MoveDbdata_def Query_def db_ask_def split: prod.splits option.splits if_splits)

definition statements_ok :: "mysql_library \<Rightarrow> nat \<Rightarrow> string list \<Rightarrow> nat \<Rightarrow> db_calls \<Rightarrow> bool" where
  "statements_ok f h qs n w \<longleftrightarrow>
     (\<forall>j<n. mf_result f (w @ map (\<lambda>q. (h, RealQuery (c_str q))) (take j qs)) h (RealQuery (c_str (qs ! j))) = 0)"

lemma run_all_calls:
  assumes "m_pMysql c = Some h" "run_all (map (MoveDbdata f c) qs) w = (r, w1)"
  shows "(r = 0 \<and> w1 = w @ map (\<lambda>q. (h, RealQuery (c_str q))) qs \<and> statements_ok f h qs (length qs) w) \<or>
    (r = -1 \<and> (\<exists>k<length qs. w1 = w @ map (\<lambda>q. (h, RealQuery (c_str q))) (take (Suc k) qs) \<and> statements_ok f h qs k w))"
  using assms(2)
proof (induction qs arbitrary: w)
  case (Cons q qs)
  obtain r2 w2 where m: "MoveDbdata f c q w = (r2, w2)" by (cases "MoveDbdata f c q w")
  note q = MoveDbdata_calls [OF assms(1) m]
  show ?case
  proof (cases "r2 = 0")
    case True
    have step: "statements_ok f h (q # qs) (Suc n) w" if "statements_ok f h qs n w2" for n
      unfolding statements_ok_def
    proof (intro allI impI)
      fix j assume "j < Suc n"
      then show "mf_result f (w @ map (\<lambda>q. (h, RealQuery (c_str q))) (take j (q # qs))) h (RealQuery (c_str ((q # qs) ! j))) = 0"
        using that q(3) [OF True] q(1) by (cases j) (auto simp: statements_ok_def)
    qed
    have "run_all (map (MoveDbdata f c) qs) w2 = (r, w1)" using Cons.prems m True by simp
    from Cons.IH [OF this] show ?thesis
    proof
      assume "r = 0 \<and> w1 = w2 @ map (\<lambda>q. (h, RealQuery (c_str q))) qs \<and> statements_ok f h qs (length qs) w2"
      then show ?thesis using step q(1) by simp
    next
      assume "r = -1 \<and> (\<exists>k<length qs. w1 = w2 @ map (\<lambda>q. (h, RealQuery (c_str q))) (take (Suc k) qs) \<and> statements_ok f h qs k w2)"
      then obtain k where "r = -1" "k < length qs" "w1 = w2 @ map (\<lambda>q. (h, RealQuery (c_str q))) (take (Suc k) qs)"
        "statements_ok f h qs k w2" by blast
      then show ?thesis using step [of k] q(1) by (intro disjI2 conjI exI [of _ "Suc k"]) auto
    qed
  next
    case False
    then have "r = -1" "w1 = w2" using Cons.prems m by auto
    then show ?thesis using q(1) by (intro disjI2 conjI exI [of _ 0]) (auto simp: statements_ok_def)
  qed
qed (simp add: statements_ok_def)

text \<open>
  C24.  The calls of the end of a day are sent in their order up to the first statement that fails: a table of the day
  is emptied only when all three tables were copied, the transaction is committed only when every statement
  succeeded, and a day that ended well ran all of them.
\<close>

theorem day_end_in_order:
  assumes "m_pMysql c = Some h" "RunDayEndClean f c w = (r, w1)"
  shows "\<exists>k. 2 \<le> k \<and> k \<le> 8 \<and> w1 = w @ map (Pair h) (take k day_end_calls) \<and> (r = 0 \<longrightarrow> k = 8) \<and>
     (\<forall>j. 1 \<le> j \<longrightarrow> j < k - 1 \<longrightarrow> mf_result f (w @ map (Pair h) (take j day_end_calls)) h (day_end_calls ! j) = 0)"
proof -
  define w0 where "w0 = w @ [(h, RealQuery ''START TRANSACTION'')]"
  let ?steps = "map (MoveDbdata f c) day_end_statements"
  let ?call = "\<lambda>q. (h, RealQuery (c_str q))"
  obtain r2 w2 where run: "run_all ?steps w0 = (r2, w2)" by (cases "run_all ?steps w0")
  have start: "snd (MySqlCnnC602_StartTransaction f c w) = w0" by (simp add: MySqlCnnC602_StartTransaction_def assms(1) db_ask_def w0_def)
  have backup: "BackupDb f c w = (if r2 \<noteq> 0 then (-1, w2) else MySqlCnnC602_Commit f c w2)"
    unfolding BackupDb_def start TruncateTable_move using run by (simp add: day_end_statements_def)
  have len: "length day_end_statements = 6" by (simp add: day_end_statements_def)
  have calls: "w @ map (Pair h) (take (Suc n) day_end_calls) = w0 @ map ?call (take n day_end_statements)" if "n \<le> 6" for n
    using that len by (simp add: day_end_calls_def w0_def take_map comp_def)
  have ok: "\<forall>j. 1 \<le> j \<longrightarrow> j < Suc n \<longrightarrow> mf_result f (w @ map (Pair h) (take j day_end_calls)) h (day_end_calls ! j) = 0"
    if "statements_ok f h day_end_statements n w0" "n \<le> 6" for n
  proof (intro allI impI)
    fix j :: nat assume j: "1 \<le> j" "j < Suc n"
    then obtain i where i: "j = Suc i" "i < n" by (cases j) auto
    then have "day_end_calls ! j = RealQuery (c_str (day_end_statements ! i))" using that(2) len by (simp add: day_end_calls_def nth_append)
    then show "mf_result f (w @ map (Pair h) (take j day_end_calls)) h (day_end_calls ! j) = 0"
      using that calls [of i] i by (simp add: statements_ok_def)
  qed
  from run_all_calls [OF assms(1) run] show ?thesis
  proof
    assume a: "r2 = 0 \<and> w2 = w0 @ map ?call day_end_statements \<and> statements_ok f h day_end_statements (length day_end_statements) w0"
    then have "w1 = w2 @ [(h, CommitCall)]"
      using assms backup by (auto simp: RunDayEndClean_def MySqlCnnC602_Commit_def db_ask_def split: if_splits)
    then have "w1 = w @ map (Pair h) (take 8 day_end_calls)" using a len by (simp add: day_end_calls_def w0_def comp_def)
    then show ?thesis using ok [of 6] a len by (intro exI [of _ 8]) simp
  next
    assume "r2 = -1 \<and> (\<exists>k<length day_end_statements. w2 = w0 @ map ?call (take (Suc k) day_end_statements) \<and>
        statements_ok f h day_end_statements k w0)"
    then obtain k where k: "r2 = -1" "k < 6" "w2 = w0 @ map ?call (take (Suc k) day_end_statements)"
      "statements_ok f h day_end_statements k w0" using len by auto
    then have r: "r = -1" "w1 = w @ map (Pair h) (take (Suc (Suc k)) day_end_calls)"
      using assms(2) backup calls [of "Suc k"] by (auto simp: RunDayEndClean_def)
    show ?thesis using ok [OF k(4)] k(2) r by (intro exI [of _ "Suc (Suc k)"]) simp
  qed
qed

text \<open>
  A settlement that got the last connection of the pool fails after all its statements were written: it holds
  that connection while the holdings ask for another.
\<close>

theorem settlement_needs_second_connection:
  assumes "GetConnection f pool w = (Some c, pool1, w1)" "m_connList pool1 = []" "m_iMaxSize pool1 \<le> m_iCurSize pool1"
    "dir = (0, day, path)" "groups \<noteq> []"
    "then_also (group_details e groups path) (then_also (SH_MakeSettlementSummary e path) (SZ_MakeSettlementSummary e path)) d = Some (0, d1)"
  shows "\<exists>s. Simutgw_Settle e dir f groups d pool w = Some s \<and> sd_result s = -1 \<and> sd_disk s = d1 \<and>
     m_iCurSize (sd_pool s) = m_iCurSize pool1 - 1 \<and> length (m_connList (sd_pool s)) = 1"
proof -
  have "GetConnection f pool1 w1 = (None, pool1, w1)" using assms(2,3) by (simp add: GetConnection_def)
  then have "Stock_Settle f pool1 w1 = (-1, pool1\<lparr>m_iCurSize := m_iCurSize pool1 - 1\<rparr>, w1)"
    by (simp add: Stock_Settle_def Stock_Asset_Settle_def settle_holdings_def ReleaseConnection_def)
  then have "MakeSettlement e dir f groups d pool1 w1 =
      Some \<lparr>sd_result = -1, sd_out = None, sd_disk = d1, sd_pool = pool1\<lparr>m_iCurSize := m_iCurSize pool1 - 1\<rparr>, sd_calls = w1\<rparr>"
    using assms(4-6) by (simp add: MakeSettlement_def Let_def)
  then show ?thesis using assms(1,2) by (simp add: Simutgw_Settle_def ReleaseConnection_def Let_def)
qed

section \<open>The properties at sample values\<close>

theorem day_end_in_order_witness:
  "\<exists>w1. RunDayEndClean sample_mysql sample_connection [] = (0, w1) \<and> length w1 = 8"
proof -
  obtain r w1 where d: "RunDayEndClean sample_mysql sample_connection [] = (r, w1)" by (cases "RunDayEndClean sample_mysql sample_connection []")
  have "m_pMysql sample_connection = Some 0" by (simp add: sample_connection_def)
  note k = day_end_in_order [OF this d]
  have "r = 0"
    using d by (simp add: RunDayEndClean_def BackupDb_def MySqlCnnC602_StartTransaction_def MoveDbdata_def TruncateTable_def Query_def
        MySqlCnnC602_Commit_def db_ask_def sample_connection_def sample_mysql_def)
  moreover have "length day_end_calls = 8" by (simp add: day_end_calls_def day_end_statements_def)
  ultimately show ?thesis using k d by auto
qed

theorem settlement_needs_second_connection_witness:
  "\<exists>s. Simutgw_Settle (sample_settle []) (0, ''20180101'', ''s'') sample_mysql [''g''] Map.empty sample_one_pool [] = Some s \<and> sd_result s = -1"
proof -
  have t: "mf_time sample_mysql [] = 0" by (simp add: sample_mysql_def)
  have p: "m_connList (sample_one_pool\<lparr>m_connList := []\<rparr>) = []"
    "m_iMaxSize (sample_one_pool\<lparr>m_connList := []\<rparr>) \<le> m_iCurSize (sample_one_pool\<lparr>m_connList := []\<rparr>)"
    by (simp_all add: sample_one_pool_def)
  have q: "se_query (sample_settle []) sql = Some []" for sql by (simp add: sample_settle_def)
  have "then_also (group_details (sample_settle []) [''g''] ''s'')
      (then_also (SH_MakeSettlementSummary (sample_settle []) ''s'') (SZ_MakeSettlementSummary (sample_settle []) ''s'')) Map.empty =
      Some (0, Map.empty)"
    by (simp add: then_also_def SH_MakeSettlementDetails_def SZ_MakeSettlementDetails_def Gen_gh_def Gen_bc1_def Gen_zqbd_def
        Gen_SJSMXn_def Gen_SJSJG_def write_groups_def write_if_rows_def q SH_MakeSettlementSummary_def SZ_MakeSettlementSummary_def
        Gen_zqye_inTwoDays_def Gen_SJSDZ_def)
  from settlement_needs_second_connection [OF sample_one_pool_get [OF t] p refl _ this] show ?thesis by auto
qed

end
