(* ===== verification/BinaryPacketAssembler.thy ===== *)
theory BinaryPacketAssembler
  imports Prelude
begin

text \<open>
  The Shenzhen binary protocol, \<open>tool_net_binary/\<close>: the packed message structs, the assembly of
  outgoing packets and the splitting of a received byte stream into packets.  Structs are copied
  byte by byte (\<open>memcpy\<close>) on a little-endian host; the header and the check sum are converted to
  network order.  The receiving loop need not end, so it is a partial function: \<open>None\<close> means that
  the call never returns.
\<close>

unbundle bit_operations_syntax

section \<open>Bytes\<close>

definition le16 :: "16 word \<Rightarrow> u8 list" where
  "le16 w = [ucast w, ucast (drop_bit 8 w)]"

definition le32 :: "u32 \<Rightarrow> u8 list" where
  "le32 w = [ucast w, ucast (drop_bit 8 w), ucast (drop_bit 16 w), ucast (drop_bit 24 w)]"

definition le64 :: "u64 \<Rightarrow> u8 list" where
  "le64 w = map (\<lambda>i. ucast (drop_bit (8 * i) w)) [0..<8]"

text \<open>\<open>htonl\<close> followed by \<open>memcpy\<close>, and \<open>memcpy\<close> followed by \<open>ntohl\<close>.\<close>

definition be32_bytes :: "u32 \<Rightarrow> u8 list" where
  "be32_bytes w = [ucast (drop_bit 24 w), ucast (drop_bit 16 w), ucast (drop_bit 8 w), ucast w]"

definition be32 :: "u8 list \<Rightarrow> u32" where
  "be32 bs = (case bs of
      a # b # c # d # _ \<Rightarrow> push_bit 24 (ucast a) OR push_bit 16 (ucast b) OR push_bit 8 (ucast c) OR ucast d
    | _ \<Rightarrow> 0)"

lemma be32_append: "4 \<le> length a \<Longrightarrow> be32 (a @ b) = be32 a"
  by (auto simp: be32_def split: list.splits)

text \<open>A \<open>char[n]\<close> member: the given bytes, zero-filled to n (the constructors clear the struct).\<close>

definition char_array :: "nat \<Rightarrow> u8 list \<Rightarrow> u8 list" where
  "char_array n s = take n (s @ replicate n 0)"

lemma length_char_array [simp]: "length (char_array n s) = n"
  by (simp add: char_array_def)

lemma length_le [simp]: "length (le16 a) = 2" "length (le32 b) = 4" "length (le64 c) = 8"
  "length (be32_bytes b) = 4"
  by (simp_all add: le16_def le32_def le64_def be32_bytes_def)

lemma be32_be32_bytes [simp]: "be32 (be32_bytes w @ rest) = w"
proof (rule bit_word_eqI)
  fix n
  assume n: "n < LENGTH(32)"
  consider "n < 8" | "8 \<le> n" "n < 16" | "16 \<le> n" "n < 24" | "24 \<le> n" by linarith
  then show "bit (be32 (be32_bytes w @ rest)) n \<longleftrightarrow> bit w n"
    using n by cases (auto simp: be32_def be32_bytes_def bit_simps)
qed

section \<open>Message structs\<close>

record BINARY_LOGON =
  lg_SenderCompId :: "u8 list"
  lg_TargetCompId :: "u8 list"
  lg_HeartBtInt :: u32
  lg_Password :: "u8 list"
  lg_DefaultApplVerID :: "u8 list"

definition bytes_LOGON :: "BINARY_LOGON \<Rightarrow> u8 list" where
  "bytes_LOGON m = char_array 20 (lg_SenderCompId m) @ char_array 20 (lg_TargetCompId m) @
     le32 (lg_HeartBtInt m) @ char_array 16 (lg_Password m) @ char_array 32 (lg_DefaultApplVerID m)"

record PLATFORM_STATE_INFO =
  ps_PlatformID :: "16 word"
  ps_PlatformState :: "16 word"

definition bytes_PLATFORM_STATE_INFO :: "PLATFORM_STATE_INFO \<Rightarrow> u8 list" where
  "bytes_PLATFORM_STATE_INFO m = le16 (ps_PlatformID m) @ le16 (ps_PlatformState m)"

record REPORT_SYNCHRONIZATION =
  rs_ReportIndex :: u64

definition bytes_REPORT_SYNCHRONIZATION :: "REPORT_SYNCHRONIZATION \<Rightarrow> u8 list" where
  "bytes_REPORT_SYNCHRONIZATION m = le64 (rs_ReportIndex m)"

record NEW_ORDER =
  no_ApplID :: "u8 list"
  no_SubmittingPBUID :: "u8 list"
  no_SecurityID :: "u8 list"
  no_SecurityIDSource :: "u8 list"
  no_OwnerType :: "16 word"
  no_ClearingFirm :: "u8 list"
  no_TransactTime :: u64
  no_UserInfo :: "u8 list"
  no_ClOrdID :: "u8 list"
  no_AccountID :: "u8 list"
  no_BranchID :: "u8 list"
  no_OrderRestrictions :: "u8 list"
  no_Side :: u8
  no_OrdType :: u8
  no_OrderQty :: u64
  no_Price :: u64

definition bytes_NEW_ORDER :: "NEW_ORDER \<Rightarrow> u8 list" where
  "bytes_NEW_ORDER m = char_array 3 (no_ApplID m) @ char_array 6 (no_SubmittingPBUID m) @
     char_array 8 (no_SecurityID m) @ char_array 4 (no_SecurityIDSource m) @ le16 (no_OwnerType m) @
     char_array 2 (no_ClearingFirm m) @ le64 (no_TransactTime m) @ char_array 8 (no_UserInfo m) @
     char_array 10 (no_ClOrdID m) @ char_array 12 (no_AccountID m) @ char_array 4 (no_BranchID m) @
     char_array 4 (no_OrderRestrictions m) @ [no_Side m, no_OrdType m] @ le64 (no_OrderQty m) @
     le64 (no_Price m)"

record NEW_ORDER_EXT_100101 =
  ne_StopPx :: u64
  ne_MinQty :: u64
  ne_MaxPriceLevels :: "16 word"
  ne_TimeInForce :: u8
  ne_CashMargin :: u8

definition bytes_NEW_ORDER_EXT_100101 :: "NEW_ORDER_EXT_100101 \<Rightarrow> u8 list" where
  "bytes_NEW_ORDER_EXT_100101 m = le64 (ne_StopPx m) @ le64 (ne_MinQty m) @
     le16 (ne_MaxPriceLevels m) @ [ne_TimeInForce m, ne_CashMargin m]"

record EXECUTION_REPORT =
  er_ReportIndex :: u64
  er_ApplID :: "u8 list"
  er_ReportingPBUID :: "u8 list"
  er_SubmittingPBUID :: "u8 list"
  er_SecurityID :: "u8 list"
  er_SecurityIDSource :: "u8 list"
  er_OwnerType :: "16 word"
  er_ClearingFirm :: "u8 list"
  er_TransactTime :: u64
  er_UserInfo :: "u8 list"
  er_OrderID :: "u8 list"
  er_ClOrdID :: "u8 list"
  er_OrigClOrdID :: "u8 list"
  er_ExecID :: "u8 list"
  er_ExecType :: u8
  er_OrdStatus :: u8
  er_OrdRejReason :: "16 word"
  er_LeavesQty :: u64
  er_CumQty :: u64
  er_Side :: u8
  er_OrdType :: u8
  er_OrderQty :: u64
  er_Price :: u64
  er_AccountID :: "u8 list"
  er_BranchID :: "u8 list"
  er_OrderRestrictions :: "u8 list"

definition bytes_EXECUTION_REPORT :: "EXECUTION_REPORT \<Rightarrow> u8 list" where
  "bytes_EXECUTION_REPORT m = le64 (er_ReportIndex m) @ char_array 3 (er_ApplID m) @
     char_array 6 (er_ReportingPBUID m) @ char_array 6 (er_SubmittingPBUID m) @
     char_array 8 (er_SecurityID m) @ char_array 4 (er_SecurityIDSource m) @ le16 (er_OwnerType m) @
     char_array 2 (er_ClearingFirm m) @ le64 (er_TransactTime m) @ char_array 8 (er_UserInfo m) @
     char_array 16 (er_OrderID m) @ char_array 10 (er_ClOrdID m) @ char_array 10 (er_OrigClOrdID m) @
     char_array 16 (er_ExecID m) @ [er_ExecType m, er_OrdStatus m] @ le16 (er_OrdRejReason m) @
     le64 (er_LeavesQty m) @ le64 (er_CumQty m) @ [er_Side m, er_OrdType m] @ le64 (er_OrderQty m) @
     le64 (er_Price m) @ char_array 12 (er_AccountID m) @ char_array 4 (er_BranchID m) @
     char_array 4 (er_OrderRestrictions m)"

record EXECUTION_REPORT_EXT_200102 =
  ee_StopPx :: u64
  ee_MinQty :: u64
  ee_MaxPriceLevels :: "16 word"
  ee_TimeInForce :: u8
  ee_CashMargin :: u8

definition bytes_EXECUTION_REPORT_EXT_200102 :: "EXECUTION_REPORT_EXT_200102 \<Rightarrow> u8 list" where
  "bytes_EXECUTION_REPORT_EXT_200102 m = le64 (ee_StopPx m) @ le64 (ee_MinQty m) @
     le16 (ee_MaxPriceLevels m) @ [ee_TimeInForce m, ee_CashMargin m]"

record EXECUTION_REPORT_MATCHED =
  em_ReportIndex :: u64
  em_ApplID :: "u8 list"
  em_ReportingPBUID :: "u8 list"
  em_SubmittingPBUID :: "u8 list"
  em_SecurityID :: "u8 list"
  em_SecurityIDSource :: "u8 list"
  em_OwnerType :: "16 word"
  em_ClearingFirm :: "u8 list"
  em_TransactTime :: u64
  em_UserInfo :: "u8 list"
  em_OrderID :: "u8 list"
  em_ClOrdID :: "u8 list"
  em_ExecID :: "u8 list"
  em_ExecType :: u8
  em_OrdStatus :: u8
  em_LastPx :: u64
  em_LastQty :: u64
  em_LeavesQty :: u64
  em_CumQty :: u64
  em_Side :: u8
  em_AccountID :: "u8 list"
  em_BranchID :: "u8 list"

definition bytes_EXECUTION_REPORT_MATCHED :: "EXECUTION_REPORT_MATCHED \<Rightarrow> u8 list" where
  "bytes_EXECUTION_REPORT_MATCHED m = le64 (em_ReportIndex m) @ char_array 3 (em_ApplID m) @
     char_array 6 (em_ReportingPBUID m) @ char_array 6 (em_SubmittingPBUID m) @
     char_array 8 (em_SecurityID m) @ char_array 4 (em_SecurityIDSource m) @ le16 (em_OwnerType m) @
     char_array 2 (em_ClearingFirm m) @ le64 (em_TransactTime m) @ char_array 8 (em_UserInfo m) @
     char_array 16 (em_OrderID m) @ char_array 10 (em_ClOrdID m) @ char_array 16 (em_ExecID m) @
     [em_ExecType m, em_OrdStatus m] @ le64 (em_LastPx m) @ le64 (em_LastQty m) @
     le64 (em_LeavesQty m) @ le64 (em_CumQty m) @ [em_Side m] @ char_array 12 (em_AccountID m) @
     char_array 4 (em_BranchID m)"

record EXECUTION_REPORT_MATCHED_EXT_200115 =
  me_CashMargin :: u8

definition bytes_EXECUTION_REPORT_MATCHED_EXT_200115 :: "EXECUTION_REPORT_MATCHED_EXT_200115 \<Rightarrow> u8 list" where
  "bytes_EXECUTION_REPORT_MATCHED_EXT_200115 m = [me_CashMargin m]"

lemmas bytes_defs = bytes_LOGON_def bytes_PLATFORM_STATE_INFO_def bytes_REPORT_SYNCHRONIZATION_def
  bytes_NEW_ORDER_def bytes_NEW_ORDER_EXT_100101_def bytes_EXECUTION_REPORT_def
  bytes_EXECUTION_REPORT_EXT_200102_def bytes_EXECUTION_REPORT_MATCHED_def
  bytes_EXECUTION_REPORT_MATCHED_EXT_200115_def

text \<open>The \<open>sizeof\<close> of each struct.\<close>

lemma sizeof_structs [simp]:
  "length (bytes_LOGON m1) = 92" "length (bytes_PLATFORM_STATE_INFO m2) = 4"
  "length (bytes_REPORT_SYNCHRONIZATION m3) = 8" "length (bytes_NEW_ORDER m4) = 89"
  "length (bytes_NEW_ORDER_EXT_100101 m5) = 20" "length (bytes_EXECUTION_REPORT m6) = 165"
  "length (bytes_EXECUTION_REPORT_EXT_200102 m7) = 20" "length (bytes_EXECUTION_REPORT_MATCHED m8) = 148"
  "length (bytes_EXECUTION_REPORT_MATCHED_EXT_200115 m9) = 1"
  by (simp_all add: bytes_defs)

section \<open>Assembling packets\<close>

definition HEAD_SIZE :: u32 where "HEAD_SIZE = 8"
definition TAIL_SIZE :: u32 where "TAIL_SIZE = 4"

definition MsgType_Logon1 :: u32 where "MsgType_Logon1 = 1"
definition MsgType_HeartBeat3 :: u32 where "MsgType_HeartBeat3 = 3"
definition MsgType_ReportSynchronization5 :: u32 where "MsgType_ReportSynchronization5 = 5"
definition MsgType_PlatformStateInfo6 :: u32 where "MsgType_PlatformStateInfo6 = 6"
definition MsgType_NewOrder100101 :: u32 where "MsgType_NewOrder100101 = 100101"
definition MsgType_ExecutionReport200102 :: u32 where "MsgType_ExecutionReport200102 = 200102"
definition MsgType_MatchedExecutionReport200115 :: u32 where "MsgType_MatchedExecutionReport200115 = 200115"

text \<open>
  The two check sums.  The first reads a \<open>char\<close> buffer, whose elements are sign-extended by the
  conversion to \<open>uint32_t\<close>; the second reads a byte vector from a position on.
\<close>

definition GenerateCheckSum_chars :: "8 word list \<Rightarrow> u32 \<Rightarrow> u32" where
  "GenerateCheckSum_chars buf bufLen =
     foldl (\<lambda>cks b. cks + scast b) 0 (take (unat bufLen) buf) mod 256"

definition GenerateCheckSum :: "u8 list \<Rightarrow> nat \<Rightarrow> u32 \<Rightarrow> u32" where
  "GenerateCheckSum vctData iBeginPos bufLen =
     foldl (\<lambda>cks b. cks + ucast b) 0 (take (unat bufLen) (drop iBeginPos vctData)) mod 256"

text \<open>\<open>vector::resize\<close> and \<open>memcpy\<close> into a vector.\<close>

definition vresize :: "nat \<Rightarrow> u8 list \<Rightarrow> u8 list" where
  "vresize n v = take n v @ replicate (n - length v) 0"

definition vmemcpy :: "nat \<Rightarrow> u8 list \<Rightarrow> u8 list \<Rightarrow> u8 list" where
  "vmemcpy pos src v = take pos v @ src @ drop (pos + length src) v"

text \<open>The common course of the assemblers: resize, header, body parts, check sum.\<close>

definition pack_header :: "u32 \<Rightarrow> u32 \<Rightarrow> u8 list \<Rightarrow> u8 list" where
  "pack_header ty uiBodyLength out =
     vmemcpy 0 (be32_bytes ty @ be32_bytes uiBodyLength) (vresize (unat (uiBodyLength + HEAD_SIZE)) out)"

definition pack_tail :: "u32 \<Rightarrow> u8 list \<Rightarrow> u8 list" where
  "pack_tail uiBodyLength v = v @ be32_bytes (GenerateCheckSum v 0 (uiBodyLength + HEAD_SIZE))"

definition LocalPackToNetBuffer_Logon :: "BINARY_LOGON \<Rightarrow> u8 list \<Rightarrow> int \<times> u8 list" where
  "LocalPackToNetBuffer_Logon m out =
     (let bl = 92 in (0, pack_tail bl (vmemcpy 8 (bytes_LOGON m) (pack_header MsgType_Logon1 bl out))))"

definition LocalPackToNetBuffer_PlatformStateInfo :: "PLATFORM_STATE_INFO \<Rightarrow> u8 list \<Rightarrow> int \<times> u8 list" where
  "LocalPackToNetBuffer_PlatformStateInfo m out =
     (let bl = 4 in
      (0, pack_tail bl (vmemcpy 8 (bytes_PLATFORM_STATE_INFO m) (pack_header MsgType_PlatformStateInfo6 bl out))))"

definition LocalPackToNetBuffer_Heartbeat :: "u8 list \<Rightarrow> int \<times> u8 list" where
  "LocalPackToNetBuffer_Heartbeat out = (0, pack_tail 0 (pack_header MsgType_HeartBeat3 0 out))"

definition LocalPackToNetBuffer_ReportSynch :: "REPORT_SYNCHRONIZATION \<Rightarrow> u8 list \<Rightarrow> int \<times> u8 list" where
  "LocalPackToNetBuffer_ReportSynch m out =
     (let bl = 8 in
      (0, pack_tail bl (vmemcpy 8 (bytes_REPORT_SYNCHRONIZATION m)
            (pack_header MsgType_ReportSynchronization5 bl out))))"

definition LocalPackToNetBuffer_NewOrder_100101 ::
  "NEW_ORDER \<Rightarrow> NEW_ORDER_EXT_100101 \<Rightarrow> u8 list \<Rightarrow> int \<times> u8 list" where
  "LocalPackToNetBuffer_NewOrder_100101 m e out =
     (let bl = 89 + 20 in
      (0, pack_tail bl (vmemcpy (8 + 89) (bytes_NEW_ORDER_EXT_100101 e) (vmemcpy 8 (bytes_NEW_ORDER m)
            (pack_header MsgType_NewOrder100101 bl out)))))"

definition LocalPackToNetBuffer_ExecReport_200102 ::
  "EXECUTION_REPORT \<Rightarrow> EXECUTION_REPORT_EXT_200102 \<Rightarrow> u8 list \<Rightarrow> int \<times> u8 list" where
  "LocalPackToNetBuffer_ExecReport_200102 m e out =
     (let bl = 165 + 20 in
      (0, pack_tail bl (vmemcpy (8 + 165) (bytes_EXECUTION_REPORT_EXT_200102 e)
            (vmemcpy 8 (bytes_EXECUTION_REPORT m) (pack_header MsgType_ExecutionReport200102 bl out)))))"

definition LocalPackToNetBuffer_ExecReport_Matched_200115 ::
  "EXECUTION_REPORT_MATCHED \<Rightarrow> EXECUTION_REPORT_MATCHED_EXT_200115 \<Rightarrow> u8 list \<Rightarrow> int \<times> u8 list" where
  "LocalPackToNetBuffer_ExecReport_Matched_200115 m e out =
     (let bl = 148 + 1 in
      (0, pack_tail bl (vmemcpy (8 + 148) (bytes_EXECUTION_REPORT_MATCHED_EXT_200115 e)
            (vmemcpy 8 (bytes_EXECUTION_REPORT_MATCHED m)
               (pack_header MsgType_MatchedExecutionReport200115 bl out)))))"

section \<open>Receiving packets\<close>

record BinaryNetPack =
  ui32MsgType :: u32
  ui32BodyLength :: u32
  bp_vctBuffer :: "u8 list"

text \<open>
  The packet read at the head of the buffer.  \<open>uiNetPackLen\<close> is a 32-bit sum and wraps; a packet
  without a body keeps an empty buffer.
\<close>

definition head_pack_len :: "u8 list \<Rightarrow> u32" where
  "head_pack_len buf = HEAD_SIZE + be32 (drop 4 buf) + TAIL_SIZE"

definition head_pack :: "u8 list \<Rightarrow> BinaryNetPack" where
  "head_pack buf =
     \<lparr>ui32MsgType = be32 buf, ui32BodyLength = be32 (drop 4 buf),
      bp_vctBuffer = (if 0 < be32 (drop 4 buf) then take (unat (head_pack_len buf)) buf else [])\<rparr>"

partial_function (option) recv_loop ::
  "u8 list \<Rightarrow> BinaryNetPack list \<Rightarrow> (int \<times> u8 list \<times> BinaryNetPack list) option" where
  "recv_loop buf got =
     (if length buf = 0 then Some (0, buf, got)
      else if length buf < unat HEAD_SIZE then Some (1, buf, got)
      else if length buf < unat (head_pack_len buf) then Some (1, buf, got)
      else recv_loop (drop (unat (head_pack_len buf)) buf) (got @ [head_pack buf]))"

declare recv_loop.simps [code]

definition BinaryPacketAssembler_RecvPackage ::
  "u8 list \<Rightarrow> BinaryNetPack list \<Rightarrow> (int \<times> u8 list \<times> BinaryNetPack list) option" where
  "BinaryPacketAssembler_RecvPackage buf got =
     (if length buf < unat HEAD_SIZE then Some (1, buf, got) else recv_loop buf got)"

definition IsPackageCheckSumValid :: "BinaryNetPack option \<Rightarrow> bool" where
  "IsPackageCheckSumValid p =
     (case p of None \<Rightarrow> False
      | Some p \<Rightarrow>
         if ui32BodyLength p = 0 then bp_vctBuffer p = []
         else if length (bp_vctBuffer p) \<le> 4 then False
         else length (bp_vctBuffer p) = unat (HEAD_SIZE + TAIL_SIZE + ui32BodyLength p))"

section \<open>Frames\<close>

text \<open>A well-formed packet on the wire, and what the receiver makes of it.\<close>

definition frame :: "u32 \<Rightarrow> u8 list \<Rightarrow> u8 list \<Rightarrow> u8 list" where
  "frame ty body tail = be32_bytes ty @ be32_bytes (word_of_nat (length body)) @ body @ tail"

definition frame_pack :: "u32 \<Rightarrow> u8 list \<Rightarrow> u8 list \<Rightarrow> BinaryNetPack" where
  "frame_pack ty body tail =
     \<lparr>ui32MsgType = ty, ui32BodyLength = word_of_nat (length body),
      bp_vctBuffer = (if body = [] then [] else frame ty body tail)\<rparr>"

definition frame_fits :: "u32 \<Rightarrow> u8 list \<Rightarrow> u8 list \<Rightarrow> bool" where
  "frame_fits ty body tail \<longleftrightarrow> length tail = 4 \<and> length body + 12 < 2 ^ 32"

lemma frame_not_Nil [simp]: "frame ty body tail \<noteq> []"
  by (simp add: frame_def be32_bytes_def)

lemma length_frame [simp]: "length (frame ty body tail) = 8 + length body + length tail"
  by (simp add: frame_def)

lemma be32_frame [simp]:
  "be32 (frame ty body tail @ rest) = ty"
  "be32 (drop 4 (frame ty body tail) @ rest) = word_of_nat (length body)"
  by (simp_all add: frame_def)

lemma unat_pack_len:
  assumes "n + 12 < 2 ^ 32"
  shows "unat (HEAD_SIZE + word_of_nat n + TAIL_SIZE :: u32) = n + 12"
proof -
  have eq: "HEAD_SIZE + word_of_nat n + TAIL_SIZE = (word_of_nat (n + 12) :: u32)"
    by (simp add: HEAD_SIZE_def TAIL_SIZE_def)
  show ?thesis unfolding eq using assms by (simp add: unat_of_nat del: of_nat_add)
qed

lemma frame_len:
  assumes "frame_fits ty body tail"
  shows "unat (head_pack_len (frame ty body tail @ rest)) = length (frame ty body tail)"
  using assms unat_pack_len [of "length body"]
  by (simp add: head_pack_len_def frame_fits_def)

lemma word_of_nat_pos: "n < 2 ^ 32 \<Longrightarrow> (0 < (word_of_nat n :: u32)) \<longleftrightarrow> 0 < n"
  by (simp add: word_less_nat_alt unat_of_nat)

lemma frame_pack_eq:
  assumes "frame_fits ty body tail"
  shows "head_pack (frame ty body tail @ rest) = frame_pack ty body tail"
  using assms frame_len [OF assms, of rest] word_of_nat_pos [of "length body"]
  by (simp add: head_pack_def frame_pack_def frame_fits_def)

lemma recv_loop_frame:
  assumes "frame_fits ty body tail"
  shows "recv_loop (frame ty body tail @ rest) got = recv_loop rest (got @ [frame_pack ty body tail])"
proof -
  have l: "\<not> length (frame ty body tail @ rest) = 0" "\<not> length (frame ty body tail @ rest) < unat HEAD_SIZE"
    by (auto simp: frame_def HEAD_SIZE_def)
  have "drop (unat (head_pack_len (frame ty body tail @ rest))) (frame ty body tail @ rest) = rest"
    using frame_len [OF assms] by simp
  then show ?thesis
    using l frame_len [OF assms, of rest] frame_pack_eq [OF assms, of rest]
    by (subst recv_loop.simps) simp
qed

definition incomplete :: "u8 list \<Rightarrow> bool" where
  "incomplete buf \<longleftrightarrow> length buf < 8 \<or> length buf < unat (head_pack_len buf)"

lemma recv_loop_incomplete:
  "incomplete buf \<Longrightarrow> recv_loop buf got = Some (if buf = [] then 0 else 1, buf, got)"
  by (subst recv_loop.simps) (auto simp: incomplete_def HEAD_SIZE_def)

lemma recv_loop_frames:
  assumes "\<forall>(ty, body, tail) \<in> set fs. frame_fits ty body tail"
  shows "recv_loop (concat (map (\<lambda>(ty, body, tail). frame ty body tail) fs) @ rest) got =
         recv_loop rest (got @ map (\<lambda>(ty, body, tail). frame_pack ty body tail) fs)"
  using assms
proof (induction fs arbitrary: got)
  case (Cons f fs)
  obtain ty body tail where f: "f = (ty, body, tail)" by (metis prod_cases3)
  then show ?case using Cons by (simp add: recv_loop_frame)
qed simp

lemma recv_loop_chunks:
  assumes "recv_loop a got = Some (r, rest, got1)"
  shows "recv_loop (a @ b) got = recv_loop (rest @ b) got1"
proof -
  have "\<forall>r rest got1 . z = (r, rest, got1) \<longrightarrow> recv_loop (a @ b) got = recv_loop (rest @ b) got1"
    if "recv_loop a got = Some z" for a got z
  proof (rule recv_loop.raw_induct [OF _ that], goal_cases)
    case (1 f a got z)
    show ?case
    proof (cases "length a = 0 \<or> length a < unat HEAD_SIZE \<or> length a < unat (head_pack_len a)")
      case True
      then show ?thesis using 1(2) by (auto split: if_splits)
    next
      case False
      then have "8 \<le> length a" by (simp add: HEAD_SIZE_def)
      then have h: "take 8 (a @ b) = take 8 a" by simp
      have same: "be32 (a @ b) = be32 a" "be32 (drop 4 (a @ b)) = be32 (drop 4 a)"
        using \<open>8 \<le> length a\<close> be32_append by auto
      then have n: "head_pack_len (a @ b) = head_pack_len a" by (simp add: head_pack_len_def)
      have p: "head_pack (a @ b) = head_pack a" using same n False by (simp add: head_pack_def)
      have "recv_loop (a @ b) got = recv_loop (drop (unat (head_pack_len a)) a @ b) (got @ [head_pack a])"
        using False n p by (subst recv_loop.simps) simp
      moreover have "f (drop (unat (head_pack_len a)) a) (got @ [head_pack a]) = Some z"
        using 1(2) False by simp
      ultimately show ?thesis using 1(1) by metis
    qed
  qed
  with assms show ?thesis by blast
qed

section \<open>What the assemblers produce\<close>

lemma length_vmemcpy: "length (vmemcpy pos src v) = min pos (length v) + length src + (length v - (pos + length src))"
  by (simp add: vmemcpy_def)

lemma length_vresize [simp]: "length (vresize n v) = n"
  by (simp add: vresize_def)

lemma pack_header_eq:
  assumes "unat (bl + HEAD_SIZE) = unat bl + 8"
  shows "\<exists>junk. pack_header ty bl out = be32_bytes ty @ be32_bytes bl @ junk \<and> length junk = unat bl"
  using assms by (auto simp: pack_header_def vmemcpy_def)

lemma fill_body:
  "length junk = length body \<Longrightarrow> vmemcpy 8 body (be32_bytes ty @ be32_bytes bl @ junk) = be32_bytes ty @ be32_bytes bl @ body"
  by (simp add: vmemcpy_def)

lemma fill_body2:
  "length junk = length b1 + length b2 \<Longrightarrow>
   vmemcpy (8 + length b1) b2 (vmemcpy 8 b1 (be32_bytes ty @ be32_bytes bl @ junk)) =
   be32_bytes ty @ be32_bytes bl @ b1 @ b2"
  by (simp add: vmemcpy_def)

text \<open>The tail of a packet with a given header and body.\<close>

definition sum_tail :: "u32 \<Rightarrow> u8 list \<Rightarrow> u8 list" where
  "sum_tail ty body =
     be32_bytes (GenerateCheckSum (be32_bytes ty @ be32_bytes (word_of_nat (length body)) @ body) 0
                   (word_of_nat (length body) + HEAD_SIZE))"

lemma length_sum_tail [simp]: "length (sum_tail ty body) = 4"
  by (simp add: sum_tail_def)

lemma pack_one:
  assumes "length body + 12 < 2 ^ 32" and "bl = word_of_nat (length body)"
  shows "pack_tail bl (vmemcpy 8 body (pack_header ty bl out)) = frame ty body (sum_tail ty body)"
proof -
  have u: "unat bl = length body" using assms by (simp add: unat_of_nat)
  then have "unat (bl + HEAD_SIZE) = unat bl + 8"
    using assms(1) unat_plus_if_lt [of bl HEAD_SIZE] by (simp add: HEAD_SIZE_def)
  from pack_header_eq [OF this, of ty out] obtain junk where
    "pack_header ty bl out = be32_bytes ty @ be32_bytes bl @ junk" "length junk = length body"
    using u by auto
  then show ?thesis using assms(2) by (simp add: pack_tail_def fill_body frame_def sum_tail_def)
qed

lemma pack_two:
  assumes "length b1 + length b2 + 12 < 2 ^ 32" and "bl = word_of_nat (length b1 + length b2)" and "pos = 8 + length b1"
  shows "pack_tail bl (vmemcpy pos b2 (vmemcpy 8 b1 (pack_header ty bl out))) =
         frame ty (b1 @ b2) (sum_tail ty (b1 @ b2))"
proof -
  have u: "unat bl = length b1 + length b2"
    unfolding assms(2) using assms(1) by (simp add: unat_of_nat del: of_nat_add)
  then have "unat (bl + HEAD_SIZE) = unat bl + 8"
    using assms(1) unat_plus_if_lt [of bl HEAD_SIZE] by (simp add: HEAD_SIZE_def)
  from pack_header_eq [OF this, of ty out] obtain junk where
    "pack_header ty bl out = be32_bytes ty @ be32_bytes bl @ junk" "length junk = length b1 + length b2"
    using u by auto
  then show ?thesis using assms(2,3) by (simp add: pack_tail_def fill_body2 frame_def sum_tail_def)
qed

lemma assembled_frames:
  "LocalPackToNetBuffer_Logon m1 out = (0, frame MsgType_Logon1 (bytes_LOGON m1) (sum_tail MsgType_Logon1 (bytes_LOGON m1)))"
  "LocalPackToNetBuffer_PlatformStateInfo m2 out =
     (0, frame MsgType_PlatformStateInfo6 (bytes_PLATFORM_STATE_INFO m2)
           (sum_tail MsgType_PlatformStateInfo6 (bytes_PLATFORM_STATE_INFO m2)))"
  "LocalPackToNetBuffer_Heartbeat out = (0, frame MsgType_HeartBeat3 [] (sum_tail MsgType_HeartBeat3 []))"
  "LocalPackToNetBuffer_ReportSynch m3 out =
     (0, frame MsgType_ReportSynchronization5 (bytes_REPORT_SYNCHRONIZATION m3)
           (sum_tail MsgType_ReportSynchronization5 (bytes_REPORT_SYNCHRONIZATION m3)))"
  "LocalPackToNetBuffer_NewOrder_100101 m4 e4 out =
     (0, frame MsgType_NewOrder100101 (bytes_NEW_ORDER m4 @ bytes_NEW_ORDER_EXT_100101 e4)
           (sum_tail MsgType_NewOrder100101 (bytes_NEW_ORDER m4 @ bytes_NEW_ORDER_EXT_100101 e4)))"
  "LocalPackToNetBuffer_ExecReport_200102 m5 e5 out =
     (0, frame MsgType_ExecutionReport200102 (bytes_EXECUTION_REPORT m5 @ bytes_EXECUTION_REPORT_EXT_200102 e5)
           (sum_tail MsgType_ExecutionReport200102 (bytes_EXECUTION_REPORT m5 @ bytes_EXECUTION_REPORT_EXT_200102 e5)))"
  "LocalPackToNetBuffer_ExecReport_Matched_200115 m6 e6 out =
     (0, frame MsgType_MatchedExecutionReport200115
           (bytes_EXECUTION_REPORT_MATCHED m6 @ bytes_EXECUTION_REPORT_MATCHED_EXT_200115 e6)
           (sum_tail MsgType_MatchedExecutionReport200115
              (bytes_EXECUTION_REPORT_MATCHED m6 @ bytes_EXECUTION_REPORT_MATCHED_EXT_200115 e6)))"
  using pack_one [of "[]" 0 MsgType_HeartBeat3 out]
  by (simp_all add: LocalPackToNetBuffer_Logon_def LocalPackToNetBuffer_PlatformStateInfo_def
      LocalPackToNetBuffer_Heartbeat_def LocalPackToNetBuffer_ReportSynch_def
      LocalPackToNetBuffer_NewOrder_100101_def LocalPackToNetBuffer_ExecReport_200102_def
      LocalPackToNetBuffer_ExecReport_Matched_200115_def Let_def pack_one pack_two
      vmemcpy_def [of 8 "[]"])

lemma sum_tail_fits: "length body + 12 < 2 ^ 32 \<Longrightarrow> frame_fits ty body (sum_tail ty body)"
  by (simp add: frame_fits_def)

text \<open>Every check of a received packet except the check sum itself.\<close>

lemma frame_pack_valid:
  assumes "frame_fits ty body tail"
  shows "IsPackageCheckSumValid (Some (frame_pack ty body tail))"
proof -
  have n: "length body + 12 < 2 ^ 32" using assms by (simp add: frame_fits_def)
  have eq: "HEAD_SIZE + TAIL_SIZE + word_of_nat (length body) = HEAD_SIZE + word_of_nat (length body) + TAIL_SIZE"
    by (simp only: ac_simps)
  have "unat (HEAD_SIZE + TAIL_SIZE + word_of_nat (length body) :: u32) = length body + 12"
    unfolding eq by (rule unat_pack_len [OF n])
  moreover have "(word_of_nat (length body) :: u32) = 0 \<longleftrightarrow> body = []"
    using word_of_nat_pos [of "length body"] n by (simp add: word_gt_0)
  ultimately show ?thesis
    using assms by (simp add: IsPackageCheckSumValid_def frame_pack_def frame_fits_def)
qed

lemma recv_loop_one:
  assumes "frame_fits ty body tail"
  shows "BinaryPacketAssembler_RecvPackage (frame ty body tail) [] = Some (0, [], [frame_pack ty body tail])"
  using recv_loop_frame [OF assms, of "[]" "[]"] recv_loop_incomplete [of "[]"]
  by (simp add: BinaryPacketAssembler_RecvPackage_def incomplete_def HEAD_SIZE_def)

section \<open>Properties\<close>

text \<open>
  C32.  Splitting a byte stream: from any sequence of well-formed packets followed by an incomplete
  one, the receiver takes out exactly those packets, in order, leaves the incomplete bytes in the
  buffer, and reports whether any are left.
\<close>

theorem RecvPackage_stream:
  assumes "fs \<noteq> []" and "\<forall>(ty, body, tail) \<in> set fs. frame_fits ty body tail" and "incomplete rest"
  shows "BinaryPacketAssembler_RecvPackage
           (concat (map (\<lambda>(ty, body, tail). frame ty body tail) fs) @ rest) got =
         Some (if rest = [] then 0 else 1, rest,
               got @ map (\<lambda>(ty, body, tail). frame_pack ty body tail) fs)"
proof -
  obtain ty body tail fs' where "fs = (ty, body, tail) # fs'" using assms(1) by (metis list.exhaust prod_cases3)
  then have "\<not> length (concat (map (\<lambda>(ty, body, tail). frame ty body tail) fs) @ rest) < unat HEAD_SIZE"
    by (simp add: HEAD_SIZE_def)
  then show ?thesis
    using recv_loop_frames [OF assms(2)] recv_loop_incomplete [OF assms(3)]
    by (simp add: BinaryPacketAssembler_RecvPackage_def)
qed

lemma RecvPackage_stream_witness:
  "BinaryPacketAssembler_RecvPackage
     (frame 3 [] [0, 0, 0, 11] @ frame 6 [1, 0, 2, 0] [0, 0, 0, 9] @ [0, 0, 0]) [] =
   Some (1, [0, 0, 0], [frame_pack 3 [] [0, 0, 0, 11], frame_pack 6 [1, 0, 2, 0] [0, 0, 0, 9]])"
  using RecvPackage_stream [of "[(3, [], [0, 0, 0, 11]), (6, [1, 0, 2, 0], [0, 0, 0, 9])]" "[0, 0, 0]" "[]"]
  by (simp add: frame_fits_def incomplete_def)

text \<open>
  How the network cuts the stream does not matter: when the receiver returns on a first chunk,
  receiving the rest of the stream behind the bytes it left gives the same packets and the same
  remaining bytes as receiving everything at once.
\<close>

theorem RecvPackage_chunks:
  assumes "BinaryPacketAssembler_RecvPackage a got = Some (r, rest, got1)"
  shows "map_option snd (BinaryPacketAssembler_RecvPackage (a @ b) got) =
         map_option snd (BinaryPacketAssembler_RecvPackage (rest @ b) got1)"
proof (cases "length a < unat HEAD_SIZE")
  case True
  then show ?thesis using assms by (simp add: BinaryPacketAssembler_RecvPackage_def)
next
  case False
  then have "recv_loop a got = Some (r, rest, got1)"
    using assms by (simp add: BinaryPacketAssembler_RecvPackage_def)
  from recv_loop_chunks [OF this]
  have l: "BinaryPacketAssembler_RecvPackage (a @ b) got = recv_loop (rest @ b) got1"
    using False by (simp add: BinaryPacketAssembler_RecvPackage_def)
  show ?thesis
    using recv_loop_incomplete [of "rest @ b" got1] unfolding l
    by (auto simp: BinaryPacketAssembler_RecvPackage_def incomplete_def HEAD_SIZE_def)
qed

lemma RecvPackage_chunks_witness:
  "map_option snd (BinaryPacketAssembler_RecvPackage ([0, 0, 0, 3] @ [0, 0, 0, 0, 0, 0, 0, 3]) []) =
   map_option snd (BinaryPacketAssembler_RecvPackage ([0, 0, 0, 3] @ [0, 0, 0, 0, 0, 0, 0, 3]) [])"
proof -
  have "BinaryPacketAssembler_RecvPackage [0, 0, 0, 3] [] = Some (1, [0, 0, 0, 3], [])"
    by (simp add: BinaryPacketAssembler_RecvPackage_def HEAD_SIZE_def)
  from RecvPackage_chunks [OF this] show ?thesis .
qed

text \<open>
  Every packet the gateway assembles comes back from its own receiver as exactly one packet
  that passes the validity check, whatever the output vector held before.
\<close>

theorem assembled_packets_received:
  assumes "d \<in> {LocalPackToNetBuffer_Logon m1 out, LocalPackToNetBuffer_PlatformStateInfo m2 out,
     LocalPackToNetBuffer_Heartbeat out, LocalPackToNetBuffer_ReportSynch m3 out,
     LocalPackToNetBuffer_NewOrder_100101 m4 e4 out, LocalPackToNetBuffer_ExecReport_200102 m5 e5 out,
     LocalPackToNetBuffer_ExecReport_Matched_200115 m6 e6 out}"
  shows "\<exists>p. fst d = 0 \<and> BinaryPacketAssembler_RecvPackage (snd d) [] = Some (0, [], [p]) \<and>
           IsPackageCheckSumValid (Some p)"
proof -
  have ok: ?thesis
    if "d = (0, frame ty body (sum_tail ty body))" and "length body + 12 < 2 ^ 32" for ty body
    using recv_loop_one [OF sum_tail_fits [OF that(2)]] frame_pack_valid [OF sum_tail_fits [OF that(2)]]
    by (simp add: that(1))
  show ?thesis
    using assms unfolding assembled_frames by (elim insertE emptyE) (erule ok, simp)+
qed

lemma assembled_packets_received_witness:
  "\<exists>p. BinaryPacketAssembler_RecvPackage (snd (LocalPackToNetBuffer_Heartbeat [7, 7])) [] = Some (0, [], [p])"
  using assembled_packets_received [of "LocalPackToNetBuffer_Heartbeat [7, 7]"] by blast

text \<open>
  An order survives the wire: what the receiver hands on after the 8-byte header of an
  assembled new order is the byte image of the order and its extension, under the right type and
  body length.
\<close>

theorem NewOrder_roundtrip:
  "\<exists>p. BinaryPacketAssembler_RecvPackage (snd (LocalPackToNetBuffer_NewOrder_100101 m e out)) [] = Some (0, [], [p]) \<and>
     ui32MsgType p = MsgType_NewOrder100101 \<and> ui32BodyLength p = 109 \<and>
     take 109 (drop 8 (bp_vctBuffer p)) = bytes_NEW_ORDER m @ bytes_NEW_ORDER_EXT_100101 e"
proof -
  let ?b = "bytes_NEW_ORDER m @ bytes_NEW_ORDER_EXT_100101 e"
  have l: "length ?b = 109" by simp
  then have ne: "?b \<noteq> []" by (metis list.size(3) zero_neq_numeral)
  have fits: "frame_fits MsgType_NewOrder100101 ?b (sum_tail MsgType_NewOrder100101 ?b)"
    by (rule sum_tail_fits) simp
  have "take 109 (drop 8 (frame MsgType_NewOrder100101 ?b t)) = ?b" for t
    unfolding frame_def by simp
  then show ?thesis
    using recv_loop_one [OF fits] ne l unfolding assembled_frames
    by (simp add: frame_pack_def)
qed

text \<open>The two check-sum routines agree, although one sign-extends the bytes it sums.\<close>

theorem GenerateCheckSum_equiv:
  "GenerateCheckSum_chars buf n = GenerateCheckSum buf 0 n"
proof -
  have low: "unat (a + b) mod 256 = (unat a mod 256 + unat b mod 256) mod 256" for a b :: u32
    by (simp add: unat_word_ariths mod_mod_cancel mod_add_eq)
  have same: "unat (scast b :: u32) mod 256 = unat (ucast b :: u32) mod 256" for b :: u8
  proof -
    have "take_bit 8 (scast b :: u32) = take_bit 8 (ucast b)"
      by (rule bit_word_eqI) (auto simp: bit_simps)
    then have "unat (take_bit 8 (scast b :: u32)) = unat (take_bit 8 (ucast b :: u32))" by simp
    then show ?thesis by (simp add: take_bit_eq_mod unat_mod)
  qed
  have "unat (foldl (\<lambda>cks b. cks + scast b) x bs) mod 256 = unat (foldl (\<lambda>cks b. cks + ucast b) y bs) mod 256"
    if "unat x mod 256 = unat y mod 256" for x y :: u32 and bs :: "u8 list"
    using that
  proof (induction bs arbitrary: x y)
    case (Cons b bs)
    have "unat (x + scast b) mod 256 = unat (y + ucast b) mod 256"
      unfolding low using Cons.prems same [of b] by simp
    from Cons.IH [OF this] show ?case by simp
  qed simp
  then show ?thesis
    by (simp add: GenerateCheckSum_chars_def GenerateCheckSum_def word_unat_eq_iff unat_mod)
qed

text \<open>
  The validity check never looks at the check sum: a packet with any four tail bytes passes.
\<close>

theorem check_sum_ignored:
  assumes "length body + 12 < 2 ^ 32"
  shows "IsPackageCheckSumValid (Some (frame_pack ty body [t1, t2, t3, t4]))"
  using assms by (intro frame_pack_valid) (simp add: frame_fits_def)

lemma check_sum_ignored_witness:
  "IsPackageCheckSumValid (Some (frame_pack 6 [1, 0, 2, 0] [255, 255, 255, 255]))"
  by (rule check_sum_ignored) simp

text \<open>
  The packet length is a 32-bit sum: a bare 8-byte header that announces a body of 2^32 - 4
  bytes is received as a complete packet and passes the validity check.
\<close>

theorem wrapped_length_accepted:
  "\<exists>p. BinaryPacketAssembler_RecvPackage (be32_bytes ty @ be32_bytes (-4)) [] = Some (0, [], [p]) \<and>
     ui32BodyLength p = 4294967292 \<and> length (bp_vctBuffer p) = 8 \<and> IsPackageCheckSumValid (Some p)"
proof -
  let ?b = "be32_bytes ty @ be32_bytes (-4)"
  have n: "head_pack_len ?b = 8" using be32_be32_bytes [of "-4" "[]"]
    by (simp add: head_pack_len_def HEAD_SIZE_def TAIL_SIZE_def)
  have p: "head_pack ?b = \<lparr>ui32MsgType = ty, ui32BodyLength = -4, bp_vctBuffer = ?b\<rparr>"
    using be32_be32_bytes [of "-4" "[]"] n by (simp add: head_pack_def word_gt_0)
  have "BinaryPacketAssembler_RecvPackage ?b [] = Some (0, [], [head_pack ?b])"
    using n recv_loop_incomplete [of "[]"]
    by (simp add: BinaryPacketAssembler_RecvPackage_def HEAD_SIZE_def recv_loop.simps [of ?b] incomplete_def)
  then show ?thesis by (simp add: p IsPackageCheckSumValid_def HEAD_SIZE_def TAIL_SIZE_def)
qed

text \<open>
  A header that announces a body of 2^32 - 12 bytes makes the packet length 0: the receiver
  takes nothing out of the buffer and never returns.
\<close>

theorem wrapped_length_diverges:
  "BinaryPacketAssembler_RecvPackage (be32_bytes ty @ be32_bytes (-12) @ rest) got = None"
proof -
  have "\<not> (8 \<le> length buf \<and> be32 (drop 4 buf) = -12)" if "recv_loop buf got = Some z" for buf got z
  proof (rule recv_loop.raw_induct [OF _ that], goal_cases)
    case (1 f buf got z)
    show ?case
    proof
      assume h: "8 \<le> length buf \<and> be32 (drop 4 buf) = -12"
      then have "head_pack_len buf = 0" by (simp add: head_pack_len_def HEAD_SIZE_def TAIL_SIZE_def)
      then have "f buf (got @ [head_pack buf]) = Some z"
        using 1(2) h by (auto simp: HEAD_SIZE_def split: if_splits)
      with 1(1) h show False by blast
    qed
  qed
  then have "recv_loop (be32_bytes ty @ be32_bytes (-12) @ rest) got = None"
    using be32_be32_bytes [of "-12" rest]
    by (cases "recv_loop (be32_bytes ty @ be32_bytes (-12) @ rest) got") fastforce+
  then show ?thesis by (simp add: BinaryPacketAssembler_RecvPackage_def HEAD_SIZE_def)
qed

end
