(* ===== verification/Spec2Isabelle.thy ===== *)
theory Spec2Isabelle
  imports FixAcceptor EtfTradeVolume DayEnd BinaryPacketAssembler
begin

text \<open>
  Verification development of the simulated trading gateway (\<open>shared_src/\<close>).

  \<^bold>\<open>The program.\<close>  The gateway plays the part of the two Chinese exchanges.  Orders arrive over FIX or
  a DBF interface, are validated, and become tasks of a pool of matching threads; a task matches
  its order against a quotation kept in Redis, or by one of the simulated modes, updates the
  account's holdings and puts a report into the outgoing buffer, from which the market interfaces
  send it.  Holdings are cached in memory and written back to a database.  At the end of a day the
  trades are settled: statements for both markets are written as DBF files, the holdings of the
  database are brought up to date, and its tables of the day are moved away.

  \<^bold>\<open>Theories and sources.\<close>
  \<^item> \<open>Prelude\<close>: machine integers, ordered association lists, the interface \<open>keyed_store\<close>.
  \<^item> \<open>FrozeVolume\<close>, \<open>UserStockVolume\<close>: \<open>cache/FrozeVolume.h\<close>, \<open>cache/UserStockVolume.cpp\<close>; a holding as
    seven counters with a free and a frozen part.  The interface \<open>froze_counter\<close> is what a counter
    promises, \<open>two_source_freeze\<close> what the four freezing operations share.
  \<^item> \<open>OrderMsg\<close>: the order message (\<open>order/define_order_msg.h\<close>), the enumerations, the constants of the
    protocol and the classification of security codes (\<open>order/StockHelper.cpp\<close>).
  \<^item> \<open>StockCacheSynHelper\<close>, \<open>UserStockHelper\<close>: the table of cached holdings, its write-back as SQL
    statements, and the updates of the table by orders, trades and cancellations.
  \<^item> \<open>TaskPriorityQueue\<close>: the queue of a matching thread and the assignment of tasks to threads
    (\<open>thread_pool_priority/\<close>), with its reachable states as an inductive predicate.
  \<^item> \<open>SofString\<close>, \<open>TgwStringUtil\<close>: numbers and money to and from text (\<open>tool_string/\<close>).
  \<^item> \<open>OrderStore\<close>: \<open>cache/MemoryStoreCell.h\<close>, \<open>simutgw/order/\<close>; the stores of received orders and the
    outgoing buffer, a family of instances of \<open>fifo_channel\<close>.
  \<^item> \<open>MarketInfoHelper\<close>: \<open>quotation/MarketInfoHelper.cpp\<close>; the quota of a trading circle in Redis.
  \<^item> \<open>MatchUtil\<close>, \<open>Gateway\<close>, \<open>ABStockMatch\<close>: the checks before a match, the state the matching tasks
    share with task generation, and \<open>simutgw/work_manage/Task_ABStockMatch.cpp\<close>.
  \<^item> \<open>MatchTasks\<close>, \<open>MatchThread\<close>: \<open>Task_CancelOrder.cpp\<close>, \<open>Task_Etf_Match.cpp\<close>, the rule tasks, and the loop of
    a matching thread (\<open>thread_pool_priority/PriorityThread.cpp\<close>) with what it does to a waiting order.
  \<^item> \<open>OrderValide\<close>, \<open>PreTrade\<close>, \<open>OrderEntry\<close>: the validation of an order (\<open>order/StockOrderHelper.cpp\<close>,
    \<open>simutgw/biz/AppId_010_OrderValide.cpp\<close>, \<open>AppId_120_OrderValide.cpp\<close>), the freeze before it is matched
    (\<open>simutgw/biz/PreTrade.cpp\<close>), and its way from the buffer of received orders through the repeat check
    to the matching threads (\<open>simutgw/mkt_interface/\<close>, \<open>Task_ValidOrder.cpp\<close>, \<open>RecordNewOrderHelper.cpp\<close>).
  \<^item> \<open>TradePolicyManage\<close>: \<open>cache/TradePolicyManage.cpp\<close>; the policies by connection, seat and link, as
    instances of the interface \<open>guarded_store\<close>, against the history of the settings.
  \<^item> \<open>MatchRule\<close>: \<open>match_rule/MatchRule.cpp\<close>, \<open>MatchRule_Sh.cpp\<close>, \<open>MatchRule_Sz.cpp\<close>; the match rules of both
    markets, which the interface \<open>rule_market\<close> treats together, with their reachable states.
  \<^item> \<open>RuleWord\<close>: \<open>match_rule/RuleWordProc_*.cpp\<close>; how the words of a rule become the values of a report.
  \<^item> \<open>FixMessage\<close>, \<open>OrderAcquire\<close>: messages of FIX (\<open>simutgw/stgw_fix_acceptor/StgwFixUtil.cpp\<close>), and how
    a message (\<open>SZ_STEP_OrderHelper.cpp\<close>) or a row of the Shanghai table (\<open>mkt_interface/ShDbfOrderHelper.cpp\<close>,
    \<open>ShConn_DbfOrder.cpp\<close>) becomes an order with its rule and its policy.
  \<^item> \<open>FixReport\<close>, \<open>FixAcceptor\<close>: the reports to the Shenzhen clients (\<open>StgwFixReport.cpp\<close>), the sessions
    (\<open>StgwMsgHelper.cpp\<close>), and the configured answers of the mini mode (\<open>StgwMockerResponse.cpp\<close>), whose
    call from \<open>ProcAppMsg\<close> is commented out: there every order is dispatched.
  \<^item> \<open>ShReport\<close>: the reports of Shanghai (\<open>msg_biz/ReportMsg_Sh.cpp\<close>, \<open>work_manage/Proc_ShConn_Db_Report.cpp\<close>),
    statements collected by connection while the queue of reports is emptied, then executed.
  \<^item> \<open>EtfContainer\<close>, \<open>EtfTradeVolume\<close>: the table of ETF packages, their validation, upload and reload
    (\<open>etf/ETFContainer.cpp\<close>, \<open>ValidateETF.cpp\<close>), and the creation and redemption limits
    (\<open>etf/ETF_TradeVolume.cpp\<close>).
  \<^item> \<open>DbfFile\<close>: \<open>tool_file/DBF.CPP\<close>, \<open>TgwDBFOperHelper.cpp\<close>; tables as files of bytes, created, opened,
    appended to and read.
  \<^item> \<open>SettleTable\<close>, \<open>ShSettle\<close>, \<open>SzSettle\<close>: \<open>simutgw/settlement/SHSettle.cpp\<close>, \<open>SZSettle.cpp\<close>, \<open>SettleUtil.cpp\<close>;
    how a row of a query becomes the columns of a statement, how rows are grouped, and the
    statements of the two markets.
  \<^item> \<open>MysqlPool\<close>: \<open>tool_mysql/MySqlCnnC602.cpp\<close>, \<open>MysqlConnectionPool.cpp\<close>; connections as handles of the client
    library with the log of the calls sent to it, and the pool with its reachable states.
  \<^item> \<open>Settlement\<close>, \<open>DayEnd\<close>: \<open>simutgw/settlement/Settlement.cpp\<close>, \<open>DayEndClean.cpp\<close>, \<open>stgw_config/sys_function.cpp\<close>;
    the settlement of all groups and of the holdings, and the end of a day.
  \<^item> \<open>BinaryPacketAssembler\<close>: \<open>tool_net_binary/\<close>, assembling packets and splitting a byte stream.

  \<^bold>\<open>Conventions.\<close>  C++ integers are words of their width; return codes are integers.  A method that
  locks its object for its whole body is one step.  A NULL of the database reads as an empty text.  A result \<open>None\<close> is undefined behaviour (a null
  pointer, a division by zero, a read past the end) or, for the receiving loop of the binary
  protocol, a call that does not return.  The loop of a matching thread keeps the two apart: \<open>None\<close> is
  a loop that does not end and \<open>Some None\<close> undefined behaviour; its argument \<open>runs\<close> says for each
  test of the stop flag what it finds there.  Order messages live at addresses, because pointers to
  them are shared between a task and the outgoing buffer.

  \<^bold>\<open>Parameters.\<close>  The database row of a holding (\<open>loader\<close>), the clock, the Redis server (\<open>redis_hash_ok\<close>
  states its documented behaviour on a hash), the date library, \<open>std::hash\<close>, the random start of the
  execution ids, the formatted times, the JSON parser, regular expressions, the results of SQL statements (a query may depend on what was sent before), the constants of
  the FIX library (\<open>fix_lib_ok\<close> says that its field numbers are distinct and which belong to the header)
  and double-precision arithmetic are arguments of the definitions.  So are the client library of the
  database, which answers a call by all calls sent before it, the platform of the DBF files (the size
  of its \<open>unsigned long\<close>, its printing of numbers, the date), and the directory of the day.  The rows
  the queries of the statements give are an argument and are not part of the log of calls.

  \<^bold>\<open>What is shown.\<close>  Freezing is all or nothing, settles, and is undone exactly; trades and
  cancellations move exactly the matched shares and touch no other holding; the queue of a thread
  keeps its counter and its price order in every reachable state and serves tasks in level order;
  a validated order is well formed and a checked sale is
  frozen for exactly its quantity or refused; a quotation is never oversold, trades are at a fair price, and an order that can trade does and is
  reported; a divided order is worked off and a cancellation meets the order it names;
  the policy of an acquired order is the last setting for its seat, else the last for its connection, else
  the first for any seat of that connection, else the global one, and the rule it takes the first linked one
  it meets; an acquired order carries what its message says and waits once in the buffer, and its report is
  read back as the order; the ETF packages in use are valid, a reload restores them and an upload is one
  transaction; as long as nothing is released, confirmed creations and redemptions stay within their limits;
  no database connection is used by two threads; the holdings are settled in one transaction, each once; the
  transfers of Shanghai, for a group with one seat, and the results of Shenzhen hold every trade they are
  for, once and in order, and what is written to a DBF file as text is read back; the tables of the day are
  emptied only when they were copied;
  reports are delivered in order, at most one for each call to Shenzhen, and numbered without gaps to Shanghai; packets and printed numbers read back.  The properties
  of kind error state where the code departs from this.

  \<^bold>\<open>Bounds.\<close>  No fuel is used.  The receiving loop and the loop of a matching thread are partial
  functions; the round trips prove that the first returns on well-formed streams;
  whether the second ends is stated as such, for an order that is divided and for one in the mode without
  matches.

  \<^bold>\<open>Not modelled.\<close>  The locking of DBF files and their indexes, the readers of ETF files, quotation collection, the SQL text of database recording, the administration console, networking, file
  and connector libraries, start-up and configuration; logging everywhere.
\<close>

end
